(* ===== verification/Prelude.thy ===== *)
theory Prelude
  imports Complex_Main "HOL-Library.AList" "HOL-Library.Sublist" "HOL-Library.Word"
    "HOL-Library.Log_Nat" "HOL-Library.Product_Lexorder" "HOL-Library.List_Lexorder"
    "HOL-Library.Char_ord"
begin

text \<open>
  The vocabulary the components share: Python exceptions as values, the bind and the loops of
  code that may raise, dictionaries in insertion order, slices, decimal rendering of integers.

  Exceptions: a function that may raise returns \<open>py_error + 'a\<close>, with \<open>Inl\<close> for the
  raised exception.  No caller of the modelled code catches an exception and goes on with the
  half-updated object, so the state at the raise is not part of the result; the places where
  the source does catch (an \<open>except\<close> clause) are a \<open>case\<close> on \<open>Inl\<close>.

  Dictionaries: a Python \<open>dict\<close> keeps insertion order, and assigning to a present key keeps the
  key's place.  \<open>('k, 'v) dict\<close> is the list of its items; \<open>AList.update\<close> and
  \<open>AList.delete\<close> have exactly that behaviour.
\<close>

named_theorems res_simps \<open>unfolding of the result combinators\<close>
named_theorems dict_simps \<open>look-ups after updates and deletions\<close>

section \<open>Exceptions\<close>

datatype py_error =
    ValueError string
  | RuntimeError string
  | KeyError string
  | TypeError string
  | AttributeError string
  | IndexError
  | AssertionError
  | ZeroDivisionError
  | OverflowError
  | StructError
  | StopIteration
  | OSError string

type_synonym 'a res = "py_error + 'a"

definition bind_res :: "'a res \<Rightarrow> ('a \<Rightarrow> 'b res) \<Rightarrow> 'b res" where
  "bind_res m f = (case m of Inl e \<Rightarrow> Inl e | Inr x \<Rightarrow> f x)"

lemma bind_res_simps [simp, res_simps]:
  "bind_res (Inl e) f = Inl e"
  "bind_res (Inr x) f = f x"
  by (simp_all add: bind_res_def)

lemma bind_res_eq_Inr [res_simps]:
  "bind_res m f = Inr y \<longleftrightarrow> (\<exists>x. m = Inr x \<and> f x = Inr y)"
  by (cases m) auto

text \<open>An accepted run of a bind, step by step.\<close>

lemma bind_resE:
  assumes "bind_res m f = Inr y"
  obtains x where "m = Inr x" and "f x = Inr y"
  using assms by (auto simp: bind_res_eq_Inr)

lemma bind_res_eq_Inl [res_simps]:
  "bind_res m f = Inl e \<longleftrightarrow> m = Inl e \<or> (\<exists>x. m = Inr x \<and> f x = Inl e)"
  by (cases m) auto

lemma bind_res_cong [fundef_cong]:
  "m = m' \<Longrightarrow> (\<And>x. m' = Inr x \<Longrightarrow> f x = g x) \<Longrightarrow> bind_res m f = bind_res m' g"
  by (cases m') auto

text \<open>\<open>guard_res b e\<close> is \<open>if b: raise e\<close>.\<close>

definition guard_res :: "bool \<Rightarrow> py_error \<Rightarrow> unit res" where
  "guard_res b e = (if b then Inl e else Inr ())"

lemma guard_res_eq_Inr [simp, res_simps]: "guard_res b e = Inr u \<longleftrightarrow> \<not> b"
  by (simp add: guard_res_def)

lemma guard_res_eq_Inl [simp, res_simps]: "guard_res b e = Inl e' \<longleftrightarrow> b \<and> e' = e"
  by (auto simp: guard_res_def)

lemma guard_res_simps [simp]: "guard_res True e = Inl e" "guard_res False e = Inr ()"
  by (simp_all add: guard_res_def)

definition is_ok :: "'a res \<Rightarrow> bool" where
  "is_ok m \<longleftrightarrow> (\<exists>x. m = Inr x)"

lemma is_ok_simps [simp]: "is_ok (Inr x)" "\<not> is_ok (Inl e)"
  by (simp_all add: is_ok_def)

lemma is_okE: "is_ok m \<Longrightarrow> (\<And>x. m = Inr x \<Longrightarrow> thesis) \<Longrightarrow> thesis"
  by (cases m) auto

subsection \<open>Loops whose body may raise\<close>

fun fold_res :: "('s \<Rightarrow> 'a \<Rightarrow> 's res) \<Rightarrow> 's \<Rightarrow> 'a list \<Rightarrow> 's res" where
  "fold_res f s [] = Inr s"
| "fold_res f s (x # xs) = bind_res (f s x) (\<lambda>s'. fold_res f s' xs)"

lemma fold_res_append:
  "fold_res f s (xs @ ys) = bind_res (fold_res f s xs) (\<lambda>s'. fold_res f s' ys)"
  by (induction xs arbitrary: s) (auto simp: bind_res_def split: sum.splits)

lemma fold_res_cong [fundef_cong]:
  "xs = ys \<Longrightarrow> s = t \<Longrightarrow> (\<And>s x. x \<in> set ys \<Longrightarrow> f s x = g s x) \<Longrightarrow>
     fold_res f s xs = fold_res g t ys"
  by (induction ys arbitrary: xs s t) (auto intro!: bind_res_cong)

text \<open>A loop invariant kept by every iteration that does not raise.\<close>

lemma fold_res_invariant:
  assumes "fold_res f s xs = Inr t" and "I s"
    and "\<And>s x s'. x \<in> set xs \<Longrightarrow> I s \<Longrightarrow> f s x = Inr s' \<Longrightarrow> I s'"
  shows "I t"
  using assms
proof (induction xs arbitrary: s)
  case Nil
  then show ?case by simp
next
  case (Cons x xs)
  from Cons.prems(1) obtain s' where s': "f s x = Inr s'" and t: "fold_res f s' xs = Inr t"
    by (auto simp: bind_res_eq_Inr)
  from Cons.prems(2,3) s' have "I s'" by auto
  with t Cons.prems(3) show ?case by (auto intro: Cons.IH)
qed

text \<open>The same with the number of iterations done, for a resource that grows.\<close>

lemma fold_res_counted:
  assumes "I 0 s"
    and "\<And>k s x. x \<in> set xs \<Longrightarrow> k < length xs \<Longrightarrow> I k s \<Longrightarrow> \<exists>s'. f s x = Inr s' \<and> I (Suc k) s'"
  shows "\<exists>t. fold_res f s xs = Inr t \<and> I (length xs) t"
  using assms
proof (induction xs arbitrary: I s)
  case Nil
  then show ?case by simp
next
  case (Cons x xs)
  obtain s' where s': "f s x = Inr s'" and I: "I (Suc 0) s'"
    using Cons.prems by force
  have "\<exists>t. fold_res f s' xs = Inr t \<and> (\<lambda>k. I (Suc k)) (length xs) t"
    using I Cons.prems(2) by (intro Cons.IH) auto
  with s' show ?case by auto
qed

fun map_res :: "('a \<Rightarrow> 'b res) \<Rightarrow> 'a list \<Rightarrow> 'b list res" where
  "map_res f [] = Inr []"
| "map_res f (x # xs) = bind_res (f x) (\<lambda>y. bind_res (map_res f xs) (\<lambda>ys. Inr (y # ys)))"

lemma map_res_eq_Inr:
  "map_res f xs = Inr ys \<longleftrightarrow> list_all2 (\<lambda>x y. f x = Inr y) xs ys"
  by (induction xs arbitrary: ys) (auto simp: bind_res_eq_Inr list_all2_Cons1)

lemma list_all2_left: "list_all2 P xs ys \<Longrightarrow> x \<in> set xs \<Longrightarrow> \<exists>y \<in> set ys. P x y"
  by (induction rule: list_all2_induct) auto

lemma list_all2_right: "list_all2 P xs ys \<Longrightarrow> y \<in> set ys \<Longrightarrow> \<exists>x \<in> set xs. P x y"
  by (induction rule: list_all2_induct) auto

lemma map_res_member: "map_res f xs = Inr ys \<Longrightarrow> x \<in> set xs \<Longrightarrow> \<exists>y \<in> set ys. f x = Inr y"
  by (induction xs arbitrary: ys) (auto simp: bind_res_eq_Inr)

lemma map_res_member': "map_res f xs = Inr ys \<Longrightarrow> y \<in> set ys \<Longrightarrow> \<exists>x \<in> set xs. f x = Inr y"
  by (induction xs arbitrary: ys) (auto simp: bind_res_eq_Inr)

lemma map_res_cong [fundef_cong]:
  "xs = ys \<Longrightarrow> (\<And>x. x \<in> set ys \<Longrightarrow> f x = g x) \<Longrightarrow> map_res f xs = map_res g ys"
  by (induction ys arbitrary: xs) (auto intro!: bind_res_cong)

subsection \<open>Two runs side by side\<close>

text \<open>Both raise the same exception, or both return, with related results.\<close>

abbreviation rel_res :: "('a \<Rightarrow> 'b \<Rightarrow> bool) \<Rightarrow> 'a res \<Rightarrow> 'b res \<Rightarrow> bool" where
  "rel_res R \<equiv> rel_sum (=) R"

lemma rel_res_bind:
  assumes "rel_res R m n" and "\<And>x y. R x y \<Longrightarrow> rel_res S (f x) (g y)"
  shows "rel_res S (bind_res m f) (bind_res n g)"
  using assms by (cases m; cases n) auto

lemma rel_res_fold:
  assumes "R s t" and "\<And>s t x. R s t \<Longrightarrow> rel_res R (f s x) (g t x)"
  shows "rel_res R (fold_res f s xs) (fold_res g t xs)"
  using assms(1)
proof (induction xs arbitrary: s t)
  case Nil
  then show ?case by simp
next
  case (Cons x xs)
  show ?case
    using rel_res_bind [where f = "\<lambda>s'. fold_res f s' xs", OF assms(2) [OF Cons.prems] Cons.IH]
    by simp
qed

section \<open>Dictionaries\<close>

type_synonym ('k, 'v) dict = "('k \<times> 'v) list"

abbreviation dict_get :: "('k, 'v) dict \<Rightarrow> 'k \<Rightarrow> 'v option" where
  "dict_get \<equiv> map_of"

abbreviation dict_set :: "'k \<Rightarrow> 'v \<Rightarrow> ('k, 'v) dict \<Rightarrow> ('k, 'v) dict" where
  "dict_set \<equiv> AList.update"

abbreviation dict_del :: "'k \<Rightarrow> ('k, 'v) dict \<Rightarrow> ('k, 'v) dict" where
  "dict_del \<equiv> AList.delete"

abbreviation dict_keys :: "('k, 'v) dict \<Rightarrow> 'k list" where
  "dict_keys d \<equiv> map fst d"

abbreviation dict_values :: "('k, 'v) dict \<Rightarrow> 'v list" where
  "dict_values d \<equiv> map snd d"

abbreviation dict_wf :: "('k, 'v) dict \<Rightarrow> bool" where
  "dict_wf d \<equiv> distinct (map fst d)"

text \<open>Look-ups stay look-ups; the item-list reading is used by name where it is wanted.\<close>

declare map_of_eq_Some_iff [simp del] Some_eq_map_of_iff [simp del] map_of_is_SomeI [simp del]

text \<open>Reading \<open>d[k]\<close>, which raises on a missing key.\<close>

definition dict_at :: "string \<Rightarrow> ('k, 'v) dict \<Rightarrow> 'k \<Rightarrow> 'v res" where
  "dict_at what d k = (case dict_get d k of None \<Rightarrow> Inl (KeyError what) | Some v \<Rightarrow> Inr v)"

lemma dict_at_eq_Inr [simp]: "dict_at w d k = Inr v \<longleftrightarrow> dict_get d k = Some v"
  by (auto simp: dict_at_def split: option.splits)

lemma dict_at_Some [simp]: "dict_get d k = Some v \<Longrightarrow> dict_at w d k = Inr v"
  by simp

lemma dict_get_set [dict_simps]:
  "dict_get (dict_set k v d) k' = (if k' = k then Some v else dict_get d k')"
  by (simp add: update_conv')

lemma dict_get_del [dict_simps]:
  "dict_get (dict_del k d) k' = (if k' = k then None else dict_get d k')"
  by (simp add: delete_conv')

lemma dict_wf_set [intro, simp]: "dict_wf d \<Longrightarrow> dict_wf (dict_set k v d)"
  by (rule distinct_update)

lemma dict_wf_del [intro, simp]: "dict_wf d \<Longrightarrow> dict_wf (dict_del k d)"
  by (rule distinct_delete)

lemma dict_set_fresh: "k \<notin> set (dict_keys d) \<Longrightarrow> dict_set k v d = d @ [(k, v)]"
  by (induction d) auto

lemma dict_keys_set:
  "dict_keys (dict_set k v d) = (if k \<in> set (dict_keys d) then dict_keys d else dict_keys d @ [k])"
  by (rule update_keys)

lemma length_dict_set:
  "length (dict_set k v d) = (if k \<in> set (dict_keys d) then length d else Suc (length d))"
  by (metis dict_keys_set length_append_singleton length_map)

lemma length_dict_del:
  assumes "dict_wf d" and "k \<in> set (dict_keys d)"
  shows "Suc (length (dict_del k d)) = length d"
  using assms
proof (induction d)
  case Nil
  then show ?case by simp
next
  case (Cons p d)
  show ?case
  proof (cases "fst p = k")
    case True
    with Cons.prems(1) have "k \<notin> set (dict_keys d)" by auto
    then have "dict_del k d = d" by (simp add: delete_id image_iff)
    with True show ?thesis by (cases p) (simp add: AList.delete_eq)
  next
    case False
    with Cons show ?thesis by (cases p) (simp add: AList.delete_eq)
  qed
qed

lemma dict_get_in_keys: "dict_get d k = Some v \<Longrightarrow> k \<in> set (dict_keys d)"
  by (force dest: map_of_SomeD)

lemma dict_key_get: "k \<in> set (dict_keys d) \<Longrightarrow> \<exists>v. dict_get d k = Some v"
  by (metis map_of_eq_None_iff not_None_eq set_map)

lemma in_set_dict_get: "dict_wf d \<Longrightarrow> (k, v) \<in> set d \<longleftrightarrow> dict_get d k = Some v"
  by (simp add: map_of_eq_Some_iff)

text \<open>\<open>for x in xs: d[f x] = g x\<close>, with distinct keys: the look-up.\<close>

lemma dict_get_map_value:
  "dict_get (map (\<lambda>(k, v). (k, f k v)) d) k = map_option (f k) (dict_get d k)"
  by (induction d) auto

section \<open>Sequences\<close>

text \<open>\<open>xs[:n]\<close>\<close>

definition slice_to :: "'a list \<Rightarrow> int \<Rightarrow> 'a list" where
  "slice_to xs n = (if 0 \<le> n then take (nat n) xs else take (length xs - nat (- n)) xs)"

text \<open>\<open>xs[n:]\<close>\<close>

definition slice_from :: "'a list \<Rightarrow> int \<Rightarrow> 'a list" where
  "slice_from xs n = (if 0 \<le> n then drop (nat n) xs else drop (length xs - nat (- n)) xs)"

lemma slice_to_from: "slice_to xs n @ slice_from xs n = xs"
  by (simp add: slice_to_def slice_from_def)

text \<open>\<open>xs[i]\<close> for a non-negative index.\<close>

definition list_at :: "'a list \<Rightarrow> int \<Rightarrow> 'a res" where
  "list_at xs i =
     (let j = (if i < 0 then int (length xs) + i else i)
      in if 0 \<le> j \<and> j < int (length xs) then Inr (xs ! nat j) else Inl IndexError)"

lemma list_at_nat [simp]: "n < length xs \<Longrightarrow> list_at xs (int n) = Inr (xs ! n)"
  by (simp add: list_at_def)

text \<open>\<open>range(start, stop, step)\<close> for a positive step.\<close>

definition py_range :: "int \<Rightarrow> int \<Rightarrow> int \<Rightarrow> int list" where
  "py_range start stop st =
     map (\<lambda>k. start + int k * st) [0 ..< nat ((stop - start + st - 1) div st)]"

section \<open>Text\<close>

definition digit_char :: "int \<Rightarrow> char" where
  "digit_char d = ''0123456789'' ! nat d"

function dec_str :: "int \<Rightarrow> string" where
  "dec_str n = (if n < 10 then [digit_char n] else dec_str (n div 10) @ [digit_char (n mod 10)])"
  by pat_completeness auto
termination
  by (relation "measure nat") auto

declare dec_str.simps [simp del]

text \<open>\<open>str(n)\<close> of an integer.\<close>

definition int_str :: "int \<Rightarrow> string" where
  "int_str i = (if i < 0 then CHR ''-'' # dec_str (- i) else dec_str i)"

text \<open>The value of a string of decimal digits.\<close>

fun str_digits :: "int \<Rightarrow> string \<Rightarrow> int" where
  "str_digits acc [] = acc"
| "str_digits acc (c # cs) = str_digits (10 * acc + (of_char c - 48)) cs"

lemma digit_cases:
  assumes "0 \<le> d" and "d < (10 :: int)"
  obtains "d = 0" | "d = 1" | "d = 2" | "d = 3" | "d = 4"
    | "d = 5" | "d = 6" | "d = 7" | "d = 8" | "d = 9"
proof -
  have "d = 0 \<or> d = 1 \<or> d = 2 \<or> d = 3 \<or> d = 4 \<or> d = 5 \<or> d = 6 \<or> d = 7 \<or> d = 8 \<or> d = 9"
    using assms by presburger
  with that show thesis by blast
qed

lemma digit_char_value: "0 \<le> d \<Longrightarrow> d < 10 \<Longrightarrow> of_char (digit_char d) = 48 + d"
  by (erule (1) digit_cases) (simp_all add: digit_char_def numeral_eq_Suc)

lemma str_digits_append: "str_digits acc (xs @ ys) = str_digits (str_digits acc xs) ys"
  by (induction xs arbitrary: acc) auto

lemma str_digits_dec_str: "0 \<le> n \<Longrightarrow> str_digits 0 (dec_str n) = n"
proof (induction n rule: dec_str.induct)
  case (1 n)
  show ?case
  proof (cases "n < 10")
    case True
    with 1 show ?thesis by (simp add: dec_str.simps [of n] digit_char_value)
  next
    case False
    with 1 show ?thesis
      by (simp add: dec_str.simps [of n] str_digits_append digit_char_value)
  qed
qed

lemma dec_str_inject [simp]: "0 \<le> m \<Longrightarrow> 0 \<le> n \<Longrightarrow> dec_str m = dec_str n \<longleftrightarrow> m = n"
  by (metis str_digits_dec_str)

lemma dec_str_not_Nil [simp]: "dec_str n \<noteq> []"
  by (subst dec_str.simps) simp

definition is_digit :: "char \<Rightarrow> bool" where
  "is_digit c \<longleftrightarrow> c \<in> set ''0123456789''"

lemma digit_char_is_digit: "0 \<le> d \<Longrightarrow> d < 10 \<Longrightarrow> is_digit (digit_char d)"
  by (erule (1) digit_cases) (simp_all add: digit_char_def is_digit_def numeral_eq_Suc)

lemma dec_str_digits: "0 \<le> n \<Longrightarrow> c \<in> set (dec_str n) \<Longrightarrow> is_digit c"
proof (induction n rule: dec_str.induct)
  case (1 n)
  show ?case
  proof (cases "n < 10")
    case True
    with 1 show ?thesis by (simp add: dec_str.simps [of n] digit_char_is_digit)
  next
    case False
    then have "c \<in> set (dec_str (n div 10)) \<or> c = digit_char (n mod 10)"
      using 1 by (auto simp: dec_str.simps [of n])
    with False 1 show ?thesis by (auto simp: digit_char_is_digit)
  qed
qed

lemma int_str_inject [simp]: "int_str m = int_str n \<longleftrightarrow> m = n"
proof -
  have minus: "dec_str k \<noteq> CHR ''-'' # s" if "0 \<le> k" for k s
    using dec_str_digits [OF that, of "CHR ''-''"] by (auto simp: is_digit_def)
  show ?thesis
    using minus [of m] minus [of n] minus [of m, THEN not_sym] minus [of n, THEN not_sym]
    by (auto simp: int_str_def)
qed

text \<open>\<open>text.startswith(p)\<close>\<close>

definition starts_with :: "string \<Rightarrow> string \<Rightarrow> bool" where
  "starts_with p s = prefix p s"

text \<open>\<open>text.split(c)\<close> for a separator of one character.\<close>

fun split_on :: "char \<Rightarrow> string \<Rightarrow> string list" where
  "split_on c [] = [[]]"
| "split_on c (x # xs) =
     (if x = c then [] # split_on c xs
      else case split_on c xs of [] \<Rightarrow> [[x]] | w # ws \<Rightarrow> (x # w) # ws)"

lemma split_on_free: "c \<notin> set s \<Longrightarrow> split_on c s = [s]"
  by (induction s) auto

lemma split_on_append: "c \<notin> set s \<Longrightarrow> split_on c (s @ c # t) = s # split_on c t"
  by (induction s) auto

end
