(* ===== verification/PyFloat.thy ===== *)
theory PyFloat
  imports Prelude
begin

text \<open>
  Python's \<open>float\<close>: IEEE-754 binary64 with round-to-nearest, ties to even.

  A finite value is the rational it denotes, so every operation is the exact operation on
  rationals followed by one rounding \<open>rnd\<close>, which is what the standard requires of \<open>+ - * /\<close>
  and of CPython's integer true division.  Infinities and the NaN are values of their own; the
  order is the IEEE one, so every comparison with a NaN is False.  The two zeros are one value:
  they compare equal, and no modelled code looks at the sign of a zero.

  The lemmas: \<open>rnd\<close> is monotone, exact on every double and on every integer up to \<open>2 ^ 53\<close>, and
  off by at most half a unit in the last place.  They are collected in the locale \<open>rounding\<close>,
  which \<open>rnd\<close> interprets.
\<close>

section \<open>Powers of two and binades\<close>

definition pow2 :: "int \<Rightarrow> rat" where
  "pow2 e = (if 0 \<le> e then 2 ^ nat e else 1 / 2 ^ nat (- e))"

lemma pow2_pos [simp]: "0 < pow2 e"
  by (simp add: pow2_def)

lemma pow2_nonzero [simp]: "pow2 e \<noteq> 0"
  using pow2_pos [of e] by linarith

lemma pow2_powi: "pow2 e = 2 powi e"
  by (simp add: pow2_def power_int_def inverse_eq_divide power_one_over)

lemma pow2_add: "pow2 (a + b) = pow2 a * pow2 b"
  by (simp add: pow2_powi power_int_add)

lemma pow2_diff: "pow2 (a - b) = pow2 a / pow2 b"
  by (simp add: pow2_powi power_int_diff)

lemma pow2_Suc: "pow2 (e + 1) = 2 * pow2 e"
  by (simp add: pow2_add) (simp add: pow2_def)

lemma pow2_mono: "a \<le> b \<Longrightarrow> pow2 a \<le> pow2 b"
  by (simp add: pow2_powi power_int_increasing)

lemma abs_pow2 [simp]: "\<bar>pow2 e\<bar> = pow2 e"
  by (simp add: less_imp_le)

lemma pow2_strict_mono: "a < b \<Longrightarrow> pow2 a < pow2 b"
  by (simp add: pow2_powi power_int_strict_increasing)

lemma pow2_less_iff: "pow2 a < pow2 b \<longleftrightarrow> a < b"
  using pow2_mono [of b a] pow2_strict_mono [of a b] by linarith

lemma pow2_int: "0 \<le> e \<Longrightarrow> pow2 e = of_int (2 ^ nat e)"
  by (simp add: pow2_def)

definition flog2 :: "rat \<Rightarrow> int" where
  "flog2 q = (let (n, d) = quotient_of q; e = bitlen n - bitlen d
              in if pow2 e \<le> q then e else e - 1)"

lemma bitlen_pow2:
  assumes "0 < n"
  shows "pow2 (bitlen n - 1) \<le> of_int n" and "of_int n < pow2 (bitlen n)"
proof -
  have b: "2 ^ nat (bitlen n - 1) \<le> n" "n < 2 ^ nat (bitlen n)" "0 < bitlen n"
    using bitlen_bounds [OF assms] assms bitlen_eq_zero_iff [of n] bitlen_nonneg [of n] by auto
  show "pow2 (bitlen n - 1) \<le> of_int n"
    using b(1,3) by (simp add: pow2_int del: of_int_power)
  show "of_int n < pow2 (bitlen n)"
    using b(2,3) by (simp add: pow2_int del: of_int_power)
qed

lemma flog2_bounds:
  assumes "0 < q"
  shows "pow2 (flog2 q) \<le> q" and "q < pow2 (flog2 q + 1)"
proof -
  obtain n d where nd: "quotient_of q = (n, d)" by fastforce
  then have d: "0 < d" and q: "q = of_int n / of_int d"
    using quotient_of_denom_pos quotient_of_div by blast+
  with assms have n: "0 < n" by (simp add: zero_less_divide_iff)
  let ?e = "bitlen n - bitlen d"
  have "of_int n < pow2 (bitlen n)" "pow2 (bitlen d - 1) \<le> of_int d"
    using bitlen_pow2 n d by auto
  then have "q < pow2 (bitlen n) / pow2 (bitlen d - 1)"
    unfolding q using n d by (intro frac_less) auto
  then have upper: "q < pow2 (?e + 1)"
    by (metis pow2_diff diff_diff_eq2 add_diff_eq diff_add_eq)
  have "pow2 (bitlen n - 1) \<le> of_int n" "of_int d < pow2 (bitlen d)"
    using bitlen_pow2 n d by auto
  then have "pow2 (bitlen n - 1) / pow2 (bitlen d) \<le> q"
    unfolding q using n d by (intro frac_le) auto
  then have lower: "pow2 (?e - 1) \<le> q"
    by (metis pow2_diff diff_right_commute)
  show "pow2 (flog2 q) \<le> q" "q < pow2 (flog2 q + 1)"
    using upper lower by (auto simp: flog2_def nd Let_def)
qed

lemma flog2_unique:
  assumes "pow2 e \<le> q" and "q < pow2 (e + 1)"
  shows "flog2 q = e"
proof -
  have "0 < q" using assms(1) pow2_pos [of e] by linarith
  from flog2_bounds [OF this] assms have "pow2 (flog2 q) < pow2 (e + 1)" "pow2 e < pow2 (flog2 q + 1)"
    by linarith+
  then show ?thesis by (simp add: pow2_less_iff)
qed

lemma flog2_mono: "0 < x \<Longrightarrow> x \<le> y \<Longrightarrow> flog2 x \<le> flog2 y"
  using flog2_bounds [of x] flog2_bounds [of y] pow2_less_iff [of "flog2 x" "flog2 y + 1"]
  by linarith

section \<open>Rounding to an integer, ties to even\<close>

definition round_half_even :: "rat \<Rightarrow> int" where
  "round_half_even x =
     (let f = \<lfloor>x\<rfloor>; r = x - of_int f
      in if r < 1 / 2 then f else if 1 / 2 < r then f + 1 else if even f then f else f + 1)"

lemma round_half_even_of_int [simp]: "round_half_even (of_int n) = n"
  by (simp add: round_half_even_def)

lemma round_half_even_floor: "\<lfloor>x\<rfloor> \<le> round_half_even x" "round_half_even x \<le> \<lfloor>x\<rfloor> + 1"
  by (simp_all add: round_half_even_def Let_def)

lemma round_half_even_error: "\<bar>of_int (round_half_even x) - x\<bar> \<le> 1 / 2"
proof -
  have "0 \<le> x - of_int \<lfloor>x\<rfloor>" "x - of_int \<lfloor>x\<rfloor> < 1"
    by linarith+
  then show ?thesis by (auto simp: round_half_even_def Let_def)
qed

lemma round_half_even_mono:
  assumes "x \<le> y"
  shows "round_half_even x \<le> round_half_even y"
proof (cases "\<lfloor>x\<rfloor> = \<lfloor>y\<rfloor>")
  case True
  with assms show ?thesis by (auto simp: round_half_even_def Let_def)
next
  case False
  with assms floor_mono [OF assms] have "\<lfloor>x\<rfloor> + 1 \<le> \<lfloor>y\<rfloor>" by linarith
  with round_half_even_floor show ?thesis by (meson order_trans)
qed

lemma round_half_even_minus: "round_half_even (- x) = - round_half_even x"
proof (cases "x = of_int \<lfloor>x\<rfloor>")
  case True
  then show ?thesis by (metis of_int_minus round_half_even_of_int)
next
  case False
  have f: "\<lfloor>- x\<rfloor> = - \<lfloor>x\<rfloor> - 1"
    using False by (intro floor_unique) (simp_all, linarith+)
  have "x - of_int \<lfloor>x\<rfloor> = r \<Longrightarrow> - x - of_int \<lfloor>- x\<rfloor> = 1 - r" for r
    by (simp add: f)
  with f show ?thesis
    by (auto simp: round_half_even_def Let_def)
qed

section \<open>Rounding to a double\<close>

text \<open>\<open>fl_exp q\<close> is the exponent of the last place of the binade of \<open>q\<close>; \<open>- 1074\<close> is the
  subnormal limit.\<close>

definition fl_exp :: "rat \<Rightarrow> int" where
  "fl_exp q = max (flog2 \<bar>q\<bar> - 52) (- 1074)"

definition rnd :: "rat \<Rightarrow> rat" where
  "rnd q = (if q = 0 then 0
            else of_int (round_half_even (q / pow2 (fl_exp q))) * pow2 (fl_exp q))"

lemma rnd_0 [simp]: "rnd 0 = 0"
  by (simp add: rnd_def)

lemma fl_exp_minus [simp]: "fl_exp (- q) = fl_exp q"
  by (simp add: fl_exp_def)

lemma rnd_minus: "rnd (- q) = - rnd q"
  using round_half_even_minus [of "q / pow2 (fl_exp q)"] by (simp add: rnd_def)

text \<open>Every multiple of the last place is reached exactly.\<close>

lemma rnd_multiple:
  assumes "q = of_int m * pow2 e" and "fl_exp q \<le> e"
  shows "rnd q = q"
proof -
  have "pow2 e = of_int (2 ^ nat (e - fl_exp q)) * pow2 (fl_exp q)"
    using pow2_add [of "e - fl_exp q" "fl_exp q"] assms(2) pow2_int [of "e - fl_exp q"] by simp
  then have "q = of_int (m * 2 ^ nat (e - fl_exp q)) * pow2 (fl_exp q)"
    using assms(1) by (metis mult.assoc of_int_mult)
  then have "q / pow2 (fl_exp q) = of_int (m * 2 ^ nat (e - fl_exp q))"
    by (metis nonzero_eq_divide_eq pow2_nonzero)
  then show ?thesis
    by (metis rnd_def round_half_even_of_int nonzero_divide_eq_eq pow2_nonzero)
qed

definition is_double :: "rat \<Rightarrow> bool" where
  "is_double q \<longleftrightarrow> (\<exists>m e. q = of_int m * pow2 e \<and> \<bar>m\<bar> \<le> 2 ^ 53 \<and> - 1074 \<le> e)"

lemma flog2_le: "0 < q \<Longrightarrow> q < pow2 (e + 1) \<Longrightarrow> flog2 q \<le> e"
  using flog2_bounds(1) [of q] pow2_less_iff [of "flog2 q" "e + 1"] by linarith

lemma pow2_53: "pow2 53 = 2 ^ 53"
  by (simp add: pow2_def)

lemma rnd_double:
  assumes "is_double q"
  shows "rnd q = q"
proof (cases "q = 0")
  case False
  obtain m e where q: "q = of_int m * pow2 e" and m: "\<bar>m\<bar> \<le> 2 ^ 53" and e: "- 1074 \<le> e"
    using assms by (auto simp: is_double_def)
  have abs_q: "\<bar>q\<bar> = of_int \<bar>m\<bar> * pow2 e" using q by (simp add: abs_mult)
  show ?thesis
  proof (cases "\<bar>m\<bar> < 2 ^ 53")
    case True
    then have "of_int \<bar>m\<bar> < (2 ^ 53 :: rat)"
      by (metis of_int_less_iff of_int_numeral of_int_power)
    then have "\<bar>q\<bar> < pow2 (53 + e)"
      by (simp add: abs_q pow2_add pow2_53 mult_strict_right_mono)
    then have "flog2 \<bar>q\<bar> \<le> 52 + e" using False by (intro flog2_le) (auto simp: algebra_simps)
    with e have "fl_exp q \<le> e" by (simp add: fl_exp_def)
    with q show ?thesis by (rule rnd_multiple)
  next
    case False
    with m have "\<bar>m\<bar> = 2 ^ 53" by simp
    then have m53: "m = 2 ^ 53 \<or> m = - (2 ^ 53)" by linarith
    have "\<bar>q\<bar> = pow2 (53 + e)" using \<open>\<bar>m\<bar> = 2 ^ 53\<close> by (simp add: abs_q pow2_add pow2_53)
    then have "flog2 \<bar>q\<bar> = 53 + e" by (intro flog2_unique) (simp_all add: pow2_less_iff)
    with e have "fl_exp q \<le> e + 1" by (simp add: fl_exp_def)
    moreover have "q = of_int (if 0 \<le> m then 2 ^ 52 else - (2 ^ 52)) * pow2 (e + 1)"
      using m53 by (auto simp: q pow2_Suc)
    ultimately show ?thesis by (intro rnd_multiple)
  qed
qed simp

lemma rnd_is_double: "is_double (rnd q)"
proof (cases "q = 0")
  case True
  then show ?thesis by (auto simp: is_double_def intro!: exI [of _ 0])
next
  case False
  let ?e = "fl_exp q"
  have "\<bar>q\<bar> < pow2 (flog2 \<bar>q\<bar> + 1)" using False by (intro flog2_bounds) simp
  also have "\<dots> \<le> pow2 (53 + ?e)" by (intro pow2_mono) (simp add: fl_exp_def)
  finally have "\<bar>q\<bar> / pow2 ?e < 2 ^ 53"
    by (simp add: pow2_add pow2_53 divide_less_eq)
  then have "- of_int (2 ^ 53) \<le> q / pow2 ?e" "q / pow2 ?e \<le> of_int (2 ^ 53)"
    by (simp_all add: abs_less_iff abs_divide [symmetric] flip: abs_divide)
       (metis abs_divide abs_le_D2 abs_of_pos less_le minus_le_iff pow2_pos,
        metis abs_divide abs_le_D1 abs_of_pos less_le pow2_pos)
  then have "round_half_even (q / pow2 ?e) \<le> 2 ^ 53" "- (2 ^ 53) \<le> round_half_even (q / pow2 ?e)"
    using round_half_even_mono round_half_even_of_int by (metis of_int_minus)+
  then have "\<bar>round_half_even (q / pow2 ?e)\<bar> \<le> 2 ^ 53" by linarith
  with False show ?thesis
    by (auto simp: is_double_def rnd_def fl_exp_def intro!: exI)
qed

lemma rnd_idem [simp]: "rnd (rnd q) = rnd q"
  by (simp add: rnd_double rnd_is_double)

lemma rnd_int:
  assumes "\<bar>n\<bar> \<le> 2 ^ 53"
  shows "rnd (of_int n) = of_int n"
proof (rule rnd_double)
  show "is_double (of_int n)"
    unfolding is_double_def using assms by (intro exI [of _ n] exI [of _ 0]) (simp add: pow2_def)
qed

lemma rnd_error:
  assumes "q \<noteq> 0"
  shows "\<bar>rnd q - q\<bar> \<le> pow2 (fl_exp q) / 2"
proof -
  have "rnd q - q = (of_int (round_half_even (q / pow2 (fl_exp q))) - q / pow2 (fl_exp q)) * pow2 (fl_exp q)"
    using assms by (simp add: rnd_def left_diff_distrib)
  then have "\<bar>rnd q - q\<bar> =
      \<bar>of_int (round_half_even (q / pow2 (fl_exp q))) - q / pow2 (fl_exp q)\<bar> * pow2 (fl_exp q)"
    by (simp add: abs_mult)
  also have "\<dots> \<le> 1 / 2 * pow2 (fl_exp q)"
    by (intro mult_right_mono round_half_even_error) (simp add: less_imp_le)
  finally show ?thesis by simp
qed

section \<open>Monotonicity\<close>

lemma fl_exp_mono: "0 < x \<Longrightarrow> x \<le> y \<Longrightarrow> fl_exp x \<le> fl_exp y"
  using flog2_mono [of x y] by (auto simp: fl_exp_def)

lemma rnd_mono_pos:
  assumes "0 < x" and "x \<le> y"
  shows "rnd x \<le> rnd y"
proof (cases "fl_exp x = fl_exp y")
  case True
  have "round_half_even (x / pow2 (fl_exp y)) \<le> round_half_even (y / pow2 (fl_exp y))"
    using assms(2) by (intro round_half_even_mono divide_right_mono) (simp_all add: less_imp_le)
  with True assms show ?thesis
    by (simp add: rnd_def mult_right_mono less_imp_le)
next
  case False
  let ?g = "flog2 y"
  have lt: "fl_exp x < fl_exp y" using False fl_exp_mono [OF assms] by simp
  then have ey: "fl_exp y = ?g - 52" and gx: "flog2 x + 1 \<le> ?g" and ex: "fl_exp x \<le> ?g"
    using assms by (auto simp: fl_exp_def)
  have g: "pow2 ?g = of_int (2 ^ nat (?g - e)) * pow2 e" if "e \<le> ?g" for e
    using pow2_add [of "?g - e" e] pow2_int [of "?g - e"] that by simp
  have "x \<le> pow2 ?g"
    using flog2_bounds(2) [OF assms(1)] pow2_mono [OF gx] by linarith
  then have "x / pow2 (fl_exp x) \<le> of_int (2 ^ nat (?g - fl_exp x))"
    using g [OF ex] by (metis pos_divide_le_eq pow2_pos)
  then have "round_half_even (x / pow2 (fl_exp x)) \<le> 2 ^ nat (?g - fl_exp x)"
    using round_half_even_mono round_half_even_of_int by metis
  then have "of_int (round_half_even (x / pow2 (fl_exp x))) * pow2 (fl_exp x)
      \<le> of_int (2 ^ nat (?g - fl_exp x)) * pow2 (fl_exp x)"
    by (intro mult_right_mono) (simp_all only: of_int_le_iff less_imp_le pow2_pos)
  then have lo: "rnd x \<le> pow2 ?g"
    using assms g [OF ex] by (simp add: rnd_def)
  have "of_int (2 ^ nat (?g - fl_exp y)) \<le> y / pow2 (fl_exp y)"
    using g [of "fl_exp y"] ey flog2_bounds(1) [of y] assms by (simp add: pos_le_divide_eq)
  then have "2 ^ nat (?g - fl_exp y) \<le> round_half_even (y / pow2 (fl_exp y))"
    using round_half_even_mono round_half_even_of_int by metis
  then have "of_int (2 ^ nat (?g - fl_exp y)) * pow2 (fl_exp y)
      \<le> of_int (round_half_even (y / pow2 (fl_exp y))) * pow2 (fl_exp y)"
    by (intro mult_right_mono) (simp_all only: of_int_le_iff less_imp_le pow2_pos)
  then have "pow2 ?g \<le> rnd y"
    using assms g [of "fl_exp y"] ey by (simp add: rnd_def)
  with lo show ?thesis by simp
qed

lemma rnd_nonneg: "0 \<le> x \<Longrightarrow> 0 \<le> rnd x"
  using round_half_even_mono [of 0 "x / pow2 (fl_exp x)"] round_half_even_of_int [of 0]
  by (auto simp: rnd_def less_imp_le)

lemma rnd_mono:
  assumes "x \<le> y"
  shows "rnd x \<le> rnd y"
proof (cases "0 < x")
  case True
  with assms show ?thesis by (rule rnd_mono_pos [rotated -1])
next
  case x: False
  show ?thesis
  proof (cases "y < 0")
    case True
    then have "rnd (- y) \<le> rnd (- x)" using assms by (intro rnd_mono_pos) auto
    then show ?thesis by (simp add: rnd_minus)
  next
    case False
    then have "rnd x \<le> 0" "0 \<le> rnd y"
      using x rnd_nonneg [of y] rnd_nonneg [of "- x"] by (auto simp: rnd_minus)
    then show ?thesis by simp
  qed
qed

text \<open>What the rest of the development uses of rounding.\<close>

locale rounding =
  fixes R :: "rat \<Rightarrow> rat"
  assumes R_mono: "x \<le> y \<Longrightarrow> R x \<le> R y"
    and R_idem: "R (R x) = R x"
    and R_minus: "R (- x) = - R x"
    and R_int: "\<bar>n\<bar> \<le> 2 ^ 53 \<Longrightarrow> R (of_int n) = of_int n"
begin

lemma R_le: "x \<le> y \<Longrightarrow> R y = y \<Longrightarrow> R x \<le> y"
  using R_mono by metis

lemma le_R: "y \<le> x \<Longrightarrow> R y = y \<Longrightarrow> y \<le> R x"
  using R_mono by metis

lemma R_0: "R 0 = 0"
  using R_int [of 0] by simp

lemma R_1: "R 1 = 1"
  using R_int [of 1] by simp

lemma R_nonneg: "0 \<le> x \<Longrightarrow> 0 \<le> R x"
  using R_mono [of 0 x] by (simp add: R_0)

lemma R_nonpos: "x \<le> 0 \<Longrightarrow> R x \<le> 0"
  using R_mono [of x 0] by (simp add: R_0)

lemma R_diff_nonneg: "y \<le> x \<Longrightarrow> 0 \<le> R (x - y)"
  by (rule R_nonneg) simp

lemma R_le_1: "x \<le> 1 \<Longrightarrow> R x \<le> 1"
  by (rule R_le [OF _ R_1])

lemma R_less_imp: "R x < R y \<Longrightarrow> x < y"
  using R_mono [of y x] by linarith

text \<open>Comparison with a rounded threshold is exact for numbers that keep their distance from it:
  \<open>d\<close> is a double on the far side of the threshold, and none of the numbers lies between.\<close>

lemma R_ge_iff: "R d = d \<Longrightarrow> d < R t \<Longrightarrow> (x < t \<Longrightarrow> x \<le> d) \<Longrightarrow> R t \<le> R x \<longleftrightarrow> t \<le> x"
  using R_mono [of x d] R_mono [of t x] by (cases "t \<le> x") auto

lemma R_le_iff: "R d = d \<Longrightarrow> R t < d \<Longrightarrow> (t < x \<Longrightarrow> d \<le> x) \<Longrightarrow> R x \<le> R t \<longleftrightarrow> x \<le> t"
  using R_mono [of d x] R_mono [of x t] by (cases "x \<le> t") auto

end

interpretation dbl: rounding rnd
  by unfold_locales (simp_all add: rnd_mono rnd_minus rnd_int)

section \<open>The type of floats\<close>

datatype pyfloat = Fin rat | PInf | NInf | NaN

text \<open>The float nearest to an exact result; \<open>fl q\<close> is also the meaning of a literal.\<close>

definition fl :: "rat \<Rightarrow> pyfloat" where
  "fl q = (let r = rnd q
           in if 2 ^ 1024 \<le> r then PInf else if r \<le> - (2 ^ 1024) then NInf else Fin r)"

lemma fl_eq_Fin:
  assumes "\<bar>q\<bar> \<le> 2 ^ 53"
  shows "fl q = Fin (rnd q)"
proof -
  have "rnd (2 ^ 53) = 2 ^ 53"
    using rnd_int [of "2 ^ 53"] by simp
  then have "\<bar>rnd q\<bar> \<le> 2 ^ 53"
    using assms dbl.R_mono [of q "2 ^ 53"] dbl.R_mono [of "- q" "2 ^ 53"]
    by (simp add: rnd_minus abs_le_iff)
  moreover have "(2 ^ 53 :: rat) < 2 ^ 1024"
    by (rule power_strict_increasing) simp_all
  ultimately show ?thesis
    unfolding fl_def Let_def by auto
qed

lemma fl_int: "\<bar>n\<bar> \<le> 2 ^ 53 \<Longrightarrow> fl (of_int n) = Fin (of_int n)"
  using of_int_le_iff [of "\<bar>n\<bar>" "2 ^ 53", where 'a = rat]
  by (subst fl_eq_Fin) (simp_all add: rnd_int del: of_int_le_iff)

lemma fl_numeral [simp]: "(numeral k :: int) \<le> 2 ^ 53 \<Longrightarrow> fl (numeral k) = Fin (numeral k)"
  using fl_int [of "numeral k"] by simp

lemma fl_0 [simp]: "fl 0 = Fin 0"
  using fl_int [of 0] by simp

lemma fl_1 [simp]: "fl 1 = Fin 1"
  using fl_int [of 1] by simp

lemma fl_double: "is_double q \<Longrightarrow> \<bar>q\<bar> \<le> 2 ^ 53 \<Longrightarrow> fl q = Fin q"
  by (simp add: fl_eq_Fin rnd_double)

lemma fl_cases:
  obtains "fl q = PInf" "0 < q" | "fl q = NInf" "q < 0" | "fl q = Fin (rnd q)"
proof -
  have "0 < q" if "2 ^ 1024 \<le> rnd q"
  proof (rule ccontr)
    assume "\<not> 0 < q"
    then have "rnd q \<le> 0" using dbl.R_nonpos [of q] by simp
    with that show False by (metis not_le order_trans zero_less_numeral zero_less_power)
  qed
  moreover have "q < 0" if "rnd q \<le> - (2 ^ 1024)"
  proof (rule ccontr)
    assume "\<not> q < 0"
    then have "0 \<le> rnd q" using dbl.R_nonneg [of q] by simp
    from this that have "0 \<le> - (2 ^ 1024 :: rat)" by (rule order_trans)
    then show False by (metis neg_0_le_iff_le not_le zero_less_numeral zero_less_power)
  qed
  ultimately show thesis
    using that unfolding fl_def Let_def by metis
qed

fun isfinite :: "pyfloat \<Rightarrow> bool" where
  "isfinite (Fin q) = True"
| "isfinite _ = False"

instantiation pyfloat :: ord
begin

fun less_eq_pyfloat :: "pyfloat \<Rightarrow> pyfloat \<Rightarrow> bool" where
  "less_eq_pyfloat NaN y = False"
| "less_eq_pyfloat x NaN = False"
| "less_eq_pyfloat (Fin p) (Fin q) = (p \<le> q)"
| "less_eq_pyfloat NInf y = True"
| "less_eq_pyfloat x PInf = True"
| "less_eq_pyfloat x y = False"

fun less_pyfloat :: "pyfloat \<Rightarrow> pyfloat \<Rightarrow> bool" where
  "less_pyfloat NaN y = False"
| "less_pyfloat x NaN = False"
| "less_pyfloat (Fin p) (Fin q) = (p < q)"
| "less_pyfloat NInf y = (y \<noteq> NInf)"
| "less_pyfloat x PInf = (x \<noteq> PInf)"
| "less_pyfloat x y = False"

instance ..

end

text \<open>\<open>==\<close>: the NaN differs from itself.\<close>

definition feq :: "pyfloat \<Rightarrow> pyfloat \<Rightarrow> bool" where
  "feq x y \<longleftrightarrow> x = y \<and> x \<noteq> NaN"

instantiation pyfloat :: "{uminus, plus, minus, times}"
begin

fun uminus_pyfloat :: "pyfloat \<Rightarrow> pyfloat" where
  "uminus_pyfloat (Fin q) = Fin (- q)"
| "uminus_pyfloat PInf = NInf"
| "uminus_pyfloat NInf = PInf"
| "uminus_pyfloat NaN = NaN"

fun plus_pyfloat :: "pyfloat \<Rightarrow> pyfloat \<Rightarrow> pyfloat" where
  "plus_pyfloat (Fin p) (Fin q) = fl (p + q)"
| "plus_pyfloat NaN y = NaN"
| "plus_pyfloat x NaN = NaN"
| "plus_pyfloat PInf NInf = NaN"
| "plus_pyfloat NInf PInf = NaN"
| "plus_pyfloat PInf y = PInf"
| "plus_pyfloat NInf y = NInf"
| "plus_pyfloat (Fin p) y = y"

definition minus_pyfloat :: "pyfloat \<Rightarrow> pyfloat \<Rightarrow> pyfloat" where
  "minus_pyfloat x y = x + (- y)"

definition inf_sign :: "bool \<Rightarrow> pyfloat" where
  "inf_sign pos = (if pos then PInf else NInf)"

fun times_pyfloat :: "pyfloat \<Rightarrow> pyfloat \<Rightarrow> pyfloat" where
  "times_pyfloat (Fin p) (Fin q) = fl (p * q)"
| "times_pyfloat NaN y = NaN"
| "times_pyfloat x NaN = NaN"
| "times_pyfloat (Fin p) y = (if p = 0 then NaN else inf_sign ((0 < p) = (y = PInf)))"
| "times_pyfloat x (Fin q) = (if q = 0 then NaN else inf_sign ((0 < q) = (x = PInf)))"
| "times_pyfloat x y = inf_sign (x = y)"

instance ..

end

text \<open>\<open>x / y\<close> on floats: dividing by a zero raises.\<close>

fun fdiv :: "pyfloat \<Rightarrow> pyfloat \<Rightarrow> pyfloat res" where
  "fdiv x (Fin q) =
     (if q = 0 then Inl ZeroDivisionError
      else case x of
          Fin p \<Rightarrow> Inr (fl (p / q))
        | PInf \<Rightarrow> Inr (inf_sign (0 < q))
        | NInf \<Rightarrow> Inr (inf_sign (q < 0))
        | NaN \<Rightarrow> Inr NaN)"
| "fdiv x NaN = Inr NaN"
| "fdiv x y = Inr (case x of Fin p \<Rightarrow> Fin 0 | _ \<Rightarrow> NaN)"

text \<open>\<open>float(n)\<close> and \<open>a / b\<close> on integers: the exact value is rounded once; a result beyond the
  range raises.\<close>

definition float_of_int :: "int \<Rightarrow> pyfloat res" where
  "float_of_int n = (case fl (of_int n) of Fin q \<Rightarrow> Inr (Fin q) | _ \<Rightarrow> Inl OverflowError)"

definition int_div :: "int \<Rightarrow> int \<Rightarrow> pyfloat res" where
  "int_div a b =
     (if b = 0 then Inl ZeroDivisionError
      else case fl (of_int a / of_int b) of Fin q \<Rightarrow> Inr (Fin q) | _ \<Rightarrow> Inl OverflowError)"

text \<open>\<open>min(x, y)\<close> and \<open>max(x, y)\<close> keep the first argument unless the second is strictly better,
  so \<open>max(0.0, nan)\<close> is \<open>0.0\<close>.\<close>

definition py_min :: "('a :: ord) \<Rightarrow> 'a \<Rightarrow> 'a" where
  "py_min x y = (if y < x then y else x)"

definition py_max :: "('a :: ord) \<Rightarrow> 'a \<Rightarrow> 'a" where
  "py_max x y = (if x < y then y else x)"

lemma py_min_linorder [simp]: "py_min (x :: 'a :: linorder) y = min x y"
  by (auto simp: py_min_def min_def)

lemma py_max_linorder [simp]: "py_max (x :: 'a :: linorder) y = max x y"
  by (auto simp: py_max_def max_def)

text \<open>\<open>round(x, n)\<close>: to \<open>n\<close> decimals, ties to even on the exact value, then to the nearest float.\<close>

fun round_digits :: "nat \<Rightarrow> pyfloat \<Rightarrow> pyfloat" where
  "round_digits n (Fin q) = fl (of_int (round_half_even (q * 10 ^ n)) / 10 ^ n)"
| "round_digits n x = x"

text \<open>\<open>math.ceil(x)\<close>\<close>

fun ceil_float :: "pyfloat \<Rightarrow> int res" where
  "ceil_float (Fin q) = Inr \<lceil>q\<rceil>"
| "ceil_float NaN = Inl (ValueError ''cannot convert float NaN to integer'')"
| "ceil_float _ = Inl OverflowError"

section \<open>Division of integers and statistics\<close>

lemma int_div_eq_Inr:
  "int_div a b = Inr x \<Longrightarrow> b \<noteq> 0 \<and> x = Fin (rnd (of_int a / of_int b))"
  by (rule fl_cases [of "of_int a / of_int b"]) (auto simp: int_div_def split: if_splits)

lemma int_div_total:
  assumes "b \<noteq> 0" and "\<bar>a\<bar> \<le> 2 ^ 53"
  shows "int_div a b = Inr (Fin (rnd (of_int a / of_int b)))"
proof -
  have b: "1 \<le> \<bar>of_int b :: rat\<bar>"
    using assms(1) by (metis int_one_le_iff_zero_less of_int_1 of_int_abs of_int_le_iff zero_less_abs_iff)
  have "\<bar>of_int a / of_int b :: rat\<bar> \<le> \<bar>of_int a\<bar>"
    using mult_left_mono [OF b, of "\<bar>of_int a\<bar>"] assms(1) by (simp add: abs_divide pos_divide_le_eq)
  also have "\<dots> \<le> 2 ^ 53"
    using assms(2) by (metis of_int_abs of_int_le_iff of_int_numeral of_int_power)
  finally show ?thesis using assms(1) by (simp add: int_div_def fl_eq_Fin)
qed

text \<open>The exact value of a finite float; the statistics below are used on finite floats.\<close>

fun fin_val :: "pyfloat \<Rightarrow> rat" where
  "fin_val (Fin q) = q"
| "fin_val x = 0"

definition sort_floats :: "pyfloat list \<Rightarrow> pyfloat list" where
  "sort_floats xs = sort_key fin_val xs"

text \<open>\<open>statistics.median\<close>, \<open>statistics.mean\<close> (one rounding of the exact mean) and
  \<open>max(xs, default=d)\<close>.\<close>

definition median :: "pyfloat list \<Rightarrow> pyfloat res" where
  "median xs =
     (let ys = sort_floats xs; n = length ys in
      if n = 0 then Inl (ValueError ''no median for empty data'')
      else if odd n then Inr (ys ! (n div 2))
      else fdiv (ys ! (n div 2 - 1) + ys ! (n div 2)) (Fin 2))"

definition mean :: "pyfloat list \<Rightarrow> pyfloat res" where
  "mean xs = (if xs = [] then Inl (ValueError ''mean requires at least one data point'')
     else Inr (fl (sum_list (map fin_val xs) / of_nat (length xs))))"

fun max_default :: "('a :: ord) \<Rightarrow> 'a list \<Rightarrow> 'a" where
  "max_default d [] = d"
| "max_default d (x # xs) = fold (\<lambda>y m. py_max m y) xs x"

end
