(* ===== verification/PyJson.thy ===== *)
theory PyJson
  imports PyFloat
begin

text \<open>
  JSON values as \<open>json.loads\<close> builds them, the Python operations the modelled code applies to
  such dynamically typed values (\<open>isinstance\<close>, \<open>==\<close>, \<open>in\<close>, truth, \<open>int(..)\<close>, \<open>str(..)\<close>,
  \<open>set(..)\<close>), and the canonical serialisation
  \<open>json.dumps(v, sort_keys=True, separators=(",", ":"))\<close>.

  A \<open>bool\<close> is an \<open>int\<close> in Python (\<open>isinstance(True, int)\<close>, \<open>True == 1\<close>), which the
  validators depend on in places; the definitions below keep that.  Text is a list of
  characters with code points below 256.
\<close>

datatype json =
    JNull
  | JBool bool
  | JInt int
  | JFloat pyfloat
  | JStr string
  | JList "json list"
  | JObj "(string \<times> json) list"

type_synonym obj = "(string, json) dict"

section \<open>Dynamic types\<close>

fun is_dict :: "json \<Rightarrow> bool" where
  "is_dict (JObj d) = True"
| "is_dict _ = False"

fun is_list :: "json \<Rightarrow> bool" where
  "is_list (JList xs) = True"
| "is_list _ = False"

fun is_str :: "json \<Rightarrow> bool" where
  "is_str (JStr s) = True"
| "is_str _ = False"

fun is_bool :: "json \<Rightarrow> bool" where
  "is_bool (JBool b) = True"
| "is_bool _ = False"

text \<open>\<open>isinstance(v, int)\<close>, true of booleans too.\<close>

fun is_int :: "json \<Rightarrow> bool" where
  "is_int (JInt n) = True"
| "is_int (JBool b) = True"
| "is_int _ = False"

fun is_float :: "json \<Rightarrow> bool" where
  "is_float (JFloat x) = True"
| "is_float _ = False"

text \<open>The integer a value stands for in integer arithmetic.\<close>

fun int_val :: "json \<Rightarrow> int" where
  "int_val (JInt n) = n"
| "int_val (JBool b) = (if b then 1 else 0)"
| "int_val _ = 0"

fun truthy :: "json \<Rightarrow> bool" where
  "truthy JNull = False"
| "truthy (JBool b) = b"
| "truthy (JInt n) = (n \<noteq> 0)"
| "truthy (JFloat x) = (x \<noteq> Fin 0)"
| "truthy (JStr s) = (s \<noteq> [])"
| "truthy (JList xs) = (xs \<noteq> [])"
| "truthy (JObj d) = (d \<noteq> [])"

text \<open>The number a value is in comparisons between \<open>bool\<close>, \<open>int\<close> and \<open>float\<close>, which are exact.\<close>

fun num_val :: "json \<Rightarrow> pyfloat option" where
  "num_val (JBool b) = Some (Fin (if b then 1 else 0))"
| "num_val (JInt n) = Some (Fin (of_int n))"
| "num_val (JFloat x) = Some x"
| "num_val _ = None"

lemma size_list_elem: "x \<in> set xs \<Longrightarrow> size x < Suc (size_list size xs)"
  by (induction xs) auto

lemma size_obj_elem: "(k, v) \<in> set d \<Longrightarrow> size v < Suc (size_list (size_prod (\<lambda>_. 0) size) d)"
  by (induction d) auto

text \<open>\<open>==\<close>: numbers by value whatever their type, dictionaries without regard to order.\<close>

function json_eq :: "json \<Rightarrow> json \<Rightarrow> bool" where
  "json_eq a b =
     (case (num_val a, num_val b) of
        (Some x, Some y) \<Rightarrow> feq x y
      | (None, None) \<Rightarrow>
          (case (a, b) of
             (JNull, JNull) \<Rightarrow> True
           | (JStr s, JStr t) \<Rightarrow> s = t
           | (JList xs, JList ys) \<Rightarrow>
               length xs = length ys \<and> (\<forall>(x, y) \<in> set (zip xs ys). json_eq x y)
           | (JObj d, JObj e) \<Rightarrow>
               length d = length e \<and>
               (\<forall>(k, v) \<in> set d. case map_of e k of None \<Rightarrow> False | Some w \<Rightarrow> json_eq v w)
           | _ \<Rightarrow> False)
      | _ \<Rightarrow> False)"
  by pat_completeness auto

termination
  by (relation "measure (\<lambda>(a, b). size a)")
     (force dest: set_zip_leftD intro: size_list_elem size_obj_elem)+

declare json_eq.simps [simp del]

lemma json_eq_simps [simp]:
  "json_eq (JInt m) (JInt n) \<longleftrightarrow> m = n"
  "json_eq (JStr s) (JStr t) \<longleftrightarrow> s = t"
  by (simp_all add: json_eq.simps [of "JInt m"] json_eq.simps [of "JStr s"] feq_def)

lemma json_eq_lists: "json_eq (JList xs) (JList ys) \<longleftrightarrow> list_all2 json_eq xs ys"
  by (auto simp: json_eq.simps [of "JList xs"] list_all2_iff)

lemma json_eq_member:
  assumes "json_eq (JObj d) (JObj e)" and "dict_get d k = Some v"
  obtains w where "dict_get e k = Some w" and "json_eq v w"
proof -
  have "(k, v) \<in> set d" using assms(2) by (rule map_of_SomeD)
  then have "case map_of e k of None \<Rightarrow> False | Some w \<Rightarrow> json_eq v w"
    using assms(1) by (auto simp: json_eq.simps [of "JObj d"])
  then show thesis using that by (cases "map_of e k") simp_all
qed

text \<open>\<open>v in s\<close> for a set of strings: a list or a dictionary is not hashable.\<close>

fun hashable :: "json \<Rightarrow> bool" where
  "hashable (JList xs) = False"
| "hashable (JObj d) = False"
| "hashable _ = True"

definition in_strings :: "json \<Rightarrow> string set \<Rightarrow> bool res" where
  "in_strings v S =
     (if hashable v then Inr (case v of JStr s \<Rightarrow> s \<in> S | _ \<Rightarrow> False)
      else Inl (TypeError ''unhashable type''))"

text \<open>\<open>d.get(k)\<close>: \<open>None\<close> when the key is missing.\<close>

definition get_or_null :: "obj \<Rightarrow> string \<Rightarrow> json" where
  "get_or_null d k = (case dict_get d k of None \<Rightarrow> JNull | Some v \<Rightarrow> v)"

lemma get_or_null_Some [simp]: "dict_get d k = Some v \<Longrightarrow> get_or_null d k = v"
  by (simp add: get_or_null_def)

lemma get_or_null_None [simp]: "dict_get d k = None \<Longrightarrow> get_or_null d k = JNull"
  by (simp add: get_or_null_def)

text \<open>\<open>d[k]\<close>\<close>

definition obj_at :: "obj \<Rightarrow> string \<Rightarrow> json res" where
  "obj_at d k = dict_at k d k"

lemma obj_at_eq_Inr [simp]: "obj_at d k = Inr v \<longleftrightarrow> dict_get d k = Some v"
  by (simp add: obj_at_def)

lemma obj_at_Some [simp]: "dict_get d k = Some v \<Longrightarrow> obj_at d k = Inr v"
  by simp

section \<open>Text of a number\<close>

text \<open>
  \<open>repr(x)\<close> of a float: the shortest decimal that rounds back to \<open>x\<close>, the closest one where
  several are as short.  \<open>dec_exp q\<close> is the decimal exponent of \<open>q > 0\<close>, \<open>candidates p q\<close> the
  decimals with \<open>p\<close> digits next to \<open>q\<close> that round to it.
\<close>

definition dec_exp :: "rat \<Rightarrow> int" where
  "dec_exp q =
     (if 1 \<le> q then int (length (dec_str \<lfloor>q\<rfloor>)) - 1
      else case List.find (\<lambda>k. 1 \<le> q * 10 ^ k) [1 ..< 400] of Some k \<Rightarrow> - int k | None \<Rightarrow> 0)"

definition pow10 :: "int \<Rightarrow> rat" where
  "pow10 e = (if 0 \<le> e then 10 ^ nat e else 1 / 10 ^ nat (- e))"

definition candidates :: "nat \<Rightarrow> rat \<Rightarrow> int list" where
  "candidates p q =
     (let u = pow10 (dec_exp q - int p + 1); x = q / u
      in filter (\<lambda>m. rnd (of_int m * u) = q)
           (if x - of_int \<lfloor>x\<rfloor> \<le> of_int \<lceil>x\<rceil> - x then [\<lfloor>x\<rfloor>, \<lceil>x\<rceil>] else [\<lceil>x\<rceil>, \<lfloor>x\<rfloor>]))"

definition shortest :: "rat \<Rightarrow> string \<times> int" where
  "shortest q =
     (case List.find (\<lambda>p. candidates p q \<noteq> []) [1 ..< 18] of
        Some p \<Rightarrow> (dec_str (hd (candidates p q)), dec_exp q - int p + 1)
      | None \<Rightarrow> ([], 0))"

definition strip_zeros :: "string \<Rightarrow> string" where
  "strip_zeros s = rev (dropWhile (\<lambda>c. c = CHR ''0'') (rev s))"

definition zeros :: "nat \<Rightarrow> string" where
  "zeros n = replicate n (CHR ''0'')"

text \<open>The digits \<open>ds\<close> have their point after position \<open>pt\<close>.\<close>

definition float_digits :: "string \<Rightarrow> int \<Rightarrow> string" where
  "float_digits ds pt =
     (if -4 < pt \<and> pt \<le> 16 then
        (if pt \<le> 0 then ''0.'' @ zeros (nat (- pt)) @ ds
         else if int (length ds) \<le> pt then ds @ zeros (nat pt - length ds) @ ''.0''
         else take (nat pt) ds @ ''.'' @ drop (nat pt) ds)
      else
        take 1 ds @ (if length ds = 1 then [] else ''.'' @ drop 1 ds) @ ''e''
        @ (if pt - 1 < 0 then ''-'' else ''+'')
        @ (let e = dec_str \<bar>pt - 1\<bar> in if length e < 2 then ''0'' @ e else e))"

fun float_repr :: "pyfloat \<Rightarrow> string" where
  "float_repr NaN = ''nan''"
| "float_repr PInf = ''inf''"
| "float_repr NInf = ''-inf''"
| "float_repr (Fin q) =
     (if q = 0 then ''0.0''
      else let (ds, e) = shortest \<bar>q\<bar>; ds' = strip_zeros ds
           in (if q < 0 then ''-'' else []) @ float_digits ds' (int (length ds) + e))"

section \<open>Text of a value\<close>

text \<open>\<open>repr(v)\<close> and \<open>str(v)\<close>: text is quoted with double quotes only when it holds a single quote
  and no double quote; of the code points below 256, the controls, DEL to NBSP and the soft
  hyphen are escaped.\<close>

definition hex_digit :: "nat \<Rightarrow> char" where
  "hex_digit d = ''0123456789abcdef'' ! d"

definition repr_char :: "char \<Rightarrow> char \<Rightarrow> string" where
  "repr_char q c =
     (let n = of_char c :: nat in
      if c = q \<or> c = CHR 0x5C then [CHR 0x5C, c]
      else if c = CHR 0x0A then [CHR 0x5C, CHR ''n'']
      else if c = CHR 0x0D then [CHR 0x5C, CHR ''r'']
      else if c = CHR 0x09 then [CHR 0x5C, CHR ''t'']
      else if n < 32 \<or> 127 \<le> n \<and> n \<le> 160 \<or> n = 173
      then [CHR 0x5C, CHR ''x'', hex_digit (n div 16), hex_digit (n mod 16)]
      else [c])"

definition repr_string :: "string \<Rightarrow> string" where
  "repr_string s =
     (let q = (if CHR 0x27 \<in> set s \<and> CHR 0x22 \<notin> set s then CHR 0x22 else CHR 0x27)
      in [q] @ concat (map (repr_char q) s) @ [q])"

fun join_with :: "string \<Rightarrow> string list \<Rightarrow> string" where
  "join_with sep [] = []"
| "join_with sep [x] = x"
| "join_with sep (x # y # xs) = x @ sep @ join_with sep (y # xs)"

fun py_repr :: "json \<Rightarrow> string" where
  "py_repr JNull = ''None''"
| "py_repr (JBool b) = (if b then ''True'' else ''False'')"
| "py_repr (JInt n) = int_str n"
| "py_repr (JFloat x) = float_repr x"
| "py_repr (JStr s) = repr_string s"
| "py_repr (JList xs) = ''['' @ join_with '', '' (map py_repr xs) @ '']''"
| "py_repr (JObj d) =
     ''{'' @ join_with '', '' (map (\<lambda>(k, v). repr_string k @ '': '' @ py_repr v) d) @ ''}''"

fun py_str :: "json \<Rightarrow> string" where
  "py_str (JStr s) = s"
| "py_str v = py_repr v"

section \<open>Conversions\<close>

text \<open>
  \<open>int(v)\<close>: a float is truncated; a string is parsed: surrounding white space, an optional sign,
  decimal digits with single underscores between them.
\<close>

definition is_space :: "char \<Rightarrow> bool" where
  "is_space c \<longleftrightarrow> (let n = of_char c :: int in
     9 \<le> n \<and> n \<le> 13 \<or> 28 \<le> n \<and> n \<le> 32 \<or> n = 133 \<or> n = 160)"

definition strip :: "string \<Rightarrow> string" where
  "strip s = rev (dropWhile is_space (rev (dropWhile is_space s)))"

fun digits_of :: "string \<Rightarrow> string option" where
  "digits_of [] = None"
| "digits_of [c] = (if is_digit c then Some [c] else None)"
| "digits_of (c # d # cs) =
     (if \<not> is_digit c then None
      else map_option ((#) c) (digits_of (if d = CHR ''_'' then cs else d # cs)))"

definition parse_digits :: "string \<Rightarrow> int res" where
  "parse_digits s =
     (case digits_of s of
        Some ds \<Rightarrow> Inr (str_digits 0 ds)
      | None \<Rightarrow> Inl (ValueError ''invalid literal for int() with base 10''))"

definition parse_int :: "string \<Rightarrow> int res" where
  "parse_int text =
     (case strip text of
        c # cs \<Rightarrow>
          if c = CHR ''-'' then bind_res (parse_digits cs) (\<lambda>n. Inr (- n))
          else if c = CHR ''+'' then parse_digits cs
          else parse_digits (c # cs)
      | [] \<Rightarrow> parse_digits [])"

fun to_int :: "json \<Rightarrow> int res" where
  "to_int (JInt n) = Inr n"
| "to_int (JBool b) = Inr (if b then 1 else 0)"
| "to_int (JFloat (Fin q)) = Inr (if q < 0 then \<lceil>q\<rceil> else \<lfloor>q\<rfloor>)"
| "to_int (JFloat NaN) = Inl (ValueError ''cannot convert float NaN to integer'')"
| "to_int (JFloat _) = Inl OverflowError"
| "to_int (JStr s) = parse_int s"
| "to_int _ = Inl (TypeError ''int() argument'')"

definition span_digits :: "string \<Rightarrow> string \<times> string" where
  "span_digits s = (takeWhile is_digit s, dropWhile is_digit s)"

text \<open>The optional fraction and exponent: their digits and the text after them.\<close>

definition scan_fraction :: "string \<Rightarrow> string option \<times> string" where
  "scan_fraction s =
     (case s of
        c # cs \<Rightarrow> (let (ds, rest) = span_digits cs in
          if c = CHR ''.'' \<and> ds \<noteq> [] then (Some ds, rest) else (None, s))
      | [] \<Rightarrow> (None, s))"

definition scan_exponent :: "string \<Rightarrow> int option \<times> string" where
  "scan_exponent s =
     (case s of
        c # cs \<Rightarrow>
          if c \<noteq> CHR ''e'' \<and> c \<noteq> CHR ''E'' then (None, s)
          else
            let (sign, body) = (case cs of
                  d # ds \<Rightarrow> if d = CHR ''-'' then (- 1, ds) else if d = CHR ''+'' then (1, ds) else (1, cs)
                | [] \<Rightarrow> (1, cs));
                (ds, rest) = span_digits body
            in if ds = [] then (None, s) else (Some (sign * str_digits 0 ds), rest)
      | [] \<Rightarrow> (None, s))"

definition decimal_value :: "int \<Rightarrow> string \<Rightarrow> string \<Rightarrow> int \<Rightarrow> rat" where
  "decimal_value sign ds fs e =
     of_int sign * of_int (str_digits 0 (ds @ fs)) * pow10 (e - int (length fs))"

text \<open>
  \<open>float(v)\<close>: of a number, or of text in the syntax of a float literal, with white space around,
  a sign, underscores between digits, and the names of the infinities and of the NaN.
\<close>

fun drop_underscores :: "string \<Rightarrow> string option" where
  "drop_underscores (c # d # e # cs) =
     (if d = CHR ''_'' then
        (if is_digit c \<and> is_digit e then map_option ((#) c) (drop_underscores (e # cs)) else None)
      else map_option ((#) c) (drop_underscores (d # e # cs)))"
| "drop_underscores cs = (if CHR ''_'' \<in> set cs then None else Some cs)"

definition lower_char :: "char \<Rightarrow> char" where
  "lower_char c = (let n = of_char c :: nat in if 65 \<le> n \<and> n \<le> 90 then char_of (n + 32) else c)"

definition parse_unsigned_float :: "int \<Rightarrow> string \<Rightarrow> pyfloat option" where
  "parse_unsigned_float sign s =
     (let t = map lower_char s in
      if t = ''inf'' \<or> t = ''infinity'' then Some (if sign < 0 then NInf else PInf)
      else if t = ''nan'' then Some NaN
      else
        let (ds, r1) = span_digits s;
            (fs, r2) = (case r1 of c # cs \<Rightarrow> if c = CHR ''.'' then span_digits cs else ([], r1) | [] \<Rightarrow> ([], r1));
            (e, r3) = scan_exponent r2
        in if ds @ fs = [] \<or> r3 \<noteq> [] then None
           else Some (fl (decimal_value sign ds fs (case e of None \<Rightarrow> 0 | Some k \<Rightarrow> k))))"

definition parse_float :: "string \<Rightarrow> pyfloat res" where
  "parse_float text =
     (case Option.bind (drop_underscores (strip text)) (\<lambda>s.
        case s of
          c # cs \<Rightarrow>
            if c = CHR ''-'' then parse_unsigned_float (- 1) cs
            else if c = CHR ''+'' then parse_unsigned_float 1 cs
            else parse_unsigned_float 1 s
        | [] \<Rightarrow> None) of
        Some x \<Rightarrow> Inr x
      | None \<Rightarrow> Inl (ValueError ''could not convert string to float''))"

fun to_float :: "json \<Rightarrow> pyfloat res" where
  "to_float (JInt n) = float_of_int n"
| "to_float (JBool b) = Inr (Fin (if b then 1 else 0))"
| "to_float (JFloat x) = Inr x"
| "to_float (JStr s) = parse_float s"
| "to_float _ = Inl (TypeError ''float() argument'')"

section \<open>Canonical serialisation\<close>

definition escape_char :: "char \<Rightarrow> string" where
  "escape_char c =
     (if c = CHR 0x22 then [CHR 0x5C, CHR 0x22]
      else if c = CHR 0x5C then [CHR 0x5C, CHR 0x5C]
      else if c = CHR 0x0A then [CHR 0x5C, CHR ''n'']
      else if c = CHR 0x0D then [CHR 0x5C, CHR ''r'']
      else if c = CHR 0x09 then [CHR 0x5C, CHR ''t'']
      else if c = CHR 0x0C then [CHR 0x5C, CHR ''f'']
      else if c = CHR 0x08 then [CHR 0x5C, CHR ''b'']
      else if CHR '' '' \<le> c \<and> c \<le> CHR ''~'' then [c]
      else [CHR 0x5C, CHR ''u'', CHR ''0'', CHR ''0'',
            hex_digit (of_char c div 16), hex_digit (of_char c mod 16)])"

definition json_string :: "string \<Rightarrow> string" where
  "json_string s = [CHR 0x22] @ concat (map escape_char s) @ [CHR 0x22]"

fun json_float :: "pyfloat \<Rightarrow> string" where
  "json_float NaN = ''NaN''"
| "json_float PInf = ''Infinity''"
| "json_float NInf = ''-Infinity''"
| "json_float x = float_repr x"

fun json_dumps :: "json \<Rightarrow> string" where
  "json_dumps JNull = ''null''"
| "json_dumps (JBool b) = (if b then ''true'' else ''false'')"
| "json_dumps (JInt n) = int_str n"
| "json_dumps (JFloat x) = json_float x"
| "json_dumps (JStr s) = json_string s"
| "json_dumps (JList xs) = ''['' @ join_with '','' (map json_dumps xs) @ '']''"
| "json_dumps (JObj d) =
     ''{'' @ join_with '',''
       (map (\<lambda>(k, t). json_string k @ '':'' @ t)
         (sort_key fst (map (\<lambda>(k, v). (k, json_dumps v)) d))) @ ''}''"

end
