(* ===== verification/Sha256.thy ===== *)
theory Sha256
  imports Prelude
begin

unbundle bit_operations_syntax

text \<open>
  \<open>hashlib.sha256(data).hexdigest()\<close> (FIPS 180-4), on byte strings given as characters.  The
  digests of cache states, checkpoints and journal entries are computed with it.  No property
  of the hash beyond being a function of its input with 64 hexadecimal digits is used; the
  theorems on tampering end in an explicit collision instead of assuming there is none.
\<close>

type_synonym w32 = "32 word"

text \<open>The round constants and the initial state, in decimal.\<close>

definition sha_k :: "w32 list" where
  "sha_k =
    [1116352408, 1899447441, 3049323471, 3921009573, 961987163, 1508970993, 2453635748,
     2870763221, 3624381080, 310598401, 607225278, 1426881987, 1925078388, 2162078206,
     2614888103, 3248222580, 3835390401, 4022224774, 264347078, 604807628, 770255983,
     1249150122, 1555081692, 1996064986, 2554220882, 2821834349, 2952996808, 3210313671,
     3336571891, 3584528711, 113926993, 338241895, 666307205, 773529912, 1294757372,
     1396182291, 1695183700, 1986661051, 2177026350, 2456956037, 2730485921, 2820302411,
     3259730800, 3345764771, 3516065817, 3600352804, 4094571909, 275423344, 430227734,
     506948616, 659060556, 883997877, 958139571, 1322822218, 1537002063, 1747873779,
     1955562222, 2024104815, 2227730452, 2361852424, 2428436474, 2756734187, 3204031479,
     3329325298]"

definition sha_h0 :: "w32 list" where
  "sha_h0 =
    [1779033703, 3144134277, 1013904242, 2773480762, 1359893119, 2600822924, 528734635,
     1541459225]"

definition w32_of_bytes :: "nat list \<Rightarrow> w32" where
  "w32_of_bytes bs = foldl (\<lambda>w b. push_bit 8 w OR word_of_nat b) 0 bs"

fun chunks :: "nat \<Rightarrow> nat \<Rightarrow> 'a list \<Rightarrow> 'a list list" where
  "chunks 0 k xs = []"
| "chunks (Suc n) k xs = take k xs # chunks n k (drop k xs)"

definition sha_pad :: "nat list \<Rightarrow> nat list" where
  "sha_pad bs =
     (let n = length bs; z = (119 - n mod 64) mod 64; bits = 8 * n
      in bs @ [128] @ replicate z 0 @ map (\<lambda>i. (bits div 256 ^ (7 - i)) mod 256) [0 ..< 8])"

definition sigma0 :: "w32 \<Rightarrow> w32" where
  "sigma0 x = word_rotr 7 x XOR word_rotr 18 x XOR drop_bit 3 x"

definition sigma1 :: "w32 \<Rightarrow> w32" where
  "sigma1 x = word_rotr 17 x XOR word_rotr 19 x XOR drop_bit 10 x"

text \<open>The schedule is kept newest first.\<close>

fun sha_extend :: "nat \<Rightarrow> w32 list \<Rightarrow> w32 list" where
  "sha_extend 0 ws = ws"
| "sha_extend (Suc n) ws =
     sha_extend n ((sigma1 (ws ! 1) + ws ! 6 + sigma0 (ws ! 14) + ws ! 15) # ws)"

definition sha_round :: "w32 list \<Rightarrow> w32 \<times> w32 \<Rightarrow> w32 list" where
  "sha_round st kw =
     (case st of
        [a, b, c, d, e, f, g, h] \<Rightarrow>
          let s1 = word_rotr 6 e XOR word_rotr 11 e XOR word_rotr 25 e;
              ch = (e AND f) XOR (NOT e AND g);
              t1 = h + s1 + ch + fst kw + snd kw;
              s0 = word_rotr 2 a XOR word_rotr 13 a XOR word_rotr 22 a;
              maj = (a AND b) XOR (a AND c) XOR (b AND c)
          in [t1 + s0 + maj, a, b, c, d + t1, e, f, g]
      | _ \<Rightarrow> st)"

definition sha_block :: "w32 list \<Rightarrow> nat list \<Rightarrow> w32 list" where
  "sha_block st bs =
     (let ws = rev (sha_extend 48 (rev (map w32_of_bytes (chunks 16 4 bs))))
      in map2 (+) st (foldl sha_round st (zip sha_k ws)))"

definition hex_of_w32 :: "w32 \<Rightarrow> string" where
  "hex_of_w32 w = map (\<lambda>i. ''0123456789abcdef'' ! unat (drop_bit (4 * (7 - i)) w AND 15)) [0 ..< 8]"

definition sha256 :: "string \<Rightarrow> string" where
  "sha256 s =
     (let bs = sha_pad (map of_char s)
      in concat (map hex_of_w32 (foldl sha_block sha_h0 (chunks (length bs div 64) 64 bs))))"

subsection \<open>The shape of a digest\<close>

lemma length_sha_round: "length st = 8 \<Longrightarrow> length (sha_round st kw) = 8"
  by (auto simp: sha_round_def Let_def numeral_eq_Suc length_Suc_conv)

lemma length_sha_rounds: "length st = 8 \<Longrightarrow> length (foldl sha_round st kws) = 8"
  by (induction kws arbitrary: st) (simp_all add: length_sha_round)

lemma length_sha_block: "length st = 8 \<Longrightarrow> length (sha_block st bs) = 8"
  by (simp add: sha_block_def Let_def length_sha_rounds)

lemma length_sha_blocks: "length st = 8 \<Longrightarrow> length (foldl sha_block st bss) = 8"
  by (induction bss arbitrary: st) (simp_all add: length_sha_block)

lemma length_hex_of_w32: "length (hex_of_w32 w) = 8"
  by (simp add: hex_of_w32_def)

lemma length_sha256: "length (sha256 s) = 64"
proof -
  have "length (concat (map hex_of_w32 ws)) = 8 * length ws" for ws
    by (induction ws) (simp_all add: length_hex_of_w32)
  then show ?thesis
    by (simp add: sha256_def Let_def length_sha_blocks sha_h0_def)
qed

lemma hex_of_w32_digits: "c \<in> set (hex_of_w32 w) \<Longrightarrow> c \<in> set ''0123456789abcdef''"
proof -
  assume "c \<in> set (hex_of_w32 w)"
  then obtain i where c: "c = ''0123456789abcdef'' ! unat (drop_bit (4 * (7 - i)) w AND 15)"
    by (auto simp: hex_of_w32_def)
  have "unat (drop_bit (4 * (7 - i)) w AND 15) \<le> unat (15 :: w32)"
    by (metis word_and_le1 word_le_nat_alt)
  then have "unat (drop_bit (4 * (7 - i)) w AND 15) < length ''0123456789abcdef''" by simp
  then show ?thesis unfolding c by (rule nth_mem)
qed

lemma sha256_digits: "c \<in> set (sha256 s) \<Longrightarrow> c \<in> set ''0123456789abcdef''"
  by (auto simp: sha256_def Let_def dest!: hex_of_w32_digits)

text \<open>Two different texts with one digest.\<close>

definition sha256_collision :: "string \<Rightarrow> string \<Rightarrow> bool" where
  "sha256_collision s t \<longleftrightarrow> s \<noteq> t \<and> sha256 s = sha256 t"

end
