(* ===== verification/CacheModel.thy ===== *)
theory CacheModel
  imports PyJson Sha256
begin

text \<open>
  \<^verbatim>\<open>cacheforge/model.py\<close>: group specifications, request traces, cache blocks, the cache state
  with its snapshot, restore and validation, and the study metrics.

  A \<open>@dataclass\<close> is a record; a \<open>__post_init__\<close> that validates is a constructor function with
  the class's name, returning the record or the \<open>ValueError\<close>.
\<close>

named_theorems cache_defs \<open>definitions of the cache operations\<close>

section \<open>Specifications and traces\<close>

record group_spec =
  gs_name :: string
  gs_mode :: string
  gs_window_blocks :: "int option"

definition GroupSpec :: "string \<Rightarrow> string \<Rightarrow> int option \<Rightarrow> group_spec res" where
  "GroupSpec name mode window_blocks =
     (if mode \<notin> {''full'', ''sliding''} then
        Inl (ValueError (''unsupported group mode: '' @ mode))
      else if mode = ''sliding'' \<and>
              (case window_blocks of None \<Rightarrow> True | Some w \<Rightarrow> w < 1) then
        Inl (ValueError ''sliding groups require a positive window_blocks value'')
      else if mode = ''full'' \<and> window_blocks \<noteq> None then
        Inl (ValueError ''full groups must not define window_blocks'')
      else Inr \<lparr>gs_name = name, gs_mode = mode, gs_window_blocks = window_blocks\<rparr>)"

record request_trace =
  rt_request_id :: string
  rt_prompt_blocks :: "string list"
  rt_generated_blocks :: int
  rt_priority :: int
  rt_cancel_after_generated :: "int option"

definition RequestTrace ::
  "string \<Rightarrow> string list \<Rightarrow> int \<Rightarrow> int \<Rightarrow> int option \<Rightarrow> request_trace res" where
  "RequestTrace request_id prompt_blocks generated_blocks priority cancel_after_generated =
     (if request_id = [] then Inl (ValueError ''request_id must not be empty'')
      else if prompt_blocks = [] then Inl (ValueError ''prompt_blocks must not be empty'')
      else if generated_blocks < 0 then
        Inl (ValueError ''generated_blocks must be non-negative'')
      else if priority < 0 then Inl (ValueError ''priority must be non-negative'')
      else if (case cancel_after_generated of None \<Rightarrow> False
               | Some c \<Rightarrow> c < 0 \<or> generated_blocks < c) then
        Inl (ValueError ''cancel_after_generated is outside the generated block range'')
      else Inr \<lparr>rt_request_id = request_id, rt_prompt_blocks = prompt_blocks,
                rt_generated_blocks = generated_blocks, rt_priority = priority,
                rt_cancel_after_generated = cancel_after_generated\<rparr>)"

section \<open>Blocks and state\<close>

record cache_block =
  cb_block_id :: int
  cb_group :: string
  cb_key :: string
  cb_kind :: string
  cb_shared :: bool
  cb_created_at :: int
  cb_last_used :: int
  cb_reuse_count :: int
  cb_owners :: "string set"

definition block_to_json :: "cache_block \<Rightarrow> json" where
  "block_to_json b = JObj
     [(''block_id'', JInt (cb_block_id b)), (''group'', JStr (cb_group b)),
      (''key'', JStr (cb_key b)), (''kind'', JStr (cb_kind b)), (''shared'', JBool (cb_shared b)),
      (''created_at'', JInt (cb_created_at b)), (''last_used'', JInt (cb_last_used b)),
      (''reuse_count'', JInt (cb_reuse_count b)),
      (''owners'', JList (map JStr (sorted_list_of_set (cb_owners b))))]"

text \<open>\<open>CacheBlock.from_json\<close>: \<open>str(v)\<close>, \<open>for x in v\<close> and \<open>payload[k]\<close> on decoded JSON.\<close>

definition as_str :: "json \<Rightarrow> string res" where
  "as_str v = Inr (py_str v)"

definition as_list :: "json \<Rightarrow> json list res" where
  "as_list v = (case v of JList xs \<Rightarrow> Inr xs | JStr s \<Rightarrow> Inr (map (\<lambda>c. JStr [c]) s)
     | JObj d \<Rightarrow> Inr (map (JStr \<circ> fst) d) | _ \<Rightarrow> Inl (TypeError ''not iterable''))"

definition as_obj :: "json \<Rightarrow> obj res" where
  "as_obj v = (case v of JObj d \<Rightarrow> Inr d | _ \<Rightarrow> Inl (TypeError ''not subscriptable by a key''))"

definition block_from_json :: "json \<Rightarrow> cache_block res" where
  "block_from_json raw =
     bind_res (as_obj raw) (\<lambda>payload.
     bind_res (bind_res (obj_at payload ''block_id'') to_int) (\<lambda>block_id.
     bind_res (bind_res (obj_at payload ''group'') as_str) (\<lambda>group.
     bind_res (bind_res (obj_at payload ''key'') as_str) (\<lambda>key.
     bind_res (bind_res (obj_at payload ''kind'') as_str) (\<lambda>kind.
     bind_res (obj_at payload ''shared'') (\<lambda>shared.
     bind_res (bind_res (obj_at payload ''created_at'') to_int) (\<lambda>created_at.
     bind_res (bind_res (obj_at payload ''last_used'') to_int) (\<lambda>last_used.
     bind_res (bind_res (obj_at payload ''reuse_count'') to_int) (\<lambda>reuse_count.
     bind_res (bind_res (obj_at payload ''owners'') as_list) (\<lambda>raw_owners.
     bind_res (map_res as_str raw_owners) (\<lambda>owners.
       Inr \<lparr>cb_block_id = block_id, cb_group = group, cb_key = key, cb_kind = kind,
            cb_shared = truthy shared, cb_created_at = created_at, cb_last_used = last_used,
            cb_reuse_count = reuse_count, cb_owners = set owners\<rparr>)))))))))))"

record cache_state =
  cs_capacity_blocks :: int
  cs_clock :: int
  cs_next_block_id :: int
  cs_blocks :: "(int, cache_block) dict"
  cs_key_index :: "(string \<times> string, int) dict"

text \<open>\<open>CacheState(capacity_blocks, clock, next_block_id)\<close>\<close>

definition CacheState :: "int \<Rightarrow> int \<Rightarrow> int \<Rightarrow> cache_state res" where
  "CacheState capacity_blocks clock next_block_id =
     (if capacity_blocks < 1 then Inl (ValueError ''capacity_blocks must be positive'')
      else Inr \<lparr>cs_capacity_blocks = capacity_blocks, cs_clock = clock,
                cs_next_block_id = next_block_id, cs_blocks = [], cs_key_index = []\<rparr>)"

definition tick :: "cache_state \<Rightarrow> cache_state" where
  "tick s = s\<lparr>cs_clock := cs_clock s + 1\<rparr>"

definition snapshot :: "cache_state \<Rightarrow> json" where
  "snapshot s = JObj
     [(''capacity_blocks'', JInt (cs_capacity_blocks s)), (''clock'', JInt (cs_clock s)),
      (''next_block_id'', JInt (cs_next_block_id s)),
      (''blocks'', JList (map (\<lambda>(_, b). block_to_json b) (sort_key fst (cs_blocks s))))]"

definition state_digest :: "cache_state \<Rightarrow> string" where
  "state_digest s = sha256 (json_dumps (snapshot s))"

definition block_identity :: "cache_block \<Rightarrow> string \<times> string" where
  "block_identity b = (cb_group b, cb_key b)"

text \<open>The body of the loop of \<open>validate\<close>, on one item of \<open>blocks\<close>.\<close>

definition validate_block ::
  "cache_state \<Rightarrow> (string \<times> string) set \<Rightarrow> int \<times> cache_block \<Rightarrow> (string \<times> string) set res" where
  "validate_block s seen_keys item =
     (let block_id = fst item; block = snd item; identity = block_identity block in
      if block_id \<noteq> cb_block_id block then Inl (ValueError ''block id mismatch'')
      else if identity \<in> seen_keys then Inl (ValueError ''duplicate cache identity'')
      else if dict_get (cs_key_index s) identity \<noteq> Some block_id then
        Inl (ValueError ''key index points to the wrong block'')
      else if cb_kind block \<notin> {''prompt'', ''generated''} then
        Inl (ValueError ''unsupported block kind'')
      else if cb_last_used block < cb_created_at block \<or> cs_clock s < cb_last_used block then
        Inl (ValueError ''invalid block timestamps'')
      else if cb_reuse_count block < 0 then Inl (ValueError ''negative reuse count'')
      else Inr (insert identity seen_keys))"

definition validate :: "cache_state \<Rightarrow> unit res" where
  "validate s =
     (if cs_capacity_blocks s < int (length (cs_blocks s)) then
        Inl (ValueError ''cache capacity exceeded'')
      else if length (cs_key_index s) \<noteq> length (cs_blocks s) then
        Inl (ValueError ''key index cardinality mismatch'')
      else bind_res (fold_res (validate_block s) {} (cs_blocks s)) (\<lambda>_.
        if cs_next_block_id s < 0 then Inl (ValueError ''invalid next block id'')
        else Inr ()))"

definition restore_block :: "cache_state \<Rightarrow> json \<Rightarrow> cache_state res" where
  "restore_block s raw_block =
     bind_res (block_from_json raw_block) (\<lambda>b.
       Inr (s\<lparr>cs_blocks := dict_set (cb_block_id b) b (cs_blocks s),
              cs_key_index := dict_set (block_identity b) (cb_block_id b) (cs_key_index s)\<rparr>))"

definition restore :: "json \<Rightarrow> cache_state res" where
  "restore raw =
     bind_res (as_obj raw) (\<lambda>payload.
     bind_res (bind_res (obj_at payload ''capacity_blocks'') to_int) (\<lambda>capacity_blocks.
     bind_res (bind_res (obj_at payload ''clock'') to_int) (\<lambda>clock.
     bind_res (bind_res (obj_at payload ''next_block_id'') to_int) (\<lambda>next_block_id.
     bind_res (CacheState capacity_blocks clock next_block_id) (\<lambda>s0.
     bind_res (bind_res (obj_at payload ''blocks'') as_list) (\<lambda>raw_blocks.
     bind_res (fold_res restore_block s0 raw_blocks) (\<lambda>s.
     bind_res (validate s) (\<lambda>_. Inr s))))))))"

section \<open>Metrics\<close>

record study_metrics =
  sm_requests :: int
  sm_cancelled_requests :: int
  sm_hits :: int
  sm_misses :: int
  sm_evictions :: int
  sm_recomputed_blocks :: int
  sm_planner_calls :: int
  sm_planner_candidates_inspected :: int
  sm_rejected_proposals :: int
  sm_fallback_uses :: int
  sm_peak_resident_blocks :: int

definition StudyMetrics :: study_metrics where
  "StudyMetrics = \<lparr>sm_requests = 0, sm_cancelled_requests = 0, sm_hits = 0, sm_misses = 0,
     sm_evictions = 0, sm_recomputed_blocks = 0, sm_planner_calls = 0,
     sm_planner_candidates_inspected = 0, sm_rejected_proposals = 0, sm_fallback_uses = 0,
     sm_peak_resident_blocks = 0\<rparr>"

definition merge_metrics :: "study_metrics \<Rightarrow> study_metrics \<Rightarrow> study_metrics" where
  "merge_metrics m n =
     \<lparr>sm_requests = sm_requests m + sm_requests n,
      sm_cancelled_requests = sm_cancelled_requests m + sm_cancelled_requests n,
      sm_hits = sm_hits m + sm_hits n,
      sm_misses = sm_misses m + sm_misses n,
      sm_evictions = sm_evictions m + sm_evictions n,
      sm_recomputed_blocks = sm_recomputed_blocks m + sm_recomputed_blocks n,
      sm_planner_calls = sm_planner_calls m + sm_planner_calls n,
      sm_planner_candidates_inspected =
        sm_planner_candidates_inspected m + sm_planner_candidates_inspected n,
      sm_rejected_proposals = sm_rejected_proposals m + sm_rejected_proposals n,
      sm_fallback_uses = sm_fallback_uses m + sm_fallback_uses n,
      sm_peak_resident_blocks = sm_peak_resident_blocks m + sm_peak_resident_blocks n\<rparr>"

text \<open>\<open>to_json\<close>: the counters, and the two derived rates.\<close>

record metrics_json =
  mj_counters :: study_metrics
  mj_hit_rate :: pyfloat
  mj_recomputed_blocks_per_request :: pyfloat

definition metrics_to_json :: "study_metrics \<Rightarrow> metrics_json res" where
  "metrics_to_json m =
     (let requests = max (sm_requests m) 1; accesses = sm_hits m + sm_misses m in
      bind_res (if accesses \<noteq> 0 then
                  bind_res (int_div (sm_hits m) accesses) (\<lambda>r. Inr (round_digits 6 r))
                else Inr (Fin 0)) (\<lambda>hit_rate.
      bind_res (int_div (sm_recomputed_blocks m) requests) (\<lambda>per_request.
        Inr \<lparr>mj_counters = m, mj_hit_rate = hit_rate,
             mj_recomputed_blocks_per_request = round_digits 6 per_request\<rparr>)))"

section \<open>The state invariant\<close>

text \<open>
  \<open>block_valid\<close> and \<open>state_valid\<close> say what \<open>validate\<close> accepts, without a loop.  \<open>cache_inv\<close>
  is the invariant the operations keep: it also says that the two dictionaries have distinct
  keys, that every identifier was handed out (is below \<open>next_block_id\<close>), which \<open>validate\<close> does
  not look at, and that owner sets are finite.
\<close>

definition block_valid :: "cache_state \<Rightarrow> int \<Rightarrow> cache_block \<Rightarrow> bool" where
  "block_valid s i b \<longleftrightarrow>
     cb_block_id b = i \<and> dict_get (cs_key_index s) (block_identity b) = Some i \<and>
     cb_kind b \<in> {''prompt'', ''generated''} \<and>
     cb_created_at b \<le> cb_last_used b \<and> cb_last_used b \<le> cs_clock s \<and> 0 \<le> cb_reuse_count b"

definition state_valid :: "cache_state \<Rightarrow> bool" where
  "state_valid s \<longleftrightarrow>
     int (length (cs_blocks s)) \<le> cs_capacity_blocks s \<and>
     length (cs_key_index s) = length (cs_blocks s) \<and>
     (\<forall>i b. dict_get (cs_blocks s) i = Some b \<longrightarrow> block_valid s i b) \<and>
     0 \<le> cs_next_block_id s"

definition cache_inv :: "cache_state \<Rightarrow> bool" where
  "cache_inv s \<longleftrightarrow>
     dict_wf (cs_blocks s) \<and> dict_wf (cs_key_index s) \<and> 1 \<le> cs_capacity_blocks s \<and>
     int (length (cs_blocks s)) \<le> cs_capacity_blocks s \<and> 0 \<le> cs_next_block_id s \<and>
     (\<forall>i b. dict_get (cs_blocks s) i = Some b \<longrightarrow>
        block_valid s i b \<and> i < cs_next_block_id s \<and> finite (cb_owners b)) \<and>
     (\<forall>k i. dict_get (cs_key_index s) k = Some i \<longrightarrow>
        (\<exists>b. dict_get (cs_blocks s) i = Some b \<and> block_identity b = k))"

lemma cache_invD:
  assumes "cache_inv s"
  shows "dict_wf (cs_blocks s)" "dict_wf (cs_key_index s)" "1 \<le> cs_capacity_blocks s"
    and "int (length (cs_blocks s)) \<le> cs_capacity_blocks s" "0 \<le> cs_next_block_id s"
    and "dict_get (cs_blocks s) i = Some b \<Longrightarrow> block_valid s i b"
    and "dict_get (cs_blocks s) i = Some b \<Longrightarrow> i < cs_next_block_id s"
    and "dict_get (cs_blocks s) i = Some b \<Longrightarrow> finite (cb_owners b)"
    and "dict_get (cs_key_index s) k = Some j \<Longrightarrow>
           \<exists>b. dict_get (cs_blocks s) j = Some b \<and> block_identity b = k"
  using assms unfolding cache_inv_def by blast+

lemma block_validD:
  assumes "block_valid s i b"
  shows "cb_block_id b = i" "dict_get (cs_key_index s) (block_identity b) = Some i"
    and "cb_kind b \<in> {''prompt'', ''generated''}" "cb_created_at b \<le> cb_last_used b"
    and "cb_last_used b \<le> cs_clock s" "0 \<le> cb_reuse_count b"
  using assms by (simp_all add: block_valid_def)

subsection \<open>What the validation loop decides\<close>

lemma validate_block_ok:
  "validate_block s seen (i, b) = Inr seen' \<longleftrightarrow>
     block_valid s i b \<and> block_identity b \<notin> seen \<and> seen' = insert (block_identity b) seen"
  by (auto simp: validate_block_def block_valid_def Let_def)

lemma validate_loop_ok:
  "fold_res (validate_block s) seen items = Inr seen' \<longleftrightarrow>
     (\<forall>(i, b) \<in> set items. block_valid s i b) \<and>
     distinct (map (block_identity \<circ> snd) items) \<and>
     seen \<inter> block_identity ` snd ` set items = {} \<and>
     seen' = seen \<union> block_identity ` snd ` set items"
proof (induction items arbitrary: seen)
  case Nil
  then show ?case by auto
next
  case (Cons item items)
  obtain i b where [simp]: "item = (i, b)" by fastforce
  show ?case
    by (auto simp: bind_res_eq_Inr validate_block_ok Cons.IH)
qed

text \<open>Blocks whose identities the index maps back to their identifiers have distinct identities.\<close>

lemma identities_distinct:
  assumes "dict_wf items" and "\<forall>(i, b) \<in> set items. block_valid s i b"
  shows "distinct (map (block_identity \<circ> snd) items)"
  using assms
proof (induction items)
  case Nil
  then show ?case by simp
next
  case (Cons item items)
  obtain i b where item [simp]: "item = (i, b)" by fastforce
  have "block_identity b \<noteq> block_identity c" if "(j, c) \<in> set items" for j c
  proof
    assume eq: "block_identity b = block_identity c"
    from Cons.prems(2) that have "block_valid s i b" "block_valid s j c" by auto
    then have "i = j" using eq by (auto dest!: block_validD(2))
    with Cons.prems(1) that show False by force
  qed
  then have "block_identity b \<notin> (block_identity \<circ> snd) ` set items" by fastforce
  with Cons show ?case by auto
qed

lemma validate_iff:
  assumes "dict_wf (cs_blocks s)"
  shows "validate s = Inr () \<longleftrightarrow> state_valid s"
proof -
  have all: "(\<forall>(i, b) \<in> set (cs_blocks s). block_valid s i b) \<longleftrightarrow>
      (\<forall>i b. dict_get (cs_blocks s) i = Some b \<longrightarrow> block_valid s i b)"
    by (simp add: Ball_def split_paired_All in_set_dict_get [OF assms])
  have "(\<exists>seen. fold_res (validate_block s) {} (cs_blocks s) = Inr seen) \<longleftrightarrow>
      (\<forall>(i, b) \<in> set (cs_blocks s). block_valid s i b)"
    using identities_distinct [OF assms, of s] by (auto simp: validate_loop_ok)
  then show ?thesis
    unfolding validate_def state_valid_def all [symmetric] by (auto simp: bind_res_eq_Inr)
qed

lemma index_size:
  assumes "cache_inv s"
  shows "length (cs_key_index s) = length (cs_blocks s)"
proof -
  note inv = cache_invD [OF assms]
  let ?ident = "\<lambda>i. block_identity (the (dict_get (cs_blocks s) i))"
  have "bij_betw ?ident (set (dict_keys (cs_blocks s))) (set (dict_keys (cs_key_index s)))"
  proof (rule bij_betw_imageI)
    show "inj_on ?ident (set (dict_keys (cs_blocks s)))"
    proof (rule inj_onI)
      fix i j
      assume "i \<in> set (dict_keys (cs_blocks s))" and "j \<in> set (dict_keys (cs_blocks s))"
        and eq: "?ident i = ?ident j"
      then obtain b c where "dict_get (cs_blocks s) i = Some b" "dict_get (cs_blocks s) j = Some c"
        using dict_key_get by metis
      with eq inv(6) have "block_valid s i b" "block_valid s j c" "block_identity b = block_identity c"
        by auto
      then show "i = j" by (auto dest!: block_validD(2))
    qed
    show "?ident ` set (dict_keys (cs_blocks s)) = set (dict_keys (cs_key_index s))"
    proof (intro equalityI subsetI)
      fix k assume "k \<in> ?ident ` set (dict_keys (cs_blocks s))"
      then obtain i where i: "i \<in> set (dict_keys (cs_blocks s))" and k: "k = ?ident i" by blast
      from dict_key_get [OF i] obtain b where b: "dict_get (cs_blocks s) i = Some b" ..
      with k have "k = block_identity b" by simp
      with block_validD(2) [OF inv(6) [OF b]] have "dict_get (cs_key_index s) k = Some i" by simp
      then show "k \<in> set (dict_keys (cs_key_index s))" by (rule dict_get_in_keys)
    next
      fix k assume "k \<in> set (dict_keys (cs_key_index s))"
      then obtain i where "dict_get (cs_key_index s) k = Some i" using dict_key_get by metis
      with inv(9) obtain b where "dict_get (cs_blocks s) i = Some b" "block_identity b = k" by blast
      then show "k \<in> ?ident ` set (dict_keys (cs_blocks s))"
        by (intro image_eqI [of _ _ i]) (auto dest: dict_get_in_keys)
    qed
  qed
  then have "card (set (dict_keys (cs_blocks s))) = card (set (dict_keys (cs_key_index s)))"
    by (rule bij_betw_same_card)
  with inv(1,2) show ?thesis by (metis distinct_card length_map)
qed

lemma cache_inv_state_valid: "cache_inv s \<Longrightarrow> state_valid s"
  by (simp add: state_valid_def index_size cache_invD)

lemma cache_inv_validate: "cache_inv s \<Longrightarrow> validate s = Inr ()"
  by (simp add: validate_iff cache_invD cache_inv_state_valid)

lemma CacheState_inv: "CacheState c 0 0 = Inr s \<Longrightarrow> cache_inv s"
  by (auto simp: CacheState_def cache_inv_def split: if_splits)

end
