(* ===== verification/CachePolicies.thy ===== *)
theory CachePolicies
  imports CacheModel
begin

unbundle bit_operations_syntax

text \<open>
  The eviction policies: \<^verbatim>\<open>cacheforge/policies.py\<close> and the machine-generated
  \<^verbatim>\<open>machine/generated_policy.py\<close> with the generator of its table,
  \<^verbatim>\<open>tools/generate_policy.py\<close>.

  A policy proposes victims for a state and a required number, with the number of candidates it
  inspected.  The locale \<open>eviction_policy\<close> is the contract of the class \<open>EvictionPolicy\<close> as the
  authority relies on it; the four real policies interpret it.  The two \<open>Invalid..\<close> policies
  exist to break the contract and are shown to.
\<close>

section \<open>The policies\<close>

record policy =
  policy_id :: string
  propose :: "cache_state \<Rightarrow> int \<Rightarrow> int list \<times> int"

definition evictable :: "cache_state \<Rightarrow> cache_block list" where
  "evictable s = filter (\<lambda>b. cb_owners b = {}) (dict_values (cs_blocks s))"

text \<open>The common tail of the sorting policies: the first \<open>required\<close> candidates by rank.\<close>

definition propose_ranked ::
  "(cache_block \<Rightarrow> 'k :: linorder) \<Rightarrow> cache_state \<Rightarrow> int \<Rightarrow> int list \<times> int" where
  "propose_ranked rank s required =
     (let candidates = sort_key rank (evictable s)
      in (map cb_block_id (slice_to candidates required), int (length candidates)))"

definition fifo_rank :: "cache_block \<Rightarrow> int \<times> int" where
  "fifo_rank b = (cb_created_at b, cb_block_id b)"

definition ReferenceFIFO :: policy where
  "ReferenceFIFO = \<lparr>policy_id = ''cacheforge.reference.fifo.v1'', propose = propose_ranked fifo_rank\<rparr>"

definition lru_rank :: "cache_block \<Rightarrow> int \<times> int" where
  "lru_rank b = (cb_last_used b, cb_block_id b)"

definition ReferenceLRU :: policy where
  "ReferenceLRU = \<lparr>policy_id = ''cacheforge.baseline.lru.v1'', propose = propose_ranked lru_rank\<rparr>"

definition segmented_rank :: "cache_block \<Rightarrow> int \<times> int \<times> int" where
  "segmented_rank b =
     ((if cb_kind b = ''generated'' then 0 else 1), cb_last_used b, cb_block_id b)"

definition SegmentedLRU :: policy where
  "SegmentedLRU = \<lparr>policy_id = ''cacheforge.readable.segmented-lru.v1'',
     propose = propose_ranked segmented_rank\<rparr>"

definition propose_duplicate :: "cache_state \<Rightarrow> int \<Rightarrow> int list \<times> int" where
  "propose_duplicate s required =
     (case evictable s of
        [] \<Rightarrow> ([], 0)
      | c # cs \<Rightarrow> (replicate (nat (max required 2)) (cb_block_id c), int (length (c # cs))))"

definition InvalidDuplicatePolicy :: policy where
  "InvalidDuplicatePolicy =
     \<lparr>policy_id = ''cacheforge.mutation.duplicate-victim'', propose = propose_duplicate\<rparr>"

definition propose_unknown :: "cache_state \<Rightarrow> int \<Rightarrow> int list \<times> int" where
  "propose_unknown s required =
     (map (\<lambda>index. cs_next_block_id s + 1000 + int index) [0 ..< nat required],
      int (length (cs_blocks s)))"

definition InvalidUnknownPolicy :: policy where
  "InvalidUnknownPolicy =
     \<lparr>policy_id = ''cacheforge.mutation.unknown-victim'', propose = propose_unknown\<rparr>"

section \<open>The generated policy\<close>

definition RECENT_AGE_THRESHOLD :: int where
  "RECENT_AGE_THRESHOLD = 3"

definition EVICTION_RANK :: "int list" where
  "EVICTION_RANK =
    [100, 70, 10, -20, 50, 20, -40, -70, 120, 90, 30, 0, 70, 40, -20, -50,
     90, 60, 0, -30, 40, 10, -50, -80, 110, 80, 20, -10, 60, 30, -30, -60,
     170, 140, 80, 50, 120, 90, 30, 0, 190, 160, 100, 70, 140, 110, 50, 20,
     160, 130, 70, 40, 110, 80, 20, -10, 180, 150, 90, 60, 130, 100, 40, 10]"

definition feature_mask :: "cache_block \<Rightarrow> int \<Rightarrow> int" where
  "feature_mask b clock =
     of_bool (cb_kind b = ''prompt'')
     OR push_bit 1 (of_bool (cb_shared b))
     OR push_bit 2 (of_bool (2 \<le> cb_reuse_count b))
     OR push_bit 3 (of_bool (cb_group b = ''sliding''))
     OR push_bit 4 (of_bool (clock - cb_last_used b \<le> RECENT_AGE_THRESHOLD))
     OR push_bit 5 (of_bool (cb_kind b = ''generated''))"

definition generated_rank :: "int \<Rightarrow> cache_block \<Rightarrow> int \<times> int \<times> int" where
  "generated_rank clock b =
     (- (EVICTION_RANK ! nat (feature_mask b clock)), cb_last_used b, cb_block_id b)"

definition GeneratedEvictionPolicy :: policy where
  "GeneratedEvictionPolicy = \<lparr>policy_id = ''cacheforge.machine.eviction-table.v1'',
     propose = (\<lambda>s. propose_ranked (generated_rank (cs_clock s)) s)\<rparr>"

text \<open>The table the generator renders from a specification: for each mask the base rank and the
  weights of the features whose bit is set.\<close>

record policy_spec =
  ps_base_rank :: int
  ps_features :: "string list"
  ps_weights :: "(string, int) dict"

definition render_rank :: "policy_spec \<Rightarrow> int \<Rightarrow> int res" where
  "render_rank spec msk =
     fold_res (\<lambda>rank (index, feature).
         if msk AND push_bit index 1 \<noteq> 0
         then bind_res (dict_at feature (ps_weights spec) feature) (\<lambda>w. Inr (rank + w))
         else Inr rank)
       (ps_base_rank spec) (zip [0 ..< length (ps_features spec)] (ps_features spec))"

definition render_table :: "policy_spec \<Rightarrow> int list res" where
  "render_table spec =
     map_res (render_rank spec) (map int [0 ..< 2 ^ length (ps_features spec)])"

text \<open>The committed specification, \<^verbatim>\<open>generator/policy-spec.json\<close>.\<close>

definition committed_spec :: policy_spec where
  "committed_spec = \<lparr>ps_base_rank = 100,
     ps_features = [''prompt'', ''shared_prefix'', ''hot_reuse'', ''sliding_group'', ''recent'', ''generated''],
     ps_weights = [(''prompt'', -30), (''shared_prefix'', -90), (''hot_reuse'', -50),
                   (''sliding_group'', 20), (''recent'', -10), (''generated'', 70)]\<rparr>"

section \<open>The contract of a policy\<close>

text \<open>
  What the authority may expect of a policy on a consistent state: as many victims as asked for
  if there are as many candidates, all different, all resident and free of owners.
\<close>

locale eviction_policy =
  fixes plan :: "cache_state \<Rightarrow> int \<Rightarrow> int list \<times> int"
  assumes length_plan: "cache_inv s \<Longrightarrow> 0 \<le> n \<Longrightarrow>
      length (fst (plan s n)) = min (nat n) (length (evictable s))"
    and distinct_plan: "cache_inv s \<Longrightarrow> 0 \<le> n \<Longrightarrow> distinct (fst (plan s n))"
    and free_plan: "cache_inv s \<Longrightarrow> 0 \<le> n \<Longrightarrow> i \<in> set (fst (plan s n)) \<Longrightarrow>
      \<exists>b. dict_get (cs_blocks s) i = Some b \<and> cb_owners b = {}"

text \<open>A policy with a rank: whoever is chosen ranks no higher than whoever is left.\<close>

locale ranked_policy = eviction_policy plan
  for plan :: "cache_state \<Rightarrow> int \<Rightarrow> int list \<times> int" +
  fixes rank :: "cache_state \<Rightarrow> cache_block \<Rightarrow> 'k :: linorder"
  assumes least_plan: "cache_inv s \<Longrightarrow> 0 \<le> n \<Longrightarrow> i \<in> set (fst (plan s n)) \<Longrightarrow>
      dict_get (cs_blocks s) i = Some b \<Longrightarrow> c \<in> set (evictable s) \<Longrightarrow>
      cb_block_id c \<notin> set (fst (plan s n)) \<Longrightarrow> rank s b \<le> rank s c"
begin

text \<open>So a block is never chosen while a block of strictly lower rank is left.\<close>

lemma spared:
  assumes "cache_inv s" and "0 \<le> n" and "dict_get (cs_blocks s) i = Some b"
    and "c \<in> set (evictable s)" and "cb_block_id c \<notin> set (fst (plan s n))"
    and "rank s c < rank s b"
  shows "i \<notin> set (fst (plan s n))"
  using least_plan [OF assms(1,2) _ assms(3-5)] assms(6) by force

end

lemma evictable_iff:
  assumes "cache_inv s"
  shows "b \<in> set (evictable s) \<longleftrightarrow>
    dict_get (cs_blocks s) (cb_block_id b) = Some b \<and> cb_owners b = {}"
proof -
  have "b \<in> snd ` set (cs_blocks s) \<longleftrightarrow> dict_get (cs_blocks s) (cb_block_id b) = Some b"
    (is "?in \<longleftrightarrow> ?get")
  proof
    assume ?in
    then obtain i where i: "dict_get (cs_blocks s) i = Some b"
      using cache_invD(1) [OF assms] by (auto simp: in_set_dict_get)
    with block_validD(1) [OF cache_invD(6) [OF assms i]] show ?get by simp
  next
    assume ?get
    then show ?in by (force dest: map_of_SomeD)
  qed
  then show ?thesis by (auto simp: evictable_def)
qed

lemma block_ids_distinct:
  assumes "cache_inv s"
  shows "map cb_block_id (dict_values (cs_blocks s)) = dict_keys (cs_blocks s)"
proof -
  have "cb_block_id (snd p) = fst p" if "p \<in> set (cs_blocks s)" for p
  proof -
    have "dict_get (cs_blocks s) (fst p) = Some (snd p)"
      using that cache_invD(1) [OF assms] in_set_dict_get by fastforce
    then show ?thesis using cache_invD(6) [OF assms] block_validD(1) by blast
  qed
  then show ?thesis by simp
qed

lemma evictable_ids_distinct:
  assumes "cache_inv s"
  shows "distinct (map cb_block_id (evictable s))"
  using block_ids_distinct [OF assms] cache_invD(1) [OF assms]
  by (metis evictable_def distinct_map_filter)

lemma propose_ranked_fst:
  "fst (propose_ranked rank s n) = map cb_block_id (slice_to (sort_key rank (evictable s)) n)"
  by (simp add: propose_ranked_def Let_def)

lemma propose_ranked_contract:
  "ranked_policy (\<lambda>s. propose_ranked (rank s) s) rank"
proof unfold_locales
  fix s and n :: int
  assume inv: "cache_inv s" and n: "0 \<le> n"
  let ?sorted = "sort_key (rank s) (evictable s)"
  have chosen: "fst (propose_ranked (rank s) s n) = map cb_block_id (take (nat n) ?sorted)"
    using n by (simp add: propose_ranked_fst slice_to_def)
  have dist: "distinct (map cb_block_id ?sorted)"
    using evictable_ids_distinct [OF inv]
    by (metis distinct_map distinct_sort set_sort)
  show "length (fst (propose_ranked (rank s) s n)) = min (nat n) (length (evictable s))"
    unfolding chosen by simp
  show "distinct (fst (propose_ranked (rank s) s n))"
    unfolding chosen using dist by (metis distinct_take take_map)
  fix i
  assume i: "i \<in> set (fst (propose_ranked (rank s) s n))"
  then obtain v where v: "v \<in> set (take (nat n) ?sorted)" and vi: "cb_block_id v = i"
    unfolding chosen by auto
  then have vin: "v \<in> set (evictable s)" by (metis in_set_takeD set_sort)
  then have get_v: "dict_get (cs_blocks s) i = Some v \<and> cb_owners v = {}"
    using evictable_iff [OF inv] vi by blast
  then show "\<exists>b. dict_get (cs_blocks s) i = Some b \<and> cb_owners b = {}" ..
  fix b c
  assume b: "dict_get (cs_blocks s) i = Some b" and c: "c \<in> set (evictable s)"
    and left: "cb_block_id c \<notin> set (fst (propose_ranked (rank s) s n))"
  have "b = v" using b get_v by simp
  have "c \<in> set (drop (nat n) ?sorted)"
    using c left unfolding chosen
    by (metis Un_iff append_take_drop_id image_eqI list.set_map set_append set_sort)
  moreover have "sorted (map (rank s) (take (nat n) ?sorted) @ map (rank s) (drop (nat n) ?sorted))"
    by (metis append_take_drop_id map_append sorted_sort_key)
  ultimately show "rank s b \<le> rank s c"
    using v \<open>b = v\<close> by (auto simp: sorted_append)
qed

interpretation fifo: ranked_policy "propose ReferenceFIFO" "\<lambda>_. fifo_rank"
  using propose_ranked_contract [of "\<lambda>_. fifo_rank"] by (simp add: ReferenceFIFO_def)

interpretation lru: ranked_policy "propose ReferenceLRU" "\<lambda>_. lru_rank"
  using propose_ranked_contract [of "\<lambda>_. lru_rank"] by (simp add: ReferenceLRU_def)

interpretation segmented: ranked_policy "propose SegmentedLRU" "\<lambda>_. segmented_rank"
  using propose_ranked_contract [of "\<lambda>_. segmented_rank"] by (simp add: SegmentedLRU_def)

interpretation generated: ranked_policy "propose GeneratedEvictionPolicy"
  "\<lambda>s. generated_rank (cs_clock s)"
  using propose_ranked_contract [of "\<lambda>s. generated_rank (cs_clock s)"]
  by (simp add: GeneratedEvictionPolicy_def)

section \<open>The generated table\<close>

lemma bits_nat: "nat (feature_mask b clock) =
    of_bool (cb_kind b = ''prompt'') + 2 * of_bool (cb_shared b) + 4 * of_bool (2 \<le> cb_reuse_count b)
    + 8 * of_bool (cb_group b = ''sliding'')
    + 16 * of_bool (clock - cb_last_used b \<le> RECENT_AGE_THRESHOLD)
    + 32 * of_bool (cb_kind b = ''generated'')"
  unfolding feature_mask_def of_bool_def by simp

text \<open>The table is the linear score of the specification.\<close>

definition eviction_score :: "int \<Rightarrow> cache_block \<Rightarrow> int" where
  "eviction_score clock b =
     100 - 30 * of_bool (cb_kind b = ''prompt'') - 90 * of_bool (cb_shared b)
     - 50 * of_bool (2 \<le> cb_reuse_count b) + 20 * of_bool (cb_group b = ''sliding'')
     - 10 * of_bool (clock - cb_last_used b \<le> RECENT_AGE_THRESHOLD)
     + 70 * of_bool (cb_kind b = ''generated'')"

lemma eviction_rank_linear: "EVICTION_RANK ! nat (feature_mask b clock) = eviction_score clock b"
  unfolding bits_nat EVICTION_RANK_def eviction_score_def of_bool_def by simp

end
