(* ===== verification/CacheAuthority.thy ===== *)
theory CacheAuthority
  imports CachePolicies
begin

text \<open>
  \<^verbatim>\<open>cacheforge/authority.py\<close>: the readable kernel that checks a machine proposal before any
  block is evicted, and falls back to LRU.  Its safety does not depend on the policy; that it
  never rejects depends on the contract \<open>eviction_policy\<close>.
\<close>

definition proposal_valid :: "cache_state \<Rightarrow> int list \<Rightarrow> int \<Rightarrow> bool" where
  "proposal_valid s proposal required =
     (if int (length proposal) < required then False
      else if card (set proposal) \<noteq> length proposal then False
      else list_all (\<lambda>block_id.
             case dict_get (cs_blocks s) block_id of
               None \<Rightarrow> False
             | Some b \<Rightarrow> cb_owners b = {}) (slice_to proposal required))"

definition count_planner_call :: "int \<Rightarrow> study_metrics \<Rightarrow> study_metrics" where
  "count_planner_call inspected m =
     m\<lparr>sm_planner_calls := sm_planner_calls m + 1,
       sm_planner_candidates_inspected := sm_planner_candidates_inspected m + inspected\<rparr>"

definition count_fallback :: "int \<Rightarrow> study_metrics \<Rightarrow> study_metrics" where
  "count_fallback inspected m =
     m\<lparr>sm_rejected_proposals := sm_rejected_proposals m + 1,
       sm_fallback_uses := sm_fallback_uses m + 1,
       sm_planner_candidates_inspected := sm_planner_candidates_inspected m + inspected\<rparr>"

text \<open>\<open>authorize_eviction\<close>; the first argument is the authority's \<open>fallback_policy\<close>.\<close>

definition authorize_eviction ::
  "policy \<Rightarrow> cache_state \<Rightarrow> policy \<Rightarrow> int \<Rightarrow> study_metrics \<Rightarrow> (int list \<times> study_metrics) res" where
  "authorize_eviction fallback s pol required m =
     (if required < 1 then Inr ([], m)
      else
        let (proposal, inspected) = propose pol s required;
            m1 = count_planner_call inspected m
        in if proposal_valid s proposal required then Inr (slice_to proposal required, m1)
           else
             let (plan_b, plan_b_inspected) = propose fallback s required;
                 m2 = count_fallback plan_b_inspected m1
             in if proposal_valid s plan_b required then Inr (slice_to plan_b required, m2)
                else Inl (RuntimeError ''no valid eviction plan is available''))"

section \<open>Safety\<close>

definition safe_victims :: "cache_state \<Rightarrow> int list \<Rightarrow> int \<Rightarrow> bool" where
  "safe_victims s victims required \<longleftrightarrow>
     length victims = nat required \<and> distinct victims \<and>
     (\<forall>i \<in> set victims. \<exists>b. dict_get (cs_blocks s) i = Some b \<and> cb_owners b = {})"

lemma proposal_valid_safe:
  "1 \<le> required \<Longrightarrow> proposal_valid s proposal required \<Longrightarrow>
     safe_victims s (slice_to proposal required) required"
  by (auto simp: proposal_valid_def safe_victims_def slice_to_def list_all_iff card_distinct
      distinct_take split: if_splits option.splits)

lemma authorize_safe:
  assumes "authorize_eviction fallback s pol required m = Inr (victims, m')"
  shows "safe_victims s victims required"
proof (cases "required < 1")
  case True
  with assms show ?thesis by (simp add: authorize_eviction_def safe_victims_def)
next
  case False
  with assms show ?thesis
    by (auto simp: authorize_eviction_def Let_def proposal_valid_safe
        split: prod.splits if_splits)
qed

lemma authorize_metrics:
  assumes "authorize_eviction fallback s pol required m = Inr (victims, m')"
  shows "sm_hits m' = sm_hits m" "sm_misses m' = sm_misses m"
    "sm_recomputed_blocks m' = sm_recomputed_blocks m" "sm_evictions m' = sm_evictions m"
    "sm_requests m' = sm_requests m" "sm_cancelled_requests m' = sm_cancelled_requests m"
    "sm_peak_resident_blocks m' = sm_peak_resident_blocks m"
  using assms
  by (auto simp: authorize_eviction_def Let_def count_planner_call_def count_fallback_def
      split: prod.splits if_splits)

text \<open>The victims depend on the metrics in no way.\<close>

lemma authorize_victims_indep:
  "map_sum id fst (authorize_eviction fallback s pol required m) =
   map_sum id fst (authorize_eviction fallback s pol required n)"
  by (simp add: authorize_eviction_def Let_def split: prod.splits)

section \<open>Acceptance of contracted policies\<close>

context eviction_policy
begin

lemma plan_accepted:
  assumes "cache_inv s" and "1 \<le> required" and "nat required \<le> length (evictable s)"
  shows "proposal_valid s (fst (plan s required)) required"
proof -
  have "length (fst (plan s required)) = nat required"
    using length_plan [OF assms(1), of required] assms(2,3) by simp
  then show ?thesis
    using free_plan [OF assms(1), of required] distinct_plan [OF assms(1), of required] assms(2)
    by (fastforce simp: proposal_valid_def slice_to_def list_all_iff distinct_card
        split: option.splits)
qed

lemma plan_authorized:
  assumes "propose pol = plan" and "cache_inv s" and "1 \<le> required"
    and "nat required \<le> length (evictable s)"
  shows "authorize_eviction fallback s pol required m =
    Inr (slice_to (fst (plan s required)) required, count_planner_call (snd (plan s required)) m)"
  using plan_accepted [OF assms(2-4)] assms(1,3)
  by (simp add: authorize_eviction_def Let_def case_prod_beta)

text \<open>As fallback, such a policy saves every proposal.\<close>

lemma fallback_authorized:
  assumes "propose fallback = plan" and "cache_inv s" and "1 \<le> required"
    and "nat required \<le> length (evictable s)"
  shows "is_ok (authorize_eviction fallback s pol required m)"
  using plan_accepted [OF assms(2-4)] assms(1,3)
  by (simp add: authorize_eviction_def Let_def case_prod_beta)

end

text \<open>The two mutation policies are always caught when a block has to go.\<close>

lemma duplicate_rejected:
  "1 \<le> required \<Longrightarrow> \<not> proposal_valid s (fst (propose InvalidDuplicatePolicy s required)) required"
  by (auto simp: proposal_valid_def InvalidDuplicatePolicy_def propose_duplicate_def
      card_insert_if split: list.splits)

lemma unknown_rejected:
  assumes "cache_inv s" and "1 \<le> required"
  shows "\<not> proposal_valid s (fst (propose InvalidUnknownPolicy s required)) required"
proof -
  have none: "dict_get (cs_blocks s) (cs_next_block_id s + 1000) = None"
    using cache_invD(7) [OF assms(1), of "cs_next_block_id s + 1000"] by fastforce
  obtain k where k: "nat required = Suc k" using assms(2) by (cases "nat required") auto
  have "cs_next_block_id s + 1000 \<in> set (slice_to (fst (propose InvalidUnknownPolicy s required)) required)"
    using assms(2) by (force simp: InvalidUnknownPolicy_def propose_unknown_def slice_to_def k take_map
        image_iff intro: bexI [of _ 0])
  with none show ?thesis
    unfolding proposal_valid_def list_all_iff by (metis (no_types, lifting) option.simps(4))
qed

end
