(* ===== verification/CacheSimulator.thy ===== *)
theory CacheSimulator
  imports CacheAuthority
begin

text \<open>
  \<^verbatim>\<open>cacheforge/simulator.py\<close>: processing of request traces against the cache.

  \<open>simulator\<close> is the object's fields; \<open>run_state\<close> adds the local variables of \<open>process\<close>: the
  set \<open>owned\<close> and the windows of the sliding groups (a \<open>deque\<close> is a list, oldest first).
\<close>

section \<open>State\<close>

record simulator =
  sim_groups :: "group_spec list"
  sim_policy :: policy
  sim_fallback :: policy
  sim_state :: cache_state
  sim_metrics :: study_metrics

definition CacheSimulator :: "group_spec list \<Rightarrow> int \<Rightarrow> policy \<Rightarrow> simulator res" where
  "CacheSimulator groups capacity_blocks pol =
     (if groups = [] then Inl (ValueError ''at least one cache group is required'')
      else bind_res (CacheState capacity_blocks 0 0) (\<lambda>s.
        Inr \<lparr>sim_groups = groups, sim_policy = pol, sim_fallback = ReferenceLRU,
             sim_state = s, sim_metrics = StudyMetrics\<rparr>))"

record run_state =
  rs_sim :: simulator
  rs_owned :: "int set"
  rs_windows :: "(string, int list) dict"

abbreviation rs_state :: "run_state \<Rightarrow> cache_state" where
  "rs_state r \<equiv> sim_state (rs_sim r)"

section \<open>Access and eviction\<close>

text \<open>\<open>_evict\<close>\<close>

definition evict :: "simulator \<Rightarrow> int \<Rightarrow> simulator res" where
  "evict sim block_id =
     (let s = sim_state sim in
      bind_res (dict_at ''block'' (cs_blocks s) block_id) (\<lambda>b.
      if cb_owners b \<noteq> {} then
        Inl (RuntimeError ''authority attempted to evict a live block'')
      else
        bind_res (dict_at ''identity'' (cs_key_index s) (block_identity b)) (\<lambda>_.
          Inr (sim\<lparr>
            sim_state := s\<lparr>cs_blocks := dict_del block_id (cs_blocks s),
                           cs_key_index := dict_del (block_identity b) (cs_key_index s)\<rparr>,
            sim_metrics := (sim_metrics sim)\<lparr>sm_evictions := sm_evictions (sim_metrics sim) + 1\<rparr>\<rparr>))))"

definition reuse_block :: "string \<Rightarrow> int \<Rightarrow> cache_block \<Rightarrow> cache_block" where
  "reuse_block request_id now b =
     b\<lparr>cb_last_used := now, cb_reuse_count := cb_reuse_count b + 1,
       cb_owners := insert request_id (cb_owners b)\<rparr>"

definition fresh_block ::
  "string \<Rightarrow> int \<Rightarrow> int \<Rightarrow> string \<times> string \<Rightarrow> string \<Rightarrow> bool \<Rightarrow> cache_block" where
  "fresh_block request_id now block_id identity kind shared =
     \<lparr>cb_block_id = block_id, cb_group = fst identity, cb_key = snd identity, cb_kind = kind,
      cb_shared = shared, cb_created_at = now, cb_last_used = now, cb_reuse_count = 0,
      cb_owners = {request_id}\<rparr>"

definition count_hit :: "study_metrics \<Rightarrow> study_metrics" where
  "count_hit m = m\<lparr>sm_hits := sm_hits m + 1\<rparr>"

definition count_miss :: "study_metrics \<Rightarrow> study_metrics" where
  "count_miss m = m\<lparr>sm_misses := sm_misses m + 1, sm_recomputed_blocks := sm_recomputed_blocks m + 1\<rparr>"

definition note_peak :: "int \<Rightarrow> study_metrics \<Rightarrow> study_metrics" where
  "note_peak n m = m\<lparr>sm_peak_resident_blocks := max (sm_peak_resident_blocks m) n\<rparr>"

text \<open>The part of \<open>_access\<close> that makes room.\<close>

definition make_room :: "simulator \<Rightarrow> simulator res" where
  "make_room sim =
     (if cs_capacity_blocks (sim_state sim) \<le> int (length (cs_blocks (sim_state sim))) then
        bind_res (authorize_eviction (sim_fallback sim) (sim_state sim) (sim_policy sim) 1
                    (sim_metrics sim)) (\<lambda>(victims, m).
          fold_res evict (sim\<lparr>sim_metrics := m\<rparr>) victims)
      else Inr sim)"

text \<open>The part of \<open>_access\<close> that allocates.\<close>

definition store_block ::
  "string \<Rightarrow> int \<Rightarrow> string \<times> string \<Rightarrow> string \<Rightarrow> bool \<Rightarrow> simulator \<Rightarrow> simulator \<times> int" where
  "store_block request_id now identity kind shared sim =
     (let s = sim_state sim; block_id = cs_next_block_id s;
          b = fresh_block request_id now block_id identity kind shared;
          s' = s\<lparr>cs_next_block_id := block_id + 1,
                 cs_blocks := dict_set block_id b (cs_blocks s),
                 cs_key_index := dict_set identity block_id (cs_key_index s)\<rparr>
      in (sim\<lparr>sim_state := s',
              sim_metrics := note_peak (int (length (cs_blocks s'))) (sim_metrics sim)\<rparr>, block_id))"

definition access ::
  "request_trace \<Rightarrow> group_spec \<Rightarrow> string \<Rightarrow> string \<Rightarrow> bool \<Rightarrow> simulator \<Rightarrow> (simulator \<times> int) res" where
  "access request grp key kind shared sim =
     (let s = tick (sim_state sim); now = cs_clock s; identity = (gs_name grp, key);
          sim1 = sim\<lparr>sim_state := s\<rparr> in
      case dict_get (cs_key_index s) identity of
        Some existing_id \<Rightarrow>
          bind_res (dict_at ''block'' (cs_blocks s) existing_id) (\<lambda>b.
            Inr (sim1\<lparr>
              sim_state := s\<lparr>cs_blocks := dict_set existing_id
                (reuse_block (rt_request_id request) now b) (cs_blocks s)\<rparr>,
              sim_metrics := count_hit (sim_metrics sim)\<rparr>, existing_id))
      | None \<Rightarrow>
          bind_res (make_room (sim1\<lparr>sim_metrics := count_miss (sim_metrics sim)\<rparr>)) (\<lambda>sim2.
            Inr (store_block (rt_request_id request) now identity kind shared sim2)))"

section \<open>Sliding windows\<close>

text \<open>\<open>block.owners.discard(request_id)\<close> for a block that may be gone.\<close>

definition discard_owner :: "string \<Rightarrow> int \<Rightarrow> cache_state \<Rightarrow> cache_state" where
  "discard_owner request_id block_id s =
     (case dict_get (cs_blocks s) block_id of
        None \<Rightarrow> s
      | Some b \<Rightarrow> s\<lparr>cs_blocks :=
          dict_set block_id (b\<lparr>cb_owners := cb_owners b - {request_id}\<rparr>) (cs_blocks s)\<rparr>)"

definition map_state :: "(cache_state \<Rightarrow> cache_state) \<Rightarrow> run_state \<Rightarrow> run_state" where
  "map_state f r = r\<lparr>rs_sim := (rs_sim r)\<lparr>sim_state := f (sim_state (rs_sim r))\<rparr>\<rparr>"

text \<open>\<open>while len(window) > group.window_blocks\<close>\<close>

fun expire :: "int \<Rightarrow> string \<Rightarrow> int list \<Rightarrow> run_state \<Rightarrow> (int list \<times> run_state) res" where
  "expire limit request_id [] r = (if limit < 0 then Inl IndexError else Inr ([], r))"
| "expire limit request_id (expired_id # window) r =
     (if limit < int (length (expired_id # window)) then
        expire limit request_id window
          ((map_state (discard_owner request_id expired_id) r)\<lparr>rs_owned := rs_owned r - {expired_id}\<rparr>)
      else Inr (expired_id # window, r))"

definition advance_sliding :: "group_spec \<Rightarrow> int \<Rightarrow> string \<Rightarrow> run_state \<Rightarrow> run_state res" where
  "advance_sliding grp block_id request_id r =
     (if gs_mode grp \<noteq> ''sliding'' then Inr r
      else case gs_window_blocks grp of
        None \<Rightarrow> Inl AssertionError
      | Some limit \<Rightarrow>
          bind_res (dict_at (gs_name grp) (rs_windows r) (gs_name grp)) (\<lambda>window.
          bind_res (expire limit request_id (window @ [block_id]) r) (\<lambda>(window', r').
            Inr (r'\<lparr>rs_windows := dict_set (gs_name grp) window' (rs_windows r')\<rparr>))))"

section \<open>Requests\<close>

definition visit ::
  "request_trace \<Rightarrow> string \<Rightarrow> string \<Rightarrow> bool \<Rightarrow> run_state \<Rightarrow> group_spec \<Rightarrow> run_state res" where
  "visit request key kind shared r grp =
     bind_res (access request grp key kind shared (rs_sim r)) (\<lambda>(sim', block_id).
       advance_sliding grp block_id (rt_request_id request)
         (r\<lparr>rs_sim := sim', rs_owned := insert block_id (rs_owned r)\<rparr>))"

definition visit_groups ::
  "request_trace \<Rightarrow> string \<Rightarrow> string \<Rightarrow> bool \<Rightarrow> run_state \<Rightarrow> run_state res" where
  "visit_groups request key kind shared r =
     fold_res (visit request key kind shared) r (sim_groups (rs_sim r))"

definition visit_prompt :: "request_trace \<Rightarrow> run_state \<Rightarrow> string \<Rightarrow> run_state res" where
  "visit_prompt request r prompt_key =
     visit_groups request prompt_key ''prompt'' (starts_with ''sys:'' prompt_key) r"

definition generated_key :: "string \<Rightarrow> int \<Rightarrow> string" where
  "generated_key request_id index = ''gen:'' @ request_id @ '':'' @ int_str index"

definition count_cancelled :: "run_state \<Rightarrow> run_state" where
  "count_cancelled r = r\<lparr>rs_sim := (rs_sim r)\<lparr>sim_metrics := (sim_metrics (rs_sim r))\<lparr>
     sm_cancelled_requests := sm_cancelled_requests (sim_metrics (rs_sim r)) + 1\<rparr>\<rparr>\<rparr>"

text \<open>\<open>for generated_index in range(..)\<close> with its \<open>break\<close> and its \<open>else\<close>.\<close>

fun generate_blocks :: "request_trace \<Rightarrow> int list \<Rightarrow> run_state \<Rightarrow> run_state res" where
  "generate_blocks request [] r =
     Inr (if rt_cancel_after_generated request = Some (rt_generated_blocks request)
          then count_cancelled r else r)"
| "generate_blocks request (index # indices) r =
     (if rt_cancel_after_generated request = Some index then Inr (count_cancelled r)
      else bind_res (visit_groups request (generated_key (rt_request_id request) index)
                       ''generated'' False r)
             (generate_blocks request indices))"

definition release_owned :: "string \<Rightarrow> int set \<Rightarrow> cache_state \<Rightarrow> cache_state" where
  "release_owned request_id owned s =
     s\<lparr>cs_blocks := map (\<lambda>(i, b). (i, if i \<in> owned
         then b\<lparr>cb_owners := cb_owners b - {request_id}\<rparr> else b)) (cs_blocks s)\<rparr>"

definition start_request :: "simulator \<Rightarrow> run_state" where
  "start_request sim =
     \<lparr>rs_sim = sim\<lparr>sim_metrics := (sim_metrics sim)\<lparr>sm_requests := sm_requests (sim_metrics sim) + 1\<rparr>\<rparr>,
      rs_owned = {},
      rs_windows = fold (\<lambda>g d. dict_set (gs_name g) [] d)
        (filter (\<lambda>g. gs_mode g = ''sliding'') (sim_groups sim)) []\<rparr>"

definition process :: "simulator \<Rightarrow> request_trace \<Rightarrow> simulator res" where
  "process sim request =
     bind_res (fold_res (visit_prompt request) (start_request sim) (rt_prompt_blocks request)) (\<lambda>r1.
     bind_res (generate_blocks request (py_range 0 (rt_generated_blocks request) 1) r1) (\<lambda>r2.
       let r3 = map_state (release_owned (rt_request_id request) (rs_owned r2)) r2 in
       bind_res (validate (rs_state r3)) (\<lambda>_. Inr (rs_sim r3))))"

definition run_requests :: "simulator \<Rightarrow> request_trace list \<Rightarrow> simulator res" where
  "run_requests sim requests =
     bind_res (fold_res process sim requests) (\<lambda>sim'.
     bind_res (validate (sim_state sim')) (\<lambda>_. Inr sim'))"

section \<open>Checkpoints\<close>

definition group_to_json :: "group_spec \<Rightarrow> json" where
  "group_to_json g = JObj [(''name'', JStr (gs_name g)), (''mode'', JStr (gs_mode g)),
     (''window_blocks'', case gs_window_blocks g of None \<Rightarrow> JNull | Some w \<Rightarrow> JInt w)]"

definition metrics_obj :: "metrics_json \<Rightarrow> json" where
  "metrics_obj j = (let m = mj_counters j in JObj
     [(''requests'', JInt (sm_requests m)), (''cancelled_requests'', JInt (sm_cancelled_requests m)),
      (''hits'', JInt (sm_hits m)), (''misses'', JInt (sm_misses m)),
      (''evictions'', JInt (sm_evictions m)), (''recomputed_blocks'', JInt (sm_recomputed_blocks m)),
      (''planner_calls'', JInt (sm_planner_calls m)),
      (''planner_candidates_inspected'', JInt (sm_planner_candidates_inspected m)),
      (''rejected_proposals'', JInt (sm_rejected_proposals m)),
      (''fallback_uses'', JInt (sm_fallback_uses m)),
      (''peak_resident_blocks'', JInt (sm_peak_resident_blocks m)),
      (''hit_rate'', JFloat (mj_hit_rate j)),
      (''recomputed_blocks_per_request'', JFloat (mj_recomputed_blocks_per_request j))])"

definition checkpoint :: "simulator \<Rightarrow> obj res" where
  "checkpoint sim =
     bind_res (metrics_to_json (sim_metrics sim)) (\<lambda>metrics.
       Inr [(''policy_id'', JStr (policy_id (sim_policy sim))),
            (''groups'', JList (map group_to_json (sim_groups sim))),
            (''state'', snapshot (sim_state sim)), (''metrics'', metrics_obj metrics)])"

definition restore_state :: "simulator \<Rightarrow> obj \<Rightarrow> simulator res" where
  "restore_state sim ckpt =
     (if \<not> json_eq (get_or_null ckpt ''policy_id'') (JStr (policy_id (sim_policy sim))) then
        Inl (ValueError ''checkpoint policy identity mismatch'')
      else if \<not> is_dict (get_or_null ckpt ''state'') then
        Inl (ValueError ''checkpoint state is missing'')
      else bind_res (restore (get_or_null ckpt ''state'')) (\<lambda>s. Inr (sim\<lparr>sim_state := s\<rparr>)))"

end
