(* ===== verification/CacheInvariants.thy ===== *)
theory CacheInvariants
  imports CacheSimulator
begin

text \<open>
  The invariants of the cache: every operation of the simulator keeps \<open>cache_inv\<close>; the set
  \<open>owned\<close> of a request is exactly the set of blocks that carry its owner mark; a block with an
  owner is never evicted.  All of it holds for every policy, contracted or not.
\<close>

section \<open>Updates of the state\<close>

text \<open>Rewriting one resident block in place.\<close>

lemma cache_inv_set_block:
  assumes "cache_inv s" and "dict_get (cs_blocks s) i = Some b"
    and "cb_block_id b' = cb_block_id b" and "block_identity b' = block_identity b"
    and "cb_kind b' = cb_kind b" and "cb_created_at b' \<le> cb_last_used b'"
    and "cb_last_used b' \<le> cs_clock s" and "0 \<le> cb_reuse_count b'" and "finite (cb_owners b')"
  shows "cache_inv (s\<lparr>cs_blocks := dict_set i b' (cs_blocks s)\<rparr>)"
proof -
  note inv = cache_invD [OF assms(1)]
  have keys: "i \<in> set (dict_keys (cs_blocks s))" using assms(2) by (rule dict_get_in_keys)
  have len: "length (dict_set i b' (cs_blocks s)) = length (cs_blocks s)"
    using keys by (simp add: length_dict_set del: set_map)
  let ?s = "s\<lparr>cs_blocks := dict_set i b' (cs_blocks s)\<rparr>"
  have valid: "block_valid ?s j c \<and> j < cs_next_block_id ?s \<and> finite (cb_owners c)"
    if "dict_get (cs_blocks ?s) j = Some c" for j c
  proof (cases "j = i")
    case True
    with that have "c = b'" by (simp add: dict_get_set)
    with True assms inv(6,7) [OF assms(2)] show ?thesis by (simp add: block_valid_def)
  next
    case False
    with that have "dict_get (cs_blocks s) j = Some c" by (simp add: dict_get_set)
    with inv(6-8) [OF this] show ?thesis by (simp add: block_valid_def)
  qed
  have indexed: "\<exists>c. dict_get (cs_blocks ?s) j = Some c \<and> block_identity c = k"
    if "dict_get (cs_key_index ?s) k = Some j" for k j
    using inv(9) [of k j] that assms(2,4) by (auto simp: dict_get_set)
  show ?thesis
    unfolding cache_inv_def using inv(1-5) len valid indexed by simp
qed

lemma cache_inv_tick: "cache_inv s \<Longrightarrow> cache_inv (tick s)"
  unfolding cache_inv_def block_valid_def tick_def by simp fastforce

lemma cache_inv_del:
  assumes "cache_inv s" and "dict_get (cs_blocks s) i = Some b"
  shows "cache_inv (s\<lparr>cs_blocks := dict_del i (cs_blocks s),
                      cs_key_index := dict_del (block_identity b) (cs_key_index s)\<rparr>)"
proof -
  note inv = cache_invD [OF assms(1)]
  let ?s = "s\<lparr>cs_blocks := dict_del i (cs_blocks s),
              cs_key_index := dict_del (block_identity b) (cs_key_index s)\<rparr>"
  have keys: "i \<in> set (dict_keys (cs_blocks s))" using assms(2) by (rule dict_get_in_keys)
  have len: "Suc (length (cs_blocks ?s)) = length (cs_blocks s)"
    using length_dict_del [OF inv(1) keys] by simp
  have ib: "dict_get (cs_key_index s) (block_identity b) = Some i"
    using block_validD(2) [OF inv(6) [OF assms(2)]] .
  have valid: "block_valid ?s j c \<and> j < cs_next_block_id ?s \<and> finite (cb_owners c)"
    if "dict_get (cs_blocks ?s) j = Some c" for j c
  proof -
    from that have j: "dict_get (cs_blocks s) j = Some c" "j \<noteq> i"
      by (auto simp: dict_get_del split: if_splits)
    moreover have "block_identity c \<noteq> block_identity b"
      using j ib block_validD(2) [OF inv(6) [OF j(1)]] by auto
    ultimately show ?thesis
      using inv(6-8) [OF j(1)] by (simp add: block_valid_def dict_get_del)
  qed
  have indexed: "\<exists>c. dict_get (cs_blocks ?s) j = Some c \<and> block_identity c = k"
    if "dict_get (cs_key_index ?s) k = Some j" for k j
  proof -
    from that have k: "dict_get (cs_key_index s) k = Some j" "k \<noteq> block_identity b"
      by (auto simp: dict_get_del split: if_splits)
    from inv(9) [OF k(1)] obtain c where c: "dict_get (cs_blocks s) j = Some c" "block_identity c = k"
      by blast
    with k assms(2) have "j \<noteq> i" by auto
    with c show ?thesis by (simp add: dict_get_del)
  qed
  show ?thesis
    unfolding cache_inv_def using inv(1-5) len valid indexed by simp
qed

lemma cache_inv_insert:
  assumes "cache_inv s" and "int (length (cs_blocks s)) < cs_capacity_blocks s"
    and "dict_get (cs_key_index s) k = None"
    and "block_identity b = k" and "cb_block_id b = cs_next_block_id s"
    and "cb_kind b \<in> {''prompt'', ''generated''}" and "cb_created_at b \<le> cb_last_used b"
    and "cb_last_used b \<le> cs_clock s" and "0 \<le> cb_reuse_count b" and "finite (cb_owners b)"
  shows "cache_inv (s\<lparr>cs_next_block_id := cs_next_block_id s + 1,
                      cs_blocks := dict_set (cs_next_block_id s) b (cs_blocks s),
                      cs_key_index := dict_set k (cs_next_block_id s) (cs_key_index s)\<rparr>)"
    (is "cache_inv ?s")
proof -
  note inv = cache_invD [OF assms(1)]
  have fresh: "dict_get (cs_blocks s) (cs_next_block_id s) = None"
    using inv(7) [of "cs_next_block_id s"] by (cases "dict_get (cs_blocks s) (cs_next_block_id s)") auto
  then have len: "length (cs_blocks ?s) = Suc (length (cs_blocks s))"
    by (simp add: length_dict_set map_of_eq_None_iff)
  have valid: "block_valid ?s j c \<and> j < cs_next_block_id ?s \<and> finite (cb_owners c)"
    if "dict_get (cs_blocks ?s) j = Some c" for j c
  proof (cases "j = cs_next_block_id s")
    case True
    with that have "c = b" by (simp add: dict_get_set)
    with True assms show ?thesis by (simp add: block_valid_def dict_get_set)
  next
    case False
    with that have j: "dict_get (cs_blocks s) j = Some c" by (simp add: dict_get_set)
    moreover have "block_identity c \<noteq> k"
      using assms(3) block_validD(2) [OF inv(6) [OF j]] by auto
    ultimately show ?thesis
      using inv(6-8) [OF j] by (simp add: block_valid_def dict_get_set)
  qed
  have indexed: "\<exists>c. dict_get (cs_blocks ?s) j = Some c \<and> block_identity c = k'"
    if "dict_get (cs_key_index ?s) k' = Some j" for k' j
  proof (cases "k' = k")
    case True
    with that assms(4) show ?thesis by (simp add: dict_get_set)
  next
    case False
    with that have "dict_get (cs_key_index s) k' = Some j" by (simp add: dict_get_set)
    with inv(9) fresh show ?thesis by (fastforce simp: dict_get_set)
  qed
  show ?thesis
    unfolding cache_inv_def using inv(1-5) len assms(2) valid indexed by simp
qed

section \<open>What the operations do\<close>

lemma evict_eq:
  assumes "cache_inv (sim_state sim)" and "dict_get (cs_blocks (sim_state sim)) i = Some b"
    and "cb_owners b = {}"
  shows "evict sim i = Inr (sim\<lparr>
     sim_state := (sim_state sim)\<lparr>cs_blocks := dict_del i (cs_blocks (sim_state sim)),
       cs_key_index := dict_del (block_identity b) (cs_key_index (sim_state sim))\<rparr>,
     sim_metrics := (sim_metrics sim)\<lparr>sm_evictions := sm_evictions (sim_metrics sim) + 1\<rparr>\<rparr>)"
  using block_validD(2) [OF cache_invD(6) [OF assms(1,2)]] assms(2,3)
  by (simp add: evict_def Let_def)

lemma evict_live: "evict sim i = Inr sim' \<Longrightarrow>
    \<exists>b. dict_get (cs_blocks (sim_state sim)) i = Some b \<and> cb_owners b = {}"
  by (auto simp: evict_def Let_def bind_res_eq_Inr split: if_splits)

definition full :: "cache_state \<Rightarrow> bool" where
  "full s \<longleftrightarrow> cs_capacity_blocks s \<le> int (length (cs_blocks s))"

text \<open>Making room: nothing to do, or exactly one free block goes.\<close>

lemma make_room_cases:
  assumes "cache_inv (sim_state sim)" and "make_room sim = Inr sim'"
  obtains (room) "\<not> full (sim_state sim)" "sim' = sim"
  | (evicted) i b m where "full (sim_state sim)"
      "authorize_eviction (sim_fallback sim) (sim_state sim) (sim_policy sim) 1 (sim_metrics sim)
         = Inr ([i], m)"
      "dict_get (cs_blocks (sim_state sim)) i = Some b" "cb_owners b = {}"
      "sim' = sim\<lparr>
         sim_state := (sim_state sim)\<lparr>cs_blocks := dict_del i (cs_blocks (sim_state sim)),
           cs_key_index := dict_del (block_identity b) (cs_key_index (sim_state sim))\<rparr>,
         sim_metrics := m\<lparr>sm_evictions := sm_evictions m + 1\<rparr>\<rparr>"
proof (cases "full (sim_state sim)")
  case False
  with assms(2) show thesis by (intro room) (simp_all add: make_room_def full_def)
next
  case True
  with assms(2) obtain victims m where
    auth: "authorize_eviction (sim_fallback sim) (sim_state sim) (sim_policy sim) 1 (sim_metrics sim)
      = Inr (victims, m)"
    and go: "fold_res evict (sim\<lparr>sim_metrics := m\<rparr>) victims = Inr sim'"
    by (auto simp: make_room_def full_def bind_res_eq_Inr)
  from authorize_safe [OF auth] obtain i b where i: "victims = [i]"
    and b: "dict_get (cs_blocks (sim_state sim)) i = Some b" "cb_owners b = {}"
    by (auto simp: safe_victims_def length_Suc_conv)
  from go have "evict (sim\<lparr>sim_metrics := m\<rparr>) i = Inr sim'" by (simp add: i bind_res_eq_Inr)
  with evict_eq [of "sim\<lparr>sim_metrics := m\<rparr>" i b] assms(1) b auth i True show thesis
    by (intro evicted [of i m b]) simp_all
qed

lemma make_room_result:
  assumes "cache_inv (sim_state sim)" and "make_room sim = Inr sim'"
  shows "cache_inv (sim_state sim')" and "\<not> full (sim_state sim')"
    and "cs_clock (sim_state sim') = cs_clock (sim_state sim)"
    and "cs_capacity_blocks (sim_state sim') = cs_capacity_blocks (sim_state sim)"
    and "cs_next_block_id (sim_state sim') = cs_next_block_id (sim_state sim)"
    and "dict_get (cs_key_index (sim_state sim)) k = None \<Longrightarrow>
           dict_get (cs_key_index (sim_state sim')) k = None"
    and "sim_groups sim' = sim_groups sim" "sim_policy sim' = sim_policy sim"
    and "sim_fallback sim' = sim_fallback sim"
proof -
  note inv = cache_invD [OF assms(1)]
  from assms have "cache_inv (sim_state sim') \<and> \<not> full (sim_state sim') \<and>
      cs_clock (sim_state sim') = cs_clock (sim_state sim) \<and>
      cs_capacity_blocks (sim_state sim') = cs_capacity_blocks (sim_state sim) \<and>
      cs_next_block_id (sim_state sim') = cs_next_block_id (sim_state sim) \<and>
      (dict_get (cs_key_index (sim_state sim)) k = None \<longrightarrow>
         dict_get (cs_key_index (sim_state sim')) k = None) \<and>
      sim_groups sim' = sim_groups sim \<and> sim_policy sim' = sim_policy sim \<and>
      sim_fallback sim' = sim_fallback sim"
  proof (cases rule: make_room_cases)
    case room
    with assms(1) show ?thesis by simp
  next
    case (evicted i b m)
    have "i \<in> set (dict_keys (cs_blocks (sim_state sim)))"
      using evicted(3) by (rule dict_get_in_keys)
    with inv(1) have "Suc (length (dict_del i (cs_blocks (sim_state sim)))) =
        length (cs_blocks (sim_state sim))"
      by (rule length_dict_del)
    with evicted inv(4) cache_inv_del [OF assms(1) evicted(3)] show ?thesis
      by (simp add: full_def dict_get_del)
  qed
  then show "cache_inv (sim_state sim')" "\<not> full (sim_state sim')"
    "cs_clock (sim_state sim') = cs_clock (sim_state sim)"
    "cs_capacity_blocks (sim_state sim') = cs_capacity_blocks (sim_state sim)"
    "cs_next_block_id (sim_state sim') = cs_next_block_id (sim_state sim)"
    "dict_get (cs_key_index (sim_state sim)) k = None \<Longrightarrow>
       dict_get (cs_key_index (sim_state sim')) k = None"
    "sim_groups sim' = sim_groups sim" "sim_policy sim' = sim_policy sim"
    "sim_fallback sim' = sim_fallback sim"
    by blast+
qed

text \<open>An access: a hit, or a miss that allocates in a cache with room.\<close>

abbreviation "count_miss_sim sim \<equiv>
  sim\<lparr>sim_state := tick (sim_state sim), sim_metrics := count_miss (sim_metrics sim)\<rparr>"

lemma access_cases:
  assumes "cache_inv (sim_state sim)" and "access request grp key kind shared sim = Inr (sim', i)"
  obtains (hit) b where
      "dict_get (cs_key_index (sim_state sim)) (gs_name grp, key) = Some i"
      "dict_get (cs_blocks (sim_state sim)) i = Some b"
      "sim' = sim\<lparr>sim_state := (tick (sim_state sim))\<lparr>cs_blocks := dict_set i
          (reuse_block (rt_request_id request) (cs_clock (sim_state sim) + 1) b)
          (cs_blocks (sim_state sim))\<rparr>,
        sim_metrics := count_hit (sim_metrics sim)\<rparr>"
  | (miss) sim2 where
      "dict_get (cs_key_index (sim_state sim)) (gs_name grp, key) = None"
      "make_room (count_miss_sim sim) = Inr sim2"
      "(sim', i) = store_block (rt_request_id request) (cs_clock (sim_state sim) + 1)
         (gs_name grp, key) kind shared sim2"
proof (cases "dict_get (cs_key_index (sim_state sim)) (gs_name grp, key)")
  case None
  with assms(2) obtain sim2 where "make_room (count_miss_sim sim) = Inr sim2"
    and "(sim', i) = store_block (rt_request_id request) (cs_clock (sim_state sim) + 1)
       (gs_name grp, key) kind shared sim2"
    by (auto simp: access_def Let_def tick_def bind_res_eq_Inr)
  with None show thesis by (rule miss)
next
  case (Some j)
  with assms(2) obtain b where b: "dict_get (cs_blocks (sim_state sim)) j = Some b" and "j = i"
    and "sim' = sim\<lparr>sim_state := (tick (sim_state sim))\<lparr>cs_blocks := dict_set i
          (reuse_block (rt_request_id request) (cs_clock (sim_state sim) + 1) b)
          (cs_blocks (sim_state sim))\<rparr>,
        sim_metrics := count_hit (sim_metrics sim)\<rparr>"
    by (auto simp: access_def Let_def tick_def bind_res_eq_Inr)
  with Some show thesis by (intro hit [of b]) simp_all
qed

lemma sim_frame_store:
  "store_block rid now k kind shared sim = (sim', i) \<Longrightarrow>
     sim_groups sim' = sim_groups sim \<and> sim_policy sim' = sim_policy sim \<and>
     sim_fallback sim' = sim_fallback sim"
  by (auto simp: store_block_def Let_def)

lemma access_inv:
  assumes "cache_inv (sim_state sim)" and "access request grp key kind shared sim = Inr (sim', i)"
    and "kind \<in> {''prompt'', ''generated''}"
  shows "cache_inv (sim_state sim')"
  using assms(1,2)
proof (cases rule: access_cases)
  case (hit b)
  note b = block_validD [OF cache_invD(6) [OF assms(1) hit(2)]]
    and fin = cache_invD(8) [OF assms(1) hit(2)]
  have "cache_inv (tick (sim_state sim))" using assms(1) by (rule cache_inv_tick)
  then have "cache_inv ((tick (sim_state sim))\<lparr>cs_blocks := dict_set i
      (reuse_block (rt_request_id request) (cs_clock (sim_state sim) + 1) b)
      (cs_blocks (tick (sim_state sim)))\<rparr>)"
    using b fin hit(2)
    by (intro cache_inv_set_block) (auto simp: reuse_block_def tick_def block_identity_def)
  with hit show ?thesis by (simp add: tick_def)
next
  case (miss sim2)
  have inv1: "cache_inv (sim_state (count_miss_sim sim))"
    using assms(1) by (simp add: cache_inv_tick)
  note room = make_room_result [OF inv1 miss(2)]
  have "dict_get (cs_key_index (sim_state sim2)) (gs_name grp, key) = None"
    using room(6) miss(1) by (simp add: tick_def)
  with room assms(3) show ?thesis
    using cache_inv_insert [of "sim_state sim2" "(gs_name grp, key)" "fresh_block
        (rt_request_id request) (cs_clock (sim_state sim) + 1) (cs_next_block_id (sim_state sim2))
        (gs_name grp, key) kind shared"] miss(3)
    by (simp add: store_block_def Let_def full_def tick_def fresh_block_def block_identity_def)
qed

end
