(* ===== verification/CacheOwnership.thy ===== *)
theory CacheOwnership
  imports CacheInvariants
begin

text \<open>
  Ownership, the abstract state a request acts on: \<open>owners_of s i\<close> is the set of owner marks on
  block \<open>i\<close>, empty when the block is not resident.  Every operation of the simulator is shown to
  refine one update of this map; evictions do not change it at all, which says that no block with
  an owner is ever evicted.  The end of \<open>process\<close> then gives back exactly the map it started from.
\<close>

definition owners_of :: "cache_state \<Rightarrow> int \<Rightarrow> string set" where
  "owners_of s i = (case dict_get (cs_blocks s) i of None \<Rightarrow> {} | Some b \<Rightarrow> cb_owners b)"

lemma owners_of_tick [simp]: "owners_of (tick s) = owners_of s"
  by (simp add: owners_of_def tick_def fun_eq_iff)

lemma make_room_owners:
  assumes "cache_inv (sim_state sim)" and "make_room sim = Inr sim'"
  shows "owners_of (sim_state sim') = owners_of (sim_state sim)"
  using assms
proof (cases rule: make_room_cases)
  case room
  then show ?thesis by simp
next
  case (evicted i b m)
  then show ?thesis by (auto simp: owners_of_def fun_eq_iff dict_get_del)
qed

lemma access_owners:
  assumes "cache_inv (sim_state sim)" and "access request grp key kind shared sim = Inr (sim', i)"
  shows "owners_of (sim_state sim') =
    (owners_of (sim_state sim))(i := insert (rt_request_id request) (owners_of (sim_state sim) i))"
  using assms
proof (cases rule: access_cases)
  case (hit b)
  then show ?thesis
    by (auto simp: owners_of_def fun_eq_iff tick_def dict_get_set reuse_block_def)
next
  case (miss sim2)
  have inv1: "cache_inv (sim_state (count_miss_sim sim))"
    using assms(1) by (simp add: cache_inv_tick)
  note room = make_room_result [OF inv1 miss(2)]
  have "owners_of (sim_state sim2) = owners_of (sim_state sim)"
    using make_room_owners [OF inv1 miss(2)] by simp
  moreover have "owners_of (sim_state sim2) (cs_next_block_id (sim_state sim2)) = {}"
    using cache_invD(7) [OF room(1), of "cs_next_block_id (sim_state sim2)"]
    by (auto simp: owners_of_def split: option.splits)
  moreover have "owners_of (sim_state sim') =
      (owners_of (sim_state sim2))(i := {rt_request_id request})"
    and "i = cs_next_block_id (sim_state sim2)"
    using miss(3)
    by (auto simp: store_block_def Let_def owners_of_def fun_eq_iff dict_get_set fresh_block_def)
  ultimately show ?thesis by auto
qed

lemma discard_owner_owners:
  "owners_of (discard_owner rid i s) = (owners_of s)(i := owners_of s i - {rid})"
  by (auto simp: discard_owner_def owners_of_def fun_eq_iff dict_get_set split: option.splits)

lemma release_owned_owners:
  "owners_of (release_owned rid owned s) =
     (\<lambda>i. if i \<in> owned then owners_of s i - {rid} else owners_of s i)"
  by (auto simp: release_owned_def owners_of_def fun_eq_iff dict_get_map_value split: option.splits)

section \<open>The operations that only touch owner marks\<close>

lemma discard_owner_inv: "cache_inv s \<Longrightarrow> cache_inv (discard_owner rid i s)"
  using cache_invD(6,8) [of s i] block_validD [of s i]
  by (cases "dict_get (cs_blocks s) i")
     (auto simp: discard_owner_def block_identity_def intro!: cache_inv_set_block)

lemma release_owned_inv:
  assumes "cache_inv s"
  shows "cache_inv (release_owned rid owned s)"
proof -
  note inv = cache_invD [OF assms]
  let ?f = "\<lambda>i b. if i \<in> owned then b\<lparr>cb_owners := cb_owners b - {rid}\<rparr> else b"
  let ?s = "release_owned rid owned s"
  have get: "dict_get (cs_blocks ?s) i = map_option (?f i) (dict_get (cs_blocks s) i)" for i
    by (simp add: release_owned_def dict_get_map_value)
  have keys: "dict_keys (cs_blocks ?s) = dict_keys (cs_blocks s)"
    by (auto simp: release_owned_def)
  have ident: "block_identity (?f i b) = block_identity b" for i b
    by (simp add: block_identity_def)
  have rest: "cs_key_index ?s = cs_key_index s" "cs_capacity_blocks ?s = cs_capacity_blocks s"
    "length (cs_blocks ?s) = length (cs_blocks s)" "cs_next_block_id ?s = cs_next_block_id s"
    "cs_clock ?s = cs_clock s"
    by (simp_all add: release_owned_def)
  have valid: "block_valid ?s j c \<and> j < cs_next_block_id ?s \<and> finite (cb_owners c)"
    if "dict_get (cs_blocks ?s) j = Some c" for j c
  proof -
    from that get obtain b where b: "dict_get (cs_blocks s) j = Some b" "c = ?f j b" by auto
    with inv(6-8) [OF b(1)] rest ident show ?thesis by (auto simp: block_valid_def)
  qed
  have indexed: "\<exists>c. dict_get (cs_blocks ?s) j = Some c \<and> block_identity c = k"
    if "dict_get (cs_key_index ?s) k = Some j" for k j
  proof -
    from that rest have "dict_get (cs_key_index s) k = Some j" by simp
    then obtain b where "dict_get (cs_blocks s) j = Some b" "block_identity b = k"
      using inv(9) by blast
    with get ident show ?thesis by auto
  qed
  show ?thesis
    unfolding cache_inv_def keys using inv(1-5) rest valid indexed by simp
qed

section \<open>The set of blocks a request owns\<close>

text \<open>
  During \<open>process\<close> of request \<open>rid\<close>, started in a state with owner map \<open>own0\<close>: the variable
  \<open>owned\<close> is the set of blocks that carry the mark \<open>rid\<close>, and nobody else's mark has changed.
\<close>

definition own_inv :: "string \<Rightarrow> (int \<Rightarrow> string set) \<Rightarrow> run_state \<Rightarrow> bool" where
  "own_inv rid own0 r \<longleftrightarrow> cache_inv (rs_state r) \<and>
     owners_of (rs_state r) = (\<lambda>i. own0 i \<union> (if i \<in> rs_owned r then {rid} else {}))"

lemma own_inv_visit:
  assumes "own_inv (rt_request_id request) own0 r" and "\<forall>i. rt_request_id request \<notin> own0 i"
    and "kind \<in> {''prompt'', ''generated''}"
    and "visit request key kind shared r grp = Inr r'"
  shows "own_inv (rt_request_id request) own0 r'"
proof -
  let ?rid = "rt_request_id request"
  have expire: "own_inv ?rid own0 r2"
    if "own_inv ?rid own0 r1" and "expire limit ?rid window r1 = Inr (window', r2)"
    for limit window r1 window' r2
    using that
  proof (induction window arbitrary: r1)
    case Nil
    then show ?case by (auto split: if_splits)
  next
    case (Cons expired window)
    show ?case
    proof (cases "limit < int (length (expired # window))")
      case True
      have "own_inv ?rid own0 ((map_state (discard_owner ?rid expired) r1)
          \<lparr>rs_owned := rs_owned r1 - {expired}\<rparr>)"
        using Cons.prems(1) assms(2)
        by (auto simp: own_inv_def map_state_def discard_owner_inv discard_owner_owners fun_eq_iff)
      with True Cons show ?thesis by simp
    next
      case False
      with Cons.prems show ?thesis by simp
    qed
  qed
  have adv: "own_inv ?rid own0 r2"
    if "own_inv ?rid own0 r1" and "advance_sliding grp i ?rid r1 = Inr r2" for i r1 r2
    using that expire [of r1]
    by (fastforce simp: advance_sliding_def own_inv_def bind_res_eq_Inr
        split: if_splits option.splits prod.splits)
  from assms(4) obtain sim' i where acc: "access request grp key kind shared (rs_sim r) = Inr (sim', i)"
    and go: "advance_sliding grp i ?rid (r\<lparr>rs_sim := sim', rs_owned := insert i (rs_owned r)\<rparr>) = Inr r'"
    by (auto simp: visit_def bind_res_eq_Inr)
  have inv: "cache_inv (rs_state r)" using assms(1) by (simp add: own_inv_def)
  have "own_inv ?rid own0 (r\<lparr>rs_sim := sim', rs_owned := insert i (rs_owned r)\<rparr>)"
    using access_inv [OF inv acc assms(3)] access_owners [OF inv acc] assms(1)
    by (auto simp: own_inv_def fun_eq_iff)
  then show ?thesis using go by (rule adv)
qed

lemma own_inv_groups:
  assumes "own_inv (rt_request_id request) own0 r" and "\<forall>i. rt_request_id request \<notin> own0 i"
    and "kind \<in> {''prompt'', ''generated''}"
    and "visit_groups request key kind shared r = Inr r'"
  shows "own_inv (rt_request_id request) own0 r'"
  using assms(4) [unfolded visit_groups_def] assms(1)
  by (rule fold_res_invariant) (rule own_inv_visit [OF _ assms(2,3)])

lemma own_inv_count_cancelled [simp]: "own_inv rid own0 (count_cancelled r) = own_inv rid own0 r"
  by (simp add: own_inv_def count_cancelled_def)

lemma own_inv_generate:
  assumes "own_inv (rt_request_id request) own0 r" and "\<forall>i. rt_request_id request \<notin> own0 i"
    and "generate_blocks request indices r = Inr r'"
  shows "own_inv (rt_request_id request) own0 r'"
  using assms(1,3)
proof (induction indices arbitrary: r)
  case Nil
  then show ?case by (auto split: if_splits)
next
  case (Cons index indices)
  show ?case
  proof (cases "rt_cancel_after_generated request = Some index")
    case True
    with Cons.prems show ?thesis by auto
  next
    case False
    with Cons.prems obtain r1 where
      r1: "visit_groups request (generated_key (rt_request_id request) index) ''generated'' False r
        = Inr r1" and rest: "generate_blocks request indices r1 = Inr r'"
      by (auto simp: bind_res_eq_Inr)
    have "own_inv (rt_request_id request) own0 r1"
      using own_inv_groups [OF Cons.prems(1) assms(2) _ r1] by simp
    then show ?thesis using rest by (rule Cons.IH)
  qed
qed

lemma own_inv_prompt:
  assumes "own_inv (rt_request_id request) own0 r" and "\<forall>i. rt_request_id request \<notin> own0 i"
    and "fold_res (visit_prompt request) r keys = Inr r'"
  shows "own_inv (rt_request_id request) own0 r'"
  using assms(3,1)
proof (rule fold_res_invariant)
  fix r1 key r2
  assume own: "own_inv (rt_request_id request) own0 r1" and "visit_prompt request r1 key = Inr r2"
  then show "own_inv (rt_request_id request) own0 r2"
    using own_inv_groups [OF own assms(2), of "''prompt''" key] by (simp add: visit_prompt_def)
qed

lemma own_inv_start:
  "cache_inv (sim_state sim) \<Longrightarrow> own_inv rid (owners_of (sim_state sim)) (start_request sim)"
  by (simp add: own_inv_def start_request_def)

lemma process_own:
  assumes "cache_inv (sim_state sim)" and "process sim request = Inr sim'"
    and "\<forall>i. rt_request_id request \<notin> owners_of (sim_state sim) i"
  shows "cache_inv (sim_state sim') \<and> owners_of (sim_state sim') = owners_of (sim_state sim)"
proof -
  let ?rid = "rt_request_id request"
  let ?own0 = "owners_of (sim_state sim)"
  from assms(2) obtain r1 r2 where
    r1: "fold_res (visit_prompt request) (start_request sim) (rt_prompt_blocks request) = Inr r1"
    and r2: "generate_blocks request (py_range 0 (rt_generated_blocks request) 1) r1 = Inr r2"
    and r3: "sim' = rs_sim (map_state (release_owned ?rid (rs_owned r2)) r2)"
    by (auto simp: process_def bind_res_eq_Inr Let_def)
  have "own_inv ?rid ?own0 r2"
    using own_inv_generate [OF own_inv_prompt [OF own_inv_start [OF assms(1)] assms(3) r1] assms(3) r2] .
  then show ?thesis
    using assms(3) unfolding r3
    by (auto simp: own_inv_def map_state_def release_owned_inv release_owned_owners fun_eq_iff)
qed

text \<open>A cache between requests.\<close>

definition idle :: "cache_state \<Rightarrow> bool" where
  "idle s \<longleftrightarrow> (\<forall>b \<in> set (dict_values (cs_blocks s)). cb_owners b = {})"

lemma idle_iff:
  assumes "cache_inv s"
  shows "idle s \<longleftrightarrow> owners_of s = (\<lambda>_. {})"
proof -
  have "idle s \<longleftrightarrow> (\<forall>i b. (i, b) \<in> set (cs_blocks s) \<longrightarrow> cb_owners b = {})"
    by (auto simp: idle_def)
  also have "\<dots> \<longleftrightarrow> (\<forall>i b. dict_get (cs_blocks s) i = Some b \<longrightarrow> cb_owners b = {})"
    by (simp only: in_set_dict_get [OF cache_invD(1) [OF assms]])
  also have "\<dots> \<longleftrightarrow> owners_of s = (\<lambda>_. {})"
    by (auto simp: owners_of_def fun_eq_iff split: option.splits)
  finally show ?thesis .
qed

lemma process_idle:
  assumes "cache_inv (sim_state sim)" and "idle (sim_state sim)" and "process sim request = Inr sim'"
  shows "cache_inv (sim_state sim') \<and> idle (sim_state sim')"
  using process_own [OF assms(1,3)] assms(2) by (simp add: idle_iff assms(1))

lemma run_idle:
  assumes "cache_inv (sim_state sim)" and "idle (sim_state sim)"
    and "run_requests sim requests = Inr sim'"
  shows "cache_inv (sim_state sim') \<and> idle (sim_state sim')"
proof -
  from assms(3) have "fold_res process sim requests = Inr sim'"
    by (auto simp: run_requests_def bind_res_eq_Inr)
  then show ?thesis
    by (rule fold_res_invariant) (use assms(1,2) process_idle in blast)+
qed

end
