(* ===== verification/CacheLiveness.thy ===== *)
theory CacheLiveness
  imports CacheOwnership
begin

text \<open>
  Liveness: if the cache is large enough for what one request can own at a time, no request ever
  raises, whatever the policy proposes, as long as the fallback keeps the contract.

  What a request owns: one block per visit of a full group, and in a sliding group at most its
  window.  The bound is on the number of visits done so far, so \<open>request_load\<close> blocks are enough.
\<close>

section \<open>Group configurations\<close>

definition group_ok :: "group_spec \<Rightarrow> bool" where
  "group_ok g \<longleftrightarrow> (if gs_mode g = ''sliding''
     then (case gs_window_blocks g of None \<Rightarrow> False | Some w \<Rightarrow> 1 \<le> w)
     else gs_mode g = ''full'' \<and> gs_window_blocks g = None)"

lemma group_ok_iff:
  "group_ok g \<longleftrightarrow> GroupSpec (gs_name g) (gs_mode g) (gs_window_blocks g) = Inr g"
  by (auto simp: group_ok_def GroupSpec_def split: option.splits)

definition groups_ok :: "group_spec list \<Rightarrow> bool" where
  "groups_ok gs \<longleftrightarrow> distinct (map gs_name gs) \<and> list_all group_ok gs"

definition sliding_groups :: "group_spec list \<Rightarrow> group_spec list" where
  "sliding_groups gs = filter (\<lambda>g. gs_mode g = ''sliding'') gs"

definition full_groups :: "group_spec list \<Rightarrow> group_spec list" where
  "full_groups gs = filter (\<lambda>g. gs_mode g \<noteq> ''sliding'') gs"

definition window_limit :: "group_spec \<Rightarrow> nat" where
  "window_limit g = (case gs_window_blocks g of None \<Rightarrow> 0 | Some w \<Rightarrow> nat w)"

definition window_total :: "group_spec list \<Rightarrow> nat" where
  "window_total gs = sum_list (map window_limit (sliding_groups gs))"

definition request_load :: "group_spec list \<Rightarrow> request_trace \<Rightarrow> nat" where
  "request_load gs request =
     length (full_groups gs) * (length (rt_prompt_blocks request) + nat (rt_generated_blocks request))
     + window_total gs"

section \<open>Room can be made\<close>

lemma evictable_length:
  assumes "cache_inv s" and "owners_of s = (\<lambda>i. if i \<in> owned then {rid} else {})" and "finite owned"
  shows "length (cs_blocks s) \<le> length (evictable s) + card owned"
proof -
  note inv = cache_invD [OF assms(1)]
  have "set (dict_keys (cs_blocks s)) \<subseteq> set (map cb_block_id (evictable s)) \<union> owned"
  proof
    fix i assume "i \<in> set (dict_keys (cs_blocks s))"
    then obtain b where b: "dict_get (cs_blocks s) i = Some b" using dict_key_get by metis
    have "cb_owners b = (if i \<in> owned then {rid} else {})"
      using fun_cong [OF assms(2), of i] b by (simp add: owners_of_def)
    moreover have "cb_block_id b = i" using inv(6) [OF b] by (rule block_validD)
    ultimately show "i \<in> set (map cb_block_id (evictable s)) \<union> owned"
      using b evictable_iff [OF assms(1), of b] by (cases "i \<in> owned") force+
  qed
  then have "card (set (dict_keys (cs_blocks s))) \<le>
      card (set (map cb_block_id (evictable s)) \<union> owned)"
    using assms(3) by (intro card_mono) auto
  also have "\<dots> \<le> card (set (map cb_block_id (evictable s))) + card owned" by (rule card_Un_le)
  also have "\<dots> \<le> length (evictable s) + card owned"
    using card_length [of "map cb_block_id (evictable s)"] by simp
  finally show ?thesis using inv(1) distinct_card by fastforce
qed

context eviction_policy
begin

lemma make_room_total:
  assumes "propose (sim_fallback sim) = plan" and "cache_inv (sim_state sim)"
    and "full (sim_state sim) \<Longrightarrow> evictable (sim_state sim) \<noteq> []"
  shows "\<exists>sim'. make_room sim = Inr sim'"
proof (cases "full (sim_state sim)")
  case False
  then show ?thesis by (simp add: make_room_def full_def)
next
  case True
  have "is_ok (authorize_eviction (sim_fallback sim) (sim_state sim) (sim_policy sim) 1 (sim_metrics sim))"
    using assms True by (intro fallback_authorized) (auto simp: Suc_le_eq)
  then obtain victims m where
    auth: "authorize_eviction (sim_fallback sim) (sim_state sim) (sim_policy sim) 1 (sim_metrics sim)
      = Inr (victims, m)"
    by (auto simp: is_ok_def)
  from authorize_safe [OF auth] obtain i b where i: "victims = [i]"
    and b: "dict_get (cs_blocks (sim_state sim)) i = Some b" "cb_owners b = {}"
    by (auto simp: safe_victims_def length_Suc_conv)
  with evict_eq [of "sim\<lparr>sim_metrics := m\<rparr>" i b] assms(2) auth True show ?thesis
    by (simp add: make_room_def full_def)
qed

lemma access_total:
  assumes "propose (sim_fallback sim) = plan" and "cache_inv (sim_state sim)"
    and "owners_of (sim_state sim) = (\<lambda>i. if i \<in> owned then {rid} else {})"
    and "finite owned" and "int (card owned) < cs_capacity_blocks (sim_state sim)"
  shows "\<exists>sim' i. access request grp key kind shared sim = Inr (sim', i)"
proof (cases "dict_get (cs_key_index (sim_state sim)) (gs_name grp, key)")
  case (Some i)
  then obtain b where "dict_get (cs_blocks (sim_state sim)) i = Some b"
    using cache_invD(9) [OF assms(2)] by blast
  with Some show ?thesis by (simp add: access_def Let_def tick_def)
next
  case None
  let ?sim1 = "count_miss_sim sim"
  have inv1: "cache_inv (sim_state ?sim1)" using assms(2) by (simp add: cache_inv_tick)
  have own1: "owners_of (sim_state ?sim1) = (\<lambda>i. if i \<in> owned then {rid} else {})"
    using assms(3) by simp
  have "evictable (sim_state ?sim1) \<noteq> []" if "full (sim_state ?sim1)"
    using evictable_length [OF inv1 own1 assms(4)] assms(5) that
    by (auto simp: full_def tick_def)
  then obtain sim2 where "make_room ?sim1 = Inr sim2"
    using make_room_total [of ?sim1] assms(1) inv1 by auto
  with None show ?thesis
    by (simp add: access_def Let_def tick_def split: prod.splits)
qed

end

section \<open>The invariant of a run\<close>

text \<open>Window bookkeeping, alone.\<close>

lemma window_lengths:
  assumes "dict_keys windows = map gs_name gs" and "distinct (map gs_name gs)"
    and "\<forall>g \<in> set gs. \<exists>w. dict_get windows (gs_name g) = Some w \<and> length w \<le> bound g"
  shows "sum_list (map length (dict_values windows)) \<le> sum_list (map bound gs)"
  using assms
proof (induction gs arbitrary: windows)
  case Nil
  then show ?case by simp
next
  case (Cons g gs)
  obtain w windows' where w [simp]: "windows = (gs_name g, w) # windows'"
    using Cons.prems(1) by (cases windows) auto
  have "sum_list (map length (dict_values windows')) \<le> sum_list (map bound gs)"
  proof (rule Cons.IH)
    show "\<forall>h \<in> set gs. \<exists>v. dict_get windows' (gs_name h) = Some v \<and> length v \<le> bound h"
    proof
      fix h assume h: "h \<in> set gs"
      then have "gs_name h \<in> gs_name ` set gs" by (rule imageI)
      with Cons.prems(2) have "gs_name h \<noteq> gs_name g" by auto
      with h Cons.prems(3) show "\<exists>v. dict_get windows' (gs_name h) = Some v \<and> length v \<le> bound h"
        by fastforce
    qed
  qed (use Cons.prems in auto)
  moreover have "length w \<le> bound g" using Cons.prems(3) by simp
  ultimately show ?case by simp
qed

lemma card_windows:
  "card (\<Union>w \<in> set (dict_values windows). set w) \<le> sum_list (map length (dict_values windows))"
proof (induction windows)
  case Nil
  then show ?case by simp
next
  case (Cons p windows)
  have "card (\<Union>w \<in> set (dict_values (p # windows)). set w) \<le>
      card (set (snd p)) + card (\<Union>w \<in> set (dict_values windows). set w)"
    using card_Un_le [of "set (snd p)"] by simp
  with Cons card_length [of "snd p"] show ?case by simp
qed

definition window_inv :: "group_spec list \<Rightarrow> nat \<Rightarrow> run_state \<Rightarrow> bool" where
  "window_inv gs n r \<longleftrightarrow>
     dict_keys (rs_windows r) = map gs_name (sliding_groups gs) \<and>
     (\<forall>g \<in> set (sliding_groups gs).
        \<exists>w. dict_get (rs_windows r) (gs_name g) = Some w \<and> length w \<le> window_limit g) \<and>
     (\<exists>visited. finite visited \<and> card visited \<le> n \<and>
        rs_owned r \<subseteq> visited \<union> (\<Union>w \<in> set (dict_values (rs_windows r)). set w))"

lemma sliding_groups_distinct: "groups_ok gs \<Longrightarrow> distinct (map gs_name (sliding_groups gs))"
  by (simp add: groups_ok_def sliding_groups_def distinct_map_filter)

lemma window_inv_card:
  assumes "groups_ok gs" and "window_inv gs n r"
  shows "finite (rs_owned r) \<and> card (rs_owned r) \<le> n + window_total gs"
proof -
  let ?W = "\<Union>w \<in> set (dict_values (rs_windows r)). set w"
  from assms(2) obtain visited where v: "finite visited" "card visited \<le> n" "rs_owned r \<subseteq> visited \<union> ?W"
    by (auto simp: window_inv_def)
  have "card ?W \<le> sum_list (map length (dict_values (rs_windows r)))" by (rule card_windows)
  also have "\<dots> \<le> window_total gs"
    unfolding window_total_def using assms(2) sliding_groups_distinct [OF assms(1)]
    by (intro window_lengths) (auto simp: window_inv_def)
  finally have W: "card ?W \<le> window_total gs" .
  have fin: "finite (visited \<union> ?W)" using v(1) by simp
  have "card (rs_owned r) \<le> card (visited \<union> ?W)" using v(3) fin by (rule card_mono [rotated])
  also have "\<dots> \<le> card visited + card ?W" by (rule card_Un_le)
  finally show ?thesis using v W finite_subset [OF v(3) fin] by simp
qed

text \<open>What no operation changes.\<close>

definition config :: "simulator \<Rightarrow> group_spec list \<times> policy \<times> policy \<times> int" where
  "config sim = (sim_groups sim, sim_policy sim, sim_fallback sim, cs_capacity_blocks (sim_state sim))"

lemma access_config:
  assumes "cache_inv (sim_state sim)" and "access request grp key kind shared sim = Inr (sim', i)"
  shows "config sim' = config sim"
  using assms
proof (cases rule: access_cases)
  case (hit b)
  then show ?thesis by (simp add: config_def tick_def)
next
  case (miss sim2)
  have inv1: "cache_inv (sim_state (count_miss_sim sim))"
    using assms(1) by (simp add: cache_inv_tick)
  note room = make_room_result [OF inv1 miss(2)]
  show ?thesis
    using miss(3) room(4,7-9) by (simp add: store_block_def Let_def config_def tick_def)
qed

lemma expire_total:
  assumes "0 \<le> limit"
  shows "\<exists>window' r'. expire limit rid window r = Inr (window', r') \<and>
     int (length window') \<le> limit \<and> rs_windows r' = rs_windows r \<and>
     rs_owned r' \<subseteq> rs_owned r \<and> rs_owned r' \<inter> set window \<subseteq> set window' \<and>
     config (rs_sim r') = config (rs_sim r)"
proof (induction window arbitrary: r)
  case Nil
  with assms show ?case by simp
next
  case (Cons i window)
  show ?case
  proof (cases "limit < int (length (i # window))")
    case False
    then show ?thesis by auto
  next
    case True
    let ?r = "(map_state (discard_owner rid i) r)\<lparr>rs_owned := rs_owned r - {i}\<rparr>"
    from Cons [of ?r] obtain window' r' where
      IH: "expire limit rid window ?r = Inr (window', r')" "int (length window') \<le> limit"
      "rs_windows r' = rs_windows r" "rs_owned r' \<subseteq> rs_owned r - {i}"
      "rs_owned r' \<inter> set window \<subseteq> set window'" "config (rs_sim r') = config (rs_sim ?r)"
      by (auto simp: map_state_def)
    moreover have "config (rs_sim ?r) = config (rs_sim r)"
      by (auto simp: config_def map_state_def discard_owner_def split: option.splits)
    ultimately show ?thesis using True by (intro exI [of _ window'] exI [of _ r']) auto
  qed
qed

lemma dict_values_iff:
  "dict_wf d \<Longrightarrow> w \<in> set (dict_values d) \<longleftrightarrow> (\<exists>k. dict_get d k = Some w)"
  by (force simp: in_set_dict_get [symmetric])

lemma advance_total:
  assumes "groups_ok gs" and "grp \<in> set gs" and "window_inv gs n r"
  shows "\<exists>r'. advance_sliding grp i rid (r\<lparr>rs_sim := sim, rs_owned := insert i (rs_owned r)\<rparr>) = Inr r' \<and>
     config (rs_sim r') = config sim \<and>
     window_inv gs (n + (if gs_mode grp = ''sliding'' then 0 else 1)) r'"
proof (cases "gs_mode grp = ''sliding''")
  case False
  from assms(3) obtain visited where v: "finite visited" "card visited \<le> n"
    "rs_owned r \<subseteq> visited \<union> (\<Union>w \<in> set (dict_values (rs_windows r)). set w)"
    by (auto simp: window_inv_def)
  then have "finite (insert i visited)" "card (insert i visited) \<le> Suc n"
    by (auto simp: card_insert_if)
  with v assms(3) False show ?thesis
    by (auto simp: advance_sliding_def window_inv_def intro!: exI [of _ "insert i visited"])
next
  case True
  let ?r1 = "r\<lparr>rs_sim := sim, rs_owned := insert i (rs_owned r)\<rparr>"
  have grp: "grp \<in> set (sliding_groups gs)" using True assms(2) by (simp add: sliding_groups_def)
  then obtain w where w: "dict_get (rs_windows r) (gs_name grp) = Some w"
    using assms(3) by (auto simp: window_inv_def)
  obtain limit where limit: "gs_window_blocks grp = Some limit" "1 \<le> limit"
    using assms(1,2) True by (auto simp: groups_ok_def list_all_iff group_ok_def split: option.splits)
  then have "0 \<le> limit" by simp
  from expire_total [OF this, of rid "w @ [i]" ?r1] obtain w' r' where
    ex: "expire limit rid (w @ [i]) ?r1 = Inr (w', r')" "int (length w') \<le> limit"
    "rs_windows r' = rs_windows r" "rs_owned r' \<subseteq> insert i (rs_owned r)"
    "rs_owned r' \<inter> set (w @ [i]) \<subseteq> set w'" "config (rs_sim r') = config sim"
    by auto
  let ?windows = "dict_set (gs_name grp) w' (rs_windows r)"
  have run: "advance_sliding grp i rid ?r1 = Inr (r'\<lparr>rs_windows := ?windows\<rparr>)"
    using True limit w ex(1,3) by (simp add: advance_sliding_def)
  from assms(3) obtain visited where v: "finite visited" "card visited \<le> n"
    "rs_owned r \<subseteq> visited \<union> (\<Union>w \<in> set (dict_values (rs_windows r)). set w)"
    by (auto simp: window_inv_def)
  have wf: "dict_wf (rs_windows r)"
    using assms(3) sliding_groups_distinct [OF assms(1)] by (simp add: window_inv_def)
  have "rs_owned r' \<subseteq> visited \<union> (\<Union>w \<in> set (dict_values ?windows). set w)"
  proof
    fix j assume j: "j \<in> rs_owned r'"
    show "j \<in> visited \<union> (\<Union>w \<in> set (dict_values ?windows). set w)"
    proof (cases "j \<in> visited")
      case False
      have "j \<in> set w' \<or> (\<exists>k v. k \<noteq> gs_name grp \<and> dict_get (rs_windows r) k = Some v \<and> j \<in> set v)"
      proof (cases "j \<in> set (w @ [i])")
        case True
        with j ex(5) show ?thesis by blast
      next
        case out: False
        with j ex(4) False v(3) have "j \<in> (\<Union>w \<in> set (dict_values (rs_windows r)). set w)"
          by auto
        then obtain v where "v \<in> set (dict_values (rs_windows r))" "j \<in> set v" by (rule UN_E)
        then obtain k where "dict_get (rs_windows r) k = Some v" using dict_values_iff [OF wf] by blast
        with out w \<open>j \<in> set v\<close> show ?thesis by (intro disjI2 exI [of _ k] exI [of _ v]) auto
      qed
      then have "\<exists>v. v \<in> set (dict_values ?windows) \<and> j \<in> set v"
        unfolding dict_values_iff [OF dict_wf_set [OF wf]] dict_get_set by metis
      then show ?thesis by auto
    qed simp
  qed
  moreover have "dict_keys ?windows = dict_keys (rs_windows r)"
    using dict_get_in_keys [OF w] by (simp add: dict_keys_set)
  moreover have "\<forall>g \<in> set (sliding_groups gs). \<exists>w. dict_get ?windows (gs_name g) = Some w \<and>
      length w \<le> window_limit g"
  proof
    fix g assume g: "g \<in> set (sliding_groups gs)"
    show "\<exists>w. dict_get ?windows (gs_name g) = Some w \<and> length w \<le> window_limit g"
    proof (cases "gs_name g = gs_name grp")
      case eq: True
      then have "g = grp"
        using g grp sliding_groups_distinct [OF assms(1)] by (auto simp: distinct_map dest: inj_onD)
      with limit ex(2) show ?thesis by (simp add: dict_get_set window_limit_def)
    next
      case False
      with g assms(3) show ?thesis by (auto simp: dict_get_set window_inv_def)
    qed
  qed
  ultimately have "window_inv gs n (r'\<lparr>rs_windows := ?windows\<rparr>)"
    using assms(3) v(1,2) by (auto simp: window_inv_def)
  with run ex(6) True show ?thesis by simp
qed

section \<open>No request raises\<close>

text \<open>\<open>n\<close> visits of full groups done, by the only request in flight.\<close>

definition live_inv :: "string \<Rightarrow> group_spec list \<times> policy \<times> policy \<times> int \<Rightarrow> nat \<Rightarrow> run_state \<Rightarrow> bool" where
  "live_inv rid cfg n r \<longleftrightarrow>
     own_inv rid (\<lambda>_. {}) r \<and> window_inv (fst cfg) n r \<and> config (rs_sim r) = cfg"

lemma start_live:
  assumes "cache_inv (sim_state sim)" and "idle (sim_state sim)" and "groups_ok (sim_groups sim)"
  shows "live_inv rid (config sim) 0 (start_request sim)"
proof -
  have fold: "fold (\<lambda>g d. dict_set (gs_name g) [] d) gs d = d @ map (\<lambda>g. (gs_name g, [])) gs"
    if "distinct (dict_keys d @ map gs_name gs)" for gs and d :: "(string, int list) dict"
    using that by (induction gs arbitrary: d) (auto simp: dict_set_fresh)
  have "rs_windows (start_request sim) = map (\<lambda>g. (gs_name g, [])) (sliding_groups (sim_groups sim))"
    using fold [of "[]"] sliding_groups_distinct [OF assms(3)]
    by (simp add: start_request_def sliding_groups_def)
  moreover have "dict_get (map (\<lambda>g. (gs_name g, [])) gs) (gs_name g) = Some ([] :: int list)"
    if "g \<in> set gs" for g and gs :: "group_spec list"
    using that by (induction gs) auto
  ultimately have "window_inv (sim_groups sim) 0 (start_request sim)"
    by (auto simp: window_inv_def start_request_def intro!: exI [of _ "{}"])
  then show ?thesis
    using own_inv_start [OF assms(1), of rid] assms(1,2)
    by (simp add: live_inv_def config_def idle_iff) (simp add: start_request_def)
qed

context eviction_policy
begin

lemma visit_total:
  assumes "groups_ok gs" and "grp \<in> set gs" and "kind \<in> {''prompt'', ''generated''}"
    and "propose fb = plan" and "live_inv (rt_request_id request) (gs, pol, fb, c) n r"
    and "int (n + window_total gs) < c"
  shows "\<exists>r'. visit request key kind shared r grp = Inr r' \<and>
     live_inv (rt_request_id request) (gs, pol, fb, c)
       (n + (if gs_mode grp = ''sliding'' then 0 else 1)) r'"
proof -
  let ?rid = "rt_request_id request"
  from assms(5) have own: "own_inv ?rid (\<lambda>_. {}) r" and win: "window_inv gs n r"
    and conf: "config (rs_sim r) = (gs, pol, fb, c)"
    by (simp_all add: live_inv_def)
  have inv: "cache_inv (rs_state r)" using own by (simp add: own_inv_def)
  have "owners_of (rs_state r) = (\<lambda>i. if i \<in> rs_owned r then {?rid} else {})"
    using own by (auto simp: own_inv_def fun_eq_iff)
  with window_inv_card [OF assms(1) win] assms(4,6) conf inv
  obtain sim' i where acc: "access request grp key kind shared (rs_sim r) = Inr (sim', i)"
    using access_total [of "rs_sim r" "rs_owned r" ?rid request grp key kind shared]
    by (auto simp: config_def)
  obtain r' where adv: "advance_sliding grp i ?rid
      (r\<lparr>rs_sim := sim', rs_owned := insert i (rs_owned r)\<rparr>) = Inr r'"
    and r': "config (rs_sim r') = config sim'"
      "window_inv gs (n + (if gs_mode grp = ''sliding'' then 0 else 1)) r'"
    using advance_total [OF assms(1,2) win] by blast
  have go: "visit request key kind shared r grp = Inr r'" by (simp add: visit_def acc adv)
  have "own_inv ?rid (\<lambda>_. {}) r'" by (rule own_inv_visit [OF own _ assms(3) go]) simp
  with go r' conf access_config [OF inv acc] show ?thesis by (simp add: live_inv_def)
qed

lemma visit_groups_total:
  assumes "groups_ok gs" and "kind \<in> {''prompt'', ''generated''}" and "propose fb = plan"
    and "live_inv (rt_request_id request) (gs, pol, fb, c) n r"
    and "int (n + length (full_groups gs) + window_total gs) < c"
  shows "\<exists>r'. visit_groups request key kind shared r = Inr r' \<and>
     live_inv (rt_request_id request) (gs, pol, fb, c) (n + length (full_groups gs)) r'"
proof -
  have "\<exists>r'. fold_res (visit request key kind shared) r visited = Inr r' \<and>
      live_inv (rt_request_id request) (gs, pol, fb, c) (n + length (full_groups visited)) r'"
    if "set visited \<subseteq> set gs" and "live_inv (rt_request_id request) (gs, pol, fb, c) n r"
      and "int (n + length (full_groups visited) + window_total gs) < c" for visited n r
    using that
  proof (induction visited arbitrary: n r)
    case Nil
    then show ?case by (simp add: full_groups_def)
  next
    case (Cons grp visited)
    let ?n = "n + (if gs_mode grp = ''sliding'' then 0 else 1)"
    have count: "?n + length (full_groups visited) = n + length (full_groups (grp # visited))"
      by (simp add: full_groups_def)
    obtain r1 where r1: "visit request key kind shared r grp = Inr r1"
      "live_inv (rt_request_id request) (gs, pol, fb, c) ?n r1"
      using visit_total [OF assms(1) _ assms(2,3) Cons.prems(2), of grp key shared] Cons.prems(1,3)
      by auto
    with Cons.IH [OF _ r1(2)] Cons.prems(1,3) count show ?case by simp
  qed
  moreover have "sim_groups (rs_sim r) = gs"
    using assms(4) by (simp add: live_inv_def config_def)
  ultimately show ?thesis using assms(4,5) by (simp add: visit_groups_def)
qed

lemma prompt_total:
  assumes "groups_ok gs" and "propose fb = plan"
    and "live_inv (rt_request_id request) (gs, pol, fb, c) n r"
    and "int (n + length (full_groups gs) * length keys + window_total gs) < c"
  shows "\<exists>r'. fold_res (visit_prompt request) r keys = Inr r' \<and>
     live_inv (rt_request_id request) (gs, pol, fb, c) (n + length (full_groups gs) * length keys) r'"
  using assms(3,4)
proof (induction keys arbitrary: n r)
  case Nil
  then show ?case by simp
next
  case (Cons key keys)
  let ?n = "n + length (full_groups gs)"
  have "int (n + length (full_groups gs) + window_total gs) < c"
    using Cons.prems(2) by (rule le_less_trans [rotated]) simp
  then obtain r1 where r1: "visit_prompt request r key = Inr r1"
    "live_inv (rt_request_id request) (gs, pol, fb, c) ?n r1"
    using visit_groups_total [OF assms(1) _ assms(2) Cons.prems(1), of "''prompt''" key]
    by (auto simp: visit_prompt_def)
  with Cons.IH [OF r1(2)] Cons.prems(2) show ?case by (simp add: algebra_simps)
qed

lemma generate_total:
  assumes "groups_ok gs" and "propose fb = plan"
    and "live_inv (rt_request_id request) (gs, pol, fb, c) n r"
    and "int (n + length (full_groups gs) * length indices + window_total gs) < c"
  shows "\<exists>r' n'. generate_blocks request indices r = Inr r' \<and>
     live_inv (rt_request_id request) (gs, pol, fb, c) n' r'"
  using assms(3,4)
proof (induction indices arbitrary: n r)
  case Nil
  then show ?case
    by (auto simp: live_inv_def window_inv_def config_def count_cancelled_def own_inv_def)
next
  case (Cons index indices)
  show ?case
  proof (cases "rt_cancel_after_generated request = Some index")
    case True
    with Cons.prems show ?thesis
      by (auto simp: live_inv_def window_inv_def config_def count_cancelled_def own_inv_def)
  next
    case False
    let ?n = "n + length (full_groups gs)"
    have "int (n + length (full_groups gs) + window_total gs) < c"
      using Cons.prems(2) by (rule le_less_trans [rotated]) simp
    then obtain r1 where r1: "visit_groups request (generated_key (rt_request_id request) index)
        ''generated'' False r = Inr r1" "live_inv (rt_request_id request) (gs, pol, fb, c) ?n r1"
      using visit_groups_total [OF assms(1) _ assms(2) Cons.prems(1), of "''generated''"]
      by auto
    with Cons.IH [OF r1(2)] Cons.prems(2) False show ?thesis by (simp add: algebra_simps)
  qed
qed

text \<open>A simulator ready for a request: consistent, between requests, with a contracted fallback
  and room for the load.\<close>

lemma process_total:
  assumes "cache_inv (sim_state sim)" and "idle (sim_state sim)" and "groups_ok (sim_groups sim)"
    and "propose (sim_fallback sim) = plan"
    and "int (request_load (sim_groups sim) request) < cs_capacity_blocks (sim_state sim)"
  shows "\<exists>sim'. process sim request = Inr sim' \<and> config sim' = config sim"
proof -
  let ?rid = "rt_request_id request" and ?gs = "sim_groups sim" and ?fb = "sim_fallback sim"
  let ?cfg = "(?gs, sim_policy sim, ?fb, cs_capacity_blocks (sim_state sim))"
  have start: "live_inv ?rid ?cfg 0 (start_request sim)"
    using start_live [OF assms(1-3), of ?rid] by (simp add: config_def)
  have load: "int (0 + length (full_groups ?gs) * length (rt_prompt_blocks request) + window_total ?gs)
      < cs_capacity_blocks (sim_state sim)"
    using assms(5) by (rule le_less_trans [rotated]) (simp add: request_load_def algebra_simps)
  obtain r1 where
    r1: "fold_res (visit_prompt request) (start_request sim) (rt_prompt_blocks request) = Inr r1"
      "live_inv ?rid ?cfg (0 + length (full_groups ?gs) * length (rt_prompt_blocks request)) r1"
    using prompt_total [OF assms(3,4) start load] by blast
  have "length (py_range 0 (rt_generated_blocks request) 1) = nat (rt_generated_blocks request)"
    by (simp add: py_range_def)
  then have load': "int (0 + length (full_groups ?gs) * length (rt_prompt_blocks request) +
      length (full_groups ?gs) * length (py_range 0 (rt_generated_blocks request) 1) +
      window_total ?gs) < cs_capacity_blocks (sim_state sim)"
    using assms(5) by (simp add: request_load_def algebra_simps)
  obtain r2 n' where
    r2: "generate_blocks request (py_range 0 (rt_generated_blocks request) 1) r1 = Inr r2"
      "live_inv ?rid ?cfg n' r2"
    using generate_total [OF assms(3,4) r1(2) load'] by blast
  have "cache_inv (rs_state (map_state (release_owned ?rid (rs_owned r2)) r2))"
    using r2(2) by (simp add: live_inv_def own_inv_def map_state_def release_owned_inv)
  then have "validate (rs_state (map_state (release_owned ?rid (rs_owned r2)) r2)) = Inr ()"
    by (rule cache_inv_validate)
  with r1 r2 show ?thesis
    by (auto simp: process_def Let_def live_inv_def config_def map_state_def release_owned_def)
qed

lemma run_total:
  assumes "cache_inv (sim_state sim)" and "idle (sim_state sim)" and "groups_ok (sim_groups sim)"
    and "propose (sim_fallback sim) = plan"
    and "\<forall>request \<in> set requests.
      int (request_load (sim_groups sim) request) < cs_capacity_blocks (sim_state sim)"
  shows "\<exists>sim'. run_requests sim requests = Inr sim' \<and> config sim' = config sim"
proof -
  let ?I = "\<lambda>(k :: nat) sim'. cache_inv (sim_state sim') \<and> idle (sim_state sim') \<and> config sim' = config sim"
  have "\<exists>sim'. fold_res process sim requests = Inr sim' \<and> ?I (length requests) sim'"
  proof (rule fold_res_counted)
    fix k sim1 request
    assume "request \<in> set requests" and I: "?I k sim1"
    with assms(3-5) obtain sim2 where "process sim1 request = Inr sim2" "config sim2 = config sim1"
      using process_total [of sim1 request] by (auto simp: config_def)
    with process_idle [of sim1 request sim2] I
    show "\<exists>sim2. process sim1 request = Inr sim2 \<and> ?I (Suc k) sim2" by auto
  qed (use assms in auto)
  then show ?thesis by (auto simp: run_requests_def cache_inv_validate)
qed

end

end
