(* ===== verification/CacheAccounting.thy ===== *)
theory CacheAccounting
  imports CacheLiveness
begin

text \<open>
  Invariants of a whole simulator, and the books it keeps.  The locale \<open>sim_invariant\<close> is the
  interface of an invariant: what an access and the four small updates of \<open>process\<close> have to keep.
  Its instances are the accounting identities of the metrics (\<open>accounted\<close>), and the promise that
  the authority never overrules a contracted policy (\<open>trusted\<close>).
\<close>

section \<open>Invariants of a simulator\<close>

locale sim_invariant =
  fixes P :: "simulator \<Rightarrow> bool"
  assumes access: "P sim \<Longrightarrow> kind \<in> {''prompt'', ''generated''} \<Longrightarrow>
      access request grp key kind shared sim = Inr (sim', i) \<Longrightarrow> P sim'"
    and discard: "P sim \<Longrightarrow> P (sim\<lparr>sim_state := discard_owner rid i (sim_state sim)\<rparr>)"
    and release: "P sim \<Longrightarrow> P (sim\<lparr>sim_state := release_owned rid owned (sim_state sim)\<rparr>)"
    and requests: "P sim \<Longrightarrow> P (sim\<lparr>sim_metrics := (sim_metrics sim)\<lparr>sm_requests := k\<rparr>\<rparr>)"
    and cancelled: "P sim \<Longrightarrow> P (sim\<lparr>sim_metrics := (sim_metrics sim)\<lparr>sm_cancelled_requests := k\<rparr>\<rparr>)"
begin

lemma expire: "expire limit rid window r = Inr (window', r') \<Longrightarrow> P (rs_sim r) \<Longrightarrow> P (rs_sim r')"
proof (induction window arbitrary: r)
  case Nil
  then show ?case by (auto split: if_splits)
next
  case (Cons i window)
  then show ?case
    by (cases "limit < int (length (i # window))") (auto simp: map_state_def discard)
qed

lemma visit:
  assumes "kind \<in> {''prompt'', ''generated''}" and "P (rs_sim r)"
    and "visit request key kind shared r grp = Inr r'"
  shows "P (rs_sim r')"
proof -
  from assms(3) obtain sim' i where acc: "access request grp key kind shared (rs_sim r) = Inr (sim', i)"
    and adv: "advance_sliding grp i (rt_request_id request)
      (r\<lparr>rs_sim := sim', rs_owned := insert i (rs_owned r)\<rparr>) = Inr r'"
    by (auto simp: visit_def bind_res_eq_Inr)
  have "P sim'" using access [OF assms(2,1) acc] .
  then show ?thesis
    using adv
    by (auto simp: advance_sliding_def bind_res_eq_Inr dest!: expire split: if_splits option.splits)
qed

lemma visit_groups:
  assumes "kind \<in> {''prompt'', ''generated''}" and "P (rs_sim r)"
    and "visit_groups request key kind shared r = Inr r'"
  shows "P (rs_sim r')"
  using assms(3) [unfolded visit_groups_def] assms(2)
  by (rule fold_res_invariant [where I = "\<lambda>r. P (rs_sim r)"]) (rule visit [OF assms(1)])

lemma prompt:
  assumes "P (rs_sim r)" and "fold_res (visit_prompt request) r keys = Inr r'"
  shows "P (rs_sim r')"
  using assms(2,1)
proof (rule fold_res_invariant [where I = "\<lambda>r. P (rs_sim r)"])
  fix r1 key r2
  assume "P (rs_sim r1)" and "visit_prompt request r1 key = Inr r2"
  then show "P (rs_sim r2)"
    using visit_groups [of "''prompt''" r1 request key] by (simp add: visit_prompt_def)
qed

lemma generate:
  assumes "P (rs_sim r)" and "generate_blocks request indices r = Inr r'"
  shows "P (rs_sim r')"
  using assms
proof (induction indices arbitrary: r)
  case Nil
  then show ?case by (auto simp: count_cancelled_def cancelled split: if_splits)
next
  case (Cons index indices)
  show ?case
  proof (cases "rt_cancel_after_generated request = Some index")
    case True
    with Cons.prems show ?thesis by (auto simp: count_cancelled_def cancelled)
  next
    case False
    with Cons.prems obtain r1 where
      r1: "visit_groups request (generated_key (rt_request_id request) index) ''generated'' False r
        = Inr r1" and rest: "generate_blocks request indices r1 = Inr r'"
      by (auto simp: bind_res_eq_Inr)
    have "P (rs_sim r1)" using visit_groups [OF _ Cons.prems(1) r1] by simp
    then show ?thesis using rest by (rule Cons.IH)
  qed
qed

lemma process:
  assumes "P sim" and "process sim request = Inr sim'"
  shows "P sim'"
proof -
  let ?rid = "rt_request_id request"
  from assms(2) obtain r1 r2 where
    r1: "fold_res (visit_prompt request) (start_request sim) (rt_prompt_blocks request) = Inr r1"
    and r2: "generate_blocks request (py_range 0 (rt_generated_blocks request) 1) r1 = Inr r2"
    and r3: "sim' = rs_sim (map_state (release_owned ?rid (rs_owned r2)) r2)"
    by (auto simp: process_def bind_res_eq_Inr Let_def)
  have "P (rs_sim (start_request sim))" using assms(1) by (simp add: start_request_def requests)
  then show ?thesis
    using generate [OF prompt [OF _ r1] r2] by (simp add: r3 map_state_def release)
qed

lemma run:
  assumes "P sim" and "run_requests sim trace = Inr sim'"
  shows "P sim'"
proof -
  from assms(2) have "fold_res process sim trace = Inr sim'"
    by (auto simp: run_requests_def bind_res_eq_Inr)
  then show ?thesis using assms(1) by (rule fold_res_invariant) (rule process)
qed

end

section \<open>The books\<close>

definition accounted :: "simulator \<Rightarrow> bool" where
  "accounted sim \<longleftrightarrow>
     (let s = sim_state sim; m = sim_metrics sim; resident = int (length (cs_blocks s)) in
      cache_inv s \<and>
      sm_misses m = sm_evictions m + resident \<and>
      sm_recomputed_blocks m = sm_misses m \<and>
      cs_clock s = sm_hits m + sm_misses m \<and>
      cs_next_block_id s = sm_misses m \<and>
      sm_planner_calls m = sm_evictions m \<and>
      sm_fallback_uses m = sm_rejected_proposals m \<and>
      0 \<le> sm_rejected_proposals m \<and> sm_rejected_proposals m \<le> sm_planner_calls m \<and>
      0 \<le> sm_hits m \<and>
      resident \<le> sm_peak_resident_blocks m \<and> sm_peak_resident_blocks m \<le> cs_capacity_blocks s)"

text \<open>What an authorised plan of one victim costs.\<close>

lemma authorize_counts:
  assumes "authorize_eviction fallback s pol 1 m = Inr (victims, m')"
  shows "sm_planner_calls m' = sm_planner_calls m + 1"
    and "sm_fallback_uses m' - sm_fallback_uses m = sm_rejected_proposals m' - sm_rejected_proposals m"
    and "sm_rejected_proposals m' - sm_rejected_proposals m =
          of_bool (\<not> proposal_valid s (fst (propose pol s 1)) 1)"
  using assms
  by (auto simp: authorize_eviction_def Let_def count_planner_call_def count_fallback_def
      split: prod.splits if_splits)

lemma make_room_accounted:
  assumes "cache_inv (sim_state sim)" and "make_room sim = Inr sim'"
  shows "let m = sim_metrics sim; m' = sim_metrics sim' in
     sm_evictions m' + int (length (cs_blocks (sim_state sim'))) =
       sm_evictions m + int (length (cs_blocks (sim_state sim))) \<and>
     sm_planner_calls m' - sm_planner_calls m = sm_evictions m' - sm_evictions m \<and>
     sm_fallback_uses m' - sm_fallback_uses m = sm_rejected_proposals m' - sm_rejected_proposals m \<and>
     sm_rejected_proposals m \<le> sm_rejected_proposals m' \<and>
     sm_rejected_proposals m' - sm_rejected_proposals m \<le> sm_planner_calls m' - sm_planner_calls m \<and>
     sm_hits m' = sm_hits m \<and> sm_misses m' = sm_misses m \<and>
     sm_recomputed_blocks m' = sm_recomputed_blocks m \<and>
     sm_peak_resident_blocks m' = sm_peak_resident_blocks m"
  using assms
proof (cases rule: make_room_cases)
  case room
  then show ?thesis by simp
next
  case (evicted i b m)
  have "Suc (length (dict_del i (cs_blocks (sim_state sim)))) = length (cs_blocks (sim_state sim))"
    using length_dict_del [OF cache_invD(1) [OF assms(1)] dict_get_in_keys [OF evicted(3)]] .
  then show ?thesis
    using authorize_counts [OF evicted(2)] authorize_metrics [OF evicted(2)] evicted(5)
    by (auto simp: Let_def of_bool_def split: if_splits)
qed

lemma accounted_access:
  assumes "accounted sim" and "kind \<in> {''prompt'', ''generated''}"
    and "access request grp key kind shared sim = Inr (sim', i)"
  shows "accounted sim'"
proof -
  have inv: "cache_inv (sim_state sim)" using assms(1) by (simp add: accounted_def Let_def)
  have inv': "cache_inv (sim_state sim')" using access_inv [OF inv assms(3,2)] .
  from inv assms(3) show ?thesis
  proof (cases rule: access_cases)
    case (hit b)
    have "length (dict_set i (reuse_block (rt_request_id request) (cs_clock (sim_state sim) + 1) b)
        (cs_blocks (sim_state sim))) = length (cs_blocks (sim_state sim))"
      using dict_get_in_keys [OF hit(2)] by (simp add: length_dict_set del: set_map)
    with assms(1) hit(3) inv' show ?thesis
      by (simp add: accounted_def Let_def tick_def count_hit_def)
  next
    case (miss sim2)
    have inv1: "cache_inv (sim_state (count_miss_sim sim))"
      using inv by (simp add: cache_inv_tick)
    note room = make_room_result [OF inv1 miss(2)]
    let ?s2 = "sim_state sim2"
    have "cs_next_block_id ?s2 \<notin> set (dict_keys (cs_blocks ?s2))"
      using dict_key_get [of "cs_next_block_id ?s2"] cache_invD(7) [OF room(1)] by force
    then have "length (dict_set (cs_next_block_id ?s2) b (cs_blocks ?s2)) =
        Suc (length (cs_blocks ?s2))" for b
      by (simp add: length_dict_set del: set_map)
    with miss(3) inv' make_room_accounted [OF inv1 miss(2)] room(2-5) assms(1)
    show ?thesis
      by (simp add: accounted_def Let_def store_block_def tick_def count_miss_def note_peak_def
          full_def)
  qed
qed

lemma length_discard [simp]: "length (cs_blocks (discard_owner rid i s)) = length (cs_blocks s)"
  using dict_get_in_keys [of "cs_blocks s" i]
  by (auto simp: discard_owner_def length_dict_set simp del: set_map split: option.splits)

lemma discard_owner_simps [simp]:
  "cs_clock (discard_owner rid i s) = cs_clock s"
  "cs_capacity_blocks (discard_owner rid i s) = cs_capacity_blocks s"
  "cs_next_block_id (discard_owner rid i s) = cs_next_block_id s"
  "cs_key_index (discard_owner rid i s) = cs_key_index s"
  by (auto simp: discard_owner_def split: option.splits)

lemma release_owned_simps [simp]:
  "cs_clock (release_owned rid owned s) = cs_clock s"
  "cs_capacity_blocks (release_owned rid owned s) = cs_capacity_blocks s"
  "cs_next_block_id (release_owned rid owned s) = cs_next_block_id s"
  "cs_key_index (release_owned rid owned s) = cs_key_index s"
  "length (cs_blocks (release_owned rid owned s)) = length (cs_blocks s)"
  by (simp_all add: release_owned_def)

interpretation books: sim_invariant accounted
  by unfold_locales
    (erule (2) accounted_access | simp add: accounted_def Let_def discard_owner_inv release_owned_inv)+

lemma CacheSimulator_accounted:
  "CacheSimulator groups c pol = Inr sim \<Longrightarrow> accounted sim"
  by (auto simp: CacheSimulator_def accounted_def CacheState_def StudyMetrics_def bind_res_eq_Inr
      cache_inv_def Let_def split: if_splits)

section \<open>Contracted policies are trusted\<close>

definition trusted :: "simulator \<Rightarrow> bool" where
  "trusted sim \<longleftrightarrow> cache_inv (sim_state sim) \<and> eviction_policy (propose (sim_policy sim)) \<and>
     sm_rejected_proposals (sim_metrics sim) = 0"

lemma make_room_trusted:
  assumes "trusted sim" and "make_room sim = Inr sim'"
  shows "trusted sim'"
proof -
  from assms(1) have inv: "cache_inv (sim_state sim)"
    and contract: "eviction_policy (propose (sim_policy sim))"
    and zero: "sm_rejected_proposals (sim_metrics sim) = 0"
    by (simp_all add: trusted_def)
  note room = make_room_result [OF inv assms(2)]
  from inv assms(2) show ?thesis
  proof (cases rule: make_room_cases)
    case room
    with assms(1) show ?thesis by simp
  next
    case (evicted i b m)
    have "cb_block_id b = i" using cache_invD(6) [OF inv evicted(3)] by (rule block_validD)
    then have "b \<in> set (evictable (sim_state sim))"
      using evicted(3,4) by (simp add: evictable_iff [OF inv])
    then have "nat 1 \<le> length (evictable (sim_state sim))"
      by (cases "evictable (sim_state sim)") auto
    then have "proposal_valid (sim_state sim) (fst (propose (sim_policy sim) (sim_state sim) 1)) 1"
      using eviction_policy.plan_accepted [OF contract inv, of 1] by simp
    then have "sm_rejected_proposals m = 0"
      using authorize_counts(3) [OF evicted(2)] zero by simp
    with evicted(5) room contract show ?thesis by (simp add: trusted_def)
  qed
qed

lemma trusted_access:
  assumes "trusted sim" and "kind \<in> {''prompt'', ''generated''}"
    and "access request grp key kind shared sim = Inr (sim', i)"
  shows "trusted sim'"
proof -
  have inv: "cache_inv (sim_state sim)" using assms(1) by (simp add: trusted_def)
  have inv': "cache_inv (sim_state sim')" using access_inv [OF inv assms(3,2)] .
  from inv assms(3) show ?thesis
  proof (cases rule: access_cases)
    case (hit b)
    with assms(1) inv' show ?thesis by (simp add: trusted_def count_hit_def)
  next
    case (miss sim2)
    have "trusted (count_miss_sim sim)"
      using assms(1) by (simp add: trusted_def cache_inv_tick count_miss_def)
    then have "trusted sim2" using miss(2) by (rule make_room_trusted)
    with miss(3) inv' show ?thesis
      by (simp add: trusted_def store_block_def Let_def note_peak_def)
  qed
qed

interpretation trust: sim_invariant trusted
  by unfold_locales
    (erule (2) trusted_access | simp add: trusted_def discard_owner_inv release_owned_inv)+

end
