(* ===== verification/CacheRecovery.thy ===== *)
theory CacheRecovery
  imports CacheAccounting
begin

text \<open>
  Checkpoint and recovery.  \<open>aligned\<close>: the blocks lie in the order of their identifiers and the
  key index lists their identities in the same order, so that \<open>restore\<close>, which inserts the
  blocks of the snapshot one by one, rebuilds exactly the state the snapshot was taken of.  With
  the fact that no decision depends on the metrics, a run that is cut, checkpointed and restored
  ends in the state of the run that was not.
\<close>

section \<open>Order of the dictionaries\<close>

definition index_of :: "(int, cache_block) dict \<Rightarrow> (string \<times> string, int) dict" where
  "index_of d = map (\<lambda>(i, b). (block_identity b, i)) d"

definition aligned :: "cache_state \<Rightarrow> bool" where
  "aligned s \<longleftrightarrow> cache_inv s \<and> sorted_wrt (<) (dict_keys (cs_blocks s)) \<and>
     cs_key_index s = index_of (cs_blocks s)"

lemma aligned_inv: "aligned s \<Longrightarrow> cache_inv s"
  by (simp add: aligned_def)

lemma index_of_set:
  "dict_get d i = Some b \<Longrightarrow> block_identity b' = block_identity b \<Longrightarrow>
     index_of (dict_set i b' d) = index_of d"
  by (induction d) (auto simp: index_of_def split: if_splits)

lemma aligned_set_block:
  assumes "aligned s" and "dict_get (cs_blocks s) i = Some b"
    and "block_identity b' = block_identity b"
    and "cache_inv (s\<lparr>cs_blocks := dict_set i b' (cs_blocks s)\<rparr>)"
  shows "aligned (s\<lparr>cs_blocks := dict_set i b' (cs_blocks s)\<rparr>)"
  using assms index_of_set [OF assms(2,3)] dict_get_in_keys [OF assms(2)]
  by (simp add: aligned_def dict_keys_set del: set_map)

lemma aligned_tick: "aligned s \<Longrightarrow> aligned (tick s)"
  by (simp add: aligned_def cache_inv_tick) (simp add: tick_def)

lemma aligned_del:
  assumes "aligned s" and "dict_get (cs_blocks s) i = Some b"
  shows "aligned (s\<lparr>cs_blocks := dict_del i (cs_blocks s),
                    cs_key_index := dict_del (block_identity b) (cs_key_index s)\<rparr>)"
proof -
  have inv: "cache_inv s" using assms(1) by (rule aligned_inv)
  have same: "block_identity c \<noteq> block_identity b \<longleftrightarrow> j \<noteq> i" if "(j, c) \<in> set (cs_blocks s)" for j c
  proof -
    have j: "dict_get (cs_blocks s) j = Some c"
      using that cache_invD(1) [OF inv] by (simp add: in_set_dict_get)
    show ?thesis
      using block_validD(2) [OF cache_invD(6) [OF inv j]]
        block_validD(2) [OF cache_invD(6) [OF inv assms(2)]] j assms(2) by auto
  qed
  have "filter (\<lambda>p. block_identity b \<noteq> block_identity (snd p)) (cs_blocks s) =
      filter (\<lambda>p. i \<noteq> fst p) (cs_blocks s)"
  proof (rule filter_cong [OF refl])
    fix p assume "p \<in> set (cs_blocks s)"
    then show "(block_identity b \<noteq> block_identity (snd p)) = (i \<noteq> fst p)"
      using same [of "fst p" "snd p"] by auto
  qed
  then have "dict_del (block_identity b) (index_of (cs_blocks s)) =
      index_of (dict_del i (cs_blocks s))"
    by (simp add: index_of_def AList.delete_eq filter_map o_def case_prod_beta')
  moreover have "sorted_wrt (<) (dict_keys (dict_del i (cs_blocks s)))"
    using assms(1) by (simp add: aligned_def AList.delete_eq sorted_wrt_map sorted_wrt_filter)
  ultimately show ?thesis
    using assms(1) cache_inv_del [OF inv assms(2)] by (simp add: aligned_def)
qed

lemma aligned_insert:
  assumes "aligned s" and "dict_get (cs_key_index s) (block_identity b) = None"
    and "cache_inv (s\<lparr>cs_next_block_id := cs_next_block_id s + 1,
                      cs_blocks := dict_set (cs_next_block_id s) b (cs_blocks s),
                      cs_key_index := dict_set (block_identity b) (cs_next_block_id s) (cs_key_index s)\<rparr>)"
      (is "cache_inv ?s")
  shows "aligned ?s"
proof -
  have inv: "cache_inv s" using assms(1) by (rule aligned_inv)
  have below: "i < cs_next_block_id s" if "i \<in> set (dict_keys (cs_blocks s))" for i
    using dict_key_get [OF that] cache_invD(7) [OF inv] by blast
  then have fresh: "cs_next_block_id s \<notin> set (dict_keys (cs_blocks s))" by blast
  have "block_identity b \<notin> set (dict_keys (cs_key_index s))"
    using assms(2) dict_key_get by fastforce
  with fresh assms below show ?thesis
    by (simp add: aligned_def dict_set_fresh sorted_wrt_append index_of_def del: set_map)
qed

lemma make_room_aligned:
  assumes "aligned (sim_state sim)" and "make_room sim = Inr sim'"
  shows "aligned (sim_state sim')"
  using aligned_inv [OF assms(1)] assms(2)
proof (cases rule: make_room_cases)
  case room
  with assms(1) show ?thesis by simp
next
  case (evicted i b m)
  with aligned_del [OF assms(1) evicted(3)] show ?thesis by simp
qed

lemma access_aligned:
  assumes "aligned (sim_state sim)" and "kind \<in> {''prompt'', ''generated''}"
    and "access request grp key kind shared sim = Inr (sim', i)"
  shows "aligned (sim_state sim')"
proof -
  have inv: "cache_inv (sim_state sim)" using assms(1) by (rule aligned_inv)
  have inv': "cache_inv (sim_state sim')" using access_inv [OF inv assms(3,2)] .
  from inv assms(3) show ?thesis
  proof (cases rule: access_cases)
    case (hit b)
    have "aligned (tick (sim_state sim))" using assms(1) by (rule aligned_tick)
    from aligned_set_block [OF this, of i b
        "reuse_block (rt_request_id request) (cs_clock (sim_state sim) + 1) b"] hit inv'
    show ?thesis by (simp add: tick_def reuse_block_def block_identity_def)
  next
    case (miss sim2)
    have al1: "aligned (sim_state (count_miss_sim sim))" using assms(1) by (simp add: aligned_tick)
    have al2: "aligned (sim_state sim2)" using make_room_aligned [OF al1 miss(2)] .
    have "dict_get (cs_key_index (sim_state sim2)) (gs_name grp, key) = None"
      using make_room_result(6) [OF aligned_inv [OF al1] miss(2)] miss(1) by (simp add: tick_def)
    with aligned_insert [OF al2, of "fresh_block (rt_request_id request)
        (cs_clock (sim_state sim) + 1) (cs_next_block_id (sim_state sim2)) (gs_name grp, key) kind shared"]
      inv' miss(3)
    show ?thesis by (simp add: store_block_def Let_def fresh_block_def block_identity_def)
  qed
qed

lemma discard_owner_aligned:
  assumes "aligned s"
  shows "aligned (discard_owner rid i s)"
proof (cases "dict_get (cs_blocks s) i")
  case None
  with assms show ?thesis by (simp add: discard_owner_def)
next
  case (Some b)
  then show ?thesis
    using aligned_set_block [OF assms Some, of "b\<lparr>cb_owners := cb_owners b - {rid}\<rparr>"]
      discard_owner_inv [OF aligned_inv [OF assms], of rid i]
    by (simp add: discard_owner_def block_identity_def)
qed

lemma release_owned_aligned:
  assumes "aligned s"
  shows "aligned (release_owned rid owned s)"
proof -
  have "dict_keys (cs_blocks (release_owned rid owned s)) = dict_keys (cs_blocks s)"
    and "index_of (cs_blocks (release_owned rid owned s)) = index_of (cs_blocks s)"
    by (auto simp: release_owned_def index_of_def block_identity_def)
  with assms release_owned_inv [OF aligned_inv [OF assms]] show ?thesis
    by (simp add: aligned_def)
qed

interpretation order: sim_invariant "\<lambda>sim. aligned (sim_state sim)"
  by unfold_locales
    (erule (2) access_aligned | simp add: discard_owner_aligned release_owned_aligned)+

lemma CacheSimulator_aligned:
  "CacheSimulator groups c pol = Inr sim \<Longrightarrow> aligned (sim_state sim)"
  using CacheState_inv [of c]
  by (auto simp: CacheSimulator_def aligned_def bind_res_eq_Inr CacheState_def index_of_def
      split: if_splits)

section \<open>Snapshot and restore\<close>

lemma block_roundtrip: "finite (cb_owners b) \<Longrightarrow> block_from_json (block_to_json b) = Inr b"
proof -
  have "map_res as_str (map JStr xs) = Inr xs" for xs
    by (induction xs) (auto simp: as_str_def)
  then show "finite (cb_owners b) \<Longrightarrow> block_from_json (block_to_json b) = Inr b"
    by (simp add: block_from_json_def block_to_json_def as_obj_def as_list_def as_str_def)
qed

lemma restore_blocks:
  assumes "\<forall>(i, b) \<in> set items. cb_block_id b = i \<and> finite (cb_owners b)"
    and "distinct (dict_keys (cs_blocks s0 @ items))"
    and "distinct (dict_keys (cs_key_index s0 @ index_of items))"
  shows "fold_res restore_block s0 (map (\<lambda>(_, b). block_to_json b) items) =
    Inr (s0\<lparr>cs_blocks := cs_blocks s0 @ items, cs_key_index := cs_key_index s0 @ index_of items\<rparr>)"
  using assms
proof (induction items arbitrary: s0)
  case Nil
  then show ?case by (simp add: index_of_def)
next
  case (Cons item items)
  obtain i b where item [simp]: "item = (i, b)" by fastforce
  let ?s1 = "s0\<lparr>cs_blocks := cs_blocks s0 @ [(i, b)],
                cs_key_index := cs_key_index s0 @ [(block_identity b, i)]\<rparr>"
  have fresh: "i \<notin> set (dict_keys (cs_blocks s0))"
    "block_identity b \<notin> set (dict_keys (cs_key_index s0))"
    using Cons.prems(2,3) by (auto simp: index_of_def)
  have "restore_block s0 (block_to_json b) = Inr ?s1"
    using Cons.prems(1) fresh by (simp add: restore_block_def block_roundtrip dict_set_fresh)
  moreover have "fold_res restore_block ?s1 (map (\<lambda>(_, b). block_to_json b) items) =
      Inr (?s1\<lparr>cs_blocks := cs_blocks ?s1 @ items, cs_key_index := cs_key_index ?s1 @ index_of items\<rparr>)"
    using Cons.prems by (intro Cons.IH) (auto simp: index_of_def)
  ultimately show ?case by (simp add: index_of_def)
qed

lemma restore_snapshot:
  assumes "aligned s"
  shows "restore (snapshot s) = Inr s"
proof -
  have inv: "cache_inv s" using assms by (rule aligned_inv)
  note invs = cache_invD [OF inv]
  have order: "sort_key fst (cs_blocks s) = cs_blocks s"
    using assms by (simp add: aligned_def sort_key_id_if_sorted strict_sorted_imp_sorted)
  have "\<forall>(i, b) \<in> set (cs_blocks s). cb_block_id b = i \<and> finite (cb_owners b)"
    using block_validD(1) [OF invs(6)] invs(8) by (auto simp: in_set_dict_get [OF invs(1)])
  moreover have "cs_key_index s = index_of (cs_blocks s)" using assms by (simp add: aligned_def)
  ultimately have "fold_res restore_block \<lparr>cs_capacity_blocks = cs_capacity_blocks s, cs_clock = cs_clock s,
      cs_next_block_id = cs_next_block_id s, cs_blocks = [], cs_key_index = []\<rparr>
      (map (\<lambda>(_, b). block_to_json b) (cs_blocks s)) = Inr s"
    using restore_blocks [of "cs_blocks s" "\<lparr>cs_capacity_blocks = cs_capacity_blocks s,
      cs_clock = cs_clock s, cs_next_block_id = cs_next_block_id s, cs_blocks = [], cs_key_index = []\<rparr>"]
      invs(1,2) by simp
  then show ?thesis
    using invs(3) cache_inv_validate [OF inv] order
    by (simp add: restore_def snapshot_def as_obj_def CacheState_def as_list_def)
qed

section \<open>No decision depends on the metrics\<close>

definition same_sim :: "simulator \<Rightarrow> simulator \<Rightarrow> bool" where
  "same_sim a b \<longleftrightarrow> a\<lparr>sim_metrics := StudyMetrics\<rparr> = b\<lparr>sim_metrics := StudyMetrics\<rparr>"

definition same_run :: "run_state \<Rightarrow> run_state \<Rightarrow> bool" where
  "same_run r q \<longleftrightarrow> same_sim (rs_sim r) (rs_sim q) \<and> rs_owned r = rs_owned q \<and>
     rs_windows r = rs_windows q"

lemma same_sim_iff:
  "same_sim a b \<longleftrightarrow> sim_groups a = sim_groups b \<and> sim_policy a = sim_policy b \<and>
     sim_fallback a = sim_fallback b \<and> sim_state a = sim_state b"
  by (cases a; cases b) (auto simp: same_sim_def)

lemma evict_same: "same_sim a b \<Longrightarrow> rel_res same_sim (evict a i) (evict b i)"
  by (auto simp: evict_def Let_def same_sim_iff dict_at_def split: option.splits)

lemma make_room_same:
  assumes "same_sim a b"
  shows "rel_res same_sim (make_room a) (make_room b)"
proof -
  let ?auth = "\<lambda>a. authorize_eviction (sim_fallback a) (sim_state a) (sim_policy a) 1 (sim_metrics a)"
  have "map_sum id fst (?auth a) = map_sum id fst (?auth b)"
    using authorize_victims_indep assms by (simp add: same_sim_iff)
  then have "rel_res (\<lambda>x y. fst x = fst y) (?auth a) (?auth b)"
    by (cases "?auth a"; cases "?auth b") auto
  then have "rel_res same_sim
      (bind_res (?auth a) (\<lambda>(victims, m). fold_res evict (a\<lparr>sim_metrics := m\<rparr>) victims))
      (bind_res (?auth b) (\<lambda>(victims, m). fold_res evict (b\<lparr>sim_metrics := m\<rparr>) victims))"
    using assms by (elim rel_res_bind) (auto intro!: rel_res_fold evict_same simp: same_sim_iff)
  with assms show ?thesis by (simp add: make_room_def same_sim_iff)
qed

lemma access_same:
  assumes "same_sim a b"
  shows "rel_res (rel_prod same_sim (=)) (access request grp key kind shared a)
    (access request grp key kind shared b)"
proof -
  have room: "rel_res same_sim (make_room (count_miss_sim a)) (make_room (count_miss_sim b))"
    using assms by (intro make_room_same) (simp add: same_sim_iff)
  have store: "rel_res (rel_prod same_sim (=)) (Inr (store_block rid now identity kind shared x))
      (Inr (store_block rid now identity kind shared y))" if "same_sim x y" for rid now identity x y
    using that by (simp add: store_block_def Let_def same_sim_iff)
  have "sim_state a = sim_state b" using assms by (simp add: same_sim_iff)
  with assms rel_res_bind [OF room store] show ?thesis
    by (auto simp: access_def Let_def tick_def same_sim_iff dict_at_def split: option.splits)
qed

lemma expire_same:
  "same_run r q \<Longrightarrow> rel_res (rel_prod (=) same_run) (expire limit rid window r) (expire limit rid window q)"
  by (induction window arbitrary: r q) (auto simp: same_run_def same_sim_iff map_state_def)

lemma visit_same:
  assumes "same_run r q"
  shows "rel_res same_run (visit request key kind shared r grp) (visit request key kind shared q grp)"
proof -
  have adv: "rel_res same_run (advance_sliding grp i rid r) (advance_sliding grp i rid q)"
    if "same_run r q" for r q i rid
  proof -
    have "rel_res (rel_prod (=) same_run) (expire limit rid window r) (expire limit rid window q)"
      for limit window
      using that by (rule expire_same)
    then have "rel_res same_run
        (bind_res (expire limit rid window r) (\<lambda>(w, r'). Inr (r'\<lparr>rs_windows := dict_set k w (rs_windows r')\<rparr>)))
        (bind_res (expire limit rid window q) (\<lambda>(w, r'). Inr (r'\<lparr>rs_windows := dict_set k w (rs_windows r')\<rparr>)))"
      for limit window k
      by (rule rel_res_bind) (auto simp: same_run_def)
    with that show ?thesis
      by (auto simp: advance_sliding_def same_run_def dict_at_def split: option.splits)
  qed
  have "rel_res (rel_prod same_sim (=)) (access request grp key kind shared (rs_sim r))
      (access request grp key kind shared (rs_sim q))"
    using assms by (intro access_same) (simp add: same_run_def)
  then show ?thesis
    unfolding visit_def
    by (rule rel_res_bind) (use assms in \<open>auto intro!: adv simp: same_run_def\<close>)
qed

lemma visit_groups_same:
  assumes "same_run r q"
  shows "rel_res same_run (visit_groups request key kind shared r) (visit_groups request key kind shared q)"
proof -
  have "rel_res same_run (fold_res (visit request key kind shared) r gs)
      (fold_res (visit request key kind shared) q gs)" for gs
    using assms by (rule rel_res_fold) (rule visit_same)
  with assms show ?thesis by (simp add: visit_groups_def same_run_def same_sim_iff)
qed

lemma generate_same:
  "same_run r q \<Longrightarrow> rel_res same_run (generate_blocks request indices r) (generate_blocks request indices q)"
proof (induction indices arbitrary: r q)
  case Nil
  then show ?case by (simp add: same_run_def same_sim_iff count_cancelled_def)
next
  case (Cons index indices)
  have "rel_res same_run
      (bind_res (visit_groups request (generated_key (rt_request_id request) index) ''generated'' False r)
        (generate_blocks request indices))
      (bind_res (visit_groups request (generated_key (rt_request_id request) index) ''generated'' False q)
        (generate_blocks request indices))"
    by (rule rel_res_bind [OF visit_groups_same [OF Cons.prems] Cons.IH])
  moreover have "same_run (count_cancelled r) (count_cancelled q)"
    using Cons.prems by (simp add: same_run_def same_sim_iff count_cancelled_def)
  ultimately show ?case by simp
qed

lemma process_same:
  assumes "same_sim a b"
  shows "rel_res same_sim (process a request) (process b request)"
proof -
  have start: "same_run (start_request a) (start_request b)"
    using assms by (simp add: same_run_def same_sim_iff start_request_def)
  have prompts: "rel_res same_run (fold_res (visit_prompt request) (start_request a) keys)
      (fold_res (visit_prompt request) (start_request b) keys)" for keys
    using start by (rule rel_res_fold) (simp add: visit_prompt_def visit_groups_same)
  have finish: "rel_res same_sim
      (let r3 = map_state (release_owned rid (rs_owned r)) r in
        bind_res (validate (rs_state r3)) (\<lambda>_. Inr (rs_sim r3)))
      (let r3 = map_state (release_owned rid (rs_owned q)) q in
        bind_res (validate (rs_state r3)) (\<lambda>_. Inr (rs_sim r3)))"
    if "same_run r q" for r q rid
  proof -
    have same: "rs_state r = rs_state q" "rs_owned r = rs_owned q"
      using that by (simp_all add: same_run_def same_sim_iff)
    show ?thesis
      using that
      by (cases "validate (release_owned rid (rs_owned q) (rs_state q))")
         (simp_all add: Let_def map_state_def same same_run_def same_sim_iff)
  qed
  show ?thesis
    unfolding process_def
    by (rule rel_res_bind [OF prompts rel_res_bind [OF generate_same finish]])
qed

lemma run_same:
  assumes "same_sim a b"
  shows "rel_res same_sim (run_requests a trace) (run_requests b trace)"
proof -
  have "rel_res same_sim (fold_res process a trace) (fold_res process b trace)"
    using assms by (rule rel_res_fold) (rule process_same)
  then show ?thesis
    unfolding run_requests_def
    by (rule rel_res_bind)
       (auto simp: same_sim_iff bind_res_def split: sum.splits)
qed

section \<open>Recovery\<close>

lemma restore_state_checkpoint:
  assumes "aligned (sim_state sim)" and "checkpoint sim = Inr ckpt"
    and "policy_id (sim_policy other) = policy_id (sim_policy sim)"
  shows "restore_state other ckpt = Inr (other\<lparr>sim_state := sim_state sim\<rparr>)"
proof -
  have "is_dict (snapshot s)" for s by (simp add: snapshot_def)
  then show ?thesis
    using assms restore_snapshot [OF assms(1)]
    by (auto simp: checkpoint_def restore_state_def bind_res_eq_Inr get_or_null_def)
qed

text \<open>Another policy's checkpoint is refused.\<close>

lemma restore_state_mismatch:
  assumes "checkpoint sim = Inr ckpt" and "policy_id (sim_policy other) \<noteq> policy_id (sim_policy sim)"
  shows "restore_state other ckpt = Inl (ValueError ''checkpoint policy identity mismatch'')"
  using assms by (auto simp: checkpoint_def restore_state_def bind_res_eq_Inr get_or_null_def)

text \<open>Groups, policies and capacity never change.\<close>

interpretation settings: sim_invariant "\<lambda>sim. cache_inv (sim_state sim) \<and> config sim = cfg" for cfg
proof unfold_locales
  fix sim sim' kind request grp key shared i
  assume "cache_inv (sim_state sim) \<and> config sim = cfg" and "kind \<in> {''prompt'', ''generated''}"
    and "access request grp key kind shared sim = Inr (sim', i)"
  then show "cache_inv (sim_state sim') \<and> config sim' = cfg"
    using access_inv access_config by metis
qed (auto simp: discard_owner_inv release_owned_inv config_def)

lemma run_split:
  assumes "aligned (sim_state sim)" and "run_requests sim (xs @ ys) = Inr fin"
  shows "\<exists>mid. run_requests sim xs = Inr mid \<and> run_requests mid ys = Inr fin"
proof -
  from assms(2) obtain mid where mid: "fold_res process sim xs = Inr mid"
    "fold_res process mid ys = Inr fin" "validate (sim_state fin) = Inr ()"
    by (auto simp: run_requests_def fold_res_append bind_res_eq_Inr)
  have "aligned (sim_state mid)"
    using mid(1) assms(1)
    by (rule fold_res_invariant [where I = "\<lambda>sim. aligned (sim_state sim)"]) (rule order.process)
  then have "validate (sim_state mid) = Inr ()" by (intro cache_inv_validate aligned_inv)
  with mid show ?thesis by (simp add: run_requests_def)
qed

lemma recovery:
  assumes "aligned (sim_state sim)" and "run_requests sim (xs @ ys) = Inr fin"
    and "run_requests sim xs = Inr mid" and "checkpoint mid = Inr ckpt"
  shows "\<exists>restored resumed. restore_state sim ckpt = Inr restored \<and>
    run_requests restored ys = Inr resumed \<and> sim_state resumed = sim_state fin"
proof -
  have al: "aligned (sim_state mid)" using assms(1,3) by (rule order.run)
  have "config mid = config sim"
    using settings.run [of sim "config sim" xs mid] aligned_inv [OF assms(1)] assms(3) by simp
  then have same: "same_sim mid (sim\<lparr>sim_state := sim_state mid\<rparr>)"
    by (simp add: same_sim_iff config_def)
  have "run_requests mid ys = Inr fin" using run_split [OF assms(1,2)] assms(3) by auto
  with run_same [OF same, of ys] obtain resumed where
    "run_requests (sim\<lparr>sim_state := sim_state mid\<rparr>) ys = Inr resumed" "same_sim fin resumed"
    by (cases "run_requests (sim\<lparr>sim_state := sim_state mid\<rparr>) ys") auto
  moreover have "restore_state sim ckpt = Inr (sim\<lparr>sim_state := sim_state mid\<rparr>)"
    using restore_state_checkpoint [OF al assms(4), of sim] \<open>config mid = config sim\<close>
    by (simp add: config_def)
  ultimately show ?thesis by (auto simp: same_sim_iff)
qed

end
