(* ===== verification/CacheWork.thy ===== *)
theory CacheWork
  imports CacheRecovery
begin

text \<open>
  How much a request does: every visit of a group is one access, one tick of the clock, one hit
  or one miss.  \<open>served\<close> is the number of generated blocks before the request is cancelled.
\<close>

definition served :: "request_trace \<Rightarrow> nat" where
  "served request = (case rt_cancel_after_generated request of
     None \<Rightarrow> nat (rt_generated_blocks request)
   | Some c \<Rightarrow> if 0 \<le> c \<and> c < rt_generated_blocks request then nat c
               else nat (rt_generated_blocks request))"

definition request_accesses :: "group_spec list \<Rightarrow> request_trace \<Rightarrow> int" where
  "request_accesses gs request =
     int (length gs) * int (length (rt_prompt_blocks request) + served request)"

text \<open>A running request: consistent, and \<open>n\<close> accesses after clock \<open>t0\<close>.\<close>

definition clocked :: "group_spec list \<Rightarrow> int \<Rightarrow> run_state \<Rightarrow> bool" where
  "clocked gs t r \<longleftrightarrow> cache_inv (rs_state r) \<and> sim_groups (rs_sim r) = gs \<and> cs_clock (rs_state r) = t"

lemma access_clock:
  assumes "cache_inv (sim_state sim)" and "access request grp key kind shared sim = Inr (sim', i)"
  shows "cs_clock (sim_state sim') = cs_clock (sim_state sim) + 1"
  using assms
proof (cases rule: access_cases)
  case (hit b)
  then show ?thesis by (simp add: tick_def)
next
  case (miss sim2)
  have inv1: "cache_inv (sim_state (count_miss_sim sim))"
    using assms(1) by (simp add: cache_inv_tick)
  show ?thesis
    using miss(3) make_room_result(3) [OF inv1 miss(2)]
    by (simp add: store_block_def Let_def tick_def)
qed

lemma expire_clock:
  "expire limit rid window r = Inr (window', r') \<Longrightarrow> clocked gs t r \<Longrightarrow> clocked gs t r'"
proof (induction window arbitrary: r)
  case Nil
  then show ?case by (auto split: if_splits)
next
  case (Cons i window)
  then show ?case
    by (cases "limit < int (length (i # window))")
       (auto simp: clocked_def map_state_def discard_owner_inv)
qed

lemma visit_clock:
  assumes "kind \<in> {''prompt'', ''generated''}" and "clocked gs t r"
    and "visit request key kind shared r grp = Inr r'"
  shows "clocked gs (t + 1) r'"
proof -
  from assms(3) obtain sim' i where acc: "access request grp key kind shared (rs_sim r) = Inr (sim', i)"
    and adv: "advance_sliding grp i (rt_request_id request)
      (r\<lparr>rs_sim := sim', rs_owned := insert i (rs_owned r)\<rparr>) = Inr r'"
    by (auto simp: visit_def bind_res_eq_Inr)
  have inv: "cache_inv (rs_state r)" using assms(2) by (simp add: clocked_def)
  have "clocked gs (t + 1) (r\<lparr>rs_sim := sim', rs_owned := insert i (rs_owned r)\<rparr>)"
    using access_clock [OF inv acc] access_inv [OF inv acc assms(1)] access_config [OF inv acc] assms(2)
    by (simp add: clocked_def config_def)
  then show ?thesis
    using adv expire_clock
    by (fastforce simp: advance_sliding_def clocked_def bind_res_eq_Inr
        split: if_splits option.splits)
qed

lemma visit_groups_clock:
  assumes "kind \<in> {''prompt'', ''generated''}" and "clocked gs t r"
    and "visit_groups request key kind shared r = Inr r'"
  shows "clocked gs (t + int (length gs)) r'"
proof -
  have "clocked gs (t + int (length visited)) r'"
    if "fold_res (visit request key kind shared) r visited = Inr r'" and "clocked gs t r"
    for visited t r
    using that
  proof (induction visited arbitrary: t r)
    case Nil
    then show ?case by simp
  next
    case (Cons grp visited)
    then obtain r1 where "visit request key kind shared r grp = Inr r1"
      and rest: "fold_res (visit request key kind shared) r1 visited = Inr r'"
      by (auto simp: bind_res_eq_Inr)
    then have "clocked gs (t + 1) r1" using visit_clock [OF assms(1) Cons.prems(2)] by blast
    from Cons.IH [OF rest this] show ?case by (simp add: add_ac)
  qed
  with assms(2,3) show ?thesis by (simp add: visit_groups_def clocked_def)
qed

lemma prompt_clock:
  assumes "clocked gs t r" and "fold_res (visit_prompt request) r keys = Inr r'"
  shows "clocked gs (t + int (length gs) * int (length keys)) r'"
  using assms
proof (induction keys arbitrary: t r)
  case Nil
  then show ?case by simp
next
  case (Cons key keys)
  then obtain r1 where "visit_prompt request r key = Inr r1"
    and rest: "fold_res (visit_prompt request) r1 keys = Inr r'"
    by (auto simp: bind_res_eq_Inr)
  then have "clocked gs (t + int (length gs)) r1"
    using visit_groups_clock [OF _ Cons.prems(1), of "''prompt''" request key] by (simp add: visit_prompt_def)
  from Cons.IH [OF this rest] show ?case by (simp add: algebra_simps)
qed

text \<open>The loop over the generated blocks stops at the cancellation index, if it comes.\<close>

lemma generate_clock:
  assumes "clocked gs t r" and "generate_blocks request indices r = Inr r'"
  shows "clocked gs (t + int (length gs) *
    int (length (takeWhile (\<lambda>k. rt_cancel_after_generated request \<noteq> Some k) indices))) r'"
  using assms
proof (induction indices arbitrary: t r)
  case Nil
  then show ?case by (auto simp: clocked_def count_cancelled_def split: if_splits)
next
  case (Cons index indices)
  show ?case
  proof (cases "rt_cancel_after_generated request = Some index")
    case True
    with Cons.prems show ?thesis by (auto simp: clocked_def count_cancelled_def)
  next
    case False
    with Cons.prems obtain r1 where
      "visit_groups request (generated_key (rt_request_id request) index) ''generated'' False r
        = Inr r1" and rest: "generate_blocks request indices r1 = Inr r'"
      by (auto simp: bind_res_eq_Inr)
    then have "clocked gs (t + int (length gs)) r1"
      using visit_groups_clock [OF _ Cons.prems(1), of "''generated''"] by blast
    from Cons.IH [OF this rest] False show ?thesis by (simp add: algebra_simps)
  qed
qed

lemma served_takeWhile:
  "length (takeWhile (\<lambda>k. rt_cancel_after_generated request \<noteq> Some k)
     (py_range 0 (rt_generated_blocks request) 1)) = served request"
proof -
  let ?n = "nat (rt_generated_blocks request)"
  have range: "py_range 0 (rt_generated_blocks request) 1 = map int [0 ..< ?n]"
    by (simp add: py_range_def)
  show ?thesis
  proof (cases "rt_cancel_after_generated request")
    case None
    have all: "takeWhile (\<lambda>k. True) xs = xs" for xs :: "int list"
      by (simp add: takeWhile_eq_all_conv)
    from None show ?thesis by (simp add: range served_def all)
  next
    case (Some c)
    show ?thesis
    proof (cases "0 \<le> c \<and> c < rt_generated_blocks request")
      case True
      then have "nat c < ?n" by linarith
      then have split: "[0 ..< ?n] = [0 ..< nat c] @ nat c # [Suc (nat c) ..< ?n]"
        by (metis le0 le_add_diff_inverse less_imp_le upt_add_eq_append upt_conv_Cons)
      have "takeWhile (\<lambda>k. c \<noteq> k) (map int [0 ..< nat c] @ c # map int [Suc (nat c) ..< ?n]) =
          map int [0 ..< nat c]"
        by (subst takeWhile_append2) auto
      with True Some split show ?thesis by (simp add: range served_def)
    next
      case False
      then have all: "takeWhile (\<lambda>k. c \<noteq> k) (map int [0 ..< ?n]) = map int [0 ..< ?n]"
        by (intro takeWhile_eq_all_conv [THEN iffD2]) auto
      from False Some show ?thesis by (auto simp: range served_def all)
    qed
  qed
qed

lemma process_clock:
  assumes "cache_inv (sim_state sim)" and "process sim request = Inr sim'"
  shows "cs_clock (sim_state sim') =
    cs_clock (sim_state sim) + request_accesses (sim_groups sim) request"
proof -
  let ?rid = "rt_request_id request"
  from assms(2) obtain r1 r2 where
    r1: "fold_res (visit_prompt request) (start_request sim) (rt_prompt_blocks request) = Inr r1"
    and r2: "generate_blocks request (py_range 0 (rt_generated_blocks request) 1) r1 = Inr r2"
    and r3: "sim' = rs_sim (map_state (release_owned ?rid (rs_owned r2)) r2)"
    by (auto simp: process_def bind_res_eq_Inr Let_def)
  have "clocked (sim_groups sim) (cs_clock (sim_state sim)) (start_request sim)"
    using assms(1) by (simp add: clocked_def start_request_def)
  from generate_clock [OF prompt_clock [OF this r1] r2] show ?thesis
    by (simp add: clocked_def r3 map_state_def served_takeWhile request_accesses_def algebra_simps)
qed

lemma run_clock:
  assumes "cache_inv (sim_state sim)" and "run_requests sim trace = Inr sim'"
  shows "cs_clock (sim_state sim') =
    cs_clock (sim_state sim) + sum_list (map (request_accesses (sim_groups sim)) trace)"
proof -
  have "cs_clock (sim_state sim') =
      cs_clock (sim_state sim1) + sum_list (map (request_accesses (sim_groups sim)) trace)"
    if "fold_res process sim1 trace = Inr sim'" and "cache_inv (sim_state sim1)"
      and "config sim1 = config sim" for sim1
    using that
  proof (induction trace arbitrary: sim1)
    case Nil
    then show ?case by simp
  next
    case (Cons request trace)
    then obtain sim2 where p: "process sim1 request = Inr sim2"
      and rest: "fold_res process sim2 trace = Inr sim'"
      by (auto simp: bind_res_eq_Inr)
    have "cache_inv (sim_state sim2) \<and> config sim2 = config sim"
      using settings.process [of sim1 "config sim" request sim2] Cons.prems(2,3) p by simp
    with Cons.IH [OF rest] process_clock [OF Cons.prems(2) p] Cons.prems(3) show ?case
      by (simp add: config_def)
  qed
  moreover have "fold_res process sim trace = Inr sim'"
    using assms(2) by (auto simp: run_requests_def bind_res_eq_Inr)
  ultimately show ?thesis using assms(1) by blast
qed

end
