(* ===== verification/CacheScenarios.thy ===== *)
theory CacheScenarios
  imports CacheSimulator
begin

text \<open>
  \<^verbatim>\<open>cacheforge/scenarios.py\<close>: the default cache groups and the development scenarios.
\<close>

definition DEFAULT_GROUPS :: "group_spec list" where
  "DEFAULT_GROUPS =
     [\<lparr>gs_name = ''full'', gs_mode = ''full'', gs_window_blocks = None\<rparr>,
      \<lparr>gs_name = ''sliding'', gs_mode = ''sliding'', gs_window_blocks = Some 2\<rparr>]"

lemma DEFAULT_GROUPS_constructed:
  "map_res (\<lambda>(name, mode, w). GroupSpec name mode w)
     [(''full'', ''full'', None), (''sliding'', ''sliding'', Some 2)] = Inr DEFAULT_GROUPS"
  by (simp add: GroupSpec_def DEFAULT_GROUPS_def)

record scenario =
  sc_scenario_id :: string
  sc_capacity_blocks :: int
  sc_requests :: "request_trace list"
  sc_purpose :: string

definition shared_request ::
  "string \<Rightarrow> string \<Rightarrow> string \<Rightarrow> int \<Rightarrow> int option \<Rightarrow> request_trace res" where
  "shared_request request_id system user generated cancel_after =
     RequestTrace request_id
       [''sys:'' @ system @ '':0'', ''sys:'' @ system @ '':1'', ''sys:'' @ system @ '':2'',
        ''user:'' @ user @ '':0'', ''user:'' @ user @ '':1'']
       generated 1 cancel_after"

definition burst_requests :: "request_trace list res" where
  "burst_requests = map_res (\<lambda>index.
     shared_request (''burst-'' @ int_str index) ''assistant'' (''u'' @ int_str index) 4 None)
     (py_range 0 12 1)"

definition alternating_requests :: "request_trace list res" where
  "alternating_requests = map_res (\<lambda>index.
     shared_request (''tenant-'' @ int_str index)
       (if index mod 2 = 0 then ''coding'' else ''research'') (''tenant-'' @ int_str index) 3 None)
     (py_range 0 16 1)"

definition cancellation_requests :: "request_trace list res" where
  "cancellation_requests = map_res (\<lambda>index.
     shared_request (''cancel-'' @ int_str index) ''assistant'' (''cancel-user-'' @ int_str index) 5
       (if index mod 3 = 0 then Some 1 else None))
     (py_range 0 9 1)"

definition unique_requests :: "request_trace list res" where
  "unique_requests = map_res (\<lambda>index.
     RequestTrace (''unique-'' @ int_str index)
       (map (\<lambda>block. ''unique:'' @ int_str index @ '':'' @ int_str block) (py_range 0 5 1)) 2 1 None)
     (py_range 0 10 1)"

definition development_scenarios :: "scenario list res" where
  "development_scenarios =
     bind_res burst_requests (\<lambda>burst.
     bind_res alternating_requests (\<lambda>alternating.
     bind_res cancellation_requests (\<lambda>cancellation.
     bind_res unique_requests (\<lambda>unique_reqs.
       Inr [\<lparr>sc_scenario_id = ''shared-prefix-burst'', sc_capacity_blocks = 24,
              sc_requests = burst, sc_purpose = ''repeated system prompt under tail pressure''\<rparr>,
            \<lparr>sc_scenario_id = ''alternating-tenants'', sc_capacity_blocks = 28,
              sc_requests = alternating, sc_purpose = ''two reusable tenant prefixes''\<rparr>,
            \<lparr>sc_scenario_id = ''cancellation-pressure'', sc_capacity_blocks = 24,
              sc_requests = cancellation, sc_purpose = ''atomic release during cancellation''\<rparr>,
            \<lparr>sc_scenario_id = ''low-reuse-control'', sc_capacity_blocks = 24,
              sc_requests = unique_reqs,
              sc_purpose = ''control workload without reusable prefixes''\<rparr>]))))"

definition smoke_scenarios :: "scenario list res" where
  "smoke_scenarios = bind_res development_scenarios (\<lambda>scenarios. Inr (slice_to scenarios 1))"

end
