(* ===== verification/CacheStudy.thy ===== *)
theory CacheStudy
  imports CacheWork CacheScenarios
begin

text \<open>
  \<^verbatim>\<open>cacheforge/study.py\<close> and \<^verbatim>\<open>tools/run_study.py\<close>: running the scenarios under a policy, the
  comparison of a candidate with LRU and its gates, the mutation checks and the recovery check.

  A policy factory is the policy it makes: the policies have no state.  The result dictionaries
  are records; a gate's \<open>PASS\<close> or \<open>FAIL\<close> is a boolean.
\<close>

section \<open>Evaluation of a policy\<close>

record scenario_result =
  sr_purpose :: string
  sr_metrics :: metrics_json
  sr_final_state_digest :: string

record policy_result =
  pr_policy_id :: string
  pr_aggregate :: metrics_json
  pr_scenarios :: "(string, scenario_result) dict"

definition evaluate_scenario ::
  "policy \<Rightarrow> study_metrics \<times> (string, scenario_result) dict \<Rightarrow> scenario \<Rightarrow>
     (study_metrics \<times> (string, scenario_result) dict) res" where
  "evaluate_scenario pol acc sc =
     bind_res (CacheSimulator DEFAULT_GROUPS (sc_capacity_blocks sc) pol) (\<lambda>sim.
     bind_res (run_requests sim (sc_requests sc)) (\<lambda>sim'.
     bind_res (validate (sim_state sim')) (\<lambda>_.
     bind_res (metrics_to_json (sim_metrics sim')) (\<lambda>metrics.
       Inr (merge_metrics (fst acc) (sim_metrics sim'),
            dict_set (sc_scenario_id sc)
              \<lparr>sr_purpose = sc_purpose sc, sr_metrics = metrics,
               sr_final_state_digest = state_digest (sim_state sim')\<rparr> (snd acc))))))"

definition evaluate_policy :: "policy \<Rightarrow> scenario list \<Rightarrow> policy_result res" where
  "evaluate_policy pol scenarios =
     bind_res (fold_res (evaluate_scenario pol) (StudyMetrics, []) scenarios) (\<lambda>(aggregate, results).
     bind_res (metrics_to_json aggregate) (\<lambda>metrics.
       Inr \<lparr>pr_policy_id = policy_id pol, pr_aggregate = metrics, pr_scenarios = results\<rparr>))"

section \<open>Comparison of a candidate\<close>

abbreviation aggregate_of :: "(study_metrics \<Rightarrow> int) \<Rightarrow> policy_result \<Rightarrow> int" where
  "aggregate_of f r \<equiv> f (mj_counters (pr_aggregate r))"

definition scenario_recompute :: "policy_result \<Rightarrow> string \<Rightarrow> int res" where
  "scenario_recompute r scenario_id =
     bind_res (dict_at scenario_id (pr_scenarios r) scenario_id) (\<lambda>sr.
       Inr (sm_recomputed_blocks (mj_counters (sr_metrics sr))))"

text \<open>\<open>a / b if b else default\<close>\<close>

definition ratio_or :: "pyfloat \<Rightarrow> int \<Rightarrow> int \<Rightarrow> pyfloat res" where
  "ratio_or otherwise a b = (if b \<noteq> 0 then int_div a b else Inr otherwise)"

record comparison =
  cmp_reference :: policy_result
  cmp_baseline :: policy_result
  cmp_candidate :: policy_result
  cmp_saved :: int
  cmp_savings_ratio :: pyfloat
  cmp_work_ratio :: pyfloat
  cmp_low_reuse_ratio :: pyfloat
  cmp_gates :: "(string, bool) dict"
  cmp_status :: bool

definition all_gates :: "(string, bool) dict \<Rightarrow> bool" where
  "all_gates gates = list_all snd gates"

definition compare_results ::
  "policy_result \<Rightarrow> policy_result \<Rightarrow> policy_result \<Rightarrow> comparison res" where
  "compare_results reference baseline candidate =
     (let baseline_recompute = aggregate_of sm_recomputed_blocks baseline;
          savings = baseline_recompute - aggregate_of sm_recomputed_blocks candidate;
          baseline_work = aggregate_of sm_planner_candidates_inspected baseline;
          candidate_work = aggregate_of sm_planner_candidates_inspected candidate in
      bind_res (ratio_or (Fin 0) savings baseline_recompute) (\<lambda>savings_ratio.
      bind_res (ratio_or (Fin 1) candidate_work baseline_work) (\<lambda>work_ratio.
      bind_res (scenario_recompute baseline ''low-reuse-control'') (\<lambda>low_reuse_baseline.
      bind_res (scenario_recompute candidate ''low-reuse-control'') (\<lambda>low_reuse_candidate.
      bind_res (ratio_or (Fin 1) low_reuse_candidate low_reuse_baseline) (\<lambda>low_reuse_ratio.
        let gates =
          [(''all_authority_proposals_valid'', aggregate_of sm_rejected_proposals candidate = 0),
           (''capacity_invariants_hold'', True),
           (''candidate_recompute_improvement_at_least_10pct'', fl (1/10) \<le> savings_ratio),
           (''candidate_planning_work_ratio_at_most_1_50'', work_ratio \<le> fl (3/2)),
           (''low_reuse_regression_at_most_5pct'', low_reuse_ratio \<le> fl (21/20))]
        in Inr \<lparr>cmp_reference = reference, cmp_baseline = baseline, cmp_candidate = candidate,
                 cmp_saved = savings,
                 cmp_savings_ratio = round_digits 6 savings_ratio,
                 cmp_work_ratio = round_digits 6 work_ratio,
                 cmp_low_reuse_ratio = round_digits 6 low_reuse_ratio,
                 cmp_gates = gates, cmp_status = all_gates gates\<rparr>))))))"

definition compare_candidate :: "policy \<Rightarrow> scenario list \<Rightarrow> comparison res" where
  "compare_candidate candidate_policy scenarios =
     bind_res (evaluate_policy ReferenceFIFO scenarios) (\<lambda>reference.
     bind_res (evaluate_policy ReferenceLRU scenarios) (\<lambda>baseline.
     bind_res (evaluate_policy candidate_policy scenarios) (\<lambda>candidate.
       compare_results reference baseline candidate)))"

section \<open>The development study\<close>

record mutation_result =
  mu_status :: bool
  mu_rejected_proposals :: int
  mu_fallback_uses :: int

definition mutation_check :: "scenario \<Rightarrow> policy \<Rightarrow> (string \<times> mutation_result) res" where
  "mutation_check sc pol =
     bind_res (CacheSimulator DEFAULT_GROUPS (sc_capacity_blocks sc) pol) (\<lambda>sim.
     bind_res (run_requests sim (sc_requests sc)) (\<lambda>sim'.
       Inr (policy_id pol,
         \<lparr>mu_status = 0 < sm_rejected_proposals (sim_metrics sim'),
          mu_rejected_proposals = sm_rejected_proposals (sim_metrics sim'),
          mu_fallback_uses = sm_fallback_uses (sim_metrics sim')\<rparr>)))"

definition mutation_checks :: "(bool \<times> (string, mutation_result) dict) res" where
  "mutation_checks =
     bind_res smoke_scenarios (\<lambda>scenarios.
     bind_res (list_at scenarios 0) (\<lambda>sc.
     bind_res (map_res (mutation_check sc) [InvalidDuplicatePolicy, InvalidUnknownPolicy]) (\<lambda>results.
       Inr (list_all (\<lambda>(_, r). mu_status r) results, results))))"

record recovery_result =
  rc_status :: bool
  rc_checkpoint_digest :: string
  rc_restored_final_digest :: string
  rc_uninterrupted_final_digest :: string
  rc_policy_identity_bound :: bool

definition recovery_of :: "policy \<Rightarrow> scenario \<Rightarrow> recovery_result res" where
  "recovery_of pol sc =
     (let split = int (length (sc_requests sc)) div 2 in
      bind_res (CacheSimulator DEFAULT_GROUPS (sc_capacity_blocks sc) pol) (\<lambda>fresh.
      bind_res (run_requests fresh (slice_to (sc_requests sc) split)) (\<lambda>first.
      bind_res (checkpoint first) (\<lambda>ckpt.
      bind_res (restore_state fresh ckpt) (\<lambda>restored.
      bind_res (run_requests restored (slice_from (sc_requests sc) split)) (\<lambda>resumed.
      bind_res (run_requests fresh (sc_requests sc)) (\<lambda>uninterrupted.
      bind_res (obj_at ckpt ''policy_id'') (\<lambda>bound.
        Inr \<lparr>rc_status =
               (state_digest (sim_state resumed) = state_digest (sim_state uninterrupted)),
             rc_checkpoint_digest = state_digest (sim_state first),
             rc_restored_final_digest = state_digest (sim_state resumed),
             rc_uninterrupted_final_digest = state_digest (sim_state uninterrupted),
             rc_policy_identity_bound = json_eq bound (JStr (policy_id pol))\<rparr>))))))))"

definition recovery_check :: "recovery_result res" where
  "recovery_check =
     bind_res development_scenarios (\<lambda>scenarios.
     bind_res (list_at scenarios 0) (\<lambda>sc. recovery_of GeneratedEvictionPolicy sc))"

record study_summary =
  su_mode :: string
  su_status :: bool
  su_comparison :: comparison
  su_mutations :: "(string, mutation_result) dict"
  su_recovery :: recovery_result

definition run_study :: "string \<Rightarrow> study_summary res" where
  "run_study mode =
     bind_res (if mode = ''smoke'' then smoke_scenarios else development_scenarios) (\<lambda>scenarios.
     bind_res (compare_candidate GeneratedEvictionPolicy scenarios) (\<lambda>cmp.
     bind_res mutation_checks (\<lambda>(mutations_ok, mutations).
     bind_res recovery_check (\<lambda>recovery.
       Inr \<lparr>su_mode = mode,
            su_status = (cmp_status cmp \<and> mutations_ok \<and> rc_status recovery),
            su_comparison = cmp, su_mutations = mutations, su_recovery = recovery\<rparr>))))"

section \<open>The evaluation returns\<close>

lemma metrics_to_json_total:
  assumes "\<bar>sm_hits m\<bar> \<le> 2 ^ 53" and "\<bar>sm_recomputed_blocks m\<bar> \<le> 2 ^ 53"
  shows "\<exists>j. metrics_to_json m = Inr j \<and> mj_counters j = m"
  using assms by (simp add: metrics_to_json_def Let_def int_div_total)

lemma CacheSimulator_total:
  "gs \<noteq> [] \<Longrightarrow> 1 \<le> c \<Longrightarrow> \<exists>sim. CacheSimulator gs c pol = Inr sim \<and>
     config sim = (gs, pol, ReferenceLRU, c) \<and> idle (sim_state sim) \<and> cs_clock (sim_state sim) = 0"
  by (simp add: CacheSimulator_def CacheState_def config_def idle_def)

lemma DEFAULT_GROUPS_ok: "groups_ok DEFAULT_GROUPS"
  by (simp add: groups_ok_def group_ok_def DEFAULT_GROUPS_def)

definition scenario_fits :: "scenario \<Rightarrow> bool" where
  "scenario_fits sc \<longleftrightarrow> 1 \<le> sc_capacity_blocks sc \<and>
     list_all (\<lambda>request. int (request_load DEFAULT_GROUPS request) < sc_capacity_blocks sc)
       (sc_requests sc)"

definition scenario_accesses :: "scenario \<Rightarrow> int" where
  "scenario_accesses sc = sum_list (map (request_accesses DEFAULT_GROUPS) (sc_requests sc))"

lemma scenario_accesses_nonneg: "0 \<le> scenario_accesses sc"
  by (auto simp: scenario_accesses_def request_accesses_def intro!: sum_list_nonneg)

text \<open>One scenario: it runs to the end, and its books balance.\<close>

lemma scenario_run:
  assumes "scenario_fits sc"
  shows "\<exists>sim sim'. CacheSimulator DEFAULT_GROUPS (sc_capacity_blocks sc) pol = Inr sim \<and>
     run_requests sim (sc_requests sc) = Inr sim' \<and> accounted sim' \<and>
     cs_clock (sim_state sim') = scenario_accesses sc"
proof -
  obtain sim where sim: "CacheSimulator DEFAULT_GROUPS (sc_capacity_blocks sc) pol = Inr sim"
    "config sim = (DEFAULT_GROUPS, pol, ReferenceLRU, sc_capacity_blocks sc)" "idle (sim_state sim)"
    "cs_clock (sim_state sim) = 0"
    using CacheSimulator_total [of DEFAULT_GROUPS "sc_capacity_blocks sc" pol] assms
    by (auto simp: scenario_fits_def DEFAULT_GROUPS_def)
  have acc: "accounted sim" using sim(1) by (rule CacheSimulator_accounted)
  then have inv: "cache_inv (sim_state sim)" by (simp add: accounted_def Let_def)
  obtain sim' where sim': "run_requests sim (sc_requests sc) = Inr sim'"
    using lru.run_total [OF inv sim(3), of "sc_requests sc"] sim(2) assms DEFAULT_GROUPS_ok
    by (auto simp: config_def scenario_fits_def list_all_iff)
  from run_clock [OF inv sim'] sim(2,4) have "cs_clock (sim_state sim') = scenario_accesses sc"
    by (simp add: config_def scenario_accesses_def)
  with sim(1) sim' books.run [OF acc sim'] show ?thesis by blast
qed

lemma accounted_bounds:
  assumes "accounted sim"
  shows "0 \<le> sm_hits (sim_metrics sim)" "sm_hits (sim_metrics sim) \<le> cs_clock (sim_state sim)"
    and "0 \<le> sm_recomputed_blocks (sim_metrics sim)"
    and "sm_recomputed_blocks (sim_metrics sim) \<le> cs_clock (sim_state sim)"
  using assms by (auto simp: accounted_def Let_def)

lemma evaluate_total:
  assumes "list_all scenario_fits scenarios"
    and "sum_list (map scenario_accesses scenarios) \<le> 2 ^ 53"
  shows "is_ok (evaluate_policy pol scenarios)"
proof -
  have loop: "\<exists>m' d'. fold_res (evaluate_scenario pol) (m, d) rest = Inr (m', d') \<and>
      0 \<le> sm_hits m' \<and> sm_hits m' \<le> n + sum_list (map scenario_accesses rest) \<and>
      0 \<le> sm_recomputed_blocks m' \<and>
      sm_recomputed_blocks m' \<le> n + sum_list (map scenario_accesses rest)"
    if "list_all scenario_fits rest" and "0 \<le> n"
      and "n + sum_list (map scenario_accesses rest) \<le> 2 ^ 53"
      and "0 \<le> sm_hits m" "sm_hits m \<le> n" "0 \<le> sm_recomputed_blocks m" "sm_recomputed_blocks m \<le> n"
    for rest n m d
    using that
  proof (induction rest arbitrary: n m d)
    case Nil
    then show ?case by simp
  next
    case (Cons sc rest)
    from Cons.prems(1) have "scenario_fits sc" by simp
    from scenario_run [OF this, of pol] obtain sim sim' where
      sim: "CacheSimulator DEFAULT_GROUPS (sc_capacity_blocks sc) pol = Inr sim"
      "run_requests sim (sc_requests sc) = Inr sim'" "accounted sim'"
      "cs_clock (sim_state sim') = scenario_accesses sc" by blast
    note bounds = accounted_bounds [OF sim(3)]
    have "0 \<le> sum_list (map scenario_accesses rest)"
      using scenario_accesses_nonneg by (intro sum_list_nonneg) auto
    then have le: "scenario_accesses sc \<le> 2 ^ 53" using Cons.prems(2,3) by simp
    then obtain j where "metrics_to_json (sim_metrics sim') = Inr j"
      using metrics_to_json_total [of "sim_metrics sim'"] bounds sim(4) by fastforce
    moreover have "validate (sim_state sim') = Inr ()"
      using sim(3) by (simp add: accounted_def Let_def cache_inv_validate)
    ultimately obtain d' where step: "evaluate_scenario pol (m, d) sc =
        Inr (merge_metrics m (sim_metrics sim'), d')"
      using sim(1,2) by (simp add: evaluate_scenario_def)
    have "\<exists>m' d''. fold_res (evaluate_scenario pol) (merge_metrics m (sim_metrics sim'), d') rest =
        Inr (m', d'') \<and>
        0 \<le> sm_hits m' \<and> sm_hits m' \<le> (n + scenario_accesses sc) + sum_list (map scenario_accesses rest) \<and>
        0 \<le> sm_recomputed_blocks m' \<and>
        sm_recomputed_blocks m' \<le> (n + scenario_accesses sc) + sum_list (map scenario_accesses rest)"
      using Cons.prems bounds sim(4)
      by (intro Cons.IH) (auto simp: merge_metrics_def)
    with step show ?case by (simp add: add.assoc)
  qed
  obtain m d where fold: "fold_res (evaluate_scenario pol) (StudyMetrics, []) scenarios = Inr (m, d)"
    and m: "0 \<le> sm_hits m" "sm_hits m \<le> 2 ^ 53" "0 \<le> sm_recomputed_blocks m"
      "sm_recomputed_blocks m \<le> 2 ^ 53"
    using loop [OF assms(1), of 0 StudyMetrics "[]"] assms(2) by (fastforce simp: StudyMetrics_def)
  then obtain j where "metrics_to_json m = Inr j" using metrics_to_json_total [of m] by fastforce
  with fold show ?thesis by (simp add: evaluate_policy_def)
qed

section \<open>The gates\<close>

lemma rnd_tenth: "rnd (1 / 10) = 3602879701896397 / 36028797018963968"
  by code_simp

lemma rnd_three_halves: "rnd (3 / 2) = 3 / 2"
  by code_simp

lemma rnd_105: "rnd (21 / 20) = 4728779608739021 / 4503599627370496"
  by code_simp

text \<open>The floating-point comparisons decide the exact ratios, for counts below \<open>2 ^ 47\<close>.\<close>

lemma savings_gate:
  assumes "0 < b" and "b \<le> 2 ^ 47"
  shows "rnd (1 / 10) \<le> rnd (of_int s / of_int b) \<longleftrightarrow> b \<le> 10 * s"
proof -
  let ?x = "of_int s / of_int b :: rat"
  have "rnd (1 / 10) \<le> rnd ?x \<longleftrightarrow> 1 / 10 \<le> ?x"
  proof (rule dbl.R_ge_iff)
    show "rnd (3602879701896396 / 36028797018963968) = 3602879701896396 / 36028797018963968"
      by code_simp
    show "3602879701896396 / 36028797018963968 < rnd (1 / 10)"
      unfolding rnd_tenth by simp
    assume "?x < 1 / 10"
    with assms(1) have "10 * of_int s < (of_int b :: rat)" by (simp add: field_simps)
    then have "10 * s < b" by linarith
    then have "10 * s + 1 \<le> b" by simp
    then have "10 * of_int s + 1 \<le> (of_int b :: rat)"
      using of_int_le_iff [of "10 * s + 1" b, where 'a = rat] by simp
    moreover have "(of_int b :: rat) \<le> 140737488355328"
      using assms(2) of_int_le_iff [of b "2 ^ 47", where 'a = rat] by simp
    ultimately have "36028797018963968 * of_int s \<le> 3602879701896396 * (of_int b :: rat)" by linarith
    with assms(1) show "?x \<le> 3602879701896396 / 36028797018963968"
      by (simp add: pos_divide_le_eq)
  qed
  also have "\<dots> \<longleftrightarrow> of_int b \<le> 10 * (of_int s :: rat)"
    using assms(1) by (simp add: field_simps)
  also have "\<dots> \<longleftrightarrow> b \<le> 10 * s" by linarith
  finally show ?thesis .
qed

text \<open>An upper threshold \<open>n/d\<close> with the next double \<open>e/f\<close> above its rounding.\<close>

lemma upper_gate:
  fixes n d e f :: int
  assumes "rnd (of_int e / of_int f) = of_int e / of_int f"
    and "rnd (of_int n / of_int d) < of_int e / of_int f" and "0 < d" and "0 < f"
    and "0 < b" and "(e * d - n * f) * b \<le> f"
  shows "rnd (of_int c / of_int b) \<le> rnd (of_int n / of_int d) \<longleftrightarrow> d * c \<le> n * b"
proof -
  let ?x = "of_int c / of_int b :: rat"
  have frac: "of_int p / of_int q \<le> (of_int p' / of_int q' :: rat) \<longleftrightarrow> p * q' \<le> p' * q"
    if "0 < q" and "0 < q'" for p q p' q' :: int
  proof -
    have "of_int p / of_int q \<le> (of_int p' / of_int q' :: rat) \<longleftrightarrow>
        of_int p * of_int q' \<le> (of_int p' * of_int q :: rat)"
      using that by (simp add: field_simps)
    also have "\<dots> \<longleftrightarrow> p * q' \<le> p' * q" by (metis of_int_le_iff of_int_mult)
    finally show ?thesis .
  qed
  have "rnd ?x \<le> rnd (of_int n / of_int d) \<longleftrightarrow> ?x \<le> of_int n / of_int d"
  proof (rule dbl.R_le_iff [OF assms(1,2)])
    assume "of_int n / of_int d < ?x"
    then have "n * b + 1 \<le> c * d" using frac [OF assms(5,3), of c n] by simp
    then have "(n * b + 1) * f \<le> c * d * f" using assms(4) by (simp add: mult_right_mono)
    then have "e * b * d \<le> c * f * d" using assms(6) by (simp add: algebra_simps)
    then have "e * b \<le> c * f" using assms(3) by simp
    then show "of_int e / of_int f \<le> ?x" using frac [OF assms(4,5)] by simp
  qed
  also have "\<dots> \<longleftrightarrow> d * c \<le> n * b" using frac [OF assms(5,3), of c n] by (simp add: mult.commute)
  finally show ?thesis .
qed

lemma work_gate:
  assumes "0 < b" and "b \<le> 2 ^ 47"
  shows "rnd (of_int c / of_int b) \<le> rnd (3 / 2) \<longleftrightarrow> 2 * c \<le> 3 * b"
proof -
  have double: "rnd (6755399441055745 / 4503599627370496) = 6755399441055745 / 4503599627370496"
    by code_simp
  show ?thesis
    using upper_gate [of 6755399441055745 4503599627370496 3 2 b c] assms double
    by (simp add: rnd_three_halves)
qed

lemma reuse_gate:
  assumes "0 < b" and "b \<le> 2 ^ 47"
  shows "rnd (of_int c / of_int b) \<le> rnd (21 / 20) \<longleftrightarrow> 20 * c \<le> 21 * b"
proof -
  have double: "rnd (4728779608739022 / 4503599627370496) = 4728779608739022 / 4503599627370496"
    by code_simp
  show ?thesis
    using upper_gate [of 4728779608739022 4503599627370496 21 20 b c] assms double
    by (simp add: rnd_105)
qed

end
