(* ===== verification/CacheStudyProofs.thy ===== *)
theory CacheStudyProofs
  imports CacheStudy
begin

text \<open>
  What the development study establishes: the gates decide the exact ratios, the recovery check
  passes for every policy, the mutation checks count every eviction as a rejection, and the smoke
  mode of the study cannot complete.
\<close>

section \<open>Gates\<close>

lemma gate_literals:
  "fl (1 / 10) = Fin (rnd (1 / 10))" "fl (3 / 2) = Fin (rnd (3 / 2))"
  "fl (21 / 20) = Fin (rnd (21 / 20))"
  by (simp_all add: fl_eq_Fin)

lemma ratio_or_le:
  assumes "ratio_or (Fin 1) a b = Inr r" and "0 \<le> b" and "1 \<le> t"
    and "0 < b \<Longrightarrow> rnd (of_int a / of_int b) \<le> t \<longleftrightarrow> P"
  shows "r \<le> Fin t \<longleftrightarrow> b = 0 \<or> P"
proof (cases "b = 0")
  case True
  with assms(1,3) show ?thesis by (auto simp: ratio_or_def)
next
  case False
  with assms(1) have "r = Fin (rnd (of_int a / of_int b))"
    using int_div_eq_Inr by (simp add: ratio_or_def)
  with False assms(2,4) show ?thesis by simp
qed

lemma compare_gates:
  assumes "compare_results reference baseline candidate = Inr c"
    and "scenario_recompute baseline ''low-reuse-control'' = Inr lb"
    and "scenario_recompute candidate ''low-reuse-control'' = Inr lc"
    and "0 \<le> aggregate_of sm_recomputed_blocks baseline"
    and "aggregate_of sm_recomputed_blocks baseline \<le> 2 ^ 47"
    and "0 \<le> aggregate_of sm_planner_candidates_inspected baseline"
    and "aggregate_of sm_planner_candidates_inspected baseline \<le> 2 ^ 47"
    and "0 \<le> lb" and "lb \<le> 2 ^ 47"
  shows "cmp_status c \<longleftrightarrow>
     aggregate_of sm_rejected_proposals candidate = 0 \<and>
     (0 < aggregate_of sm_recomputed_blocks baseline \<and>
      10 * aggregate_of sm_recomputed_blocks candidate \<le> 9 * aggregate_of sm_recomputed_blocks baseline) \<and>
     (aggregate_of sm_planner_candidates_inspected baseline = 0 \<or>
      2 * aggregate_of sm_planner_candidates_inspected candidate
        \<le> 3 * aggregate_of sm_planner_candidates_inspected baseline) \<and>
     (lb = 0 \<or> 20 * lc \<le> 21 * lb)"
proof -
  let ?b = "aggregate_of sm_recomputed_blocks baseline"
  let ?s = "?b - aggregate_of sm_recomputed_blocks candidate"
  let ?w = "aggregate_of sm_planner_candidates_inspected baseline"
  let ?v = "aggregate_of sm_planner_candidates_inspected candidate"
  from assms(1-3) obtain r1 r2 r3 where r1: "ratio_or (Fin 0) ?s ?b = Inr r1"
    and r2: "ratio_or (Fin 1) ?v ?w = Inr r2" and r3: "ratio_or (Fin 1) lc lb = Inr r3"
    and c: "cmp_status c \<longleftrightarrow> aggregate_of sm_rejected_proposals candidate = 0 \<and>
      fl (1/10) \<le> r1 \<and> r2 \<le> fl (3/2) \<and> r3 \<le> fl (21/20)"
    by (auto simp: compare_results_def Let_def bind_res_eq_Inr all_gates_def)
  have "fl (1/10) \<le> r1 \<longleftrightarrow> 0 < ?b \<and> ?b \<le> 10 * ?s"
  proof (cases "?b = 0")
    case True
    with r1 show ?thesis by (auto simp: ratio_or_def gate_literals rnd_tenth)
  next
    case False
    with r1 have "r1 = Fin (rnd (of_int ?s / of_int ?b))"
      using int_div_eq_Inr [of ?s ?b r1] by (simp add: ratio_or_def)
    with False assms(4,5) savings_gate [of ?b ?s] show ?thesis by (simp add: gate_literals)
  qed
  moreover have "r2 \<le> fl (3/2) \<longleftrightarrow> ?w = 0 \<or> 2 * ?v \<le> 3 * ?w"
    unfolding gate_literals
    by (rule ratio_or_le [OF r2 assms(6)]) (use assms(7) work_gate in \<open>auto simp: rnd_three_halves\<close>)
  moreover have "r3 \<le> fl (21/20) \<longleftrightarrow> lb = 0 \<or> 20 * lc \<le> 21 * lb"
    unfolding gate_literals
    by (rule ratio_or_le [OF r3 assms(8)]) (use assms(9) reuse_gate in \<open>auto simp: rnd_105\<close>)
  ultimately show ?thesis unfolding c by auto
qed

section \<open>Recovery\<close>

lemma recovery_passes:
  assumes "recovery_of pol sc = Inr r"
  shows "rc_status r \<and> rc_policy_identity_bound r"
proof -
  let ?n = "int (length (sc_requests sc)) div 2"
  from assms obtain fresh first ckpt restored resumed final bound where
    fresh: "CacheSimulator DEFAULT_GROUPS (sc_capacity_blocks sc) pol = Inr fresh"
    and first: "run_requests fresh (slice_to (sc_requests sc) ?n) = Inr first"
    and ckpt: "checkpoint first = Inr ckpt" and restored: "restore_state fresh ckpt = Inr restored"
    and resumed: "run_requests restored (slice_from (sc_requests sc) ?n) = Inr resumed"
    and fin: "run_requests fresh (sc_requests sc) = Inr final"
    and bound: "dict_get ckpt ''policy_id'' = Some bound"
    and r: "rc_status r \<longleftrightarrow> state_digest (sim_state resumed) = state_digest (sim_state final)"
      "rc_policy_identity_bound r \<longleftrightarrow> json_eq bound (JStr (policy_id pol))"
    by (auto simp: recovery_of_def Let_def bind_res_eq_Inr)
  have al: "aligned (sim_state fresh)" using fresh by (rule CacheSimulator_aligned)
  have "sim_policy fresh = pol"
    using fresh by (auto simp: CacheSimulator_def bind_res_eq_Inr split: if_splits)
  moreover have "config first = config fresh"
    using settings.run [of fresh "config fresh" _ first] aligned_inv [OF al] first by simp
  ultimately have "sim_policy first = pol" by (simp add: config_def)
  with ckpt bound have "bound = JStr (policy_id pol)"
    by (auto simp: checkpoint_def bind_res_eq_Inr)
  moreover have "run_requests fresh (slice_to (sc_requests sc) ?n @ slice_from (sc_requests sc) ?n)
      = Inr final"
    using fin by (simp add: slice_to_from)
  from recovery [OF al this first ckpt] restored resumed
  have "sim_state resumed = sim_state final" by auto
  ultimately show ?thesis using r by simp
qed

lemma recovery_total:
  assumes "scenario_fits sc" and "scenario_accesses sc \<le> 2 ^ 53"
  shows "is_ok (recovery_of pol sc)"
proof -
  let ?n = "int (length (sc_requests sc)) div 2"
  let ?xs = "slice_to (sc_requests sc) ?n" and ?ys = "slice_from (sc_requests sc) ?n"
  from scenario_run [OF assms(1), of pol] obtain fresh final where
    fresh: "CacheSimulator DEFAULT_GROUPS (sc_capacity_blocks sc) pol = Inr fresh"
    and fin: "run_requests fresh (?xs @ ?ys) = Inr final"
    and clock: "cs_clock (sim_state final) = scenario_accesses sc" and books: "accounted final"
    by (auto simp: slice_to_from)
  have al: "aligned (sim_state fresh)" using fresh by (rule CacheSimulator_aligned)
  from run_split [OF al fin] obtain first where first: "run_requests fresh ?xs = Inr first"
    and rest: "run_requests first ?ys = Inr final" by blast
  have acc: "accounted first" using CacheSimulator_accounted [OF fresh] first by (rule books.run)
  have inv: "cache_inv (sim_state first)" using acc by (simp add: accounted_def Let_def)
  have "0 \<le> sum_list (map (request_accesses (sim_groups first)) ?ys)"
    by (intro sum_list_nonneg) (auto simp: request_accesses_def)
  then have "cs_clock (sim_state first) \<le> 2 ^ 53"
    using run_clock [OF inv rest] clock assms(2) by simp
  with accounted_bounds [OF acc] obtain j where "metrics_to_json (sim_metrics first) = Inr j"
    using metrics_to_json_total [of "sim_metrics first"] by fastforce
  then obtain ckpt where ckpt: "checkpoint first = Inr ckpt" by (simp add: checkpoint_def)
  moreover have "dict_get ckpt ''policy_id'' \<noteq> None"
    using ckpt by (auto simp: checkpoint_def bind_res_eq_Inr)
  moreover obtain restored resumed where "restore_state fresh ckpt = Inr restored"
    "run_requests restored ?ys = Inr resumed"
    using recovery [OF al fin first ckpt] by blast
  ultimately show ?thesis
    using fresh first fin by (auto simp: recovery_of_def Let_def slice_to_from)
qed

section \<open>Mutations\<close>

definition always_rejected :: "simulator \<Rightarrow> bool" where
  "always_rejected sim \<longleftrightarrow> cache_inv (sim_state sim) \<and>
     sim_policy sim \<in> {InvalidDuplicatePolicy, InvalidUnknownPolicy} \<and>
     sm_rejected_proposals (sim_metrics sim) = sm_evictions (sim_metrics sim)"

lemma make_room_rejected:
  assumes "always_rejected sim" and "make_room sim = Inr sim'"
  shows "always_rejected sim'"
proof -
  from assms(1) have inv: "cache_inv (sim_state sim)" by (simp add: always_rejected_def)
  note room = make_room_result [OF inv assms(2)]
  from inv assms(2) show ?thesis
  proof (cases rule: make_room_cases)
    case room
    with assms(1) show ?thesis by simp
  next
    case (evicted i b m)
    have "\<not> proposal_valid (sim_state sim) (fst (propose (sim_policy sim) (sim_state sim) 1)) 1"
      using assms(1) duplicate_rejected [of 1] unknown_rejected [OF inv, of 1]
      by (auto simp: always_rejected_def)
    then show ?thesis
      using authorize_counts(3) [OF evicted(2)] authorize_metrics(4) [OF evicted(2)] evicted(5)
        assms(1) room
      by (simp add: always_rejected_def)
  qed
qed

interpretation rejection: sim_invariant always_rejected
proof unfold_locales
  fix sim sim' kind request grp key shared i
  assume P: "always_rejected sim" and "kind \<in> {''prompt'', ''generated''}"
    and acc: "access request grp key kind shared sim = Inr (sim', i)"
  then have inv: "cache_inv (sim_state sim)" and inv': "cache_inv (sim_state sim')"
    using access_inv by (auto simp: always_rejected_def)
  from inv acc show "always_rejected sim'"
  proof (cases rule: access_cases)
    case (hit b)
    with P inv' show ?thesis by (simp add: always_rejected_def count_hit_def)
  next
    case (miss sim2)
    have "always_rejected (count_miss_sim sim)"
      using P by (simp add: always_rejected_def cache_inv_tick count_miss_def)
    then have "always_rejected sim2" using miss(2) by (rule make_room_rejected)
    with miss(3) inv' show ?thesis
      by (simp add: always_rejected_def store_block_def Let_def note_peak_def)
  qed
qed (auto simp: always_rejected_def discard_owner_inv release_owned_inv)

section \<open>The smoke mode\<close>

lemma evaluate_keys:
  "fold_res (evaluate_scenario pol) (m, d) scenarios = Inr (m', d') \<Longrightarrow>
     set (dict_keys d') \<subseteq> set (dict_keys d) \<union> sc_scenario_id ` set scenarios"
proof (induction scenarios arbitrary: m d)
  case Nil
  then show ?case by simp
next
  case (Cons sc scenarios)
  then obtain m1 d1 where step: "evaluate_scenario pol (m, d) sc = Inr (m1, d1)"
    and rest: "fold_res (evaluate_scenario pol) (m1, d1) scenarios = Inr (m', d')"
    by (auto simp: bind_res_eq_Inr)
  from step obtain v where "d1 = dict_set (sc_scenario_id sc) v d"
    by (auto simp: evaluate_scenario_def bind_res_eq_Inr)
  then have "set (dict_keys d1) \<subseteq> insert (sc_scenario_id sc) (set (dict_keys d))"
    by (auto simp: dict_keys_set simp del: set_map)
  with Cons.IH [OF rest] show ?case by auto
qed

text \<open>Without the low-reuse scenario there is no comparison.\<close>

lemma compare_needs_control:
  assumes "''low-reuse-control'' \<notin> sc_scenario_id ` set scenarios"
  shows "compare_candidate pol scenarios \<noteq> Inr c"
proof
  assume "compare_candidate pol scenarios = Inr c"
  then obtain baseline reference candidate where
    b: "evaluate_policy ReferenceLRU scenarios = Inr baseline"
    and "compare_results reference baseline candidate = Inr c"
    by (auto simp: compare_candidate_def bind_res_eq_Inr)
  then obtain n where "scenario_recompute baseline ''low-reuse-control'' = Inr n"
    by (auto simp: compare_results_def Let_def bind_res_eq_Inr)
  then have "''low-reuse-control'' \<in> set (dict_keys (pr_scenarios baseline))"
    by (auto simp: scenario_recompute_def bind_res_eq_Inr simp del: set_map intro: dict_get_in_keys)
  moreover from b obtain m d where
    "fold_res (evaluate_scenario ReferenceLRU) (StudyMetrics, []) scenarios = Inr (m, d)"
    and "pr_scenarios baseline = d"
    by (auto simp: evaluate_policy_def bind_res_eq_Inr)
  ultimately have "''low-reuse-control'' \<in> sc_scenario_id ` set scenarios"
    using evaluate_keys [of ReferenceLRU StudyMetrics "[]" scenarios m d] by auto
  with assms show False ..
qed

end
