(* ===== verification/CacheProperties.thy ===== *)
theory CacheProperties
  imports CacheStudyProofs
begin

text \<open>
  The properties of CacheForge, each with a concrete instance.  Several of them speak of a run of
  any policy whatsoever: the authority and the simulator do not rely on the machine-made part.
\<close>

section \<open>A small simulator to instantiate the properties with\<close>

definition demo_sim :: simulator where
  "demo_sim = \<lparr>sim_groups = DEFAULT_GROUPS, sim_policy = GeneratedEvictionPolicy,
     sim_fallback = ReferenceLRU,
     sim_state = \<lparr>cs_capacity_blocks = 12, cs_clock = 0, cs_next_block_id = 0, cs_blocks = [],
       cs_key_index = []\<rparr>,
     sim_metrics = StudyMetrics\<rparr>"

definition demo_request :: "string \<Rightarrow> request_trace" where
  "demo_request name = \<lparr>rt_request_id = name,
     rt_prompt_blocks = [''sys:a:0'', ''sys:a:1'', ''user:'' @ name], rt_generated_blocks = 2,
     rt_priority = 1, rt_cancel_after_generated = None\<rparr>"

lemma demo_made: "CacheSimulator DEFAULT_GROUPS 12 GeneratedEvictionPolicy = Inr demo_sim"
  by (simp add: CacheSimulator_def CacheState_def demo_sim_def DEFAULT_GROUPS_def)

lemma demo_aligned: "aligned (sim_state demo_sim)"
  using demo_made by (rule CacheSimulator_aligned)

lemma demo_inv: "cache_inv (sim_state demo_sim)"
  using demo_aligned by (rule aligned_inv)

lemma demo_idle: "idle (sim_state demo_sim)"
  by (simp add: idle_def demo_sim_def)

lemma demo_groups: "groups_ok (sim_groups demo_sim)"
  by (simp add: demo_sim_def DEFAULT_GROUPS_ok)

lemma demo_load: "request_load DEFAULT_GROUPS (demo_request name) = 7"
  by (simp add: request_load_def demo_request_def full_groups_def sliding_groups_def
      window_total_def window_limit_def DEFAULT_GROUPS_def)

lemma demo_run: "\<exists>sim. run_requests demo_sim (map demo_request names) = Inr sim"
  using lru.run_total [OF demo_inv demo_idle demo_groups, of "map demo_request names"]
  by (auto simp: demo_load demo_sim_def)

lemma demo_process: "\<exists>sim. process demo_sim (demo_request name) = Inr sim"
  using lru.process_total [OF demo_inv demo_idle demo_groups, of "demo_request name"]
  by (auto simp: demo_load demo_sim_def)

section \<open>Safety\<close>



text \<open>
  C2: the authority only ever returns as many victims as were asked for, all different, all
  resident and none of them owned, for every policy and every fallback policy.
\<close>

theorem authority_safe:
  assumes "authorize_eviction fallback s pol required m = Inr (victims, m')"
  shows "length victims = nat required \<and> distinct victims \<and>
    (\<forall>i \<in> set victims. \<exists>b. dict_get (cs_blocks s) i = Some b \<and> cb_owners b = {})"
  using authorize_safe [OF assms] by (simp add: safe_victims_def)

definition demo_state :: cache_state where
  "demo_state = \<lparr>cs_capacity_blocks = 2, cs_clock = 2, cs_next_block_id = 2,
     cs_blocks = [(0, fresh_block ''r'' 1 0 (''full'', ''a'') ''prompt'' False),
                  (1, (fresh_block ''r'' 2 1 (''full'', ''b'') ''prompt'' False)\<lparr>cb_owners := {}\<rparr>)],
     cs_key_index = [((''full'', ''a''), 0), ((''full'', ''b''), 1)]\<rparr>"

theorem authority_safe_witness:
  "\<exists>m'. authorize_eviction ReferenceLRU demo_state InvalidUnknownPolicy 1 StudyMetrics
     = Inr ([1], m') \<and> distinct [1 :: int]"
proof -
  have run: "map_sum id fst (authorize_eviction ReferenceLRU demo_state InvalidUnknownPolicy 1 StudyMetrics)
      = Inr [1]"
    by code_simp
  then obtain m' where auth: "authorize_eviction ReferenceLRU demo_state InvalidUnknownPolicy 1
      StudyMetrics = Inr ([1], m')"
    by (cases "authorize_eviction ReferenceLRU demo_state InvalidUnknownPolicy 1 StudyMetrics") auto
  from authority_safe [OF auth] auth show ?thesis by blast
qed

section \<open>Liveness\<close>

text \<open>
  C3: if the capacity exceeds what a request can own at a time, no request of a trace raises,
  whatever the eviction policy proposes.
\<close>

theorem run_never_raises:
  assumes "CacheSimulator groups capacity pol = Inr sim" and "groups_ok groups"
    and "\<forall>request \<in> set requests. int (request_load groups request) < capacity"
  shows "\<exists>sim'. run_requests sim requests = Inr sim' \<and> cache_inv (sim_state sim') \<and>
    idle (sim_state sim')"
proof -
  from assms(1) have sim: "sim_groups sim = groups" "sim_fallback sim = ReferenceLRU"
    "cs_capacity_blocks (sim_state sim) = capacity" "idle (sim_state sim)"
    by (auto simp: CacheSimulator_def CacheState_def bind_res_eq_Inr idle_def split: if_splits)
  have inv: "cache_inv (sim_state sim)"
    using CacheSimulator_accounted [OF assms(1)] by (simp add: accounted_def Let_def)
  from lru.run_total [OF inv sim(4), of requests] sim(1-3) assms(2,3)
  obtain sim' where run: "run_requests sim requests = Inr sim'" by auto
  with run_idle [OF inv sim(4) run] show ?thesis by blast
qed

theorem run_never_raises_witness:
  "\<exists>sim. run_requests demo_sim [demo_request ''r'', demo_request ''s''] = Inr sim"
  using run_never_raises [OF demo_made DEFAULT_GROUPS_ok, of "[demo_request ''r'', demo_request ''s'']"]
  by (auto simp: demo_load)

section \<open>Recovery\<close>

text \<open>
  C4: a run that is checkpointed after any prefix of its trace and resumed on a fresh simulator
  ends in the state of the uninterrupted run.
\<close>

theorem recovery_equivalence:
  assumes "CacheSimulator groups capacity pol = Inr sim"
    and "run_requests sim (before @ after) = Inr final"
    and "run_requests sim before = Inr mid" and "checkpoint mid = Inr ckpt"
  shows "\<exists>restored resumed. restore_state sim ckpt = Inr restored \<and>
    run_requests restored after = Inr resumed \<and> sim_state resumed = sim_state final"
  using recovery [OF CacheSimulator_aligned [OF assms(1)] assms(2-4)] .

theorem recovery_equivalence_witness:
  "\<exists>mid ckpt restored resumed final.
     run_requests demo_sim [demo_request ''r''] = Inr mid \<and> checkpoint mid = Inr ckpt \<and>
     restore_state demo_sim ckpt = Inr restored \<and>
     run_requests restored [demo_request ''s''] = Inr resumed \<and>
     run_requests demo_sim [demo_request ''r'', demo_request ''s''] = Inr final \<and>
     sim_state resumed = sim_state final"
proof -
  obtain mid where mid: "run_requests demo_sim [demo_request ''r''] = Inr mid"
    using demo_run [of "[''r'']"] by auto
  obtain final where final: "run_requests demo_sim ([demo_request ''r''] @ [demo_request ''s'']) = Inr final"
    using demo_run [of "[''r'', ''s'']"] by auto
  have acc: "accounted mid" using CacheSimulator_accounted [OF demo_made] mid by (rule books.run)
  have "cs_clock (sim_state mid) = 10"
    using run_clock [OF demo_inv mid]
    by (simp add: demo_sim_def DEFAULT_GROUPS_def request_accesses_def served_def demo_request_def)
  with accounted_bounds [OF acc] obtain j where "metrics_to_json (sim_metrics mid) = Inr j"
    using metrics_to_json_total [of "sim_metrics mid"] by fastforce
  then obtain ckpt where ckpt: "checkpoint mid = Inr ckpt" by (simp add: checkpoint_def)
  from recovery_equivalence [OF demo_made final mid ckpt] mid final ckpt show ?thesis by auto
qed

text \<open>
  C5: every state a simulator can reach is restored exactly from its snapshot, dictionary order
  included.
\<close>

theorem snapshot_roundtrip:
  assumes "CacheSimulator groups capacity pol = Inr sim" and "run_requests sim trace = Inr sim'"
  shows "restore (snapshot (sim_state sim')) = Inr (sim_state sim')"
  using order.run [OF CacheSimulator_aligned [OF assms(1)] assms(2)] by (rule restore_snapshot)

theorem snapshot_roundtrip_witness:
  "\<exists>sim. run_requests demo_sim [demo_request ''r''] = Inr sim \<and>
     restore (snapshot (sim_state sim)) = Inr (sim_state sim)"
proof -
  obtain sim where run: "run_requests demo_sim [demo_request ''r''] = Inr sim"
    using demo_run [of "[''r'']"] by auto
  from snapshot_roundtrip [OF demo_made run] run show ?thesis by blast
qed



section \<open>Accounting\<close>

text \<open>
  C7: after any run the counters balance: every miss is a recomputation and is either resident or
  evicted, the clock counts hits and misses, identifiers are handed out one per miss, every
  eviction was planned, every rejection fell back, and the peak is within the capacity.
\<close>

theorem metrics_account_for_state:
  assumes "CacheSimulator groups capacity pol = Inr sim" and "run_requests sim trace = Inr sim'"
  shows "let m = sim_metrics sim'; s = sim_state sim' in
     sm_misses m = sm_evictions m + int (length (cs_blocks s)) \<and>
     sm_recomputed_blocks m = sm_misses m \<and> cs_next_block_id s = sm_misses m \<and>
     cs_clock s = sm_hits m + sm_misses m \<and>
     sm_planner_calls m = sm_evictions m \<and> sm_fallback_uses m = sm_rejected_proposals m \<and>
     sm_rejected_proposals m \<le> sm_planner_calls m \<and>
     int (length (cs_blocks s)) \<le> sm_peak_resident_blocks m \<and>
     sm_peak_resident_blocks m \<le> cs_capacity_blocks s"
  using books.run [OF CacheSimulator_accounted [OF assms(1)] assms(2)]
  by (simp add: accounted_def Let_def)

theorem metrics_account_for_state_witness:
  "\<exists>sim. run_requests demo_sim [demo_request ''r''] = Inr sim \<and>
     cs_next_block_id (sim_state sim) = sm_misses (sim_metrics sim)"
proof -
  obtain sim where run: "run_requests demo_sim [demo_request ''r''] = Inr sim"
    using demo_run [of "[''r'']"] by auto
  from metrics_account_for_state [OF demo_made run] run show ?thesis by (auto simp: Let_def)
qed

text \<open>
  A request costs one access per group for each prompt block and for each generated block up
  to its cancellation.
\<close>

theorem process_accesses:
  assumes "cache_inv (sim_state sim)" and "process sim request = Inr sim'"
  shows "cs_clock (sim_state sim') = cs_clock (sim_state sim) +
    int (length (sim_groups sim)) * int (length (rt_prompt_blocks request) + served request)"
  using process_clock [OF assms] by (simp add: request_accesses_def)

theorem process_accesses_witness:
  "\<exists>sim. process demo_sim (demo_request ''r'') = Inr sim \<and> cs_clock (sim_state sim) = 10"
proof -
  obtain sim where run: "process demo_sim (demo_request ''r'') = Inr sim" using demo_process ..
  from process_accesses [OF demo_inv run] run show ?thesis
    by (simp add: demo_sim_def DEFAULT_GROUPS_def served_def demo_request_def)
qed

section \<open>The machine policy\<close>

text \<open>No proposal of the four policies is ever rejected, so the fallback is never used.\<close>

theorem policies_never_overruled:
  assumes "pol \<in> {ReferenceFIFO, ReferenceLRU, SegmentedLRU, GeneratedEvictionPolicy}"
    and "CacheSimulator groups capacity pol = Inr sim" and "run_requests sim trace = Inr sim'"
  shows "sm_rejected_proposals (sim_metrics sim') = 0 \<and> sm_fallback_uses (sim_metrics sim') = 0"
proof -
  have "accounted sim" using assms(2) by (rule CacheSimulator_accounted)
  moreover have "sim_policy sim = pol" "sm_rejected_proposals (sim_metrics sim) = 0"
    using assms(2) by (auto simp: CacheSimulator_def bind_res_eq_Inr StudyMetrics_def split: if_splits)
  moreover have "eviction_policy (propose pol)"
    using assms(1) fifo.eviction_policy_axioms lru.eviction_policy_axioms
      segmented.eviction_policy_axioms generated.eviction_policy_axioms by auto
  ultimately have "trusted sim" by (simp add: trusted_def accounted_def Let_def)
  then have "trusted sim'" using assms(3) by (rule trust.run)
  moreover have "accounted sim'" using \<open>accounted sim\<close> assms(3) by (rule books.run)
  ultimately show ?thesis by (simp add: trusted_def accounted_def Let_def)
qed

theorem policies_never_overruled_witness:
  "\<exists>sim. run_requests demo_sim [demo_request ''r'', demo_request ''s''] = Inr sim \<and>
     sm_fallback_uses (sim_metrics sim) = 0"
proof -
  obtain sim where run: "run_requests demo_sim [demo_request ''r'', demo_request ''s''] = Inr sim"
    using demo_run [of "[''r'', ''s'']"] by auto
  from policies_never_overruled [OF _ demo_made run] run show ?thesis by simp
qed

text \<open>
  The committed eviction table is the one its generator renders from the committed
  specification.
\<close>

theorem eviction_table_rendered: "render_table committed_spec = Inr EVICTION_RANK"
  by code_simp

text \<open>
  C8: the machine policy evicts by the linear score: no block goes while a free block with a
  higher score, or with the same score and less recently used, is left.
\<close>

theorem generated_policy_choice:
  assumes "cache_inv s" and "0 \<le> n" and "i \<in> set (fst (propose GeneratedEvictionPolicy s n))"
    and "dict_get (cs_blocks s) i = Some b"
    and "c \<in> set (evictable s)" and "cb_block_id c \<notin> set (fst (propose GeneratedEvictionPolicy s n))"
  shows "eviction_score (cs_clock s) c < eviction_score (cs_clock s) b \<or>
    eviction_score (cs_clock s) c = eviction_score (cs_clock s) b \<and> cb_last_used b \<le> cb_last_used c"
  using generated.least_plan [OF assms]
  by (auto simp: generated_rank_def eviction_rank_linear less_eq_prod_def)

definition scored_state :: cache_state where
  "scored_state = \<lparr>cs_capacity_blocks = 2, cs_clock = 2, cs_next_block_id = 2,
     cs_blocks = [(0, (fresh_block ''r'' 1 0 (''full'', ''sys:a'') ''prompt'' True)\<lparr>cb_owners := {}\<rparr>),
                  (1, (fresh_block ''r'' 2 1 (''full'', ''b'') ''prompt'' False)\<lparr>cb_owners := {}\<rparr>)],
     cs_key_index = [((''full'', ''sys:a''), 0), ((''full'', ''b''), 1)]\<rparr>"

theorem generated_policy_choice_witness:
  "fst (propose GeneratedEvictionPolicy scored_state 1) = [1] \<and>
   eviction_score 2 ((fresh_block ''r'' 1 0 (''full'', ''sys:a'') ''prompt'' True)\<lparr>cb_owners := {}\<rparr>)
     \<le> eviction_score 2 ((fresh_block ''r'' 2 1 (''full'', ''b'') ''prompt'' False)\<lparr>cb_owners := {}\<rparr>)"
proof -
  have inv: "cache_inv scored_state"
    by (auto simp: cache_inv_def scored_state_def block_valid_def fresh_block_def block_identity_def
        split: if_splits)
  have plan: "fst (propose GeneratedEvictionPolicy scored_state 1) = [1]" by code_simp
  let ?b = "(fresh_block ''r'' 2 1 (''full'', ''b'') ''prompt'' False)\<lparr>cb_owners := {}\<rparr>"
  let ?c = "(fresh_block ''r'' 1 0 (''full'', ''sys:a'') ''prompt'' True)\<lparr>cb_owners := {}\<rparr>"
  have b: "dict_get (cs_blocks scored_state) 1 = Some ?b" by (simp add: scored_state_def)
  have c: "?c \<in> set (evictable scored_state)" by (simp add: scored_state_def evictable_def)
  from generated_policy_choice [OF inv _ _ b c, of 1] plan show ?thesis
    by (auto simp: scored_state_def fresh_block_def)
qed

section \<open>The development study\<close>

text \<open>
  C9: the verdict of the comparison, computed with floating-point ratios, is the exact integer
  verdict, for counts up to \<open>2 ^ 47\<close>.
\<close>

theorem comparison_gates_exact:
  assumes "compare_results reference baseline candidate = Inr c"
    and "scenario_recompute baseline ''low-reuse-control'' = Inr lb"
    and "scenario_recompute candidate ''low-reuse-control'' = Inr lc"
    and "0 \<le> aggregate_of sm_recomputed_blocks baseline"
    and "aggregate_of sm_recomputed_blocks baseline \<le> 2 ^ 47"
    and "0 \<le> aggregate_of sm_planner_candidates_inspected baseline"
    and "aggregate_of sm_planner_candidates_inspected baseline \<le> 2 ^ 47"
    and "0 \<le> lb" and "lb \<le> 2 ^ 47"
  shows "cmp_status c \<longleftrightarrow>
     aggregate_of sm_rejected_proposals candidate = 0 \<and>
     (0 < aggregate_of sm_recomputed_blocks baseline \<and>
      10 * aggregate_of sm_recomputed_blocks candidate \<le> 9 * aggregate_of sm_recomputed_blocks baseline) \<and>
     (aggregate_of sm_planner_candidates_inspected baseline = 0 \<or>
      2 * aggregate_of sm_planner_candidates_inspected candidate
        \<le> 3 * aggregate_of sm_planner_candidates_inspected baseline) \<and>
     (lb = 0 \<or> 20 * lc \<le> 21 * lb)"
  by (rule compare_gates [OF assms])

definition demo_result :: "int \<Rightarrow> int \<Rightarrow> int \<Rightarrow> policy_result" where
  "demo_result recomputed work low = \<lparr>pr_policy_id = ''p'',
     pr_aggregate = \<lparr>mj_counters = StudyMetrics\<lparr>sm_recomputed_blocks := recomputed,
       sm_planner_candidates_inspected := work\<rparr>, mj_hit_rate = Fin 0,
       mj_recomputed_blocks_per_request = Fin 0\<rparr>,
     pr_scenarios = [(''low-reuse-control'', \<lparr>sr_purpose = [],
       sr_metrics = \<lparr>mj_counters = StudyMetrics\<lparr>sm_recomputed_blocks := low\<rparr>, mj_hit_rate = Fin 0,
         mj_recomputed_blocks_per_request = Fin 0\<rparr>, sr_final_state_digest = []\<rparr>)]\<rparr>"

theorem comparison_gates_exact_witness:
  "\<exists>c. compare_results (demo_result 10 0 0) (demo_result 10 4 0) (demo_result 9 6 0) = Inr c \<and>
     cmp_status c"
proof -
  have "int_div 1 10 = Inr (Fin (rnd (of_int 1 / of_int 10)))" by (rule int_div_total) simp_all
  moreover have "int_div 6 4 = Inr (Fin (rnd (of_int 6 / of_int 4)))" by (rule int_div_total) simp_all
  ultimately obtain c where
    c: "compare_results (demo_result 10 0 0) (demo_result 10 4 0) (demo_result 9 6 0) = Inr c"
    by (simp add: compare_results_def demo_result_def Let_def ratio_or_def scenario_recompute_def
        StudyMetrics_def)
  have low: "scenario_recompute (demo_result n m 0) ''low-reuse-control'' = Inr 0" for n m
    by (simp add: scenario_recompute_def demo_result_def)
  have "cmp_status c"
    using comparison_gates_exact [OF c low low] by (simp add: demo_result_def StudyMetrics_def)
  with c show ?thesis by blast
qed

text \<open>
  The recovery check completes and passes for every policy on every scenario that fits its
  capacity.
\<close>

theorem recovery_check_passes:
  assumes "scenario_fits sc" and "scenario_accesses sc \<le> 2 ^ 53"
  shows "\<exists>r. recovery_of pol sc = Inr r \<and> rc_status r \<and> rc_policy_identity_bound r"
  using recovery_total [OF assms, of pol] recovery_passes by (auto simp: is_ok_def)

definition demo_scenario :: scenario where
  "demo_scenario = \<lparr>sc_scenario_id = ''demo'', sc_capacity_blocks = 8,
     sc_requests = map demo_request [''a'', ''b'', ''c''], sc_purpose = []\<rparr>"

lemma demo_fits: "scenario_fits demo_scenario"
  by (simp add: scenario_fits_def demo_scenario_def demo_load)

lemma demo_accesses: "scenario_accesses demo_scenario = 30"
  by (simp add: scenario_accesses_def demo_scenario_def request_accesses_def served_def
      demo_request_def DEFAULT_GROUPS_def)

theorem recovery_check_passes_witness:
  "\<exists>r. recovery_of InvalidUnknownPolicy demo_scenario = Inr r \<and> rc_status r"
  using recovery_check_passes [OF demo_fits, of InvalidUnknownPolicy] by (auto simp: demo_accesses)

text \<open>
  An evaluation of any policy over scenarios that fit returns a result for each of them
  (nothing raises, no ratio overflows).
\<close>

theorem evaluation_returns:
  assumes "list_all scenario_fits scenarios"
    and "sum_list (map scenario_accesses scenarios) \<le> 2 ^ 53"
  shows "\<exists>r. evaluate_policy pol scenarios = Inr r \<and> pr_policy_id r = policy_id pol"
  using evaluate_total [OF assms, of pol]
  by (auto simp: is_ok_def evaluate_policy_def bind_res_eq_Inr)

theorem evaluation_returns_witness:
  "\<exists>r. evaluate_policy SegmentedLRU [demo_scenario] = Inr r \<and>
     pr_policy_id r = ''cacheforge.readable.segmented-lru.v1''"
  using evaluation_returns [of "[demo_scenario]" SegmentedLRU] demo_fits
  by (simp add: demo_accesses SegmentedLRU_def)

text \<open>
  C13: the two mutation policies are rejected at every eviction, so the mutation check of a
  scenario passes exactly if the scenario evicts at all.
\<close>

theorem mutations_always_rejected:
  assumes "pol \<in> {InvalidDuplicatePolicy, InvalidUnknownPolicy}"
    and "CacheSimulator groups capacity pol = Inr sim" and "run_requests sim trace = Inr sim'"
  shows "sm_rejected_proposals (sim_metrics sim') = sm_evictions (sim_metrics sim') \<and>
    sm_fallback_uses (sim_metrics sim') = sm_evictions (sim_metrics sim')"
proof -
  have acc: "accounted sim" using assms(2) by (rule CacheSimulator_accounted)
  have "sim_policy sim = pol" "sm_rejected_proposals (sim_metrics sim) = sm_evictions (sim_metrics sim)"
    using assms(2) by (auto simp: CacheSimulator_def bind_res_eq_Inr StudyMetrics_def split: if_splits)
  with acc assms(1) have "always_rejected sim"
    by (auto simp: always_rejected_def accounted_def Let_def)
  then have "always_rejected sim'" using assms(3) by (rule rejection.run)
  with books.run [OF acc assms(3)] show ?thesis
    by (simp add: always_rejected_def accounted_def Let_def)
qed

theorem mutations_always_rejected_witness:
  "\<exists>sim sim'. CacheSimulator DEFAULT_GROUPS 8 InvalidUnknownPolicy = Inr sim \<and>
     run_requests sim (map demo_request [''a'', ''b'', ''c'']) = Inr sim' \<and>
     sm_rejected_proposals (sim_metrics sim') = sm_evictions (sim_metrics sim')"
proof -
  obtain sim sim' where sim: "CacheSimulator DEFAULT_GROUPS 8 InvalidUnknownPolicy = Inr sim"
    "run_requests sim (map demo_request [''a'', ''b'', ''c'']) = Inr sim'"
    using scenario_run [OF demo_fits, of InvalidUnknownPolicy] by (auto simp: demo_scenario_def)
  from mutations_always_rejected [OF _ sim] sim show ?thesis by blast
qed

text \<open>
  The smoke mode of the study never produces a summary: its only scenario is not the
  low-reuse control that the comparison looks up.
\<close>

theorem smoke_study_fails: "run_study ''smoke'' \<noteq> Inr summary"
proof
  assume "run_study ''smoke'' = Inr summary"
  then obtain scenarios c where smoke: "smoke_scenarios = Inr scenarios"
    and cmp: "compare_candidate GeneratedEvictionPolicy scenarios = Inr c"
    by (auto simp: run_study_def bind_res_eq_Inr)
  from smoke have "sc_scenario_id ` set scenarios = {''shared-prefix-burst''}"
    by (auto simp: smoke_scenarios_def development_scenarios_def bind_res_eq_Inr slice_to_def)
  then have "''low-reuse-control'' \<notin> sc_scenario_id ` set scenarios" by simp
  from compare_needs_control [OF this, of GeneratedEvictionPolicy c] cmp show False by simp
qed

end
