(* ===== verification/PyRandom.thy ===== *)
theory PyRandom
  imports PyFloat Sha256
begin

text \<open>
  \<open>random.Random(seed)\<close> with an integer seed: the Mersenne Twister MT19937 seeded by
  \<open>init_by_array\<close>, and the derived draws \<open>random\<close>, \<open>choice\<close> and \<open>randint\<close> as CPython makes
  them.  The draws are written over any source of 32-bit words \<open>next\<close>; \<open>mt_next\<close> is the real one.

  \<open>_randbelow\<close> draws again while the word is too large.  On a source that never gives a small
  word it runs forever: it is a \<open>partial_function\<close> and \<open>None\<close> is the run that does not end.
\<close>

section \<open>Draws\<close>

partial_function (option) randbelow ::
  "('g \<Rightarrow> w32 \<times> 'g) \<Rightarrow> int \<Rightarrow> 'g \<Rightarrow> (int \<times> 'g) option" where
  "randbelow next n g =
     (let (w, g') = next g; r = uint (drop_bit (32 - nat (bitlen n)) w) in
      if r < n then Some (r, g') else randbelow next n g')"

declare randbelow.simps [code]

text \<open>\<open>rng.randint(a, b)\<close>, \<open>rng.choice(xs)\<close> and \<open>rng.random()\<close>.\<close>

definition randint :: "('g \<Rightarrow> w32 \<times> 'g) \<Rightarrow> int \<Rightarrow> int \<Rightarrow> 'g \<Rightarrow> (int \<times> 'g) option" where
  "randint next a b g = map_option (\<lambda>(r, g'). (a + r, g')) (randbelow next (b - a + 1) g)"

definition choice :: "('g \<Rightarrow> w32 \<times> 'g) \<Rightarrow> 'a list \<Rightarrow> 'g \<Rightarrow> ('a \<times> 'g) option" where
  "choice next xs g = map_option (\<lambda>(r, g'). (xs ! nat r, g')) (randbelow next (int (length xs)) g)"

definition random_float :: "('g \<Rightarrow> w32 \<times> 'g) \<Rightarrow> 'g \<Rightarrow> pyfloat \<times> 'g" where
  "random_float next g =
     (let (a, g1) = next g; (b, g2) = next g1;
          n = uint (drop_bit 5 a) * 67108864 + uint (drop_bit 6 b)
      in (fl (of_int n / 9007199254740992), g2))"

lemma randbelow_range:
  assumes "randbelow next n g = Some (r, g')"
  shows "0 \<le> r \<and> r < n"
proof -
  have "0 \<le> fst y \<and> fst y < n" if "randbelow next n g = Some y" for y
  proof (rule randbelow.raw_induct [of "\<lambda>next n g y. 0 \<le> fst y \<and> fst y < n", OF _ that], goal_cases)
    case (1 self draw m h z)
    then show ?case by (auto simp: Let_def split: prod.splits if_splits)
  qed
  from this [OF assms] show ?thesis by simp
qed

lemma randint_range: "randint next a b g = Some (r, g') \<Longrightarrow> a \<le> r \<and> r \<le> b"
  by (auto simp: randint_def dest!: randbelow_range)

lemma choice_in: "choice next xs g = Some (x, g') \<Longrightarrow> x \<in> set xs"
  by (auto simp: choice_def dest!: randbelow_range)

section \<open>The Mersenne Twister\<close>

record mt_state =
  mt_words :: "w32 list"
  mt_index :: nat

fun mt_init_words :: "nat \<Rightarrow> w32 \<Rightarrow> w32 list \<Rightarrow> w32 list" where
  "mt_init_words 0 i ws = rev ws"
| "mt_init_words (Suc n) i ws =
     (let w = hd ws in mt_init_words n (i + 1) ((1812433253 * (w XOR drop_bit 30 w) + i) # ws))"

definition mt_init_genrand :: "w32 \<Rightarrow> w32 list" where
  "mt_init_genrand s = mt_init_words 623 1 [s]"

text \<open>\<open>init_by_array\<close>: two sweeps over the state, starting at index 1 and wrapping to 1.\<close>

definition mt_wrap :: "nat \<times> w32 list \<Rightarrow> nat \<times> w32 list" where
  "mt_wrap s = (if 624 \<le> fst s then (1, (snd s)[0 := snd s ! 623]) else s)"

fun mt_mix_key :: "w32 list \<Rightarrow> nat \<Rightarrow> nat \<Rightarrow> nat \<times> w32 list \<Rightarrow> nat \<times> w32 list" where
  "mt_mix_key key 0 j s = s"
| "mt_mix_key key (Suc n) j (i, ws) =
     (let p = ws ! (i - 1);
          w = (ws ! i XOR ((p XOR drop_bit 30 p) * 1664525)) + key ! j + word_of_nat j
      in mt_mix_key key n (if length key \<le> Suc j then 0 else Suc j) (mt_wrap (Suc i, ws[i := w])))"

fun mt_mix :: "nat \<Rightarrow> nat \<times> w32 list \<Rightarrow> nat \<times> w32 list" where
  "mt_mix 0 s = s"
| "mt_mix (Suc n) (i, ws) =
     (let p = ws ! (i - 1);
          w = (ws ! i XOR ((p XOR drop_bit 30 p) * 1566083941)) - word_of_nat i
      in mt_mix n (mt_wrap (Suc i, ws[i := w])))"

definition mt_init_by_array :: "w32 list \<Rightarrow> w32 list" where
  "mt_init_by_array key =
     (let s1 = mt_mix_key key (max 624 (length key)) 0 (1, mt_init_genrand 19650218);
          s2 = mt_mix 623 s1
      in (snd s2)[0 := 2147483648])"

text \<open>The seed in 32-bit digits, least significant first; zero has one digit.\<close>

function seed_key :: "int \<Rightarrow> w32 list" where
  "seed_key n = (if n < 4294967296 then [word_of_int n]
                 else word_of_int (n mod 4294967296) # seed_key (n div 4294967296))"
  by pat_completeness auto
termination
  by (relation "measure nat") auto

declare seed_key.simps [simp del]

definition Random :: "int \<Rightarrow> mt_state" where
  "Random seed = \<lparr>mt_words = mt_init_by_array (seed_key \<bar>seed\<bar>), mt_index = 624\<rparr>"

definition mt_twist_word :: "w32 \<Rightarrow> w32 \<Rightarrow> w32 \<Rightarrow> w32" where
  "mt_twist_word hi lo m =
     (let y = (hi AND 2147483648) OR (lo AND 2147483647)
      in m XOR drop_bit 1 y XOR (if bit y 0 then 2567483615 else 0))"

fun mt_twist_from :: "nat \<Rightarrow> nat \<Rightarrow> w32 list \<Rightarrow> w32 list" where
  "mt_twist_from 0 k ws = ws"
| "mt_twist_from (Suc n) k ws =
     mt_twist_from n (Suc k)
       (ws[k := mt_twist_word (ws ! k) (ws ! (Suc k mod 624)) (ws ! ((k + 397) mod 624))])"

definition mt_temper :: "w32 \<Rightarrow> w32" where
  "mt_temper y0 =
     (let y1 = y0 XOR drop_bit 11 y0;
          y2 = y1 XOR (push_bit 7 y1 AND 2636928640);
          y3 = y2 XOR (push_bit 15 y2 AND 4022730752)
      in y3 XOR drop_bit 18 y3)"

definition mt_next :: "mt_state \<Rightarrow> w32 \<times> mt_state" where
  "mt_next g =
     (let g1 = (if 624 \<le> mt_index g
                then \<lparr>mt_words = mt_twist_from 624 0 (mt_words g), mt_index = 0\<rparr> else g)
      in (mt_temper (mt_words g1 ! mt_index g1), g1\<lparr>mt_index := Suc (mt_index g1)\<rparr>))"

end
