(* ===== verification/CacheEpoch2.thy ===== *)
theory CacheEpoch2
  imports CacheStudyProofs PyRandom
begin

text \<open>
  \<^verbatim>\<open>cacheforge/epoch2.py\<close>: the seeded scenarios of epoch 2 and the summary of a candidate against
  the stronger of two baselines, with its gates.

  The generator is written over a source of random words, of which \<open>mt_next\<close> on \<open>Random seed\<close> is
  the program's; its result is \<open>None\<close> if a draw never ends.
\<close>

definition CAPACITY_SWEEP :: "int list" where
  "CAPACITY_SWEEP = [16, 24, 32, 48]"

definition DEVELOPMENT_SEEDS :: "int list" where
  "DEVELOPMENT_SEEDS = py_range 1000 1016 1"

definition REQUESTS_PER_SCENARIO :: int where
  "REQUESTS_PER_SCENARIO = 48"

definition AGGREGATE_RATIO_MAX :: pyfloat where
  "AGGREGATE_RATIO_MAX = fl (98 / 100)"

definition MEDIAN_RATIO_MAX :: pyfloat where
  "MEDIAN_RATIO_MAX = fl (98 / 100)"

definition P95_RATIO_MAX :: pyfloat where
  "P95_RATIO_MAX = fl (105 / 100)"

definition WORST_RATIO_MAX :: pyfloat where
  "WORST_RATIO_MAX = fl (106 / 100)"

definition IMPROVED_SCENARIO_FRACTION_MIN :: pyfloat where
  "IMPROVED_SCENARIO_FRACTION_MIN = fl (75 / 100)"

section \<open>Seeded scenarios\<close>

definition tenants :: "string list" where
  "tenants = map (\<lambda>index. ''tenant-'' @ int_str index) (py_range 0 4 1)"

definition system_pool :: "string list" where
  "system_pool = [''assistant'', ''coding'', ''research'', ''analysis'']"

definition draw_system ::
  "('g \<Rightarrow> w32 \<times> 'g) \<Rightarrow> int \<Rightarrow> string list \<Rightarrow> int \<Rightarrow> 'g \<Rightarrow> (string \<times> 'g) option" where
  "draw_system next seed hot_systems index g =
     (let (u, g') = random_float next g in
      if u < fl (70 / 100) then choice next hot_systems g'
      else Some (''cold-'' @ int_str seed @ ''-'' @ int_str (index div 4), g'))"

definition draw_cancel :: "('g \<Rightarrow> w32 \<times> 'g) \<Rightarrow> int \<Rightarrow> 'g \<Rightarrow> int option \<times> 'g" where
  "draw_cancel next generated_blocks g =
     (if 1 < generated_blocks
      then let (v, g') = random_float next g in (if v < fl (12 / 100) then Some 1 else None, g')
      else (None, g))"

text \<open>The draws of one request, in the order of the source.\<close>

definition generate_request ::
  "('g \<Rightarrow> w32 \<times> 'g) \<Rightarrow> int \<Rightarrow> string list \<Rightarrow> int \<Rightarrow> 'g \<Rightarrow> (request_trace res \<times> 'g) option" where
  "generate_request next seed hot_systems index g0 =
     Option.bind (choice next tenants g0) (\<lambda>(tenant, g1).
     Option.bind (draw_system next seed hot_systems index g1) (\<lambda>(system, g2).
     Option.bind (randint next 1 6 g2) (\<lambda>(generated_blocks, g3).
     let (cancel_after, g4) = draw_cancel next generated_blocks g3 in
     Some (RequestTrace (''seed-'' @ int_str seed @ ''-request-'' @ int_str index)
             [''sys:'' @ system @ '':0'', ''sys:'' @ system @ '':1'', ''sys:'' @ system @ '':2'',
              ''user:'' @ tenant @ '':'' @ int_str (index mod 6) @ '':0'',
              ''user:'' @ tenant @ '':'' @ int_str (index mod 6) @ '':1'']
             generated_blocks 1 cancel_after, g4))))"

fun generate_requests ::
  "('g \<Rightarrow> w32 \<times> 'g) \<Rightarrow> int \<Rightarrow> string list \<Rightarrow> int list \<Rightarrow> 'g \<Rightarrow> request_trace list res option" where
  "generate_requests next seed hot_systems [] g = Some (Inr [])"
| "generate_requests next seed hot_systems (index # indices) g =
     Option.bind (generate_request next seed hot_systems index g) (\<lambda>(request, g').
       case request of
         Inl e \<Rightarrow> Some (Inl e)
       | Inr r \<Rightarrow> map_option (map_sum id ((#) r))
           (generate_requests next seed hot_systems indices g'))"

definition generate_epoch2_scenario ::
  "('g \<Rightarrow> w32 \<times> 'g) \<Rightarrow> (int \<Rightarrow> 'g) \<Rightarrow> int \<Rightarrow> int \<Rightarrow> scenario res option" where
  "generate_epoch2_scenario next new_rng seed capacity_blocks =
     (if seed < 0 then Some (Inl (ValueError ''seed must be non-negative''))
      else if capacity_blocks \<notin> set CAPACITY_SWEEP then
        Some (Inl (ValueError (''unsupported epoch-2 capacity: '' @ int_str capacity_blocks)))
      else
        let hot_systems = slice_to system_pool (1 + seed mod int (length system_pool)) in
        map_option (map_sum id (\<lambda>requests.
            \<lparr>sc_scenario_id = ''seeded-'' @ int_str seed @ ''-capacity-'' @ int_str capacity_blocks,
             sc_capacity_blocks = capacity_blocks, sc_requests = requests,
             sc_purpose = ''paired seeded prefix-reuse, cancellation, and request-length stress''\<rparr>))
          (generate_requests next seed hot_systems (py_range 0 REQUESTS_PER_SCENARIO 1)
             (new_rng seed)))"

text \<open>A list of computations that may raise or never end, in order.\<close>

fun collect :: "'a res option list \<Rightarrow> 'a list res option" where
  "collect [] = Some (Inr [])"
| "collect (m # ms) =
     (case m of None \<Rightarrow> None | Some (Inl e) \<Rightarrow> Some (Inl e)
      | Some (Inr x) \<Rightarrow> map_option (map_sum id ((#) x)) (collect ms))"

definition epoch2_scenarios :: "scenario list res option" where
  "epoch2_scenarios = collect (concat (map (\<lambda>seed. map (\<lambda>capacity.
     generate_epoch2_scenario mt_next Random seed capacity) CAPACITY_SWEEP) DEVELOPMENT_SEEDS))"

section \<open>Helpers of the summary\<close>

definition nearest_rank :: "pyfloat list \<Rightarrow> pyfloat \<Rightarrow> pyfloat res" where
  "nearest_rank xs percentile =
     (if xs = [] then Inr (Fin 1)
      else bind_res (ceil_float (percentile * Fin (of_nat (length xs)))) (\<lambda>k.
        list_at (sort_floats xs) (max 0 (k - 1))))"

definition metric :: "(study_metrics \<Rightarrow> int) \<Rightarrow> policy_result \<Rightarrow> string \<Rightarrow> int res" where
  "metric f r scenario_id =
     bind_res (dict_at scenario_id (pr_scenarios r) scenario_id) (\<lambda>sr.
       Inr (f (mj_counters (sr_metrics sr))))"

definition scenario_seed :: "string \<Rightarrow> int option" where
  "scenario_seed scenario_id =
     (case split_on (CHR ''-'') scenario_id of
        [p0, p1, p2, p3] \<Rightarrow>
          if p0 \<noteq> ''seeded'' \<or> p2 \<noteq> ''capacity'' then None
          else (case parse_int p1 of Inr n \<Rightarrow> Some n | Inl _ \<Rightarrow> None)
      | _ \<Rightarrow> None)"

datatype relation = IMPROVED | TIED | REGRESSED

fun relation_text :: "relation \<Rightarrow> string" where
  "relation_text IMPROVED = ''IMPROVED''"
| "relation_text TIED = ''TIED''"
| "relation_text REGRESSED = ''REGRESSED''"

text \<open>A bucket; \<open>recompute\<close> holds the four recomputation sums, which the totals use too.\<close>

record recompute =
  lru_recomputed :: int
  segmented_recomputed :: int
  candidate_recomputed :: int
  strongest_recomputed :: int

record bucket =
  bk_scenario_count :: int
  bk_recomputed :: recompute
  bk_ratios :: "pyfloat list"
  bk_improved :: int
  bk_tied :: int
  bk_regressed :: int

definition no_recompute :: recompute where
  "no_recompute = \<lparr>lru_recomputed = 0, segmented_recomputed = 0, candidate_recomputed = 0,
     strongest_recomputed = 0\<rparr>"

definition add_recompute :: "recompute \<Rightarrow> recompute \<Rightarrow> recompute" where
  "add_recompute a b =
     \<lparr>lru_recomputed = lru_recomputed a + lru_recomputed b,
      segmented_recomputed = segmented_recomputed a + segmented_recomputed b,
      candidate_recomputed = candidate_recomputed a + candidate_recomputed b,
      strongest_recomputed = strongest_recomputed a + strongest_recomputed b\<rparr>"

definition new_bucket :: bucket where
  "new_bucket = \<lparr>bk_scenario_count = 0, bk_recomputed = no_recompute, bk_ratios = [],
     bk_improved = 0, bk_tied = 0, bk_regressed = 0\<rparr>"

definition add_to_bucket :: "recompute \<Rightarrow> pyfloat \<Rightarrow> relation \<Rightarrow> bucket \<Rightarrow> bucket" where
  "add_to_bucket values ratio rel b =
     \<lparr>bk_scenario_count = bk_scenario_count b + 1,
      bk_recomputed = add_recompute (bk_recomputed b) values,
      bk_ratios = bk_ratios b @ [ratio],
      bk_improved = bk_improved b + (if rel = IMPROVED then 1 else 0),
      bk_tied = bk_tied b + (if rel = TIED then 1 else 0),
      bk_regressed = bk_regressed b + (if rel = REGRESSED then 1 else 0)\<rparr>"

text \<open>\<open>_add_to_bucket(d.setdefault(key, _new_bucket()), ..)\<close>\<close>

definition bump :: "'k \<Rightarrow> recompute \<Rightarrow> pyfloat \<Rightarrow> relation \<Rightarrow> ('k, bucket) dict \<Rightarrow> ('k, bucket) dict" where
  "bump k values ratio rel d =
     dict_set k (add_to_bucket values ratio rel
       (case dict_get d k of None \<Rightarrow> new_bucket | Some b \<Rightarrow> b)) d"

record bucket_summary =
  bs_scenario_count :: int
  bs_recomputed :: recompute
  bs_improved :: int
  bs_tied :: int
  bs_regressed :: int
  bs_ratio :: pyfloat
  bs_median_ratio :: pyfloat
  bs_aggregate_non_regressive :: bool

definition finalize_bucket :: "bucket \<Rightarrow> bucket_summary res" where
  "finalize_bucket b =
     bind_res (ratio_or (Fin 1) (candidate_recomputed (bk_recomputed b))
                 (strongest_recomputed (bk_recomputed b))) (\<lambda>ratio.
     bind_res (if bk_ratios b \<noteq> [] then bind_res (median (bk_ratios b)) (\<lambda>m. Inr (round_digits 6 m))
               else Inr (Fin 1)) (\<lambda>median_ratio.
       Inr \<lparr>bs_scenario_count = bk_scenario_count b, bs_recomputed = bk_recomputed b,
            bs_improved = bk_improved b, bs_tied = bk_tied b, bs_regressed = bk_regressed b,
            bs_ratio = round_digits 6 ratio, bs_median_ratio = median_ratio,
            bs_aggregate_non_regressive = ratio \<le> Fin 1\<rparr>))"

text \<open>\<open>{str(key): _finalize_bucket(bucket) for key, bucket in sorted(d.items())}\<close>\<close>

definition finalize_buckets :: "(int, bucket) dict \<Rightarrow> (string, bucket_summary) dict res" where
  "finalize_buckets d =
     map_res (\<lambda>(k, b). bind_res (finalize_bucket b) (\<lambda>s. Inr (int_str k, s))) (sort_key fst d)"

section \<open>The summary\<close>

text \<open>What one scenario contributes: the body of the loop up to \<open>observations[..]\<close>.\<close>

definition compare_scenario ::
  "policy_result \<Rightarrow> policy_result \<Rightarrow> policy_result \<Rightarrow> string \<Rightarrow> (recompute \<times> pyfloat \<times> relation) res" where
  "compare_scenario lru segmented candidate scenario_id =
     bind_res (metric sm_recomputed_blocks lru scenario_id) (\<lambda>l.
     bind_res (metric sm_recomputed_blocks segmented scenario_id) (\<lambda>s.
     bind_res (metric sm_recomputed_blocks candidate scenario_id) (\<lambda>c.
     let strongest = min l s in
     bind_res (ratio_or (Fin 1) c strongest) (\<lambda>ratio.
       Inr (\<lparr>lru_recomputed = l, segmented_recomputed = s, candidate_recomputed = c,
             strongest_recomputed = strongest\<rparr>, ratio,
            if c < strongest then IMPROVED else if c = strongest then TIED else REGRESSED)))))"

definition opt_int :: "int option \<Rightarrow> json" where
  "opt_int v = (case v of None \<Rightarrow> JNull | Some n \<Rightarrow> JInt n)"

definition hot_prefix_families :: "int option \<Rightarrow> int option" where
  "hot_prefix_families seed = map_option (\<lambda>n. 1 + n mod 4) seed"

definition final_digest :: "policy_result \<Rightarrow> string \<Rightarrow> string res" where
  "final_digest r scenario_id =
     bind_res (dict_at scenario_id (pr_scenarios r) scenario_id) (\<lambda>sr. Inr (sr_final_state_digest sr))"

definition observation ::
  "policy_result \<Rightarrow> policy_result \<Rightarrow> policy_result \<Rightarrow> scenario \<Rightarrow> recompute \<Rightarrow> pyfloat \<Rightarrow> relation \<Rightarrow> json res" where
  "observation lru segmented candidate sc v ratio rel =
     (let scenario_id = sc_scenario_id sc; seed = scenario_seed scenario_id in
      bind_res (final_digest lru scenario_id) (\<lambda>d1.
      bind_res (final_digest segmented scenario_id) (\<lambda>d2.
      bind_res (final_digest candidate scenario_id) (\<lambda>d3.
        Inr (JObj
          [(''seed'', opt_int seed),
           (''hot_prefix_families'', opt_int (hot_prefix_families seed)),
           (''capacity_blocks'', JInt (sc_capacity_blocks sc)),
           (''request_count'', JInt (int (length (sc_requests sc)))),
           (''configured_cancellation_count'', JInt (int (length
              (filter (\<lambda>request. rt_cancel_after_generated request \<noteq> None) (sc_requests sc))))),
           (''lru_recomputed_blocks'', JInt (lru_recomputed v)),
           (''segmented_lru_recomputed_blocks'', JInt (segmented_recomputed v)),
           (''candidate_recomputed_blocks'', JInt (candidate_recomputed v)),
           (''strongest_baseline_id'', JStr (if lru_recomputed v \<le> segmented_recomputed v
              then pr_policy_id lru else pr_policy_id segmented)),
           (''strongest_baseline_recomputed_blocks'', JInt (strongest_recomputed v)),
           (''candidate_to_strongest_baseline_ratio'', JFloat (round_digits 6 ratio)),
           (''relation_to_strongest_baseline'', JStr (relation_text rel)),
           (''lru_final_state_digest'', JStr d1),
           (''segmented_lru_final_state_digest'', JStr d2),
           (''candidate_final_state_digest'', JStr d3)])))))"

text \<open>The variables of the loop.\<close>

record tally =
  ta_observations :: "(string, json) dict"
  ta_all :: bucket
  ta_by_capacity :: "(int, bucket) dict"
  ta_by_seed :: "(int, bucket) dict"
  ta_by_hot_prefix :: "(int, bucket) dict"
  ta_high_capacity :: "(int, bucket) dict"

text \<open>\<open>ta_all\<close> is \<open>totals\<close>, \<open>ratios\<close> and the three counters \<open>improved\<close>, \<open>tied\<close>, \<open>regressed\<close>.\<close>

definition empty_tally :: tally where
  "empty_tally = \<lparr>ta_observations = [], ta_all = new_bucket, ta_by_capacity = [], ta_by_seed = [],
     ta_by_hot_prefix = [], ta_high_capacity = []\<rparr>"

definition tally_scenario ::
  "policy_result \<Rightarrow> policy_result \<Rightarrow> policy_result \<Rightarrow> tally \<Rightarrow> scenario \<Rightarrow> tally res" where
  "tally_scenario lru segmented candidate t sc =
     bind_res (compare_scenario lru segmented candidate (sc_scenario_id sc)) (\<lambda>(v, ratio, rel).
     bind_res (observation lru segmented candidate sc v ratio rel) (\<lambda>obs.
     let capacity = sc_capacity_blocks sc;
         t1 = t\<lparr>ta_observations := dict_set (sc_scenario_id sc) obs (ta_observations t),
                ta_all := add_to_bucket v ratio rel (ta_all t),
                ta_by_capacity := bump capacity v ratio rel (ta_by_capacity t)\<rparr>
     in Inr (case scenario_seed (sc_scenario_id sc) of
          None \<Rightarrow> t1
        | Some seed \<Rightarrow>
            let families = 1 + seed mod 4;
                t2 = t1\<lparr>ta_by_seed := bump seed v ratio rel (ta_by_seed t1),
                        ta_by_hot_prefix := bump families v ratio rel (ta_by_hot_prefix t1)\<rparr>
            in if capacity = max_default 0 CAPACITY_SWEEP
               then t2\<lparr>ta_high_capacity := bump families v ratio rel (ta_high_capacity t2)\<rparr>
               else t2)))"

record epoch2_aggregate =
  ag_totals :: recompute
  ag_ratio :: pyfloat
  ag_mean_ratio :: pyfloat
  ag_median_ratio :: pyfloat
  ag_p95_ratio :: pyfloat
  ag_worst_ratio :: pyfloat
  ag_improved :: int
  ag_tied :: int
  ag_regressed :: int
  ag_improved_fraction :: pyfloat
  ag_fallback_uses :: int
  ag_rejected_proposals :: int

record seed_clusters =
  sl_independent_seed_count :: int
  sl_favorable_seed_aggregates :: int
  sl_all_capacities_improved_seeds :: int
  sl_seeds_with_any_regression :: int
  sl_maximum_regressed_capacities :: int

record epoch2_summary =
  es_status :: bool
  es_gates :: "(string, bool) dict"
  es_aggregate :: epoch2_aggregate
  es_by_capacity :: "(string, bucket_summary) dict"
  es_by_seed :: "(string, bucket_summary) dict"
  es_seed_clusters :: seed_clusters
  es_by_hot_prefix :: "(string, bucket_summary) dict"
  es_high_capacity :: "(string, bucket_summary) dict"
  es_observations :: "(string, json) dict"
  es_observation_digest :: string

definition cluster_seeds :: "(string, bucket_summary) dict \<Rightarrow> seed_clusters" where
  "cluster_seeds seeds =
     (let summaries = dict_values seeds;
          count = (\<lambda>P. int (length (filter P summaries))) in
      \<lparr>sl_independent_seed_count = int (length seeds),
       sl_favorable_seed_aggregates = count bs_aggregate_non_regressive,
       sl_all_capacities_improved_seeds =
         count (\<lambda>b. bs_improved b = int (length CAPACITY_SWEEP)),
       sl_seeds_with_any_regression = count (\<lambda>b. 0 < bs_regressed b),
       sl_maximum_regressed_capacities = max_default 0 (map bs_regressed summaries)\<rparr>)"

definition epoch2_gates ::
  "pyfloat \<Rightarrow> pyfloat \<Rightarrow> pyfloat \<Rightarrow> pyfloat \<Rightarrow> pyfloat \<Rightarrow> bool \<Rightarrow> policy_result \<Rightarrow> (string, bool) dict" where
  "epoch2_gates aggregate_ratio median_ratio p95_ratio worst_ratio improved_fraction capacities_ok
     candidate =
     [(''aggregate_ratio_at_most_0_98'', aggregate_ratio \<le> AGGREGATE_RATIO_MAX),
      (''median_ratio_at_most_0_98'', median_ratio \<le> MEDIAN_RATIO_MAX),
      (''p95_ratio_at_most_1_05'', p95_ratio \<le> P95_RATIO_MAX),
      (''worst_ratio_at_most_1_06'', worst_ratio \<le> WORST_RATIO_MAX),
      (''improved_scenario_fraction_at_least_0_75'',
         IMPROVED_SCENARIO_FRACTION_MIN \<le> improved_fraction),
      (''all_capacity_aggregates_non_regressive'', capacities_ok),
      (''candidate_used_no_fallback'', aggregate_of sm_fallback_uses candidate = 0),
      (''candidate_proposals_all_valid'', aggregate_of sm_rejected_proposals candidate = 0)]"

definition summarize_policy_results ::
  "scenario list \<Rightarrow> policy_result \<Rightarrow> policy_result \<Rightarrow> policy_result \<Rightarrow> epoch2_summary res" where
  "summarize_policy_results scenarios lru segmented candidate =
     bind_res (fold_res (tally_scenario lru segmented candidate) empty_tally scenarios) (\<lambda>t.
     let totals = bk_recomputed (ta_all t); ratios = bk_ratios (ta_all t);
         scenario_count = int (length scenarios); improved = bk_improved (ta_all t) in
     bind_res (ratio_or (Fin 1) (candidate_recomputed totals) (strongest_recomputed totals)) (\<lambda>aggregate_ratio.
     bind_res (ratio_or (Fin 0) improved scenario_count) (\<lambda>improved_fraction.
     bind_res (finalize_buckets (ta_by_capacity t)) (\<lambda>by_capacity.
     let capacities_ok = list_all bs_aggregate_non_regressive (dict_values by_capacity) in
     bind_res (finalize_buckets (ta_by_seed t)) (\<lambda>by_seed.
     bind_res (finalize_buckets (ta_by_hot_prefix t)) (\<lambda>by_hot_prefix.
     bind_res (finalize_buckets (ta_high_capacity t)) (\<lambda>high_capacity.
     bind_res (if ratios \<noteq> [] then mean ratios else Inr (Fin 1)) (\<lambda>mean_ratio.
     bind_res (if ratios \<noteq> [] then median ratios else Inr (Fin 1)) (\<lambda>median_ratio.
     bind_res (nearest_rank ratios (fl (95 / 100))) (\<lambda>p95_ratio.
     let worst_ratio = max_default (Fin 1) ratios;
         gates = epoch2_gates aggregate_ratio median_ratio p95_ratio worst_ratio improved_fraction
                   capacities_ok candidate
     in Inr \<lparr>es_status = all_gates gates, es_gates = gates,
          es_aggregate =
            \<lparr>ag_totals = totals, ag_ratio = round_digits 6 aggregate_ratio,
             ag_mean_ratio = round_digits 6 mean_ratio, ag_median_ratio = round_digits 6 median_ratio,
             ag_p95_ratio = round_digits 6 p95_ratio, ag_worst_ratio = round_digits 6 worst_ratio,
             ag_improved = improved, ag_tied = bk_tied (ta_all t),
             ag_regressed = bk_regressed (ta_all t),
             ag_improved_fraction = round_digits 6 improved_fraction,
             ag_fallback_uses = aggregate_of sm_fallback_uses candidate,
             ag_rejected_proposals = aggregate_of sm_rejected_proposals candidate\<rparr>,
          es_by_capacity = by_capacity, es_by_seed = by_seed,
          es_seed_clusters = cluster_seeds by_seed,
          es_by_hot_prefix = by_hot_prefix, es_high_capacity = high_capacity,
          es_observations = ta_observations t,
          es_observation_digest =
            ''sha256:'' @ sha256 (json_dumps (JObj (ta_observations t)))\<rparr>))))))))))"

section \<open>The epoch-2 evaluation\<close>

record epoch2_report =
  er_formal_mncs_status :: string
  er_formal_mncds_status :: string
  er_disposition :: string
  er_promotion_authorized :: bool
  er_candidate_id :: string
  er_baseline_ids :: "string list"
  er_scenario_count :: int
  er_total_requests :: int
  er_summary :: epoch2_summary

text \<open>The outer option is the generation of the scenarios, which could fail to end.\<close>

definition evaluate_epoch2 :: "policy \<Rightarrow> epoch2_report res option" where
  "evaluate_epoch2 candidate_policy =
     map_option (\<lambda>generated. bind_res generated (\<lambda>scenarios.
       bind_res (evaluate_policy ReferenceLRU scenarios) (\<lambda>lru.
       bind_res (evaluate_policy SegmentedLRU scenarios) (\<lambda>segmented.
       bind_res (evaluate_policy candidate_policy scenarios) (\<lambda>candidate.
       bind_res (summarize_policy_results scenarios lru segmented candidate) (\<lambda>summary.
         Inr \<lparr>er_formal_mncs_status = ''UNKNOWN'', er_formal_mncds_status = ''UNKNOWN'',
              er_disposition = ''REVIEW_REQUIRED'', er_promotion_authorized = False,
              er_candidate_id = pr_policy_id candidate,
              er_baseline_ids = [pr_policy_id lru, pr_policy_id segmented],
              er_scenario_count = int (length scenarios),
              er_total_requests = int (length scenarios) * REQUESTS_PER_SCENARIO,
              er_summary = summary\<rparr>)))))) epoch2_scenarios"

end
