(* ===== verification/CacheEpoch2Proofs.thy ===== *)
theory CacheEpoch2Proofs
  imports CacheEpoch2
begin

text \<open>
  Epoch 2: the generated scenarios always fit their capacity, so no evaluation of them can raise;
  the buckets of the summary are the scenarios grouped by key; a passing summary bounds every
  scenario and every capacity class exactly.
\<close>

section \<open>The generated scenarios\<close>

definition request_shape :: "request_trace \<Rightarrow> bool" where
  "request_shape r \<longleftrightarrow> length (rt_prompt_blocks r) = 5 \<and>
     1 \<le> rt_generated_blocks r \<and> rt_generated_blocks r \<le> 6"

lemma generate_request_shape:
  assumes "generate_request next seed hot_systems index g = Some (request, g')"
  shows "\<exists>r. request = Inr r \<and> request_shape r \<and>
    rt_request_id r = ''seed-'' @ int_str seed @ ''-request-'' @ int_str index"
proof -
  obtain tenant g1 where c: "choice next tenants g = Some (tenant, g1)"
    using assms by (cases "choice next tenants g") (auto simp: generate_request_def)
  obtain system g2 where s: "draw_system next seed hot_systems index g1 = Some (system, g2)"
    using assms c by (cases "draw_system next seed hot_systems index g1") (auto simp: generate_request_def)
  obtain n g3 where n: "randint next 1 6 g2 = Some (n, g3)"
    using assms c s by (cases "randint next 1 6 g2") (auto simp: generate_request_def)
  obtain cancel g4 where cancel: "draw_cancel next n g3 = (cancel, g4)" by fastforce
  have request: "request = RequestTrace (''seed-'' @ int_str seed @ ''-request-'' @ int_str index)
      [''sys:'' @ system @ '':0'', ''sys:'' @ system @ '':1'', ''sys:'' @ system @ '':2'',
       ''user:'' @ tenant @ '':'' @ int_str (index mod 6) @ '':0'',
       ''user:'' @ tenant @ '':'' @ int_str (index mod 6) @ '':1''] n 1 cancel"
    using assms by (simp add: generate_request_def c s n cancel)
  have "cancel = None \<or> cancel = Some 1 \<and> 1 < n"
    using cancel by (auto simp: draw_cancel_def split: if_splits prod.splits)
  with request randint_range [OF n] show ?thesis by (auto simp: RequestTrace_def request_shape_def)
qed

lemma generate_requests_shape:
  assumes "generate_requests next seed hot_systems indices g = Some result"
  shows "\<exists>rs. result = Inr rs \<and> list_all request_shape rs \<and>
    map rt_request_id rs = map (\<lambda>i. ''seed-'' @ int_str seed @ ''-request-'' @ int_str i) indices"
  using assms
proof (induction indices arbitrary: g result)
  case Nil
  then show ?case by simp
next
  case (Cons index indices)
  from Cons.prems obtain request g' where
    step: "generate_request next seed hot_systems index g = Some (request, g')"
    by (auto simp: bind_eq_Some_conv)
  from generate_request_shape [OF step] obtain r where r: "request = Inr r" "request_shape r"
    "rt_request_id r = ''seed-'' @ int_str seed @ ''-request-'' @ int_str index" by blast
  with Cons.prems step obtain rest where
    rest: "generate_requests next seed hot_systems indices g' = Some rest"
    and result: "result = map_sum id ((#) r) rest"
    by auto
  from Cons.IH [OF rest] r result show ?case by auto
qed

lemma generated_scenario:
  assumes "0 \<le> seed" and "capacity \<in> set CAPACITY_SWEEP"
    and "generate_epoch2_scenario next new_rng seed capacity = Some result"
  shows "\<exists>sc. result = Inr sc \<and> sc_capacity_blocks sc = capacity \<and>
    length (sc_requests sc) = 48 \<and> distinct (map rt_request_id (sc_requests sc)) \<and>
    list_all request_shape (sc_requests sc) \<and>
    sc_scenario_id sc = ''seeded-'' @ int_str seed @ ''-capacity-'' @ int_str capacity"
proof -
  from assms obtain hot result' where
    gen: "generate_requests next seed hot (py_range 0 REQUESTS_PER_SCENARIO 1) (new_rng seed) = Some result'"
    and result: "result = map_sum id (\<lambda>requests.
        \<lparr>sc_scenario_id = ''seeded-'' @ int_str seed @ ''-capacity-'' @ int_str capacity,
         sc_capacity_blocks = capacity, sc_requests = requests,
         sc_purpose = ''paired seeded prefix-reuse, cancellation, and request-length stress''\<rparr>) result'"
    by (auto simp: generate_epoch2_scenario_def Let_def)
  from generate_requests_shape [OF gen] obtain rs where rs: "result' = Inr rs"
    "list_all request_shape rs"
    "map rt_request_id rs = map (\<lambda>i. ''seed-'' @ int_str seed @ ''-request-'' @ int_str i)
       (py_range 0 REQUESTS_PER_SCENARIO 1)" by blast
  have "length rs = 48"
    using arg_cong [OF rs(3), of length] by (simp add: py_range_def REQUESTS_PER_SCENARIO_def)
  moreover have "distinct (map rt_request_id rs)"
    unfolding rs(3) by (auto simp: py_range_def distinct_map inj_on_def)
  ultimately show ?thesis using rs result by simp
qed

lemma shape_load:
  assumes "request_shape r"
  shows "request_load DEFAULT_GROUPS r \<le> 13" and "request_accesses DEFAULT_GROUPS r \<le> 22"
  using assms
  by (auto simp: request_shape_def request_load_def full_groups_def sliding_groups_def window_total_def
      window_limit_def DEFAULT_GROUPS_def request_accesses_def served_def split: option.splits)

lemma shaped_scenario_fits:
  assumes "list_all request_shape (sc_requests sc)" and "16 \<le> sc_capacity_blocks sc"
  shows "scenario_fits sc"
  unfolding scenario_fits_def list_all_iff
proof (intro conjI ballI)
  show "1 \<le> sc_capacity_blocks sc" using assms(2) by simp
  fix r assume "r \<in> set (sc_requests sc)"
  then have "request_shape r" using assms(1) by (simp add: list_all_iff)
  from shape_load(1) [OF this] assms(2)
  show "int (request_load DEFAULT_GROUPS r) < sc_capacity_blocks sc" by linarith
qed

lemma shaped_scenario_accesses:
  assumes "list_all request_shape (sc_requests sc)"
  shows "scenario_accesses sc \<le> 22 * int (length (sc_requests sc))"
proof -
  have "sum_list (map (request_accesses DEFAULT_GROUPS) rs) \<le> 22 * int (length rs)"
    if "list_all request_shape rs" for rs
    using that shape_load(2) by (induction rs) fastforce+
  with assms show ?thesis by (simp add: scenario_accesses_def)
qed

section \<open>Buckets are groups\<close>

type_synonym outcome = "recompute \<times> pyfloat \<times> relation"

definition bucket_of :: "outcome list \<Rightarrow> bucket" where
  "bucket_of vs = fold (\<lambda>(v, ratio, rel). add_to_bucket v ratio rel) vs new_bucket"

lemma bucket_of_snoc: "bucket_of (vs @ [(v, ratio, rel)]) = add_to_bucket v ratio rel (bucket_of vs)"
  by (simp add: bucket_of_def)

lemma bucket_of_simps:
  "bk_ratios (bucket_of vs) = map (\<lambda>(_, ratio, _). ratio) vs"
  "candidate_recomputed (bk_recomputed (bucket_of vs)) = sum_list (map (candidate_recomputed \<circ> fst) vs)"
  "strongest_recomputed (bk_recomputed (bucket_of vs)) = sum_list (map (strongest_recomputed \<circ> fst) vs)"
  "bk_improved (bucket_of vs) = int (length (filter (\<lambda>(_, _, rel). rel = IMPROVED) vs))"
  "bk_tied (bucket_of vs) = int (length (filter (\<lambda>(_, _, rel). rel = TIED) vs))"
  "bk_regressed (bucket_of vs) = int (length (filter (\<lambda>(_, _, rel). rel = REGRESSED) vs))"
  "bk_scenario_count (bucket_of vs) = int (length vs)"
  by (induction vs rule: rev_induct)
     (auto simp: bucket_of_snoc add_to_bucket_def add_recompute_def
      simp: bucket_of_def new_bucket_def no_recompute_def)

text \<open>A dictionary of buckets groups the outcomes by a key.\<close>

definition groups_by :: "('a \<times> outcome) list \<Rightarrow> ('a, bucket) dict \<Rightarrow> bool" where
  "groups_by items d \<longleftrightarrow> dict_wf d \<and> (\<forall>k. dict_get d k =
     (let vs = map snd (filter (\<lambda>p. fst p = k) items) in if vs = [] then None else Some (bucket_of vs)))"

lemma groups_by_empty: "groups_by [] []"
  by (simp add: groups_by_def)

lemma groups_by_bump:
  assumes "groups_by items d"
  shows "groups_by (items @ [(k, v, ratio, rel)]) (bump k v ratio rel d)"
proof -
  have "dict_get (bump k v ratio rel d) j =
      (let vs = map snd (filter (\<lambda>p. fst p = j) (items @ [(k, v, ratio, rel)]))
       in if vs = [] then None else Some (bucket_of vs))" for j
  proof (cases "j = k")
    case False
    with assms show ?thesis by (simp add: bump_def dict_get_set groups_by_def)
  next
    case True
    have "dict_get d k = (let vs = map snd (filter (\<lambda>p. fst p = k) items)
        in if vs = [] then None else Some (bucket_of vs))"
      using assms by (simp add: groups_by_def)
    moreover have "bucket_of [] = new_bucket" by (simp add: bucket_of_def)
    ultimately show ?thesis
      using True by (auto simp: bump_def dict_get_set bucket_of_snoc Let_def)
  qed
  moreover have "dict_wf (bump k v ratio rel d)"
    using assms by (simp add: bump_def groups_by_def)
  ultimately show ?thesis by (simp add: groups_by_def)
qed

text \<open>The loop of the summary computes the outcomes once and groups them.\<close>

abbreviation outcome_of ::
  "policy_result \<Rightarrow> policy_result \<Rightarrow> policy_result \<Rightarrow> scenario \<Rightarrow> outcome res" where
  "outcome_of lru segmented candidate sc \<equiv> compare_scenario lru segmented candidate (sc_scenario_id sc)"

lemma tally_step:
  assumes "tally_scenario lru segmented candidate t sc = Inr t'"
  shows "\<exists>o1. outcome_of lru segmented candidate sc = Inr o1 \<and>
    (\<forall>seen. ta_all t = bucket_of (map snd seen) \<longrightarrow>
       groups_by (map (\<lambda>(sc, v). (sc_capacity_blocks sc, v)) seen) (ta_by_capacity t) \<longrightarrow>
       ta_all t' = bucket_of (map snd (seen @ [(sc, o1)])) \<and>
       groups_by (map (\<lambda>(sc, v). (sc_capacity_blocks sc, v)) (seen @ [(sc, o1)])) (ta_by_capacity t'))"
proof -
  from assms obtain v ratio rel obs where
    o1: "outcome_of lru segmented candidate sc = Inr (v, ratio, rel)"
    and all: "ta_all t' = add_to_bucket v ratio rel (ta_all t)"
    and cap: "ta_by_capacity t' = bump (sc_capacity_blocks sc) v ratio rel (ta_by_capacity t)"
    by (auto simp: tally_scenario_def bind_res_eq_Inr Let_def split: option.splits if_splits)
  show ?thesis
    using o1 groups_by_bump [of _ "ta_by_capacity t" "sc_capacity_blocks sc" v ratio rel]
    by (auto simp: all cap bucket_of_snoc)
qed

lemma tally_loop:
  assumes "fold_res (tally_scenario lru segmented candidate) empty_tally scenarios = Inr t"
  shows "\<exists>vs. list_all2 (\<lambda>sc v. outcome_of lru segmented candidate sc = Inr v) scenarios vs \<and>
    ta_all t = bucket_of vs \<and>
    groups_by (zip (map sc_capacity_blocks scenarios) vs) (ta_by_capacity t)"
proof -
  have "\<exists>vs. list_all2 (\<lambda>sc v. outcome_of lru segmented candidate sc = Inr v) rest vs \<and>
      ta_all t' = bucket_of (map snd (seen @ zip rest vs)) \<and>
      groups_by (map (\<lambda>(sc, v). (sc_capacity_blocks sc, v)) (seen @ zip rest vs)) (ta_by_capacity t')"
    if "fold_res (tally_scenario lru segmented candidate) t0 rest = Inr t'"
      and "ta_all t0 = bucket_of (map snd seen)"
      and "groups_by (map (\<lambda>(sc, v). (sc_capacity_blocks sc, v)) seen) (ta_by_capacity t0)"
    for rest t0 t' seen
    using that
  proof (induction rest arbitrary: t0 seen)
    case Nil
    then show ?case by simp
  next
    case (Cons sc rest)
    then obtain t1 where step: "tally_scenario lru segmented candidate t0 sc = Inr t1"
      and go: "fold_res (tally_scenario lru segmented candidate) t1 rest = Inr t'"
      by (auto simp: bind_res_eq_Inr)
    from tally_step [OF step] Cons.prems(2,3) obtain o1 where
      o1: "outcome_of lru segmented candidate sc = Inr o1"
      "ta_all t1 = bucket_of (map snd (seen @ [(sc, o1)]))"
      "groups_by (map (\<lambda>(sc, v). (sc_capacity_blocks sc, v)) (seen @ [(sc, o1)])) (ta_by_capacity t1)"
      by blast
    from Cons.IH [OF go o1(2,3)] obtain vs where
      "list_all2 (\<lambda>sc v. outcome_of lru segmented candidate sc = Inr v) rest vs"
      "ta_all t' = bucket_of (map snd ((seen @ [(sc, o1)]) @ zip rest vs))"
      "groups_by (map (\<lambda>(sc, v). (sc_capacity_blocks sc, v)) ((seen @ [(sc, o1)]) @ zip rest vs))
        (ta_by_capacity t')" by blast
    with o1(1) show ?case by (intro exI [of _ "o1 # vs"]) simp
  qed
  from this [OF assms, of "[]"] obtain vs where
    vs: "list_all2 (\<lambda>sc v. outcome_of lru segmented candidate sc = Inr v) scenarios vs"
    "ta_all t = bucket_of (map snd (zip scenarios vs))"
    "groups_by (map (\<lambda>(sc, v). (sc_capacity_blocks sc, v)) (zip scenarios vs)) (ta_by_capacity t)"
    by (auto simp: empty_tally_def bucket_of_def groups_by_empty)
  have "length scenarios = length vs" using vs(1) by (rule list_all2_lengthD)
  then have "map snd (zip scenarios vs) = vs"
    and "map (\<lambda>(sc, v). (sc_capacity_blocks sc, v)) (zip scenarios vs) =
      zip (map sc_capacity_blocks scenarios) vs"
    by (simp_all add: zip_map1)
  with vs show ?thesis by auto
qed

section \<open>Exact gates\<close>

lemma ratio_gate:
  assumes "rnd (of_int e / of_int f) = of_int e / of_int f"
    and "rnd (of_int n / of_int d) < of_int e / of_int f" and "0 < d" and "0 < f" and "d \<le> n"
    and "ratio_or (Fin 1) c b = Inr r" and "0 \<le> b" and "(e * d - n * f) * b \<le> f"
  shows "r \<le> Fin (rnd (of_int n / of_int d)) \<longleftrightarrow> b = 0 \<or> d * c \<le> n * b"
proof (rule ratio_or_le [OF assms(6,7)])
  have "1 \<le> (of_int n / of_int d :: rat)" using assms(3,5) by simp
  from rnd_mono [OF this] show "1 \<le> rnd (of_int n / of_int d)" by (simp add: dbl.R_1)
  assume "0 < b"
  from upper_gate [OF assms(1-4) this assms(8)]
  show "rnd (of_int c / of_int b) \<le> rnd (of_int n / of_int d) \<longleftrightarrow> d * c \<le> n * b" .
qed

lemma worst_gate:
  assumes "ratio_or (Fin 1) c b = Inr r" and "0 \<le> b" and "b \<le> 2 ^ 45"
  shows "r \<le> WORST_RATIO_MAX \<longleftrightarrow> b = 0 \<or> 50 * c \<le> 53 * b"
proof -
  have "rnd (4773815605012727 / 4503599627370496) = 4773815605012727 / 4503599627370496"
    and "rnd (53 / 50) = 2386907802506363 / 2251799813685248"
    by code_simp+
  then show ?thesis
    using ratio_gate [of 4773815605012727 4503599627370496 53 50 c b r] assms
    by (simp add: WORST_RATIO_MAX_def fl_eq_Fin)
qed

lemma one_gate:
  assumes "ratio_or (Fin 1) c b = Inr r" and "0 \<le> b" and "b \<le> 2 ^ 45"
  shows "r \<le> Fin 1 \<longleftrightarrow> c \<le> b \<or> b = 0"
proof -
  have "rnd (4503599627370497 / 4503599627370496) = 4503599627370497 / 4503599627370496"
    by code_simp
  then show ?thesis
    using ratio_gate [of 4503599627370497 4503599627370496 1 1 c b r] assms
    by (auto simp: dbl.R_1)
qed

text \<open>The aggregate threshold is below one, so an empty baseline fails it.\<close>

lemma aggregate_gate:
  assumes "ratio_or (Fin 1) c b = Inr r" and "0 \<le> b" and "b \<le> 2 ^ 45"
  shows "r \<le> AGGREGATE_RATIO_MAX \<longleftrightarrow> 0 < b \<and> 50 * c \<le> 49 * b"
proof -
  have double: "rnd (8827055269646173 / 9007199254740992) = 8827055269646173 / 9007199254740992"
    and lim: "rnd (49 / 50) = 2206763817411543 / 2251799813685248"
    by code_simp+
  show ?thesis
  proof (cases "b = 0")
    case True
    with assms(1) have "r = Fin 1" by (simp add: ratio_or_def)
    with True lim show ?thesis by (simp add: AGGREGATE_RATIO_MAX_def fl_eq_Fin)
  next
    case False
    with assms(1) have "r = Fin (rnd (of_int c / of_int b))"
      using int_div_eq_Inr [of c b r] by (simp add: ratio_or_def)
    with upper_gate [of 8827055269646173 9007199254740992 49 50 b c] False assms(2,3) double
    show ?thesis by (simp add: AGGREGATE_RATIO_MAX_def fl_eq_Fin lim)
  qed
qed

lemma improved_gate:
  assumes "0 < n" and "n \<le> 2 ^ 45" and "int_div k n = Inr r"
  shows "IMPROVED_SCENARIO_FRACTION_MIN \<le> r \<longleftrightarrow> 3 * n \<le> 4 * k"
proof -
  let ?x = "of_int k / of_int n :: rat"
  have double: "rnd (6755399441055743 / 9007199254740992) = 6755399441055743 / 9007199254740992"
    and lim: "rnd (3 / 4) = 3 / 4"
    by code_simp+
  have "rnd (3 / 4) \<le> rnd ?x \<longleftrightarrow> 3 / 4 \<le> ?x"
  proof (rule dbl.R_ge_iff [OF double])
    show "6755399441055743 / 9007199254740992 < rnd (3 / 4)" unfolding lim by simp
    assume "?x < 3 / 4"
    with assms(1) have "4 * of_int k < 3 * (of_int n :: rat)" by (simp add: field_simps)
    then have "4 * k + 1 \<le> 3 * n" by linarith
    then have "4 * of_int k + 1 \<le> 3 * (of_int n :: rat)"
      using of_int_le_iff [of "4 * k + 1" "3 * n", where 'a = rat] by simp
    moreover have "(of_int n :: rat) \<le> 35184372088832"
      using assms(2) of_int_le_iff [of n "2 ^ 45", where 'a = rat] by simp
    ultimately have "9007199254740992 * of_int k \<le> 6755399441055743 * (of_int n :: rat)" by linarith
    with assms(1) show "?x \<le> 6755399441055743 / 9007199254740992"
      by (simp add: pos_divide_le_eq)
  qed
  also have "\<dots> \<longleftrightarrow> 3 * of_int n \<le> 4 * (of_int k :: rat)"
    using assms(1) by (simp add: field_simps)
  also have "\<dots> \<longleftrightarrow> 3 * n \<le> 4 * k" by linarith
  finally show ?thesis
    using int_div_eq_Inr [OF assms(3)] by (simp add: IMPROVED_SCENARIO_FRACTION_MIN_def fl_eq_Fin lim)
qed

section \<open>What a pass guarantees\<close>

definition blocks_of :: "policy_result \<Rightarrow> scenario \<Rightarrow> int" where
  "blocks_of r sc = (case metric sm_recomputed_blocks r (sc_scenario_id sc) of Inr n \<Rightarrow> n | Inl _ \<Rightarrow> 0)"

definition strongest_of :: "policy_result \<Rightarrow> policy_result \<Rightarrow> scenario \<Rightarrow> int" where
  "strongest_of lru segmented sc = min (blocks_of lru sc) (blocks_of segmented sc)"

lemma outcome_values:
  assumes "outcome_of lru segmented candidate sc = Inr (v, ratio, rel)"
  shows "candidate_recomputed v = blocks_of candidate sc"
    and "strongest_recomputed v = strongest_of lru segmented sc"
    and "ratio_or (Fin 1) (blocks_of candidate sc) (strongest_of lru segmented sc) = Inr ratio"
    and "rel = IMPROVED \<longleftrightarrow> blocks_of candidate sc < strongest_of lru segmented sc"
  using assms
  by (auto simp: compare_scenario_def bind_res_eq_Inr blocks_of_def strongest_of_def Let_def
      split: if_splits)

lemma outcomes_sums:
  assumes "list_all2 (\<lambda>sc v. outcome_of lru segmented candidate sc = Inr v) scenarios vs"
  shows "sum_list (map (candidate_recomputed \<circ> fst) vs) = sum_list (map (blocks_of candidate) scenarios)"
    and "sum_list (map (strongest_recomputed \<circ> fst) vs) = sum_list (map (strongest_of lru segmented) scenarios)"
    and "length (filter (\<lambda>(_, _, rel). rel = IMPROVED) vs) =
      length (filter (\<lambda>sc. blocks_of candidate sc < strongest_of lru segmented sc) scenarios)"
  using assms by (induction rule: list_all2_induct) (auto simp: outcome_values(1,2) dest: outcome_values(4))

text \<open>The scenarios of one capacity, with their outcomes.\<close>

lemma outcomes_of_capacity:
  assumes "list_all2 (\<lambda>sc v. outcome_of lru segmented candidate sc = Inr v) scenarios vs"
  shows "list_all2 (\<lambda>sc v. outcome_of lru segmented candidate sc = Inr v)
    (filter (\<lambda>sc. sc_capacity_blocks sc = k) scenarios)
    (map snd (filter (\<lambda>p. fst p = k) (zip (map sc_capacity_blocks scenarios) vs)))"
  using assms by (induction rule: list_all2_induct) auto

lemma max_default_ge:
  assumes "x \<in> set xs" and "\<forall>y \<in> set xs. \<exists>q. y = Fin q" and "max_default d xs \<le> Fin t"
  shows "x \<le> Fin t"
proof -
  have step: "(\<exists>q. fold (\<lambda>y m. py_max m y) ys (Fin p) = Fin q \<and> p \<le> q \<and>
      (\<forall>y r. y \<in> set ys \<longrightarrow> y = Fin r \<longrightarrow> r \<le> q))"
    if "\<forall>y \<in> set ys. \<exists>q. y = Fin q" for ys p
    using that
  proof (induction ys arbitrary: p)
    case Nil
    then show ?case by simp
  next
    case (Cons y ys)
    then obtain r where y: "y = Fin r" by auto
    obtain q where q: "fold (\<lambda>y m. py_max m y) ys (Fin (max p r)) = Fin q" "max p r \<le> q"
      "\<forall>y r. y \<in> set ys \<longrightarrow> y = Fin r \<longrightarrow> r \<le> q"
      using Cons.IH [of "max p r"] Cons.prems by auto
    have "py_max (Fin p) y = Fin (max p r)" by (simp add: y py_max_def max_def)
    with q y show ?case by auto
  qed
  obtain z zs where xs: "xs = z # zs" using assms(1) by (cases xs) auto
  obtain p where z: "z = Fin p" using assms(2) xs by auto
  from step [of zs p] assms(2) xs obtain q where "max_default d xs = Fin q" "p \<le> q"
    "\<forall>y r. y \<in> set zs \<longrightarrow> y = Fin r \<longrightarrow> r \<le> q"
    by (auto simp: z)
  moreover obtain r where "x = Fin r" using assms(1,2) by blast
  ultimately have "r \<le> q" using assms(1) xs z by auto
  with assms(3) \<open>x = Fin r\<close> \<open>max_default d xs = Fin q\<close> show ?thesis by simp
qed

lemma ratio_or_Fin: "ratio_or (Fin 1) a b = Inr r \<Longrightarrow> \<exists>q. r = Fin q"
  using int_div_eq_Inr [of a b r] by (auto simp: ratio_or_def split: if_splits)

definition in_range :: "scenario list \<Rightarrow> policy_result \<Rightarrow> policy_result \<Rightarrow> bool" where
  "in_range scenarios lru segmented \<longleftrightarrow> int (length scenarios) \<le> 2 ^ 15 \<and>
     list_all (\<lambda>sc. 0 \<le> strongest_of lru segmented sc \<and> strongest_of lru segmented sc \<le> 2 ^ 30) scenarios"

lemma in_range_sum:
  assumes "list_all (\<lambda>sc. 0 \<le> strongest_of lru segmented sc \<and> strongest_of lru segmented sc \<le> 2 ^ 30) scenarios"
  shows "0 \<le> sum_list (map (strongest_of lru segmented) scenarios) \<and>
    sum_list (map (strongest_of lru segmented) scenarios) \<le> 2 ^ 30 * int (length scenarios)"
  using assms by (induction scenarios) (auto simp: algebra_simps)

lemma in_range_filter:
  assumes "in_range scenarios lru segmented"
  shows "0 \<le> sum_list (map (strongest_of lru segmented) (filter P scenarios))"
    and "sum_list (map (strongest_of lru segmented) (filter P scenarios)) \<le> 2 ^ 45"
proof -
  have "list_all (\<lambda>sc. 0 \<le> strongest_of lru segmented sc \<and> strongest_of lru segmented sc \<le> 2 ^ 30)
      (filter P scenarios)"
    using assms by (auto simp: in_range_def list_all_iff)
  from in_range_sum [OF this] have
    sum: "0 \<le> sum_list (map (strongest_of lru segmented) (filter P scenarios))"
      "sum_list (map (strongest_of lru segmented) (filter P scenarios)) \<le>
        2 ^ 30 * int (length (filter P scenarios))" by simp_all
  have "int (length (filter P scenarios)) \<le> 2 ^ 15"
    using assms length_filter_le [of P scenarios] unfolding in_range_def by linarith
  with sum show "0 \<le> sum_list (map (strongest_of lru segmented) (filter P scenarios))"
    and "sum_list (map (strongest_of lru segmented) (filter P scenarios)) \<le> 2 ^ 45"
    by simp_all
qed

lemma pass_worst:
  assumes vs: "list_all2 (\<lambda>sc v. outcome_of lru segmented candidate sc = Inr v) scenarios vs"
    and "max_default (Fin 1) (bk_ratios (bucket_of vs)) \<le> WORST_RATIO_MAX"
    and "in_range scenarios lru segmented" and sc: "sc \<in> set scenarios"
  shows "strongest_of lru segmented sc = 0 \<or>
    50 * blocks_of candidate sc \<le> 53 * strongest_of lru segmented sc"
proof -
  let ?out = "\<lambda>sc v. outcome_of lru segmented candidate sc = Inr v"
  obtain o1 where "o1 \<in> set vs" and o1: "?out sc o1"
    using list_all2_left [OF vs sc] by blast
  obtain v ratio rel where o1_eq: "o1 = (v, ratio, rel)" by (cases o1)
  note ratio = outcome_values(3) [OF o1 [unfolded o1_eq]]
  have "\<forall>y \<in> set (bk_ratios (bucket_of vs)). \<exists>q. y = Fin q"
  proof
    fix y assume "y \<in> set (bk_ratios (bucket_of vs))"
    then obtain v' rel' where "(v', y, rel') \<in> set vs" by (force simp: bucket_of_simps)
    from list_all2_right [OF vs this] obtain sc' where "?out sc' (v', y, rel')" by blast
    from ratio_or_Fin [OF outcome_values(3) [OF this]] show "\<exists>q. y = Fin q" .
  qed
  moreover have "ratio \<in> set (bk_ratios (bucket_of vs))"
    using \<open>o1 \<in> set vs\<close> by (force simp: bucket_of_simps o1_eq)
  ultimately have "ratio \<le> WORST_RATIO_MAX"
    using max_default_ge assms(2) by (simp add: WORST_RATIO_MAX_def fl_eq_Fin)
  moreover have "0 \<le> strongest_of lru segmented sc" "strongest_of lru segmented sc \<le> 2 ^ 45"
    using assms(3) sc by (auto simp: in_range_def list_all_iff)
  ultimately show ?thesis using worst_gate [OF ratio] by simp
qed

lemma pass_capacity:
  assumes vs: "list_all2 (\<lambda>sc v. outcome_of lru segmented candidate sc = Inr v) scenarios vs"
    and groups: "groups_by (zip (map sc_capacity_blocks scenarios) vs) d"
    and caps: "finalize_buckets d = Inr by_capacity"
    and gate: "list_all bs_aggregate_non_regressive (dict_values by_capacity)"
    and range: "in_range scenarios lru segmented" and sc: "sc \<in> set scenarios"
    and same: "same = filter (\<lambda>x. sc_capacity_blocks x = sc_capacity_blocks sc) scenarios"
  shows "sum_list (map (strongest_of lru segmented) same) = 0 \<or>
    sum_list (map (blocks_of candidate) same) \<le> sum_list (map (strongest_of lru segmented) same)"
proof -
  let ?k = "sc_capacity_blocks sc"
  let ?ws = "map snd (filter (\<lambda>p. fst p = ?k) (zip (map sc_capacity_blocks scenarios) vs))"
  have ws: "list_all2 (\<lambda>sc v. outcome_of lru segmented candidate sc = Inr v) same ?ws"
    unfolding same by (rule outcomes_of_capacity [OF vs])
  have "same \<noteq> []" using sc same by (auto simp: filter_empty_conv)
  with ws have "?ws \<noteq> []" by (metis list_all2_Nil2)
  with groups have "dict_get d ?k = Some (bucket_of ?ws)"
    by (simp add: groups_by_def Let_def)
  then have "(?k, bucket_of ?ws) \<in> set (sort_key fst d)"
    by (simp add: map_of_SomeD)
  from map_res_member [OF caps [unfolded finalize_buckets_def] this] obtain b where
    b: "finalize_bucket (bucket_of ?ws) = Inr b" "b \<in> set (dict_values by_capacity)"
    by (force simp: bind_res_eq_Inr)
  with gate have "bs_aggregate_non_regressive b" by (auto simp: list_all_iff)
  with b(1) obtain ratio where
    ratio: "ratio_or (Fin 1) (candidate_recomputed (bk_recomputed (bucket_of ?ws)))
      (strongest_recomputed (bk_recomputed (bucket_of ?ws))) = Inr ratio" "ratio \<le> Fin 1"
    by (auto simp: finalize_bucket_def bind_res_eq_Inr)
  show ?thesis
    using one_gate [OF ratio(1)] ratio(2) outcomes_sums(1,2) [OF ws] in_range_filter [OF range]
    by (auto simp: bucket_of_simps same)
qed

lemma epoch2_pass:
  assumes "summarize_policy_results scenarios lru segmented candidate = Inr s" and "es_status s"
    and "in_range scenarios lru segmented" and "scenarios \<noteq> []"
  shows "aggregate_of sm_fallback_uses candidate = 0 \<and> aggregate_of sm_rejected_proposals candidate = 0 \<and>
    50 * sum_list (map (blocks_of candidate) scenarios)
      \<le> 49 * sum_list (map (strongest_of lru segmented) scenarios) \<and>
    3 * int (length scenarios) \<le> 4 * int (length
      (filter (\<lambda>sc. blocks_of candidate sc < strongest_of lru segmented sc) scenarios)) \<and>
    (\<forall>sc \<in> set scenarios. strongest_of lru segmented sc = 0 \<or>
       50 * blocks_of candidate sc \<le> 53 * strongest_of lru segmented sc) \<and>
    (\<forall>sc \<in> set scenarios.
       let same = filter (\<lambda>x. sc_capacity_blocks x = sc_capacity_blocks sc) scenarios in
       sum_list (map (strongest_of lru segmented) same) = 0 \<or>
       sum_list (map (blocks_of candidate) same) \<le> sum_list (map (strongest_of lru segmented) same))"
proof -
  from assms(1) obtain t r q by_capacity m p95 where
    t: "fold_res (tally_scenario lru segmented candidate) empty_tally scenarios = Inr t"
    and r: "ratio_or (Fin 1) (candidate_recomputed (bk_recomputed (ta_all t)))
      (strongest_recomputed (bk_recomputed (ta_all t))) = Inr r"
    and q: "ratio_or (Fin 0) (bk_improved (ta_all t)) (int (length scenarios)) = Inr q"
    and caps: "finalize_buckets (ta_by_capacity t) = Inr by_capacity"
    and s: "es_status s \<longleftrightarrow> all_gates (epoch2_gates r m p95 (max_default (Fin 1) (bk_ratios (ta_all t))) q
      (list_all bs_aggregate_non_regressive (dict_values by_capacity)) candidate)"
    by (auto simp: summarize_policy_results_def bind_res_eq_Inr Let_def)
  from tally_loop [OF t] obtain vs where
    vs: "list_all2 (\<lambda>sc v. outcome_of lru segmented candidate sc = Inr v) scenarios vs"
    and all: "ta_all t = bucket_of vs"
    and groups: "groups_by (zip (map sc_capacity_blocks scenarios) vs) (ta_by_capacity t)" by blast
  from s assms(2) have gates: "r \<le> AGGREGATE_RATIO_MAX" "IMPROVED_SCENARIO_FRACTION_MIN \<le> q"
    "max_default (Fin 1) (bk_ratios (bucket_of vs)) \<le> WORST_RATIO_MAX"
    "list_all bs_aggregate_non_regressive (dict_values by_capacity)"
    "aggregate_of sm_fallback_uses candidate = 0" "aggregate_of sm_rejected_proposals candidate = 0"
    by (simp_all add: all_gates_def epoch2_gates_def all)
  have aggregate: "50 * sum_list (map (blocks_of candidate) scenarios)
      \<le> 49 * sum_list (map (strongest_of lru segmented) scenarios)"
    using aggregate_gate [OF r] gates(1) in_range_filter [OF assms(3), of "\<lambda>_. True"]
    by (simp add: all bucket_of_simps outcomes_sums [OF vs])
  have n: "0 < int (length scenarios)" "int (length scenarios) \<le> 2 ^ 45"
    using assms(3,4) by (auto simp: in_range_def)
  have improved: "3 * int (length scenarios) \<le> 4 * int (length
      (filter (\<lambda>sc. blocks_of candidate sc < strongest_of lru segmented sc) scenarios))"
    using improved_gate [OF n, of "bk_improved (ta_all t)" q] q n(1) gates(2)
    by (simp add: ratio_or_def all bucket_of_simps outcomes_sums(3) [OF vs])
  show ?thesis
    using gates(5,6) aggregate improved pass_worst [OF vs gates(3) assms(3)]
      pass_capacity [OF vs groups caps gates(4) assms(3)]
    by (auto simp: Let_def)
qed

end
