(* ===== verification/CacheEpoch2Properties.thy ===== *)
theory CacheEpoch2Properties
  imports CacheEpoch2Proofs
begin

text \<open>
  What a passing summary of the second epoch guarantees about the recomputed blocks.
\<close>

text \<open>
  A candidate that passes the gates of the second epoch never fell back and never had a proposal
  rejected; its recomputed blocks are at most 0.98 of those of the stronger baseline of each scenario
  in total; it is strictly better in at least three quarters of the scenarios, at most 1.06 times worse
  in any scenario, and not worse in total for any capacity.  The floating-point gates imply these
  exact inequalities of integers.
\<close>

theorem epoch2_pass_guarantees:
  assumes "summarize_policy_results scenarios lru segmented candidate = Inr s" and "es_status s"
    and "in_range scenarios lru segmented" and "scenarios \<noteq> []"
  shows "aggregate_of sm_fallback_uses candidate = 0 \<and> aggregate_of sm_rejected_proposals candidate = 0 \<and>
    50 * sum_list (map (blocks_of candidate) scenarios)
      \<le> 49 * sum_list (map (strongest_of lru segmented) scenarios) \<and>
    3 * int (length scenarios) \<le> 4 * int (length
      (filter (\<lambda>sc. blocks_of candidate sc < strongest_of lru segmented sc) scenarios)) \<and>
    (\<forall>sc \<in> set scenarios. strongest_of lru segmented sc = 0 \<or>
       50 * blocks_of candidate sc \<le> 53 * strongest_of lru segmented sc) \<and>
    (\<forall>sc \<in> set scenarios.
       let same = filter (\<lambda>x. sc_capacity_blocks x = sc_capacity_blocks sc) scenarios in
       sum_list (map (strongest_of lru segmented) same) = 0 \<or>
       sum_list (map (blocks_of candidate) same) \<le> sum_list (map (strongest_of lru segmented) same))"
  using assms by (rule epoch2_pass)

text \<open>Two baselines and a candidate on one scenario.\<close>

definition example_result :: "int \<Rightarrow> policy_result" where
  "example_result recomputed = \<lparr>pr_policy_id = ''p'',
     pr_aggregate = \<lparr>mj_counters = StudyMetrics, mj_hit_rate = Fin 0, mj_recomputed_blocks_per_request = Fin 0\<rparr>,
     pr_scenarios = [(''demo'', \<lparr>sr_purpose = [],
       sr_metrics = \<lparr>mj_counters = StudyMetrics\<lparr>sm_recomputed_blocks := recomputed\<rparr>, mj_hit_rate = Fin 0,
         mj_recomputed_blocks_per_request = Fin 0\<rparr>, sr_final_state_digest = []\<rparr>)]\<rparr>"

definition example_scenario :: scenario where
  "example_scenario = \<lparr>sc_scenario_id = ''demo'', sc_capacity_blocks = 32, sc_requests = [], sc_purpose = []\<rparr>"

lemma example_passes:
  "\<exists>s. summarize_policy_results [example_scenario] (example_result 4) (example_result 7) (example_result 0) = Inr s \<and>
     es_status s"
proof -
  have zero: "int_div 0 b = Inr (Fin 0)" if "b \<noteq> 0" for b using int_div_total [OF that, of 0] by simp
  have one: "int_div 1 1 = Inr (Fin 1)" using int_div_total [of 1 1] by (simp add: dbl.R_1)
  have gates: "rnd (19 / 20) = 4278419646001971 / 4503599627370496"
    "rnd (49 / 50) = 2206763817411543 / 2251799813685248"
    "rnd (53 / 50) = 2386907802506363 / 2251799813685248" "rnd (21 / 20) = 4728779608739021 / 4503599627370496"
    "rnd (3 / 4) = 3 / 4"
    "rnd (4278419646001971 / 4503599627370496) = 4278419646001971 / 4503599627370496"
    by code_simp+
  have rank: "nearest_rank [Fin 0] (Fin (4278419646001971 / 4503599627370496)) = Inr (Fin 0)"
  proof -
    have "\<lceil>4278419646001971 / 4503599627370496 :: rat\<rceil> = 1" by (rule ceiling_unique) simp_all
    then show ?thesis by (simp add: nearest_rank_def fl_eq_Fin gates sort_floats_def list_at_def)
  qed
  show ?thesis
    by (simp add: summarize_policy_results_def tally_scenario_def empty_tally_def compare_scenario_def
        observation_def metric_def final_digest_def example_scenario_def example_result_def StudyMetrics_def
        Let_def zero one ratio_or_def new_bucket_def no_recompute_def add_to_bucket_def add_recompute_def
        bump_def finalize_buckets_def finalize_bucket_def median_def mean_def rank sort_floats_def
        epoch2_gates_def AGGREGATE_RATIO_MAX_def MEDIAN_RATIO_MAX_def P95_RATIO_MAX_def
        WORST_RATIO_MAX_def IMPROVED_SCENARIO_FRACTION_MIN_def fl_eq_Fin gates scenario_seed_def all_gates_def
        del: json_dumps.simps)
qed

theorem epoch2_pass_guarantees_witness:
  "\<exists>s. summarize_policy_results [example_scenario] (example_result 4) (example_result 7) (example_result 0) = Inr s \<and>
     50 * blocks_of (example_result 0) example_scenario \<le>
       49 * strongest_of (example_result 4) (example_result 7) example_scenario"
proof -
  obtain s where s: "summarize_policy_results [example_scenario] (example_result 4) (example_result 7) (example_result 0) = Inr s"
    "es_status s"
    using example_passes by blast
  have "in_range [example_scenario] (example_result 4) (example_result 7)"
    by (simp add: in_range_def strongest_of_def blocks_of_def metric_def example_scenario_def example_result_def)
  from epoch2_pass_guarantees [OF s this] s(1) show ?thesis by simp
qed

end
