(* ===== verification/PyJsonParse.thy ===== *)
theory PyJsonParse
  imports PyJson
begin

text \<open>
  \<open>json.loads\<close> on text.  The parser is CPython's: white space, the literals (with \<open>NaN\<close>,
  \<open>Infinity\<close>, \<open>-Infinity\<close>), numbers, strings with escapes, arrays, objects (a repeated key keeps
  its first place and its last value).  Every syntax error is the one error \<open>json_error\<close>: the
  messages of \<open>JSONDecodeError\<close> are not modelled, nor is the recursion limit.  A \<open>\u\<close> escape
  beyond code point 255 has no character here and counts as an error.

  The recursion is bounded by fuel; a call spends one unit and every call chain consumes a
  character per unit, so the length of the text plus one is enough.
\<close>

definition json_error :: py_error where
  "json_error = ValueError ''JSONDecodeError''"

abbreviation fail_json :: "'a res" where
  "fail_json \<equiv> Inl json_error"

definition skip_ws :: "string \<Rightarrow> string" where
  "skip_ws s = dropWhile (\<lambda>c. c \<in> {CHR '' '', CHR 0x09, CHR 0x0A, CHR 0x0D}) s"

section \<open>Strings\<close>

definition hex_value :: "char \<Rightarrow> nat option" where
  "hex_value c = (let n = of_char c :: nat in
     if 48 \<le> n \<and> n \<le> 57 then Some (n - 48)
     else if 97 \<le> n \<and> n \<le> 102 then Some (n - 87)
     else if 65 \<le> n \<and> n \<le> 70 then Some (n - 55) else None)"

definition simple_escape :: "char \<Rightarrow> char option" where
  "simple_escape c =
     (if c = CHR 0x22 then Some (CHR 0x22) else if c = CHR 0x5C then Some (CHR 0x5C)
      else if c = CHR ''/'' then Some (CHR ''/'') else if c = CHR ''b'' then Some (CHR 0x08)
      else if c = CHR ''f'' then Some (CHR 0x0C) else if c = CHR ''n'' then Some (CHR 0x0A)
      else if c = CHR ''r'' then Some (CHR 0x0D) else if c = CHR ''t'' then Some (CHR 0x09)
      else None)"

definition unicode_escape :: "string \<Rightarrow> (char \<times> string) res" where
  "unicode_escape s =
     (case s of
        a # b # c # d # rest \<Rightarrow>
          (case (hex_value a, hex_value b, hex_value c, hex_value d) of
             (Some p, Some q, Some r, Some t) \<Rightarrow>
               (if p = 0 \<and> q = 0 then Inr (char_of (16 * r + t), rest) else fail_json)
           | _ \<Rightarrow> fail_json)
      | _ \<Rightarrow> fail_json)"

text \<open>The rest of a string after its opening quote.\<close>

function parse_string :: "string \<Rightarrow> (string \<times> string) res" where
  "parse_string [] = fail_json"
| "parse_string (c # cs) =
     (if c = CHR 0x22 then Inr ([], cs)
      else if c = CHR 0x5C then
        (case cs of
           [] \<Rightarrow> fail_json
         | e # rest \<Rightarrow>
             if e = CHR ''u'' then
               (case unicode_escape rest of
                  Inl err \<Rightarrow> Inl err
                | Inr (u, rest') \<Rightarrow>
                    if length rest' < length rest
                    then bind_res (parse_string rest') (\<lambda>(s, r). Inr (u # s, r)) else fail_json)
             else (case simple_escape e of
                     None \<Rightarrow> fail_json
                   | Some u \<Rightarrow> bind_res (parse_string rest) (\<lambda>(s, r). Inr (u # s, r))))
      else if of_char c < (32 :: nat) then fail_json
      else bind_res (parse_string cs) (\<lambda>(s, r). Inr (c # s, r)))"
  by pat_completeness auto
termination
  by (relation "measure length") auto

section \<open>Numbers\<close>

text \<open>A number starting at a digit; \<open>int(..)\<close> refuses more than 4300 digits.\<close>

definition parse_number :: "int \<Rightarrow> string \<Rightarrow> (json \<times> string) res" where
  "parse_number sign s =
     (let (ds, r1) = (case s of
            c # cs \<Rightarrow> if c = CHR ''0'' then ([c], cs) else span_digits s
          | [] \<Rightarrow> ([], s)) in
      if ds = [] then fail_json
      else
        let (frac, r2) = scan_fraction r1; (e, r3) = scan_exponent r2 in
        if frac = None \<and> e = None then
          (if 4300 < length ds then Inl (ValueError ''Exceeds the limit for integer string conversion'')
           else Inr (JInt (sign * str_digits 0 ds), r1))
        else Inr (JFloat (fl (decimal_value sign ds (case frac of None \<Rightarrow> [] | Some fs \<Rightarrow> fs)
                    (case e of None \<Rightarrow> 0 | Some k \<Rightarrow> k))), r3))"

section \<open>Values\<close>

definition literal :: "string \<Rightarrow> json \<Rightarrow> string \<Rightarrow> (json \<times> string) res" where
  "literal word v s = (if prefix word s then Inr (v, drop (length word) s) else fail_json)"

fun parse_value :: "nat \<Rightarrow> string \<Rightarrow> (json \<times> string) res"
  and parse_elements :: "nat \<Rightarrow> string \<Rightarrow> (json list \<times> string) res"
  and parse_members :: "nat \<Rightarrow> string \<Rightarrow> ((string \<times> json) list \<times> string) res" where
  "parse_value 0 s = fail_json"
| "parse_value (Suc n) s =
     (case s of
        [] \<Rightarrow> fail_json
      | c # cs \<Rightarrow>
          if c = CHR 0x22 then bind_res (parse_string cs) (\<lambda>(t, r). Inr (JStr t, r))
          else if c = CHR ''{'' then
            (case skip_ws cs of
               d # ds \<Rightarrow> if d = CHR ''}'' then Inr (JObj [], ds)
                 else bind_res (parse_members n (d # ds)) (\<lambda>(ms, r).
                   Inr (JObj (fold (\<lambda>(k, v). dict_set k v) ms []), r))
             | [] \<Rightarrow> fail_json)
          else if c = CHR ''['' then
            (case skip_ws cs of
               d # ds \<Rightarrow> if d = CHR '']'' then Inr (JList [], ds)
                 else bind_res (parse_elements n (d # ds)) (\<lambda>(vs, r). Inr (JList vs, r))
             | [] \<Rightarrow> fail_json)
          else if c = CHR ''n'' then literal ''null'' JNull s
          else if c = CHR ''t'' then literal ''true'' (JBool True) s
          else if c = CHR ''f'' then literal ''false'' (JBool False) s
          else if c = CHR ''N'' then literal ''NaN'' (JFloat NaN) s
          else if c = CHR ''I'' then literal ''Infinity'' (JFloat PInf) s
          else if c = CHR ''-'' then
            (if prefix ''Infinity'' cs then Inr (JFloat NInf, drop 8 cs) else parse_number (- 1) cs)
          else parse_number 1 s)"
| "parse_elements 0 s = fail_json"
| "parse_elements (Suc n) s =
     bind_res (parse_value n s) (\<lambda>(v, r).
       case skip_ws r of
         c # cs \<Rightarrow>
           if c = CHR '','' then
             bind_res (parse_elements n (skip_ws cs)) (\<lambda>(vs, r'). Inr (v # vs, r'))
           else if c = CHR '']'' then Inr ([v], cs)
           else fail_json
       | [] \<Rightarrow> fail_json)"
| "parse_members 0 s = fail_json"
| "parse_members (Suc n) s =
     (case s of
        q # qs \<Rightarrow>
          if q \<noteq> CHR 0x22 then fail_json
          else bind_res (parse_string qs) (\<lambda>(k, r).
            case skip_ws r of
              c # cs \<Rightarrow>
                if c \<noteq> CHR '':'' then fail_json
                else bind_res (parse_value n (skip_ws cs)) (\<lambda>(v, r1).
                  case skip_ws r1 of
                    d # ds \<Rightarrow>
                      if d = CHR '','' then
                        bind_res (parse_members n (skip_ws ds)) (\<lambda>(ms, r2). Inr ((k, v) # ms, r2))
                      else if d = CHR ''}'' then Inr ([(k, v)], ds)
                      else fail_json
                  | [] \<Rightarrow> fail_json)
            | [] \<Rightarrow> fail_json)
      | [] \<Rightarrow> fail_json)"

definition json_loads :: "string \<Rightarrow> json res" where
  "json_loads s =
     bind_res (parse_value (length s + 1) (skip_ws s)) (\<lambda>(v, r).
       if skip_ws r = [] then Inr v else fail_json)"

text \<open>
  \<open>json.loads\<close> of bytes, taken as UTF-8 (the guess between UTF-8, UTF-16 and UTF-32 from leading
  zero bytes is not modelled).  A code point beyond 255 has no character here and counts as
  undecodable; \<open>UnicodeDecodeError\<close> is a \<open>ValueError\<close> but not a \<open>JSONDecodeError\<close>.
\<close>

fun decode_utf8 :: "string \<Rightarrow> string res" where
  "decode_utf8 [] = Inr []"
| "decode_utf8 (c # cs) =
     (let n = of_char c :: nat in
      if n < 128 then bind_res (decode_utf8 cs) (\<lambda>s. Inr (c # s))
      else case cs of
        d # ds \<Rightarrow>
          if n \<in> {194, 195} \<and> 128 \<le> (of_char d :: nat) \<and> (of_char d :: nat) < 192 then
            bind_res (decode_utf8 ds) (\<lambda>s. Inr (char_of ((n - 192) * 64 + (of_char d - 128)) # s))
          else Inl (ValueError ''UnicodeDecodeError'')
      | [] \<Rightarrow> Inl (ValueError ''UnicodeDecodeError''))"

definition json_loads_bytes :: "string \<Rightarrow> json res" where
  "json_loads_bytes data = bind_res (decode_utf8 data) json_loads"

lemma decode_utf8_ascii: "\<forall>c \<in> set s. of_char c < (128 :: nat) \<Longrightarrow> decode_utf8 s = Inr s"
  by (induction s) (simp_all add: Let_def)

end
