(* ===== verification/WaterModel.thy ===== *)
theory WaterModel
  imports PyJsonParse
begin

text \<open>
  \<^verbatim>\<open>water_control/model.py\<close>: configuration, telemetry, proposals, adjudications, intents, the state
  of the controller and of the plant, and their dictionaries.

  A \<open>StrEnum\<close> is a datatype with a function to its text.  Quantities the source keeps as \<open>float\<close>
  are \<open>pyfloat\<close>, rounded like the source's at every operation.
\<close>

datatype quality = GOOD | STALE | CONFLICT

datatype control_mode = NORMAL | DEGRADED | HOLD | EMERGENCY

fun mode_text :: "control_mode \<Rightarrow> string" where
  "mode_text NORMAL = ''NORMAL''"
| "mode_text DEGRADED = ''DEGRADED''"
| "mode_text HOLD = ''HOLD''"
| "mode_text EMERGENCY = ''EMERGENCY''"

text \<open>\<open>ControlMode(v)\<close>\<close>

definition ControlMode :: "json \<Rightarrow> control_mode res" where
  "ControlMode v =
     (case List.find (\<lambda>m. v = JStr (mode_text m)) [NORMAL, DEGRADED, HOLD, EMERGENCY] of
        Some m \<Rightarrow> Inr m | None \<Rightarrow> Inl (ValueError ''not a valid ControlMode''))"

lemma ControlMode_text [simp]: "ControlMode (JStr (mode_text m)) = Inr m"
  by (cases m) (simp_all add: ControlMode_def)

record system_config =
  tank_capacity_l :: pyfloat
  duty_flow_lps :: pyfloat
  standby_flow_lps :: pyfloat
  duty_power_kw :: pyfloat
  standby_power_kw :: pyfloat
  low_low_pct :: pyfloat
  high_high_pct :: pyfloat
  min_on_s :: int
  min_off_s :: int
  telemetry_max_age_s :: int
  intent_ttl_s :: int

definition SystemConfig :: system_config where
  "SystemConfig =
     \<lparr>tank_capacity_l = Fin 100000, duty_flow_lps = Fin 4, standby_flow_lps = Fin 3,
      duty_power_kw = Fin (15 / 2), standby_power_kw = Fin (11 / 2), low_low_pct = Fin 15,
      high_high_pct = Fin 90, min_on_s = 600, min_off_s = 300, telemetry_max_age_s = 180,
      intent_ttl_s = 120\<rparr>"

record telemetry_sample =
  observed_at_s :: int
  received_at_s :: int
  tank_level_pct :: pyfloat
  demand_lps :: pyfloat
  power_available :: bool
  sample_quality :: quality

definition age_s :: "telemetry_sample \<Rightarrow> int" where
  "age_s sample = max 0 (received_at_s sample - observed_at_s sample)"

record planner_proposal =
  pp_duty_on :: bool
  pp_standby_on :: bool
  pp_reason :: string
  pp_planner_id :: string

record adjudication =
  ad_duty_on :: bool
  ad_standby_on :: bool
  ad_mode :: control_mode
  ad_reasons :: "string list"

definition Adjudication :: "bool \<Rightarrow> bool \<Rightarrow> control_mode \<Rightarrow> string list \<Rightarrow> adjudication" where
  "Adjudication duty standby mode reasons =
     \<lparr>ad_duty_on = duty, ad_standby_on = standby, ad_mode = mode, ad_reasons = reasons\<rparr>"

record authorized_intent =
  ai_sequence :: int
  ai_issued_at_s :: int
  ai_expires_at_s :: int
  ai_duty_on :: bool
  ai_standby_on :: bool
  ai_mode :: control_mode
  ai_planner_id :: string
  ai_proposal_reason :: string
  ai_safety_reasons :: "string list"

definition intent_as_dict :: "authorized_intent \<Rightarrow> json" where
  "intent_as_dict i = JObj
     [(''sequence'', JInt (ai_sequence i)), (''issued_at_s'', JInt (ai_issued_at_s i)),
      (''expires_at_s'', JInt (ai_expires_at_s i)), (''duty_on'', JBool (ai_duty_on i)),
      (''standby_on'', JBool (ai_standby_on i)), (''mode'', JStr (mode_text (ai_mode i))),
      (''planner_id'', JStr (ai_planner_id i)), (''proposal_reason'', JStr (ai_proposal_reason i)),
      (''safety_reasons'', JList (map JStr (ai_safety_reasons i)))]"

record controller_state =
  cst_duty_on :: bool
  cst_standby_on :: bool
  cst_duty_last_changed_s :: int
  cst_standby_last_changed_s :: int
  cst_last_sequence :: int
  cst_last_mode :: control_mode

definition ControllerState :: controller_state where
  "ControllerState = \<lparr>cst_duty_on = False, cst_standby_on = False,
     cst_duty_last_changed_s = -10000, cst_standby_last_changed_s = -10000,
     cst_last_sequence = 0, cst_last_mode = NORMAL\<rparr>"

definition controller_state_as_dict :: "controller_state \<Rightarrow> json" where
  "controller_state_as_dict s = JObj
     [(''duty_on'', JBool (cst_duty_on s)), (''standby_on'', JBool (cst_standby_on s)),
      (''duty_last_changed_s'', JInt (cst_duty_last_changed_s s)),
      (''standby_last_changed_s'', JInt (cst_standby_last_changed_s s)),
      (''last_sequence'', JInt (cst_last_sequence s)),
      (''last_mode'', JStr (mode_text (cst_last_mode s)))]"

text \<open>\<open>payload[k]\<close> of a value that has to be a dictionary.\<close>

definition item :: "json \<Rightarrow> string \<Rightarrow> json res" where
  "item payload k =
     (case payload of JObj d \<Rightarrow> obj_at d k
      | _ \<Rightarrow> Inl (TypeError ''indices must be integers or slices''))"

definition controller_state_from_dict :: "json \<Rightarrow> controller_state res" where
  "controller_state_from_dict payload =
     bind_res (item payload ''duty_on'') (\<lambda>duty.
     bind_res (item payload ''standby_on'') (\<lambda>standby.
     bind_res (bind_res (item payload ''duty_last_changed_s'') to_int) (\<lambda>duty_at.
     bind_res (bind_res (item payload ''standby_last_changed_s'') to_int) (\<lambda>standby_at.
     bind_res (bind_res (item payload ''last_sequence'') to_int) (\<lambda>sequence.
     bind_res (bind_res (item payload ''last_mode'') ControlMode) (\<lambda>mode.
       Inr \<lparr>cst_duty_on = truthy duty, cst_standby_on = truthy standby,
            cst_duty_last_changed_s = duty_at, cst_standby_last_changed_s = standby_at,
            cst_last_sequence = sequence, cst_last_mode = mode\<rparr>))))))"

record plant_state =
  pst_tank_volume_l :: pyfloat
  pst_duty_running :: bool
  pst_standby_running :: bool
  pst_energy_kwh :: pyfloat
  pst_duty_starts :: int
  pst_standby_starts :: int
  pst_unmet_demand_l :: pyfloat
  pst_overflow_l :: pyfloat

definition PlantState :: "pyfloat \<Rightarrow> plant_state" where
  "PlantState volume = \<lparr>pst_tank_volume_l = volume, pst_duty_running = False,
     pst_standby_running = False, pst_energy_kwh = Fin 0, pst_duty_starts = 0,
     pst_standby_starts = 0, pst_unmet_demand_l = Fin 0, pst_overflow_l = Fin 0\<rparr>"

definition plant_state_as_dict :: "plant_state \<Rightarrow> json" where
  "plant_state_as_dict p = JObj
     [(''tank_volume_l'', JFloat (pst_tank_volume_l p)), (''duty_running'', JBool (pst_duty_running p)),
      (''standby_running'', JBool (pst_standby_running p)),
      (''energy_kwh'', JFloat (pst_energy_kwh p)), (''duty_starts'', JInt (pst_duty_starts p)),
      (''standby_starts'', JInt (pst_standby_starts p)),
      (''unmet_demand_l'', JFloat (pst_unmet_demand_l p)), (''overflow_l'', JFloat (pst_overflow_l p))]"

definition plant_state_from_dict :: "json \<Rightarrow> plant_state res" where
  "plant_state_from_dict payload =
     bind_res (bind_res (item payload ''tank_volume_l'') to_float) (\<lambda>volume.
     bind_res (item payload ''duty_running'') (\<lambda>duty.
     bind_res (item payload ''standby_running'') (\<lambda>standby.
     bind_res (bind_res (item payload ''energy_kwh'') to_float) (\<lambda>energy.
     bind_res (bind_res (item payload ''duty_starts'') to_int) (\<lambda>duty_starts.
     bind_res (bind_res (item payload ''standby_starts'') to_int) (\<lambda>standby_starts.
     bind_res (bind_res (item payload ''unmet_demand_l'') to_float) (\<lambda>unmet.
     bind_res (bind_res (item payload ''overflow_l'') to_float) (\<lambda>overflow.
       Inr \<lparr>pst_tank_volume_l = volume, pst_duty_running = truthy duty,
            pst_standby_running = truthy standby, pst_energy_kwh = energy,
            pst_duty_starts = duty_starts, pst_standby_starts = standby_starts,
            pst_unmet_demand_l = unmet, pst_overflow_l = overflow\<rparr>))))))))"

record water_scenario =
  wsc_scenario_id :: string
  wsc_duration_s :: int
  wsc_step_s :: int
  wsc_initial_level_pct :: pyfloat
  wsc_demand_profile :: "(int \<times> int \<times> pyfloat) list"
  wsc_power_outages :: "(int \<times> int) list"
  wsc_stale_windows :: "(int \<times> int) list"
  wsc_conflict_windows :: "(int \<times> int) list"
  wsc_restart_at_s :: "int option"
  wsc_observed_demand_scale :: pyfloat
  wsc_randomized :: bool
  wsc_seed :: "int option"

record scenario_outcome =
  wr_scenario_id :: string
  wr_planner_id :: string
  wr_steps :: int
  wr_initial_level_pct :: pyfloat
  wr_final_level_pct :: pyfloat
  wr_energy_kwh :: pyfloat
  wr_pump_starts :: int
  wr_unmet_demand_l :: pyfloat
  wr_overflow_l :: pyfloat
  wr_emergency_steps :: int
  wr_degraded_steps :: int
  wr_safety_interventions :: "(string, int) dict"
  wr_safety_violations :: "string list"
  wr_sequence_end :: int
  wr_journal_tail_hash :: string
  wr_restart_performed :: bool
  wr_randomized :: bool
  wr_seed :: "int option"

section \<open>Round trips\<close>

lemma item_JObj [simp]: "item (JObj d) k = obj_at d k"
  by (simp add: item_def)

lemma controller_state_roundtrip:
  "controller_state_from_dict (controller_state_as_dict s) = Inr s"
  by (simp add: controller_state_from_dict_def controller_state_as_dict_def)

lemma plant_state_roundtrip: "plant_state_from_dict (plant_state_as_dict p) = Inr p"
  by (simp add: plant_state_from_dict_def plant_state_as_dict_def)

end
