(* ===== verification/WaterSafety.thy ===== *)
theory WaterSafety
  imports WaterModel
begin

text \<open>
  \<^verbatim>\<open>water_control/safety.py\<close>: the kernel that turns a proposal, a telemetry sample and the
  controller's state into an authorised pump command.  Whatever the planner proposes, the command
  respects the interlocks, the dwell times, and never runs the standby pump alone.
\<close>

definition hold :: "controller_state \<Rightarrow> control_mode \<Rightarrow> string \<Rightarrow> adjudication" where
  "hold state mode reason = Adjudication (cst_duty_on state) (cst_standby_on state) mode [reason]"

definition apply_dwell ::
  "system_config \<Rightarrow> bool \<Rightarrow> bool \<Rightarrow> int \<Rightarrow> int \<Rightarrow> bool \<times> string option" where
  "apply_dwell config requested current last_changed_s now_s =
     (if requested = current then (current, None)
      else
        let elapsed = now_s - last_changed_s;
            minimum = (if current then min_on_s config else min_off_s config)
        in if elapsed < minimum
           then (current, Some (''minimum dwell retained for '' @ int_str (minimum - elapsed) @ ''s''))
           else (requested, None))"

definition invalid_sample :: "telemetry_sample \<Rightarrow> bool" where
  "invalid_sample sample \<longleftrightarrow>
     \<not> (isfinite (tank_level_pct sample) \<and> isfinite (demand_lps sample)) \<or>
     \<not> (Fin 0 \<le> tank_level_pct sample \<and> tank_level_pct sample \<le> Fin 100) \<or>
     demand_lps sample < Fin 0"

text \<open>The part of \<open>authorize\<close> that weighs a proposal on good telemetry inside the tank limits.\<close>

definition adjudicate_proposal ::
  "system_config \<Rightarrow> planner_proposal \<Rightarrow> controller_state \<Rightarrow> int \<Rightarrow> adjudication" where
  "adjudicate_proposal config proposal state now_s =
     (let lone = pp_standby_on proposal \<and> \<not> pp_duty_on proposal;
          duty0 = (pp_duty_on proposal \<or> lone);
          reasons0 = (if lone then [''standby requires duty''] else []);
          (duty1, duty_reason) = apply_dwell config duty0 (cst_duty_on state)
             (cst_duty_last_changed_s state) now_s;
          (standby1, standby_reason) = apply_dwell config (pp_standby_on proposal)
             (cst_standby_on state) (cst_standby_last_changed_s state) now_s;
          reasons1 = reasons0
             @ (case duty_reason of None \<Rightarrow> [] | Some r \<Rightarrow> [''duty '' @ r])
             @ (case standby_reason of None \<Rightarrow> [] | Some r \<Rightarrow> [''standby '' @ r]);
          removed = standby1 \<and> \<not> duty1;
          standby2 = (standby1 \<and> \<not> removed);
          reasons2 = reasons1
             @ (if removed then [''standby removed after duty dwell adjudication''] else []);
          reasons = (if reasons2 = [] then [''proposal accepted''] else reasons2)
      in Adjudication duty1 standby2 NORMAL reasons)"

definition authorize ::
  "system_config \<Rightarrow> planner_proposal \<Rightarrow> telemetry_sample \<Rightarrow> controller_state \<Rightarrow> int \<Rightarrow> adjudication" where
  "authorize config proposal sample state now_s =
     (if invalid_sample sample then hold state HOLD ''invalid telemetry''
      else if sample_quality sample \<noteq> GOOD then
        hold state DEGRADED ''telemetry quality is not GOOD''
      else if telemetry_max_age_s config < age_s sample then
        hold state DEGRADED ''telemetry exceeds freshness limit''
      else if \<not> power_available sample then
        Adjudication False False EMERGENCY [''power unavailable'']
      else if high_high_pct config \<le> tank_level_pct sample then
        Adjudication False False EMERGENCY [''high-high tank level'']
      else if tank_level_pct sample \<le> low_low_pct config then
        Adjudication True True EMERGENCY [''low-low tank level'']
      else adjudicate_proposal config proposal state now_s)"

section \<open>What the kernel guarantees\<close>

definition trustworthy :: "system_config \<Rightarrow> telemetry_sample \<Rightarrow> bool" where
  "trustworthy config sample \<longleftrightarrow> \<not> invalid_sample sample \<and> sample_quality sample = GOOD \<and>
     age_s sample \<le> telemetry_max_age_s config"

lemma authorize_untrusted:
  "\<not> trustworthy config sample \<Longrightarrow>
     ad_duty_on (authorize config proposal sample state now_s) = cst_duty_on state \<and>
     ad_standby_on (authorize config proposal sample state now_s) = cst_standby_on state \<and>
     ad_mode (authorize config proposal sample state now_s) \<in> {DEGRADED, HOLD}"
  by (auto simp: trustworthy_def authorize_def hold_def Adjudication_def)

lemma authorize_off:
  "trustworthy config sample \<Longrightarrow>
     \<not> power_available sample \<or> high_high_pct config \<le> tank_level_pct sample \<Longrightarrow>
     \<not> ad_duty_on (authorize config proposal sample state now_s) \<and>
     \<not> ad_standby_on (authorize config proposal sample state now_s) \<and>
     ad_mode (authorize config proposal sample state now_s) = EMERGENCY"
  by (auto simp: trustworthy_def authorize_def Adjudication_def)

lemma authorize_low:
  "trustworthy config sample \<Longrightarrow> power_available sample \<Longrightarrow>
     \<not> high_high_pct config \<le> tank_level_pct sample \<Longrightarrow>
     tank_level_pct sample \<le> low_low_pct config \<Longrightarrow>
     ad_duty_on (authorize config proposal sample state now_s) \<and>
     ad_standby_on (authorize config proposal sample state now_s)"
  by (auto simp: trustworthy_def authorize_def Adjudication_def)

lemma authorize_standby:
  assumes "cst_standby_on state \<Longrightarrow> cst_duty_on state"
  shows "ad_standby_on (authorize config proposal sample state now_s) \<Longrightarrow>
    ad_duty_on (authorize config proposal sample state now_s)"
  using assms
  by (auto simp: authorize_def hold_def Adjudication_def adjudicate_proposal_def Let_def
      split: prod.splits if_splits)

lemma apply_dwell_change:
  "fst (apply_dwell config requested current changed_at now_s) \<noteq> current \<Longrightarrow>
     fst (apply_dwell config requested current changed_at now_s) = requested \<and>
     (if current then min_on_s config else min_off_s config) \<le> now_s - changed_at"
  by (auto simp: apply_dwell_def Let_def split: if_splits)

lemma authorize_dwell_duty:
  assumes "ad_mode (authorize config proposal sample state now_s) \<noteq> EMERGENCY"
    and "ad_duty_on (authorize config proposal sample state now_s) \<noteq> cst_duty_on state"
  shows "(if cst_duty_on state then min_on_s config else min_off_s config)
    \<le> now_s - cst_duty_last_changed_s state"
  using assms
  by (auto simp: authorize_def hold_def Adjudication_def adjudicate_proposal_def Let_def
      apply_dwell_def split: if_splits)

text \<open>Starting the standby pump waits for its dwell time too; stopping it can also be forced by
  the duty pump being held off.\<close>

lemma authorize_dwell_standby:
  assumes "ad_mode (authorize config proposal sample state now_s) \<noteq> EMERGENCY"
    and "cst_standby_on state \<Longrightarrow> cst_duty_on state"
    and "ad_standby_on (authorize config proposal sample state now_s)" and "\<not> cst_standby_on state"
  shows "min_off_s config \<le> now_s - cst_standby_last_changed_s state"
  using assms
  by (auto simp: authorize_def hold_def Adjudication_def adjudicate_proposal_def Let_def
      apply_dwell_def split: if_splits)

end
