(* ===== verification/WaterPlanner.thy ===== *)
theory WaterPlanner
  imports WaterSafety
begin

text \<open>
  \<^verbatim>\<open>water_control/planner.py\<close> and the machine-generated \<^verbatim>\<open>machine/generated_planner.py\<close>: the two
  planners.  The locale \<open>water_planner\<close> is the protocol \<open>Planner\<close> as the controller relies on it:
  a proposal always comes back and carries the planner's identity.
\<close>

record planner =
  planner_id :: string
  plan :: "telemetry_sample \<Rightarrow> controller_state \<Rightarrow> system_config \<Rightarrow> planner_proposal res"

locale water_planner =
  fixes pl :: planner
  assumes plan_returns: "\<exists>proposal. plan pl sample state config = Inr proposal \<and>
      pp_planner_id proposal = planner_id pl"

section \<open>The readable baseline\<close>

definition baseline_pumps :: "telemetry_sample \<Rightarrow> controller_state \<Rightarrow> bool \<times> bool" where
  "baseline_pumps sample state =
     (if \<not> power_available sample then (False, False)
      else if tank_level_pct sample < Fin 30 then (True, fl (9 / 2) \<le> demand_lps sample)
      else if tank_level_pct sample < Fin 45 then (True, False)
      else if Fin 55 < tank_level_pct sample then (False, False)
      else (cst_duty_on state, cst_standby_on state))"

definition ReadableBaselinePlanner :: planner where
  "ReadableBaselinePlanner =
     \<lparr>planner_id = ''mncs.remote-water.readable-baseline.v1'',
      plan = (\<lambda>sample state config.
        let (duty, standby) = baseline_pumps sample state in
        Inr \<lparr>pp_duty_on = duty, pp_standby_on = standby,
             pp_reason = ''readable narrow-band threshold policy'',
             pp_planner_id = ''mncs.remote-water.readable-baseline.v1''\<rparr>)\<rparr>"

section \<open>The generated table\<close>

definition LEVEL_BANDS_PCT :: "pyfloat list" where
  "LEVEL_BANDS_PCT = [Fin 15, Fin 35, Fin 50, Fin 65, Fin 75, Fin 90]"

definition DEMAND_BANDS_LPS :: "pyfloat list" where
  "DEMAND_BANDS_LPS = [Fin (5 / 2), Fin (9 / 2)]"

definition decision :: "int \<Rightarrow> int \<Rightarrow> int \<Rightarrow> int \<Rightarrow> int \<Rightarrow> int \<Rightarrow> bool \<times> bool" where
  "decision level demand duty standby powered quality =
     (let high_demand = demand = 2 in
      if powered = 0 then (False, False)
      else if quality \<noteq> 0 then (duty \<noteq> 0, standby \<noteq> 0)
      else if level = 0 then (True, True)
      else if level \<in> {1, 2} then (True, standby \<noteq> 0 \<and> high_demand)
      else if level = 3 then (duty \<noteq> 0, standby \<noteq> 0 \<and> high_demand)
      else if level = 4 then (duty \<noteq> 0 \<and> high_demand, standby \<noteq> 0 \<and> high_demand)
      else (False, False))"

text \<open>One \<open>for\<close> clause of the table's generator expression.\<close>

definition rows :: "nat \<Rightarrow> (int \<Rightarrow> 'a list) \<Rightarrow> 'a list" where
  "rows n f = concat (map f (map int [0 ..< n]))"

definition DECISION_TABLE :: "(bool \<times> bool) list" where
  "DECISION_TABLE =
     rows 7 (\<lambda>level. rows 3 (\<lambda>demand. rows 2 (\<lambda>duty. rows 2 (\<lambda>standby. rows 2 (\<lambda>powered.
       rows 3 (\<lambda>quality. [decision level demand duty standby powered quality]))))))"

text \<open>\<open>bisect.bisect_right\<close>, the binary search of the standard library.\<close>

function bisect_between :: "pyfloat list \<Rightarrow> pyfloat \<Rightarrow> nat \<Rightarrow> nat \<Rightarrow> nat" where
  "bisect_between a x lo hi =
     (if lo < hi then
        (let mid = (lo + hi) div 2 in
         if x < a ! mid then bisect_between a x lo mid else bisect_between a x (mid + 1) hi)
      else lo)"
  by pat_completeness auto
termination
  by (relation "measure (\<lambda>(a, x, lo, hi). hi - lo)") auto

declare bisect_between.simps [simp del]

definition bisect_right :: "pyfloat list \<Rightarrow> pyfloat \<Rightarrow> int" where
  "bisect_right a x = int (bisect_between a x 0 (length a))"

fun quality_index :: "quality \<Rightarrow> int" where
  "quality_index GOOD = 0"
| "quality_index STALE = 1"
| "quality_index CONFLICT = 2"

definition table_index :: "telemetry_sample \<Rightarrow> controller_state \<Rightarrow> int" where
  "table_index sample state =
     (let i0 = bisect_right LEVEL_BANDS_PCT (tank_level_pct sample);
          i1 = i0 * 3 + bisect_right DEMAND_BANDS_LPS (demand_lps sample);
          i2 = i1 * 2 + of_bool (cst_duty_on state);
          i3 = i2 * 2 + of_bool (cst_standby_on state);
          i4 = i3 * 2 + of_bool (power_available sample)
      in i4 * 3 + quality_index (sample_quality sample))"

definition GeneratedTablePlanner :: planner where
  "GeneratedTablePlanner =
     \<lparr>planner_id = ''mncs.remote-water.generated-table.v1'',
      plan = (\<lambda>sample state config.
        let index = table_index sample state in
        bind_res (list_at DECISION_TABLE index) (\<lambda>(duty, standby).
          Inr \<lparr>pp_duty_on = duty, pp_standby_on = standby,
               pp_reason = ''generated decision table entry '' @ int_str index,
               pp_planner_id = ''mncs.remote-water.generated-table.v1''\<rparr>))\<rparr>"

section \<open>The search\<close>

text \<open>On an ascending list of finite floats the search counts the elements not above \<open>x\<close>.\<close>

lemma bisect_between_bounds:
  "lo \<le> hi \<Longrightarrow> lo \<le> bisect_between a x lo hi \<and> bisect_between a x lo hi \<le> hi"
proof (induction a x lo hi rule: bisect_between.induct)
  case (1 a x lo hi)
  show ?case
  proof (cases "lo < hi")
    case False
    with 1(3) show ?thesis by (simp add: bisect_between.simps)
  next
    case True
    then have "(lo + hi) div 2 < hi" "lo \<le> (lo + hi) div 2" by auto
    with True 1 show ?thesis
      by (cases "x < a ! ((lo + hi) div 2)")
         (fastforce simp: bisect_between.simps [of a x lo hi] Let_def)+
  qed
qed

lemma bisect_right_range: "0 \<le> bisect_right a x" "bisect_right a x \<le> int (length a)"
  using bisect_between_bounds [of 0 "length a" a x] by (simp_all add: bisect_right_def)

text \<open>The search splits the list: nothing before the result is above \<open>x\<close>, everything after is.\<close>

lemma bisect_between_splits:
  assumes "\<forall>i j. i \<le> j \<longrightarrow> j < length a \<longrightarrow> x < a ! i \<longrightarrow> x < a ! j"
    and "lo \<le> hi" and "hi \<le> length a"
  shows "(\<forall>i. lo \<le> i \<and> i < bisect_between a x lo hi \<longrightarrow> \<not> x < a ! i) \<and>
    (\<forall>i. bisect_between a x lo hi \<le> i \<and> i < hi \<longrightarrow> x < a ! i)"
  using assms
proof (induction a x lo hi rule: bisect_between.induct)
  case (1 a x lo hi)
  show ?case
  proof (cases "lo < hi")
    case False
    then show ?thesis by (auto simp: bisect_between.simps)
  next
    case lt: True
    let ?mid = "(lo + hi) div 2"
    have mid: "?mid < hi" "lo \<le> ?mid" using lt by auto
    show ?thesis
    proof (cases "x < a ! ?mid")
      case True
      have eq: "bisect_between a x lo hi = bisect_between a x lo ?mid"
        using lt True by (simp add: bisect_between.simps [of a x lo hi])
      have IH: "(\<forall>i. lo \<le> i \<and> i < bisect_between a x lo ?mid \<longrightarrow> \<not> x < a ! i) \<and>
          (\<forall>i. bisect_between a x lo ?mid \<le> i \<and> i < ?mid \<longrightarrow> x < a ! i)"
        by (rule 1(1) [OF lt refl True]) (use 1(3,5) mid in auto)
      have above: "x < a ! i" if "?mid \<le> i" "i < hi" for i
        using 1(3) True that 1(5) by auto
      show ?thesis
        unfolding eq using IH above by (meson not_le)
    next
      case False
      have eq: "bisect_between a x lo hi = bisect_between a x (?mid + 1) hi"
        using lt False by (simp add: bisect_between.simps [of a x lo hi])
      have IH: "(\<forall>i. ?mid + 1 \<le> i \<and> i < bisect_between a x (?mid + 1) hi \<longrightarrow> \<not> x < a ! i) \<and>
          (\<forall>i. bisect_between a x (?mid + 1) hi \<le> i \<and> i < hi \<longrightarrow> x < a ! i)"
        by (rule 1(2) [OF lt refl False]) (use 1(3,5) mid in auto)
      have below: "\<not> x < a ! i" if "i \<le> ?mid" for i
        using 1(3) False that mid 1(5) by (meson less_le_trans)
      show ?thesis
        unfolding eq using IH below by (metis Suc_eq_plus1 not_less_eq_eq)
    qed
  qed
qed

lemma bisect_right_count:
  assumes "sorted qs"
  shows "bisect_right (map Fin qs) (Fin x) = int (length (filter (\<lambda>q. q \<le> x) qs))"
proof -
  let ?r = "bisect_between (map Fin qs) (Fin x) 0 (length (map Fin qs))"
  have r: "?r \<le> length qs" using bisect_between_bounds [of 0 "length (map Fin qs)"] by simp
  have "\<forall>i j. i \<le> j \<longrightarrow> j < length (map Fin qs) \<longrightarrow> Fin x < map Fin qs ! i \<longrightarrow> Fin x < map Fin qs ! j"
  proof (intro allI impI)
    fix i j :: nat
    assume ij: "i \<le> j" "j < length (map Fin qs)" "Fin x < map Fin qs ! i"
    then have "qs ! i \<le> qs ! j" using assms by (simp add: sorted_nth_mono)
    with ij show "Fin x < map Fin qs ! j" by simp
  qed
  from bisect_between_splits [OF this, of 0 "length (map Fin qs)"]
  have below: "\<forall>i < ?r. qs ! i \<le> x" and above: "\<forall>i. ?r \<le> i \<and> i < length qs \<longrightarrow> x < qs ! i"
    using r by (auto simp: not_less dest: order_less_le_trans)
  have "filter (\<lambda>q. q \<le> x) qs = filter (\<lambda>q. q \<le> x) (take ?r qs) @ filter (\<lambda>q. q \<le> x) (drop ?r qs)"
    by (metis append_take_drop_id filter_append)
  also have "filter (\<lambda>q. q \<le> x) (take ?r qs) = take ?r qs"
    using below r by (auto simp: filter_id_conv in_set_conv_nth)
  also have "filter (\<lambda>q. q \<le> x) (drop ?r qs) = []"
    using above r by (auto simp: filter_empty_conv in_set_conv_nth not_le)
  finally show ?thesis using r by (simp add: bisect_right_def)
qed

section \<open>The table\<close>

lemma rows_length:
  assumes "\<And>i. length (f i) = k"
  shows "length (rows n f) = n * k"
  using assms by (simp add: rows_def length_concat o_def sum_list_triv)

lemma rows_nth:
  assumes "\<And>i. length (f i) = k" and "i < n" and "j < k"
  shows "rows n f ! (i * k + j) = f (int i) ! j"
  using assms(2)
proof (induction n arbitrary: i)
  case 0
  then show ?case by simp
next
  case (Suc n)
  have split: "rows (Suc n) f = rows n f @ f (int n)" by (simp add: rows_def)
  have len: "length (rows n f) = n * k" by (rule rows_length [OF assms(1)])
  show ?case
  proof (cases "i = n")
    case True
    then show ?thesis by (simp add: split nth_append len)
  next
    case False
    with Suc.prems have "i < n" by simp
    then have "Suc i * k \<le> n * k" by (intro mult_le_mono1) simp
    with assms(3) have "i * k + j < n * k" by simp
    with \<open>i < n\<close> show ?thesis using Suc.IH by (simp add: split nth_append len)
  qed
qed

lemma DECISION_TABLE_length: "length DECISION_TABLE = 504"
  unfolding DECISION_TABLE_def by (simp add: rows_length [where k = 72] rows_length [where k = 24]
      rows_length [where k = 12] rows_length [where k = 6] rows_length [where k = 3]
      rows_length [where k = 1])

lemma table_bound:
  "(((((l * 3 + d) * 2 + a) * 2 + b) * 2 + p) * 3 + q) < 504"
  if "l < 7" "d < 3" "a < 2" "b < 2" "p < 2" "q < 3" for l d a b p q :: nat
  using that by simp

text \<open>The flat index addresses the entry of its six coordinates.\<close>

lemma DECISION_TABLE_nth:
  assumes "l < 7" and "d < 3" and "a < 2" and "b < 2" and "p < 2" and "q < 3"
  shows "DECISION_TABLE ! (((((l * 3 + d) * 2 + a) * 2 + b) * 2 + p) * 3 + q) =
    decision (int l) (int d) (int a) (int b) (int p) (int q)"
proof -
  define f5 where "f5 l d a b p = rows 3 (\<lambda>q. [decision l d a b p q])" for l d a b p
  define f4 where "f4 l d a b = rows 2 (f5 l d a b)" for l d a b
  define f3 where "f3 l d a = rows 2 (f4 l d a)" for l d a
  define f2 where "f2 l d = rows 2 (f3 l d)" for l d
  define f1 where "f1 l = rows 3 (f2 l)" for l
  have l5: "length (f5 l d a b p) = 3" for l d a b p by (simp add: f5_def rows_length [where k = 1])
  have l4: "length (f4 l d a b) = 6" for l d a b by (simp add: f4_def rows_length [OF l5])
  have l3: "length (f3 l d a) = 12" for l d a by (simp add: f3_def rows_length [OF l4])
  have l2: "length (f2 l d) = 24" for l d by (simp add: f2_def rows_length [OF l3])
  have l1: "length (f1 l) = 72" for l by (simp add: f1_def rows_length [OF l2])
  have table: "DECISION_TABLE = rows 7 f1"
    unfolding DECISION_TABLE_def f1_def f2_def f3_def f4_def f5_def ..
  have j2: "p * 3 + q < 6" and j3: "b * 6 + (p * 3 + q) < 12"
    and j4: "a * 12 + (b * 6 + (p * 3 + q)) < 24"
    and j5: "d * 24 + (a * 12 + (b * 6 + (p * 3 + q))) < 72"
    using assms(2-6) by linarith+
  have "((((l * 3 + d) * 2 + a) * 2 + b) * 2 + p) * 3 + q =
      l * 72 + (d * 24 + (a * 12 + (b * 6 + (p * 3 + q))))" by (simp add: algebra_simps)
  then have "DECISION_TABLE ! (((((l * 3 + d) * 2 + a) * 2 + b) * 2 + p) * 3 + q) =
      rows 7 f1 ! (l * 72 + (d * 24 + (a * 12 + (b * 6 + (p * 3 + q)))))"
    by (simp only: table)
  also have "\<dots> = f1 (int l) ! (d * 24 + (a * 12 + (b * 6 + (p * 3 + q))))"
    by (rule rows_nth [OF l1 assms(1) j5])
  also have "\<dots> = f2 (int l) (int d) ! (a * 12 + (b * 6 + (p * 3 + q)))"
    unfolding f1_def by (rule rows_nth [OF l2 assms(2) j4])
  also have "\<dots> = f3 (int l) (int d) (int a) ! (b * 6 + (p * 3 + q))"
    unfolding f2_def by (rule rows_nth [OF l3 assms(3) j3])
  also have "\<dots> = f4 (int l) (int d) (int a) (int b) ! (p * 3 + q)"
    unfolding f3_def by (rule rows_nth [OF l4 assms(4) j2])
  also have "\<dots> = f5 (int l) (int d) (int a) (int b) (int p) ! q"
    unfolding f4_def by (rule rows_nth [OF l5 assms(5,6)])
  also have "\<dots> = [decision (int l) (int d) (int a) (int b) (int p) (int q)] ! 0"
    unfolding f5_def using rows_nth [of "\<lambda>q. [decision (int l) (int d) (int a) (int b) (int p) q]" 1 q 3 0]
      assms(6) by simp
  finally show ?thesis by simp
qed

lemma table_lookup:
  "list_at DECISION_TABLE (table_index sample state) = Inr (decision
     (bisect_right LEVEL_BANDS_PCT (tank_level_pct sample))
     (bisect_right DEMAND_BANDS_LPS (demand_lps sample))
     (of_bool (cst_duty_on state)) (of_bool (cst_standby_on state))
     (of_bool (power_available sample)) (quality_index (sample_quality sample)))"
proof -
  let ?l = "nat (bisect_right LEVEL_BANDS_PCT (tank_level_pct sample))"
  let ?d = "nat (bisect_right DEMAND_BANDS_LPS (demand_lps sample))"
  let ?a = "of_bool (cst_duty_on state) :: nat" and ?b = "of_bool (cst_standby_on state) :: nat"
  let ?p = "of_bool (power_available sample) :: nat"
  let ?q = "nat (quality_index (sample_quality sample))"
  let ?n = "((((?l * 3 + ?d) * 2 + ?a) * 2 + ?b) * 2 + ?p) * 3 + ?q"
  have l: "int ?l = bisect_right LEVEL_BANDS_PCT (tank_level_pct sample)" "?l < 7"
    using bisect_right_range [of LEVEL_BANDS_PCT "tank_level_pct sample"]
    by (auto simp: LEVEL_BANDS_PCT_def)
  have d: "int ?d = bisect_right DEMAND_BANDS_LPS (demand_lps sample)" "?d < 3"
    using bisect_right_range [of DEMAND_BANDS_LPS "demand_lps sample"]
    by (auto simp: DEMAND_BANDS_LPS_def)
  have q: "int ?q = quality_index (sample_quality sample)" "?q < 3"
    by (cases "sample_quality sample"; simp)+
  have abp: "?a < 2" "?b < 2" "?p < 2" by simp_all
  have index: "table_index sample state = int ?n"
    using l(1) d(1) q(1) by (simp add: table_index_def Let_def)
  have "?n < length DECISION_TABLE"
    unfolding DECISION_TABLE_length by (rule table_bound [OF l(2) d(2) abp q(2)])
  then have "list_at DECISION_TABLE (int ?n) = Inr (DECISION_TABLE ! ?n)" by (rule list_at_nat)
  with DECISION_TABLE_nth [OF l(2) d(2) abp q(2)] l(1) d(1) q(1) show ?thesis
    by (simp add: index)
qed

section \<open>The planners keep the protocol\<close>

interpretation baseline: water_planner ReadableBaselinePlanner
  by unfold_locales (simp add: ReadableBaselinePlanner_def split: prod.splits)

interpretation table: water_planner GeneratedTablePlanner
  by unfold_locales (simp add: GeneratedTablePlanner_def Let_def table_lookup split: prod.splits)

end
