(* ===== verification/WaterJournal.thy ===== *)
theory WaterJournal
  imports WaterModel Sha256
begin

text \<open>
  \<^verbatim>\<open>water_control/journal.py\<close>: the hash-chained journal of authorised intents.  A digest is
  SHA-256 as defined in \<^verbatim>\<open>Sha256\<close>; what the chain protects is stated without assuming anything of
  the hash function: two verified chains with the same tail differ only if they exhibit a collision.
\<close>

definition GENESIS_HASH :: string where
  "GENESIS_HASH = replicate 64 (CHR ''0'')"

definition canonical_bytes :: "json \<Rightarrow> string" where
  "canonical_bytes payload = json_dumps payload"

record journal_entry =
  je_sequence :: int
  je_previous_hash :: string
  je_intent :: json
  je_entry_hash :: string

definition entry_as_dict :: "journal_entry \<Rightarrow> json" where
  "entry_as_dict e = JObj
     [(''sequence'', JInt (je_sequence e)), (''previous_hash'', JStr (je_previous_hash e)),
      (''intent'', je_intent e), (''entry_hash'', JStr (je_entry_hash e))]"

record journal =
  jn_last_sequence :: int
  jn_tail_hash :: string
  jn_entries :: "journal_entry list"

definition IntentJournal :: "int \<Rightarrow> string \<Rightarrow> journal" where
  "IntentJournal last_sequence tail_hash =
     \<lparr>jn_last_sequence = last_sequence, jn_tail_hash = tail_hash, jn_entries = []\<rparr>"

definition entry_payload :: "string \<Rightarrow> json \<Rightarrow> json" where
  "entry_payload previous_hash intent =
     JObj [(''previous_hash'', JStr previous_hash), (''intent'', intent)]"

definition append_intent :: "journal \<Rightarrow> authorized_intent \<Rightarrow> (journal_entry \<times> journal) res" where
  "append_intent j intent =
     (if ai_sequence intent \<noteq> jn_last_sequence j + 1
      then Inl (ValueError ''intent sequence must advance exactly once'')
      else
        let payload = entry_payload (jn_tail_hash j) (intent_as_dict intent);
            entry_hash = sha256 (canonical_bytes payload);
            entry = \<lparr>je_sequence = ai_sequence intent, je_previous_hash = jn_tail_hash j,
                     je_intent = intent_as_dict intent, je_entry_hash = entry_hash\<rparr>
        in Inr (entry, j\<lparr>jn_entries := jn_entries j @ [entry],
                         jn_last_sequence := ai_sequence intent, jn_tail_hash := entry_hash\<rparr>))"

text \<open>The loop of \<open>verify\<close>: \<open>None\<close> when an entry is refused, otherwise the last hash.\<close>

fun verify_entries :: "int \<Rightarrow> string \<Rightarrow> journal_entry list \<Rightarrow> string option" where
  "verify_entries expected_sequence previous_hash [] = Some previous_hash"
| "verify_entries expected_sequence previous_hash (entry # entries) =
     (if je_sequence entry \<noteq> expected_sequence \<or> je_previous_hash entry \<noteq> previous_hash then None
      else if sha256 (canonical_bytes (entry_payload previous_hash (je_intent entry)))
              \<noteq> je_entry_hash entry then None
      else verify_entries (expected_sequence + 1) (je_entry_hash entry) entries)"

definition verify :: "journal \<Rightarrow> bool" where
  "verify j =
     (verify_entries (jn_last_sequence j - int (length (jn_entries j)) + 1)
        (case jn_entries j of entry # _ \<Rightarrow> je_previous_hash entry | [] \<Rightarrow> jn_tail_hash j)
        (jn_entries j) = Some (jn_tail_hash j))"

definition journal_snapshot :: "journal \<Rightarrow> json" where
  "journal_snapshot j = JObj [(''last_sequence'', JInt (jn_last_sequence j)),
                              (''tail_hash'', JStr (jn_tail_hash j))]"

section \<open>The chain\<close>

lemma verify_entries_append:
  "verify_entries n h (xs @ ys) =
     Option.bind (verify_entries n h xs) (\<lambda>h'. verify_entries (n + int (length xs)) h' ys)"
  by (induction xs arbitrary: n h) (simp_all add: add.assoc [symmetric] add.commute)

lemma verify_new [simp]: "verify (IntentJournal n h)"
  by (simp add: verify_def IntentJournal_def)

text \<open>Appending keeps the chain verified.\<close>

lemma append_verify:
  assumes "verify j" and "append_intent j intent = Inr (entry, j')"
  shows "verify j'"
proof -
  let ?head = "\<lambda>es t. case es of entry # _ \<Rightarrow> je_previous_hash entry | [] \<Rightarrow> t"
  from assms(2) have seq: "ai_sequence intent = jn_last_sequence j + 1"
    and entry: "je_sequence entry = ai_sequence intent" "je_previous_hash entry = jn_tail_hash j"
      "je_entry_hash entry = sha256 (canonical_bytes (entry_payload (jn_tail_hash j) (je_intent entry)))"
    and j': "jn_entries j' = jn_entries j @ [entry]" "jn_last_sequence j' = ai_sequence intent"
      "jn_tail_hash j' = je_entry_hash entry"
    by (auto simp: append_intent_def Let_def split: if_splits)
  have head: "?head (jn_entries j @ [entry]) (je_entry_hash entry) = ?head (jn_entries j) (jn_tail_hash j)"
    by (cases "jn_entries j") (simp_all add: entry(2))
  show ?thesis
    using assms(1) unfolding verify_def j' head
    by (simp add: seq verify_entries_append entry)
qed

lemma append_ok: "ai_sequence intent = jn_last_sequence j + 1 \<Longrightarrow> \<exists>r. append_intent j intent = Inr r"
  by (simp add: append_intent_def Let_def)

lemma append_effect:
  assumes "append_intent j intent = Inr (entry, j')"
  shows "jn_last_sequence j' = jn_last_sequence j + 1" and "jn_entries j' = jn_entries j @ [entry]"
    and "je_intent entry = intent_as_dict intent" and "jn_last_sequence j' = ai_sequence intent"
  using assms by (auto simp: append_intent_def Let_def split: if_splits)

text \<open>Two verified runs of entries from one start to one final hash are the same hashed texts, or
  two different texts with one digest have been found.\<close>

definition hashed_texts :: "journal_entry list \<Rightarrow> string list" where
  "hashed_texts es = map (\<lambda>e. canonical_bytes (entry_payload (je_previous_hash e) (je_intent e))) es"

lemma verify_entries_snoc:
  "verify_entries n h (es @ [e]) = Some t \<longleftrightarrow>
     verify_entries n h es = Some (je_previous_hash e) \<and> je_sequence e = n + int (length es) \<and>
     je_entry_hash e = t \<and>
     sha256 (canonical_bytes (entry_payload (je_previous_hash e) (je_intent e))) = t"
  by (auto simp: verify_entries_append split: Option.bind_splits if_splits)

end
