(* ===== verification/WaterCheckpoint.thy ===== *)
theory WaterCheckpoint
  imports WaterJournal
begin

text \<open>
  \<^verbatim>\<open>water_control/checkpoint.py\<close>: the envelope of a checkpoint, a payload with the SHA-256 of its
  canonical bytes.  \<open>json.JSONDecodeError\<close>, \<open>KeyError\<close> and \<open>TypeError\<close> are turned into
  \<open>CheckpointError\<close>; any other exception of the parser escapes.  Writing to and reading from a
  file (\<open>write_checkpoint\<close>, \<open>read_checkpoint\<close>) is not modelled.
\<close>

definition CheckpointError :: "string \<Rightarrow> py_error" where
  "CheckpointError message = ValueError (''CheckpointError: '' @ message)"

definition encode_checkpoint :: "json \<Rightarrow> string" where
  "encode_checkpoint payload =
     (let digest = sha256 (canonical_bytes payload)
      in canonical_bytes (JObj [(''payload'', payload), (''sha256'', JStr digest)]))"

text \<open>The \<open>except (json.JSONDecodeError, KeyError, TypeError)\<close> clause.\<close>

definition envelope_error :: "py_error \<Rightarrow> py_error" where
  "envelope_error e =
     (if e = json_error \<or> (case e of KeyError m \<Rightarrow> True | TypeError m \<Rightarrow> True | _ \<Rightarrow> False)
      then CheckpointError ''checkpoint envelope is malformed'' else e)"

definition read_envelope :: "string \<Rightarrow> (json \<times> json) res" where
  "read_envelope data =
     (case bind_res (json_loads_bytes data) (\<lambda>envelope.
         bind_res (item envelope ''payload'') (\<lambda>payload.
         bind_res (item envelope ''sha256'') (\<lambda>expected. Inr (payload, expected)))) of
        Inl e \<Rightarrow> Inl (envelope_error e)
      | Inr r \<Rightarrow> Inr r)"

definition decode_checkpoint :: "string \<Rightarrow> json res" where
  "decode_checkpoint data =
     bind_res (read_envelope data) (\<lambda>(payload, expected).
       if JStr (sha256 (canonical_bytes payload)) \<noteq> expected
       then Inl (CheckpointError ''checkpoint digest mismatch'')
       else if \<not> is_dict payload
       then Inl (CheckpointError ''checkpoint payload must be an object'')
       else Inr payload)"

text \<open>Whatever is accepted carries the digest of its own canonical bytes.\<close>

lemma decode_checkpoint_digest:
  "decode_checkpoint data = Inr payload \<Longrightarrow>
     is_dict payload \<and> read_envelope data = Inr (payload, JStr (sha256 (canonical_bytes payload)))"
  by (auto simp: decode_checkpoint_def bind_res_eq_Inr split: if_splits)

end
