(* ===== verification/WaterController.thy ===== *)
theory WaterController
  imports WaterPlanner WaterCheckpoint
begin

text \<open>
  \<^verbatim>\<open>water_control/controller.py\<close>: the controller around a planner, its state, its journal and the
  counts of what the safety kernel did to the proposals; its checkpoint and the way back.
\<close>

record controller =
  ct_planner :: planner
  ct_config :: system_config
  ct_state :: controller_state
  ct_journal :: journal
  ct_counts :: "(string, int) dict"

definition initial_counts :: "(string, int) dict" where
  "initial_counts = [(''accepted'', 0), (''modified'', 0), (''held'', 0), (''rejected'', 0)]"

definition Controller ::
  "planner \<Rightarrow> system_config option \<Rightarrow> controller_state option \<Rightarrow> journal option \<Rightarrow>
   (string, int) dict option \<Rightarrow> controller" where
  "Controller planner config state journal intervention_counts =
     (let st = (case state of Some s \<Rightarrow> s | None \<Rightarrow> ControllerState) in
      \<lparr>ct_planner = planner,
       ct_config = (case config of Some c \<Rightarrow> c | None \<Rightarrow> SystemConfig),
       ct_state = st,
       ct_journal = (case journal of Some j \<Rightarrow> j
          | None \<Rightarrow> IntentJournal (cst_last_sequence st) GENESIS_HASH),
       ct_counts = (case intervention_counts of Some d \<Rightarrow> if d = [] then initial_counts else d
          | None \<Rightarrow> initial_counts)\<rparr>)"

definition classify_intervention :: "controller_state \<Rightarrow> planner_proposal \<Rightarrow> adjudication \<Rightarrow> string" where
  "classify_intervention state proposal adj =
     (let proposal_pair = (pp_duty_on proposal, pp_standby_on proposal);
          authorized_pair = (ad_duty_on adj, ad_standby_on adj);
          current_pair = (cst_duty_on state, cst_standby_on state)
      in if proposal_pair = authorized_pair then ''accepted''
         else if ad_mode adj \<in> {DEGRADED, HOLD} then ''held''
         else if (pp_duty_on proposal \<or> pp_standby_on proposal)
             \<and> \<not> (ad_duty_on adj \<or> ad_standby_on adj) then ''rejected''
         else if authorized_pair = current_pair then ''held''
         else ''modified'')"

definition apply_intent :: "authorized_intent \<Rightarrow> controller_state \<Rightarrow> controller_state" where
  "apply_intent intent state =
     state\<lparr>cst_duty_last_changed_s := (if ai_duty_on intent \<noteq> cst_duty_on state
             then ai_issued_at_s intent else cst_duty_last_changed_s state),
           cst_standby_last_changed_s := (if ai_standby_on intent \<noteq> cst_standby_on state
             then ai_issued_at_s intent else cst_standby_last_changed_s state),
           cst_duty_on := ai_duty_on intent,
           cst_standby_on := ai_standby_on intent,
           cst_last_sequence := ai_sequence intent,
           cst_last_mode := ai_mode intent\<rparr>"

definition decide ::
  "controller \<Rightarrow> telemetry_sample \<Rightarrow> int \<Rightarrow> (authorized_intent \<times> controller) res" where
  "decide c sample now_s =
     bind_res (plan (ct_planner c) sample (ct_state c) (ct_config c)) (\<lambda>proposal.
       let adj = authorize (ct_config c) proposal sample (ct_state c) now_s;
           outcome = classify_intervention (ct_state c) proposal adj
       in
       bind_res (dict_at outcome (ct_counts c) outcome) (\<lambda>count.
       let intent = \<lparr>ai_sequence = cst_last_sequence (ct_state c) + 1,
                     ai_issued_at_s = now_s,
                     ai_expires_at_s = now_s + intent_ttl_s (ct_config c),
                     ai_duty_on = ad_duty_on adj, ai_standby_on = ad_standby_on adj,
                     ai_mode = ad_mode adj, ai_planner_id = pp_planner_id proposal,
                     ai_proposal_reason = pp_reason proposal,
                     ai_safety_reasons = ad_reasons adj\<rparr>
       in
       bind_res (append_intent (ct_journal c) intent) (\<lambda>(entry, journal').
         Inr (intent, c\<lparr>ct_counts := dict_set outcome (count + 1) (ct_counts c),
                        ct_journal := journal',
                        ct_state := apply_intent intent (ct_state c)\<rparr>))))"

definition controller_payload :: "controller \<Rightarrow> json" where
  "controller_payload c = JObj
     [(''schema_version'', JStr ''0.2''),
      (''planner_id'', JStr (planner_id (ct_planner c))),
      (''controller_state'', controller_state_as_dict (ct_state c)),
      (''journal'', journal_snapshot (ct_journal c)),
      (''intervention_counts'', JObj (map (\<lambda>(k, n). (k, JInt n)) (ct_counts c)))]"

text \<open>\<open>{key: int(value) for key, value in payload.get("intervention_counts", {}).items()}\<close>\<close>

definition restored_counts :: "obj \<Rightarrow> (string, int) dict res" where
  "restored_counts payload =
     (case dict_get payload ''intervention_counts'' of
        None \<Rightarrow> Inr []
      | Some (JObj d) \<Rightarrow> map_res (\<lambda>(k, v). bind_res (to_int v) (\<lambda>n. Inr (k, n))) d
      | Some _ \<Rightarrow> Inl (AttributeError ''items''))"

definition restore_controller :: "planner \<Rightarrow> json \<Rightarrow> system_config option \<Rightarrow> controller res" where
  "restore_controller planner payload config =
     (case payload of
        JObj d \<Rightarrow>
          if get_or_null d ''planner_id'' \<noteq> JStr (planner_id planner)
          then Inl (ValueError ''checkpoint planner identity mismatch'')
          else
          bind_res (bind_res (obj_at d ''controller_state'') controller_state_from_dict) (\<lambda>state.
          bind_res (obj_at d ''journal'') (\<lambda>journal_payload.
          bind_res (bind_res (item journal_payload ''last_sequence'') to_int) (\<lambda>last_sequence.
          bind_res (item journal_payload ''tail_hash'') (\<lambda>tail_hash.
          if last_sequence \<noteq> cst_last_sequence state
          then Inl (ValueError ''checkpoint sequence mismatch'')
          else bind_res (restored_counts d) (\<lambda>counts.
            Inr (Controller planner config (Some state)
              (Some (IntentJournal last_sequence (py_str tail_hash)))
              (if counts = [] then None else Some counts)))))))
      | _ \<Rightarrow> Inl (AttributeError ''get''))"

end
