(* ===== verification/WaterSimulator.thy ===== *)
theory WaterSimulator
  imports WaterController
begin

text \<open>
  \<^verbatim>\<open>water_control/simulator.py\<close>: the plant, the scenario loop around one controller, and the
  restart through an encoded checkpoint.  Every float operation rounds like the source's.
\<close>

section \<open>The plant\<close>

record plant =
  plt_config :: system_config
  plt_state :: plant_state

definition at_level :: "system_config \<Rightarrow> pyfloat \<Rightarrow> plant res" where
  "at_level config level_pct =
     bind_res (fdiv (tank_capacity_l config * level_pct) (Fin 100)) (\<lambda>volume.
       Inr \<lparr>plt_config = config, plt_state = PlantState volume\<rparr>)"

definition plant_level :: "plant \<Rightarrow> pyfloat res" where
  "plant_level p =
     bind_res (fdiv (pst_tank_volume_l (plt_state p)) (tank_capacity_l (plt_config p))) (\<lambda>share.
       Inr (share * Fin 100))"

definition bool_float :: "bool \<Rightarrow> pyfloat" where
  "bool_float b = Fin (if b then 1 else 0)"

definition plant_step :: "bool \<Rightarrow> bool \<Rightarrow> pyfloat \<Rightarrow> bool \<Rightarrow> int \<Rightarrow> plant \<Rightarrow> plant res" where
  "plant_step duty_command standby_command demand powered duration_s p =
     (let cfg = plt_config p; st = plt_state p;
          duty_running = (duty_command \<and> powered);
          standby_running = (standby_command \<and> powered) in
      bind_res (float_of_int duration_s) (\<lambda>duration.
      bind_res (fdiv duration (Fin 3600)) (\<lambda>hours.
      let inflow_l = duration * (duty_flow_lps cfg * bool_float duty_running
                       + standby_flow_lps cfg * bool_float standby_running);
          demand_l = duration * demand;
          available_l = pst_tank_volume_l st + inflow_l;
          delivered_l = py_min available_l demand_l;
          next_volume_l = available_l - delivered_l;
          spills = tank_capacity_l cfg < next_volume_l
      in Inr (p\<lparr>plt_state := st\<lparr>
           pst_duty_starts := pst_duty_starts st
             + (if duty_running \<and> \<not> pst_duty_running st then 1 else 0),
           pst_standby_starts := pst_standby_starts st
             + (if standby_running \<and> \<not> pst_standby_running st then 1 else 0),
           pst_duty_running := duty_running,
           pst_standby_running := standby_running,
           pst_unmet_demand_l := pst_unmet_demand_l st + (demand_l - delivered_l),
           pst_overflow_l := (if spills
             then pst_overflow_l st + (next_volume_l - tank_capacity_l cfg) else pst_overflow_l st),
           pst_tank_volume_l := py_max (Fin 0)
             (if spills then tank_capacity_l cfg else next_volume_l),
           pst_energy_kwh := pst_energy_kwh st
             + hours * (duty_power_kw cfg * bool_float duty_running
                 + standby_power_kw cfg * bool_float standby_running)\<rparr>\<rparr>))))"

section \<open>The scenario's tables\<close>

definition inside :: "int \<Rightarrow> (int \<times> int) list \<Rightarrow> bool" where
  "inside now_s windows = list_ex (\<lambda>(start, end_s). start \<le> now_s \<and> now_s < end_s) windows"

fun demand_in :: "int \<Rightarrow> (int \<times> int \<times> pyfloat) list \<Rightarrow> pyfloat option" where
  "demand_in now_s [] = None"
| "demand_in now_s ((start, end_s, demand) # profile) =
     (if start \<le> now_s \<and> now_s < end_s then Some demand else demand_in now_s profile)"

definition demand_at :: "int \<Rightarrow> water_scenario \<Rightarrow> pyfloat res" where
  "demand_at now_s scenario =
     (case demand_in now_s (wsc_demand_profile scenario) of
        Some demand \<Rightarrow> Inr demand
      | None \<Rightarrow> Inl (ValueError (''scenario '' @ wsc_scenario_id scenario
                  @ '' has no demand value at '' @ int_str now_s)))"

definition checkpoint_payload :: "plant \<Rightarrow> controller \<Rightarrow> json" where
  "checkpoint_payload p c = JObj
     [(''schema_version'', JStr ''0.2''), (''plant_state'', plant_state_as_dict (plt_state p)),
      (''controller'', controller_payload c)]"

section \<open>One scenario\<close>

record sim_run =
  rs_plant :: plant
  rs_controller :: controller
  rs_last_good_level :: pyfloat
  rs_last_good_at_s :: int
  rs_previous_duty :: bool
  rs_previous_standby :: bool
  rs_emergency_steps :: int
  rs_degraded_steps :: int
  rs_violations :: "string list"
  rs_restarted :: bool

text \<open>The telemetry of one step: quality, level and time of the observation, and what is
  remembered as the last good reading.\<close>

definition observe :: "water_scenario \<Rightarrow> sim_run \<Rightarrow> int \<Rightarrow>
    (quality \<times> pyfloat \<times> int \<times> pyfloat \<times> int) res" where
  "observe scenario rs now_s =
     bind_res (plant_level (rs_plant rs)) (\<lambda>level.
       Inr (if inside now_s (wsc_stale_windows scenario) then
              (STALE, rs_last_good_level rs, rs_last_good_at_s rs,
               rs_last_good_level rs, rs_last_good_at_s rs)
            else if inside now_s (wsc_conflict_windows scenario) then
              (CONFLICT, py_min (Fin 100) (level + Fin 12), now_s,
               rs_last_good_level rs, rs_last_good_at_s rs)
            else (GOOD, level, now_s, level, now_s)))"

definition step_violations ::
  "system_config \<Rightarrow> bool \<Rightarrow> bool \<Rightarrow> telemetry_sample \<Rightarrow> authorized_intent \<Rightarrow> int \<Rightarrow> string list" where
  "step_violations config previous_duty previous_standby sample intent now_s =
     (if sample_quality sample \<noteq> GOOD
         \<and> (ai_duty_on intent \<noteq> previous_duty \<or> ai_standby_on intent \<noteq> previous_standby)
      then [int_str now_s @ '': command changed on degraded telemetry''] else [])
     @ (if high_high_pct config \<le> tank_level_pct sample \<and> (ai_duty_on intent \<or> ai_standby_on intent)
        then [int_str now_s @ '': pumps enabled at high-high level''] else [])
     @ (if ai_standby_on intent \<and> \<not> ai_duty_on intent
        then [int_str now_s @ '': standby enabled without duty''] else [])
     @ (if ai_expires_at_s intent \<le> ai_issued_at_s intent
        then [int_str now_s @ '': non-positive intent lifetime''] else [])"

definition restart :: "system_config \<Rightarrow> planner \<Rightarrow> plant \<Rightarrow> controller \<Rightarrow> (plant \<times> controller) res" where
  "restart config pl p c =
     (let encoded = encode_checkpoint (checkpoint_payload p c) in
      bind_res (decode_checkpoint encoded) (\<lambda>restored.
      bind_res (bind_res (item restored ''plant_state'') plant_state_from_dict) (\<lambda>state.
      bind_res (bind_res (item restored ''controller'') (\<lambda>d. restore_controller pl d (Some config))) (\<lambda>c'.
        Inr (\<lparr>plt_config = config, plt_state = state\<rparr>, c')))))"

definition run_step :: "system_config \<Rightarrow> planner \<Rightarrow> water_scenario \<Rightarrow> sim_run \<Rightarrow> int \<Rightarrow> sim_run res" where
  "run_step config pl scenario rs now_s =
     (let power = \<not> inside now_s (wsc_power_outages scenario) in
      bind_res (demand_at now_s scenario) (\<lambda>demand.
      bind_res (observe scenario rs now_s) (\<lambda>(q, level, at_s, good_level, good_at_s).
      let sample = \<lparr>observed_at_s = at_s, received_at_s = now_s, tank_level_pct = level,
                    demand_lps = demand * wsc_observed_demand_scale scenario,
                    power_available = power, sample_quality = q\<rparr> in
      bind_res (decide (rs_controller rs) sample now_s) (\<lambda>(intent, controller').
      bind_res (plant_step (ai_duty_on intent) (ai_standby_on intent) demand power
                  (wsc_step_s scenario) (rs_plant rs)) (\<lambda>plant'.
      bind_res (if wsc_restart_at_s scenario = Some (now_s + wsc_step_s scenario)
                then bind_res (restart config pl plant' controller') (\<lambda>(p, c). Inr (p, c, True))
                else Inr (plant', controller', rs_restarted rs)) (\<lambda>(plant'', controller'', restarted).
        Inr \<lparr>rs_plant = plant'', rs_controller = controller'',
             rs_last_good_level = good_level, rs_last_good_at_s = good_at_s,
             rs_previous_duty = ai_duty_on intent, rs_previous_standby = ai_standby_on intent,
             rs_emergency_steps = rs_emergency_steps rs + of_bool (ai_mode intent = EMERGENCY),
             rs_degraded_steps = rs_degraded_steps rs + of_bool (ai_mode intent = DEGRADED),
             rs_violations = rs_violations rs @ step_violations config (rs_previous_duty rs)
               (rs_previous_standby rs) sample intent now_s,
             rs_restarted = restarted\<rparr>))))))"

text \<open>\<open>range(0, duration, step)\<close>: a step of 0 raises, a negative step counts down.\<close>

definition step_times :: "int \<Rightarrow> int \<Rightarrow> int list res" where
  "step_times duration_s step_s =
     (if step_s = 0 then Inl (ValueError ''range() arg 3 must not be zero'')
      else if 0 < step_s then Inr (py_range 0 duration_s step_s)
      else Inr (map uminus (py_range 0 (- duration_s) (- step_s))))"

definition start_run :: "system_config \<Rightarrow> planner \<Rightarrow> water_scenario \<Rightarrow> sim_run res" where
  "start_run config pl scenario =
     bind_res (at_level config (wsc_initial_level_pct scenario)) (\<lambda>p.
     bind_res (plant_level p) (\<lambda>level.
     let c = Controller pl (Some config) None None None in
       Inr \<lparr>rs_plant = p, rs_controller = c, rs_last_good_level = level, rs_last_good_at_s = 0,
            rs_previous_duty = cst_duty_on (ct_state c),
            rs_previous_standby = cst_standby_on (ct_state c),
            rs_emergency_steps = 0, rs_degraded_steps = 0, rs_violations = [],
            rs_restarted = False\<rparr>))"

definition water_outcome :: "planner \<Rightarrow> water_scenario \<Rightarrow> sim_run \<Rightarrow> scenario_outcome res" where
  "water_outcome pl scenario rs =
     bind_res (plant_level (rs_plant rs)) (\<lambda>level.
     let c = rs_controller rs; st = plt_state (rs_plant rs) in
       Inr \<lparr>wr_scenario_id = wsc_scenario_id scenario, wr_planner_id = planner_id pl,
            wr_steps = wsc_duration_s scenario div wsc_step_s scenario,
            wr_initial_level_pct = wsc_initial_level_pct scenario,
            wr_final_level_pct = round_digits 6 level,
            wr_energy_kwh = round_digits 6 (pst_energy_kwh st),
            wr_pump_starts = pst_duty_starts st + pst_standby_starts st,
            wr_unmet_demand_l = round_digits 6 (pst_unmet_demand_l st),
            wr_overflow_l = round_digits 6 (pst_overflow_l st),
            wr_emergency_steps = rs_emergency_steps rs,
            wr_degraded_steps = rs_degraded_steps rs,
            wr_safety_interventions = ct_counts c,
            wr_safety_violations = rs_violations rs
              @ (if verify (ct_journal c) then [] else [''journal hash chain verification failed'']),
            wr_sequence_end = cst_last_sequence (ct_state c),
            wr_journal_tail_hash = jn_tail_hash (ct_journal c),
            wr_restart_performed = rs_restarted rs,
            wr_randomized = wsc_randomized scenario, wr_seed = wsc_seed scenario\<rparr>)"

definition run_scenario ::
  "planner \<Rightarrow> water_scenario \<Rightarrow> system_config option \<Rightarrow> scenario_outcome res" where
  "run_scenario pl scenario config =
     (let cfg = (case config of Some c \<Rightarrow> c | None \<Rightarrow> SystemConfig) in
      bind_res (start_run cfg pl scenario) (\<lambda>rs0.
      bind_res (step_times (wsc_duration_s scenario) (wsc_step_s scenario)) (\<lambda>times.
      bind_res (fold_res (run_step cfg pl scenario) rs0 times) (\<lambda>rs.
        water_outcome pl scenario rs))))"

end
