(* ===== verification/WaterScenarios.thy ===== *)
theory WaterScenarios
  imports WaterSimulator PyRandom
begin

text \<open>
  \<^verbatim>\<open>water_control/scenarios.py\<close>: the declared scenarios and the eight randomized ones.  The draws are
  written over any source of 32-bit words; \<open>scenario_suite\<close> uses the Mersenne Twister.  A draw by
  rejection may not end on a bad source, hence the option.
\<close>

text \<open>\<open>Scenario(..)\<close> with its defaults.\<close>

definition Scenario :: "string \<Rightarrow> int \<Rightarrow> int \<Rightarrow> pyfloat \<Rightarrow> (int \<times> int \<times> pyfloat) list \<Rightarrow> water_scenario" where
  "Scenario name duration_s step_s initial_level_pct demand_profile =
     \<lparr>wsc_scenario_id = name, wsc_duration_s = duration_s, wsc_step_s = step_s,
      wsc_initial_level_pct = initial_level_pct, wsc_demand_profile = demand_profile,
      wsc_power_outages = [], wsc_stale_windows = [], wsc_conflict_windows = [],
      wsc_restart_at_s = None, wsc_observed_demand_scale = Fin 1, wsc_randomized = False,
      wsc_seed = None\<rparr>"

section \<open>The randomized scenarios\<close>

definition uniform :: "('g \<Rightarrow> w32 \<times> 'g) \<Rightarrow> pyfloat \<Rightarrow> pyfloat \<Rightarrow> 'g \<Rightarrow> pyfloat \<times> 'g" where
  "uniform next a b g = (let (r, g') = random_float next g in (a + (b - a) * r, g'))"

definition nonempty_window :: "int \<times> int \<Rightarrow> bool" where
  "nonempty_window w \<longleftrightarrow> fst w < snd w"

definition randomized_scenario :: "('g \<Rightarrow> w32 \<times> 'g) \<Rightarrow> int \<Rightarrow> 'g \<Rightarrow> water_scenario option" where
  "randomized_scenario next seed g0 =
     (let duration_s = 28800; split_a = 7200; split_b = 21600;
          (d1, g1) = uniform next (fl (24 / 10)) (fl (38 / 10)) g0;
          (d2, g2) = uniform next (fl (35 / 10)) (fl (62 / 10)) g1;
          (d3, g3) = uniform next (fl (22 / 10)) (fl (42 / 10)) g2;
          demand_profile = [(0, split_a, round_digits 3 d1), (split_a, split_b, round_digits 3 d2),
                            (split_b, duration_s, round_digits 3 d3)]
      in
      Option.bind (choice next [0, 7200, 14400, 21600] g3) (\<lambda>(outage_start, g4).
      Option.bind (choice next [0, 1800, 3600] g4) (\<lambda>(outage_length, g5).
      let outage = filter nonempty_window
            [(outage_start, min duration_s (outage_start + outage_length))] in
      Option.bind (choice next [5400, 10800, 16200] g5) (\<lambda>(stale_start, g6).
      Option.bind (choice next [0, 900, 1800] g6) (\<lambda>(stale_length, g7).
      let stale = filter nonempty_window [(stale_start, stale_start + stale_length)];
          (level, g8) = uniform next (Fin 22) (Fin 78) g7;
          (scale, g9) = uniform next (fl (78 / 100)) (fl (122 / 100)) g8
      in Some ((Scenario (''randomized-'' @ (if seed < 10 then ''0'' else []) @ int_str seed)
                 duration_s 60 (round_digits 3 level) demand_profile)
               \<lparr>wsc_power_outages := outage, wsc_stale_windows := stale,
                wsc_restart_at_s := (if seed mod 3 = 0 then Some 14400 else None),
                wsc_observed_demand_scale := round_digits 3 scale,
                wsc_randomized := True, wsc_seed := Some (10000 + seed)\<rparr>))))))"

fun all_some :: "'a option list \<Rightarrow> 'a list option" where
  "all_some [] = Some []"
| "all_some (x # xs) = Option.bind x (\<lambda>y. map_option ((#) y) (all_some xs))"

text \<open>\<open>source\<close> makes the word source of a seed: \<open>random.Random\<close>.\<close>

definition randomized_scenarios ::
  "('g \<Rightarrow> w32 \<times> 'g) \<Rightarrow> (int \<Rightarrow> 'g) \<Rightarrow> water_scenario list option" where
  "randomized_scenarios next source =
     all_some (map (\<lambda>seed. randomized_scenario next seed (source (10000 + seed))) [0..7])"

section \<open>The declared scenarios\<close>

definition declared_scenarios :: "water_scenario list" where
  "declared_scenarios =
     [Scenario ''normal-day'' 43200 60 (Fin 60)
        [(0, 10800, fl (22 / 10)), (10800, 21600, fl (42 / 10)), (21600, 32400, Fin 3),
         (32400, 43200, fl (48 / 10))],
      Scenario ''peak-demand'' 28800 60 (Fin 58)
        [(0, 7200, fl (35 / 10)), (7200, 24000, fl (58 / 10)), (24000, 28800, Fin 3)],
      (Scenario ''power-outage'' 28800 60 (Fin 70) [(0, 28800, fl (32 / 10))])
        \<lparr>wsc_power_outages := [(7200, 10800)]\<rparr>,
      (Scenario ''stale-telemetry'' 21600 60 (Fin 55) [(0, 21600, fl (34 / 10))])
        \<lparr>wsc_stale_windows := [(7200, 9000)]\<rparr>,
      (Scenario ''conflicting-sensor'' 21600 60 (Fin 55) [(0, 21600, fl (31 / 10))])
        \<lparr>wsc_conflict_windows := [(5400, 7200)]\<rparr>,
      (Scenario ''checkpoint-restart'' 28800 60 (Fin 62)
        [(0, 14400, Fin 3), (14400, 28800, fl (46 / 10))])
        \<lparr>wsc_restart_at_s := Some 14400\<rparr>,
      (Scenario ''outage-plus-stale-telemetry'' 28800 60 (Fin 64) [(0, 28800, fl (38 / 10))])
        \<lparr>wsc_power_outages := [(8400, 12000)], wsc_stale_windows := [(7800, 12600)]\<rparr>,
      (Scenario ''restart-during-degraded-telemetry'' 28800 60 (Fin 58) [(0, 28800, fl (36 / 10))])
        \<lparr>wsc_stale_windows := [(12600, 16200)], wsc_restart_at_s := Some 14400\<rparr>,
      Scenario ''near-empty-initial-storage'' 21600 60 (fl (165 / 10))
        [(0, 7200, fl (28 / 10)), (7200, 21600, fl (44 / 10))],
      (Scenario ''demand-model-underestimate'' 28800 60 (Fin 52) [(0, 28800, fl (44 / 10))])
        \<lparr>wsc_observed_demand_scale := fl (72 / 100)\<rparr>,
      (Scenario ''demand-model-overestimate'' 28800 60 (Fin 52) [(0, 28800, fl (32 / 10))])
        \<lparr>wsc_observed_demand_scale := fl (130 / 100)\<rparr>]"

definition scenario_suite ::
  "('g \<Rightarrow> w32 \<times> 'g) \<Rightarrow> (int \<Rightarrow> 'g) \<Rightarrow> water_scenario list option" where
  "scenario_suite next source =
     map_option (\<lambda>rs. declared_scenarios @ rs) (randomized_scenarios next source)"

definition water_smoke_suite ::
  "('g \<Rightarrow> w32 \<times> 'g) \<Rightarrow> (int \<Rightarrow> 'g) \<Rightarrow> water_scenario list option" where
  "water_smoke_suite next source =
     map_option (\<lambda>ss. map ((!) ss) [0, 3, 5, 6, 8]) (scenario_suite next source)"

end
