(* ===== verification/WaterStudy.thy ===== *)
theory WaterStudy
  imports WaterScenarios
begin

text \<open>
  \<^verbatim>\<open>tools/run_study.py\<close>: the comparison of the two planners over a suite of scenarios.  The results
  are dictionaries, as in the source.  Parameters stand for what the tool reads from outside: the
  outcome of the JSON Schema validation (a third-party package) and the digests of files.
\<close>

text \<open>\<open>sum(..)\<close> of floats since Python 3.12: compensated summation, and the integer 0 of nothing.\<close>

fun neumaier :: "pyfloat \<Rightarrow> pyfloat \<Rightarrow> pyfloat list \<Rightarrow> pyfloat" where
  "neumaier acc c [] = (if isfinite c then acc + c else acc)"
| "neumaier acc c (x # xs) =
     (let t = acc + x;
          abs_le = (\<lambda>a b. (if a < Fin 0 then - a else a) \<le> (if b < Fin 0 then - b else b))
      in neumaier t (if abs_le x acc then c + ((acc - t) + x) else c + ((x - t) + acc)) xs)"

fun sum_floats :: "pyfloat list \<Rightarrow> json" where
  "sum_floats [] = JInt 0"
| "sum_floats (x # xs) = JFloat (neumaier x (Fin 0) xs)"

fun round6 :: "json \<Rightarrow> json" where
  "round6 (JFloat x) = JFloat (round_digits 6 x)"
| "round6 v = v"

definition seed_json :: "int option \<Rightarrow> json" where
  "seed_json v = (case v of None \<Rightarrow> JNull | Some n \<Rightarrow> JInt n)"

definition outcome_as_dict :: "scenario_outcome \<Rightarrow> json" where
  "outcome_as_dict r = JObj
     [(''scenario_id'', JStr (wr_scenario_id r)), (''planner_id'', JStr (wr_planner_id r)),
      (''steps'', JInt (wr_steps r)), (''initial_level_pct'', JFloat (wr_initial_level_pct r)),
      (''final_level_pct'', JFloat (wr_final_level_pct r)),
      (''energy_kwh'', JFloat (wr_energy_kwh r)), (''pump_starts'', JInt (wr_pump_starts r)),
      (''unmet_demand_l'', JFloat (wr_unmet_demand_l r)),
      (''overflow_l'', JFloat (wr_overflow_l r)),
      (''emergency_steps'', JInt (wr_emergency_steps r)),
      (''degraded_steps'', JInt (wr_degraded_steps r)),
      (''safety_interventions'', JObj (map (\<lambda>(k, n). (k, JInt n)) (wr_safety_interventions r))),
      (''safety_violations'', JList (map JStr (wr_safety_violations r))),
      (''sequence_end'', JInt (wr_sequence_end r)),
      (''journal_tail_hash'', JStr (wr_journal_tail_hash r)),
      (''restart_performed'', JBool (wr_restart_performed r)),
      (''randomized'', JBool (wr_randomized r)), (''seed'', seed_json (wr_seed r))]"

section \<open>Aggregates\<close>

definition float_item :: "json \<Rightarrow> string \<Rightarrow> pyfloat res" where
  "float_item d k = bind_res (item d k) to_float"

definition int_item :: "json \<Rightarrow> string \<Rightarrow> int res" where
  "int_item d k = bind_res (item d k) to_int"

definition dict_items :: "json \<Rightarrow> obj res" where
  "dict_items v = (case v of JObj d \<Rightarrow> Inr d | _ \<Rightarrow> Inl (AttributeError ''items''))"

fun py_len :: "json \<Rightarrow> int res" where
  "py_len (JStr s) = Inr (int (length s))"
| "py_len (JList xs) = Inr (int (length xs))"
| "py_len (JObj d) = Inr (int (length d))"
| "py_len _ = Inl (TypeError ''object has no len()'')"

definition add_interventions :: "(string, int) dict \<Rightarrow> json \<Rightarrow> (string, int) dict res" where
  "add_interventions counts result =
     bind_res (bind_res (item result ''safety_interventions'') dict_items) (\<lambda>d.
       fold_res (\<lambda>acc (k, v). bind_res (to_int v) (\<lambda>n.
         Inr (dict_set k ((case dict_get acc k of None \<Rightarrow> 0 | Some m \<Rightarrow> m) + n) acc))) counts d)"

definition aggregate :: "json list \<Rightarrow> json res" where
  "aggregate results =
     bind_res (fold_res add_interventions
        [(''accepted'', 0), (''modified'', 0), (''held'', 0), (''rejected'', 0)] results) (\<lambda>interventions.
     bind_res (map_res (\<lambda>r. float_item r ''energy_kwh'') results) (\<lambda>energy.
     bind_res (map_res (\<lambda>r. int_item r ''pump_starts'') results) (\<lambda>starts.
     bind_res (map_res (\<lambda>r. float_item r ''unmet_demand_l'') results) (\<lambda>unmet.
     bind_res (map_res (\<lambda>r. float_item r ''overflow_l'') results) (\<lambda>overflow.
     bind_res (map_res (\<lambda>r. bind_res (item r ''safety_violations'') py_len) results) (\<lambda>violations.
       Inr (JObj
         [(''energy_kwh'', round6 (sum_floats energy)), (''pump_starts'', JInt (sum_list starts)),
          (''unmet_demand_l'', round6 (sum_floats unmet)),
          (''overflow_l'', round6 (sum_floats overflow)),
          (''safety_violations'', JInt (sum_list violations)),
          (''safety_interventions'', JObj (map (\<lambda>(k, n). (k, JInt n)) interventions))])))))))"

section \<open>The corruption probe\<close>

definition flip_bit :: "nat \<Rightarrow> nat \<Rightarrow> string \<Rightarrow> string" where
  "flip_bit pos k s =
     s[pos := char_of (unsigned (xor (word_of_nat (of_char (s ! pos)) :: 8 word) (push_bit k 1)) :: nat)]"

definition corrupt :: "string \<Rightarrow> nat \<Rightarrow> string \<Rightarrow> string" where
  "corrupt corruption repetition encoded =
     (if corruption = ''middle-bit'' then flip_bit (length encoded div 2) repetition encoded
      else if corruption = ''header-bit''
      then flip_bit (min (4 + repetition) (length encoded - 1)) 0 encoded
      else slice_to encoded (- (1 + int repetition)))"

definition probe_case :: "string \<Rightarrow> nat \<times> string \<Rightarrow> json res" where
  "probe_case original rc =
     (let (repetition, corruption) = rc;
          entry = (\<lambda>status observation. JObj
            [(''corruption'', JStr corruption), (''repetition'', JStr (int_str (int repetition))),
             (''status'', JStr status), (''observation'', JStr observation)])
      in case decode_checkpoint (corrupt corruption repetition original) of
           Inr payload \<Rightarrow> Inr (entry ''FAIL'' ''corrupted checkpoint was accepted'')
         | Inl e \<Rightarrow> (case e of
             ValueError m \<Rightarrow>
               if starts_with ''CheckpointError: '' m
               then Inr (entry ''PASS'' (drop (length ''CheckpointError: '') m)) else Inl e
           | _ \<Rightarrow> Inl e))"

definition probe_original :: string where
  "probe_original =
     encode_checkpoint (JObj [(''sequence'', JInt 14), (''tail_hash'', JStr ''abc'')])"

definition status_is :: "json \<Rightarrow> string \<Rightarrow> bool" where
  "status_is d s = (item d ''status'' = Inr (JStr s))"

definition verdict :: "bool \<Rightarrow> json" where
  "verdict b = JStr (if b then ''PASS'' else ''FAIL'')"

definition checkpoint_corruption_probe :: "json res" where
  "checkpoint_corruption_probe =
     bind_res (map_res (probe_case probe_original)
        (List.product [0, 1, 2] [''middle-bit'', ''header-bit'', ''truncated''])) (\<lambda>cases.
       Inr (JObj [(''status'', verdict (list_all (\<lambda>c. status_is c ''PASS'') cases)),
                  (''cases'', JList cases)]))"

section \<open>Per-scenario comparison\<close>

definition PER_SCENARIO_NORMALIZED_ENERGY_RATIO_MAX :: pyfloat where
  "PER_SCENARIO_NORMALIZED_ENERGY_RATIO_MAX = fl (120 / 100)"

definition PER_SCENARIO_TERMINAL_RESERVE_DEFICIT_PCT_MAX :: pyfloat where
  "PER_SCENARIO_TERMINAL_RESERVE_DEFICIT_PCT_MAX = Fin 10"

definition equivalent_storage_energy_kwh :: "pyfloat \<Rightarrow> pyfloat res" where
  "equivalent_storage_energy_kwh level_deficit_pct =
     (let config = SystemConfig in
      bind_res (fdiv (py_max (Fin 0) level_deficit_pct) (Fin 100)) (\<lambda>share.
      bind_res (fdiv (share * tank_capacity_l config) (duty_flow_lps config)) (\<lambda>seconds.
      bind_res (fdiv seconds (Fin 3600)) (\<lambda>hours. Inr (hours * duty_power_kw config)))))"

text \<open>The numbers of one comparison, as the loop body computes them.\<close>

record comparison_numbers =
  cn_common_terminal :: pyfloat
  cn_base_adjusted :: pyfloat
  cn_cand_adjusted :: pyfloat
  cn_ratio :: pyfloat
  cn_deficit :: pyfloat
  cn_base_unmet :: pyfloat
  cn_cand_unmet :: pyfloat
  cn_base_overflow :: pyfloat
  cn_cand_overflow :: pyfloat

definition compute_numbers :: "json \<Rightarrow> json \<Rightarrow> comparison_numbers res" where
  "compute_numbers base cand =
     bind_res (float_item base ''final_level_pct'') (\<lambda>base_level.
     bind_res (float_item cand ''final_level_pct'') (\<lambda>cand_level.
     let common_terminal = py_max base_level cand_level in
     bind_res (float_item base ''energy_kwh'') (\<lambda>base_energy.
     bind_res (equivalent_storage_energy_kwh (common_terminal - base_level)) (\<lambda>base_extra.
     bind_res (float_item cand ''energy_kwh'') (\<lambda>cand_energy.
     bind_res (equivalent_storage_energy_kwh (common_terminal - cand_level)) (\<lambda>cand_extra.
     let base_adjusted = base_energy + base_extra; cand_adjusted = cand_energy + cand_extra in
     bind_res (fdiv cand_adjusted (py_max (fl (1 / 1000000)) base_adjusted)) (\<lambda>ratio.
     bind_res (float_item base ''unmet_demand_l'') (\<lambda>base_unmet.
     bind_res (float_item cand ''unmet_demand_l'') (\<lambda>cand_unmet.
     bind_res (float_item base ''overflow_l'') (\<lambda>base_overflow.
     bind_res (float_item cand ''overflow_l'') (\<lambda>cand_overflow.
       Inr \<lparr>cn_common_terminal = common_terminal, cn_base_adjusted = base_adjusted,
            cn_cand_adjusted = cand_adjusted, cn_ratio = ratio,
            cn_deficit = base_level - cand_level, cn_base_unmet = base_unmet,
            cn_cand_unmet = cand_unmet, cn_base_overflow = base_overflow,
            cn_cand_overflow = cand_overflow\<rparr>)))))))))))"

definition comparison_pass :: "comparison_numbers \<Rightarrow> json \<Rightarrow> bool" where
  "comparison_pass n violations \<longleftrightarrow>
     cn_ratio n \<le> PER_SCENARIO_NORMALIZED_ENERGY_RATIO_MAX \<and>
     cn_deficit n \<le> PER_SCENARIO_TERMINAL_RESERVE_DEFICIT_PCT_MAX \<and>
     cn_cand_unmet n \<le> cn_base_unmet n \<and> cn_cand_overflow n \<le> cn_base_overflow n \<and>
     \<not> truthy violations"

definition compare_one :: "(string, json) dict \<Rightarrow> json \<Rightarrow> json res" where
  "compare_one baseline_by_id cand =
     bind_res (item cand ''scenario_id'') (\<lambda>name.
     bind_res (case name of JStr s \<Rightarrow> obj_at baseline_by_id s | _ \<Rightarrow> Inl (KeyError ''scenario_id'')) (\<lambda>base.
     bind_res (compute_numbers base cand) (\<lambda>n.
     bind_res (item cand ''safety_violations'') (\<lambda>violations.
     bind_res (item cand ''randomized'') (\<lambda>randomized.
     bind_res (item cand ''seed'') (\<lambda>seed.
       Inr (JObj
         [(''scenario_id'', name), (''status'', verdict (comparison_pass n violations)),
          (''randomized'', randomized), (''seed'', seed),
          (''terminal_normalization_target_pct'', JFloat (round_digits 6 (cn_common_terminal n))),
          (''baseline_normalized_energy_kwh'', JFloat (round_digits 6 (cn_base_adjusted n))),
          (''candidate_normalized_energy_kwh'', JFloat (round_digits 6 (cn_cand_adjusted n))),
          (''candidate_to_baseline_normalized_energy_ratio'', JFloat (round_digits 6 (cn_ratio n))),
          (''terminal_reserve_deficit_pct'', JFloat (round_digits 6 (cn_deficit n))),
          (''limits'', JObj
            [(''normalized_energy_ratio_max'', JFloat PER_SCENARIO_NORMALIZED_ENERGY_RATIO_MAX),
             (''terminal_reserve_deficit_pct_max'',
                JFloat PER_SCENARIO_TERMINAL_RESERVE_DEFICIT_PCT_MAX),
             (''unmet_demand_regression_l_max'', JFloat (Fin 0)),
             (''overflow_regression_l_max'', JFloat (Fin 0))])])))))))"

definition index_by_id :: "json list \<Rightarrow> (string, json) dict res" where
  "index_by_id results =
     fold_res (\<lambda>d r. bind_res (item r ''scenario_id'') (\<lambda>name.
       case name of JStr s \<Rightarrow> Inr (dict_set s r d) | _ \<Rightarrow> Inl (TypeError ''scenario_id''))) [] results"

definition scenario_comparisons :: "json list \<Rightarrow> json list \<Rightarrow> json list res" where
  "scenario_comparisons baseline candidate =
     bind_res (index_by_id baseline) (\<lambda>by_id. map_res (compare_one by_id) candidate)"

section \<open>The study\<close>

text \<open>What comes from outside the program: the schema validation's outcome and the digest of each
  named file.\<close>

record study_inputs =
  in_schema_validation :: json
  in_digest :: "string \<Rightarrow> string"

definition run_all :: "planner \<Rightarrow> water_scenario list \<Rightarrow> json list res" where
  "run_all pl scenarios =
     map_res (\<lambda>sc. bind_res (run_scenario pl sc None) (\<lambda>r. Inr (outcome_as_dict r))) scenarios"

fun infix_of :: "string \<Rightarrow> string \<Rightarrow> bool" where
  "infix_of p [] = (p = [])"
| "infix_of p (c # cs) = (prefix p (c # cs) \<or> infix_of p cs)"

definition scenario_gate :: "json \<Rightarrow> bool res" where
  "scenario_gate result =
     bind_res (item result ''safety_violations'') (\<lambda>violations.
     if truthy violations then Inr False else
     bind_res (item result ''sequence_end'') (\<lambda>sequence_end.
     bind_res (item result ''steps'') (\<lambda>steps.
     if \<not> json_eq sequence_end steps then Inr False else
     bind_res (item result ''scenario_id'') (\<lambda>name.
     case name of
       JStr s \<Rightarrow> if \<not> infix_of ''restart'' s then Inr True
         else bind_res (item result ''restart_performed'') (\<lambda>r. Inr (truthy r))
     | _ \<Rightarrow> Inl (TypeError ''scenario_id'')))))"

text \<open>\<open>all(..)\<close> over a condition that may raise: it stops at the first false one.\<close>

fun all_res :: "('a \<Rightarrow> bool res) \<Rightarrow> 'a list \<Rightarrow> bool res" where
  "all_res p [] = Inr True"
| "all_res p (x # xs) = bind_res (p x) (\<lambda>b. if b then all_res p xs else Inr False)"

record study_verdict =
  sv_scenario_gates :: bool
  sv_replay :: bool
  sv_probe :: json
  sv_comparisons :: "json list"
  sv_starts_ratio :: pyfloat
  sv_energy_ratio :: pyfloat
  sv_baseline :: json
  sv_candidate :: json

definition per_scenario_pass :: "study_verdict \<Rightarrow> bool" where
  "per_scenario_pass v = list_all (\<lambda>c. status_is c ''PASS'') (sv_comparisons v)"

definition objective_pass :: "study_verdict \<Rightarrow> bool" where
  "objective_pass v \<longleftrightarrow> sv_starts_ratio v \<le> fl (75 / 100) \<and> sv_energy_ratio v \<le> fl (110 / 100) \<and>
     per_scenario_pass v"

definition hard_gates_pass :: "study_inputs \<Rightarrow> study_verdict \<Rightarrow> bool" where
  "hard_gates_pass inp v \<longleftrightarrow> sv_scenario_gates v \<and> sv_replay v \<and> status_is (sv_probe v) ''PASS'' \<and>
     status_is (in_schema_validation inp) ''PASS''"

definition judge_study :: "json list \<Rightarrow> json list \<Rightarrow> json list \<Rightarrow> study_verdict res" where
  "judge_study baseline candidate replay =
     bind_res checkpoint_corruption_probe (\<lambda>probe.
     bind_res (aggregate candidate) (\<lambda>cand.
     bind_res (aggregate baseline) (\<lambda>base.
     bind_res (float_item cand ''pump_starts'') (\<lambda>cand_starts.
     bind_res (float_item base ''pump_starts'') (\<lambda>base_starts.
     bind_res (fdiv cand_starts (py_max (Fin 1) base_starts)) (\<lambda>starts_ratio.
     bind_res (float_item cand ''energy_kwh'') (\<lambda>cand_energy.
     bind_res (float_item base ''energy_kwh'') (\<lambda>base_energy.
     bind_res (fdiv cand_energy (py_max (fl (1 / 1000000)) base_energy)) (\<lambda>energy_ratio.
     bind_res (scenario_comparisons baseline candidate) (\<lambda>comparisons.
     bind_res (all_res scenario_gate candidate) (\<lambda>gates.
       Inr \<lparr>sv_scenario_gates = gates,
            sv_replay = json_eq (JList replay) (JList candidate),
            sv_probe = probe, sv_comparisons = comparisons,
            sv_starts_ratio = starts_ratio, sv_energy_ratio = energy_ratio,
            sv_baseline = base, sv_candidate = cand\<rparr>)))))))))))"

definition water_summary :: "study_inputs \<Rightarrow> string \<Rightarrow> study_verdict \<Rightarrow> json" where
  "water_summary inp mode v = JObj
     [(''schema_version'', JStr ''0.2''),
      (''study_id'', JStr ''mncs.remote-water-control.development-epoch-2''),
      (''mode'', JStr mode),
      (''development_result'', verdict (hard_gates_pass inp v \<and> objective_pass v)),
      (''formal_mncs_status'', JStr ''UNKNOWN''), (''formal_mncds_status'', JStr ''UNKNOWN''),
      (''protected_evaluation_status'', JStr ''UNKNOWN''),
      (''disposition'', JStr ''REVIEW_REQUIRED''),
      (''claim_note'', JStr (''This development run does not claim MNCS-L5 or MNCDS-D3. ''
         @ ''Independent protected holdout evaluation, release binding, ''
         @ ''and operational evidence remain outstanding.'')),
      (''hard_gates'', JObj
        [(''scenario_safety'', verdict (sv_scenario_gates v)),
         (''deterministic_replay'', verdict (sv_replay v)),
         (''checkpoint_corruption_rejection'', (case item (sv_probe v) ''status'' of Inr s \<Rightarrow> s | Inl _ \<Rightarrow> JNull)),
         (''experimental_schema_validation'',
            (case item (in_schema_validation inp) ''status'' of Inr s \<Rightarrow> s | Inl _ \<Rightarrow> JNull)),
         (''per_scenario_regression_limits'', verdict (per_scenario_pass v))]),
      (''checkpoint_probe'', sv_probe v), (''schema_validation'', in_schema_validation inp),
      (''objective'', JObj
        [(''status'', verdict (objective_pass v)),
         (''candidate_to_baseline_pump_start_ratio'', JFloat (round_digits 6 (sv_starts_ratio v))),
         (''candidate_to_baseline_energy_ratio'', JFloat (round_digits 6 (sv_energy_ratio v))),
         (''required_pump_start_ratio_max'', JFloat (fl (75 / 100))),
         (''required_energy_ratio_max'', JFloat (fl (110 / 100))),
         (''terminal_normalization'',
            JStr (''Both planners are charged equivalent duty-pump energy to the ''
              @ ''higher terminal storage level before each per-scenario comparison.''))]),
      (''scenario_comparisons'', JList (sv_comparisons v)),
      (''aggregates'', JObj [(''baseline'', sv_baseline v), (''candidate'', sv_candidate v)]),
      (''identities'', JObj (map (\<lambda>k. (k, JStr (in_digest inp k)))
        [''planner_spec'', ''generated_planner'', ''safety_kernel'', ''simulator'', ''evaluator'',
         ''preregistration''])),
      (''limitations'', JList (map JStr
        [''Randomized scenarios are deterministic and repository-visible development scenarios.'',
         ''The plant model is a bounded digital twin and is not a hydraulic design model.'',
         ''No live PLC, SCADA, pump, valve, or field network is connected.'',
         ''The generated planner is a development candidate, not an accepted release artifact.'',
         ''Protected holdout, independent evaluation, and operational evidence remain open.'']))]"

text \<open>\<open>run(mode)\<close> up to the two files it writes in mode \<open>all\<close>; \<open>main\<close> returns 0 exactly when the
  development result is \<open>PASS\<close>.\<close>

definition run_study_on :: "study_inputs \<Rightarrow> string \<Rightarrow> water_scenario list \<Rightarrow> json res" where
  "run_study_on inp mode scenarios =
     bind_res (run_all ReadableBaselinePlanner scenarios) (\<lambda>baseline.
     bind_res (run_all GeneratedTablePlanner scenarios) (\<lambda>candidate.
     bind_res (run_all GeneratedTablePlanner scenarios) (\<lambda>replay.
     bind_res (judge_study baseline candidate replay) (\<lambda>v.
       Inr (water_summary inp mode v)))))"

definition run_water_study :: "('g \<Rightarrow> w32 \<times> 'g) \<Rightarrow> (int \<Rightarrow> 'g) \<Rightarrow> study_inputs \<Rightarrow> string \<Rightarrow> json res option" where
  "run_water_study next source inp mode =
     map_option (run_study_on inp mode)
       (if mode = ''smoke'' then water_smoke_suite next source else scenario_suite next source)"

definition exit_code :: "json \<Rightarrow> int res" where
  "exit_code summary = bind_res (item summary ''development_result'') (\<lambda>r.
     Inr (if r = JStr ''PASS'' then 0 else 1))"

end
