(* ===== verification/WaterControllerProofs.thy ===== *)
theory WaterControllerProofs
  imports WaterController
begin

text \<open>
  What the controller keeps: its counts, sequence number and journal agree, the journal verifies,
  and the standby pump never runs without the duty pump, whatever planner proposes and whatever
  telemetry arrives.  The reachable controllers are an inductive relation, the invariants are
  proved by rule induction on it.
\<close>

section \<open>One decision\<close>

definition outcomes :: "string list" where
  "outcomes = [''accepted'', ''modified'', ''held'', ''rejected'']"

lemma classify_in_outcomes: "classify_intervention state proposal adj \<in> set outcomes"
  by (auto simp: classify_intervention_def outcomes_def Let_def)

text \<open>A decision seen from outside: the proposal, the adjudication, and what they do to the parts.\<close>

lemma decide_parts:
  assumes "decide c sample now_s = Inr (intent, c')"
  obtains proposal entry count where
    "plan (ct_planner c) sample (ct_state c) (ct_config c) = Inr proposal"
    and "dict_get (ct_counts c)
        (classify_intervention (ct_state c) proposal
          (authorize (ct_config c) proposal sample (ct_state c) now_s)) = Some count"
    and "append_intent (ct_journal c) intent = Inr (entry, ct_journal c')"
    and "ct_state c' = apply_intent intent (ct_state c)"
    and "ct_counts c' = dict_set (classify_intervention (ct_state c) proposal
          (authorize (ct_config c) proposal sample (ct_state c) now_s)) (count + 1) (ct_counts c)"
    and "ct_planner c' = ct_planner c" and "ct_config c' = ct_config c"
    and "ai_sequence intent = cst_last_sequence (ct_state c) + 1"
    and "ai_issued_at_s intent = now_s"
    and "ai_expires_at_s intent = now_s + intent_ttl_s (ct_config c)"
    and "ai_duty_on intent = ad_duty_on (authorize (ct_config c) proposal sample (ct_state c) now_s)"
    and "ai_standby_on intent = ad_standby_on (authorize (ct_config c) proposal sample (ct_state c) now_s)"
    and "ai_mode intent = ad_mode (authorize (ct_config c) proposal sample (ct_state c) now_s)"
    and "ai_planner_id intent = pp_planner_id proposal"
  using assms unfolding decide_def Let_def bind_res_eq_Inr by (auto split: prod.splits)

lemma apply_intent_simps [simp]:
  "cst_duty_on (apply_intent i s) = ai_duty_on i"
  "cst_standby_on (apply_intent i s) = ai_standby_on i"
  "cst_last_sequence (apply_intent i s) = ai_sequence i"
  "cst_last_mode (apply_intent i s) = ai_mode i"
  by (simp_all add: apply_intent_def)

section \<open>Reachable controllers\<close>

inductive reaches :: "planner \<Rightarrow> system_config \<Rightarrow> controller \<Rightarrow> bool"
  for pl config where
  start: "reaches pl config (Controller pl (Some config) None None None)"
| decided: "reaches pl config c \<Longrightarrow> decide c sample now_s = Inr (intent, c') \<Longrightarrow> reaches pl config c'"

definition controller_ok :: "planner \<Rightarrow> system_config \<Rightarrow> controller \<Rightarrow> bool" where
  "controller_ok pl config c \<longleftrightarrow>
     ct_planner c = pl \<and> ct_config c = config \<and>
     (cst_standby_on (ct_state c) \<longrightarrow> cst_duty_on (ct_state c)) \<and>
     verify (ct_journal c) \<and> jn_last_sequence (ct_journal c) = cst_last_sequence (ct_state c) \<and>
     dict_wf (ct_counts c) \<and> set (dict_keys (ct_counts c)) = set outcomes"

lemma start_ok: "controller_ok pl config (Controller pl (Some config) None None None)"
  by (simp add: controller_ok_def Controller_def ControllerState_def initial_counts_def outcomes_def
      IntentJournal_def verify_def)

lemma decide_keeps_ok:
  assumes "controller_ok pl config c" and "decide c sample now_s = Inr (intent, c')"
  shows "controller_ok pl config c'"
proof (rule decide_parts [OF assms(2)], goal_cases)
  case (1 proposal entry count)
  note parts = this
  let ?adj = "authorize (ct_config c) proposal sample (ct_state c) now_s"
  have "ad_standby_on ?adj \<Longrightarrow> ad_duty_on ?adj"
    by (rule authorize_standby) (use assms(1) in \<open>auto simp: controller_ok_def\<close>)
  moreover have "verify (ct_journal c')"
    using assms(1) parts(3) append_verify by (auto simp: controller_ok_def)
  moreover have "jn_last_sequence (ct_journal c') = ai_sequence intent"
    by (rule append_effect(4) [OF parts(3)])
  moreover have "set (dict_keys (ct_counts c')) = set outcomes" and "dict_wf (ct_counts c')"
    using assms(1) classify_in_outcomes [of "ct_state c" proposal ?adj]
    by (auto simp: controller_ok_def parts(5) dict_keys_set insert_absorb)
  ultimately show ?case
    using assms(1) by (simp add: controller_ok_def parts(4,6,7,11,12))
qed

lemma reaches_ok: "reaches pl config c \<Longrightarrow> controller_ok pl config c"
  by (induction rule: reaches.induct) (auto intro: start_ok decide_keeps_ok)

text \<open>The sequence number counts the decisions, and so do the four counters together.\<close>

definition total_counts :: "(string, int) dict \<Rightarrow> int" where
  "total_counts d = sum_list (dict_values d)"

lemma total_counts_set:
  "dict_wf d \<Longrightarrow> dict_get d k = Some n \<Longrightarrow> total_counts (dict_set k m d) = total_counts d - n + m"
  unfolding total_counts_def
proof (induction d)
  case Nil
  then show ?case by simp
next
  case (Cons p d)
  obtain k' v where [simp]: "p = (k', v)" by fastforce
  show ?case using Cons by (cases "k' = k") auto
qed

lemma reaches_counts:
  "reaches pl config c \<Longrightarrow>
     total_counts (ct_counts c) = cst_last_sequence (ct_state c) \<and>
     int (length (jn_entries (ct_journal c))) = cst_last_sequence (ct_state c)"
proof (induction rule: reaches.induct)
  case start
  then show ?case
    by (simp add: Controller_def ControllerState_def initial_counts_def IntentJournal_def
        total_counts_def)
next
  case (decided c sample now_s intent c')
  note ok = reaches_ok [OF decided(1)]
  show ?case
  proof (rule decide_parts [OF decided(2)], goal_cases)
    case (1 proposal entry count)
    then show ?case
      using decided(3) ok append_effect(2) [OF 1(3)]
      by (simp add: total_counts_set controller_ok_def)
  qed
qed

context water_planner
begin

text \<open>With a planner that keeps the protocol no decision of a reachable controller raises.\<close>

lemma decide_returns:
  assumes "controller_ok pl config c"
  shows "\<exists>intent c'. decide c sample now_s = Inr (intent, c') \<and> ai_planner_id intent = planner_id pl"
proof -
  obtain proposal where proposal: "plan pl sample (ct_state c) (ct_config c) = Inr proposal"
    and id: "pp_planner_id proposal = planner_id pl"
    using plan_returns by blast
  let ?adj = "authorize (ct_config c) proposal sample (ct_state c) now_s"
  have "classify_intervention (ct_state c) proposal ?adj \<in> set (dict_keys (ct_counts c))"
    using classify_in_outcomes assms by (simp add: controller_ok_def)
  then obtain count where "dict_get (ct_counts c) (classify_intervention (ct_state c) proposal ?adj) = Some count"
    by (blast dest: dict_key_get)
  moreover have "ct_planner c = pl" "jn_last_sequence (ct_journal c) = cst_last_sequence (ct_state c)"
    using assms by (simp_all add: controller_ok_def)
  ultimately show ?thesis
    using proposal id by (simp add: decide_def Let_def append_intent_def)
qed

end

text \<open>What one decision of a controller may command.\<close>

lemma decide_interlocks:
  assumes "decide c sample now_s = Inr (intent, c')"
  shows "\<not> trustworthy (ct_config c) sample \<Longrightarrow>
      ai_duty_on intent = cst_duty_on (ct_state c) \<and>
      ai_standby_on intent = cst_standby_on (ct_state c) \<and> ai_mode intent \<in> {DEGRADED, HOLD}"
    and "trustworthy (ct_config c) sample \<Longrightarrow>
      \<not> power_available sample \<or> high_high_pct (ct_config c) \<le> tank_level_pct sample \<Longrightarrow>
      \<not> ai_duty_on intent \<and> \<not> ai_standby_on intent \<and> ai_mode intent = EMERGENCY"
    and "trustworthy (ct_config c) sample \<Longrightarrow> power_available sample \<Longrightarrow>
      \<not> high_high_pct (ct_config c) \<le> tank_level_pct sample \<Longrightarrow>
      tank_level_pct sample \<le> low_low_pct (ct_config c) \<Longrightarrow>
      ai_duty_on intent \<and> ai_standby_on intent"
proof -
  note parts = decide_parts [OF assms]
  show "\<not> trustworthy (ct_config c) sample \<Longrightarrow>
      ai_duty_on intent = cst_duty_on (ct_state c) \<and>
      ai_standby_on intent = cst_standby_on (ct_state c) \<and> ai_mode intent \<in> {DEGRADED, HOLD}"
    by (rule parts) (simp only:, rule authorize_untrusted)
  show "trustworthy (ct_config c) sample \<Longrightarrow>
      \<not> power_available sample \<or> high_high_pct (ct_config c) \<le> tank_level_pct sample \<Longrightarrow>
      \<not> ai_duty_on intent \<and> \<not> ai_standby_on intent \<and> ai_mode intent = EMERGENCY"
    by (rule parts) (simp only:, rule authorize_off)
  show "trustworthy (ct_config c) sample \<Longrightarrow> power_available sample \<Longrightarrow>
      \<not> high_high_pct (ct_config c) \<le> tank_level_pct sample \<Longrightarrow>
      tank_level_pct sample \<le> low_low_pct (ct_config c) \<Longrightarrow>
      ai_duty_on intent \<and> ai_standby_on intent"
    by (rule parts) (simp only:, rule authorize_low)
qed

end
