(* ===== verification/PyFloatText.thy ===== *)
theory PyFloatText
  imports PyJsonParse
begin

text \<open>
  The text of a float reads back as the same float.  A double \<open>q\<close> absorbs every rational closer to it
  than \<open>q * 2 ^ -54\<close> (\<open>rnd_near\<close>), and seventeen decimal digits are that close, so \<open>shortest\<close>
  always finds digits; the layouts of \<open>float_digits\<close> are each read back digit by digit.
\<close>

section \<open>What rounds to a double\<close>

definition multiple_of :: "rat \<Rightarrow> int \<Rightarrow> bool" where
  "multiple_of q e \<longleftrightarrow> (\<exists>n. q = of_int n * pow2 e)"

lemma multiple_of_lower: "multiple_of q e \<Longrightarrow> d \<le> e \<Longrightarrow> multiple_of q d"
proof -
  assume "multiple_of q e" and le: "d \<le> e"
  then obtain n where "q = of_int n * pow2 e" by (auto simp: multiple_of_def)
  moreover have "pow2 e = of_int (2 ^ nat (e - d)) * pow2 d"
    using pow2_add [of "e - d" d] pow2_int [of "e - d"] le by simp
  ultimately have "q = of_int (n * 2 ^ nat (e - d)) * pow2 d" by simp
  then show ?thesis unfolding multiple_of_def by blast
qed

lemma multiple_of_pow2: "e \<le> f \<Longrightarrow> multiple_of (pow2 f) e"
  using multiple_of_lower [of "pow2 f" f e] by (force simp: multiple_of_def intro: exI [of _ 1])

lemma multiple_of_gap:
  assumes "multiple_of a e" and "multiple_of b e" and "a < b"
  shows "a + pow2 e \<le> b"
proof -
  obtain m n where a: "a = of_int m * pow2 e" and b: "b = of_int n * pow2 e"
    using assms(1,2) by (auto simp: multiple_of_def)
  then have "m < n" using assms(3) by simp
  then have "m + 1 \<le> n" by simp
  then have "of_int (m + 1) * pow2 e \<le> of_int n * pow2 e" by (intro mult_right_mono) (auto simp: less_imp_le)
  then show ?thesis by (simp add: a b algebra_simps)
qed

lemma round_half_even_near: "\<bar>x - of_int n\<bar> < 1 / 2 \<Longrightarrow> round_half_even x = n"
proof -
  assume near: "\<bar>x - of_int n\<bar> < 1 / 2"
  have "\<bar>of_int (round_half_even x) - x\<bar> \<le> 1 / 2" by (rule round_half_even_error)
  with near have "of_int (round_half_even x) < (of_int (n + 1) :: rat)"
    and "of_int (n - 1) < (of_int (round_half_even x) :: rat)"
    unfolding abs_less_iff abs_le_iff by simp_all
  then have "round_half_even x < n + 1" "n - 1 < round_half_even x" by (simp_all only: of_int_less_iff)
  then show ?thesis by simp
qed

lemma rnd_of_near_multiple:
  assumes "multiple_of q (fl_exp y)" and "\<bar>y - q\<bar> < pow2 (fl_exp y) / 2" and "y \<noteq> 0"
  shows "rnd y = q"
proof -
  let ?u = "pow2 (fl_exp y)"
  obtain n where q: "q = of_int n * ?u" using assms(1) by (auto simp: multiple_of_def)
  have "y / ?u - of_int n = (y - q) / ?u" by (simp add: q diff_divide_distrib)
  then have "\<bar>y / ?u - of_int n\<bar> = \<bar>y - q\<bar> / ?u" by (simp add: abs_divide)
  also have "\<dots> < 1 / 2" using assms(2) by (simp add: divide_less_eq)
  finally have "round_half_even (y / ?u) = n" by (rule round_half_even_near)
  with assms(3) show ?thesis by (simp add: rnd_def q)
qed

lemma rnd_near:
  assumes double: "rnd q = q" and pos: "0 < q" and near: "\<bar>y - q\<bar> < q * pow2 (- 54)"
  shows "rnd y = q"
proof -
  let ?e = "fl_exp q"
  define f where "f = flog2 q"
  have mult: "multiple_of q ?e"
    unfolding multiple_of_def
    by (rule exI [of _ "round_half_even (q / pow2 ?e)"]) (use double pos in \<open>simp add: rnd_def\<close>)
  have f: "pow2 f \<le> q" "q < pow2 (f + 1)" using flog2_bounds [OF pos] by (simp_all add: f_def)
  have "multiple_of 0 ?e" by (simp add: multiple_of_def exI [of _ 0])
  from multiple_of_gap [OF this mult pos] have "pow2 ?e \<le> q" by simp
  with f(2) have "?e < f + 1" by (simp flip: pow2_less_iff)
  then have ef: "?e \<le> f" by simp
  have "q * pow2 (- 54) < pow2 (f + 1) * pow2 (- 54)" using f(2) by simp
  also have "\<dots> = pow2 (f - 53)" by (simp flip: pow2_add)
  finally have close: "\<bar>y - q\<bar> < pow2 (f - 53)" using near by simp
  have half: "pow2 (k - 1) = pow2 k / 2" for k using pow2_Suc [of "k - 1"] by simp
  have "f - 53 \<le> ?e - 1" using pos by (simp add: fl_exp_def f_def)
  then have "pow2 (f - 53) \<le> pow2 ?e / 2" using pow2_mono half by metis
  with close have close_e: "\<bar>y - q\<bar> < pow2 ?e / 2" by simp
  have "pow2 (- 54) \<le> (1 :: rat)" using pow2_mono [of "- 54" 0] by (simp add: pow2_def)
  then have "q * pow2 (- 54) \<le> q" using pos by (simp add: mult_left_le)
  with near have y: "0 < y" by linarith
  have same: ?thesis if "fl_exp y = ?e"
    by (rule rnd_of_near_multiple) (use that mult close_e y in auto)
  show ?thesis
  proof (cases "q \<le> y")
    case True
    have "\<not> ?e < fl_exp y"
    proof
      assume "?e < fl_exp y"
      then have "f + 1 \<le> flog2 y" using y pos by (auto simp: fl_exp_def f_def)
      then have "pow2 (f + 1) \<le> pow2 (flog2 y)" by (rule pow2_mono)
      also have "\<dots> \<le> y" using flog2_bounds(1) [OF y] .
      finally have "pow2 (f + 1) \<le> y" .
      moreover have "q + pow2 ?e \<le> pow2 (f + 1)"
        by (rule multiple_of_gap [OF mult multiple_of_pow2 f(2)]) (use ef in simp)
      ultimately show False using close_e True pow2_pos [of ?e] by linarith
    qed
    then show ?thesis using fl_exp_mono [OF pos True] same by simp
  next
    case below: False
    show ?thesis
    proof (cases "fl_exp y = ?e")
      case False
      then have lt: "fl_exp y < ?e" using fl_exp_mono [of y q] y below by simp
      then have e: "?e = f - 52" and fy: "flog2 y < f" using y pos by (auto simp: fl_exp_def f_def)
      have "y < pow2 (flog2 y + 1)" using flog2_bounds(2) [OF y] .
      also have "\<dots> \<le> pow2 f" using fy by (intro pow2_mono) simp
      finally have y_f: "y < pow2 f" .
      have q: "q = pow2 f"
      proof (rule ccontr)
        assume "q \<noteq> pow2 f"
        with f(1) have "pow2 f + pow2 ?e \<le> q"
          by (intro multiple_of_gap multiple_of_pow2 mult ef) simp
        with close_e y_f pow2_pos [of ?e] show False by linarith
      qed
      have near': "\<bar>y - q\<bar> < pow2 (f - 54)" using near by (simp add: q flip: pow2_add)
      have "pow2 (f - 54) \<le> pow2 (f - 1)" by (rule pow2_mono) simp
      with near' q half [of f] have "pow2 (f - 1) \<le> y" by linarith
      then have "flog2 y = f - 1" using y_f by (intro flog2_unique) simp_all
      then have "f - 53 \<le> fl_exp y" using y by (simp add: fl_exp_def)
      then have "pow2 (f - 54) \<le> pow2 (fl_exp y) / 2"
        using pow2_mono [of "f - 54" "fl_exp y - 1"] half [of "fl_exp y"] by simp
      with near' show ?thesis
        by (intro rnd_of_near_multiple multiple_of_lower [OF mult]) (use lt y in auto)
    qed (rule same)
  qed
qed

section \<open>Powers of ten and decimal exponents\<close>

lemma pow10_powi: "pow10 e = 10 powi e"
  by (simp add: pow10_def power_int_def inverse_eq_divide power_one_over)

lemma pow10_add: "pow10 (a + b) = pow10 a * pow10 b"
  by (simp add: pow10_powi power_int_add)

lemma pow10_pos [simp]: "0 < pow10 e"
  by (simp add: pow10_def)

lemma pow10_nonzero [simp]: "pow10 e \<noteq> 0"
  using pow10_pos [of e] by linarith

lemma pow10_nat [simp]: "pow10 (int n) = 10 ^ n"
  by (simp add: pow10_def)

lemma pow10_diff: "pow10 (a - b) = pow10 a / pow10 b"
  by (simp add: pow10_powi power_int_diff)

lemma dec_str_length:
  "0 < n \<Longrightarrow> 10 ^ (length (dec_str n) - 1) \<le> n \<and> n < 10 ^ length (dec_str n)"
proof (induction n rule: dec_str.induct)
  case (1 n)
  show ?case
  proof (cases "n < 10")
    case True
    with 1 show ?thesis by (simp add: dec_str.simps)
  next
    case False
    let ?k = "length (dec_str (n div 10))"
    have k: "0 < ?k" by simp
    from 1 False have lo: "10 ^ (?k - 1) \<le> n div 10" and hi: "n div 10 < 10 ^ ?k" by auto
    have "(10 :: int) ^ ?k = 10 * 10 ^ (?k - 1)" using k by (simp flip: power_Suc)
    with lo have "10 ^ ?k \<le> n" by linarith
    moreover from hi have "n div 10 + 1 \<le> 10 ^ ?k" by simp
    then have "n < 10 ^ (?k + 1)" by simp
    ultimately show ?thesis using False by (simp add: dec_str.simps [of n])
  qed
qed

lemma hd_dec_str: "0 < n \<Longrightarrow> hd (dec_str n) \<noteq> CHR ''0''"
proof (induction n rule: dec_str.induct)
  case (1 n)
  show ?case
  proof (cases "n < 10")
    case True
    then have "n \<in> {1 ..< 10}" using 1 by simp
    then have "of_char (digit_char n) = (48 + n :: int)" by (intro digit_char_value) auto
    then have "digit_char n \<noteq> CHR ''0''" using 1(2) by auto
    with True show ?thesis by (simp add: dec_str.simps)
  next
    case False
    with 1 show ?thesis by (simp add: dec_str.simps [of n])
  qed
qed

lemma dec_exp_large: "1 \<le> q \<Longrightarrow> pow10 (dec_exp q) \<le> q \<and> q < pow10 (dec_exp q + 1)"
proof -
  assume q: "1 \<le> q"
  let ?n = "\<lfloor>q\<rfloor>" and ?k = "length (dec_str \<lfloor>q\<rfloor>)"
  have n: "0 < ?n" using q by simp
  have "?k \<noteq> 0" by simp
  then have k: "int (?k - 1) = int ?k - 1" by linarith
  from dec_str_length [OF n] have lo: "10 ^ (?k - 1) \<le> ?n" and hi: "?n + 1 \<le> 10 ^ ?k" by simp_all
  have e: "dec_exp q = int (?k - 1)" and e1: "dec_exp q + 1 = int ?k"
    using q by (simp_all only: k) (simp_all add: dec_exp_def)
  have "(10 :: rat) ^ (?k - 1) = of_int (10 ^ (?k - 1))" by simp
  also have "\<dots> \<le> of_int ?n" using lo by (simp only: of_int_le_iff)
  also have "\<dots> \<le> q" by simp
  finally have "pow10 (dec_exp q) \<le> q" by (simp only: e pow10_nat)
  moreover have "q < of_int (?n + 1)" by linarith
  then have "q < of_int (10 ^ ?k)" using hi by (meson less_le_trans of_int_le_iff)
  then have "q < pow10 (dec_exp q + 1)" unfolding e1 by simp
  ultimately show ?thesis by simp
qed

lemma dec_exp_small:
  assumes "pow2 (- 1074) \<le> q" and "q < 1"
  shows "pow10 (dec_exp q) \<le> q \<and> q < pow10 (dec_exp q + 1)"
proof -
  let ?P = "\<lambda>k. 1 \<le> q * 10 ^ k"
  have "(2 :: rat) ^ 1074 \<le> 10 ^ 399" by simp
  then have "1 \<le> pow2 (- 1074) * 10 ^ 399" by (simp add: pow2_def)
  also have "\<dots> \<le> q * 10 ^ 399" using assms(1) by (intro mult_right_mono) simp_all
  finally have "?P 399" .
  then have "\<exists>k. k \<in> set [1 ..< 400] \<and> ?P k" unfolding set_upt by (intro exI [of _ 399]) simp
  then have "List.find ?P [1 ..< 400] \<noteq> None" by (simp only: find_None_iff not_not)
  then obtain k where find: "List.find ?P [1 ..< 400] = Some k" by blast
  then obtain i where i: "i < 399" "k = [1 ..< 400] ! i" "?P k" "\<forall>j < i. \<not> ?P ([1 ..< 400] ! j)"
    by (auto simp: find_Some_iff)
  then have k: "k = Suc i" by simp
  have first: "q * 10 ^ i < 1"
  proof (cases i)
    case 0
    then show ?thesis using assms(2) by simp
  next
    case (Suc j)
    with i(1,4) show ?thesis by (auto simp: not_le dest: spec [of _ j])
  qed
  have e: "dec_exp q = - int k" using find assms(2) by (simp add: dec_exp_def)
  have "pow10 (dec_exp q) * 10 ^ k = 1" by (simp add: e pow10_def)
  with i(3) have "pow10 (dec_exp q) \<le> q" by (metis mult_le_cancel_right_pos zero_less_numeral zero_less_power)
  moreover have "pow10 (dec_exp q + 1) * 10 ^ i = 1" by (simp add: e k pow10_def)
  with first have "q < pow10 (dec_exp q + 1)"
    by (metis mult_less_cancel_right_pos zero_less_numeral zero_less_power)
  ultimately show ?thesis by simp
qed

lemma dec_exp_bounds:
  "pow2 (- 1074) \<le> q \<Longrightarrow> pow10 (dec_exp q) \<le> q \<and> q < pow10 (dec_exp q + 1)"
  using dec_exp_large dec_exp_small by (cases "1 \<le> q") auto

section \<open>Seventeen digits are enough\<close>

lemma double_lower_bound: "rnd q = q \<Longrightarrow> 0 < q \<Longrightarrow> pow2 (- 1074) \<le> q"
proof -
  assume q: "rnd q = q" "0 < q"
  have "multiple_of q (fl_exp q)"
    unfolding multiple_of_def
    by (rule exI [of _ "round_half_even (q / pow2 (fl_exp q))"]) (use q in \<open>simp add: rnd_def\<close>)
  moreover have "multiple_of 0 (fl_exp q)" by (simp add: multiple_of_def exI [of _ 0])
  ultimately have "pow2 (fl_exp q) \<le> q" using multiple_of_gap [of 0 "fl_exp q" q] q(2) by simp
  moreover have "pow2 (- 1074) \<le> pow2 (fl_exp q)" by (rule pow2_mono) (simp add: fl_exp_def)
  ultimately show ?thesis by simp
qed

text \<open>The candidates with \<open>p\<close> digits are positive and read back.\<close>

lemma candidates_sound:
  assumes "pow2 (- 1074) \<le> q" and "1 \<le> p" and "m \<in> set (candidates p q)"
  shows "1 \<le> m \<and> rnd (of_int m * pow10 (dec_exp q - int p + 1)) = q"
proof -
  let ?u = "pow10 (dec_exp q - int p + 1)"
  have "pow10 (dec_exp q) = pow10 (int (p - 1)) * ?u"
    using assms(2) by (simp flip: pow10_add add: of_nat_diff del: pow10_nat)
  then have "10 ^ (p - 1) * ?u \<le> q" using dec_exp_bounds [OF assms(1)] by (simp only: pow10_nat)
  moreover have "?u \<le> 10 ^ (p - 1) * ?u"
    using mult_right_mono [of 1 "10 ^ (p - 1)" ?u] by (simp add: less_imp_le)
  ultimately have "?u \<le> q" by (rule order_trans [rotated])
  then have "1 \<le> q / ?u" by (simp add: le_divide_eq)
  then have "1 \<le> \<lfloor>q / ?u\<rfloor>" by (simp only: le_floor_iff of_int_1)
  moreover from this have "1 \<le> \<lceil>q / ?u\<rceil>" using floor_le_ceiling [of "q / ?u"] by linarith
  moreover note assms(3)
  ultimately show ?thesis by (auto simp: candidates_def Let_def split: if_splits)
qed

lemma nearest_integer:
  "\<bar>of_int (if x - of_int \<lfloor>x\<rfloor> \<le> of_int \<lceil>x\<rceil> - x then \<lfloor>x\<rfloor> else \<lceil>x\<rceil>) - x\<bar> \<le> 1 / 2" for x :: rat
proof -
  have "of_int \<lfloor>x\<rfloor> \<le> x" "x \<le> of_int \<lceil>x\<rceil>" by simp_all
  moreover have "\<lceil>x\<rceil> \<le> \<lfloor>x\<rfloor> + 1" by linarith
  then have "of_int \<lceil>x\<rceil> \<le> of_int \<lfloor>x\<rfloor> + (1 :: rat)" by (metis of_int_1 of_int_add of_int_le_iff)
  ultimately show ?thesis by (auto simp: abs_le_iff)
qed

lemma candidates_17:
  assumes "rnd q = q" and "0 < q"
  shows "candidates 17 q \<noteq> []"
proof -
  let ?u = "pow10 (dec_exp q - 17 + 1)"
  let ?x = "q / ?u"
  note low = double_lower_bound [OF assms]
  obtain m where m: "m = (if ?x - of_int \<lfloor>?x\<rfloor> \<le> of_int \<lceil>?x\<rceil> - ?x then \<lfloor>?x\<rfloor> else \<lceil>?x\<rceil>)" by simp
  have "\<bar>of_int m - ?x\<bar> \<le> 1 / 2" unfolding m by (rule nearest_integer)
  then have "\<bar>of_int m - ?x\<bar> * ?u \<le> 1 / 2 * ?u" by (intro mult_right_mono) (simp_all add: less_imp_le)
  moreover have "of_int m * ?u - q = (of_int m - ?x) * ?u" by (simp add: left_diff_distrib)
  then have "\<bar>of_int m - ?x\<bar> * ?u = \<bar>of_int m * ?u - q\<bar>" by (simp add: abs_mult less_imp_le)
  ultimately have close: "\<bar>of_int m * ?u - q\<bar> \<le> ?u / 2" by linarith
  have "pow10 (dec_exp q) = 10 ^ 16 * ?u"
    using pow10_add [of 16 "dec_exp q - 17 + 1"] by (simp add: pow10_def)
  then have u: "10 ^ 16 * ?u \<le> q" using dec_exp_bounds [OF low] by simp
  have "?u / 2 < q * pow2 (- 54)"
  proof -
    have "?u * 2 ^ 54 < 2 * (10 ^ 16 * ?u)" by simp
    with u have "?u * 2 ^ 54 < 2 * q" by linarith
    then show ?thesis by (simp add: pow2_def)
  qed
  with close have "\<bar>of_int m * ?u - q\<bar> < q * pow2 (- 54)" by linarith
  then have rounds: "rnd (of_int m * ?u) = q" by (rule rnd_near [OF assms])
  have "int 17 = 17" by simp
  then have "candidates 17 q = filter (\<lambda>m. rnd (of_int m * ?u) = q)
      (if ?x - of_int \<lfloor>?x\<rfloor> \<le> of_int \<lceil>?x\<rceil> - ?x then [\<lfloor>?x\<rfloor>, \<lceil>?x\<rceil>] else [\<lceil>?x\<rceil>, \<lfloor>?x\<rfloor>])"
    unfolding candidates_def Let_def by (simp only:)
  moreover have "m \<in> set (if ?x - of_int \<lfloor>?x\<rfloor> \<le> of_int \<lceil>?x\<rceil> - ?x then [\<lfloor>?x\<rfloor>, \<lceil>?x\<rceil>] else [\<lceil>?x\<rceil>, \<lfloor>?x\<rfloor>])"
    unfolding m by simp
  ultimately have "m \<in> set (candidates 17 q)" using rounds by (simp only: set_filter mem_Collect_eq)
  then show ?thesis by (metis empty_iff list.set(1))
qed

lemma find_SomeD: "List.find P xs = Some x \<Longrightarrow> x \<in> set xs \<and> P x"
  by (auto simp: find_Some_iff)

lemma shortest_sound:
  assumes "rnd q = q" and "0 < q"
  obtains m e where "shortest q = (dec_str m, e)" and "1 \<le> m" and "rnd (of_int m * pow10 e) = q"
proof -
  have "\<exists>p. p \<in> set [1 ..< 18] \<and> candidates p q \<noteq> []"
    unfolding set_upt using candidates_17 [OF assms] by (intro exI [of _ 17]) simp
  then have "List.find (\<lambda>p. candidates p q \<noteq> []) [1 ..< 18] \<noteq> None"
    by (simp only: find_None_iff not_not)
  then obtain p where find: "List.find (\<lambda>p. candidates p q \<noteq> []) [1 ..< 18] = Some p" by blast
  from find_SomeD [OF this] have "p \<in> set [1 ..< 18]" and p2: "candidates p q \<noteq> []" by blast+
  then have p: "1 \<le> p" "candidates p q \<noteq> []" by auto
  then have "hd (candidates p q) \<in> set (candidates p q)" by simp
  from candidates_sound [OF double_lower_bound [OF assms] p(1) this] find show thesis
    by (intro that [of "hd (candidates p q)" "dec_exp q - int p + 1"]) (simp_all add: shortest_def)
qed

section \<open>Reading digits\<close>

text \<open>What may follow a value in the serialisation: nothing, or a character that ends a number.\<close>

definition ends_value :: "string \<Rightarrow> bool" where
  "ends_value rest \<longleftrightarrow> (case rest of [] \<Rightarrow> True | c # _ \<Rightarrow> c \<in> {CHR '','', CHR '']'', CHR ''}''})"

definition digits :: "string \<Rightarrow> bool" where
  "digits ds \<longleftrightarrow> ds \<noteq> [] \<and> list_all is_digit ds"

definition no_digit :: "string \<Rightarrow> bool" where
  "no_digit rest \<longleftrightarrow> (case rest of [] \<Rightarrow> True | c # _ \<Rightarrow> \<not> is_digit c)"

lemma ends_value_no_digit: "ends_value rest \<Longrightarrow> no_digit rest"
  by (cases rest) (auto simp: ends_value_def no_digit_def is_digit_def)

lemma no_digit_simps [simp]:
  "no_digit []" "no_digit (CHR ''.'' # s)" "no_digit (CHR ''e'' # s)"
  by (simp_all add: no_digit_def is_digit_def)

lemma span_digits_append: "list_all is_digit ds \<Longrightarrow> no_digit rest \<Longrightarrow> span_digits (ds @ rest) = (ds, rest)"
proof (induction ds)
  case Nil
  then show ?case by (cases rest) (auto simp: span_digits_def no_digit_def)
next
  case (Cons c ds)
  then show ?case by (simp add: span_digits_def)
qed

lemma scan_fraction_end: "ends_value rest \<Longrightarrow> scan_fraction rest = (None, rest)"
  by (cases rest) (auto simp: scan_fraction_def ends_value_def Let_def split: prod.splits)

lemma scan_fraction_e [simp]: "scan_fraction (CHR ''e'' # s) = (None, CHR ''e'' # s)"
  by (simp add: scan_fraction_def Let_def split: prod.splits)

lemma scan_fraction_digits:
  "digits fs \<Longrightarrow> no_digit rest \<Longrightarrow> scan_fraction (CHR ''.'' # fs @ rest) = (Some fs, rest)"
  by (simp add: scan_fraction_def span_digits_append digits_def)

lemma scan_exponent_end: "ends_value rest \<Longrightarrow> scan_exponent rest = (None, rest)"
  by (cases rest) (auto simp: scan_exponent_def ends_value_def Let_def split: prod.splits)

definition exponent_text :: "int \<Rightarrow> string" where
  "exponent_text k =
     [CHR ''e'', if k < 0 then CHR ''-'' else CHR ''+'']
     @ (let e = dec_str \<bar>k\<bar> in if length e < 2 then ''0'' @ e else e)"

lemma dec_str_all_digits: "0 \<le> n \<Longrightarrow> list_all is_digit (dec_str n)"
  by (simp add: list_all_iff dec_str_digits)

lemma is_digit_0 [simp]: "is_digit (CHR ''0'')"
  by (simp add: is_digit_def)

lemma scan_exponent_text: "ends_value rest \<Longrightarrow> scan_exponent (exponent_text k @ rest) = (Some k, rest)"
proof -
  assume rest: "ends_value rest"
  define es where "es = (let e = dec_str \<bar>k\<bar> in if length e < 2 then ''0'' @ e else e)"
  have es: "list_all is_digit es" "es \<noteq> []" "str_digits 0 es = \<bar>k\<bar>"
    by (auto simp: es_def Let_def dec_str_all_digits str_digits_dec_str)
  then have "span_digits (es @ rest) = (es, rest)"
    using rest by (intro span_digits_append ends_value_no_digit)
  with es show ?thesis by (simp add: scan_exponent_def exponent_text_def flip: es_def)
qed

text \<open>The four layouts of a number.\<close>

definition leading_digit :: "string \<Rightarrow> bool" where
  "leading_digit ds \<longleftrightarrow> digits ds \<and> (hd ds = CHR ''0'' \<longrightarrow> length ds = 1)"

lemma parse_number_split:
  assumes "leading_digit ds" and "no_digit rest"
  shows "(case ds @ rest of c # cs \<Rightarrow> if c = CHR ''0'' then ([c], cs) else span_digits (ds @ rest)
     | [] \<Rightarrow> ([], ds @ rest)) = (ds, rest)"
  using assms span_digits_append [of ds rest]
  by (cases ds) (auto simp: leading_digit_def digits_def)

lemma parse_number_int:
  "leading_digit ds \<Longrightarrow> ends_value rest \<Longrightarrow> length ds \<le> 4300 \<Longrightarrow>
     parse_number sign (ds @ rest) = Inr (JInt (sign * str_digits 0 ds), rest)"
  unfolding parse_number_def parse_number_split [OF _ ends_value_no_digit]
  by (simp add: scan_fraction_end scan_exponent_end leading_digit_def digits_def)

lemma parse_number_fraction:
  assumes "leading_digit ds" and "digits fs" and "ends_value rest"
  shows "parse_number sign (ds @ CHR ''.'' # fs @ rest) =
    Inr (JFloat (fl (decimal_value sign ds fs 0)), rest)"
proof -
  have "no_digit (CHR ''.'' # fs @ rest)" by simp
  note split = parse_number_split [OF assms(1) this]
  show ?thesis
    unfolding parse_number_def split
    using assms by (simp add: scan_fraction_digits ends_value_no_digit scan_exponent_end
        leading_digit_def digits_def)
qed

lemma exponent_text_no_digit [simp]: "no_digit (exponent_text k @ rest)"
  by (simp add: exponent_text_def)

lemma scan_fraction_exponent [simp]: "scan_fraction (exponent_text k @ rest) = (None, exponent_text k @ rest)"
  by (simp add: exponent_text_def)

lemma parse_number_exponent:
  assumes "leading_digit ds" and "ends_value rest"
  shows "parse_number sign (ds @ exponent_text k @ rest) =
    Inr (JFloat (fl (decimal_value sign ds [] k)), rest)"
  unfolding parse_number_def parse_number_split [OF assms(1) exponent_text_no_digit]
  using assms by (simp add: scan_exponent_text leading_digit_def digits_def)

lemma parse_number_both:
  assumes "leading_digit ds" and "digits fs" and "ends_value rest"
  shows "parse_number sign (ds @ CHR ''.'' # fs @ exponent_text k @ rest) =
    Inr (JFloat (fl (decimal_value sign ds fs k)), rest)"
proof -
  have "no_digit (CHR ''.'' # fs @ exponent_text k @ rest)" by simp
  note split = parse_number_split [OF assms(1) this]
  show ?thesis
    unfolding parse_number_def split
    using assms by (simp add: scan_fraction_digits scan_exponent_text leading_digit_def digits_def)
qed

section \<open>Reading a float\<close>

lemma str_digits_zeros: "str_digits acc (zeros k) = acc * 10 ^ k"
  by (induction k arbitrary: acc) (simp_all add: zeros_def)

lemma length_zeros [simp]: "length (zeros k) = k"
  by (simp add: zeros_def)

lemma zeros_digits [simp]: "list_all is_digit (zeros k)"
  by (simp add: zeros_def list_all_iff)

text \<open>Every layout has the value of its digits with the point after position \<open>pt\<close>.\<close>

lemma parse_float_digits:
  assumes ds: "digits ds" "hd ds \<noteq> CHR ''0''" and rest: "ends_value rest"
  shows "parse_number sign (float_digits ds pt @ rest) =
    Inr (JFloat (fl (of_int sign * (of_int (str_digits 0 ds) * pow10 (pt - int (length ds))))), rest)"
proof -
  have lead: "leading_digit ds" using ds by (simp add: leading_digit_def)
  have all: "list_all is_digit ds" "ds \<noteq> []" using ds by (simp_all add: digits_def)
  consider (small) "- 4 < pt" "pt \<le> 0" | (whole) "0 < pt" "pt \<le> 16" "int (length ds) \<le> pt"
    | (middle) "0 < pt" "pt \<le> 16" "pt < int (length ds)" | (exp) "\<not> (- 4 < pt \<and> pt \<le> 16)"
    by linarith
  then show ?thesis
  proof cases
    case small
    let ?fs = "zeros (nat (- pt)) @ ds"
    have layout: "float_digits ds pt = ''0'' @ CHR ''.'' # ?fs" using small by (simp add: float_digits_def)
    have "parse_number sign (''0'' @ CHR ''.'' # ?fs @ rest) =
        Inr (JFloat (fl (decimal_value sign ''0'' ?fs 0)), rest)"
      by (rule parse_number_fraction) (use all rest in \<open>auto simp: leading_digit_def digits_def\<close>)
    moreover have "decimal_value sign ''0'' ?fs 0 =
        of_int sign * (of_int (str_digits 0 ds) * pow10 (pt - int (length ds)))"
      using small by (simp add: decimal_value_def str_digits_append str_digits_zeros)
    ultimately show ?thesis by (simp add: layout)
  next
    case whole
    let ?k = "nat pt - length ds"
    have layout: "float_digits ds pt = (ds @ zeros ?k) @ CHR ''.'' # ''0''"
      using whole by (simp add: float_digits_def)
    have "parse_number sign ((ds @ zeros ?k) @ CHR ''.'' # ''0'' @ rest) =
        Inr (JFloat (fl (decimal_value sign (ds @ zeros ?k) ''0'' 0)), rest)"
      by (rule parse_number_fraction) (use ds all rest in \<open>auto simp: leading_digit_def digits_def\<close>)
    moreover have "pow10 (pt - int (length ds)) = 10 ^ ?k"
      using whole pow10_nat [of ?k] by (simp add: of_nat_diff)
    then have "decimal_value sign (ds @ zeros ?k) ''0'' 0 =
        of_int sign * (of_int (str_digits 0 ds) * pow10 (pt - int (length ds)))"
      by (simp add: decimal_value_def str_digits_append str_digits_zeros) (simp add: pow10_def)
    ultimately show ?thesis by (simp add: layout)
  next
    case middle
    let ?n = "nat pt"
    have n: "0 < ?n" "?n < length ds" using middle by auto
    have layout: "float_digits ds pt = take ?n ds @ CHR ''.'' # drop ?n ds"
      using middle by (simp add: float_digits_def)
    have "parse_number sign (take ?n ds @ CHR ''.'' # drop ?n ds @ rest) =
        Inr (JFloat (fl (decimal_value sign (take ?n ds) (drop ?n ds) 0)), rest)"
      by (rule parse_number_fraction)
         (use ds all rest n in \<open>auto simp: leading_digit_def digits_def list_all_iff
           dest: in_set_takeD in_set_dropD\<close>)
    moreover have "decimal_value sign (take ?n ds) (drop ?n ds) 0 =
        of_int sign * (of_int (str_digits 0 ds) * pow10 (pt - int (length ds)))"
      using n middle by (simp add: decimal_value_def of_nat_diff)
    ultimately show ?thesis by (simp add: layout)
  next
    case exp
    obtain d es where d: "ds = d # es" using all by (cases ds) auto
    have exp_text: "exponent_text (pt - 1) = ''e'' @ (if pt - 1 < 0 then ''-'' else ''+'')
        @ (let e = dec_str \<bar>pt - 1\<bar> in if length e < 2 then ''0'' @ e else e)"
      by (simp add: exponent_text_def)
    have val: "decimal_value sign [d] es (pt - 1) =
        of_int sign * (of_int (str_digits 0 ds) * pow10 (pt - int (length ds)))"
      by (simp add: decimal_value_def d algebra_simps)
    have lead1: "leading_digit [d]" using ds d by (simp add: leading_digit_def digits_def)
    show ?thesis
    proof (cases "es = []")
      case True
      then have "float_digits ds pt = [d] @ exponent_text (pt - 1)"
        using exp unfolding exp_text by (auto simp: float_digits_def d)
      then show ?thesis
        using parse_number_exponent [OF lead1 rest, of sign "pt - 1"] val True by simp
    next
      case False
      then have layout: "float_digits ds pt = [d] @ CHR ''.'' # es @ exponent_text (pt - 1)"
        using exp unfolding exp_text by (auto simp: float_digits_def d)
      have "digits es" using all d False by (simp add: digits_def)
      from parse_number_both [OF lead1 this rest, of sign "pt - 1"] show ?thesis
        by (simp add: layout val)
    qed
  qed
qed

section \<open>The text of a float\<close>

lemma strip_zeros_split: "\<exists>k. s = strip_zeros s @ zeros k"
proof -
  have "takeWhile (\<lambda>c. c = CHR ''0'') (rev s) = zeros (length (takeWhile (\<lambda>c. c = CHR ''0'') (rev s)))"
    unfolding zeros_def by (rule replicate_eqI) (auto dest: set_takeWhileD)
  then obtain k where "takeWhile (\<lambda>c. c = CHR ''0'') (rev s) = zeros k" by blast
  then have "rev s = zeros k @ dropWhile (\<lambda>c. c = CHR ''0'') (rev s)"
    by (metis takeWhile_dropWhile_id)
  then have "s = strip_zeros s @ rev (zeros k)"
    unfolding strip_zeros_def by (metis rev_append rev_rev_ident)
  then show ?thesis by (auto simp: zeros_def)
qed

text \<open>The digits of a float without their trailing zeros.\<close>

lemma float_repr_digits:
  assumes "rnd q = q" and "0 < q"
  obtains ds pt where
    "(let (ds, e) = shortest q; ds' = strip_zeros ds in float_digits ds' (int (length ds) + e))
       = float_digits ds pt"
    and "digits ds" and "hd ds \<noteq> CHR ''0''"
    and "rnd (of_int (str_digits 0 ds) * pow10 (pt - int (length ds))) = q"
proof -
  obtain m e where sh: "shortest q = (dec_str m, e)" and m: "1 \<le> m"
    and rounds: "rnd (of_int m * pow10 e) = q"
    using shortest_sound [OF assms] by blast
  let ?ds = "strip_zeros (dec_str m)"
  obtain k where k: "dec_str m = ?ds @ zeros k" using strip_zeros_split by blast
  have value_m: "str_digits 0 ?ds * 10 ^ k = m"
    using m str_digits_dec_str [of m] k by (metis order_trans str_digits_append str_digits_zeros zero_le_one)
  have "?ds \<noteq> []" using value_m m by auto
  moreover have "list_all is_digit ?ds"
    using dec_str_all_digits [of m] m k by (metis list_all_append order_trans zero_le_one)
  ultimately have dg: "digits ?ds" by (simp add: digits_def)
  have "hd (dec_str m) \<noteq> CHR ''0''" using m by (intro hd_dec_str) simp
  then have hd: "hd ?ds \<noteq> CHR ''0''" using k \<open>?ds \<noteq> []\<close> by (metis hd_append2)
  let ?pt = "int (length (dec_str m)) + e"
  have pt: "?pt - int (length ?ds) = e + int k" using arg_cong [OF k, of length] by simp
  have "of_int m = (of_int (str_digits 0 ?ds) :: rat) * 10 ^ k"
    using arg_cong [OF value_m, of "of_int :: int \<Rightarrow> rat"]
    by (simp only: of_int_mult of_int_power of_int_numeral)
  then have "of_int (str_digits 0 ?ds) * pow10 (?pt - int (length ?ds)) = of_int m * pow10 e"
    unfolding pt by (simp only: pow10_add pow10_nat mult_ac)
  with rounds dg hd sh show thesis by (intro that [of ?ds ?pt]) simp_all
qed

lemma float_digits_head: "digits ds \<Longrightarrow> \<exists>c cs. float_digits ds pt = c # cs \<and> is_digit c"
  by (cases ds) (auto simp: float_digits_def digits_def take_Cons')

definition finite_double :: "rat \<Rightarrow> bool" where
  "finite_double q \<longleftrightarrow> fl q = Fin q"

lemma finite_double_rnd: "finite_double q \<Longrightarrow> rnd q = q"
  by (simp add: finite_double_def fl_def Let_def split: if_splits)

lemma fl_of_rnd: "finite_double q \<Longrightarrow> rnd x = q \<Longrightarrow> fl x = Fin q"
  by (metis finite_double_def finite_double_rnd fl_def)

lemma fl_minus_of_rnd: "finite_double q \<Longrightarrow> rnd x = - q \<Longrightarrow> fl (- x) = Fin q"
  by (rule fl_of_rnd) (simp_all add: rnd_minus)

text \<open>A value that starts with a digit or a minus sign is a number.\<close>

lemma parse_value_digit: "is_digit c \<Longrightarrow> parse_value (Suc n) (c # cs) = parse_number 1 (c # cs)"
  by (auto simp: is_digit_def)

lemma parse_value_minus:
  "is_digit c \<Longrightarrow> parse_value (Suc n) (CHR ''-'' # c # cs) = parse_number (- 1) (c # cs)"
  by (auto simp: is_digit_def)

lemma parse_value_float:
  assumes "finite_double q" and "ends_value rest"
  shows "parse_value (Suc n) (float_repr (Fin q) @ rest) = Inr (JFloat (Fin q), rest)"
proof -
  consider "q = 0" | "0 < q" | "q < 0" by linarith
  then show ?thesis
  proof cases
    case 1
    have "parse_number 1 (''0'' @ CHR ''.'' # ''0'' @ rest) = Inr (JFloat (fl (decimal_value 1 ''0'' ''0'' 0)), rest)"
      by (rule parse_number_fraction) (use assms in \<open>auto simp: leading_digit_def digits_def\<close>)
    then have "parse_number 1 (CHR ''0'' # CHR ''.'' # CHR ''0'' # rest) = Inr (JFloat (Fin 0), rest)"
      by (simp add: decimal_value_def)
    then have "parse_value (Suc n) (''0.0'' @ rest) = Inr (JFloat (Fin 0), rest)"
      using parse_value_digit [of "CHR ''0''" n] by (simp only: is_digit_0 append_Cons append_Nil)
    then show ?thesis using 1 by (simp only: float_repr.simps if_True simp_thms)
  next
    case 2
    obtain ds pt where repr: "float_repr (Fin q) = float_digits ds pt" and dg: "digits ds" "hd ds \<noteq> CHR ''0''"
      and rounds: "rnd (of_int (str_digits 0 ds) * pow10 (pt - int (length ds))) = q"
      using float_repr_digits [OF finite_double_rnd [OF assms(1)] 2] 2
      by (auto simp: Let_def split: prod.splits)
    obtain c cs where c: "float_digits ds pt = c # cs" "is_digit c" using float_digits_head [OF dg(1)] by blast
    have "parse_number 1 (float_digits ds pt @ rest) = Inr (JFloat (Fin q), rest)"
      using parse_float_digits [OF dg assms(2), of 1 pt] fl_of_rnd [OF assms(1) rounds] by simp
    then show ?thesis
      using parse_value_digit [OF c(2), of n "cs @ rest"] by (simp only: repr c(1) append_Cons)
  next
    case 3
    have "rnd (- q) = - q" using finite_double_rnd [OF assms(1)] by (simp add: rnd_minus)
    moreover have "0 < - q" using 3 by simp
    ultimately obtain ds pt where layout:
        "(let (ds, e) = shortest (- q); ds' = strip_zeros ds in float_digits ds' (int (length ds) + e))
           = float_digits ds pt"
      and dg: "digits ds" "hd ds \<noteq> CHR ''0''"
      and rounds: "rnd (of_int (str_digits 0 ds) * pow10 (pt - int (length ds))) = - q"
      by (rule float_repr_digits)
    have repr: "float_repr (Fin q) = CHR ''-'' # float_digits ds pt"
      using 3 layout by (simp add: abs_if Let_def case_prod_beta)
    obtain c cs where c: "float_digits ds pt = c # cs" "is_digit c" using float_digits_head [OF dg(1)] by blast
    have "parse_number (- 1) (float_digits ds pt @ rest) = Inr (JFloat (Fin q), rest)"
      using parse_float_digits [OF dg assms(2), of "- 1" pt] fl_minus_of_rnd [OF assms(1) rounds]
      by simp
    then show ?thesis
      using parse_value_minus [OF c(2), of n "cs @ rest"] by (simp only: repr c(1) append_Cons)
  qed
qed

text \<open>Integers.\<close>

definition digit_bound :: "nat \<Rightarrow> int" where
  "digit_bound n = 10 ^ n"

lemma dec_str_bounded: "0 \<le> k \<Longrightarrow> k < digit_bound n \<Longrightarrow> 0 < n \<Longrightarrow> length (dec_str k) \<le> n"
proof -
  assume k: "0 \<le> k" "k < digit_bound n" and n: "0 < n"
  show ?thesis
  proof (cases "k = 0")
    case True
    with n show ?thesis by (simp add: dec_str.simps)
  next
    case False
    with k have "10 ^ (length (dec_str k) - 1) \<le> k" using dec_str_length [of k] by simp
    from this k(2) have "(10 :: int) ^ (length (dec_str k) - 1) < 10 ^ n"
      unfolding digit_bound_def by (rule le_less_trans)
    then have "length (dec_str k) - 1 < n" by (rule power_less_imp_less_exp [rotated]) simp
    then show ?thesis by simp
  qed
qed

lemma parse_value_int:
  assumes "\<bar>k\<bar> < digit_bound 4300" and "ends_value rest"
  shows "parse_value (Suc n) (int_str k @ rest) = Inr (JInt k, rest)"
proof -
  let ?ds = "dec_str \<bar>k\<bar>"
  have len: "length ?ds \<le> 4300" using assms(1) by (intro dec_str_bounded) simp_all
  have dg: "digits ?ds" by (simp add: digits_def dec_str_all_digits)
  moreover have "hd ?ds = CHR ''0'' \<Longrightarrow> length ?ds = 1"
    using hd_dec_str [of "\<bar>k\<bar>"] by (cases "k = 0") (auto simp: dec_str.simps)
  ultimately have "leading_digit ?ds" by (simp add: leading_digit_def)
  from parse_number_int [OF this assms(2) len]
  have parse: "parse_number sign (?ds @ rest) = Inr (JInt (sign * \<bar>k\<bar>), rest)" for sign
    by (simp add: str_digits_dec_str)
  obtain c cs where c: "?ds = c # cs" "is_digit c" using dg by (cases ?ds) (auto simp: digits_def)
  show ?thesis
  proof (cases "k < 0")
    case True
    then show ?thesis
      using parse [of "- 1"] parse_value_minus [OF c(2), of n "cs @ rest"] c(1)
      by (simp add: int_str_def del: parse_value.simps)
  next
    case False
    then show ?thesis
      using parse [of 1] parse_value_digit [OF c(2), of n "cs @ rest"] c(1)
      by (simp add: int_str_def del: parse_value.simps)
  qed
qed

end
