(* ===== verification/PyJsonRoundtrip.thy ===== *)
theory PyJsonRoundtrip
  imports PyFloatText
begin

text \<open>
  Reading back what the canonical serialisation wrote.  \<open>json_loads (json_dumps v)\<close> is \<open>canon v\<close>,
  the value with the members of every object sorted by key, for the values that Python can hold
  and print (\<open>json_ok\<close>: floats that are doubles, integers within the digit limit, objects with
  distinct keys).  So the text determines the value up to the order of its members.
\<close>

fun canon :: "json \<Rightarrow> json" where
  "canon (JList xs) = JList (map canon xs)"
| "canon (JObj d) = JObj (sort_key fst (map (\<lambda>(k, v). (k, canon v)) d))"
| "canon v = v"

fun json_ok :: "json \<Rightarrow> bool" where
  "json_ok (JInt k) \<longleftrightarrow> \<bar>k\<bar> < digit_bound 4300"
| "json_ok (JFloat x) \<longleftrightarrow> (case x of Fin q \<Rightarrow> finite_double q | _ \<Rightarrow> True)"
| "json_ok (JList xs) \<longleftrightarrow> (\<forall>x \<in> set xs. json_ok x)"
| "json_ok (JObj d) \<longleftrightarrow> dict_wf d \<and> (\<forall>(k, v) \<in> set d. json_ok v)"
| "json_ok JNull \<longleftrightarrow> True"
| "json_ok (JBool b) \<longleftrightarrow> True"
| "json_ok (JStr s) \<longleftrightarrow> True"

section \<open>Strings\<close>

lemma hex_value_digit: "d < 16 \<Longrightarrow> hex_value (hex_digit d) = Some d"
proof -
  assume "d < 16"
  then have "d \<in> {0, 1, 2, 3, 4, 5, 6, 7, 8, 9, 10, 11, 12, 13, 14, 15}"
    by (simp only: insert_iff empty_iff) presburger
  then show ?thesis by (auto simp: hex_value_def hex_digit_def)
qed

lemma char_code_bounds: "of_char c div 16 < (16 :: nat)"
  by (rule less_mult_imp_div_less) simp

lemma parse_string_plain:
  assumes "CHR '' '' \<le> c" and "c \<noteq> CHR 0x22" and "c \<noteq> CHR 0x5C"
  shows "parse_string (c # t) = bind_res (parse_string t) (\<lambda>(s, r). Inr (c # s, r))"
  using assms by (simp add: less_eq_char_def)

lemma parse_string_unicode:
  "parse_string (CHR 0x5C # CHR ''u'' # CHR ''0'' # CHR ''0'' # hex_digit (of_char c div 16)
       # hex_digit (of_char c mod 16) # t)
     = bind_res (parse_string t) (\<lambda>(s, r). Inr (c # s, r))"
proof -
  have "hex_value (CHR ''0'') = Some 0" by (simp add: hex_value_def)
  then have "unicode_escape (CHR ''0'' # CHR ''0'' # hex_digit (of_char c div 16)
      # hex_digit (of_char c mod 16) # t) = Inr (c, t)"
    by (simp add: unicode_escape_def hex_value_digit char_code_bounds)
  then show ?thesis by simp
qed

lemma parse_string_escape:
  "parse_string (escape_char c @ t) = bind_res (parse_string t) (\<lambda>(s, r). Inr (c # s, r))"
proof -
  consider "c \<in> {CHR 0x22, CHR 0x5C, CHR 0x0A, CHR 0x0D, CHR 0x09, CHR 0x0C, CHR 0x08}"
    | "c \<notin> {CHR 0x22, CHR 0x5C, CHR 0x0A, CHR 0x0D, CHR 0x09, CHR 0x0C, CHR 0x08}"
      "CHR '' '' \<le> c \<and> c \<le> CHR ''~''"
    | "c \<notin> {CHR 0x22, CHR 0x5C, CHR 0x0A, CHR 0x0D, CHR 0x09, CHR 0x0C, CHR 0x08}"
      "\<not> (CHR '' '' \<le> c \<and> c \<le> CHR ''~'')"
    by blast
  then show ?thesis
  proof cases
    case 1
    then show ?thesis by (auto simp: escape_char_def simple_escape_def)
  next
    case 2
    then have "escape_char c = [c]" by (simp add: escape_char_def)
    with 2 show ?thesis by (simp only: append_Cons append_Nil) (rule parse_string_plain, auto)
  next
    case 3
    then have "escape_char c = [CHR 0x5C, CHR ''u'', CHR ''0'', CHR ''0'',
        hex_digit (of_char c div 16), hex_digit (of_char c mod 16)]"
      unfolding escape_char_def by (simp only: insert_iff empty_iff de_Morgan_disj if_False simp_thms)
    then show ?thesis by (simp only: append_Cons append_Nil parse_string_unicode)
  qed
qed

lemma parse_string_text: "parse_string (concat (map escape_char s) @ CHR 0x22 # rest) = Inr (s, rest)"
  by (induction s) (simp_all add: parse_string_escape)

lemma parse_json_string:
  "parse_value (Suc n) (json_string s @ rest) = Inr (JStr s, rest)"
  by (simp add: json_string_def parse_string_text)

section \<open>White space and first characters\<close>

lemma skip_ws_id: "c \<notin> {CHR '' '', CHR 0x09, CHR 0x0A, CHR 0x0D} \<Longrightarrow> skip_ws (c # s) = c # s"
  by (simp add: skip_ws_def)

lemma skip_ws_ends: "ends_value rest \<Longrightarrow> skip_ws rest = rest"
  by (cases rest) (auto simp: ends_value_def skip_ws_def)

definition value_head :: "string \<Rightarrow> bool" where
  "value_head s \<longleftrightarrow>
     (case s of [] \<Rightarrow> False | c # _ \<Rightarrow> c \<notin> {CHR '' '', CHR 0x09, CHR 0x0A, CHR 0x0D, CHR '']''})"

lemma value_head_skip: "value_head s \<Longrightarrow> skip_ws (s @ t) = s @ t"
  by (cases s) (auto simp: value_head_def skip_ws_def)

lemma value_head_digit: "is_digit c \<Longrightarrow> value_head (c # s)"
  by (auto simp: value_head_def is_digit_def)

lemma value_head_int: "value_head (int_str k)"
proof (cases "k < 0")
  case True
  then show ?thesis by (simp add: int_str_def value_head_def)
next
  case False
  then obtain c cs where "int_str k = c # cs" "is_digit c"
    using dec_str_not_Nil [of k] dec_str_all_digits [of k]
    by (cases "dec_str k") (auto simp: int_str_def)
  then show ?thesis by (simp add: value_head_digit)
qed

lemma value_head_float: "finite_double q \<Longrightarrow> value_head (float_repr (Fin q))"
proof -
  assume q: "finite_double q"
  have pos: "value_head (let (ds, e) = shortest p; ds' = strip_zeros ds
      in float_digits ds' (int (length ds) + e))" if "rnd p = p" "0 < p" for p
    using that by (rule float_repr_digits) (metis float_digits_head value_head_digit)
  consider "q = 0" | "0 < q" | "q < 0" by linarith
  then show ?thesis
  proof cases
    case 1
    then show ?thesis by (simp add: value_head_def)
  next
    case 2
    with pos [OF finite_double_rnd [OF q]] show ?thesis by (simp add: Let_def case_prod_beta)
  next
    case 3
    then show ?thesis by (simp add: Let_def case_prod_beta value_head_def)
  qed
qed

lemma value_head_dumps: "json_ok v \<Longrightarrow> value_head (json_dumps v)"
proof (cases v)
  case (JFloat x)
  then show "json_ok v \<Longrightarrow> value_head (json_dumps v)"
    using value_head_float by (cases x) (auto simp: value_head_def)
qed (auto simp: value_head_int json_string_def value_head_def[of "_ # _"])

section \<open>Values\<close>

definition reads_back :: "json \<Rightarrow> bool" where
  "reads_back v \<longleftrightarrow>
     (\<forall>n rest. length (json_dumps v) \<le> n \<longrightarrow> ends_value rest \<longrightarrow>
        parse_value n (json_dumps v @ rest) = Inr (canon v, rest))"

lemma reads_backD:
  "reads_back v \<Longrightarrow> length (json_dumps v) \<le> n \<Longrightarrow> ends_value rest \<Longrightarrow>
     parse_value n (json_dumps v @ rest) = Inr (canon v, rest)"
  by (simp add: reads_back_def)

lemma ends_value_simps [simp]:
  "ends_value []" "ends_value (CHR '','' # s)" "ends_value (CHR '']'' # s)" "ends_value (CHR ''}'' # s)"
  by (simp_all add: ends_value_def)

lemma parse_elements_text:
  assumes "vs \<noteq> []" and "\<forall>v \<in> set vs. json_ok v \<and> reads_back v"
    and "length (join_with '','' (map json_dumps vs)) < n"
  shows "parse_elements n (join_with '','' (map json_dumps vs) @ CHR '']'' # rest) = Inr (map canon vs, rest)"
  using assms
proof (induction vs arbitrary: n rest rule: induct_list012)
  case 1
  then show ?case by simp
next
  case (2 v)
  then obtain m where n: "n = Suc m" by (cases n) auto
  with 2 have "parse_value m (json_dumps v @ CHR '']'' # rest) = Inr (canon v, CHR '']'' # rest)"
    by (intro reads_backD) auto
  then show ?case by (simp add: n skip_ws_id)
next
  case (3 v w vs)
  then obtain m where n: "n = Suc m" by (cases n) auto
  let ?tail = "join_with '','' (map json_dumps (w # vs)) @ CHR '']'' # rest"
  have "parse_value m (json_dumps v @ CHR '','' # ?tail) = Inr (canon v, CHR '','' # ?tail)"
    using 3 n by (intro reads_backD) auto
  moreover have "parse_elements m ?tail = Inr (map canon (w # vs), rest)"
    using 3 n by (intro "3.IH"(2)) auto
  moreover have "skip_ws ?tail = ?tail"
  proof -
    have "value_head (json_dumps w)" using 3 by (simp add: value_head_dumps)
    from value_head_skip [OF this] show ?thesis by (cases vs) simp_all
  qed
  ultimately show ?case by (simp add: n skip_ws_id del: parse_elements.simps(2)) (simp add: skip_ws_id)
qed

definition member_text :: "string \<times> json \<Rightarrow> string" where
  "member_text = (\<lambda>(k, v). json_string k @ CHR '':'' # json_dumps v)"

lemma parse_member:
  assumes "json_ok v" and "reads_back v" and "length (json_dumps v) \<le> m" and "ends_value (d # ds)"
  shows "parse_members (Suc m) (member_text (k, v) @ d # ds) =
    (if d = CHR '','' then bind_res (parse_members m (skip_ws ds)) (\<lambda>(ms, r2). Inr ((k, canon v) # ms, r2))
     else if d = CHR ''}'' then Inr ([(k, canon v)], ds)
     else fail_json)"
proof -
  have "parse_string (concat (map escape_char k) @ CHR 0x22 # CHR '':'' # json_dumps v @ d # ds)
      = Inr (k, CHR '':'' # json_dumps v @ d # ds)" by (rule parse_string_text)
  moreover have "skip_ws (json_dumps v @ d # ds) = json_dumps v @ d # ds"
    using assms(1) by (intro value_head_skip value_head_dumps)
  moreover have "parse_value m (json_dumps v @ d # ds) = Inr (canon v, d # ds)"
    using assms by (intro reads_backD)
  moreover have "skip_ws (d # ds) = d # ds" using assms(4) by (rule skip_ws_ends)
  ultimately show ?thesis
    by (simp add: member_text_def json_string_def skip_ws_id del: parse_value.simps)
qed

lemma parse_members_text:
  assumes "d \<noteq> []" and "\<forall>(k, v) \<in> set d. json_ok v \<and> reads_back v"
    and "length (join_with '','' (map member_text d)) < n"
  shows "parse_members n (join_with '','' (map member_text d) @ CHR ''}'' # rest)
    = Inr (map (\<lambda>(k, v). (k, canon v)) d, rest)"
  using assms
proof (induction d arbitrary: n rest rule: induct_list012)
  case 1
  then show ?case by simp
next
  case (2 p)
  then obtain m k v where n: "n = Suc m" and p: "p = (k, v)" by (cases n; cases p) auto
  have "length (json_dumps v) \<le> m" using 2(3) by (simp add: n p member_text_def)
  with 2 n p show ?case by (simp add: parse_member del: parse_members.simps)
next
  case (3 p q d)
  then obtain m k v where n: "n = Suc m" and p: "p = (k, v)" by (cases n; cases p) auto
  let ?tail = "join_with '','' (map member_text (q # d)) @ CHR ''}'' # rest"
  have len: "length (json_dumps v) \<le> m" using 3(5) by (simp add: n p member_text_def)
  have tail: "parse_members m ?tail = Inr (map (\<lambda>(k, v). (k, canon v)) (q # d), rest)"
    using 3 n by (intro "3.IH"(2)) auto
  obtain cs where "?tail = CHR 0x22 # cs"
    by (cases q; cases d) (simp_all add: member_text_def json_string_def)
  then have skip: "skip_ws ?tail = ?tail" by (simp only:) (rule skip_ws_id, simp)
  have "parse_members (Suc m) (member_text (k, v) @ CHR '','' # ?tail)
      = Inr (map (\<lambda>(k, v). (k, canon v)) (p # q # d), rest)"
    using 3(4) p len by (subst parse_member) (simp_all only: skip tail, auto)
  then show ?case by (simp add: n p del: parse_members.simps)
qed

lemma insort_map_fst:
  "(\<And>p. fst (f p) = fst p) \<Longrightarrow> insort_key fst (f p) (map f d) = map f (insort_key fst p d)"
  by (induction d) simp_all

lemma sort_map_fst: "(\<And>p. fst (f p) = fst p) \<Longrightarrow> sort_key fst (map f d) = map f (sort_key fst d)"
  by (induction d) (simp_all add: insort_map_fst)

lemma dumps_members:
  "json_dumps (JObj d) = CHR ''{'' # join_with '','' (map member_text (sort_key fst d)) @ ''}''"
proof -
  let ?f = "\<lambda>(k, v). (k, json_dumps v)"
  have "sort_key fst (map ?f d) = map ?f (sort_key fst d)"
    by (rule sort_map_fst) auto
  then show ?thesis by (simp add: member_text_def split_def comp_def)
qed

lemma fold_dict_set:
  "distinct (map fst (d @ ms)) \<Longrightarrow> fold (\<lambda>(k, v). dict_set k v) ms d = d @ ms"
  by (induction ms arbitrary: d) (auto simp: dict_set_fresh)

lemma reads_back_list:
  assumes "\<forall>v \<in> set vs. json_ok v \<and> reads_back v"
  shows "reads_back (JList vs)"
  unfolding reads_back_def
proof (intro allI impI)
  fix n rest
  assume len: "length (json_dumps (JList vs)) \<le> n"
  then obtain m where n: "n = Suc m" by (cases n) auto
  show "parse_value n (json_dumps (JList vs) @ rest) = Inr (canon (JList vs), rest)"
  proof (cases "vs = []")
    case True
    then show ?thesis by (simp add: n skip_ws_id)
  next
    case False
    let ?body = "join_with '','' (map json_dumps vs)"
    have body: "parse_elements m (?body @ CHR '']'' # rest) = Inr (map canon vs, rest)"
      using False assms len n by (intro parse_elements_text) auto
    have "value_head ?body"
    proof -
      obtain v ws where "vs = v # ws" using False by (cases vs) auto
      then have "value_head (json_dumps v)" using assms by (simp add: value_head_dumps)
      with \<open>vs = v # ws\<close> show ?thesis
        by (cases "json_dumps v"; cases ws) (auto simp: value_head_def)
    qed
    then obtain c cs where c: "?body @ CHR '']'' # rest = c # cs" "c \<noteq> CHR '']''"
      by (cases ?body) (auto simp: value_head_def)
    moreover have "skip_ws (?body @ CHR '']'' # rest) = ?body @ CHR '']'' # rest"
      using \<open>value_head ?body\<close> by (rule value_head_skip)
    ultimately show ?thesis using body by (simp add: n)
  qed
qed

text \<open>An object ends with its brace, whatever follows.\<close>

lemma parse_object_text:
  assumes wf: "dict_wf d" and "\<forall>(k, v) \<in> set d. json_ok v \<and> reads_back v"
    and len: "length (json_dumps (JObj d)) \<le> n"
  shows "parse_value n (json_dumps (JObj d) @ rest) = Inr (canon (JObj d), rest)"
proof -
  define e where "e = sort_key fst d"
  let ?body = "join_with '','' (map member_text e)"
  have dumps: "json_dumps (JObj d) = CHR ''{'' # ?body @ ''}''"
    unfolding e_def by (rule dumps_members)
  then obtain m where n: "n = Suc m" using len by (cases n) auto
  have sorted: "canon (JObj d) = JObj (map (\<lambda>(k, v). (k, canon v)) e)"
    by (simp add: e_def sort_map_fst case_prod_beta)
  show ?thesis
  proof (cases "e = []")
    case True
    then show ?thesis unfolding dumps sorted by (simp add: n skip_ws_id)
  next
    case False
    have body: "parse_members m (?body @ CHR ''}'' # rest) = Inr (map (\<lambda>(k, v). (k, canon v)) e, rest)"
      using False assms(2) len [unfolded dumps] n by (intro parse_members_text) (auto simp: e_def)
    have keys: "distinct (map fst ([] @ map (\<lambda>(k, v). (k, canon v)) e))"
    proof -
      have "map fst (map (\<lambda>(k, v). (k, canon v)) e) = map fst e" by auto
      moreover have "distinct (map fst e)" using wf by (simp add: e_def distinct_map)
      ultimately show ?thesis by (simp only: append_Nil)
    qed
    obtain cs where c: "?body @ CHR ''}'' # rest = CHR 0x22 # cs"
      using False by (cases e rule: remdups_adj.cases) (auto simp: member_text_def json_string_def)
    then have "skip_ws (?body @ CHR ''}'' # rest) = CHR 0x22 # cs"
      by (simp only:) (rule skip_ws_id, simp)
    then show ?thesis
      using body fold_dict_set [OF keys] unfolding dumps sorted by (simp add: n c)
  qed
qed

lemma reads_back_obj:
  "dict_wf d \<Longrightarrow> \<forall>(k, v) \<in> set d. json_ok v \<and> reads_back v \<Longrightarrow> reads_back (JObj d)"
  unfolding reads_back_def [of "JObj d"] using parse_object_text by blast

lemma reads_back_value: "json_ok v \<Longrightarrow> reads_back v"
proof (induction v rule: json_ok.induct)
  case (1 k)
  show ?case unfolding reads_back_def
  proof (intro allI impI)
    fix n rest
    assume "length (json_dumps (JInt k)) \<le> n" "ends_value rest"
    moreover have "json_dumps (JInt k) \<noteq> []" using value_head_int [of k] by (auto simp: value_head_def)
    ultimately show "parse_value n (json_dumps (JInt k) @ rest) = Inr (canon (JInt k), rest)"
      using 1 parse_value_int [of k rest] by (cases n) (auto simp del: parse_value.simps)
  qed
next
  case (2 x)
  show ?case unfolding reads_back_def
  proof (intro allI impI)
    fix n rest
    assume len: "length (json_dumps (JFloat x)) \<le> n" and rest: "ends_value rest"
    then obtain m where n: "n = Suc m" using value_head_dumps [OF 2] by (cases n) (auto simp: value_head_def)
    show "parse_value n (json_dumps (JFloat x) @ rest) = Inr (canon (JFloat x), rest)"
    proof (cases x)
      case (Fin q)
      with 2 parse_value_float [OF _ rest, of q m] n show ?thesis
        by (simp del: parse_value.simps float_repr.simps)
    qed (auto simp: n literal_def)
  qed
next
  case (3 xs)
  then show ?case by (intro reads_back_list) auto
next
  case (4 d)
  then show ?case by (intro reads_back_obj) auto
next
  case 5
  show ?case unfolding reads_back_def
  proof (intro allI impI)
    fix n rest
    assume "length (json_dumps JNull) \<le> n"
    then show "parse_value n (json_dumps JNull @ rest) = Inr (canon JNull, rest)"
      by (cases n) (auto simp: literal_def)
  qed
next
  case (6 b)
  show ?case unfolding reads_back_def
  proof (intro allI impI)
    fix n rest
    assume "length (json_dumps (JBool b)) \<le> n"
    then show "parse_value n (json_dumps (JBool b) @ rest) = Inr (canon (JBool b), rest)"
      by (cases n; cases b) (auto simp: literal_def)
  qed
next
  case (7 s)
  show ?case unfolding reads_back_def
  proof (intro allI impI)
    fix n rest
    assume "length (json_dumps (JStr s)) \<le> n"
    then obtain m where "n = Suc m" by (cases n) (auto simp: json_string_def)
    then show "parse_value n (json_dumps (JStr s) @ rest) = Inr (canon (JStr s), rest)"
      by (simp only: json_dumps.simps parse_json_string canon.simps)
  qed
qed

section \<open>The round trip\<close>

lemma loads_dumps: "json_ok v \<Longrightarrow> json_loads (json_dumps v) = Inr (canon v)"
proof -
  assume ok: "json_ok v"
  have "skip_ws (json_dumps v) = json_dumps v"
    using value_head_skip [OF value_head_dumps [OF ok], of "[]"] by simp
  moreover have "parse_value (length (json_dumps v) + 1) (json_dumps v @ []) = Inr (canon v, [])"
    by (rule reads_backD [OF reads_back_value [OF ok]]) simp_all
  ultimately show ?thesis by (simp add: json_loads_def skip_ws_def del: parse_value.simps)
qed

text \<open>A line break after an object is white space.\<close>

lemma loads_object_line:
  assumes "json_ok (JObj d)"
  shows "json_loads (json_dumps (JObj d) @ [CHR 0x0A]) = Inr (canon (JObj d))"
proof -
  have "skip_ws (json_dumps (JObj d) @ [CHR 0x0A]) = json_dumps (JObj d) @ [CHR 0x0A]"
    using value_head_skip [OF value_head_dumps [OF assms]] .
  moreover have "parse_value (length (json_dumps (JObj d) @ [CHR 0x0A]) + 1) (json_dumps (JObj d) @ [CHR 0x0A])
      = Inr (canon (JObj d), [CHR 0x0A])"
    using assms reads_back_value by (intro parse_object_text) auto
  ultimately show ?thesis by (simp add: json_loads_def skip_ws_def del: parse_value.simps json_dumps.simps canon.simps)
qed

lemma dumps_canon_eq: "json_ok v \<Longrightarrow> json_ok w \<Longrightarrow> json_dumps v = json_dumps w \<Longrightarrow> canon v = canon w"
  using loads_dumps by (metis sum.inject(2))

text \<open>The serialisation is plain ASCII.\<close>

definition ascii :: "string \<Rightarrow> bool" where
  "ascii s \<longleftrightarrow> (\<forall>c \<in> set s. of_char c < (128 :: nat))"

lemma ascii_simps [simp]:
  "ascii []" "ascii (c # s) \<longleftrightarrow> of_char c < (128 :: nat) \<and> ascii s" "ascii (s @ t) \<longleftrightarrow> ascii s \<and> ascii t"
  by (auto simp: ascii_def)

lemma digit_ascii: "is_digit c \<Longrightarrow> of_char c < (128 :: nat)"
  unfolding is_digit_def by (simp, elim disjE) simp_all

lemma ascii_digits: "list_all is_digit s \<Longrightarrow> ascii s"
  by (induction s) (simp_all add: digit_ascii)

lemma ascii_hex: "d < 16 \<Longrightarrow> of_char (hex_digit d) < (128 :: nat)"
proof -
  assume "d < 16"
  then have "hex_digit d \<in> set ''0123456789abcdef''" unfolding hex_digit_def by (intro nth_mem) simp
  then show ?thesis by auto
qed

lemma ascii_escape: "ascii (escape_char c)"
proof (cases "CHR '' '' \<le> c \<and> c \<le> CHR ''~''")
  case True
  then have "ascii [c]" by (simp add: less_eq_char_def)
  moreover have "ascii [CHR 0x5C, CHR 0x22]" "ascii [CHR 0x5C, CHR 0x5C]" by simp_all
  ultimately show ?thesis using True by (simp add: escape_char_def)
next
  case False
  have "of_char (hex_digit (of_char c div 16)) < (128 :: nat)"
    "of_char (hex_digit (of_char c mod 16)) < (128 :: nat)"
    by (rule ascii_hex [OF char_code_bounds], rule ascii_hex) simp
  then show ?thesis unfolding escape_char_def if_not_P [OF False] by simp
qed

lemma ascii_string: "ascii (json_string s)"
  using ascii_escape by (induction s) (simp_all add: json_string_def)

lemma ascii_join: "\<forall>s \<in> set ss. ascii s \<Longrightarrow> ascii sep \<Longrightarrow> ascii (join_with sep ss)"
  by (induction sep ss rule: join_with.induct) auto

lemma ascii_int: "ascii (int_str k)"
  using ascii_digits dec_str_all_digits by (simp add: int_str_def)

lemma ascii_zeros: "ascii (zeros k)"
  by (rule ascii_digits) simp

lemma ascii_sub: "ascii s \<Longrightarrow> set t \<subseteq> set s \<Longrightarrow> ascii t"
  by (auto simp: ascii_def)

lemma ascii_float_digits: "ascii ds \<Longrightarrow> ascii (float_digits ds pt)"
proof -
  assume ds: "ascii ds"
  then have "ascii (take n ds)" "ascii (drop n ds)" for n
    by (rule ascii_sub [OF _ set_take_subset], rule ascii_sub [OF _ set_drop_subset])
  moreover have "0 \<le> k \<Longrightarrow> ascii (dec_str k)" for k
    by (rule ascii_digits) (rule dec_str_all_digits)
  ultimately show ?thesis using ds by (simp add: float_digits_def ascii_zeros Let_def)
qed

lemma ascii_float: "(case x of Fin q \<Rightarrow> finite_double q | _ \<Rightarrow> True) \<Longrightarrow> ascii (json_float x)"
proof (cases x)
  case (Fin q)
  assume "case x of Fin q \<Rightarrow> finite_double q | _ \<Rightarrow> True"
  with Fin have q: "finite_double q" by simp
  have pos: "ascii (let (ds, e) = shortest p; ds' = strip_zeros ds
      in float_digits ds' (int (length ds) + e))" if "rnd p = p" "0 < p" for p
    using that by (rule float_repr_digits) (metis ascii_float_digits ascii_digits digits_def)
  consider "q = 0" | "0 < q" | "q < 0" by linarith
  then show ?thesis
  proof cases
    case 1
    with Fin show ?thesis by simp
  next
    case 2
    with Fin pos [OF finite_double_rnd [OF q]] show ?thesis by (simp add: Let_def case_prod_beta)
  next
    case 3
    have "rnd (- q) = - q" using finite_double_rnd [OF q] by (simp add: rnd_minus)
    with 3 Fin pos [of "- q"] show ?thesis by (simp add: Let_def case_prod_beta)
  qed
qed simp_all

lemma ascii_dumps: "json_ok v \<Longrightarrow> ascii (json_dumps v)"
proof (induction v rule: json_ok.induct)
  case (3 xs)
  then have "ascii (join_with '','' (map json_dumps xs))" by (intro ascii_join) auto
  then show ?case by simp
next
  case (4 d)
  then have "ascii (join_with '','' (map member_text (sort_key fst d)))"
    by (intro ascii_join) (auto simp: member_text_def ascii_string)
  then show ?case by (simp only: dumps_members ascii_simps) simp
qed (auto simp: ascii_int ascii_float ascii_string)

lemma loads_bytes_dumps: "json_ok v \<Longrightarrow> json_loads_bytes (json_dumps v) = Inr (canon v)"
  using ascii_dumps [of v] loads_dumps [of v]
  by (simp add: json_loads_bytes_def ascii_def decode_utf8_ascii)

lemma loads_bytes_line:
  assumes "json_ok (JObj d)"
  shows "json_loads_bytes (json_dumps (JObj d) @ [CHR 0x0A]) = Inr (canon (JObj d))"
proof -
  have "ascii (json_dumps (JObj d) @ [CHR 0x0A])" using ascii_dumps [OF assms] by simp
  then have "decode_utf8 (json_dumps (JObj d) @ [CHR 0x0A]) = Inr (json_dumps (JObj d) @ [CHR 0x0A])"
    unfolding ascii_def by (rule decode_utf8_ascii)
  then show ?thesis using loads_object_line [OF assms] by (simp only: json_loads_bytes_def bind_res_simps)
qed

section \<open>What the sorted value keeps\<close>

lemma canon_get:
  "dict_wf d \<Longrightarrow> dict_get (sort_key fst (map (\<lambda>(k, v). (k, canon v)) d)) k
     = map_option canon (dict_get d k)"
proof -
  assume wf: "dict_wf d"
  let ?e = "map (\<lambda>(k, v). (k, canon v)) d"
  have keys: "map fst ?e = map fst d" by auto
  have "sort_key fst ?e = map (\<lambda>(k, v). (k, canon v)) (sort_key fst d)"
    by (rule sort_map_fst) auto
  then have "map fst (sort_key fst ?e) = map fst (sort_key fst d)" by auto
  moreover have "distinct (map fst (sort_key fst d))" using wf by (simp add: distinct_map)
  ultimately have "distinct (map fst (sort_key fst ?e))" by (simp only:)
  moreover have "distinct (map fst ?e)" using wf by (simp only: keys)
  ultimately have "map_of (sort_key fst ?e) = map_of ?e" by (intro map_of_inject_set [THEN iffD2]) simp_all
  then show ?thesis using dict_get_map_value [of "\<lambda>_. canon" d k] by simp
qed

lemma canon_obj:
  assumes "dict_wf d"
  obtains e where "canon (JObj d) = JObj e" and "\<And>k. dict_get e k = map_option canon (dict_get d k)"
  using canon_get [OF assms] by simp

text \<open>Sorting the members first changes nothing in the text.\<close>

lemma sort_key_idem: "sort_key f (sort_key f xs) = sort_key f xs"
  by (rule sort_key_id_if_sorted) simp

lemma dumps_canon: "json_dumps (canon v) = json_dumps v"
proof (induction v rule: canon.induct)
  case (1 xs)
  then show ?case by (simp add: comp_def cong: map_cong)
next
  case (2 d)
  let ?j = "\<lambda>(k, v). (k, json_dumps v)" and ?c = "\<lambda>(k, v). (k, canon v)"
  have "map ?j (map ?c d) = map ?j d" using 2 by auto
  moreover have "map ?j (sort_key fst (map ?c d)) = sort_key fst (map ?j (map ?c d))"
    by (rule sort_map_fst [symmetric]) auto
  ultimately show ?case by (simp only: canon.simps json_dumps.simps sort_key_idem)
qed simp_all

text \<open>The integers these programs compute with are within the digit limit.\<close>

lemma digit_bound_ge: "16 \<le> n \<Longrightarrow> 10 ^ 16 \<le> digit_bound n"
  unfolding digit_bound_def by (rule power_increasing) simp_all

lemma moderate_int: "\<bar>n\<bar> \<le> 2 ^ 53 \<Longrightarrow> \<bar>n\<bar> < digit_bound 4300"
proof -
  assume "\<bar>n\<bar> \<le> 2 ^ 53"
  also have "(2 :: int) ^ 53 < 10 ^ 16" by simp
  also have "10 ^ 16 \<le> digit_bound 4300" by (rule digit_bound_ge) simp
  finally show ?thesis .
qed

section \<open>Floats that a program can hold\<close>

fun double_ok :: "pyfloat \<Rightarrow> bool" where
  "double_ok (Fin q) \<longleftrightarrow> finite_double q"
| "double_ok _ \<longleftrightarrow> True"

lemma json_ok_float [simp]: "json_ok (JFloat x) \<longleftrightarrow> double_ok x"
  by (cases x) simp_all

lemma double_ok_fl [simp]: "double_ok (fl q)"
  by (simp add: fl_def finite_double_def Let_def)

lemma double_ok_0 [simp]: "finite_double 0"
  by (simp add: finite_double_def)

lemma finite_double_minus [simp]: "finite_double (- q) \<longleftrightarrow> finite_double q"
  by (auto simp: finite_double_def fl_def rnd_minus Let_def minus_equation_iff split: if_splits)

lemma double_ok_inf [simp]: "double_ok (inf_sign b)"
  by (simp add: inf_sign_def)

lemma double_ok_plus [simp]: "double_ok x \<Longrightarrow> double_ok y \<Longrightarrow> double_ok (x + y)"
  by (cases x; cases y) simp_all

lemma double_ok_uminus [simp]: "double_ok x \<Longrightarrow> double_ok (- x)"
  by (cases x) simp_all

lemma double_ok_minus [simp]: "double_ok x \<Longrightarrow> double_ok y \<Longrightarrow> double_ok (x - y)"
  by (simp add: minus_pyfloat_def)

lemma double_ok_times [simp]: "double_ok (x * y)"
  by (cases x; cases y) simp_all

lemma double_ok_fdiv: "fdiv x y = Inr z \<Longrightarrow> double_ok z"
  by (cases x; cases y) (auto split: if_splits)

lemma double_ok_min_max: "double_ok x \<Longrightarrow> double_ok y \<Longrightarrow> double_ok (py_min x y) \<and> double_ok (py_max x y)"
  by (simp add: py_min_def py_max_def)

end
