(* ===== verification/WaterRestart.thy ===== *)
theory WaterRestart
  imports WaterSimulator WaterControllerProofs PyJsonRoundtrip
begin

text \<open>
  The checkpoint round trip and what a restart changes.  A decoded checkpoint is the payload with
  sorted members, a controller restored from one is a twin of the controller saved: same state,
  same place in the journal, same counts, so it decides alike from there on.
\<close>

section \<open>Checkpoints\<close>

lemma item_canon:
  "dict_wf d \<Longrightarrow> dict_get d k = Some v \<Longrightarrow> item (canon (JObj d)) k = Inr (canon v)"
  by (rule canon_obj [of d]) simp_all

lemma decode_encode:
  assumes "json_ok payload" and "is_dict payload"
  shows "decode_checkpoint (encode_checkpoint payload) = Inr (canon payload)"
proof -
  define digest where "digest = sha256 (canonical_bytes payload)"
  let ?d = "[(''payload'', payload), (''sha256'', JStr digest)]"
  have "json_loads_bytes (json_dumps (JObj ?d)) = Inr (canon (JObj ?d))"
    using assms(1) by (intro loads_bytes_dumps) simp
  moreover have "item (canon (JObj ?d)) ''payload'' = Inr (canon payload)"
    and "item (canon (JObj ?d)) ''sha256'' = Inr (JStr digest)"
    using item_canon [of ?d "''payload''" payload] item_canon [of ?d "''sha256''" "JStr digest"]
    by (simp_all del: canon.simps(2))
  ultimately have "read_envelope (encode_checkpoint payload) = Inr (canon payload, JStr digest)"
    by (simp add: read_envelope_def encode_checkpoint_def canonical_bytes_def digest_def del: canon.simps)
  moreover have "is_dict (canon payload)" using assms(2) by (cases payload) simp_all
  ultimately show ?thesis
    by (simp add: decode_checkpoint_def digest_def canonical_bytes_def dumps_canon)
qed

section \<open>Twins\<close>

definition twin :: "controller \<Rightarrow> controller \<Rightarrow> bool" where
  "twin c c' \<longleftrightarrow>
     ct_planner c = ct_planner c' \<and> ct_config c = ct_config c' \<and> ct_state c = ct_state c' \<and>
     jn_last_sequence (ct_journal c) = jn_last_sequence (ct_journal c') \<and>
     jn_tail_hash (ct_journal c) = jn_tail_hash (ct_journal c') \<and>
     verify (ct_journal c') = verify (ct_journal c) \<and>
     (\<forall>k. dict_get (ct_counts c) k = dict_get (ct_counts c') k)"

lemma twin_refl [simp]: "twin c c"
  by (simp add: twin_def)

lemma append_twin:
  assumes "jn_last_sequence j = jn_last_sequence j'" and "jn_tail_hash j = jn_tail_hash j'"
    and "verify j" and "verify j'"
  shows "rel_res (\<lambda>(e, k) (e', k'). e = e' \<and> jn_last_sequence k = jn_last_sequence k' \<and>
      jn_tail_hash k = jn_tail_hash k' \<and> verify k \<and> verify k')
    (append_intent j intent) (append_intent j' intent)"
proof (cases "ai_sequence intent = jn_last_sequence j + 1")
  case True
  obtain e k where k: "append_intent j intent = Inr (e, k)"
    using append_ok [OF True] by (metis surj_pair)
  obtain e' k' where k': "append_intent j' intent = Inr (e', k')"
    using append_ok [of intent j'] True assms(1) by (metis surj_pair)
  have "verify k" "verify k'" using append_verify k k' assms(3,4) by blast+
  with k k' True assms(1,2) show ?thesis by (auto simp: append_intent_def Let_def)
qed (simp add: append_intent_def assms(1))

lemma decide_twin:
  assumes "twin c c'" and "verify (ct_journal c)"
  shows "rel_res (\<lambda>(i, d) (i', d'). i = i' \<and> twin d d' \<and> verify (ct_journal d))
    (decide c sample now_s) (decide c' sample now_s)"
proof -
  have same: "ct_planner c' = ct_planner c" "ct_config c' = ct_config c" "ct_state c' = ct_state c"
    "\<And>k. dict_at k (ct_counts c') k = dict_at k (ct_counts c) k"
    using assms(1) by (simp_all add: twin_def dict_at_def)
  show ?thesis
    unfolding decide_def same Let_def
    apply (rule rel_res_bind [where R = "(=)"], simp add: sum.rel_eq, hypsubst)
    apply (rule rel_res_bind [where R = "(=)"], simp add: sum.rel_eq, hypsubst)
    apply (rule rel_res_bind, rule append_twin)
    using assms by (auto simp: twin_def dict_get_set)
qed

section \<open>Restoring a controller\<close>

definition small :: "int \<Rightarrow> bool" where
  "small n \<longleftrightarrow> \<bar>n\<bar> < digit_bound 4300"

lemma json_ok_small [simp]: "json_ok (JInt n) \<longleftrightarrow> small n"
  by (simp add: small_def)

declare json_ok.simps(1) [simp del]

definition savable_controller :: "controller \<Rightarrow> bool" where
  "savable_controller c \<longleftrightarrow>
     small (cst_duty_last_changed_s (ct_state c)) \<and> small (cst_standby_last_changed_s (ct_state c)) \<and>
     small (cst_last_sequence (ct_state c)) \<and> (\<forall>(k, n) \<in> set (ct_counts c). small n)"

definition savable_plant :: "plant_state \<Rightarrow> bool" where
  "savable_plant st \<longleftrightarrow>
     double_ok (pst_tank_volume_l st) \<and> double_ok (pst_energy_kwh st) \<and>
     double_ok (pst_unmet_demand_l st) \<and> double_ok (pst_overflow_l st) \<and>
     small (pst_duty_starts st) \<and> small (pst_standby_starts st)"

lemma keys_map_value: "map fst (map (\<lambda>(k, v). (k, f v)) d) = map fst d"
  by auto

lemma controller_payload_ok:
  assumes "controller_ok pl config c" and "savable_controller c"
  shows "json_ok (controller_payload c)"
proof -
  have "dict_wf (map (\<lambda>(k, n). (k, JInt n)) (ct_counts c))"
    using assms(1) by (simp only: keys_map_value) (simp add: controller_ok_def)
  then show ?thesis
    using assms by (fastforce simp: controller_payload_def controller_state_as_dict_def
        journal_snapshot_def savable_controller_def controller_ok_def)
qed

lemma checkpoint_payload_ok:
  assumes "controller_ok pl config c" and "savable_controller c" and "savable_plant (plt_state p)"
  shows "json_ok (checkpoint_payload p c)"
  using controller_payload_ok [OF assms(1,2)] assms(3)
  by (simp add: checkpoint_payload_def plant_state_as_dict_def savable_plant_def)

lemma restored_counts_canon:
  assumes "dict_wf d"
  obtains e where "map_res (\<lambda>(k, v). bind_res (to_int v) (\<lambda>n. Inr (k, n)))
      (sort_key fst (map (\<lambda>(k, v). (k, canon v)) (map (\<lambda>(k, n). (k, JInt n)) d))) = Inr e"
    and "\<And>k. dict_get e k = dict_get d k" and "dict_wf e"
proof -
  let ?e = "sort_key fst d"
  have sorted: "sort_key fst (map (\<lambda>(k, n). (k, JInt n)) d) = map (\<lambda>(k, n). (k, JInt n)) ?e"
    by (rule sort_map_fst) auto
  have read: "map_res (\<lambda>(k, v). bind_res (to_int v) (\<lambda>n. Inr (k, n)))
      (map (\<lambda>(k, n). (k, JInt n)) xs) = Inr xs" for xs
    by (induction xs) auto
  have wf: "distinct (map fst ?e)" using assms by (simp add: distinct_map)
  then have "map_of ?e = map_of d"
    using assms by (intro map_of_inject_set [THEN iffD2]) simp_all
  moreover have "map (\<lambda>(k, v). (k, canon v)) (map (\<lambda>(k, n). (k, JInt n)) d)
      = map (\<lambda>(k, n). (k, JInt n)) d"
    by (auto simp: comp_def)
  ultimately show thesis using that [of ?e] wf by (simp only: sorted read)
qed

lemma verify_restored [simp]: "verify (IntentJournal n h)"
  by (rule verify_new)

lemma obj_at_canon:
  assumes "\<And>k. dict_get e k = map_option canon (dict_get d k)" and "dict_get d k = Some v"
  shows "obj_at e k = Inr (canon v)"
  using assms by simp

lemma state_from_canon: "controller_state_from_dict (canon (controller_state_as_dict s)) = Inr s"
proof -
  let ?de = "[(''duty_on'', JBool (cst_duty_on s)), (''standby_on'', JBool (cst_standby_on s)),
      (''duty_last_changed_s'', JInt (cst_duty_last_changed_s s)),
      (''standby_last_changed_s'', JInt (cst_standby_last_changed_s s)),
      (''last_sequence'', JInt (cst_last_sequence s)),
      (''last_mode'', JStr (mode_text (cst_last_mode s)))]"
  have "dict_wf ?de" by simp
  then obtain e where "canon (JObj ?de) = JObj e"
    and "\<And>k. dict_get e k = map_option canon (dict_get ?de k)" by (rule canon_obj) blast
  then show ?thesis by (simp add: controller_state_from_dict_def controller_state_as_dict_def del: canon.simps(2))
qed

lemma plant_from_canon: "plant_state_from_dict (canon (plant_state_as_dict p)) = Inr p"
proof -
  let ?de = "[(''tank_volume_l'', JFloat (pst_tank_volume_l p)), (''duty_running'', JBool (pst_duty_running p)),
      (''standby_running'', JBool (pst_standby_running p)),
      (''energy_kwh'', JFloat (pst_energy_kwh p)), (''duty_starts'', JInt (pst_duty_starts p)),
      (''standby_starts'', JInt (pst_standby_starts p)),
      (''unmet_demand_l'', JFloat (pst_unmet_demand_l p)), (''overflow_l'', JFloat (pst_overflow_l p))]"
  have "dict_wf ?de" by simp
  then obtain e where "canon (JObj ?de) = JObj e"
    and "\<And>k. dict_get e k = map_option canon (dict_get ?de k)" by (rule canon_obj) blast
  then show ?thesis by (simp add: plant_state_from_dict_def plant_state_as_dict_def del: canon.simps(2))
qed

lemma restore_twin:
  assumes ok: "controller_ok pl config c"
  shows "\<exists>c'. restore_controller pl (canon (controller_payload c)) (Some config) = Inr c' \<and> twin c c'
    \<and> controller_ok pl config c'"
proof -
  have wf: "dict_wf (ct_counts c)" and keys: "set (dict_keys (ct_counts c)) = set outcomes"
    and pl: "ct_planner c = pl" and cfg: "ct_config c = config" and ver: "verify (ct_journal c)"
    and seq: "jn_last_sequence (ct_journal c) = cst_last_sequence (ct_state c)"
    using ok by (simp_all add: controller_ok_def)
  let ?de = "[(''schema_version'', JStr ''0.2''), (''planner_id'', JStr (planner_id (ct_planner c))),
      (''controller_state'', controller_state_as_dict (ct_state c)),
      (''journal'', journal_snapshot (ct_journal c)),
      (''intervention_counts'', JObj (map (\<lambda>(k, n). (k, JInt n)) (ct_counts c)))]"
  have "dict_wf ?de" by simp
  then obtain e where e: "canon (JObj ?de) = JObj e"
    and get: "\<And>k. dict_get e k = map_option canon (dict_get ?de k)" by (rule canon_obj) blast
  let ?dj = "[(''last_sequence'', JInt (jn_last_sequence (ct_journal c))),
      (''tail_hash'', JStr (jn_tail_hash (ct_journal c)))]"
  have "dict_wf ?dj" by simp
  then obtain j where j: "canon (JObj ?dj) = JObj j"
    and jget: "\<And>k. dict_get j k = map_option canon (dict_get ?dj k)" by (rule canon_obj) blast
  have j': "canon (journal_snapshot (ct_journal c)) = JObj j"
    using j by (simp only: journal_snapshot_def)
  obtain counts where counts: "map_res (\<lambda>(k, v). bind_res (to_int v) (\<lambda>n. Inr (k, n)))
      (sort_key fst (map (\<lambda>(k, v). (k, canon v)) (map (\<lambda>(k, n). (k, JInt n)) (ct_counts c)))) = Inr counts"
    and same: "\<And>k. dict_get counts k = dict_get (ct_counts c) k" and wf': "dict_wf counts"
    using restored_counts_canon [OF wf] by blast
  have "restored_counts e = Inr counts"
    using counts unfolding restored_counts_def get by (simp del: map_map)
  moreover have "dict_get counts ''held'' \<noteq> None"
    using keys by (auto simp: same map_of_eq_None_iff outcomes_def)
  then have "counts \<noteq> []" by auto
  ultimately have restored: "restore_controller pl (canon (controller_payload c)) (Some config) =
      Inr (Controller pl (Some config) (Some (ct_state c))
        (Some (IntentJournal (jn_last_sequence (ct_journal c)) (jn_tail_hash (ct_journal c)))) (Some counts))"
    unfolding controller_payload_def e restore_controller_def
    by (simp add: get_or_null_def get state_from_canon j' jget pl seq del: canon.simps(2))
  let ?c' = "Controller pl (Some config) (Some (ct_state c))
        (Some (IntentJournal (jn_last_sequence (ct_journal c)) (jn_tail_hash (ct_journal c)))) (Some counts)"
  have "twin c ?c'"
    using \<open>counts \<noteq> []\<close> ver same pl cfg by (simp add: twin_def Controller_def)
      (simp add: IntentJournal_def)
  moreover have "set (dict_keys counts) = set outcomes"
  proof -
    have "dom (dict_get counts) = dom (dict_get (ct_counts c))" by (simp add: same dom_def)
    then show ?thesis by (simp add: dom_map_of_conv_image_fst keys [symmetric])
  qed
  then have "controller_ok pl config ?c'"
    using ok \<open>counts \<noteq> []\<close> wf' by (simp add: controller_ok_def Controller_def)
      (simp add: IntentJournal_def)
  ultimately show ?thesis using restored by blast
qed

lemma restart_twin:
  assumes "controller_ok pl config c" and "savable_controller c" and "savable_plant (plt_state p)"
    and "plt_config p = config"
  shows "\<exists>c'. restart config pl p c = Inr (p, c') \<and> twin c c' \<and> controller_ok pl config c'"
proof -
  have decoded: "decode_checkpoint (encode_checkpoint (checkpoint_payload p c)) = Inr (canon (checkpoint_payload p c))"
    using checkpoint_payload_ok [OF assms(1-3)] by (rule decode_encode) (simp add: checkpoint_payload_def)
  let ?d = "[(''schema_version'', JStr ''0.2''), (''plant_state'', plant_state_as_dict (plt_state p)),
      (''controller'', controller_payload c)]"
  have "item (canon (JObj ?d)) ''plant_state'' = Inr (canon (plant_state_as_dict (plt_state p)))"
    and "item (canon (JObj ?d)) ''controller'' = Inr (canon (controller_payload c))"
    by (rule item_canon; simp)+
  moreover obtain c' where "restore_controller pl (canon (controller_payload c)) (Some config) = Inr c'"
    "twin c c'" "controller_ok pl config c'"
    using restore_twin [OF assms(1)] by blast
  ultimately show ?thesis
    using assms(4) unfolding restart_def Let_def decoded
    by (auto simp: checkpoint_payload_def plant_from_canon simp del: canon.simps)
qed

end
