(* ===== verification/WaterRuns.thy ===== *)
theory WaterRuns
  imports WaterRestart
begin

text \<open>
  The scenario loop.  \<open>run_inv\<close> is what holds after \<open>k\<close> steps of a well-formed scenario: the
  tank between empty and full, the controller consistent and at sequence number \<open>k\<close>, everything
  in it fit for a checkpoint, and the pumps off whenever the last good reading was at the
  high-high level.  Every step of a planner that keeps its protocol returns and keeps it.
\<close>

section \<open>The plant\<close>

definition volume_ok :: "system_config \<Rightarrow> pyfloat \<Rightarrow> bool" where
  "volume_ok config x \<longleftrightarrow> Fin 0 \<le> x \<and> x \<le> tank_capacity_l config"

lemma volume_okD: "volume_ok config x \<Longrightarrow> tank_capacity_l config = Fin c \<Longrightarrow> \<exists>v. x = Fin v \<and> 0 \<le> v \<and> v \<le> c"
  by (cases x) (simp_all add: volume_ok_def)

lemma clamp_volume:
  assumes "0 \<le> c"
  shows "Fin 0 \<le> py_max (Fin 0) (if Fin c < x then Fin c else x) \<and>
    py_max (Fin 0) (if Fin c < x then Fin c else x) \<le> Fin c"
  using assms by (cases x) (auto simp: py_max_def)

lemma bool_float_ok [simp]: "double_ok (bool_float b)"
  by (simp add: bool_float_def finite_double_def)

lemma plant_step_parts:
  assumes "plant_step duty standby demand powered duration_s p = Inr p'"
    and "tank_capacity_l (plt_config p) = Fin c" and "0 \<le> c"
  shows "plt_config p' = plt_config p"
    and "volume_ok (plt_config p) (pst_tank_volume_l (plt_state p'))"
    and "pst_duty_running (plt_state p') \<longleftrightarrow> duty \<and> powered"
    and "pst_standby_running (plt_state p') \<longleftrightarrow> standby \<and> powered"
    and "pst_duty_starts (plt_state p') = pst_duty_starts (plt_state p)
      + of_bool (duty \<and> powered \<and> \<not> pst_duty_running (plt_state p))"
    and "pst_standby_starts (plt_state p') = pst_standby_starts (plt_state p)
      + of_bool (standby \<and> powered \<and> \<not> pst_standby_running (plt_state p))"
  using assms(1) unfolding plant_step_def Let_def bind_res_eq_Inr volume_ok_def assms(2)
  by (auto simp: clamp_volume [OF assms(3)])

lemma double_ok_min: "double_ok x \<Longrightarrow> double_ok y \<Longrightarrow> double_ok (py_min x y)"
  by (simp add: py_min_def)

lemma double_ok_clamp:
  "double_ok x \<Longrightarrow> double_ok y \<Longrightarrow> double_ok (py_max (Fin 0) (if b then x else y))"
  by (simp add: py_max_def)

lemma plant_step_doubles:
  assumes "plant_step duty standby demand powered duration_s p = Inr p'"
    and "double_ok (tank_capacity_l (plt_config p))"
    and "double_ok (pst_tank_volume_l (plt_state p))" and "double_ok (pst_energy_kwh (plt_state p))"
    and "double_ok (pst_unmet_demand_l (plt_state p))" and "double_ok (pst_overflow_l (plt_state p))"
  shows "double_ok (pst_tank_volume_l (plt_state p'))" and "double_ok (pst_energy_kwh (plt_state p'))"
    and "double_ok (pst_unmet_demand_l (plt_state p'))" and "double_ok (pst_overflow_l (plt_state p'))"
  using assms unfolding plant_step_def Let_def bind_res_eq_Inr
  by (auto simp: double_ok_clamp double_ok_min)

lemma plant_step_returns:
  assumes "\<bar>duration_s\<bar> \<le> 2 ^ 53"
  shows "\<exists>p'. plant_step duty standby demand powered duration_s p = Inr p'"
proof -
  have "float_of_int duration_s = Inr (Fin (of_int duration_s))"
    using assms by (simp add: float_of_int_def fl_int)
  then show ?thesis by (simp add: plant_step_def Let_def)
qed

text \<open>The level of a tank between empty and full is between 0 and 100 per cent.\<close>

lemma plant_level_range:
  assumes "tank_capacity_l (plt_config p) = Fin c" and "0 < c"
    and "volume_ok (plt_config p) (pst_tank_volume_l (plt_state p))"
  shows "\<exists>l. plant_level p = Inr (Fin l) \<and> 0 \<le> l \<and> l \<le> 100"
proof -
  obtain v where v: "pst_tank_volume_l (plt_state p) = Fin v" "0 \<le> v" "v \<le> c"
    using volume_okD [OF assms(3,1)] by blast
  define s where "s = rnd (v / c)"
  have s: "0 \<le> s" "s \<le> 1" using v assms(2) by (auto simp: s_def intro!: dbl.R_nonneg dbl.R_le_1)
  have "0 \<le> v / c" "v / c \<le> 1" using v assms(2) by simp_all
  then have "\<bar>v / c\<bar> \<le> 1" by simp
  then have "\<bar>v / c\<bar> \<le> 2 ^ 53" by (rule order_trans) simp
  then have "fdiv (Fin v) (Fin c) = Inr (Fin s)" using assms(2) by (simp add: fl_eq_Fin s_def)
  moreover have "\<bar>s * 100\<bar> \<le> 2 ^ 53" using s by simp
  then have "fl (s * 100) = Fin (rnd (s * 100))" by (rule fl_eq_Fin)
  moreover have "0 \<le> rnd (s * 100)" using s by (intro dbl.R_nonneg) simp
  moreover have "rnd (s * 100) \<le> 100"
    using s rnd_int [of 100] by (intro dbl.R_le) simp_all
  ultimately show ?thesis using v(1) assms(1) by (simp add: plant_level_def)
qed

section \<open>Well-formed configurations and scenarios\<close>

definition config_ok :: "system_config \<Rightarrow> bool" where
  "config_ok config \<longleftrightarrow>
     Fin 0 < tank_capacity_l config \<and> isfinite (tank_capacity_l config) \<and>
     double_ok (tank_capacity_l config) \<and> 0 \<le> telemetry_max_age_s config \<and> 0 < intent_ttl_s config"

lemma config_okD:
  assumes "config_ok config"
  obtains c where "tank_capacity_l config = Fin c" and "0 < c"
  using assms by (cases "tank_capacity_l config") (auto simp: config_ok_def)

text \<open>The demand profile has no hole between the two times.\<close>

fun tiles :: "int \<Rightarrow> int \<Rightarrow> (int \<times> int \<times> pyfloat) list \<Rightarrow> bool" where
  "tiles t end_s [] \<longleftrightarrow> end_s \<le> t"
| "tiles t end_s ((a, b, d) # profile) \<longleftrightarrow> a \<le> t \<and> tiles b end_s profile"

lemma tiles_demand:
  "tiles t end_s profile \<Longrightarrow> t \<le> now_s \<Longrightarrow> now_s < end_s \<Longrightarrow>
     \<exists>a b d. demand_in now_s profile = Some d \<and> (a, b, d) \<in> set profile"
  by (induction t end_s profile rule: tiles.induct) (auto, (meson not_le)+)

definition scenario_ok :: "system_config \<Rightarrow> water_scenario \<Rightarrow> bool" where
  "scenario_ok config s \<longleftrightarrow>
     0 < wsc_step_s s \<and> 0 \<le> wsc_duration_s s \<and> wsc_duration_s s \<le> 2 ^ 53 \<and>
     wsc_step_s s \<le> 2 ^ 53 \<and> wsc_step_s s dvd wsc_duration_s s \<and>
     tiles 0 (wsc_duration_s s) (wsc_demand_profile s) \<and>
     (\<forall>(a, b, d) \<in> set (wsc_demand_profile s).
        isfinite (d * wsc_observed_demand_scale s) \<and> Fin 0 \<le> d * wsc_observed_demand_scale s) \<and>
     (case at_level config (wsc_initial_level_pct s) of
        Inr p \<Rightarrow> volume_ok config (pst_tank_volume_l (plt_state p)) | Inl e \<Rightarrow> False)"


lemma scenario_demand:
  assumes "scenario_ok config s" and "0 \<le> now_s" and "now_s < wsc_duration_s s"
  obtains d q where "demand_at now_s s = Inr d" and "d * wsc_observed_demand_scale s = Fin q" and "0 \<le> q"
proof -
  obtain a b d where d: "demand_in now_s (wsc_demand_profile s) = Some d" "(a, b, d) \<in> set (wsc_demand_profile s)"
    using tiles_demand assms unfolding scenario_ok_def by meson
  then have "isfinite (d * wsc_observed_demand_scale s)" "Fin 0 \<le> d * wsc_observed_demand_scale s"
    using assms(1) by (auto simp: scenario_ok_def)
  with d(1) that show thesis
    by (cases "d * wsc_observed_demand_scale s") (auto simp: demand_at_def)
qed

section \<open>The invariant of a run\<close>

definition counts_below :: "int \<Rightarrow> (string, int) dict \<Rightarrow> bool" where
  "counts_below k d \<longleftrightarrow> (\<forall>(key, n) \<in> set d. 0 \<le> n \<and> n \<le> k)"

definition plant_ok :: "system_config \<Rightarrow> int \<Rightarrow> plant \<Rightarrow> bool" where
  "plant_ok config k p \<longleftrightarrow>
     plt_config p = config \<and> volume_ok config (pst_tank_volume_l (plt_state p)) \<and>
     double_ok (pst_tank_volume_l (plt_state p)) \<and> double_ok (pst_energy_kwh (plt_state p)) \<and>
     double_ok (pst_unmet_demand_l (plt_state p)) \<and> double_ok (pst_overflow_l (plt_state p)) \<and>
     0 \<le> pst_duty_starts (plt_state p) \<and> pst_duty_starts (plt_state p) \<le> k \<and>
     0 \<le> pst_standby_starts (plt_state p) \<and> pst_standby_starts (plt_state p) \<le> k"

definition changed_within :: "int \<Rightarrow> int \<Rightarrow> bool" where
  "changed_within horizon t \<longleftrightarrow> - 10000 \<le> t \<and> t \<le> horizon"

definition reading_ok :: "system_config \<Rightarrow> pyfloat \<Rightarrow> controller_state \<Rightarrow> bool" where
  "reading_ok config x st \<longleftrightarrow>
     Fin 0 \<le> x \<and> x \<le> Fin 100 \<and>
     (high_high_pct config \<le> x \<longrightarrow> \<not> cst_duty_on st \<and> \<not> cst_standby_on st)"

text \<open>The only safety violation a run can report.\<close>

definition high_high_note :: "int \<Rightarrow> string" where
  "high_high_note now_s = int_str now_s @ '': pumps enabled at high-high level''"

definition notes_ok :: "water_scenario \<Rightarrow> string list \<Rightarrow> bool" where
  "notes_ok s notes \<longleftrightarrow>
     (\<forall>note \<in> set notes. \<exists>t. note = high_high_note t \<and> inside t (wsc_conflict_windows s))"

definition run_inv :: "planner \<Rightarrow> system_config \<Rightarrow> water_scenario \<Rightarrow> nat \<Rightarrow> sim_run \<Rightarrow> bool" where
  "run_inv pl config s k rs \<longleftrightarrow>
     (let c = rs_controller rs in
      controller_ok pl config c \<and> cst_last_sequence (ct_state c) = int k \<and>
      counts_below (int k) (ct_counts c) \<and> total_counts (ct_counts c) = int k \<and>
      changed_within (wsc_duration_s s) (cst_duty_last_changed_s (ct_state c)) \<and>
      changed_within (wsc_duration_s s) (cst_standby_last_changed_s (ct_state c)) \<and>
      plant_ok config (int k) (rs_plant rs) \<and>
      rs_previous_duty rs = cst_duty_on (ct_state c) \<and>
      rs_previous_standby rs = cst_standby_on (ct_state c) \<and>
      reading_ok config (rs_last_good_level rs) (ct_state c) \<and>
      notes_ok s (rs_violations rs) \<and>
      0 \<le> rs_emergency_steps rs \<and> 0 \<le> rs_degraded_steps rs \<and>
      rs_emergency_steps rs + rs_degraded_steps rs \<le> int k)"

lemma set_dict_set: "set (dict_set k v d) \<subseteq> insert (k, v) (set d)"
  by (induction d) auto

lemma counts_below_decide:
  assumes "decide c sample now_s = Inr (intent, c')" and "counts_below k (ct_counts c)" and "0 \<le> k"
  shows "counts_below (k + 1) (ct_counts c')"
proof (rule decide_parts [OF assms(1)], goal_cases)
  case (1 proposal entry count)
  let ?o = "classify_intervention (ct_state c) proposal
      (authorize (ct_config c) proposal sample (ct_state c) now_s)"
  have "(?o, count) \<in> set (ct_counts c)" using 1(2) by (rule map_of_SomeD)
  then have "0 \<le> count" "count \<le> k" using assms(2) by (auto simp: counts_below_def)
  moreover have "set (dict_set ?o (count + 1) (ct_counts c)) \<subseteq> insert (?o, count + 1) (set (ct_counts c))"
    by (rule set_dict_set)
  ultimately show ?case using assms(2) unfolding 1(5) counts_below_def by fastforce
qed

lemma total_counts_decide:
  assumes "decide c sample now_s = Inr (intent, c')" and "dict_wf (ct_counts c)"
  shows "total_counts (ct_counts c') = total_counts (ct_counts c) + 1"
  by (rule decide_parts [OF assms(1)]) (simp add: total_counts_set [OF assms(2)])

lemma total_counts_same:
  assumes "dict_wf d" and "dict_wf e" and "set d = set e"
  shows "total_counts d = total_counts e"
  using assms by (simp add: total_counts_def sum_list_distinct_conv_sum_set distinct_map)

lemma decide_changed:
  assumes "decide c sample now_s = Inr (intent, c')"
    and "changed_within h (cst_duty_last_changed_s (ct_state c))"
    and "changed_within h (cst_standby_last_changed_s (ct_state c))"
    and "0 \<le> now_s" and "now_s \<le> h"
  shows "changed_within h (cst_duty_last_changed_s (ct_state c'))"
    and "changed_within h (cst_standby_last_changed_s (ct_state c'))"
  by (rule decide_parts [OF assms(1)]; use assms(2-) in \<open>simp add: apply_intent_def changed_within_def\<close>)+

lemma small_bounded: "\<bar>n\<bar> \<le> 2 ^ 53 \<Longrightarrow> small n"
  unfolding small_def by (rule moderate_int)

lemma run_inv_savable:
  assumes "run_inv pl config s k rs" and "scenario_ok config s" and "int k \<le> wsc_duration_s s"
  shows "savable_controller (rs_controller rs)" and "savable_plant (plt_state (rs_plant rs))"
proof -
  have bound: "small n" if "- 10000 \<le> n" "n \<le> wsc_duration_s s" for n
    using that assms(2) by (intro small_bounded) (auto simp: scenario_ok_def)
  show "savable_controller (rs_controller rs)"
    using assms(1,3) bound unfolding savable_controller_def run_inv_def Let_def
    by (fastforce simp: changed_within_def counts_below_def)
  show "savable_plant (plt_state (rs_plant rs))"
    using assms(1,3) bound unfolding savable_plant_def run_inv_def Let_def plant_ok_def by auto
qed


section \<open>One step\<close>

lemma observe_cases:
  assumes "plant_level (rs_plant rs) = Inr level"
  obtains (stale) "observe s rs now_s = Inr (STALE, rs_last_good_level rs, rs_last_good_at_s rs,
      rs_last_good_level rs, rs_last_good_at_s rs)"
  | (conflict) "observe s rs now_s = Inr (CONFLICT, py_min (Fin 100) (level + Fin 12), now_s,
      rs_last_good_level rs, rs_last_good_at_s rs)" "inside now_s (wsc_conflict_windows s)"
  | (good) "observe s rs now_s = Inr (GOOD, level, now_s, level, now_s)"
  using assms that by (cases "inside now_s (wsc_stale_windows s)";
      cases "inside now_s (wsc_conflict_windows s)") (auto simp: observe_def)

text \<open>What a step reports: nothing, or pumps held on under a conflicting high reading.\<close>

lemma decide_state:
  "decide c sample now_s = Inr (intent, c') \<Longrightarrow>
     ct_state c' = apply_intent intent (ct_state c) \<and> ct_config c' = ct_config c \<and>
     ai_expires_at_s intent = ai_issued_at_s intent + intent_ttl_s (ct_config c)"
  by (rule decide_parts, assumption) simp

lemma decide_violations:
  assumes "0 < intent_ttl_s config"
    and "decide c sample now_s = Inr (intent, c')" and "controller_ok pl config c"
  shows "step_violations config (cst_duty_on (ct_state c)) (cst_standby_on (ct_state c)) sample intent now_s
    = (if high_high_pct config \<le> tank_level_pct sample \<and> (ai_duty_on intent \<or> ai_standby_on intent)
       then [high_high_note now_s] else [])"
proof -
  have cfg: "ct_config c = config" using assms(3) by (simp add: controller_ok_def)
  have "sample_quality sample \<noteq> GOOD \<Longrightarrow> \<not> trustworthy config sample" by (simp add: trustworthy_def)
  then have held: "sample_quality sample \<noteq> GOOD \<Longrightarrow>
      ai_duty_on intent = cst_duty_on (ct_state c) \<and> ai_standby_on intent = cst_standby_on (ct_state c)"
    using decide_interlocks(1) [OF assms(2)] cfg by blast
  have "controller_ok pl config c'" by (rule decide_keeps_ok [OF assms(3,2)])
  then have "ai_standby_on intent \<Longrightarrow> ai_duty_on intent"
    using decide_state [OF assms(2)] by (simp add: controller_ok_def)
  moreover have "\<not> ai_expires_at_s intent \<le> ai_issued_at_s intent"
    using decide_state [OF assms(2)] assms(1) cfg by simp
  ultimately show ?thesis using held by (auto simp: step_violations_def high_high_note_def)
qed

text \<open>A reading at the high-high level that the controller trusts leaves the pumps off; so does one
  that it does not trust, if they were off.\<close>

lemma decide_trusted:
  assumes "decide c sample now_s = Inr (intent, c')" and "ct_config c = config"
    and "trustworthy config sample"
  shows "reading_ok config (tank_level_pct sample) (ct_state c')"
  using decide_state [OF assms(1)] decide_interlocks(2) [OF assms(1), unfolded assms(2)] assms(3)
  by (auto simp: reading_ok_def trustworthy_def invalid_sample_def)

lemma decide_held:
  assumes "decide c sample now_s = Inr (intent, c')" and "ct_config c = config"
    and "\<not> trustworthy config sample" and "reading_ok config x (ct_state c)"
  shows "reading_ok config x (ct_state c')"
  using decide_state [OF assms(1)] decide_interlocks(1) [OF assms(1), unfolded assms(2)] assms(3,4)
  by (auto simp: reading_ok_def)

lemma notes_append:
  "notes_ok s xs \<Longrightarrow> (ys = [] \<or> inside t (wsc_conflict_windows s) \<and> ys = [high_high_note t]) \<Longrightarrow>
     notes_ok s (xs @ ys)"
  by (auto simp: notes_ok_def)

text \<open>The decision of one step, for each kind of telemetry.\<close>

definition sample_of :: "water_scenario \<Rightarrow> int \<Rightarrow> pyfloat \<Rightarrow> quality \<Rightarrow> pyfloat \<Rightarrow> int \<Rightarrow> telemetry_sample" where
  "sample_of s now_s demand q level at_s =
     \<lparr>observed_at_s = at_s, received_at_s = now_s, tank_level_pct = level,
      demand_lps = demand * wsc_observed_demand_scale s,
      power_available = \<not> inside now_s (wsc_power_outages s), sample_quality = q\<rparr>"

lemma step_reading:
  assumes inv: "run_inv pl config s k rs" and cfg: "config_ok config"
    and observed: "observe s rs now_s = Inr (q, level, at_s, good_level, good_at_s)"
    and demand: "demand * wsc_observed_demand_scale s = Fin r" "0 \<le> r"
    and decided: "decide (rs_controller rs) (sample_of s now_s demand q level at_s) now_s = Inr (intent, c')"
  shows "reading_ok config good_level (ct_state c')"
    and "step_violations config (rs_previous_duty rs) (rs_previous_standby rs)
        (sample_of s now_s demand q level at_s) intent now_s = [] \<or>
      inside now_s (wsc_conflict_windows s) \<and>
      step_violations config (rs_previous_duty rs) (rs_previous_standby rs)
        (sample_of s now_s demand q level at_s) intent now_s = [high_high_note now_s]"
proof -
  let ?c = "rs_controller rs" and ?x = "sample_of s now_s demand q level at_s"
  obtain cap where cap: "tank_capacity_l config = Fin cap" "0 < cap" using config_okD [OF cfg] .
  have ok: "controller_ok pl config ?c" and ctcfg: "ct_config ?c = config"
    and prev: "rs_previous_duty rs = cst_duty_on (ct_state ?c)" "rs_previous_standby rs = cst_standby_on (ct_state ?c)"
    and last: "reading_ok config (rs_last_good_level rs) (ct_state ?c)"
    and plant: "plt_config (rs_plant rs) = config" "volume_ok config (pst_tank_volume_l (plt_state (rs_plant rs)))"
    using inv by (simp_all add: run_inv_def Let_def controller_ok_def plant_ok_def)
  obtain l where l: "plant_level (rs_plant rs) = Inr (Fin l)" "0 \<le> l" "l \<le> 100"
    using plant_level_range [of "rs_plant rs" cap] cap plant by auto
  have ttl: "0 < intent_ttl_s config" and age: "0 \<le> telemetry_max_age_s config"
    using cfg by (simp_all add: config_ok_def)
  note vio = decide_violations [OF ttl decided ok, folded prev]
  have st: "cst_duty_on (ct_state c') = ai_duty_on intent" "cst_standby_on (ct_state c') = ai_standby_on intent"
    using decide_state [OF decided] by simp_all
  from l(1) show "reading_ok config good_level (ct_state c')"
  proof (cases rule: observe_cases [where s = s and now_s = now_s])
    case good
    then have "trustworthy config ?x" "good_level = tank_level_pct ?x"
      using observed l demand age by (auto simp: trustworthy_def sample_of_def invalid_sample_def age_s_def)
    then show ?thesis using decide_trusted [OF decided ctcfg] by simp
  next
    case stale
    with observed have "\<not> trustworthy config ?x" "good_level = rs_last_good_level rs"
      by (auto simp: trustworthy_def sample_of_def)
    then show ?thesis using decide_held [OF decided ctcfg] last by simp
  next
    case conflict
    with observed have "\<not> trustworthy config ?x" "good_level = rs_last_good_level rs"
      by (auto simp: trustworthy_def sample_of_def)
    then show ?thesis using decide_held [OF decided ctcfg] last by simp
  qed
  have reading: "good_level = level \<or> inside now_s (wsc_conflict_windows s)"
    using l(1) observed by (cases rule: observe_cases [where s = s and now_s = now_s]) auto
  have "tank_level_pct ?x = level" by (simp add: sample_of_def)
  with reading \<open>reading_ok config good_level (ct_state c')\<close> vio
  show "step_violations config (rs_previous_duty rs) (rs_previous_standby rs) ?x intent now_s = [] \<or>
      inside now_s (wsc_conflict_windows s) \<and>
      step_violations config (rs_previous_duty rs) (rs_previous_standby rs) ?x intent now_s = [high_high_note now_s]"
    by (auto simp: reading_ok_def st)
qed

lemma plant_ok_step:
  assumes "plant_step duty standby demand powered duration_s p = Inr p'"
    and "plant_ok config k p" and "config_ok config"
  shows "plant_ok config (k + 1) p'"
proof -
  have cfg: "plt_config p = config" using assms(2) by (simp add: plant_ok_def)
  obtain cap where cap: "tank_capacity_l config = Fin cap" "0 < cap" using config_okD [OF assms(3)] .
  note parts = plant_step_parts [OF assms(1), unfolded cfg, OF cap(1)]
  have "double_ok (tank_capacity_l (plt_config p))" using assms(3) cfg by (simp add: config_ok_def)
  note doubles = plant_step_doubles [OF assms(1) this]
  show ?thesis
    using assms(2) cap(2) parts doubles unfolding plant_ok_def by auto
qed

lemma restart_inv:
  assumes "run_inv pl config s k rs" and "scenario_ok config s" and "int k \<le> wsc_duration_s s"
  shows "\<exists>c'. restart config pl (rs_plant rs) (rs_controller rs) = Inr (rs_plant rs, c') \<and>
    twin (rs_controller rs) c' \<and> run_inv pl config s k (rs\<lparr>rs_controller := c', rs_restarted := b\<rparr>)"
proof -
  have ok: "controller_ok pl config (rs_controller rs)" and plant: "plt_config (rs_plant rs) = config"
    using assms(1) by (simp_all add: run_inv_def Let_def plant_ok_def)
  obtain c' where c': "restart config pl (rs_plant rs) (rs_controller rs) = Inr (rs_plant rs, c')"
    "twin (rs_controller rs) c'" "controller_ok pl config c'"
    using restart_twin [OF ok run_inv_savable [OF assms] plant] by blast
  have wf: "dict_wf (ct_counts (rs_controller rs))" "dict_wf (ct_counts c')"
    using ok c'(3) by (simp_all add: controller_ok_def)
  then have same: "set (ct_counts c') = set (ct_counts (rs_controller rs))"
    using c'(2) by (auto simp: twin_def in_set_dict_get)
  then have "counts_below n (ct_counts c') = counts_below n (ct_counts (rs_controller rs))" for n
    by (simp add: counts_below_def)
  with assms(1) c' have "run_inv pl config s k (rs\<lparr>rs_controller := c', rs_restarted := b\<rparr>)"
    using total_counts_same [OF wf(2,1) same] by (simp add: run_inv_def Let_def twin_def)
  with c' show ?thesis by blast
qed

text \<open>The state after a step, before a restart.\<close>

definition stepped :: "system_config \<Rightarrow> planner \<Rightarrow> water_scenario \<Rightarrow> sim_run \<Rightarrow> int \<Rightarrow> sim_run res" where
  "stepped config pl s rs now_s = run_step config pl (s\<lparr>wsc_restart_at_s := None\<rparr>) rs now_s"

lemma no_restart_tables [simp]:
  "demand_at now_s (s\<lparr>wsc_restart_at_s := r\<rparr>) = demand_at now_s s"
  "observe (s\<lparr>wsc_restart_at_s := r\<rparr>) rs now_s = observe s rs now_s"
  by (simp_all add: demand_at_def observe_def cong: if_cong option.case_cong)

lemma run_step_stepped:
  "run_step config pl s rs now_s = bind_res (stepped config pl s rs now_s) (\<lambda>rs'.
     if wsc_restart_at_s s = Some (now_s + wsc_step_s s)
     then bind_res (restart config pl (rs_plant rs') (rs_controller rs')) (\<lambda>(p, c).
       Inr (rs'\<lparr>rs_plant := p, rs_controller := c, rs_restarted := True\<rparr>))
     else Inr rs')"
proof -
  show ?thesis
    unfolding stepped_def run_step_def Let_def
    by (simp add: bind_res_def split: sum.splits prod.splits)
qed

lemma stepped_inv:
  assumes "water_planner pl" and cfg: "config_ok config" and scen: "scenario_ok config s"
    and inv: "run_inv pl config s k rs" and now: "0 \<le> now_s" "now_s < wsc_duration_s s"
  shows "\<exists>rs'. stepped config pl s rs now_s = Inr rs' \<and> run_inv pl config s (Suc k) rs'"
proof -
  let ?c = "rs_controller rs"
  obtain cap where cap: "tank_capacity_l config = Fin cap" "0 < cap" using config_okD [OF cfg] .
  have ok: "controller_ok pl config ?c" and plant: "plant_ok config (int k) (rs_plant rs)"
    and seq: "cst_last_sequence (ct_state ?c) = int k" and counts: "counts_below (int k) (ct_counts ?c)"
    and sum: "total_counts (ct_counts ?c) = int k" and wf: "dict_wf (ct_counts ?c)"
    and changed: "changed_within (wsc_duration_s s) (cst_duty_last_changed_s (ct_state ?c))"
      "changed_within (wsc_duration_s s) (cst_standby_last_changed_s (ct_state ?c))"
    and noted: "notes_ok s (rs_violations rs)"
    and modes: "0 \<le> rs_emergency_steps rs" "0 \<le> rs_degraded_steps rs"
      "rs_emergency_steps rs + rs_degraded_steps rs \<le> int k"
    using inv by (simp_all add: run_inv_def Let_def controller_ok_def)
  obtain l where l: "plant_level (rs_plant rs) = Inr (Fin l)"
    using plant_level_range [of "rs_plant rs" cap] cap plant by (auto simp: plant_ok_def)
  then obtain q level at_s gl ga where observed: "observe s rs now_s = Inr (q, level, at_s, gl, ga)"
    by (cases rule: observe_cases [where s = s and now_s = now_s]) blast+
  obtain d r where d: "demand_at now_s s = Inr d" "d * wsc_observed_demand_scale s = Fin r" "0 \<le> r"
    using scenario_demand [OF scen now] .
  let ?x = "sample_of s now_s d q level at_s"
  obtain intent c' where decided: "decide ?c ?x now_s = Inr (intent, c')"
    using water_planner.decide_returns [OF assms(1) ok] by blast
  have "\<bar>wsc_step_s s\<bar> \<le> 2 ^ 53" using scen by (simp add: scenario_ok_def)
  then obtain p' where p': "plant_step (ai_duty_on intent) (ai_standby_on intent) d
      (\<not> inside now_s (wsc_power_outages s)) (wsc_step_s s) (rs_plant rs) = Inr p'"
    using plant_step_returns by blast
  define rs' where "rs' = \<lparr>rs_plant = p', rs_controller = c', rs_last_good_level = gl,
    rs_last_good_at_s = ga, rs_previous_duty = ai_duty_on intent, rs_previous_standby = ai_standby_on intent,
    rs_emergency_steps = rs_emergency_steps rs + of_bool (ai_mode intent = EMERGENCY),
    rs_degraded_steps = rs_degraded_steps rs + of_bool (ai_mode intent = DEGRADED),
    rs_violations = rs_violations rs @ step_violations config (rs_previous_duty rs)
      (rs_previous_standby rs) ?x intent now_s, rs_restarted = rs_restarted rs\<rparr>"
  have "stepped config pl s rs now_s = Inr rs'"
    using d(1) observed decided p' by (simp add: stepped_def run_step_def Let_def rs'_def sample_of_def)
  moreover have "run_inv pl config s (Suc k) rs'"
  proof -
    have ok': "controller_ok pl config c'" by (rule decide_keeps_ok [OF ok decided])
    have seq': "cst_last_sequence (ct_state c') = int k + 1"
      by (rule decide_parts [OF decided]) (simp add: seq)
    note st = decide_state [OF decided]
    show ?thesis
      using ok' seq' counts_below_decide [OF decided counts] total_counts_decide [OF decided wf] sum decide_changed [OF decided changed]
        plant_ok_step [OF p' plant cfg] step_reading [OF inv cfg observed d(2,3) decided]
        notes_append [OF noted] now st modes
      unfolding run_inv_def Let_def rs'_def by (auto simp: add.commute)
  qed
  ultimately show ?thesis by blast
qed

lemma run_step_inv:
  assumes "water_planner pl" and "config_ok config" and "scenario_ok config s"
    and "run_inv pl config s k rs" and "0 \<le> now_s" and "now_s < wsc_duration_s s"
    and "int k < wsc_duration_s s"
  shows "\<exists>rs'. run_step config pl s rs now_s = Inr rs' \<and> run_inv pl config s (Suc k) rs'"
proof -
  obtain rs' where rs': "stepped config pl s rs now_s = Inr rs'" "run_inv pl config s (Suc k) rs'"
    using stepped_inv [OF assms(1-6)] by blast
  obtain c' where "restart config pl (rs_plant rs') (rs_controller rs') = Inr (rs_plant rs', c')"
    "run_inv pl config s (Suc k) (rs'\<lparr>rs_controller := c', rs_restarted := True\<rparr>)"
    using restart_inv [OF rs'(2) assms(3)] assms(7) by fastforce
  then show ?thesis using rs' by (simp add: run_step_stepped)
qed

section \<open>A whole run\<close>

lemma step_times_ok:
  assumes "scenario_ok config s"
  obtains times where "step_times (wsc_duration_s s) (wsc_step_s s) = Inr times"
    and "int (length times) = wsc_duration_s s div wsc_step_s s"
    and "\<And>t. t \<in> set times \<Longrightarrow> 0 \<le> t \<and> t < wsc_duration_s s"
    and "int (length times) \<le> wsc_duration_s s"
proof -
  have st: "0 < wsc_step_s s" "0 \<le> wsc_duration_s s" and "wsc_step_s s dvd wsc_duration_s s"
    using assms by (simp_all add: scenario_ok_def)
  then obtain n where n: "wsc_duration_s s = n * wsc_step_s s" by (metis dvd_def mult.commute)
  with st have "0 \<le> n" by (simp add: zero_le_mult_iff)
  have "(n * wsc_step_s s + wsc_step_s s - 1) div wsc_step_s s = n"
    using st(1) by (simp add: div_add1_eq add_diff_eq [symmetric] zdiv_eq_0_iff)
  then have range: "py_range 0 (wsc_duration_s s) (wsc_step_s s) = map (\<lambda>k. int k * wsc_step_s s) [0 ..< nat n]"
    by (simp add: py_range_def n)
  show thesis
  proof (rule that)
    show "step_times (wsc_duration_s s) (wsc_step_s s) = Inr (map (\<lambda>k. int k * wsc_step_s s) [0 ..< nat n])"
      using st(1) range by (simp add: step_times_def)
    show "int (length (map (\<lambda>k. int k * wsc_step_s s) [0 ..< nat n])) = wsc_duration_s s div wsc_step_s s"
      using st(1) \<open>0 \<le> n\<close> n by simp
    show "0 \<le> t \<and> t < wsc_duration_s s" if "t \<in> set (map (\<lambda>k. int k * wsc_step_s s) [0 ..< nat n])" for t
      using that st(1) n by auto
    show "int (length (map (\<lambda>k. int k * wsc_step_s s) [0 ..< nat n])) \<le> wsc_duration_s s"
      using st(1) \<open>0 \<le> n\<close> n by (simp add: mult_le_cancel_left1)
  qed
qed

lemma start_inv:
  assumes "config_ok config" and "scenario_ok config s"
  shows "\<exists>rs. start_run config pl s = Inr rs \<and> run_inv pl config s 0 rs"
proof -
  obtain cap where cap: "tank_capacity_l config = Fin cap" "0 < cap" using config_okD [OF assms(1)] .
  obtain p where p: "at_level config (wsc_initial_level_pct s) = Inr p"
    and vol: "volume_ok config (pst_tank_volume_l (plt_state p))"
    using assms(2) by (auto simp: scenario_ok_def split: sum.splits)
  from p obtain v where v: "p = \<lparr>plt_config = config, plt_state = PlantState v\<rparr>" "double_ok v"
    by (auto simp: at_level_def bind_res_eq_Inr dest: double_ok_fdiv simp del: fdiv.simps)
  obtain l where l: "plant_level p = Inr (Fin l)" "0 \<le> l" "l \<le> 100"
    using plant_level_range [of p cap] cap vol v by auto
  have "plant_ok config 0 p"
    using vol v by (simp add: plant_ok_def PlantState_def)
  moreover have "controller_ok pl config (Controller pl (Some config) None None None)" by (rule start_ok)
  ultimately show ?thesis
    using p l assms(2)
    by (simp add: start_run_def Let_def run_inv_def Controller_def ControllerState_def initial_counts_def
        counts_below_def total_counts_def changed_within_def reading_ok_def notes_ok_def scenario_ok_def)
qed

lemma run_ok:
  assumes "water_planner pl" and "config_ok config" and "scenario_ok config s"
  obtains rs0 times rs where "start_run config pl s = Inr rs0"
    and "step_times (wsc_duration_s s) (wsc_step_s s) = Inr times"
    and "int (length times) = wsc_duration_s s div wsc_step_s s"
    and "fold_res (run_step config pl s) rs0 times = Inr rs"
    and "run_inv pl config s (length times) rs"
proof -
  obtain times where times: "step_times (wsc_duration_s s) (wsc_step_s s) = Inr times"
    "int (length times) = wsc_duration_s s div wsc_step_s s"
    "\<And>t. t \<in> set times \<Longrightarrow> 0 \<le> t \<and> t < wsc_duration_s s" "int (length times) \<le> wsc_duration_s s"
    using step_times_ok [OF assms(3)] by blast
  obtain rs0 where rs0: "start_run config pl s = Inr rs0" "run_inv pl config s 0 rs0"
    using start_inv [OF assms(2,3)] by blast
  have "\<exists>rs. fold_res (run_step config pl s) rs0 times = Inr rs \<and> run_inv pl config s (length times) rs"
    using rs0(2) by (rule fold_res_counted) (use times in \<open>auto intro!: run_step_inv [OF assms]\<close>)
  then show thesis using that rs0(1) times by blast
qed

lemma run_scenario_ok:
  assumes "water_planner pl" and "config_ok config" and "scenario_ok config s"
  obtains r where "run_scenario pl s (Some config) = Inr r"
    and "wr_sequence_end r = wr_steps r" and "total_counts (wr_safety_interventions r) = wr_steps r"
    and "0 \<le> wr_emergency_steps r" and "0 \<le> wr_degraded_steps r"
    and "wr_emergency_steps r + wr_degraded_steps r \<le> wr_steps r"
    and "notes_ok s (wr_safety_violations r)"
proof -
  obtain rs0 times rs where run: "start_run config pl s = Inr rs0"
    "step_times (wsc_duration_s s) (wsc_step_s s) = Inr times"
    "int (length times) = wsc_duration_s s div wsc_step_s s"
    "fold_res (run_step config pl s) rs0 times = Inr rs" "run_inv pl config s (length times) rs"
    using run_ok [OF assms] by blast
  obtain cap where cap: "tank_capacity_l config = Fin cap" "0 < cap" using config_okD [OF assms(2)] .
  have "plant_ok config (int (length times)) (rs_plant rs)" using run(5) by (simp add: run_inv_def Let_def)
  then obtain l where "plant_level (rs_plant rs) = Inr (Fin l)"
    using plant_level_range [of "rs_plant rs" cap] cap by (auto simp: plant_ok_def)
  then obtain r where r: "water_outcome pl s rs = Inr r"
    by (simp add: water_outcome_def Let_def)
  have "run_scenario pl s (Some config) = Inr r"
    using run r by (simp add: run_scenario_def Let_def)
  then show thesis
    using r run(3,5) by (intro that [of r])
      (auto simp: water_outcome_def Let_def bind_res_eq_Inr run_inv_def controller_ok_def)
qed


lemma stepped_parts:
  assumes "stepped config pl s rs now_s = Inr a"
  obtains d q level at_s gl ga intent c' p' where "demand_at now_s s = Inr d"
    and "observe s rs now_s = Inr (q, level, at_s, gl, ga)"
    and "decide (rs_controller rs) (sample_of s now_s d q level at_s) now_s = Inr (intent, c')"
    and "plant_step (ai_duty_on intent) (ai_standby_on intent) d
      (\<not> inside now_s (wsc_power_outages s)) (wsc_step_s s) (rs_plant rs) = Inr p'"
    and "a = \<lparr>rs_plant = p', rs_controller = c', rs_last_good_level = gl,
      rs_last_good_at_s = ga, rs_previous_duty = ai_duty_on intent, rs_previous_standby = ai_standby_on intent,
      rs_emergency_steps = rs_emergency_steps rs + of_bool (ai_mode intent = EMERGENCY),
      rs_degraded_steps = rs_degraded_steps rs + of_bool (ai_mode intent = DEGRADED),
      rs_violations = rs_violations rs @ step_violations config (rs_previous_duty rs)
        (rs_previous_standby rs) (sample_of s now_s d q level at_s) intent now_s,
      rs_restarted = rs_restarted rs\<rparr>"
proof -
  note unfolds = stepped_def run_step_def Let_def no_restart_tables
  obtain d where d: "demand_at now_s s = Inr d"
    using assms unfolding unfolds bind_res_eq_Inr by blast
  obtain x where "observe s rs now_s = Inr x"
    using assms d unfolding unfolds by (auto simp: bind_res_eq_Inr)
  moreover obtain q level at_s gl ga where "x = (q, level, at_s, gl, ga)" by (rule prod_cases5)
  ultimately have o: "observe s rs now_s = Inr (q, level, at_s, gl, ga)" by simp
  let ?x = "sample_of s now_s d q level at_s"
  obtain y where "decide (rs_controller rs) ?x now_s = Inr y"
    using assms d o unfolding unfolds by (auto simp: bind_res_eq_Inr sample_of_def)
  moreover obtain intent c' where "y = (intent, c')" by (rule prod.exhaust)
  ultimately have i: "decide (rs_controller rs) ?x now_s = Inr (intent, c')" by simp
  obtain p' where p': "plant_step (ai_duty_on intent) (ai_standby_on intent) d
      (\<not> inside now_s (wsc_power_outages s)) (wsc_step_s s) (rs_plant rs) = Inr p'"
    using assms d o i unfolding unfolds by (auto simp: bind_res_eq_Inr sample_of_def)
  show thesis
    by (rule that [OF d o i p']) (use assms d o i p' in \<open>simp add: unfolds sample_of_def\<close>)
qed

lemma run_step_restarted:
  assumes "run_step config pl s rs t = Inr rs'"
  shows "rs_restarted rs' \<longleftrightarrow> rs_restarted rs \<or> wsc_restart_at_s s = Some (t + wsc_step_s s)"
proof -
  from assms obtain a where a: "stepped config pl s rs t = Inr a"
    and rest: "(if wsc_restart_at_s s = Some (t + wsc_step_s s)
     then bind_res (restart config pl (rs_plant a) (rs_controller a)) (\<lambda>(p, c).
       Inr (a\<lparr>rs_plant := p, rs_controller := c, rs_restarted := True\<rparr>))
     else Inr a) = Inr rs'"
    by (auto simp: run_step_stepped bind_res_eq_Inr)
  have "rs_restarted a = rs_restarted rs" using a by (rule stepped_parts) simp
  with rest show ?thesis by (auto simp: bind_res_eq_Inr split: if_splits prod.splits)
qed

lemma fold_restarted:
  "fold_res (run_step config pl s) rs ts = Inr rs' \<Longrightarrow>
     rs_restarted rs' \<longleftrightarrow> rs_restarted rs \<or> (\<exists>t \<in> set ts. wsc_restart_at_s s = Some (t + wsc_step_s s))"
  by (induction ts arbitrary: rs) (auto simp: bind_res_eq_Inr dest: run_step_restarted)

lemma run_scenario_restarted:
  assumes "run_scenario pl s config = Inr r"
    and "step_times (wsc_duration_s s) (wsc_step_s s) = Inr ts"
  shows "wr_restart_performed r \<longleftrightarrow> (\<exists>t \<in> set ts. wsc_restart_at_s s = Some (t + wsc_step_s s))"
    and "wr_scenario_id r = wsc_scenario_id s"
  using assms
  by (auto simp: run_scenario_def Let_def bind_res_eq_Inr water_outcome_def start_run_def
      dest!: fold_restarted)

section \<open>A run with and without its restart\<close>

definition same_run :: "sim_run \<Rightarrow> sim_run \<Rightarrow> bool" where
  "same_run rs rs' \<longleftrightarrow>
     rs_plant rs = rs_plant rs' \<and> twin (rs_controller rs) (rs_controller rs') \<and>
     rs_last_good_level rs = rs_last_good_level rs' \<and> rs_last_good_at_s rs = rs_last_good_at_s rs' \<and>
     rs_previous_duty rs = rs_previous_duty rs' \<and> rs_previous_standby rs = rs_previous_standby rs' \<and>
     rs_emergency_steps rs = rs_emergency_steps rs' \<and> rs_degraded_steps rs = rs_degraded_steps rs' \<and>
     rs_violations rs = rs_violations rs'"

lemma twin_trans: "twin c c' \<Longrightarrow> twin c' c'' \<Longrightarrow> twin c c''"
  by (simp add: twin_def)

lemma twin_sym: "twin c c' \<Longrightarrow> twin c' c"
  by (simp add: twin_def)

lemma stepped_same:
  assumes "same_run rs rs'" and "verify (ct_journal (rs_controller rs))"
    and "stepped config pl s rs now_s = Inr a"
  shows "\<exists>b. stepped config pl s rs' now_s = Inr b \<and> same_run a b"
proof (rule stepped_parts [OF assms(3)], goal_cases)
  case (1 d q level at_s gl ga intent c' p')
  have same: "rs_plant rs' = rs_plant rs" and observe: "observe s rs' now_s = observe s rs now_s"
    and twin: "twin (rs_controller rs) (rs_controller rs')"
    using assms(1) by (simp_all add: same_run_def observe_def cong: if_cong)
  from decide_twin [OF twin assms(2), of "sample_of s now_s d q level at_s" now_s] 1(3) obtain c'' where
    "decide (rs_controller rs') (sample_of s now_s d q level at_s) now_s = Inr (intent, c'')" "twin c' c''"
    by (auto elim!: rel_sum.cases)
  with 1 assms(1) show ?case
    unfolding stepped_def run_step_def Let_def no_restart_tables
    by (simp add: observe same same_run_def sample_of_def)
qed

lemma run_step_same:
  assumes "run_inv pl config s k rs" and "same_run rs rs'" and "0 \<le> now_s" and "now_s < wsc_duration_s s"
    and "water_planner pl" and "config_ok config" and "scenario_ok config s" and "int k < wsc_duration_s s"
  shows "\<exists>a b. run_step config pl s rs now_s = Inr a \<and> stepped config pl s rs' now_s = Inr b \<and>
    run_inv pl config s (Suc k) a \<and> same_run a b"
proof -
  obtain a where a: "stepped config pl s rs now_s = Inr a" "run_inv pl config s (Suc k) a"
    using stepped_inv [OF assms(5-7,1,3,4)] by blast
  have "verify (ct_journal (rs_controller rs))"
    using assms(1) by (simp add: run_inv_def Let_def controller_ok_def)
  from stepped_same [OF assms(2) this a(1)] obtain b where
    b: "stepped config pl s rs' now_s = Inr b" "same_run a b" by blast
  obtain c' where c': "restart config pl (rs_plant a) (rs_controller a) = Inr (rs_plant a, c')"
    "twin (rs_controller a) c'"
    "run_inv pl config s (Suc k) (a\<lparr>rs_controller := c', rs_restarted := True\<rparr>)"
    using restart_inv [OF a(2) assms(7)] assms(8) by fastforce
  have "same_run (a\<lparr>rs_plant := rs_plant a, rs_controller := c', rs_restarted := True\<rparr>) b"
    using b(2) c'(2) by (auto simp: same_run_def intro: twin_trans twin_sym)
  then show ?thesis using a b c' by (simp add: run_step_stepped)
qed

lemma fold_same:
  assumes "water_planner pl" and "config_ok config" and "scenario_ok config s"
    and "run_inv pl config s k rs" and "same_run rs rs'"
    and "\<And>t. t \<in> set ts \<Longrightarrow> 0 \<le> t \<and> t < wsc_duration_s s"
    and "int (k + length ts) \<le> wsc_duration_s s"
  shows "\<exists>a b. fold_res (run_step config pl s) rs ts = Inr a \<and>
    fold_res (stepped config pl s) rs' ts = Inr b \<and> same_run a b \<and>
    verify (ct_journal (rs_controller a))"
  using assms(4-7)
proof (induction ts arbitrary: k rs rs')
  case Nil
  then show ?case by (auto simp: run_inv_def Let_def controller_ok_def)
next
  case (Cons t ts)
  obtain a b where "run_step config pl s rs t = Inr a" "stepped config pl s rs' t = Inr b"
    and ab: "run_inv pl config s (Suc k) a" "same_run a b"
  proof -
    have "0 \<le> t" "t < wsc_duration_s s" "int k < wsc_duration_s s" using Cons.prems(3,4) by simp_all
    from run_step_same [OF Cons.prems(1,2) this(1,2) assms(1-3) this(3)] that show thesis by blast
  qed
  moreover have "\<exists>a' b'. fold_res (run_step config pl s) a ts = Inr a' \<and>
      fold_res (stepped config pl s) b ts = Inr b' \<and> same_run a' b' \<and>
      verify (ct_journal (rs_controller a'))"
    by (rule Cons.IH [OF ab]) (use Cons.prems(3,4) in auto)
  ultimately show ?case by simp
qed

text \<open>Everything an outcome says except that there was a restart, and the order of the counters.\<close>

definition restart_view :: "scenario_outcome \<Rightarrow> scenario_outcome" where
  "restart_view r = r\<lparr>wr_restart_performed := False, wr_safety_interventions := []\<rparr>"

lemma run_scenario_restart:
  assumes "water_planner pl" and "config_ok config" and "scenario_ok config s"
  shows "\<exists>r r'. run_scenario pl s (Some config) = Inr r \<and>
    run_scenario pl (s\<lparr>wsc_restart_at_s := None\<rparr>) (Some config) = Inr r' \<and>
    restart_view r = restart_view r' \<and>
    (\<forall>k. dict_get (wr_safety_interventions r) k = dict_get (wr_safety_interventions r') k)"
proof -
  obtain times where times: "step_times (wsc_duration_s s) (wsc_step_s s) = Inr times"
    "int (length times) = wsc_duration_s s div wsc_step_s s"
    "\<And>t. t \<in> set times \<Longrightarrow> 0 \<le> t \<and> t < wsc_duration_s s" "int (length times) \<le> wsc_duration_s s"
    using step_times_ok [OF assms(3)] by blast
  obtain rs0 where rs0: "start_run config pl s = Inr rs0" "run_inv pl config s 0 rs0"
    using start_inv [OF assms(2,3)] by blast
  have "same_run rs0 rs0" by (simp add: same_run_def)
  from fold_same [OF assms rs0(2) this, where ts = times, OF times(3)] times(4) obtain a b where
    ab: "fold_res (run_step config pl s) rs0 times = Inr a"
      "fold_res (stepped config pl s) rs0 times = Inr b" "same_run a b" "verify (ct_journal (rs_controller a))"
    by auto
  obtain r where r: "run_scenario pl s (Some config) = Inr r" using run_scenario_ok [OF assms] by blast
  then have out: "water_outcome pl s a = Inr r"
    using rs0(1) times(1) ab(1) by (simp add: run_scenario_def Let_def)
  have start: "start_run config pl (s\<lparr>wsc_restart_at_s := None\<rparr>) = start_run config pl s"
    by (simp add: start_run_def)
  have step: "run_step config pl (s\<lparr>wsc_restart_at_s := None\<rparr>) = stepped config pl s"
    by (simp add: fun_eq_iff stepped_def)
  have "run_scenario pl (s\<lparr>wsc_restart_at_s := None\<rparr>) (Some config) = water_outcome pl s b"
    using rs0(1) times(1) ab(2) by (simp add: run_scenario_def Let_def start step water_outcome_def)
  moreover obtain r' where "water_outcome pl s b = Inr r'" "restart_view r = restart_view r'"
    "\<forall>k. dict_get (wr_safety_interventions r) k = dict_get (wr_safety_interventions r') k"
    using out ab(3,4) by (auto simp: water_outcome_def Let_def bind_res_eq_Inr same_run_def twin_def restart_view_def)
  ultimately show ?thesis using r by auto
qed

end
