(* ===== verification/WaterSuite.thy ===== *)
theory WaterSuite
  imports WaterRuns WaterScenarios
begin

text \<open>
  Every scenario of the suite is well formed for the default configuration: the declared ones by
  evaluation, the randomized ones for any source of words, because every draw stays in its range.
\<close>

section \<open>Ranges\<close>

text \<open>A finite float between two integers; every rounding keeps to the range.\<close>

definition between :: "int \<Rightarrow> int \<Rightarrow> pyfloat \<Rightarrow> bool" where
  "between a b x \<longleftrightarrow> (\<exists>q. x = Fin q \<and> of_int a \<le> q \<and> q \<le> of_int b)"

definition moderate :: "int \<Rightarrow> bool" where
  "moderate n \<longleftrightarrow> \<bar>n\<bar> \<le> 2 ^ 40"

lemma rnd_between:
  assumes "moderate a" and "moderate b" and "of_int a \<le> q" and "q \<le> of_int b"
  shows "of_int a \<le> rnd q" and "rnd q \<le> of_int b"
  using assms by (auto simp: moderate_def intro!: dbl.le_R dbl.R_le rnd_int)

lemma between_fl: "moderate a \<Longrightarrow> moderate b \<Longrightarrow> of_int a \<le> q \<Longrightarrow> q \<le> of_int b \<Longrightarrow> between a b (fl q)"
proof -
  assume ab: "moderate a" "moderate b" and q: "of_int a \<le> q" "q \<le> of_int b"
  have "\<bar>q\<bar> \<le> of_int (2 ^ 40)"
  proof -
    have "of_int b \<le> (of_int (2 ^ 40) :: rat)" "- of_int (2 ^ 40) \<le> (of_int a :: rat)"
      using ab by (simp_all only: moderate_def of_int_le_iff abs_le_iff flip: of_int_minus) simp_all
    with q show ?thesis by linarith
  qed
  also have "\<dots> \<le> (2 ^ 53 :: rat)" by simp
  finally have "fl q = Fin (rnd q)" by (rule fl_eq_Fin)
  with rnd_between [OF ab q] show ?thesis by (simp add: between_def)
qed

lemma between_Fin: "of_int a \<le> q \<Longrightarrow> q \<le> of_int b \<Longrightarrow> between a b (Fin q)"
  by (simp add: between_def)

lemma between_plus:
  assumes "between a b x" and "between c d y" and "moderate (a + c)" and "moderate (b + d)"
  shows "between (a + c) (b + d) (x + y)"
  using assms(1,2) unfolding between_def [of a b] between_def [of c d]
  by (elim exE conjE) (simp add: between_fl assms(3,4) add_mono)

lemma between_minus:
  assumes "between a b x" and "between c d y" and "moderate (a - d)" and "moderate (b - c)"
  shows "between (a - d) (b - c) (x - y)"
  using assms(1,2) unfolding between_def [of a b] between_def [of c d]
  by (elim exE conjE) (simp add: minus_pyfloat_def between_fl assms(3,4))

lemma between_times:
  assumes "between 0 b x" and "between 0 d y" and "moderate (b * d)"
  shows "between 0 (b * d) (x * y)"
proof -
  obtain p q where pq: "x = Fin p" "y = Fin q" "0 \<le> p" "p \<le> of_int b" "0 \<le> q" "q \<le> of_int d"
    using assms(1,2) by (auto simp: between_def)
  then have "p * q \<le> of_int b * of_int d" by (intro mult_mono) auto
  then have "between 0 (b * d) (fl (p * q))"
    using pq assms(3) by (intro between_fl) (simp_all add: moderate_def [of 0])
  with pq show ?thesis by simp
qed

lemma between_round:
  assumes "between a b x" and "moderate a" and "moderate b"
  shows "between a b (round_digits n x)"
proof -
  obtain q where q: "x = Fin q" "of_int a \<le> q" "q \<le> of_int b" using assms(1) by (auto simp: between_def)
  let ?r = "round_half_even (q * 10 ^ n)"
  have scale: "round_half_even (of_int k * 10 ^ n) = k * 10 ^ n" for k
    using round_half_even_of_int [of "k * 10 ^ n"] by simp
  have "a * 10 ^ n \<le> ?r" "?r \<le> b * 10 ^ n"
    using round_half_even_mono [of "of_int a * 10 ^ n" "q * 10 ^ n"]
      round_half_even_mono [of "q * 10 ^ n" "of_int b * 10 ^ n"] q by (simp_all add: scale)
  then have "of_int (a * 10 ^ n) \<le> (of_int ?r :: rat)" "(of_int ?r :: rat) \<le> of_int (b * 10 ^ n)"
    by (simp_all only: of_int_le_iff)
  then have "of_int a \<le> (of_int ?r / 10 ^ n :: rat)" "(of_int ?r / 10 ^ n :: rat) \<le> of_int b"
    by (simp_all add: pos_le_divide_eq pos_divide_le_eq)
  then show ?thesis by (simp add: q(1) between_fl assms(2,3))
qed

lemma between_weaken: "between a b x \<Longrightarrow> c \<le> a \<Longrightarrow> b \<le> d \<Longrightarrow> between c d x"
proof -
  assume ab: "between a b x" "c \<le> a" "b \<le> d"
  then have "of_int c \<le> (of_int a :: rat)" "of_int b \<le> (of_int d :: rat)" by (simp_all only: of_int_le_iff)
  moreover obtain q where "x = Fin q" "of_int a \<le> q" "q \<le> of_int b"
    using ab(1) by (auto simp: between_def)
  ultimately show ?thesis by (auto simp: between_def)
qed

lemma between_0_nonneg: "between 0 b x \<Longrightarrow> isfinite x \<and> Fin 0 \<le> x"
  by (auto simp: between_def)

section \<open>Draws\<close>

lemma random_float_unit: "random_float next g = (r, g') \<Longrightarrow> between 0 1 r"
proof -
  assume "random_float next g = (r, g')"
  then obtain a b where r: "r = fl (of_int (uint (drop_bit 5 (a :: w32)) * 67108864 + uint (drop_bit 6 (b :: w32))) / 9007199254740992)"
    by (auto simp: random_float_def Let_def split: prod.splits)
  have "uint (drop_bit 5 a) = uint a div 32" "uint (drop_bit 6 b) = uint b div 64"
    using uint_lt2p [of a] uint_lt2p [of b]
    unfolding unsigned_drop_bit_eq by (simp_all add: drop_bit_eq_div take_bit_int_eq_self)
  then have "uint (drop_bit 5 a) < 2 ^ 27" "uint (drop_bit 6 b) < 2 ^ 26"
    using uint_lt2p [of a] uint_lt2p [of b] by simp_all
  moreover have "0 \<le> uint (drop_bit 5 a)" "0 \<le> uint (drop_bit 6 b)" by simp_all
  moreover define n where "n = uint (drop_bit 5 a) * 67108864 + uint (drop_bit 6 b)"
  ultimately have "0 \<le> n" "n \<le> 9007199254740992" by auto
  then have "0 \<le> (of_int n / 9007199254740992 :: rat)" "(of_int n / 9007199254740992 :: rat) \<le> 1" by simp_all
  then show ?thesis unfolding r n_def [symmetric] by (intro between_fl) (simp_all add: moderate_def)
qed

lemma uniform_range:
  assumes "uniform next a b g = (x, g')" and "between l h a" and "between 0 w (b - a)"
    and "0 \<le> l" and "0 \<le> w" and "moderate (h + w)" and "moderate w"
  shows "between l (h + w) x"
proof -
  obtain r where r: "random_float next g = (r, g')" and x: "x = a + (b - a) * r"
    using assms(1) by (auto simp: uniform_def split: prod.splits)
  have "between 0 (w * 1) ((b - a) * r)"
    using assms(3) random_float_unit [OF r] by (rule between_times) (use assms(7) in simp)
  then have "between (l + 0) (h + w) x"
    unfolding x using assms(2,4-6) by (intro between_plus) (auto simp: moderate_def between_def)
  then show ?thesis by simp
qed


section \<open>The default configuration\<close>

lemma SystemConfig_ok: "config_ok SystemConfig"
  by (simp add: config_ok_def SystemConfig_def finite_double_def)

lemma start_inside:
  assumes "between 0 100 level"
  shows "\<exists>p. at_level SystemConfig level = Inr p \<and> volume_ok SystemConfig (pst_tank_volume_l (plt_state p))"
proof -
  obtain l where l: "level = Fin l" "0 \<le> l" "l \<le> 100" using assms by (auto simp: between_def)
  have "between 0 (100000 * 100) (Fin 100000 * level)"
    using assms by (intro between_times between_Fin) (simp_all add: moderate_def)
  then obtain v where v: "Fin 100000 * level = Fin v" "0 \<le> v" "v \<le> 10000000"
    by (auto simp: between_def)
  then have "between 0 100000 (fl (v / 100))" by (intro between_fl) (simp_all add: moderate_def)
  then show ?thesis
    unfolding at_level_def using v(1) by (auto simp: SystemConfig_def PlantState_def volume_ok_def between_def)
qed

lemma scenario_okI:
  assumes "0 < wsc_step_s s" and "0 \<le> wsc_duration_s s" and "wsc_duration_s s \<le> 2 ^ 40"
    and "wsc_step_s s \<le> 2 ^ 40" and "wsc_step_s s dvd wsc_duration_s s"
    and "tiles 0 (wsc_duration_s s) (wsc_demand_profile s)"
    and "\<forall>(a, b, d) \<in> set (wsc_demand_profile s). between 0 1000 d"
    and "between 0 1000 (wsc_observed_demand_scale s)" and "between 0 100 (wsc_initial_level_pct s)"
  shows "scenario_ok SystemConfig s"
proof -
  have "isfinite (d * wsc_observed_demand_scale s) \<and> Fin 0 \<le> d * wsc_observed_demand_scale s"
    if "(a, b, d) \<in> set (wsc_demand_profile s)" for a b d
  proof (rule between_0_nonneg)
    have "between 0 1000 d" using assms(7) that by auto
    from between_times [OF this assms(8)]
    show "between 0 (1000 * 1000) (d * wsc_observed_demand_scale s)" by (simp add: moderate_def)
  qed
  moreover obtain p where "at_level SystemConfig (wsc_initial_level_pct s) = Inr p"
    "volume_ok SystemConfig (pst_tank_volume_l (plt_state p))"
    using start_inside [OF assms(9)] by blast
  ultimately show ?thesis using assms(1-6) by (auto simp: scenario_ok_def)
qed

lemma between_literals:
  "of_int a \<le> (numeral k :: rat) \<Longrightarrow> numeral k \<le> (of_int b :: rat) \<Longrightarrow> between a b (Fin (numeral k))"
  "a \<le> 1 \<Longrightarrow> 1 \<le> b \<Longrightarrow> between a b (Fin 1)"
  by (simp_all add: between_def)

lemma declared_ok: "\<forall>s \<in> set declared_scenarios. scenario_ok SystemConfig s"
  unfolding declared_scenarios_def
  by (simp add: Scenario_def; intro conjI; rule scenario_okI;
      simp add: between_literals; intro conjI between_fl; simp add: moderate_def)

section \<open>The randomized scenarios\<close>

lemma uniform_0_1000:
  assumes "uniform next (fl p) (fl q) g = (x, g')" and "0 \<le> p" and "p \<le> q" and "q \<le> 100"
  shows "between 0 1000 x"
proof -
  have "between 0 100 (fl p)" "between 0 100 (fl q)"
    using assms by (auto intro!: between_fl simp: moderate_def)
  then have pq: "fl p = Fin (rnd p)" "fl q = Fin (rnd q)"
    by (auto simp: between_def fl_def Let_def split: if_splits)
  have "0 \<le> rnd q - rnd p" using rnd_mono [OF assms(3)] by simp
  moreover have "rnd q \<le> 100" "0 \<le> rnd p"
    using \<open>between 0 100 (fl p)\<close> \<open>between 0 100 (fl q)\<close> by (auto simp: pq between_def)
  then have "rnd q - rnd p \<le> 100" by simp
  ultimately have "between 0 100 (fl q - fl p)"
    by (simp add: pq minus_pyfloat_def) (auto intro!: between_fl simp: moderate_def)
  then have "between 0 (100 + 100) x"
    using assms(1) \<open>between 0 100 (fl p)\<close> by (intro uniform_range) (auto simp: moderate_def)
  then show ?thesis by (rule between_weaken) simp_all
qed

lemma randomized_ok:
  assumes "randomized_scenario next seed g = Some s"
  shows "scenario_ok SystemConfig s"
    and "wsc_scenario_id s = ''randomized-'' @ (if seed < 10 then ''0'' else []) @ int_str seed"
proof -
  obtain d1 g1 d2 g2 d3 g3 where d: "uniform next (fl (24 / 10)) (fl (38 / 10)) g = (d1, g1)"
    "uniform next (fl (35 / 10)) (fl (62 / 10)) g1 = (d2, g2)"
    "uniform next (fl (22 / 10)) (fl (42 / 10)) g2 = (d3, g3)"
    by (metis surj_pair)
  note unfolds = randomized_scenario_def Let_def d prod.case
  obtain a g4 where c1: "choice next [0 :: int, 7200, 14400, 21600] g3 = Some (a, g4)"
    using assms unfolding unfolds by (cases "choice next [0 :: int, 7200, 14400, 21600] g3") auto
  obtain b g5 where c2: "choice next [0 :: int, 1800, 3600] g4 = Some (b, g5)"
    using assms unfolding unfolds c1 by (cases "choice next [0 :: int, 1800, 3600] g4") auto
  obtain c g6 where c3: "choice next [5400 :: int, 10800, 16200] g5 = Some (c, g6)"
    using assms unfolding unfolds c1 by (cases "choice next [5400 :: int, 10800, 16200] g5") (auto simp: c2)
  obtain e g7 where c4: "choice next [0 :: int, 900, 1800] g6 = Some (e, g7)"
    using assms unfolding unfolds c1 by (cases "choice next [0 :: int, 900, 1800] g6") (auto simp: c2 c3)
  obtain level g8 scale g9 where u: "uniform next (Fin 22) (Fin 78) g7 = (level, g8)"
    "uniform next (fl (78 / 100)) (fl (122 / 100)) g8 = (scale, g9)"
    by (metis surj_pair)
  have "between 0 1000 d1" "between 0 1000 d2" "between 0 1000 d3" "between 0 1000 scale"
    by (rule uniform_0_1000 [OF d(1)] uniform_0_1000 [OF d(2)] uniform_0_1000 [OF d(3)]
        uniform_0_1000 [OF u(2)]; simp)+
  moreover have "between 22 (22 + 56) level"
    by (rule uniform_range [OF u(1)]) (simp_all add: between_def moderate_def minus_pyfloat_def)
  then have "between 0 100 level" by (rule between_weaken) simp_all
  ultimately show "scenario_ok SystemConfig s"
    using assms unfolding unfolds c1 c2 c3 c4 u bind.bind_lunit
    by (auto simp: Scenario_def moderate_def intro!: scenario_okI between_round)
  show "wsc_scenario_id s = ''randomized-'' @ (if seed < 10 then ''0'' else []) @ int_str seed"
    using assms unfolding unfolds c1 c2 c3 c4 u bind.bind_lunit by (auto simp: Scenario_def)
qed

lemma all_some_set: "all_some xs = Some ys \<Longrightarrow> y \<in> set ys \<Longrightarrow> Some y \<in> set xs"
  by (induction xs arbitrary: ys) (auto simp: bind_eq_Some_conv)

lemma suite_ok:
  assumes "scenario_suite next source = Some ss"
  shows "\<forall>s \<in> set ss. scenario_ok SystemConfig s"
proof
  fix s
  assume "s \<in> set ss"
  then consider "s \<in> set declared_scenarios"
    | seed where "randomized_scenario next seed (source (10000 + seed)) = Some s"
    using assms by (auto simp: scenario_suite_def randomized_scenarios_def dest!: all_some_set)
  then show "scenario_ok SystemConfig s"
  proof cases
    case 1
    then show ?thesis using declared_ok by blast
  next
    case 2
    then show ?thesis by (rule randomized_ok(1))
  qed
qed

end
