(* ===== verification/WaterProperties.thy ===== *)
theory WaterProperties
  imports WaterSuite WaterStudy
begin

text \<open>
  The properties of the remote water controller, each with a concrete instance.  They hold for any
  planner that keeps the protocol (\<open>water_planner\<close>), the generated table being one: the machine-made
  part is confined by the kernel, the journal and the checkpoint.
\<close>

section \<open>Instances\<close>

definition sample_at :: "rat \<Rightarrow> bool \<Rightarrow> quality \<Rightarrow> telemetry_sample" where
  "sample_at level powered q =
     \<lparr>observed_at_s = 0, received_at_s = 60, tank_level_pct = Fin level, demand_lps = Fin 3,
      power_available = powered, sample_quality = q\<rparr>"

definition fresh_controller :: controller where
  "fresh_controller = Controller GeneratedTablePlanner (Some SystemConfig) None None None"

lemma fresh_reaches: "reaches GeneratedTablePlanner SystemConfig fresh_controller"
  unfolding fresh_controller_def by (rule reaches.start)

lemma fresh_config [simp]: "ct_config fresh_controller = SystemConfig"
  by (simp add: fresh_controller_def Controller_def)

lemma fresh_decides: "\<exists>intent c'. decide fresh_controller sample now_s = Inr (intent, c')"
  using table.decide_returns [OF reaches_ok [OF fresh_reaches]] by blast


section \<open>Safety of one decision\<close>





section \<open>The controller over its life\<close>

text \<open>
  C20: after any number of decisions the controller is consistent: the standby pump runs only with
  the duty pump, the journal's hash chain verifies, and the sequence number, the length of the
  journal and the sum of the four intervention counters are the number of decisions.
\<close>

theorem reachable_consistent:
  assumes "reaches pl config c"
  shows "(cst_standby_on (ct_state c) \<longrightarrow> cst_duty_on (ct_state c)) \<and> verify (ct_journal c) \<and>
    cst_last_sequence (ct_state c) = int (length (jn_entries (ct_journal c))) \<and>
    jn_last_sequence (ct_journal c) = cst_last_sequence (ct_state c) \<and>
    total_counts (ct_counts c) = cst_last_sequence (ct_state c)"
  using reaches_ok [OF assms] reaches_counts [OF assms] by (simp add: controller_ok_def)

theorem reachable_consistent_witness:
  "\<exists>c intent. reaches GeneratedTablePlanner SystemConfig c \<and> verify (ct_journal c) \<and>
     cst_last_sequence (ct_state c) = 1 \<and> total_counts (ct_counts c) = 1"
proof -
  obtain intent c' where d: "decide fresh_controller (sample_at 20 True GOOD) 60 = Inr (intent, c')"
    using fresh_decides by blast
  have r: "reaches GeneratedTablePlanner SystemConfig c'" by (rule reaches.decided [OF fresh_reaches d])
  have "cst_last_sequence (ct_state c') = 1"
    by (rule decide_parts [OF d]) (simp add: fresh_controller_def Controller_def ControllerState_def)
  with reachable_consistent [OF r] r show ?thesis by auto
qed

text \<open>
  C27: no decision of a reachable controller raises, for a planner that keeps the protocol.
\<close>

theorem decide_never_raises:
  assumes "water_planner pl" and "reaches pl config c"
  shows "\<exists>intent c'. decide c sample now_s = Inr (intent, c') \<and> ai_planner_id intent = planner_id pl \<and>
    reaches pl config c'"
  using water_planner.decide_returns [OF assms(1) reaches_ok [OF assms(2)]] reaches.decided [OF assms(2)]
  by metis

theorem decide_never_raises_witness:
  "\<exists>intent c'. decide fresh_controller (sample_at 50 False CONFLICT) 60 = Inr (intent, c') \<and>
     ai_planner_id intent = ''mncs.remote-water.generated-table.v1''"
  using decide_never_raises [OF table.water_planner_axioms fresh_reaches, of "sample_at 50 False CONFLICT" 60]
  by (auto simp: GeneratedTablePlanner_def)

section \<open>The generated table\<close>

text \<open>
  C26: the generated planner, a binary search into a flat table of 504 entries, decides by the rule
  it was generated from: the numbers of level and demand bands that are not above the readings,
  the pumps' state, the power and the quality.
\<close>

theorem generated_table_decides:
  assumes "tank_level_pct sample = Fin l" and "demand_lps sample = Fin d"
  shows "\<exists>reason. plan GeneratedTablePlanner sample state config = Inr
    (let (duty, standby) = decision (int (length (filter (\<lambda>q. q \<le> l) [15, 35, 50, 65, 75, 90])))
        (int (length (filter (\<lambda>q. q \<le> d) [5 / 2, 9 / 2])))
        (of_bool (cst_duty_on state)) (of_bool (cst_standby_on state))
        (of_bool (power_available sample)) (quality_index (sample_quality sample))
     in \<lparr>pp_duty_on = duty, pp_standby_on = standby, pp_reason = reason,
         pp_planner_id = ''mncs.remote-water.generated-table.v1''\<rparr>)"
proof -
  have "bisect_right LEVEL_BANDS_PCT (tank_level_pct sample) =
      int (length (filter (\<lambda>q. q \<le> l) [15, 35, 50, 65, 75, 90]))"
    using bisect_right_count [of "[15, 35, 50, 65, 75, 90]" l] by (simp add: LEVEL_BANDS_PCT_def assms(1))
  moreover have "bisect_right DEMAND_BANDS_LPS (demand_lps sample) =
      int (length (filter (\<lambda>q. q \<le> d) [5 / 2, 9 / 2]))"
    using bisect_right_count [of "[5 / 2, 9 / 2]" d] by (simp add: DEMAND_BANDS_LPS_def assms(2))
  ultimately show ?thesis
    unfolding GeneratedTablePlanner_def by (simp only: planner.simps Let_def table_lookup bind_res_simps
        prod.case_eq_if) blast
qed

theorem generated_table_decides_witness:
  "\<exists>reason. plan GeneratedTablePlanner (sample_at 40 True GOOD) ControllerState SystemConfig = Inr
     \<lparr>pp_duty_on = True, pp_standby_on = False, pp_reason = reason,
      pp_planner_id = ''mncs.remote-water.generated-table.v1''\<rparr>"
  using generated_table_decides [of "sample_at 40 True GOOD" 40 3 ControllerState SystemConfig]
  by (simp add: sample_at_def decision_def ControllerState_def)


section \<open>Journal and checkpoint\<close>

lemma payload_canon:
  assumes "json_ok v" and "json_ok w"
    and "canonical_bytes (entry_payload h v) = canonical_bytes (entry_payload k w)"
  shows "h = k \<and> canon v = canon w"
proof -
  have "canon (entry_payload h v) = canon (entry_payload k w)"
    by (rule dumps_canon_eq) (use assms in \<open>simp_all add: entry_payload_def canonical_bytes_def\<close>)
  then have "item (canon (entry_payload h v)) x = item (canon (entry_payload k w)) x" for x by simp
  from this [of "''intent''"] this [of "''previous_hash''"] show ?thesis
    unfolding entry_payload_def
    using item_canon [of "[(''previous_hash'', JStr h), (''intent'', v)]"]
      item_canon [of "[(''previous_hash'', JStr k), (''intent'', w)]"] by (simp del: canon.simps(2))
qed

lemma chain_determines:
  assumes "verify_entries n h es = Some t" and "verify_entries n' h' es' = Some t"
    and "length es = length es'" and "\<forall>e \<in> set es \<union> set es'. json_ok (je_intent e)"
  shows "map (\<lambda>e. (je_previous_hash e, canon (je_intent e))) es
      = map (\<lambda>e. (je_previous_hash e, canon (je_intent e))) es' \<or>
    (\<exists>s \<in> set (hashed_texts es). \<exists>s' \<in> set (hashed_texts es'). sha256_collision s s')"
  using assms
proof (induction es arbitrary: es' t rule: rev_induct)
  case Nil
  then show ?case by simp
next
  case (snoc e es)
  then obtain fs f where es': "es' = fs @ [f]" by (metis append_butlast_last_id length_0_conv snoc_eq_iff_butlast)
  let ?s = "\<lambda>e. canonical_bytes (entry_payload (je_previous_hash e) (je_intent e))"
  have digests: "sha256 (?s e) = sha256 (?s f)"
    and prev: "verify_entries n h es = Some (je_previous_hash e)"
      "verify_entries n' h' fs = Some (je_previous_hash f)"
    using snoc.prems(1,2) by (simp_all add: es' verify_entries_snoc)
  show ?case
  proof (cases "?s e = ?s f")
    case False
    with digests show ?thesis by (auto simp: es' hashed_texts_def sha256_collision_def)
  next
    case True
    then have same: "je_previous_hash e = je_previous_hash f" "canon (je_intent e) = canon (je_intent f)"
      using payload_canon snoc.prems(4) by (auto simp: es')
    have "map (\<lambda>e. (je_previous_hash e, canon (je_intent e))) es
        = map (\<lambda>e. (je_previous_hash e, canon (je_intent e))) fs \<or>
      (\<exists>s \<in> set (hashed_texts es). \<exists>s' \<in> set (hashed_texts fs). sha256_collision s s')"
      by (rule snoc.IH [OF prev(1)]) (use prev(2) same snoc.prems(3,4) es' in auto)
    with same show ?thesis by (auto simp: es' hashed_texts_def)
  qed
qed

text \<open>
  C19: the journal is tamper evident.  Two journals that verify, with as many entries and the same
  tail hash, hold the same intents in the same order (up to the order of a dictionary's members),
  unless two different texts with one SHA-256 digest have been hashed in them.
\<close>

theorem journal_tamper_evident:
  assumes "verify j" and "verify j'" and "jn_tail_hash j = jn_tail_hash j'"
    and "length (jn_entries j) = length (jn_entries j')"
    and "\<forall>e \<in> set (jn_entries j) \<union> set (jn_entries j'). json_ok (je_intent e)"
  shows "map (\<lambda>e. canon (je_intent e)) (jn_entries j) = map (\<lambda>e. canon (je_intent e)) (jn_entries j') \<or>
    (\<exists>s \<in> set (hashed_texts (jn_entries j)). \<exists>s' \<in> set (hashed_texts (jn_entries j')). sha256_collision s s')"
proof -
  obtain n h where v: "verify_entries n h (jn_entries j) = Some (jn_tail_hash j)"
    using assms(1) unfolding verify_def by blast
  obtain n' h' where v': "verify_entries n' h' (jn_entries j') = Some (jn_tail_hash j)"
    using assms(2,3) unfolding verify_def by auto
  let ?f = "\<lambda>e. (je_previous_hash e, canon (je_intent e))"
  have "map ?f (jn_entries j) = map ?f (jn_entries j') \<Longrightarrow> ?thesis"
    by (drule arg_cong [where f = "map snd"]) (simp add: comp_def)
  with chain_determines [OF v v' assms(4,5)] show ?thesis by blast
qed

definition demo_intent :: "int \<Rightarrow> bool \<Rightarrow> authorized_intent" where
  "demo_intent n duty =
     \<lparr>ai_sequence = n, ai_issued_at_s = 60, ai_expires_at_s = 180, ai_duty_on = duty,
      ai_standby_on = False, ai_mode = NORMAL, ai_planner_id = ''p'', ai_proposal_reason = ''r'',
      ai_safety_reasons = [''proposal accepted'']\<rparr>"

lemma demo_intent_ok: "small n \<Longrightarrow> json_ok (intent_as_dict (demo_intent n duty))"
  by (simp add: intent_as_dict_def demo_intent_def small_bounded)

theorem journal_tamper_evident_witness:
  "\<exists>j e. append_intent (IntentJournal 0 GENESIS_HASH) (demo_intent 1 True) = Inr (e, j) \<and> verify j \<and>
     (map (\<lambda>e. canon (je_intent e)) (jn_entries j) = [canon (intent_as_dict (demo_intent 1 True))] \<or>
      (\<exists>s s'. sha256_collision s s'))"
proof -
  have "ai_sequence (demo_intent 1 True) = jn_last_sequence (IntentJournal 0 GENESIS_HASH) + 1"
    by (simp add: demo_intent_def IntentJournal_def)
  then obtain e j where ej: "append_intent (IntentJournal 0 GENESIS_HASH) (demo_intent 1 True) = Inr (e, j)"
    using append_ok by (metis surj_pair)
  then have v: "verify j" using append_verify verify_new by blast
  have entries: "jn_entries j = [e]" and e: "je_intent e = intent_as_dict (demo_intent 1 True)"
    using append_effect [OF ej] by (simp_all add: IntentJournal_def)
  have ok: "\<forall>x \<in> set (jn_entries j) \<union> set (jn_entries j). json_ok (je_intent x)"
    by (simp add: entries e demo_intent_ok small_bounded)
  from journal_tamper_evident [OF v v refl refl ok] ej v show ?thesis by (auto simp: entries e)
qed

text \<open>
  C23: a checkpoint of any object that Python can hold decodes to that object with its members
  sorted, and what decodes always carries the digest of its own canonical text.
\<close>

theorem checkpoint_roundtrip:
  assumes "json_ok payload" and "is_dict payload"
  shows "decode_checkpoint (encode_checkpoint payload) = Inr (canon payload) \<and>
    (\<forall>data v. decode_checkpoint data = Inr v \<longrightarrow>
       is_dict v \<and> read_envelope data = Inr (v, JStr (sha256 (canonical_bytes v))))"
  using decode_encode [OF assms] decode_checkpoint_digest by blast

theorem checkpoint_roundtrip_witness:
  "decode_checkpoint (encode_checkpoint (JObj [(''tail_hash'', JStr ''abc''), (''sequence'', JInt 14)]))
     = Inr (JObj [(''sequence'', JInt 14), (''tail_hash'', JStr ''abc'')])"
  using checkpoint_roundtrip [of "JObj [(''tail_hash'', JStr ''abc''), (''sequence'', JInt 14)]"]
  by (simp add: small_bounded less_eq_char_def less_char_def)

text \<open>
  C25: the canonical bytes that every digest of the program is taken of are read back by the JSON
  parser as the same value with sorted members, so two values with the same bytes differ at most in
  the order of their members; a float is written with enough digits to be read back exactly.
\<close>

theorem canonical_bytes_determine:
  assumes "json_ok v" and "json_ok w" and "canonical_bytes v = canonical_bytes w"
  shows "canon v = canon w \<and> json_loads_bytes (canonical_bytes v) = Inr (canon v) \<and>
    canonical_bytes (canon v) = canonical_bytes v"
  using dumps_canon_eq [OF assms(1,2)] loads_bytes_dumps [OF assms(1)] assms(3)
  by (simp add: canonical_bytes_def dumps_canon)

theorem canonical_bytes_determine_witness:
  "json_loads_bytes (canonical_bytes (JObj [(''b'', JFloat (Fin (1 / 2))), (''a'', JList [JNull])]))
     = Inr (JObj [(''a'', JList [JNull]), (''b'', JFloat (Fin (1 / 2)))])"
proof -
  have "is_double (1 / 2)"
    unfolding is_double_def by (rule exI [of _ 1], rule exI [of _ "- 1"]) (simp add: pow2_def)
  then have "finite_double (1 / 2)" unfolding finite_double_def by (rule fl_double) simp
  then have "json_ok (JObj [(''b'', JFloat (Fin (1 / 2))), (''a'', JList [JNull])])" by simp
  from canonical_bytes_determine [OF this this refl] show ?thesis
    by (simp add: less_eq_char_def less_char_def)
qed

section \<open>The plant\<close>

text \<open>
  C22: whatever the commands, the demand and the floats do, a step leaves the tank between empty
  and full, runs a pump exactly when it is commanded and powered, and counts a start exactly when
  a pump comes on.
\<close>

theorem plant_step_bounds:
  assumes "plant_step duty standby demand powered duration_s p = Inr p'"
    and "tank_capacity_l (plt_config p) = Fin c" and "0 \<le> c"
  shows "(\<exists>v. pst_tank_volume_l (plt_state p') = Fin v \<and> 0 \<le> v \<and> v \<le> c) \<and>
    pst_duty_running (plt_state p') = (duty \<and> powered) \<and>
    pst_standby_running (plt_state p') = (standby \<and> powered) \<and>
    pst_duty_starts (plt_state p') = pst_duty_starts (plt_state p)
      + of_bool (duty \<and> powered \<and> \<not> pst_duty_running (plt_state p)) \<and>
    pst_standby_starts (plt_state p') = pst_standby_starts (plt_state p)
      + of_bool (standby \<and> powered \<and> \<not> pst_standby_running (plt_state p))"
  using plant_step_parts [OF assms] volume_okD [OF _ assms(2)] by blast

theorem plant_step_bounds_witness:
  "\<exists>p'. plant_step True False PInf True 60 \<lparr>plt_config = SystemConfig, plt_state = PlantState NaN\<rparr> = Inr p' \<and>
     pst_duty_starts (plt_state p') = 1 \<and>
     (\<exists>v. pst_tank_volume_l (plt_state p') = Fin v \<and> 0 \<le> v \<and> v \<le> 100000)"
proof -
  obtain p' where p': "plant_step True False PInf True 60
      \<lparr>plt_config = SystemConfig, plt_state = PlantState NaN\<rparr> = Inr p'"
    using plant_step_returns [of 60 True False PInf True
      "\<lparr>plt_config = SystemConfig, plt_state = PlantState NaN\<rparr>"] by auto
  from plant_step_bounds [OF p', of 100000] p' show ?thesis
    by (auto simp: SystemConfig_def PlantState_def)
qed


section \<open>Whole scenarios\<close>

text \<open>
  C18: every scenario of the suite, declared or drawn from any source of random words, runs to its
  end under any planner that keeps the protocol.  It takes one decision per step, and the only
  safety violation it can report is a pump running on a conflicting high reading.
\<close>

theorem suite_runs:
  assumes "scenario_suite next source = Some ss" and "s \<in> set ss" and "water_planner pl"
  shows "\<exists>r. run_scenario pl s None = Inr r \<and> wr_steps r = wsc_duration_s s div wsc_step_s s \<and>
    wr_sequence_end r = wr_steps r \<and> total_counts (wr_safety_interventions r) = wr_steps r \<and>
    wr_emergency_steps r + wr_degraded_steps r \<le> wr_steps r \<and>
    (\<forall>note \<in> set (wr_safety_violations r).
       \<exists>t. note = high_high_note t \<and> inside t (wsc_conflict_windows s))"
proof -
  have "run_scenario pl s None = run_scenario pl s (Some SystemConfig)" by (simp add: run_scenario_def)
  moreover have "scenario_ok SystemConfig s" using suite_ok [OF assms(1)] assms(2) by blast
  from run_scenario_ok [OF assms(3) SystemConfig_ok this] obtain r where
    r: "run_scenario pl s (Some SystemConfig) = Inr r" "wr_sequence_end r = wr_steps r"
      "total_counts (wr_safety_interventions r) = wr_steps r"
      "wr_emergency_steps r + wr_degraded_steps r \<le> wr_steps r" "notes_ok s (wr_safety_violations r)"
    by blast
  moreover have "wr_steps r = wsc_duration_s s div wsc_step_s s"
    using r(1) by (auto simp: run_scenario_def Let_def bind_res_eq_Inr water_outcome_def)
  ultimately show ?thesis by (simp add: notes_ok_def)
qed

text \<open>The source of words that are all zero draws the first choice every time.\<close>

definition zero_words :: "unit \<Rightarrow> w32 \<times> unit" where
  "zero_words g = (0, g)"

lemma randbelow_zero: "0 < n \<Longrightarrow> randbelow zero_words n g = Some (0, g)"
  by (subst randbelow.simps) (simp add: zero_words_def)

lemma choice_zero: "xs \<noteq> [] \<Longrightarrow> choice zero_words xs g = Some (hd xs, g)"
  by (cases xs) (simp_all add: choice_def randbelow_zero)

lemma zero_scenario: "\<exists>s. randomized_scenario zero_words seed g = Some s"
  by (simp add: randomized_scenario_def Let_def choice_zero split: prod.splits)

lemma zero_suite: "\<exists>ss. scenario_suite zero_words (\<lambda>_. ()) = Some (declared_scenarios @ ss)"
proof -
  have "\<exists>ss. all_some (map (\<lambda>seed. randomized_scenario zero_words seed (f seed)) seeds) = Some ss" for f seeds
  proof (induction seeds)
    case (Cons seed seeds)
    then show ?case using zero_scenario [of seed "f seed"] by auto
  qed simp
  then show ?thesis by (auto simp: scenario_suite_def randomized_scenarios_def simp del: upto_rec_numeral)
qed

theorem suite_runs_witness:
  "\<exists>r. run_scenario GeneratedTablePlanner (hd declared_scenarios) None = Inr r \<and>
     wr_sequence_end r = 720 \<and> wr_safety_violations r = []"
proof -
  obtain ss where ss: "scenario_suite zero_words (\<lambda>_. ()) = Some (declared_scenarios @ ss)"
    using zero_suite by blast
  have s: "hd declared_scenarios \<in> set (declared_scenarios @ ss)"
    "wsc_conflict_windows (hd declared_scenarios) = []"
    "wsc_duration_s (hd declared_scenarios) div wsc_step_s (hd declared_scenarios) = 720"
    by (simp_all add: declared_scenarios_def Scenario_def)
  from suite_runs [OF ss s(1) table.water_planner_axioms] s(2,3) show ?thesis
    by (fastforce simp: inside_def)
qed

text \<open>
  C17: a restart through an encoded checkpoint changes nothing that can be observed: the run with
  it and the run without it end in the same outcome, tail hash included, apart from the flag that
  says so and the order of the counters.
\<close>

theorem restart_is_transparent:
  assumes "scenario_suite next source = Some ss" and "s \<in> set ss" and "water_planner pl"
  shows "\<exists>r r'. run_scenario pl s None = Inr r \<and>
    run_scenario pl (s\<lparr>wsc_restart_at_s := None\<rparr>) None = Inr r' \<and>
    r\<lparr>wr_restart_performed := False, wr_safety_interventions := []\<rparr>
      = r'\<lparr>wr_restart_performed := False, wr_safety_interventions := []\<rparr> \<and>
    (\<forall>k. dict_get (wr_safety_interventions r) k = dict_get (wr_safety_interventions r') k)"
proof -
  have "run_scenario pl s' None = run_scenario pl s' (Some SystemConfig)" for s'
    by (simp add: run_scenario_def)
  moreover have "scenario_ok SystemConfig s" using suite_ok [OF assms(1)] assms(2) by blast
  from run_scenario_restart [OF assms(3) SystemConfig_ok this] obtain r r' where
    "run_scenario pl s (Some SystemConfig) = Inr r"
    "run_scenario pl (s\<lparr>wsc_restart_at_s := None\<rparr>) (Some SystemConfig) = Inr r'"
    "restart_view r = restart_view r'"
    "\<forall>k. dict_get (wr_safety_interventions r) k = dict_get (wr_safety_interventions r') k"
    by blast
  ultimately show ?thesis by (simp add: restart_view_def)
qed

theorem restart_is_transparent_witness:
  "\<exists>r r'. run_scenario GeneratedTablePlanner (declared_scenarios ! 5) None = Inr r \<and>
     run_scenario GeneratedTablePlanner ((declared_scenarios ! 5)\<lparr>wsc_restart_at_s := None\<rparr>) None = Inr r' \<and>
     wr_journal_tail_hash r = wr_journal_tail_hash r' \<and> wsc_restart_at_s (declared_scenarios ! 5) = Some 14400"
proof -
  obtain ss where ss: "scenario_suite zero_words (\<lambda>_. ()) = Some (declared_scenarios @ ss)"
    using zero_suite by blast
  have s: "declared_scenarios ! 5 \<in> set (declared_scenarios @ ss)"
    "wsc_restart_at_s (declared_scenarios ! 5) = Some 14400"
    by (simp_all add: declared_scenarios_def Scenario_def)
  from restart_is_transparent [OF ss s(1) table.water_planner_axioms] obtain r r' where
    r: "run_scenario GeneratedTablePlanner (declared_scenarios ! 5) None = Inr r"
      "run_scenario GeneratedTablePlanner ((declared_scenarios ! 5)\<lparr>wsc_restart_at_s := None\<rparr>) None = Inr r'"
    and same: "r\<lparr>wr_restart_performed := False, wr_safety_interventions := []\<rparr>
      = r'\<lparr>wr_restart_performed := False, wr_safety_interventions := []\<rparr>"
    by blast
  from arg_cong [OF same, of wr_journal_tail_hash] have "wr_journal_tail_hash r = wr_journal_tail_hash r'"
    by simp
  with r s(2) show ?thesis by blast
qed


section \<open>The study's gate\<close>

lemma seed_names: "seed \<in> {0 .. 7} \<Longrightarrow> \<not> infix_of ''restart'' (''randomized-'' @ (if seed < 10 then ''0'' else []) @ int_str seed)"
proof -
  assume "seed \<in> {0 .. 7}"
  then have "int_str seed = [digit_char seed]" "seed < 10" by (auto simp: int_str_def dec_str.simps)
  moreover have "digit_char seed \<in> set ''0123456789''"
    unfolding digit_char_def using \<open>seed \<in> {0 .. 7}\<close> by (intro nth_mem) auto
  ultimately show ?thesis by auto
qed

lemma restart_scenarios:
  assumes "scenario_suite next source = Some ss" and "s \<in> set ss" and "infix_of ''restart'' (wsc_scenario_id s)"
  shows "wsc_restart_at_s s = Some 14400 \<and> wsc_duration_s s = 28800 \<and> wsc_step_s s = 60"
proof -
  consider "s \<in> set declared_scenarios"
    | seed where "seed \<in> {0 .. 7}" "randomized_scenario next seed (source (10000 + seed)) = Some s"
    using assms(1,2)
    by (auto simp: scenario_suite_def randomized_scenarios_def dest!: all_some_set simp del: upto_rec_numeral)
  then show ?thesis
  proof cases
    case 1
    with assms(3) show ?thesis by (auto simp: declared_scenarios_def Scenario_def)
  next
    case 2
    with assms(3) show ?thesis using randomized_ok(2) [OF 2(2)] seed_names [OF 2(1)] by simp
  qed
qed

lemma gate_of_outcome:
  "scenario_gate (outcome_as_dict r) = Inr (wr_safety_violations r = [] \<and>
     wr_sequence_end r = wr_steps r \<and>
     (infix_of ''restart'' (wr_scenario_id r) \<longrightarrow> wr_restart_performed r))"
  by (simp add: scenario_gate_def outcome_as_dict_def json_eq.simps feq_def)

text \<open>
  The per-scenario gate of the study holds for every scenario of the suite without a
  conflicting sensor, whatever planner runs: no violation, one decision per step, and the restart
  of a scenario named after one has been performed.
\<close>

theorem suite_passes_gate:
  assumes "scenario_suite next source = Some ss" and "s \<in> set ss" and "wsc_conflict_windows s = []"
    and "water_planner pl"
  shows "\<exists>r. run_scenario pl s None = Inr r \<and> scenario_gate (outcome_as_dict r) = Inr True"
proof -
  obtain r where r: "run_scenario pl s None = Inr r" "wr_sequence_end r = wr_steps r"
    "\<forall>note \<in> set (wr_safety_violations r). \<exists>t. note = high_high_note t \<and> inside t (wsc_conflict_windows s)"
  proof -
    have "run_scenario pl s None = run_scenario pl s (Some SystemConfig)" by (simp add: run_scenario_def)
    moreover have "scenario_ok SystemConfig s" using suite_ok [OF assms(1)] assms(2) by blast
    ultimately show thesis
      using run_scenario_ok [OF assms(4) SystemConfig_ok] that by (metis notes_ok_def)
  qed
  have "wr_safety_violations r = []"
    using r(3) by (cases "wr_safety_violations r") (auto simp: assms(3) inside_def)
  moreover have "wr_restart_performed r" if "infix_of ''restart'' (wr_scenario_id r)"
  proof -
    have times: "step_times 28800 60 = Inr (py_range 0 28800 60)" by (simp add: step_times_def)
    have "14340 \<in> set (py_range 0 28800 60)"
    proof -
      have "nat ((28800 - 0 + 60 - 1) div 60) = (480 :: nat)" by simp
      then show ?thesis unfolding py_range_def set_map by (simp only: set_upt, intro image_eqI [of _ _ 239]) simp_all
    qed
    moreover have "wsc_restart_at_s s = Some 14400 \<and> wsc_duration_s s = 28800 \<and> wsc_step_s s = 60"
    proof (rule restart_scenarios [OF assms(1,2)])
      have "\<exists>ts. step_times (wsc_duration_s s) (wsc_step_s s) = Inr ts"
        using r(1) by (auto simp: run_scenario_def Let_def bind_res_eq_Inr)
      then show "infix_of ''restart'' (wsc_scenario_id s)"
        using that run_scenario_restarted(2) [OF r(1)] by auto
    qed
    ultimately show ?thesis
      using run_scenario_restarted(1) [OF r(1), of "py_range 0 28800 60"] times by force
  qed
  ultimately show ?thesis using r(1,2) gate_of_outcome by auto
qed

theorem suite_passes_gate_witness:
  "\<exists>r. run_scenario ReadableBaselinePlanner (declared_scenarios ! 7) None = Inr r \<and>
     scenario_gate (outcome_as_dict r) = Inr True"
proof -
  obtain ss where ss: "scenario_suite zero_words (\<lambda>_. ()) = Some (declared_scenarios @ ss)"
    using zero_suite by blast
  have s: "declared_scenarios ! 7 \<in> set (declared_scenarios @ ss)"
    "wsc_conflict_windows (declared_scenarios ! 7) = []"
    by (simp_all add: declared_scenarios_def Scenario_def)
  show ?thesis by (rule suite_passes_gate [OF ss s baseline.water_planner_axioms])
qed

end
