(* ===== verification/PyStats.thy ===== *)
theory PyStats
  imports PyFloat
begin

text \<open>
  \<open>math.sqrt\<close>, \<open>statistics.fmean\<close> and \<open>statistics.pstdev\<close>.  All three round an exact value once:
  the square root is that of IEEE 754, \<open>fmean\<close> divides an exactly rounded sum, and \<open>pstdev\<close> takes
  the correctly rounded root of the exact variance.
\<close>

section \<open>The integer square root\<close>

function isqrt :: "int \<Rightarrow> int" where
  "isqrt n =
     (if n \<le> 0 then 0
      else let r = 2 * isqrt (n div 4) in if (r + 1) * (r + 1) \<le> n then r + 1 else r)"
  by pat_completeness auto
termination
  by (relation "measure nat") auto

declare isqrt.simps [simp del]

lemma isqrt_bounds:
  "0 \<le> n \<Longrightarrow> 0 \<le> isqrt n \<and> isqrt n * isqrt n \<le> n \<and> n < (isqrt n + 1) * (isqrt n + 1)"
proof (induction n rule: isqrt.induct)
  case (1 n)
  show ?case
  proof (cases "n \<le> 0")
    case True
    with 1 show ?thesis by (simp add: isqrt.simps)
  next
    case False
    let ?s = "isqrt (n div 4)"
    from 1(1) [OF False] False have s: "0 \<le> ?s" "?s * ?s \<le> n div 4" "n div 4 < (?s + 1) * (?s + 1)"
      by simp_all
    then have "4 * (?s * ?s) \<le> n" by linarith
    moreover from s(3) have "n div 4 + 1 \<le> (?s + 1) * (?s + 1)" by simp
    then have "n < 4 * ((?s + 1) * (?s + 1))" by linarith
    ultimately show ?thesis
      using s(1) False by (simp add: isqrt.simps [of n] Let_def algebra_simps)
  qed
qed

lemma isqrt_unique: "0 \<le> r \<Longrightarrow> r * r \<le> n \<Longrightarrow> n < (r + 1) * (r + 1) \<Longrightarrow> isqrt n = r"
proof -
  assume r: "0 \<le> r" "r * r \<le> n" "n < (r + 1) * (r + 1)"
  then have "0 \<le> n" using mult_nonneg_nonneg [of r r] by linarith
  note b = isqrt_bounds [OF this]
  have "\<not> isqrt n + 1 \<le> r"
  proof
    assume "isqrt n + 1 \<le> r"
    then have "(isqrt n + 1) * (isqrt n + 1) \<le> r * r" using b by (intro mult_mono) auto
    with b r show False by linarith
  qed
  moreover have "\<not> r + 1 \<le> isqrt n"
  proof
    assume "r + 1 \<le> isqrt n"
    then have "(r + 1) * (r + 1) \<le> isqrt n * isqrt n" using r by (intro mult_mono) auto
    with b r show False by linarith
  qed
  ultimately show ?thesis by linarith
qed

section \<open>The rounded square root\<close>

text \<open>The root of \<open>q > 0\<close> in units of its last place, to the nearest, ties to even.\<close>

definition round_sqrt :: "rat \<Rightarrow> int" where
  "round_sqrt x =
     (let f = isqrt \<lfloor>x\<rfloor>; half = of_int (f * f + f) + 1 / 4 in
      if x < half then f else if half < x then f + 1 else if even f then f else f + 1)"

definition rnd_sqrt :: "rat \<Rightarrow> rat" where
  "rnd_sqrt q =
     (if q = 0 then 0
      else let k = flog2 q div 2 - 52 in of_int (round_sqrt (q / pow2 (2 * k))) * pow2 k)"

fun fsqrt :: "pyfloat \<Rightarrow> pyfloat res" where
  "fsqrt (Fin q) = (if q < 0 then Inl (ValueError ''math domain error'') else Inr (Fin (rnd_sqrt q)))"
| "fsqrt NInf = Inl (ValueError ''math domain error'')"
| "fsqrt x = Inr x"

lemma round_sqrt_nonneg: "0 \<le> x \<Longrightarrow> 0 \<le> round_sqrt x"
  using isqrt_bounds [of "\<lfloor>x\<rfloor>"] by (simp add: round_sqrt_def Let_def)

lemma rnd_sqrt_nonneg: "0 \<le> q \<Longrightarrow> 0 \<le> rnd_sqrt q"
  by (auto simp: rnd_sqrt_def Let_def less_imp_le intro!: mult_nonneg_nonneg round_sqrt_nonneg
      divide_nonneg_pos)

lemma fsqrt_total: "0 \<le> q \<Longrightarrow> \<exists>r. fsqrt (Fin q) = Inr (Fin r) \<and> 0 \<le> r"
  by (simp add: rnd_sqrt_nonneg)

text \<open>The rounded root is within half a unit of the true one.\<close>

lemma round_sqrt_error:
  assumes "0 \<le> x"
  shows "round_sqrt x = 0 \<or> (of_int (round_sqrt x) - 1 / 2) ^ 2 \<le> x" and "x \<le> (of_int (round_sqrt x) + 1 / 2) ^ 2"
proof -
  let ?f = "isqrt \<lfloor>x\<rfloor>"
  have b: "0 \<le> ?f" "?f * ?f \<le> \<lfloor>x\<rfloor>" "\<lfloor>x\<rfloor> < (?f + 1) * (?f + 1)"
    using isqrt_bounds [of "\<lfloor>x\<rfloor>"] assms by simp_all
  have lo: "of_int (?f * ?f) \<le> x" using b(2) by (simp add: le_floor_iff)
  have hi: "x < of_int ((?f + 1) * (?f + 1))" using b(3) by (simp only: floor_less_iff)
  have half: "of_int (?f * ?f + ?f) + 1 / 4 = (of_int ?f + 1 / 2 :: rat) ^ 2"
    by (simp add: power2_eq_square algebra_simps)
  have up: "(of_int ?f + 1 / 2 :: rat) ^ 2 = (of_int (?f + 1) - 1 / 2) ^ 2"
    by (simp add: power2_eq_square algebra_simps)
  have f: "(0 :: rat) \<le> of_int ?f" using b(1) by simp
  show "round_sqrt x = 0 \<or> (of_int (round_sqrt x) - 1 / 2) ^ 2 \<le> x"
  proof (cases "round_sqrt x = ?f")
    case True
    have "?f = 0 \<or> (of_int ?f - 1 / 2 :: rat) ^ 2 \<le> of_int (?f * ?f)"
    proof (cases "?f = 0")
      case False
      with b(1) have "(1 :: rat) \<le> of_int ?f" by simp
      then show ?thesis by (simp add: power2_eq_square algebra_simps)
    qed simp
    with lo True show ?thesis by auto
  next
    case False
    then have "round_sqrt x = ?f + 1" "of_int (?f * ?f + ?f) + 1 / 4 \<le> x"
      by (auto simp: round_sqrt_def Let_def split: if_splits)
    then show ?thesis using half up by simp
  qed
  show "x \<le> (of_int (round_sqrt x) + 1 / 2) ^ 2"
  proof (cases "round_sqrt x = ?f")
    case True
    then have "x \<le> of_int (?f * ?f + ?f) + 1 / 4"
      by (auto simp: round_sqrt_def Let_def split: if_splits)
    then show ?thesis using half True by simp
  next
    case False
    then have eq: "round_sqrt x = ?f + 1" by (auto simp: round_sqrt_def Let_def split: if_splits)
    have "of_int ((?f + 1) * (?f + 1)) \<le> (of_int (?f + 1) + 1 / 2 :: rat) ^ 2"
      using f by (simp add: power2_eq_square algebra_simps)
    with hi eq show ?thesis by simp
  qed
qed

section \<open>Statistics\<close>

definition fmean :: "pyfloat list \<Rightarrow> pyfloat res" where
  "fmean xs =
     (if xs = [] then Inl (ValueError ''fmean requires at least one data point'')
      else case fl (sum_list (map fin_val xs)) of
        Fin s \<Rightarrow> fdiv (Fin s) (Fin (of_nat (length xs)))
      | _ \<Rightarrow> Inl OverflowError)"

definition pstdev :: "pyfloat list \<Rightarrow> pyfloat res" where
  "pstdev xs =
     (if xs = [] then Inl (ValueError ''pstdev requires at least one data point'')
      else
        let n = of_nat (length xs); qs = map fin_val xs; mu = sum_list qs / n
        in Inr (Fin (rnd_sqrt (sum_list (map (\<lambda>q. (q - mu) ^ 2) qs) / n))))"

end
