(* ===== verification/RavelBase.thy ===== *)
theory RavelBase
  imports PyJson PyStats Sha256
begin

unbundle bit_operations_syntax

text \<open>
  \<^verbatim>\<open>case-studies/ravel/tools/ravel_0_5_evaluator.py\<close>, first part: the constants, the checks every
  record goes through, and the two seed derivations.

  \<open>EvaluationError\<close> is a \<open>RuntimeError\<close>; its message is the source's.  Where the source walks a
  set, the order is that of the hash table and the model's is fixed: it decides only which of
  several errors of one record is reported.
\<close>

definition Q20_SCALE :: int where
  "Q20_SCALE = 1048576"

definition DIMENSIONS :: int where
  "DIMENSIONS = 8"

definition UINT64_MASK :: int where
  "UINT64_MASK = 2 ^ 64 - 1"

definition CHECKPOINT_MUTATION_KEYS :: "string list" where
  "CHECKPOINT_MUTATION_KEYS =
     [''retrieval_key_component'', ''reconstruction_component'', ''next_observation_component'',
      ''label'', ''label_count'', ''lineage'', ''transition_graph_edge'', ''transition_support'',
      ''anchored_status'', ''payload_byte'', ''checkpoint_truncation'',
      ''appended_unexpected_byte'', ''incorrect_schema_version'', ''checkpoint_substitution'']"

definition LINEAGE_INVARIANT_KEYS :: "string list" where
  "LINEAGE_INVARIANT_KEYS =
     [''sibling_generation_equality'', ''parent_child_generation_increment'',
      ''lineage_uniqueness'', ''repeated_descendant_splitting'', ''no_accidental_lineage_reuse'',
      ''deterministic_topology_reproduction'']"

definition DATASET_KEYS :: "string list" where
  "DATASET_KEYS =
     [''base_training'', ''base_holdout'', ''drift_adaptation_training'', ''drift_holdout'',
      ''original_task_retention_holdout'', ''planning_cases'']"

definition DATASET_SEED_XORS :: "(string, int) dict" where
  "DATASET_SEED_XORS =
     [(''base_training'', 0x4241534554524149), (''base_holdout'', 0x42415345484F4C44),
      (''drift_adaptation_training'', 0x414441505454524E), (''drift_holdout'', 0x4452494654484F4C),
      (''original_task_retention_holdout'', 0x524554454E54494F),
      (''planning_cases'', 0x504C414E43415345)]"

definition EvaluationError :: "string \<Rightarrow> py_error" where
  "EvaluationError message = RuntimeError message"

section \<open>Serialisation\<close>

text \<open>\<open>json.dumps(.., allow_nan=False)\<close> refuses a value that holds a float that is not finite.\<close>

fun all_finite :: "json \<Rightarrow> bool" where
  "all_finite (JFloat x) = isfinite x"
| "all_finite (JList xs) = list_all all_finite xs"
| "all_finite (JObj d) = list_all (\<lambda>(k, v). all_finite v) d"
| "all_finite _ = True"

definition ravel_canonical_bytes :: "json \<Rightarrow> string res" where
  "ravel_canonical_bytes v =
     (if all_finite v then Inr (json_dumps v @ [CHR 0x0A])
      else Inl (ValueError ''Out of range float values are not JSON compliant''))"

definition sha256_json :: "json \<Rightarrow> string res" where
  "sha256_json v = bind_res (ravel_canonical_bytes v) (\<lambda>b. Inr (sha256 b))"

section \<open>Checks\<close>

definition require_object :: "json \<Rightarrow> string \<Rightarrow> obj res" where
  "require_object v context =
     (case v of JObj d \<Rightarrow> Inr d | _ \<Rightarrow> Inl (EvaluationError (context @ '': expected object'')))"

definition str_list :: "string list \<Rightarrow> string" where
  "str_list xs = py_repr (JList (map JStr xs))"

definition require_exact_keys :: "obj \<Rightarrow> string list \<Rightarrow> string \<Rightarrow> unit res" where
  "require_exact_keys d keys context =
     guard_res (set (dict_keys d) \<noteq> set keys)
       (EvaluationError (context @ '': key mismatch missing=''
          @ str_list (sort (filter (\<lambda>k. k \<notin> set (dict_keys d)) keys)) @ '' unknown=''
          @ str_list (sort (filter (\<lambda>k. k \<notin> set keys) (dict_keys d)))))"

definition require_int :: "json \<Rightarrow> string \<Rightarrow> int \<Rightarrow> int option \<Rightarrow> int res" where
  "require_int v context minimum maximum =
     (case v of
        JInt n \<Rightarrow>
          if n < minimum \<or> (case maximum of None \<Rightarrow> False | Some m \<Rightarrow> m < n)
          then Inl (EvaluationError (context @ '': integer outside declared range''))
          else Inr n
      | _ \<Rightarrow> Inl (EvaluationError (context @ '': expected integer'')))"

definition require_bool :: "json \<Rightarrow> string \<Rightarrow> bool res" where
  "require_bool v context =
     (case v of JBool b \<Rightarrow> Inr b | _ \<Rightarrow> Inl (EvaluationError (context @ '': expected boolean'')))"

definition require_string :: "json \<Rightarrow> string \<Rightarrow> string res" where
  "require_string v context =
     (case v of
        JStr s \<Rightarrow> if s = [] then Inl (EvaluationError (context @ '': expected non-empty string''))
          else Inr s
      | _ \<Rightarrow> Inl (EvaluationError (context @ '': expected non-empty string'')))"

definition is_hex_digit :: "char \<Rightarrow> bool" where
  "is_hex_digit c \<longleftrightarrow> c \<in> set ''0123456789abcdef''"

definition validate_hex :: "json \<Rightarrow> string \<Rightarrow> nat \<Rightarrow> string res" where
  "validate_hex v context digits =
     bind_res (require_string v context) (\<lambda>text.
       if length text \<noteq> digits \<or> \<not> list_all is_hex_digit text
       then Inl (EvaluationError (context @ '': expected '' @ int_str (int digits) @ '' lowercase hex digits''))
       else Inr text)"

text \<open>\<open>int(s, 16)\<close> of lower-case hexadecimal digits.\<close>

definition hex_digit_value :: "char \<Rightarrow> int" where
  "hex_digit_value c = (let n = of_char c in if n < 58 then n - 48 else n - 87)"

definition hex_int :: "string \<Rightarrow> int" where
  "hex_int s = foldl (\<lambda>acc c. acc * 16 + hex_digit_value c) 0 s"

definition validate_u64_hex :: "json \<Rightarrow> string \<Rightarrow> int res" where
  "validate_u64_hex v context =
     bind_res (require_string v context) (\<lambda>text.
       if length text \<noteq> 18 \<or> \<not> starts_with ''0x'' text
       then Inl (EvaluationError (context @ '': expected 0x plus 16 lowercase hex digits''))
       else bind_res (validate_hex (JStr (drop 2 text)) context 16) (\<lambda>digits. Inr (hex_int digits)))"

section \<open>Seeds\<close>

definition mix64 :: "int \<Rightarrow> int" where
  "mix64 v0 =
     (let v1 = v0 AND UINT64_MASK;
          v2 = v1 XOR drop_bit 30 v1;
          v3 = (v2 * 0xBF58476D1CE4E5B9) AND UINT64_MASK;
          v4 = v3 XOR drop_bit 27 v3;
          v5 = (v4 * 0x94D049BB133111EB) AND UINT64_MASK
      in (v5 XOR drop_bit 31 v5) AND UINT64_MASK)"

text \<open>\<open>n.to_bytes(k, "big")\<close> for \<open>0 \<le> n < 256 ^ k\<close>, and \<open>s.encode("utf-8")\<close>.\<close>

definition be_bytes :: "nat \<Rightarrow> int \<Rightarrow> string" where
  "be_bytes k n = map (\<lambda>i. char_of (nat (n div 256 ^ (k - 1 - i) mod 256))) [0 ..< k]"

definition encode_utf8 :: "string \<Rightarrow> string" where
  "encode_utf8 s = concat (map (\<lambda>c. let n = of_char c :: nat in
     if n < 128 then [c] else [char_of (192 + n div 64), char_of (128 + n mod 64)]) s)"

text \<open>The first eight bytes of the digest are the first sixteen of its hexadecimal digits.\<close>

definition derive_validation_seed :: "int \<Rightarrow> string \<Rightarrow> int \<Rightarrow> int" where
  "derive_validation_seed root_seed regime index =
     (let framed = be_bytes 8 root_seed @ ''validation'' @ [CHR 0x00] @ encode_utf8 regime
                     @ [CHR 0x00] @ be_bytes 4 index
      in hex_int (take 16 (sha256 framed)))"

section \<open>What the checks accept\<close>

named_theorems ravel_checks \<open>acceptance of the elementary checks\<close>

lemma require_object_ok [simp, ravel_checks]: "require_object v context = Inr d \<longleftrightarrow> v = JObj d"
  by (cases v) (simp_all add: require_object_def)

lemma require_exact_keys_ok [simp, ravel_checks]:
  "require_exact_keys d keys context = Inr u \<longleftrightarrow> set (dict_keys d) = set keys"
  by (simp add: require_exact_keys_def)

lemma require_int_ok [simp, ravel_checks]:
  "require_int v context lo hi = Inr n \<longleftrightarrow>
     v = JInt n \<and> lo \<le> n \<and> (case hi of None \<Rightarrow> True | Some m \<Rightarrow> n \<le> m)"
  by (cases v) (auto simp: require_int_def split: option.splits)

lemma require_bool_ok [simp, ravel_checks]: "require_bool v context = Inr b \<longleftrightarrow> v = JBool b"
  by (cases v) (simp_all add: require_bool_def)

lemma require_string_ok [simp, ravel_checks]:
  "require_string v context = Inr s \<longleftrightarrow> v = JStr s \<and> s \<noteq> []"
  by (cases v) (auto simp: require_string_def)

lemma validate_hex_ok [simp, ravel_checks]:
  "validate_hex v context n = Inr s \<longleftrightarrow>
     v = JStr s \<and> s \<noteq> [] \<and> length s = n \<and> list_all is_hex_digit s"
  by (auto simp: validate_hex_def bind_res_eq_Inr)

lemma hex_digit_value_range: "is_hex_digit c \<Longrightarrow> 0 \<le> hex_digit_value c \<and> hex_digit_value c < 16"
  by (auto simp: is_hex_digit_def hex_digit_value_def Let_def)

lemma hex_int_snoc: "hex_int (s @ [c]) = hex_int s * 16 + hex_digit_value c"
  by (simp add: hex_int_def)

lemma hex_int_range: "list_all is_hex_digit s \<Longrightarrow> 0 \<le> hex_int s \<and> hex_int s < 16 ^ length s"
proof (induction s rule: rev_induct)
  case Nil
  then show ?case by (simp add: hex_int_def)
next
  case (snoc c s)
  then have "0 \<le> hex_int s" "hex_int s + 1 \<le> 16 ^ length s" by simp_all
  then have "(hex_int s + 1) * 16 \<le> 16 ^ length s * 16" by (intro mult_right_mono) auto
  moreover have "0 \<le> hex_digit_value c \<and> hex_digit_value c < 16"
    using snoc.prems by (simp add: hex_digit_value_range)
  ultimately show ?case using snoc by (simp add: hex_int_snoc)
qed

lemma validate_u64_hex_range:
  "validate_u64_hex v context = Inr n \<Longrightarrow> 0 \<le> n \<and> n < 2 ^ 64"
  using hex_int_range by (fastforce simp: validate_u64_hex_def bind_res_eq_Inr split: if_splits)

end
