(* ===== verification/RavelRecords.thy ===== *)
theory RavelRecords
  imports RavelBase
begin

text \<open>
  The raw records of the RAVEL 0.5 evaluator: evaluation, planning, replay, topology and variant
  records, their validation, and the metrics derived from the first two.

  The source checks a dictionary and goes on reading the same dictionary.  Here a validator returns
  the checked dictionary as a record with typed fields: the keys are exact, so the record holds all
  of it.
\<close>

text \<open>\<open>require_int(record[key], f"{context}.{key}")\<close>\<close>

definition int_at :: "obj \<Rightarrow> string \<Rightarrow> string \<Rightarrow> int res" where
  "int_at d context key =
     bind_res (obj_at d key) (\<lambda>v. require_int v (context @ ''.'' @ key) 0 None)"

definition hex_at :: "obj \<Rightarrow> string \<Rightarrow> nat \<Rightarrow> string \<Rightarrow> string res" where
  "hex_at d context digits key =
     bind_res (obj_at d key) (\<lambda>v. validate_hex v (context @ ''.'' @ key) digits)"

text \<open>\<open>if condition: raise EvaluationError(message)\<close>\<close>

abbreviation refuse :: "bool \<Rightarrow> string \<Rightarrow> unit res" where
  "refuse b message \<equiv> guard_res b (EvaluationError message)"

section \<open>Evaluation records\<close>

record eval_record =
  ev_samples :: int
  ev_rejected :: int
  ev_correct :: int
  ev_reconstruction_sse_q20 :: int
  ev_prediction_sse_q20 :: int
  ev_prediction_samples :: int
  ev_transition_correct :: int
  ev_transition_supported :: int
  ev_transition_unknown :: int
  ev_routing_certification_count :: int
  ev_routed_complete_mismatches :: int
  ev_expert_evaluations :: int
  ev_classification_checksum :: string
  ev_reconstruction_checksum :: string
  ev_prediction_checksum :: string
  ev_transition_checksum :: string

definition EVAL_KEYS :: "string list" where
  "EVAL_KEYS =
     [''samples'', ''rejected'', ''correct'', ''reconstruction_sse_q20'', ''prediction_sse_q20'',
      ''prediction_samples'', ''transition_correct'', ''transition_supported'',
      ''transition_unknown'', ''routing_certification_count'', ''routed_complete_mismatches'',
      ''expert_evaluations'', ''classification_checksum'', ''reconstruction_checksum'',
      ''prediction_checksum'', ''transition_checksum'']"

definition validate_eval :: "json \<Rightarrow> string \<Rightarrow> eval_record res" where
  "validate_eval v context =
     bind_res (require_object v context) (\<lambda>d.
     bind_res (require_exact_keys d EVAL_KEYS context) (\<lambda>_.
     bind_res (int_at d context ''samples'') (\<lambda>samples.
     bind_res (int_at d context ''rejected'') (\<lambda>rejected.
     bind_res (int_at d context ''correct'') (\<lambda>correct.
     bind_res (int_at d context ''reconstruction_sse_q20'') (\<lambda>reconstruction_sse.
     bind_res (int_at d context ''prediction_sse_q20'') (\<lambda>prediction_sse.
     bind_res (int_at d context ''prediction_samples'') (\<lambda>prediction_samples.
     bind_res (int_at d context ''transition_correct'') (\<lambda>transition_correct.
     bind_res (int_at d context ''transition_supported'') (\<lambda>transition_supported.
     bind_res (int_at d context ''transition_unknown'') (\<lambda>transition_unknown.
     bind_res (int_at d context ''routing_certification_count'') (\<lambda>certified.
     bind_res (int_at d context ''routed_complete_mismatches'') (\<lambda>mismatches.
     bind_res (int_at d context ''expert_evaluations'') (\<lambda>evaluations.
     bind_res (refuse (samples < correct \<or> samples < prediction_samples)
       (context @ '': count exceeds samples'')) (\<lambda>_.
     bind_res (refuse (samples < transition_supported \<or> transition_supported < transition_correct)
       (context @ '': transition count contradiction'')) (\<lambda>_.
     bind_res (refuse (transition_supported + transition_unknown \<noteq> samples)
       (context @ '': transition support partition contradiction'')) (\<lambda>_.
     bind_res (hex_at d context 16 ''classification_checksum'') (\<lambda>c1.
     bind_res (hex_at d context 16 ''reconstruction_checksum'') (\<lambda>c2.
     bind_res (hex_at d context 16 ''prediction_checksum'') (\<lambda>c3.
     bind_res (hex_at d context 16 ''transition_checksum'') (\<lambda>c4.
       Inr \<lparr>ev_samples = samples, ev_rejected = rejected, ev_correct = correct,
            ev_reconstruction_sse_q20 = reconstruction_sse, ev_prediction_sse_q20 = prediction_sse,
            ev_prediction_samples = prediction_samples,
            ev_transition_correct = transition_correct,
            ev_transition_supported = transition_supported,
            ev_transition_unknown = transition_unknown,
            ev_routing_certification_count = certified,
            ev_routed_complete_mismatches = mismatches, ev_expert_evaluations = evaluations,
            ev_classification_checksum = c1, ev_reconstruction_checksum = c2,
            ev_prediction_checksum = c3, ev_transition_checksum = c4\<rparr>)))))))))))))))))))))"

section \<open>Planning records\<close>

record plan_record =
  pl_cases :: int
  pl_path_found :: int
  pl_exact_world_state_target_reached :: int
  pl_goal_expert_reached :: int
  pl_belief_set_target_reached :: int
  pl_executed_path_length :: int
  pl_optimal_path_length :: int
  pl_path_length_regret :: int
  pl_graph_disconnection_failures :: int
  pl_no_supported_edge_failures :: int
  pl_transition_model_error_failures :: int
  pl_state_aliasing_failures :: int
  pl_expansions :: int
  pl_checksum :: string

definition PLAN_KEYS :: "string list" where
  "PLAN_KEYS =
     [''cases'', ''path_found'', ''exact_world_state_target_reached'', ''goal_expert_reached'',
      ''belief_set_target_reached'', ''executed_path_length'', ''optimal_path_length'',
      ''path_length_regret'', ''graph_disconnection_failures'', ''no_supported_edge_failures'',
      ''transition_model_error_failures'', ''state_aliasing_failures'', ''expansions'',
      ''checksum'']"

text \<open>The loop over the counts that may not exceed \<open>cases\<close>.\<close>

definition check_cases :: "string \<Rightarrow> int \<Rightarrow> (string, int) dict \<Rightarrow> unit res" where
  "check_cases context cases counts =
     fold_res (\<lambda>_ (key, n). refuse (cases < n) (context @ ''.'' @ key @ '': exceeds cases'')) () counts"

definition validate_plan :: "json \<Rightarrow> string \<Rightarrow> plan_record res" where
  "validate_plan v context =
     bind_res (require_object v context) (\<lambda>d.
     bind_res (require_exact_keys d PLAN_KEYS context) (\<lambda>_.
     bind_res (int_at d context ''cases'') (\<lambda>cases.
     bind_res (int_at d context ''path_found'') (\<lambda>path_found.
     bind_res (int_at d context ''exact_world_state_target_reached'') (\<lambda>exact_state.
     bind_res (int_at d context ''goal_expert_reached'') (\<lambda>goal_expert.
     bind_res (int_at d context ''belief_set_target_reached'') (\<lambda>belief_set.
     bind_res (int_at d context ''executed_path_length'') (\<lambda>executed.
     bind_res (int_at d context ''optimal_path_length'') (\<lambda>optimal.
     bind_res (int_at d context ''path_length_regret'') (\<lambda>regret.
     bind_res (int_at d context ''graph_disconnection_failures'') (\<lambda>disconnected.
     bind_res (int_at d context ''no_supported_edge_failures'') (\<lambda>unsupported.
     bind_res (int_at d context ''transition_model_error_failures'') (\<lambda>model_errors.
     bind_res (int_at d context ''state_aliasing_failures'') (\<lambda>aliasing.
     bind_res (int_at d context ''expansions'') (\<lambda>expansions.
     bind_res (check_cases context cases
       [(''path_found'', path_found), (''exact_world_state_target_reached'', exact_state),
        (''goal_expert_reached'', goal_expert), (''belief_set_target_reached'', belief_set),
        (''graph_disconnection_failures'', disconnected),
        (''no_supported_edge_failures'', unsupported),
        (''transition_model_error_failures'', model_errors),
        (''state_aliasing_failures'', aliasing)]) (\<lambda>_.
     bind_res (refuse (path_found + disconnected + unsupported \<noteq> cases)
       (context @ '': planning disposition contradiction'')) (\<lambda>_.
     bind_res (hex_at d context 16 ''checksum'') (\<lambda>checksum.
       Inr \<lparr>pl_cases = cases, pl_path_found = path_found,
            pl_exact_world_state_target_reached = exact_state,
            pl_goal_expert_reached = goal_expert, pl_belief_set_target_reached = belief_set,
            pl_executed_path_length = executed, pl_optimal_path_length = optimal,
            pl_path_length_regret = regret, pl_graph_disconnection_failures = disconnected,
            pl_no_supported_edge_failures = unsupported,
            pl_transition_model_error_failures = model_errors,
            pl_state_aliasing_failures = aliasing, pl_expansions = expansions,
            pl_checksum = checksum\<rparr>))))))))))))))))))"

section \<open>Derived metrics\<close>

record eval_metrics =
  em_accuracy :: pyfloat
  em_reconstruction_rmse :: pyfloat
  em_prediction_rmse :: pyfloat
  em_transition_accuracy :: pyfloat
  em_transition_support_rate :: pyfloat
  em_routing_mismatches :: int
  em_expert_evaluations :: int

definition rmse :: "int \<Rightarrow> int \<Rightarrow> pyfloat res" where
  "rmse sse_q20 samples =
     bind_res (int_div sse_q20 Q20_SCALE) (\<lambda>sse.
     bind_res (float_of_int (samples * DIMENSIONS)) (\<lambda>n.
     bind_res (fdiv sse n) fsqrt))"

definition derive_eval :: "eval_record \<Rightarrow> eval_metrics res" where
  "derive_eval record =
     (if ev_samples record = 0 then Inl (EvaluationError ''evaluation has zero samples'') else
      bind_res (int_div (ev_correct record) (ev_samples record)) (\<lambda>accuracy.
      bind_res (rmse (ev_reconstruction_sse_q20 record) (ev_samples record)) (\<lambda>reconstruction_rmse.
      bind_res (if ev_prediction_samples record \<noteq> 0
                then rmse (ev_prediction_sse_q20 record) (ev_prediction_samples record)
                else Inr PInf) (\<lambda>prediction_rmse.
      bind_res (if ev_transition_supported record \<noteq> 0
                then int_div (ev_transition_correct record) (ev_transition_supported record)
                else Inr (Fin 0)) (\<lambda>transition_accuracy.
      bind_res (int_div (ev_transition_supported record) (ev_samples record)) (\<lambda>support_rate.
        if list_all isfinite [accuracy, reconstruction_rmse, prediction_rmse, transition_accuracy,
             support_rate]
        then Inr \<lparr>em_accuracy = accuracy, em_reconstruction_rmse = reconstruction_rmse,
                  em_prediction_rmse = prediction_rmse,
                  em_transition_accuracy = transition_accuracy,
                  em_transition_support_rate = support_rate,
                  em_routing_mismatches = ev_routed_complete_mismatches record,
                  em_expert_evaluations = ev_expert_evaluations record\<rparr>
        else Inl (EvaluationError ''derived evaluation contains non-finite metric'')))))))"

record plan_metrics =
  pm_path_found_rate :: pyfloat
  pm_exact_state_rate :: pyfloat
  pm_goal_expert_rate :: pyfloat
  pm_belief_set_rate :: pyfloat
  pm_path_length_regret :: int
  pm_graph_disconnections :: int
  pm_unsupported_edge_failures :: int
  pm_transition_model_failures :: int
  pm_state_aliasing_failures :: int

definition derive_plan :: "plan_record \<Rightarrow> plan_metrics res" where
  "derive_plan record =
     (let cases = pl_cases record in
      if cases = 0 then Inl (EvaluationError ''planning has zero cases'') else
      bind_res (int_div (pl_path_found record) cases) (\<lambda>path_found_rate.
      bind_res (int_div (pl_exact_world_state_target_reached record) cases) (\<lambda>exact_state_rate.
      bind_res (int_div (pl_goal_expert_reached record) cases) (\<lambda>goal_expert_rate.
      bind_res (int_div (pl_belief_set_target_reached record) cases) (\<lambda>belief_set_rate.
        Inr \<lparr>pm_path_found_rate = path_found_rate, pm_exact_state_rate = exact_state_rate,
             pm_goal_expert_rate = goal_expert_rate, pm_belief_set_rate = belief_set_rate,
             pm_path_length_regret = pl_path_length_regret record,
             pm_graph_disconnections = pl_graph_disconnection_failures record,
             pm_unsupported_edge_failures = pl_no_supported_edge_failures record,
             pm_transition_model_failures = pl_transition_model_error_failures record,
             pm_state_aliasing_failures = pl_state_aliasing_failures record\<rparr>)))))"

section \<open>Replay, topology and variant records\<close>

record replay_record =
  re_selected :: int
  re_unique :: int
  re_labels_covered :: int
  re_actions_covered :: int
  re_states_covered :: int
  re_assigned_experts_covered :: int
  re_transition_pairs_covered :: int
  re_rare_cases_selected :: int
  re_high_loss_cases_selected :: int
  re_selection_checksum :: string

definition REPLAY_KEYS :: "string list" where
  "REPLAY_KEYS =
     [''selected'', ''unique'', ''labels_covered'', ''actions_covered'', ''states_covered'',
      ''assigned_experts_covered'', ''transition_pairs_covered'', ''rare_cases_selected'',
      ''high_loss_cases_selected'', ''selection_checksum'']"

definition validate_replay :: "json \<Rightarrow> string \<Rightarrow> replay_record res" where
  "validate_replay v context =
     bind_res (require_object v context) (\<lambda>d.
     bind_res (require_exact_keys d REPLAY_KEYS context) (\<lambda>_.
     bind_res (int_at d context ''selected'') (\<lambda>selected.
     bind_res (int_at d context ''unique'') (\<lambda>unique.
     bind_res (int_at d context ''labels_covered'') (\<lambda>labels.
     bind_res (int_at d context ''actions_covered'') (\<lambda>actions.
     bind_res (int_at d context ''states_covered'') (\<lambda>states.
     bind_res (int_at d context ''assigned_experts_covered'') (\<lambda>experts.
     bind_res (int_at d context ''transition_pairs_covered'') (\<lambda>pairs.
     bind_res (int_at d context ''rare_cases_selected'') (\<lambda>rare.
     bind_res (int_at d context ''high_loss_cases_selected'') (\<lambda>high_loss.
     bind_res (refuse (selected < unique) (context @ '': unique exceeds selected'')) (\<lambda>_.
     bind_res (hex_at d context 16 ''selection_checksum'') (\<lambda>checksum.
       Inr \<lparr>re_selected = selected, re_unique = unique, re_labels_covered = labels,
            re_actions_covered = actions, re_states_covered = states,
            re_assigned_experts_covered = experts, re_transition_pairs_covered = pairs,
            re_rare_cases_selected = rare, re_high_loss_cases_selected = high_loss,
            re_selection_checksum = checksum\<rparr>)))))))))))))"

record topology_record =
  to_accepted_births :: int
  to_rejected_births :: int
  to_accepted_retirements :: int
  to_rejected_retirements :: int
  to_objective_before_q20 :: int
  to_objective_after_q20 :: int

definition TOPOLOGY_KEYS :: "string list" where
  "TOPOLOGY_KEYS =
     [''accepted_births'', ''rejected_births'', ''accepted_retirements'', ''rejected_retirements'',
      ''objective_before_q20'', ''objective_after_q20'', ''births'', ''retired_lineages'',
      ''training_observations'']"

definition TRAINING_KEYS :: "string list" where
  "TRAINING_KEYS =
     [''expert_evaluations'', ''samples'', ''certified'', ''births'', ''retired'',
      ''rejected_births'', ''rejected_retirements'']"

text \<open>\<open>f"{context}[{index}]"\<close> over a list.\<close>

definition enumerated :: "string \<Rightarrow> 'a list \<Rightarrow> (string \<times> 'a) list" where
  "enumerated context xs =
     map (\<lambda>(i, x). (context @ ''['' @ int_str (int i) @ '']'', x)) (enumerate 0 xs)"

definition validate_birth :: "string \<times> json \<Rightarrow> unit res" where
  "validate_birth = (\<lambda>(context, v).
     bind_res (require_object v context) (\<lambda>d.
     bind_res (require_exact_keys d [''event_index'', ''normalized_score_q20'', ''dominant_channel'']
                 context) (\<lambda>_.
     bind_res (int_at d context ''event_index'') (\<lambda>_.
     bind_res (int_at d context ''normalized_score_q20'') (\<lambda>_.
     bind_res (bind_res (obj_at d ''dominant_channel'') (\<lambda>c.
       require_int c (context @ ''.dominant_channel'') 0 (Some 7))) (\<lambda>_. Inr ()))))))"

definition list_of_length :: "json \<Rightarrow> int \<Rightarrow> string \<Rightarrow> json list res" where
  "list_of_length v n message =
     (case v of JList xs \<Rightarrow> if int (length xs) \<noteq> n then Inl (EvaluationError message) else Inr xs
      | _ \<Rightarrow> Inl (EvaluationError message))"

definition validate_training :: "json \<Rightarrow> string \<Rightarrow> int \<Rightarrow> int \<Rightarrow> unit res" where
  "validate_training v context births retirements =
     bind_res (require_object v (context @ ''.training'')) (\<lambda>t.
     bind_res (require_exact_keys t TRAINING_KEYS (context @ ''.training'')) (\<lambda>_.
     bind_res (map_res (\<lambda>(k, x). require_int x (context @ ''.training.'' @ k) 0 None) t) (\<lambda>_.
     bind_res (refuse (dict_get t ''births'' \<noteq> Some (JInt births))
       (context @ '': accepted birth contradiction'')) (\<lambda>_.
       refuse (dict_get t ''retired'' \<noteq> Some (JInt retirements))
         (context @ '': accepted retirement contradiction'')))))"

definition validate_topology :: "json \<Rightarrow> string \<Rightarrow> topology_record res" where
  "validate_topology v context =
     bind_res (require_object v context) (\<lambda>d.
     bind_res (require_exact_keys d TOPOLOGY_KEYS context) (\<lambda>_.
     bind_res (int_at d context ''accepted_births'') (\<lambda>births.
     bind_res (int_at d context ''rejected_births'') (\<lambda>rejected_births.
     bind_res (int_at d context ''accepted_retirements'') (\<lambda>retirements.
     bind_res (int_at d context ''rejected_retirements'') (\<lambda>rejected_retirements.
     bind_res (int_at d context ''objective_before_q20'') (\<lambda>before.
     bind_res (int_at d context ''objective_after_q20'') (\<lambda>after.
     bind_res (bind_res (obj_at d ''births'') (\<lambda>b.
       list_of_length b births (context @ '': birth trace length mismatch''))) (\<lambda>trace.
     bind_res (map_res validate_birth (enumerated (context @ ''.births'') trace)) (\<lambda>_.
     bind_res (bind_res (obj_at d ''retired_lineages'') (\<lambda>r.
       list_of_length r retirements (context @ '': retirement trace length mismatch''))) (\<lambda>retired.
     bind_res (map_res (\<lambda>(c, lineage). validate_hex lineage c 16)
       (enumerated (context @ ''.retired_lineages'') retired)) (\<lambda>_.
     bind_res (bind_res (obj_at d ''training_observations'') (\<lambda>t.
       validate_training t context births retirements)) (\<lambda>_.
       Inr \<lparr>to_accepted_births = births, to_rejected_births = rejected_births,
            to_accepted_retirements = retirements, to_rejected_retirements = rejected_retirements,
            to_objective_before_q20 = before, to_objective_after_q20 = after\<rparr>)))))))))))))"

record variant_record =
  va_expert_count :: int
  va_training_evaluations :: int
  va_checkpoint_size_bytes :: int
  va_drift_holdout :: eval_record
  va_retention_holdout :: eval_record
  va_planning :: plan_record

definition VARIANT_KEYS :: "string list" where
  "VARIANT_KEYS =
     [''expert_count'', ''training_evaluations'', ''checkpoint_size_bytes'', ''drift_holdout'',
      ''retention_holdout'', ''planning'']"

definition expert_count_at :: "obj \<Rightarrow> string \<Rightarrow> int res" where
  "expert_count_at d context =
     bind_res (obj_at d ''expert_count'') (\<lambda>v. require_int v (context @ ''.expert_count'') 1 (Some 80))"

definition eval_at :: "obj \<Rightarrow> string \<Rightarrow> string \<Rightarrow> eval_record res" where
  "eval_at d context key =
     bind_res (obj_at d key) (\<lambda>v. validate_eval v (context @ ''.'' @ key))"

definition plan_at :: "obj \<Rightarrow> string \<Rightarrow> string \<Rightarrow> plan_record res" where
  "plan_at d context key =
     bind_res (obj_at d key) (\<lambda>v. validate_plan v (context @ ''.'' @ key))"

definition validate_variant :: "json \<Rightarrow> string \<Rightarrow> variant_record res" where
  "validate_variant v context =
     bind_res (require_object v context) (\<lambda>d.
     bind_res (require_exact_keys d VARIANT_KEYS context) (\<lambda>_.
     bind_res (expert_count_at d context) (\<lambda>experts.
     bind_res (int_at d context ''training_evaluations'') (\<lambda>training.
     bind_res (int_at d context ''checkpoint_size_bytes'') (\<lambda>bytes.
     bind_res (eval_at d context ''drift_holdout'') (\<lambda>drift.
     bind_res (eval_at d context ''retention_holdout'') (\<lambda>retention.
     bind_res (plan_at d context ''planning'') (\<lambda>planning.
       Inr \<lparr>va_expert_count = experts, va_training_evaluations = training,
            va_checkpoint_size_bytes = bytes, va_drift_holdout = drift,
            va_retention_holdout = retention, va_planning = planning\<rparr>))))))))"

end
