(* ===== verification/PyCollections.thy ===== *)
theory PyCollections
  imports PyJson
begin

text \<open>
  Sets built from dynamically typed values, as the validators of the studies build them:
  \<open>set(v)\<close>, comparison with a set of texts, membership.
\<close>

text \<open>The elements of \<open>set(v)\<close>, before duplicates are dropped.\<close>

definition set_elements :: "json \<Rightarrow> json list res" where
  "set_elements v =
     (case v of
        JObj d \<Rightarrow> Inr (map JStr (dict_keys d))
      | JStr s \<Rightarrow> Inr (map (\<lambda>c. JStr [c]) s)
      | JList xs \<Rightarrow> if list_all hashable xs then Inr xs else Inl (TypeError ''unhashable type'')
      | _ \<Rightarrow> Inl (TypeError ''object is not iterable''))"

text \<open>Iterating over a JSON value.\<close>

definition iterate :: "json \<Rightarrow> json list res" where
  "iterate v =
     (case v of
        JList xs \<Rightarrow> Inr xs
      | JObj d \<Rightarrow> Inr (map JStr (dict_keys d))
      | JStr s \<Rightarrow> Inr (map (\<lambda>c. JStr [c]) s)
      | _ \<Rightarrow> Inl (TypeError ''object is not iterable''))"

text \<open>\<open>v[k]\<close> for a text \<open>k\<close>\<close>

definition item_of :: "json \<Rightarrow> string \<Rightarrow> json res" where
  "item_of v k = (case v of JObj d \<Rightarrow> obj_at d k | _ \<Rightarrow> Inl (TypeError k))"

text \<open>Equality and inclusion of such a set and a set of texts.\<close>

definition equals_strings :: "json list \<Rightarrow> string set \<Rightarrow> bool" where
  "equals_strings vs S \<longleftrightarrow>
     list_all (\<lambda>v. case v of JStr s \<Rightarrow> s \<in> S | _ \<Rightarrow> False) vs \<and> (\<forall>s \<in> S. JStr s \<in> set vs)"

definition within_strings :: "json list \<Rightarrow> string set \<Rightarrow> bool" where
  "within_strings vs S \<longleftrightarrow> list_all (\<lambda>v. case v of JStr s \<Rightarrow> s \<in> S | _ \<Rightarrow> False) vs"

definition includes_strings :: "json list \<Rightarrow> string list \<Rightarrow> bool" where
  "includes_strings vs ss \<longleftrightarrow> list_all (\<lambda>s. JStr s \<in> set vs) ss"

text \<open>No two elements are equal, in the sense of \<open>==\<close>.\<close>

fun all_different :: "json list \<Rightarrow> bool" where
  "all_different [] = True"
| "all_different (v # vs) = (list_all (\<lambda>w. \<not> json_eq v w) vs \<and> all_different vs)"

text \<open>\<open>d.get(k)\<close> is \<open>True\<close> or \<open>False\<close> itself, not merely true or false.\<close>

definition is_true :: "obj \<Rightarrow> string \<Rightarrow> bool" where
  "is_true d k \<longleftrightarrow> get_or_null d k = JBool True"

definition is_false :: "obj \<Rightarrow> string \<Rightarrow> bool" where
  "is_false d k \<longleftrightarrow> get_or_null d k = JBool False"

definition is_text :: "obj \<Rightarrow> string \<Rightarrow> string \<Rightarrow> bool" where
  "is_text d k s \<longleftrightarrow> get_or_null d k = JStr s"

end
