(* ===== verification/RavelPrereg.thy ===== *)
theory RavelPrereg
  imports RavelRecords PyCollections
begin

text \<open>
  \<open>validate_preregistration\<close> of the RAVEL 0.5 evaluator: the frozen authority that names the
  trials, their seeds, the gates and the rule for the global result.
\<close>

section \<open>Python collections\<close>

definition dict_of :: "json \<Rightarrow> obj res" where
  "dict_of v = (case v of JObj d \<Rightarrow> Inr d | _ \<Rightarrow> Inl (AttributeError ''items''))"

section \<open>Gates\<close>

record gate =
  ga_gate_id :: string
  ga_metric :: json
  ga_operator :: string
  ga_value :: json
  ga_rationale :: json

definition GATE_KEYS :: "string list" where
  "GATE_KEYS = [''gate_id'', ''metric'', ''operator'', ''value'', ''rationale'']"

definition infinite_float :: "json \<Rightarrow> bool" where
  "infinite_float v = (case v of JFloat x \<Rightarrow> \<not> isfinite x | _ \<Rightarrow> False)"

text \<open>One gate, given the identities seen before it.\<close>

definition validate_gate :: "string \<Rightarrow> gate list \<Rightarrow> string \<times> json \<Rightarrow> gate list res" where
  "validate_gate collection seen = (\<lambda>(context, v).
     bind_res (require_object v context) (\<lambda>d.
     bind_res (require_exact_keys d GATE_KEYS context) (\<lambda>_.
     bind_res (bind_res (obj_at d ''gate_id'') (\<lambda>x. require_string x (context @ ''.gate_id''))) (\<lambda>identity.
     bind_res (refuse (identity \<in> ga_gate_id ` set seen) (collection @ '': duplicate gate id'')) (\<lambda>_.
     bind_res (bind_res (obj_at d ''operator'') (\<lambda>op.
       bind_res (in_strings op {''ge'', ''le'', ''eq''}) (\<lambda>known.
         case op of JStr s \<Rightarrow> if known then Inr s
             else Inl (EvaluationError (context @ '': unsupported operator''))
         | _ \<Rightarrow> Inl (EvaluationError (context @ '': unsupported operator''))))) (\<lambda>operator.
     bind_res (obj_at d ''value'') (\<lambda>threshold.
     bind_res (refuse (infinite_float threshold) (context @ '': non-finite threshold'')) (\<lambda>_.
     bind_res (obj_at d ''metric'') (\<lambda>metric.
     bind_res (obj_at d ''rationale'') (\<lambda>rationale.
       Inr (seen @ [\<lparr>ga_gate_id = identity, ga_metric = metric, ga_operator = operator,
                     ga_value = threshold, ga_rationale = rationale\<rparr>])))))))))))"

definition validate_gate_list :: "json \<Rightarrow> string \<Rightarrow> gate list res" where
  "validate_gate_list v context =
     (case v of
        JList xs \<Rightarrow>
          if xs = [] then Inl (EvaluationError (context @ '': expected non-empty gate list''))
          else fold_res (validate_gate context) [] (enumerated context xs)
      | _ \<Rightarrow> Inl (EvaluationError (context @ '': expected non-empty gate list'')))"

section \<open>Trials\<close>

record trial_identity =
  ti_trial_id :: string
  ti_regime :: string
  ti_seed :: string

record trial_scan =
  ts_trials :: "trial_identity list"
  ts_regimes :: "(string, int) dict"

definition string_at :: "obj \<Rightarrow> string \<Rightarrow> string \<Rightarrow> string res" where
  "string_at d key context = bind_res (obj_at d key) (\<lambda>v. require_string v context)"

definition validate_trial_identity :: "int \<Rightarrow> trial_scan \<Rightarrow> nat \<times> json \<Rightarrow> trial_scan res" where
  "validate_trial_identity root_seed ts = (\<lambda>(index, v).
     let place = ''trials['' @ int_str (int index) @ '']'' in
     bind_res (require_object v (''preregistration.'' @ place)) (\<lambda>d.
     bind_res (require_exact_keys d [''trial_id'', ''regime'', ''seed''] (''preregistration.'' @ place)) (\<lambda>_.
     bind_res (string_at d ''trial_id'' (place @ ''.trial_id'')) (\<lambda>trial_id.
     bind_res (string_at d ''regime'' (place @ ''.regime'')) (\<lambda>regime.
     bind_res (string_at d ''seed'' (place @ ''.seed'')) (\<lambda>seed.
     bind_res (validate_u64_hex (JStr seed) (place @ ''.seed'')) (\<lambda>seed_value.
     let regime_index = (case dict_get (ts_regimes ts) regime of None \<Rightarrow> 0 | Some n \<Rightarrow> n) in
     bind_res (refuse (seed_value \<noteq> derive_validation_seed root_seed regime regime_index)
       (place @ ''.seed disagrees with frozen derivation'')) (\<lambda>_.
     bind_res (refuse (trial_id \<in> ti_trial_id ` set (ts_trials ts) \<or> seed \<in> ti_seed ` set (ts_trials ts))
       ''duplicate trial id or seed'') (\<lambda>_.
       Inr \<lparr>ts_trials = ts_trials ts
              @ [\<lparr>ti_trial_id = trial_id, ti_regime = regime, ti_seed = seed\<rparr>],
            ts_regimes = dict_set regime (regime_index + 1) (ts_regimes ts)\<rparr>)))))))))"

definition nonempty_list :: "json \<Rightarrow> string \<Rightarrow> json list res" where
  "nonempty_list v message =
     (case v of JList xs \<Rightarrow> if xs = [] then Inl (EvaluationError message) else Inr xs
      | _ \<Rightarrow> Inl (EvaluationError message))"

definition validate_trials :: "json \<Rightarrow> int \<Rightarrow> trial_scan res" where
  "validate_trials v root_seed =
     bind_res (nonempty_list v ''preregistration.trials must be non-empty list'') (\<lambda>xs.
       fold_res (validate_trial_identity root_seed) \<lparr>ts_trials = [], ts_regimes = []\<rparr> (enumerate 0 xs))"

section \<open>The other parts\<close>

definition validate_freeze :: "json \<Rightarrow> unit res" where
  "validate_freeze v =
     bind_res (require_object v ''preregistration.freeze'') (\<lambda>d.
     bind_res (require_exact_keys d [''state'', ''frozen_before_final_validation'',
       ''development_corpus'', ''final_validation_use''] ''preregistration.freeze'') (\<lambda>_.
     bind_res (obj_at d ''state'') (\<lambda>state.
     bind_res (if state \<noteq> JStr ''FROZEN'' then Inr False
       else bind_res (obj_at d ''frozen_before_final_validation'') (\<lambda>b.
         require_bool b ''preregistration.freeze.frozen_before_final_validation'')) (\<lambda>frozen.
     bind_res (refuse (\<not> frozen) ''preregistration is not frozen'') (\<lambda>_.
     bind_res (obj_at d ''final_validation_use'') (\<lambda>use.
     bind_res (refuse (use \<noteq> JStr ''one_shot'') ''final validation must be declared one-shot'') (\<lambda>_.
     bind_res (string_at d ''development_corpus'' ''preregistration.freeze.development'') (\<lambda>_.
       Inr ()))))))))"

text \<open>The root seed and the number of validation seeds per regime.\<close>

definition validate_seed_derivation :: "json \<Rightarrow> (int \<times> int) res" where
  "validate_seed_derivation v =
     bind_res (require_object v ''preregistration.seed_derivation'') (\<lambda>d.
     bind_res (require_exact_keys d [''root_seed'', ''algorithm'', ''framing'',
       ''validation_seeds_per_regime''] ''preregistration.seed_derivation'') (\<lambda>_.
     bind_res (obj_at d ''algorithm'') (\<lambda>algorithm.
     bind_res (refuse (algorithm \<noteq> JStr ''sha256-first-u64-big-endian'')
       ''unsupported validation seed derivation'') (\<lambda>_.
     bind_res (obj_at d ''framing'') (\<lambda>framing.
     bind_res (refuse (framing \<noteq> JStr (''root_seed_u64_be || utf8('' @ [CHR 0x27] @ ''validation''
         @ [CHR 0x5C] @ ''0'' @ [CHR 0x27] @ '') || utf8(regime) || zero_byte || index_u32_be''))
       ''unsupported validation seed framing'') (\<lambda>_.
     bind_res (bind_res (obj_at d ''root_seed'') (\<lambda>s.
       validate_u64_hex s ''preregistration.seed_derivation.root_seed'')) (\<lambda>root_seed.
     bind_res (bind_res (obj_at d ''validation_seeds_per_regime'') (\<lambda>n.
       require_int n ''validation_seeds_per_regime'' 1 None)) (\<lambda>per_regime.
       Inr (root_seed, per_regime)))))))))"

definition validate_datasets :: "json \<Rightarrow> obj res" where
  "validate_datasets v =
     bind_res (require_object v ''preregistration.datasets_per_trial'') (\<lambda>d.
     bind_res (require_exact_keys d DATASET_KEYS ''preregistration.datasets_per_trial'') (\<lambda>_.
     bind_res (map_res (\<lambda>(name, n).
       require_int n (''preregistration.datasets_per_trial.'' @ name) 1 None) d) (\<lambda>_. Inr d)))"

definition validate_prohibitions :: "json \<Rightarrow> unit res" where
  "validate_prohibitions v =
     bind_res (nonempty_list v ''dataset_prohibitions must be a non-empty list'') (\<lambda>xs.
     bind_res (map_res (\<lambda>(context, x). require_string x context)
       (enumerated ''dataset_prohibitions'' xs)) (\<lambda>_. Inr ()))"

definition CONSTANT_KEYS :: "string list" where
  "CONSTANT_KEYS =
     [''dimensions'', ''classes'', ''actions'', ''states'', ''maximum_experts'',
      ''checkpoint_schema'', ''evidence_schema'', ''transition_top_k'', ''transition_support_min'',
      ''replay_count'', ''maximum_adaptation_births'', ''maximum_adaptation_retirements'',
      ''topology_objective_min_q20'', ''birth_residual_min_q20'']"

definition validate_constant :: "string \<times> json \<Rightarrow> unit res" where
  "validate_constant = (\<lambda>(name, v).
     if name = ''evidence_schema''
     then bind_res (require_string v (''mechanism_constants.'' @ name)) (\<lambda>_. Inr ())
     else bind_res (require_int v (''mechanism_constants.'' @ name) 0 None) (\<lambda>_. Inr ()))"

definition validate_constants :: "json \<Rightarrow> obj res" where
  "validate_constants v =
     bind_res (require_object v ''preregistration.mechanism_constants'') (\<lambda>d.
     bind_res (require_exact_keys d CONSTANT_KEYS ''preregistration.mechanism_constants'') (\<lambda>_.
     bind_res (map_res validate_constant d) (\<lambda>_.
     bind_res (obj_at d ''dimensions'') (\<lambda>n.
     bind_res (refuse (n \<noteq> JInt DIMENSIONS) ''evaluator dimension schema mismatch'') (\<lambda>_.
       Inr d)))))"

definition validate_variants :: "json \<Rightarrow> string list res" where
  "validate_variants v =
     (let message = ''comparison_variants must be a unique non-empty list'' in
      bind_res (nonempty_list v message) (\<lambda>xs.
      bind_res (set_elements (JList xs)) (\<lambda>_.
      bind_res (refuse (\<not> all_different xs) message) (\<lambda>_.
        map_res (\<lambda>(context, x). require_string x context) (enumerated ''comparison_variants'' xs)))))"

record global_rule =
  gr_minimum_passing_trials :: int
  gr_minimum_passing_trials_per_regime :: int
  gr_all_integrity_gates_required :: bool

definition validate_global_rule :: "json \<Rightarrow> int \<Rightarrow> int \<Rightarrow> global_rule res" where
  "validate_global_rule v trial_count per_regime =
     bind_res (require_object v ''preregistration.global_pass_rule'') (\<lambda>d.
     bind_res (require_exact_keys d [''minimum_passing_trials'',
       ''minimum_passing_trials_per_regime'', ''all_integrity_gates_required'']
       ''preregistration.global_pass_rule'') (\<lambda>_.
     bind_res (bind_res (obj_at d ''minimum_passing_trials'') (\<lambda>n.
       require_int n ''global_pass_rule.minimum_passing_trials'' 0 (Some trial_count))) (\<lambda>minimum.
     bind_res (bind_res (obj_at d ''minimum_passing_trials_per_regime'') (\<lambda>n.
       require_int n ''global_pass_rule.minimum_passing_trials_per_regime'' 0 (Some per_regime))) (\<lambda>minimum_regime.
     bind_res (bind_res (obj_at d ''all_integrity_gates_required'') (\<lambda>b.
       require_bool b ''global_pass_rule.all_integrity_gates_required'')) (\<lambda>all_required.
       Inr \<lparr>gr_minimum_passing_trials = minimum,
            gr_minimum_passing_trials_per_regime = minimum_regime,
            gr_all_integrity_gates_required = all_required\<rparr>)))))"

definition DISPOSITIONS :: "string set" where
  "DISPOSITIONS = {''reject'', ''fall_back'', ''fail_a_gate'', ''report_UNKNOWN'',
     ''preserve_non_promotion''}"

definition validate_disposition :: "string \<times> json \<Rightarrow> unit res" where
  "validate_disposition = (\<lambda>(name, v).
     let context = ''negative_test_dispositions.'' @ name in
     bind_res (require_string (JStr name) context) (\<lambda>_.
     bind_res (require_object v context) (\<lambda>d.
     bind_res (require_exact_keys d [''expected_disposition'', ''expected_observation'',
       ''rationale''] context) (\<lambda>_.
     bind_res (obj_at d ''expected_disposition'') (\<lambda>x.
     bind_res (in_strings x DISPOSITIONS) (\<lambda>known.
     bind_res (refuse (\<not> known) (context @ '': unsupported'')) (\<lambda>_.
     bind_res (string_at d ''rationale'' (context @ ''.rationale'')) (\<lambda>_.
     bind_res (bind_res (obj_at d ''expected_observation'') (\<lambda>b.
       require_bool b (context @ ''.expected_observation''))) (\<lambda>_. Inr ())))))))))"

definition validate_dispositions :: "json \<Rightarrow> unit res" where
  "validate_dispositions v =
     bind_res (require_object v ''negative_test_dispositions'') (\<lambda>d.
     bind_res (refuse (d = []) ''negative_test_dispositions must not be empty'') (\<lambda>_.
     bind_res (map_res validate_disposition d) (\<lambda>_. Inr ())))"

definition validate_formal_status :: "json \<Rightarrow> unit res" where
  "validate_formal_status v =
     (let context = ''formal_status_regardless_of_development_result'' in
      bind_res (require_object v context) (\<lambda>d.
      bind_res (require_exact_keys d [''mncs'', ''mncds'', ''promotion_authorized''] context) (\<lambda>_.
      bind_res (obj_at d ''mncs'') (\<lambda>mncs.
      bind_res (obj_at d ''mncds'') (\<lambda>mncds.
      bind_res (if mncs \<noteq> JStr ''UNKNOWN'' \<or> mncds \<noteq> JStr ''UNKNOWN'' then Inr True
        else bind_res (obj_at d ''promotion_authorized'') (\<lambda>b.
          require_bool b (context @ ''.promotion_authorized''))) (\<lambda>changed.
        refuse changed ''formal status boundary changed''))))))"

section \<open>The preregistration\<close>

record preregistration =
  pg_payload :: json
  pg_study_id :: string
  pg_datasets_per_trial :: obj
  pg_mechanism_constants :: obj
  pg_trials :: "trial_identity list"
  pg_comparison_variants :: "string list"
  pg_common_gates :: "gate list"
  pg_regime_gates :: "(string, gate list) dict"
  pg_global_pass_rule :: global_rule

definition PREREGISTRATION_KEYS :: "string list" where
  "PREREGISTRATION_KEYS =
     [''schema'', ''study_id'', ''candidate_id'', ''freeze'', ''seed_derivation'',
      ''datasets_per_trial'', ''dataset_prohibitions'', ''mechanism_constants'', ''trials'',
      ''comparison_variants'', ''common_gates'', ''regime_gates'', ''global_pass_rule'',
      ''negative_test_dispositions'', ''formal_status_regardless_of_development_result'']"

definition check_regimes :: "(string, int) dict \<Rightarrow> json \<Rightarrow> int \<Rightarrow> unit res" where
  "check_regimes regimes declared per_regime =
     bind_res (set_elements declared) (\<lambda>vs.
     bind_res (refuse (\<not> equals_strings vs (set (dict_keys regimes)))
       ''trial regimes do not match regime gate authority'') (\<lambda>_.
       refuse (list_ex (\<lambda>n. n \<noteq> per_regime) (dict_values regimes))
         ''unexpected validation seed count per regime''))"

definition validate_preregistration :: "json \<Rightarrow> preregistration res" where
  "validate_preregistration v =
     bind_res (require_object v ''preregistration'') (\<lambda>d.
     bind_res (require_exact_keys d PREREGISTRATION_KEYS ''preregistration'') (\<lambda>_.
     bind_res (obj_at d ''schema'') (\<lambda>schema.
     bind_res (refuse (schema \<noteq> JStr ''ravel-preregistration/0.5'')
       ''unsupported preregistration schema'') (\<lambda>_.
     bind_res (string_at d ''study_id'' ''preregistration.study_id'') (\<lambda>study_id.
     bind_res (string_at d ''candidate_id'' ''preregistration.candidate_id'') (\<lambda>_.
     bind_res (bind_res (obj_at d ''freeze'') validate_freeze) (\<lambda>_.
     bind_res (bind_res (obj_at d ''seed_derivation'') validate_seed_derivation) (\<lambda>(root_seed, per_regime).
     bind_res (bind_res (obj_at d ''datasets_per_trial'') validate_datasets) (\<lambda>datasets.
     bind_res (bind_res (obj_at d ''dataset_prohibitions'') validate_prohibitions) (\<lambda>_.
     bind_res (bind_res (obj_at d ''mechanism_constants'') validate_constants) (\<lambda>constants.
     bind_res (bind_res (obj_at d ''trials'') (\<lambda>ts. validate_trials ts root_seed)) (\<lambda>scan.
     bind_res (obj_at d ''regime_gates'') (\<lambda>regime_gates.
     bind_res (check_regimes (ts_regimes scan) regime_gates per_regime) (\<lambda>_.
     bind_res (bind_res (obj_at d ''comparison_variants'') validate_variants) (\<lambda>variants.
     bind_res (bind_res (obj_at d ''common_gates'') (\<lambda>g. validate_gate_list g ''common_gates'')) (\<lambda>common.
     bind_res (bind_res (dict_of regime_gates) (\<lambda>rg.
       map_res (\<lambda>(regime, g). bind_res (validate_gate_list g (''regime_gates.'' @ regime)) (\<lambda>gs.
         Inr (regime, gs))) rg)) (\<lambda>regime_lists.
     bind_res (bind_res (obj_at d ''global_pass_rule'') (\<lambda>g.
       validate_global_rule g (int (length (ts_trials scan))) per_regime)) (\<lambda>rule.
     bind_res (bind_res (obj_at d ''negative_test_dispositions'') validate_dispositions) (\<lambda>_.
     bind_res (bind_res (obj_at d ''formal_status_regardless_of_development_result'')
       validate_formal_status) (\<lambda>_.
       Inr \<lparr>pg_payload = v, pg_study_id = study_id, pg_datasets_per_trial = datasets,
            pg_mechanism_constants = constants, pg_trials = ts_trials scan,
            pg_comparison_variants = variants, pg_common_gates = common,
            pg_regime_gates = regime_lists, pg_global_pass_rule = rule\<rparr>))))))))))))))))))))"

end
