(* ===== verification/RavelTrial.thy ===== *)
theory RavelTrial
  imports RavelPrereg
begin

text \<open>
  \<open>validate_trial\<close> of the RAVEL 0.5 evaluator: one raw trial against the preregistration.
\<close>

record candidate_record =
  ca_adaptation_completed :: bool
  ca_expert_count :: int
  ca_base_training_evaluations :: int
  ca_adaptation_training_evaluations :: int
  ca_checkpoint_size_bytes :: int
  ca_base_holdout :: eval_record
  ca_adaptation_training :: eval_record
  ca_static_model_drift_holdout :: eval_record
  ca_adapted_model_drift_holdout :: eval_record
  ca_base_holdout_retention :: eval_record
  ca_planning :: plan_record
  ca_replay :: replay_record
  ca_topology :: topology_record

record integrity_record =
  ig_checkpoint_roundtrip :: bool
  ig_checkpoint_identity_match :: bool
  ig_checkpoint_behavior_match :: bool
  ig_checkpoint_mutations :: "(string, bool) dict"
  ig_lineage_invariants :: "(string, bool) dict"
  ig_unsupported_graph_edge_violations :: int

record trial_record =
  tr_trial_id :: string
  tr_regime :: string
  tr_seed :: string
  tr_candidate :: candidate_record
  tr_integrity :: integrity_record
  tr_comparisons :: "(string, variant_record) dict"

definition TRIAL_KEYS :: "string list" where
  "TRIAL_KEYS =
     [''schema'', ''trial_id'', ''regime'', ''seed'', ''dataset_seeds'', ''dataset_sizes'',
      ''checkpoint_format'', ''candidate'', ''integrity'', ''comparisons'']"

definition CHECKPOINT_KEYS :: "string list" where
  "CHECKPOINT_KEYS =
     [''magic_hex'', ''schema_version'', ''byte_order'', ''real_encoding'', ''payload_digest'',
      ''transition_top_k'', ''transition_support_min'']"

definition CANDIDATE_KEYS :: "string list" where
  "CANDIDATE_KEYS =
     [''adaptation_completed'', ''expert_count'', ''base_training_evaluations'',
      ''adaptation_training_evaluations'', ''checkpoint_size_bytes'', ''model_identity'',
      ''behavior_identity'', ''base_holdout'', ''adaptation_training'',
      ''static_model_drift_holdout'', ''adapted_model_drift_holdout'', ''base_holdout_retention'',
      ''planning'', ''replay'', ''topology'']"

definition INTEGRITY_KEYS :: "string list" where
  "INTEGRITY_KEYS =
     [''checkpoint_roundtrip'', ''checkpoint_identity_match'', ''checkpoint_behavior_match'',
      ''checkpoint_mutations'', ''lineage_invariants'', ''unsupported_graph_edge_violations'']"

section \<open>Dataset seeds\<close>

definition expected_dataset_seeds :: "int \<Rightarrow> (string, int) dict" where
  "expected_dataset_seeds trial_seed =
     map (\<lambda>(name, xor_value). (name, mix64 (trial_seed XOR xor_value))) DATASET_SEED_XORS"

text \<open>\<open>==\<close> of two dictionaries with the same kind of values.\<close>

definition dict_eq :: "('k, 'v) dict \<Rightarrow> ('k, 'v) dict \<Rightarrow> bool" where
  "dict_eq d e \<longleftrightarrow> length d = length e \<and> list_all (\<lambda>(k, v). dict_get e k = Some v) d"

definition validate_dataset_seeds :: "json \<Rightarrow> string \<Rightarrow> int \<Rightarrow> unit res" where
  "validate_dataset_seeds v context trial_seed =
     bind_res (require_object v (context @ ''.dataset_seeds'')) (\<lambda>d.
     bind_res (require_exact_keys d DATASET_KEYS (context @ ''.dataset_seeds'')) (\<lambda>_.
     bind_res (map_res (\<lambda>(name, x). bind_res (validate_u64_hex x (context @ ''.dataset_seeds.'' @ name)) (\<lambda>n.
       Inr (name, n))) d) (\<lambda>parsed.
     bind_res (refuse (card (set (dict_values parsed)) \<noteq> length parsed)
       (context @ '': dataset seed collision'')) (\<lambda>_.
       refuse (\<not> dict_eq parsed (expected_dataset_seeds trial_seed))
         (context @ '': dataset seed derivation mismatch'')))))"

section \<open>Checkpoint format\<close>

definition expected_checkpoint :: "obj \<Rightarrow> obj res" where
  "expected_checkpoint constants =
     bind_res (obj_at constants ''checkpoint_schema'') (\<lambda>version.
     bind_res (obj_at constants ''transition_top_k'') (\<lambda>top_k.
     bind_res (obj_at constants ''transition_support_min'') (\<lambda>support_min.
       Inr [(''magic_hex'', JStr ''524156454c303500''), (''schema_version'', version),
            (''byte_order'', JStr ''big_endian''), (''real_encoding'', JStr ''signed_q20_int64''),
            (''payload_digest'', JStr ''sha256''), (''transition_top_k'', top_k),
            (''transition_support_min'', support_min)])))"

definition validate_checkpoint_format :: "json \<Rightarrow> string \<Rightarrow> obj \<Rightarrow> unit res" where
  "validate_checkpoint_format v context constants =
     bind_res (require_object v (context @ ''.checkpoint'')) (\<lambda>d.
     bind_res (require_exact_keys d CHECKPOINT_KEYS (context @ ''.checkpoint'')) (\<lambda>_.
     bind_res (obj_at d ''schema_version'') (\<lambda>version.
     bind_res (obj_at constants ''checkpoint_schema'') (\<lambda>declared.
     bind_res (refuse (\<not> json_eq version declared) (context @ '': checkpoint schema mismatch'')) (\<lambda>_.
     bind_res (expected_checkpoint constants) (\<lambda>expected.
       refuse (\<not> json_eq (JObj d) (JObj expected))
         (context @ '': checkpoint format declaration mismatch'')))))))"

section \<open>Candidate and integrity\<close>

definition bool_at :: "obj \<Rightarrow> string \<Rightarrow> string \<Rightarrow> bool res" where
  "bool_at d key context = bind_res (obj_at d key) (\<lambda>v. require_bool v context)"

definition validate_candidate :: "json \<Rightarrow> string \<Rightarrow> candidate_record res" where
  "validate_candidate v context =
     (let inner = context @ ''.candidate'' in
     bind_res (require_object v inner) (\<lambda>d.
     bind_res (require_exact_keys d CANDIDATE_KEYS inner) (\<lambda>_.
     bind_res (bool_at d ''adaptation_completed'' (context @ ''.adaptation_completed'')) (\<lambda>adaptation_done.
     bind_res (expert_count_at d context) (\<lambda>experts.
     bind_res (bind_res (obj_at d ''base_training_evaluations'') (\<lambda>n.
       require_int n (context @ ''.base_training'') 0 None)) (\<lambda>base_training.
     bind_res (int_at d context ''adaptation_training_evaluations'') (\<lambda>adaptation_evaluations.
     bind_res (bind_res (obj_at d ''checkpoint_size_bytes'') (\<lambda>n.
       require_int n (context @ ''.checkpoint_size'') 0 None)) (\<lambda>bytes.
     bind_res (hex_at d context 64 ''model_identity'') (\<lambda>_.
     bind_res (hex_at d context 64 ''behavior_identity'') (\<lambda>_.
     bind_res (eval_at d inner ''base_holdout'') (\<lambda>base.
     bind_res (eval_at d inner ''adaptation_training'') (\<lambda>adaptation.
     bind_res (eval_at d inner ''static_model_drift_holdout'') (\<lambda>static.
     bind_res (eval_at d inner ''adapted_model_drift_holdout'') (\<lambda>adapted.
     bind_res (eval_at d inner ''base_holdout_retention'') (\<lambda>retention.
     bind_res (plan_at d inner ''planning'') (\<lambda>planning.
     bind_res (bind_res (obj_at d ''replay'') (\<lambda>r. validate_replay r (inner @ ''.replay''))) (\<lambda>replay.
     bind_res (bind_res (obj_at d ''topology'') (\<lambda>t. validate_topology t (inner @ ''.topology''))) (\<lambda>topology.
       Inr \<lparr>ca_adaptation_completed = adaptation_done, ca_expert_count = experts,
            ca_base_training_evaluations = base_training,
            ca_adaptation_training_evaluations = adaptation_evaluations,
            ca_checkpoint_size_bytes = bytes, ca_base_holdout = base,
            ca_adaptation_training = adaptation, ca_static_model_drift_holdout = static,
            ca_adapted_model_drift_holdout = adapted, ca_base_holdout_retention = retention,
            ca_planning = planning, ca_replay = replay, ca_topology = topology\<rparr>))))))))))))))))))"

definition validate_flags :: "obj \<Rightarrow> string \<Rightarrow> string \<Rightarrow> string list \<Rightarrow> (string, bool) dict res" where
  "validate_flags integrity context collection keys =
     bind_res (bind_res (obj_at integrity collection) (\<lambda>v. require_object v (context @ ''.'' @ collection))) (\<lambda>d.
     bind_res (require_exact_keys d keys (context @ ''.'' @ collection)) (\<lambda>_.
       map_res (\<lambda>(k, v). bind_res (require_bool v (context @ ''.'' @ collection @ ''.'' @ k)) (\<lambda>b.
         Inr (k, b))) d))"

definition validate_integrity :: "json \<Rightarrow> string \<Rightarrow> integrity_record res" where
  "validate_integrity v context =
     bind_res (require_object v (context @ ''.integrity'')) (\<lambda>d.
     bind_res (require_exact_keys d INTEGRITY_KEYS (context @ ''.integrity'')) (\<lambda>_.
     bind_res (bool_at d ''checkpoint_roundtrip'' (context @ ''.integrity.checkpoint_roundtrip'')) (\<lambda>roundtrip.
     bind_res (bool_at d ''checkpoint_identity_match'' (context @ ''.integrity.checkpoint_identity_match'')) (\<lambda>identity.
     bind_res (bool_at d ''checkpoint_behavior_match'' (context @ ''.integrity.checkpoint_behavior_match'')) (\<lambda>behavior.
     bind_res (int_at d context ''unsupported_graph_edge_violations'') (\<lambda>violations.
     bind_res (validate_flags d context ''checkpoint_mutations'' CHECKPOINT_MUTATION_KEYS) (\<lambda>mutations.
     bind_res (validate_flags d context ''lineage_invariants'' LINEAGE_INVARIANT_KEYS) (\<lambda>lineage.
       Inr \<lparr>ig_checkpoint_roundtrip = roundtrip, ig_checkpoint_identity_match = identity,
            ig_checkpoint_behavior_match = behavior, ig_checkpoint_mutations = mutations,
            ig_lineage_invariants = lineage,
            ig_unsupported_graph_edge_violations = violations\<rparr>))))))))"

section \<open>Comparisons\<close>

definition validate_comparisons ::
  "json \<Rightarrow> string \<Rightarrow> string list \<Rightarrow> (string, variant_record) dict res" where
  "validate_comparisons v context variants =
     bind_res (require_object v (context @ ''.comparisons'')) (\<lambda>d.
     bind_res (refuse (set (dict_keys d) \<noteq> set variants)
       (context @ '': comparison variant set mismatch'')) (\<lambda>_.
       map_res (\<lambda>(name, x). bind_res (validate_variant x (context @ ''.comparisons.'' @ name)) (\<lambda>r.
         Inr (name, r))) d))"

definition candidate_agrees :: "variant_record \<Rightarrow> candidate_record \<Rightarrow> bool" where
  "candidate_agrees comparison candidate \<longleftrightarrow>
     va_expert_count comparison = ca_expert_count candidate \<and>
     va_checkpoint_size_bytes comparison = ca_checkpoint_size_bytes candidate \<and>
     va_drift_holdout comparison = ca_adapted_model_drift_holdout candidate \<and>
     va_retention_holdout comparison = ca_base_holdout_retention candidate \<and>
     va_planning comparison = ca_planning candidate"

section \<open>The trial\<close>

definition check_identity :: "obj \<Rightarrow> string \<Rightarrow> string \<times> string \<Rightarrow> unit res" where
  "check_identity d context = (\<lambda>(key, expected).
     bind_res (obj_at d key) (\<lambda>v.
       refuse (v \<noteq> JStr expected) (context @ '': '' @ key @ '' disagrees with preregistration'')))"

definition validate_trial :: "json \<Rightarrow> trial_identity \<Rightarrow> preregistration \<Rightarrow> trial_record res" where
  "validate_trial trial expected prereg =
     (let context = ''trial['' @ ti_trial_id expected @ '']'' in
     bind_res (require_object trial context) (\<lambda>d.
     bind_res (require_exact_keys d TRIAL_KEYS context) (\<lambda>_.
     bind_res (obj_at d ''schema'') (\<lambda>schema.
     bind_res (refuse (schema \<noteq> JStr ''ravel-raw-trial/0.5'')
       (context @ '': unsupported raw schema'')) (\<lambda>_.
     bind_res (map_res (check_identity d context)
       [(''trial_id'', ti_trial_id expected), (''regime'', ti_regime expected),
        (''seed'', ti_seed expected)]) (\<lambda>_.
     bind_res (bind_res (obj_at d ''seed'') (\<lambda>s. validate_u64_hex s (context @ ''.seed''))) (\<lambda>trial_seed.
     bind_res (bind_res (obj_at d ''dataset_seeds'') (\<lambda>s. validate_dataset_seeds s context trial_seed)) (\<lambda>_.
     bind_res (bind_res (obj_at d ''dataset_sizes'') (\<lambda>s.
       require_object s (context @ ''.dataset_sizes''))) (\<lambda>sizes.
     bind_res (require_exact_keys sizes DATASET_KEYS (context @ ''.dataset_sizes'')) (\<lambda>_.
     bind_res (refuse (\<not> json_eq (JObj sizes) (JObj (pg_datasets_per_trial prereg)))
       (context @ '': partition sizes disagree with preregistration'')) (\<lambda>_.
     bind_res (bind_res (obj_at d ''checkpoint_format'') (\<lambda>c.
       validate_checkpoint_format c context (pg_mechanism_constants prereg))) (\<lambda>_.
     bind_res (bind_res (obj_at d ''candidate'') (\<lambda>c. validate_candidate c context)) (\<lambda>candidate.
     bind_res (bind_res (obj_at d ''integrity'') (\<lambda>i. validate_integrity i context)) (\<lambda>integrity.
     bind_res (bind_res (obj_at d ''comparisons'') (\<lambda>c.
       validate_comparisons c context (pg_comparison_variants prereg))) (\<lambda>comparisons.
     bind_res (dict_at ''ravel_0_5_candidate'' comparisons ''ravel_0_5_candidate'') (\<lambda>comparison.
     bind_res (refuse (\<not> candidate_agrees comparison candidate)
       (context @ '': candidate comparison contradicts raw candidate'')) (\<lambda>_.
       Inr \<lparr>tr_trial_id = ti_trial_id expected, tr_regime = ti_regime expected,
            tr_seed = ti_seed expected, tr_candidate = candidate, tr_integrity = integrity,
            tr_comparisons = comparisons\<rparr>)))))))))))))))))"

end
