(* ===== verification/RavelSeeds.thy ===== *)
theory RavelSeeds
  imports RavelTrial
begin

unbundle bit_operations_syntax

text \<open>
  The dataset seeds of the RAVEL 0.5 evaluator.  The mixer is a bijection of 64-bit words: a shifted
  exclusive or can be undone, and so can the product with an odd constant.  So the six seeds derived
  from one trial seed never collide.
\<close>

section \<open>The mixer on words\<close>

definition xorshift :: "nat \<Rightarrow> 64 word \<Rightarrow> 64 word" where
  "xorshift k w = w XOR drop_bit k w"

definition mixw :: "64 word \<Rightarrow> 64 word" where
  "mixw w = xorshift 31 (xorshift 27 (xorshift 30 w * 0xBF58476D1CE4E5B9) * 0x94D049BB133111EB)"

lemma bit_xorshift: "bit (xorshift k w) n \<longleftrightarrow> bit w n \<noteq> bit w (n + k)"
  by (simp add: xorshift_def bit_xor_iff bit_drop_bit_eq add.commute)

lemma xorshift_inject:
  assumes "0 < k" and "xorshift k w = xorshift k v"
  shows "w = v"
proof -
  define differs where "differs n \<longleftrightarrow> bit w n \<noteq> bit v n" for n
  have step: "differs n \<longleftrightarrow> differs (n + k)" for n
    using arg_cong [OF assms(2), of "\<lambda>d. bit d n"] by (auto simp: bit_xorshift differs_def)
  have "differs n \<longleftrightarrow> differs (n + j * k)" for n j
  proof (induction j arbitrary: n)
    case (Suc j)
    have "differs n \<longleftrightarrow> differs (n + k)" by (rule step)
    also have "\<dots> \<longleftrightarrow> differs (n + k + j * k)" by (rule Suc)
    finally show ?case by (simp add: add.assoc)
  qed simp
  moreover have "\<not> differs (n + 64 * k)" for n
  proof -
    have "64 \<le> n + 64 * k" using assms(1) by simp
    then show ?thesis unfolding differs_def using bit_imp_le_length by fastforce
  qed
  ultimately have "\<not> differs n" for n by blast
  then show "w = v" by (intro bit_eqI) (simp add: differs_def)
qed

lemma odd_factor_inject:
  assumes "c * d = (1 :: 64 word)" and "w * c = v * c"
  shows "w = v"
proof -
  have "w = w * c * d" by (simp add: mult.assoc assms(1))
  also have "\<dots> = v * c * d" by (simp only: assms(2))
  also have "\<dots> = v" by (simp add: mult.assoc assms(1))
  finally show ?thesis .
qed

lemma mixw_inject: "mixw w = mixw v \<Longrightarrow> w = v"
proof -
  have "(0xBF58476D1CE4E5B9 :: 64 word) * 0x96DE1B173F119089 = 1" by simp
  note first = odd_factor_inject [OF this]
  have "(0x94D049BB133111EB :: 64 word) * 0x319642B2D24D8EC3 = 1" by simp
  note second = odd_factor_inject [OF this]
  assume "mixw w = mixw v"
  then have "xorshift 27 (xorshift 30 w * 0xBF58476D1CE4E5B9) * 0x94D049BB133111EB
      = xorshift 27 (xorshift 30 v * 0xBF58476D1CE4E5B9) * 0x94D049BB133111EB"
    unfolding mixw_def by (rule xorshift_inject [rotated]) simp
  then have "xorshift 27 (xorshift 30 w * 0xBF58476D1CE4E5B9) = xorshift 27 (xorshift 30 v * 0xBF58476D1CE4E5B9)"
    by (rule second)
  then have "xorshift 30 w * 0xBF58476D1CE4E5B9 = xorshift 30 v * 0xBF58476D1CE4E5B9"
    by (rule xorshift_inject [rotated]) simp
  then have "xorshift 30 w = xorshift 30 v" by (rule first)
  then show "w = v" by (rule xorshift_inject [rotated]) simp
qed

section \<open>The mixer of the evaluator\<close>

lemma mask_word: "n AND UINT64_MASK = uint (word_of_int n :: 64 word)"
proof -
  have "UINT64_MASK = mask 64" by (simp add: UINT64_MASK_def mask_eq_exp_minus_1)
  then have "n AND UINT64_MASK = take_bit 64 n" by (simp only: take_bit_eq_mask)
  then show ?thesis by (simp add: uint_word_of_int take_bit_eq_mod)
qed

lemma uint_xorshift: "uint w XOR drop_bit k (uint w) = uint (xorshift k w)"
  using uint_lt2p [of w]
  by (simp add: xorshift_def unsigned_xor_eq unsigned_drop_bit_eq take_bit_int_eq_self)

lemma mix64_word: "mix64 n = uint (mixw (word_of_int n))"
proof -
  have times: "(uint w * c) AND UINT64_MASK = uint (w * word_of_int c)" for w :: "64 word" and c
    by (simp add: mask_word)
  have same: "uint w AND UINT64_MASK = uint w" for w :: "64 word" by (simp add: mask_word)
  show ?thesis
    unfolding mix64_def Let_def mask_word [of n] uint_xorshift times same
    by (simp add: mixw_def uint_xorshift times same)
qed


lemma mix64_range: "0 \<le> mix64 n \<and> mix64 n < 2 ^ 64"
  using uint_lt2p [of "mixw (word_of_int n)"] by (simp add: mix64_word)

lemma mix64_inject: "mix64 (n XOR a) = mix64 (n XOR b) \<Longrightarrow> (word_of_int a :: 64 word) = word_of_int b"
proof -
  assume "mix64 (n XOR a) = mix64 (n XOR b)"
  then have "mixw (word_of_int (n XOR a)) = mixw (word_of_int (n XOR b))"
    unfolding mix64_word by (simp only: word_uint_eq_iff)
  then have "(word_of_int (n XOR a) :: 64 word) = word_of_int (n XOR b)" by (rule mixw_inject)
  then have "word_of_int n XOR (word_of_int a :: 64 word) = word_of_int n XOR word_of_int b"
    by (simp only: of_int_xor_eq)
  then have "word_of_int n XOR (word_of_int n XOR (word_of_int a :: 64 word))
      = word_of_int n XOR (word_of_int n XOR word_of_int b)" by simp
  then show ?thesis by (simp add: xor.assoc [symmetric])
qed

lemma dataset_xors_differ: "distinct (map (\<lambda>x. word_of_int x :: 64 word) (dict_values DATASET_SEED_XORS))"
  by (simp add: DATASET_SEED_XORS_def)

lemma expected_seeds_distinct: "distinct (dict_values (expected_dataset_seeds n))"
proof -
  have "dict_values (expected_dataset_seeds n) = map (\<lambda>x. mix64 (n XOR x)) (dict_values DATASET_SEED_XORS)"
    by (simp add: expected_dataset_seeds_def case_prod_beta comp_def)
  then show ?thesis
    using dataset_xors_differ by (auto simp: distinct_map inj_on_def dest: mix64_inject)
qed

lemma expected_seeds_keys: "dict_keys (expected_dataset_seeds n) = DATASET_KEYS"
  by (simp add: expected_dataset_seeds_def DATASET_SEED_XORS_def DATASET_KEYS_def)

section \<open>Accepted seeds\<close>

lemma dict_eq_get:
  assumes "dict_eq d e" and "set (dict_keys d) = set (dict_keys e)"
  shows "dict_get d k = dict_get e k"
proof (cases "dict_get d k")
  case None
  then show ?thesis using assms(2) by (metis map_of_eq_None_iff set_map)
next
  case (Some v)
  then have "(k, v) \<in> set d" by (rule map_of_SomeD)
  then have "dict_get e k = Some v" using assms(1) by (auto simp: dict_eq_def list_all_iff)
  with Some show ?thesis by simp
qed

lemma map_res_dict:
  "map_res (\<lambda>(k, x). bind_res (f k x) (\<lambda>n. Inr (k, n))) d = Inr e \<Longrightarrow>
     dict_keys e = dict_keys d \<and> (\<forall>k n. dict_get e k = Some n \<longrightarrow>
       (\<exists>x. dict_get d k = Some x \<and> f k x = Inr n))"
proof (induction d arbitrary: e)
  case Nil
  then show ?case by simp
next
  case (Cons p d)
  obtain k x where [simp]: "p = (k, x)" by fastforce
  from Cons.prems obtain n e' where n: "f k x = Inr n" and e: "e = (k, n) # e'"
    and e': "map_res (\<lambda>(k, x). bind_res (f k x) (\<lambda>n. Inr (k, n))) d = Inr e'"
    by (auto simp: bind_res_eq_Inr)
  from Cons.IH [OF e'] show ?case by (auto simp: e n)
qed

lemma accepted_dataset_seeds:
  assumes "validate_dataset_seeds v context trial_seed = Inr ()" and "(name, x) \<in> set DATASET_SEED_XORS"
  obtains d s where "v = JObj d" and "dict_get d name = Some s"
    and "validate_u64_hex s (context @ ''.dataset_seeds.'' @ name) = Inr (mix64 (trial_seed XOR x))"
proof -
  from assms(1) obtain d parsed where v: "v = JObj d" and keys: "set (dict_keys d) = set DATASET_KEYS"
    and parsed: "map_res (\<lambda>(name, x). bind_res (validate_u64_hex x (context @ ''.dataset_seeds.'' @ name)) (\<lambda>n.
       Inr (name, n))) d = Inr parsed"
    and eq: "dict_eq parsed (expected_dataset_seeds trial_seed)"
    by (auto simp: validate_dataset_seeds_def bind_res_eq_Inr)
  note read = map_res_dict [OF parsed]
  have "dict_get parsed name = dict_get (expected_dataset_seeds trial_seed) name"
    by (rule dict_eq_get [OF eq]) (use read keys in \<open>simp add: expected_seeds_keys\<close>)
  also have "\<dots> = Some (mix64 (trial_seed XOR x))"
    using assms(2) by (auto simp: expected_dataset_seeds_def DATASET_SEED_XORS_def)
  finally show thesis using read v that by blast
qed

end
