(* ===== verification/RavelMetrics.thy ===== *)
theory RavelMetrics
  imports RavelTrial
begin

text \<open>
  \<open>derive_trial_metrics\<close>, \<open>_apply_gate\<close>, \<open>_aggregate\<close> and \<open>_pareto_relation\<close> of the RAVEL 0.5
  evaluator.  A metric is a boolean, an integer or a float: a \<open>json\<close> value, as gates compare it
  with a threshold from the preregistration.
\<close>

definition headroom_improvement :: "pyfloat \<Rightarrow> pyfloat \<Rightarrow> pyfloat res" where
  "headroom_improvement adapted static =
     (let headroom = Fin 1 - static in
      if headroom \<le> Fin 0 then Inr (if static \<le> adapted then Fin 0 else adapted - static)
      else fdiv (adapted - static) headroom)"

section \<open>Variants\<close>

record variant_metrics =
  vm_drift_accuracy :: pyfloat
  vm_retention_accuracy :: pyfloat
  vm_reconstruction_rmse :: pyfloat
  vm_prediction_rmse :: pyfloat
  vm_transition_accuracy :: pyfloat
  vm_transition_support_rate :: pyfloat
  vm_exact_state_rate :: pyfloat
  vm_belief_set_rate :: pyfloat
  vm_expert_evaluations :: int
  vm_training_evaluations :: int
  vm_expert_count :: int
  vm_checkpoint_size_bytes :: int

definition derive_variant :: "variant_record \<Rightarrow> variant_metrics res" where
  "derive_variant variant =
     bind_res (derive_eval (va_drift_holdout variant)) (\<lambda>drift.
     bind_res (derive_eval (va_retention_holdout variant)) (\<lambda>retention.
     bind_res (derive_plan (va_planning variant)) (\<lambda>plan.
       Inr \<lparr>vm_drift_accuracy = em_accuracy drift, vm_retention_accuracy = em_accuracy retention,
            vm_reconstruction_rmse = em_reconstruction_rmse drift,
            vm_prediction_rmse = em_prediction_rmse drift,
            vm_transition_accuracy = em_transition_accuracy drift,
            vm_transition_support_rate = em_transition_support_rate drift,
            vm_exact_state_rate = pm_exact_state_rate plan,
            vm_belief_set_rate = pm_belief_set_rate plan,
            vm_expert_evaluations = em_expert_evaluations drift,
            vm_training_evaluations = va_training_evaluations variant,
            vm_expert_count = va_expert_count variant,
            vm_checkpoint_size_bytes = va_checkpoint_size_bytes variant\<rparr>)))"

definition derive_variants ::
  "(string, variant_record) dict \<Rightarrow> (string, variant_metrics) dict res" where
  "derive_variants comparisons =
     map_res (\<lambda>(name, variant). bind_res (derive_variant variant) (\<lambda>m. Inr (name, m))) comparisons"

section \<open>Metrics of a trial\<close>

text \<open>The five evaluation views and the planning view of a candidate.\<close>

record candidate_views =
  cv_base :: eval_metrics
  cv_adaptation :: eval_metrics
  cv_static :: eval_metrics
  cv_adapted :: eval_metrics
  cv_retention :: eval_metrics
  cv_planning :: plan_metrics

definition derive_views :: "candidate_record \<Rightarrow> candidate_views res" where
  "derive_views candidate =
     bind_res (derive_eval (ca_base_holdout candidate)) (\<lambda>base.
     bind_res (derive_eval (ca_adaptation_training candidate)) (\<lambda>adaptation.
     bind_res (derive_eval (ca_static_model_drift_holdout candidate)) (\<lambda>static.
     bind_res (derive_eval (ca_adapted_model_drift_holdout candidate)) (\<lambda>adapted.
     bind_res (derive_eval (ca_base_holdout_retention candidate)) (\<lambda>retention.
     bind_res (derive_plan (ca_planning candidate)) (\<lambda>planning.
       Inr \<lparr>cv_base = base, cv_adaptation = adaptation, cv_static = static,
            cv_adapted = adapted, cv_retention = retention, cv_planning = planning\<rparr>))))))"

text \<open>\<open>(a - b) / max(c, 1e-12)\<close>\<close>

definition relative_change :: "pyfloat \<Rightarrow> pyfloat \<Rightarrow> pyfloat \<Rightarrow> pyfloat res" where
  "relative_change a b c = fdiv (a - b) (py_max c (fl (1 / 10 ^ 12)))"

definition own_metrics :: "trial_record \<Rightarrow> candidate_views \<Rightarrow> (string, json) dict res" where
  "own_metrics record v =
     (let candidate = tr_candidate record; integrity = tr_integrity record;
          replay = ca_replay candidate; topology = ca_topology candidate;
          base = cv_base v; static = cv_static v; adapted = cv_adapted v; retention = cv_retention v;
          planning = cv_planning v
      in
      bind_res (headroom_improvement (em_accuracy adapted) (em_accuracy static)) (\<lambda>improvement.
      bind_res (relative_change (em_reconstruction_rmse retention) (em_reconstruction_rmse base)
        (em_reconstruction_rmse base)) (\<lambda>degradation.
      bind_res (relative_change (em_reconstruction_rmse static) (em_reconstruction_rmse adapted)
        (em_reconstruction_rmse static)) (\<lambda>reconstruction_improvement.
      bind_res (relative_change (em_prediction_rmse static) (em_prediction_rmse adapted)
        (em_prediction_rmse static)) (\<lambda>prediction_improvement.
      Inr
       [(''adaptation_completed'', JBool (ca_adaptation_completed candidate)),
        (''base_accuracy'', JFloat (em_accuracy base)),
        (''adaptation_training_accuracy'', JFloat (em_accuracy (cv_adaptation v))),
        (''static_drift_accuracy'', JFloat (em_accuracy static)),
        (''adapted_drift_accuracy'', JFloat (em_accuracy adapted)),
        (''retention_accuracy'', JFloat (em_accuracy retention)),
        (''retention_accuracy_delta_from_base'', JFloat (em_accuracy retention - em_accuracy base)),
        (''drift_accuracy_delta'', JFloat (em_accuracy adapted - em_accuracy static)),
        (''headroom_normalized_accuracy_improvement'', JFloat improvement),
        (''base_reconstruction_rmse'', JFloat (em_reconstruction_rmse base)),
        (''static_reconstruction_rmse'', JFloat (em_reconstruction_rmse static)),
        (''adapted_reconstruction_rmse'', JFloat (em_reconstruction_rmse adapted)),
        (''retention_reconstruction_rmse'', JFloat (em_reconstruction_rmse retention)),
        (''retention_reconstruction_degradation_ratio'', JFloat degradation),
        (''reconstruction_improvement_ratio'', JFloat reconstruction_improvement),
        (''base_prediction_rmse'', JFloat (em_prediction_rmse base)),
        (''static_prediction_rmse'', JFloat (em_prediction_rmse static)),
        (''adapted_prediction_rmse'', JFloat (em_prediction_rmse adapted)),
        (''retention_prediction_rmse'', JFloat (em_prediction_rmse retention)),
        (''prediction_improvement_ratio'', JFloat prediction_improvement),
        (''retention_prediction_degradation'',
           JFloat (em_prediction_rmse retention - em_prediction_rmse base)),
        (''static_transition_accuracy'', JFloat (em_transition_accuracy static)),
        (''adapted_transition_accuracy'', JFloat (em_transition_accuracy adapted)),
        (''transition_accuracy_delta'',
           JFloat (em_transition_accuracy adapted - em_transition_accuracy static)),
        (''retention_transition_accuracy_delta'',
           JFloat (em_transition_accuracy retention - em_transition_accuracy base)),
        (''transition_support_rate'', JFloat (em_transition_support_rate adapted)),
        (''path_found_rate'', JFloat (pm_path_found_rate planning)),
        (''exact_state_rate'', JFloat (pm_exact_state_rate planning)),
        (''belief_set_rate'', JFloat (pm_belief_set_rate planning)),
        (''routing_mismatches'', JInt (sum_list (map em_routing_mismatches
           [base, cv_adaptation v, static, adapted, retention]))),
        (''expert_count'', JInt (ca_expert_count candidate)),
        (''accepted_births'', JInt (to_accepted_births topology)),
        (''accepted_retirements'', JInt (to_accepted_retirements topology)),
        (''training_evaluations'', JInt (ca_base_training_evaluations candidate
           + ca_adaptation_training_evaluations candidate)),
        (''inference_expert_evaluations'', JInt (em_expert_evaluations adapted)),
        (''checkpoint_size_bytes'', JInt (ca_checkpoint_size_bytes candidate)),
        (''replay_selected'', JInt (re_selected replay)),
        (''replay_unique'', JInt (re_unique replay)),
        (''replay_labels_covered'', JInt (re_labels_covered replay)),
        (''replay_actions_covered'', JInt (re_actions_covered replay)),
        (''replay_states_covered'', JInt (re_states_covered replay)),
        (''replay_experts_covered'', JInt (re_assigned_experts_covered replay)),
        (''replay_transition_pairs_covered'', JInt (re_transition_pairs_covered replay)),
        (''checkpoint_roundtrip'', JBool (ig_checkpoint_roundtrip integrity)),
        (''checkpoint_identity'', JBool (ig_checkpoint_identity_match integrity)),
        (''checkpoint_behavior'', JBool (ig_checkpoint_behavior_match integrity)),
        (''checkpoint_mutations'', JBool (list_all id (dict_values (ig_checkpoint_mutations integrity)))),
        (''lineage_invariants'', JBool (list_all id (dict_values (ig_lineage_invariants integrity)))),
        (''unsupported_graph_edge_violations'',
           JInt (ig_unsupported_graph_edge_violations integrity))])))))"

text \<open>\<open>float(a) / max(float(b), 1.0)\<close> of integers.\<close>

definition evaluation_ratio :: "int \<Rightarrow> int \<Rightarrow> pyfloat res" where
  "evaluation_ratio a b =
     bind_res (float_of_int a) (\<lambda>x. bind_res (float_of_int b) (\<lambda>y. fdiv x (py_max y (Fin 1))))"

definition comparison_metrics ::
  "trial_record \<Rightarrow> candidate_views \<Rightarrow> (string, variant_metrics) dict \<Rightarrow> (string, json) dict res" where
  "comparison_metrics record v variants =
     (let candidate = tr_candidate record; topology = ca_topology candidate;
          adapted = cv_adapted v; retention = cv_retention v; planning = cv_planning v;
          at_name = (\<lambda>name. dict_at name variants name)
      in
      bind_res (at_name ''no_adaptation_static'') (\<lambda>static_comparison.
      bind_res (at_name ''matched_compute_fixed_topology'') (\<lambda>matched_compute.
      bind_res (at_name ''ravel_no_birth_same_replay_iterations'') (\<lambda>no_birth.
      bind_res (at_name ''ravel_without_retirement_matched_work'') (\<lambda>no_retirement.
      bind_res (at_name ''periodic_replay_policy'') (\<lambda>periodic_replay.
      bind_res (at_name ''flat_64_expert_complete_scan'') (\<lambda>flat_complete.
      bind_res (evaluation_ratio (ca_base_training_evaluations candidate
        + ca_adaptation_training_evaluations candidate)
        (vm_training_evaluations matched_compute)) (\<lambda>training_ratio.
      bind_res (evaluation_ratio (em_expert_evaluations adapted)
        (vm_expert_evaluations flat_complete)) (\<lambda>inference_ratio.
      Inr
       [(''static_exact_state_rate'', JFloat (vm_exact_state_rate static_comparison)),
        (''static_belief_set_rate'', JFloat (vm_belief_set_rate static_comparison)),
        (''exact_state_rate_delta'',
           JFloat (pm_exact_state_rate planning - vm_exact_state_rate static_comparison)),
        (''belief_set_rate_delta'',
           JFloat (pm_belief_set_rate planning - vm_belief_set_rate static_comparison)),
        (''matched_compute_drift_accuracy_delta'',
           JFloat (em_accuracy adapted - vm_drift_accuracy matched_compute)),
        (''matched_compute_retention_delta'',
           JFloat (em_accuracy retention - vm_retention_accuracy matched_compute)),
        (''matched_compute_training_evaluation_ratio'', JFloat training_ratio),
        (''no_birth_drift_accuracy_delta'', JFloat (em_accuracy adapted - vm_drift_accuracy no_birth)),
        (''no_retirement_drift_accuracy_delta'',
           JFloat (em_accuracy adapted - vm_drift_accuracy no_retirement)),
        (''balanced_vs_periodic_drift_accuracy_delta'',
           JFloat (em_accuracy adapted - vm_drift_accuracy periodic_replay)),
        (''balanced_vs_periodic_retention_delta'',
           JFloat (em_accuracy retention - vm_retention_accuracy periodic_replay)),
        (''inference_evaluation_ratio_vs_flat64'', JFloat inference_ratio),
        (''topology_objective_gain_q20'', JInt (to_objective_after_q20 topology
           - to_objective_before_q20 topology))])))))))))"

definition derive_trial_metrics :: "trial_record \<Rightarrow> (string, json) dict res" where
  "derive_trial_metrics record =
     bind_res (derive_views (tr_candidate record)) (\<lambda>views.
     bind_res (own_metrics record views) (\<lambda>own.
     bind_res (derive_variants (tr_comparisons record)) (\<lambda>variants.
     bind_res (comparison_metrics record views variants) (\<lambda>compared.
     let metrics = own @ compared in
     if list_all (\<lambda>(name, v). \<not> infinite_float v) metrics then Inr metrics
     else Inl (EvaluationError ''trial derived non-finite metric'')))))"

section \<open>Gates\<close>

text \<open>\<open>a >= b\<close> and \<open>a <= b\<close> of a metric and a threshold: numbers of any type, exactly.\<close>

definition compare_numbers :: "(pyfloat \<Rightarrow> pyfloat \<Rightarrow> bool) \<Rightarrow> json \<Rightarrow> json \<Rightarrow> bool res" where
  "compare_numbers cmp a b =
     (case (num_val a, num_val b) of
        (Some x, Some y) \<Rightarrow> Inr (cmp x y)
      | _ \<Rightarrow> Inl (TypeError ''comparison not supported''))"

record gate_result =
  gt_gate :: gate
  gt_observed :: json
  gt_pass :: bool

definition gate_passes :: "string \<Rightarrow> json \<Rightarrow> json \<Rightarrow> bool res" where
  "gate_passes operator observed expected =
     (if operator = ''ge'' then compare_numbers (\<lambda>x y. y \<le> x) observed expected
      else if operator = ''le'' then compare_numbers (\<le>) observed expected
      else Inr (json_eq observed expected))"

definition apply_gate :: "(string, json) dict \<Rightarrow> gate \<Rightarrow> gate_result res" where
  "apply_gate metrics g =
     (if \<not> hashable (ga_metric g) then Inl (TypeError ''unhashable type'') else
      case (case ga_metric g of JStr name \<Rightarrow> dict_get metrics name | _ \<Rightarrow> None) of
        None \<Rightarrow> Inl (EvaluationError (''gate references unknown metric: '' @ py_str (ga_metric g)))
      | Some observed \<Rightarrow>
          bind_res (gate_passes (ga_operator g) observed (ga_value g)) (\<lambda>passed.
            Inr \<lparr>gt_gate = g, gt_observed = observed, gt_pass = passed\<rparr>))"

section \<open>Aggregates\<close>

record series_summary =
  ss_minimum :: pyfloat
  ss_median :: pyfloat
  ss_maximum :: pyfloat
  ss_arithmetic_mean :: pyfloat
  ss_population_standard_deviation :: pyfloat

fun min_of :: "('a :: ord) list \<Rightarrow> 'a res" where
  "min_of [] = Inl (ValueError ''min() iterable argument is empty'')"
| "min_of (x # xs) = Inr (foldl py_min x xs)"

fun max_of :: "('a :: ord) list \<Rightarrow> 'a res" where
  "max_of [] = Inl (ValueError ''max() iterable argument is empty'')"
| "max_of (x # xs) = Inr (foldl py_max x xs)"

definition aggregate_series :: "json list \<Rightarrow> series_summary res" where
  "aggregate_series values =
     bind_res (map_res to_float values) (\<lambda>numeric.
     bind_res (min_of numeric) (\<lambda>minimum.
     bind_res (median numeric) (\<lambda>med.
     bind_res (max_of numeric) (\<lambda>maximum.
     bind_res (fmean numeric) (\<lambda>average.
     bind_res (pstdev numeric) (\<lambda>deviation.
       Inr \<lparr>ss_minimum = minimum, ss_median = med, ss_maximum = maximum,
            ss_arithmetic_mean = average, ss_population_standard_deviation = deviation\<rparr>))))))"

section \<open>Pareto relation\<close>

record quality_metrics =
  qm_drift_accuracy :: pyfloat
  qm_retention_accuracy :: pyfloat
  qm_reconstruction_rmse :: pyfloat
  qm_prediction_rmse :: pyfloat
  qm_planning_exact_state_rate :: pyfloat
  qm_planning_belief_set_rate :: pyfloat
  qm_expert_evaluations :: int
  qm_training_evaluations :: int
  qm_expert_count :: int
  qm_checkpoint_size_bytes :: int

definition maximize :: "(quality_metrics \<Rightarrow> pyfloat) list" where
  "maximize = [qm_drift_accuracy, qm_retention_accuracy, qm_planning_exact_state_rate,
     qm_planning_belief_set_rate]"

definition minimize_floats :: "(quality_metrics \<Rightarrow> pyfloat) list" where
  "minimize_floats = [qm_reconstruction_rmse, qm_prediction_rmse]"

definition minimize_ints :: "(quality_metrics \<Rightarrow> int) list" where
  "minimize_ints = [qm_expert_evaluations, qm_training_evaluations, qm_expert_count,
     qm_checkpoint_size_bytes]"

text \<open>One side is better than the other in at least one metric.\<close>

definition better_somewhere :: "quality_metrics \<Rightarrow> quality_metrics \<Rightarrow> bool" where
  "better_somewhere a b \<longleftrightarrow>
     list_ex (\<lambda>m. m b < m a) maximize \<or> list_ex (\<lambda>m. m a < m b) minimize_floats \<or>
     list_ex (\<lambda>m. m a < m b) minimize_ints"

definition pareto_relation :: "quality_metrics \<Rightarrow> quality_metrics \<Rightarrow> string" where
  "pareto_relation candidate variant =
     (let candidate_better = better_somewhere candidate variant;
          variant_better = better_somewhere variant candidate
      in if candidate_better \<and> \<not> variant_better then ''candidate_dominates''
         else if variant_better \<and> \<not> candidate_better then ''variant_dominates''
         else if \<not> candidate_better \<and> \<not> variant_better then ''equivalent''
         else ''mixed'')"

end
