(* ===== verification/RavelEvaluate.thy ===== *)
theory RavelEvaluate
  imports RavelMetrics
begin

text \<open>
  \<open>evaluate\<close> of the RAVEL 0.5 evaluator: every raw trial is validated, its metrics derived and
  gated, and the global development result decided by the preregistered rule.
\<close>

record variant_evidence =
  ve_metrics :: quality_metrics
  ve_delta :: quality_metrics
  ve_pareto_relation :: string

record trial_evidence =
  te_trial_id :: string
  te_regime :: string
  te_seed :: string
  te_metrics :: "(string, json) dict"
  te_gates :: "gate_result list"
  te_pass :: bool
  te_comparisons :: "(string, variant_evidence) dict"

definition candidate_quality :: "trial_record \<Rightarrow> candidate_views \<Rightarrow> quality_metrics" where
  "candidate_quality record v =
     \<lparr>qm_drift_accuracy = em_accuracy (cv_adapted v),
      qm_retention_accuracy = em_accuracy (cv_retention v),
      qm_reconstruction_rmse = em_reconstruction_rmse (cv_adapted v),
      qm_prediction_rmse = em_prediction_rmse (cv_adapted v),
      qm_planning_exact_state_rate = pm_exact_state_rate (cv_planning v),
      qm_planning_belief_set_rate = pm_belief_set_rate (cv_planning v),
      qm_expert_evaluations = em_expert_evaluations (cv_adapted v),
      qm_training_evaluations = ca_base_training_evaluations (tr_candidate record)
        + ca_adaptation_training_evaluations (tr_candidate record),
      qm_expert_count = ca_expert_count (tr_candidate record),
      qm_checkpoint_size_bytes = ca_checkpoint_size_bytes (tr_candidate record)\<rparr>"

definition variant_quality :: "variant_metrics \<Rightarrow> quality_metrics" where
  "variant_quality m =
     \<lparr>qm_drift_accuracy = vm_drift_accuracy m, qm_retention_accuracy = vm_retention_accuracy m,
      qm_reconstruction_rmse = vm_reconstruction_rmse m, qm_prediction_rmse = vm_prediction_rmse m,
      qm_planning_exact_state_rate = vm_exact_state_rate m,
      qm_planning_belief_set_rate = vm_belief_set_rate m,
      qm_expert_evaluations = vm_expert_evaluations m,
      qm_training_evaluations = vm_training_evaluations m, qm_expert_count = vm_expert_count m,
      qm_checkpoint_size_bytes = vm_checkpoint_size_bytes m\<rparr>"

definition quality_delta :: "quality_metrics \<Rightarrow> quality_metrics \<Rightarrow> quality_metrics" where
  "quality_delta a b =
     \<lparr>qm_drift_accuracy = qm_drift_accuracy a - qm_drift_accuracy b,
      qm_retention_accuracy = qm_retention_accuracy a - qm_retention_accuracy b,
      qm_reconstruction_rmse = qm_reconstruction_rmse a - qm_reconstruction_rmse b,
      qm_prediction_rmse = qm_prediction_rmse a - qm_prediction_rmse b,
      qm_planning_exact_state_rate =
        qm_planning_exact_state_rate a - qm_planning_exact_state_rate b,
      qm_planning_belief_set_rate = qm_planning_belief_set_rate a - qm_planning_belief_set_rate b,
      qm_expert_evaluations = qm_expert_evaluations a - qm_expert_evaluations b,
      qm_training_evaluations = qm_training_evaluations a - qm_training_evaluations b,
      qm_expert_count = qm_expert_count a - qm_expert_count b,
      qm_checkpoint_size_bytes = qm_checkpoint_size_bytes a - qm_checkpoint_size_bytes b\<rparr>"

definition compare_variants ::
  "trial_record \<Rightarrow> candidate_views \<Rightarrow> (string, variant_evidence) dict res" where
  "compare_variants record v =
     bind_res (derive_variants (tr_comparisons record)) (\<lambda>variants.
       Inr (map (\<lambda>(name, m).
         let own = candidate_quality record v; other = variant_quality m
         in (name, \<lparr>ve_metrics = other, ve_delta = quality_delta own other,
                    ve_pareto_relation = pareto_relation own other\<rparr>)) variants))"

text \<open>The body of the loop over the trials, up to the counters.\<close>

definition evaluate_trial :: "preregistration \<Rightarrow> json \<Rightarrow> trial_identity \<Rightarrow> trial_evidence res" where
  "evaluate_trial prereg raw expected =
     bind_res (validate_trial raw expected prereg) (\<lambda>record.
     bind_res (derive_trial_metrics record) (\<lambda>metrics.
     bind_res (dict_at (tr_regime record) (pg_regime_gates prereg) (tr_regime record)) (\<lambda>regime_gates.
     bind_res (map_res (apply_gate metrics) (pg_common_gates prereg @ regime_gates)) (\<lambda>gates.
     bind_res (bind_res (derive_views (tr_candidate record)) (compare_variants record)) (\<lambda>comparisons.
       Inr \<lparr>te_trial_id = tr_trial_id record, te_regime = tr_regime record,
            te_seed = tr_seed record, te_metrics = metrics, te_gates = gates,
            te_pass = list_all gt_pass gates, te_comparisons = comparisons\<rparr>)))))"

text \<open>The variables of the loop.\<close>

record evaluation_state =
  es_trials :: "trial_evidence list"
  es_series :: "(string, json list) dict"
  es_passing :: int
  es_passing_by_regime :: "(string, int) dict"

definition add_series ::
  "(string, json list) dict \<Rightarrow> string \<times> json \<Rightarrow> (string, json list) dict" where
  "add_series series = (\<lambda>(name, v).
     if is_bool v then series
     else dict_set name ((case dict_get series name of None \<Rightarrow> [] | Some vs \<Rightarrow> vs) @ [v]) series)"

definition evaluation_step ::
  "preregistration \<Rightarrow> evaluation_state \<Rightarrow> json \<times> trial_identity \<Rightarrow> evaluation_state res" where
  "evaluation_step prereg st = (\<lambda>(raw, expected).
     bind_res (evaluate_trial prereg raw expected) (\<lambda>evidence.
     bind_res (dict_at (te_regime evidence) (es_passing_by_regime st) (te_regime evidence)) (\<lambda>count.
       Inr \<lparr>es_trials = es_trials st @ [evidence],
            es_series = foldl add_series (es_series st) (te_metrics evidence),
            es_passing = es_passing st + of_bool (te_pass evidence),
            es_passing_by_regime = dict_set (te_regime evidence)
              (count + of_bool (te_pass evidence)) (es_passing_by_regime st)\<rparr>)))"

record ravel_evidence =
  rv_study_id :: string
  rv_preregistration_sha256 :: string
  rv_declared :: int
  rv_passing :: int
  rv_failing :: int
  rv_minimum_passing_trials :: int
  rv_passing_by_regime :: "(string, int) dict"
  rv_minimum_passing_trials_per_regime :: int
  rv_trials :: "trial_evidence list"
  rv_aggregates :: "(string, series_summary) dict"
  rv_development_pass :: bool
  rv_formal_mncs_status :: string
  rv_formal_mncds_status :: string
  rv_promotion_authorized :: bool

definition RAW_KEYS :: "string list" where
  "RAW_KEYS = [''schema'', ''preregistration'', ''preregistration_sha256'', ''trials'',
     ''self_tests_sha256'']"

definition validate_raw :: "json \<Rightarrow> preregistration \<Rightarrow> json list res" where
  "validate_raw raw prereg =
     bind_res (require_object raw ''raw'') (\<lambda>root.
     bind_res (require_exact_keys root RAW_KEYS ''raw'') (\<lambda>_.
     bind_res (obj_at root ''schema'') (\<lambda>schema.
     bind_res (refuse (schema \<noteq> JStr ''ravel-raw-observations/0.5'')
       ''unsupported aggregate raw schema'') (\<lambda>_.
     bind_res (obj_at root ''preregistration'') (\<lambda>name.
     bind_res (refuse (name \<noteq> JStr ''ravel-0.5-preregistration.json'')
       ''raw evidence names unexpected preregistration authority'') (\<lambda>_.
     bind_res (sha256_json (pg_payload prereg)) (\<lambda>digest.
     bind_res (obj_at root ''preregistration_sha256'') (\<lambda>declared.
     bind_res (refuse (declared \<noteq> JStr digest)
       ''raw evidence preregistration digest mismatch'') (\<lambda>_.
     bind_res (bind_res (obj_at root ''self_tests_sha256'') (\<lambda>v.
       validate_hex v ''raw.self_tests_sha256'' 64)) (\<lambda>_.
     bind_res (obj_at root ''trials'') (\<lambda>trials.
       list_of_length trials (int (length (pg_trials prereg))) ''raw trial count mismatch'')))))))))))"

definition start_evaluation :: "preregistration \<Rightarrow> evaluation_state" where
  "start_evaluation prereg =
     \<lparr>es_trials = [], es_series = [], es_passing = 0,
      es_passing_by_regime = map (\<lambda>(regime, _). (regime, 0)) (pg_regime_gates prereg)\<rparr>"

definition global_pass :: "preregistration \<Rightarrow> evaluation_state \<Rightarrow> bool" where
  "global_pass prereg st \<longleftrightarrow>
     gr_minimum_passing_trials (pg_global_pass_rule prereg) \<le> es_passing st \<and>
     list_all (\<lambda>count. gr_minimum_passing_trials_per_regime (pg_global_pass_rule prereg) \<le> count)
       (dict_values (es_passing_by_regime st))"

definition evaluate :: "json \<Rightarrow> json \<Rightarrow> ravel_evidence res" where
  "evaluate raw prereg_json =
     bind_res (validate_preregistration prereg_json) (\<lambda>prereg.
     bind_res (validate_raw raw prereg) (\<lambda>trials.
     bind_res (fold_res (evaluation_step prereg) (start_evaluation prereg)
       (zip trials (pg_trials prereg))) (\<lambda>st.
     bind_res (sha256_json prereg_json) (\<lambda>digest.
     bind_res (map_res (\<lambda>(name, vs). bind_res (aggregate_series vs) (\<lambda>s. Inr (name, s)))
       (es_series st)) (\<lambda>aggregates.
       Inr \<lparr>rv_study_id = pg_study_id prereg, rv_preregistration_sha256 = digest,
            rv_declared = int (length (es_trials st)), rv_passing = es_passing st,
            rv_failing = int (length (es_trials st)) - es_passing st,
            rv_minimum_passing_trials =
              gr_minimum_passing_trials (pg_global_pass_rule prereg),
            rv_passing_by_regime = es_passing_by_regime st,
            rv_minimum_passing_trials_per_regime =
              gr_minimum_passing_trials_per_regime (pg_global_pass_rule prereg),
            rv_trials = es_trials st, rv_aggregates = aggregates,
            rv_development_pass = global_pass prereg st,
            rv_formal_mncs_status = ''UNKNOWN'', rv_formal_mncds_status = ''UNKNOWN'',
            rv_promotion_authorized = False\<rparr>)))))"

end
