(* ===== verification/RavelProofs.thy ===== *)
theory RavelProofs
  imports RavelSeeds RavelEvaluate
begin

text \<open>
  Lemmas behind the properties of the RAVEL 0.5 evaluator: what the validators of the records
  accept and what the metrics derived from an accepted record can be, what a scanned list of trials
  satisfies, and what the evaluation loop counts.
\<close>

section \<open>Evaluation records\<close>

definition eval_ok :: "eval_record \<Rightarrow> bool" where
  "eval_ok r \<longleftrightarrow>
     0 \<le> ev_correct r \<and> ev_correct r \<le> ev_samples r \<and> 0 \<le> ev_rejected r \<and>
     0 \<le> ev_prediction_samples r \<and> ev_prediction_samples r \<le> ev_samples r \<and>
     0 \<le> ev_transition_correct r \<and> ev_transition_correct r \<le> ev_transition_supported r \<and>
     ev_transition_supported r + ev_transition_unknown r = ev_samples r \<and>
     0 \<le> ev_transition_unknown r \<and>
     0 \<le> ev_reconstruction_sse_q20 r \<and> 0 \<le> ev_prediction_sse_q20 r"

lemma int_at_ok [ravel_checks]: "int_at d context key = Inr n \<longleftrightarrow> dict_get d key = Some (JInt n) \<and> 0 \<le> n"
  by (auto simp: int_at_def bind_res_eq_Inr)

lemma hex_at_ok [ravel_checks]:
  "hex_at d context n key = Inr s \<longleftrightarrow>
     dict_get d key = Some (JStr s) \<and> s \<noteq> [] \<and> length s = n \<and> list_all is_hex_digit s"
  by (auto simp: hex_at_def bind_res_eq_Inr)

lemma validate_eval_ok: "validate_eval v context = Inr r \<Longrightarrow> eval_ok r"
  unfolding validate_eval_def bind_res_eq_Inr
  by (elim exE conjE) (auto simp: ravel_checks eval_ok_def)

lemma int_div_rate:
  assumes "int_div a b = Inr x" and "0 \<le> a" and "a \<le> b"
  shows "\<exists>q. x = Fin q \<and> 0 \<le> q \<and> q \<le> 1"
proof -
  from int_div_eq_Inr [OF assms(1)] have x: "b \<noteq> 0" "x = Fin (rnd (of_int a / of_int b))" by auto
  then have "0 < b" using assms(2,3) by simp
  then have "0 \<le> (of_int a / of_int b :: rat)" "(of_int a / of_int b :: rat) \<le> 1"
    using assms(2,3) by simp_all
  then show ?thesis using x(2) by (auto intro!: dbl.R_nonneg dbl.R_le_1)
qed

lemma float_of_int_value: "float_of_int n = Inr x \<Longrightarrow> x = Fin (rnd (of_int n))"
  by (rule fl_cases [of "of_int n"]) (auto simp: float_of_int_def)

lemma rmse_nonneg:
  assumes "rmse sse n = Inr x" and "0 \<le> sse" and "0 \<le> n"
  shows "x = PInf \<or> (\<exists>q. x = Fin q \<and> 0 \<le> q)"
proof -
  from assms(1) obtain y z w where y: "int_div sse Q20_SCALE = Inr y" and z: "float_of_int (n * DIMENSIONS) = Inr z"
    and w: "fdiv y z = Inr w" and x: "fsqrt w = Inr x"
    by (auto simp: rmse_def bind_res_eq_Inr)
  have "y = Fin (rnd (of_int sse / of_int Q20_SCALE))" "z = Fin (rnd (of_int (n * DIMENSIONS)))"
    using int_div_eq_Inr [OF y] float_of_int_value [OF z] by simp_all
  moreover have "0 \<le> rnd (of_int sse / of_int Q20_SCALE)" "0 \<le> rnd (of_int (n * DIMENSIONS))"
    using assms(2,3) by (auto intro!: dbl.R_nonneg simp: Q20_SCALE_def DIMENSIONS_def)
  moreover from calculation(1,2)
  have "w = fl (rnd (of_int sse / of_int Q20_SCALE) / rnd (of_int (n * DIMENSIONS)))"
    using w by (auto split: if_splits)
  ultimately obtain p where p: "0 \<le> p" "w = fl p" by (metis divide_nonneg_nonneg)
  show ?thesis
  proof (rule fl_cases [of p])
    assume "fl p = Fin (rnd p)"
    then show ?thesis using x p rnd_sqrt_nonneg [of "rnd p"] dbl.R_nonneg [of p] by (auto split: if_splits)
  qed (use x p in auto)
qed

text \<open>Metrics derived from an accepted record are proportions and root mean squares.\<close>

definition rate :: "pyfloat \<Rightarrow> bool" where
  "rate x \<longleftrightarrow> (\<exists>q. x = Fin q \<and> 0 \<le> q \<and> q \<le> 1)"

definition root_mean :: "pyfloat \<Rightarrow> bool" where
  "root_mean x \<longleftrightarrow> (\<exists>q. x = Fin q \<and> 0 \<le> q)"

definition metrics_ok :: "eval_metrics \<Rightarrow> bool" where
  "metrics_ok m \<longleftrightarrow>
     rate (em_accuracy m) \<and> rate (em_transition_accuracy m) \<and> rate (em_transition_support_rate m) \<and>
     root_mean (em_reconstruction_rmse m) \<and> root_mean (em_prediction_rmse m)"

lemma derive_eval_ok:
  assumes "eval_ok r" and "derive_eval r = Inr m"
  shows "metrics_ok m"
proof -
  from assms(2) obtain a b c d e where
    a: "int_div (ev_correct r) (ev_samples r) = Inr a"
    and b: "rmse (ev_reconstruction_sse_q20 r) (ev_samples r) = Inr b"
    and c: "(if ev_prediction_samples r \<noteq> 0 then rmse (ev_prediction_sse_q20 r) (ev_prediction_samples r)
       else Inr PInf) = Inr c"
    and d: "(if ev_transition_supported r \<noteq> 0
       then int_div (ev_transition_correct r) (ev_transition_supported r) else Inr (Fin 0)) = Inr d"
    and e: "int_div (ev_transition_supported r) (ev_samples r) = Inr e"
    and fin: "isfinite a" "isfinite b" "isfinite c" "isfinite d" "isfinite e"
    and m: "em_accuracy m = a" "em_reconstruction_rmse m = b" "em_prediction_rmse m = c"
      "em_transition_accuracy m = d" "em_transition_support_rate m = e"
    unfolding derive_eval_def bind_res_eq_Inr by (auto split: if_splits simp: bind_res_eq_Inr)
  have rates: "rate a" "rate e" "rate d"
    using int_div_rate [OF a] int_div_rate [OF e] int_div_rate [of "ev_transition_correct r" _ d] d assms(1)
    by (auto simp: rate_def eval_ok_def split: if_splits)
  have "root_mean b" using rmse_nonneg [OF b] fin(2) assms(1) by (auto simp: root_mean_def eval_ok_def)
  moreover have "rmse (ev_prediction_sse_q20 r) (ev_prediction_samples r) = Inr c"
    using c fin(3) by (auto split: if_splits)
  from rmse_nonneg [OF this] have "root_mean c" using fin(3) assms(1) by (auto simp: root_mean_def eval_ok_def)
  ultimately show ?thesis using rates by (simp add: metrics_ok_def m)
qed

lemma rmse_total:
  assumes "0 < n" and "n \<le> 2 ^ 40" and "0 \<le> sse" and "sse \<le> 2 ^ 53"
  shows "\<exists>q. rmse sse n = Inr (Fin q)"
proof -
  let ?y = "rnd (of_int sse / of_int Q20_SCALE)"
  have n: "float_of_int (n * DIMENSIONS) = Inr (Fin (of_int (n * DIMENSIONS)))"
    using assms(1,2) fl_int [of "n * DIMENSIONS"] by (simp add: float_of_int_def DIMENSIONS_def)
  have y: "int_div sse Q20_SCALE = Inr (Fin ?y)"
    using assms(3,4) by (intro int_div_total) (auto simp: Q20_SCALE_def)
  have "of_int sse / of_int Q20_SCALE \<le> (of_int (2 ^ 53) :: rat)"
  proof -
    have "(of_int sse :: rat) \<le> of_int (2 ^ 53)" using assms(4) by (simp only: of_int_le_iff)
    then show ?thesis using assms(3) by (simp add: Q20_SCALE_def)
  qed
  moreover have "rnd (of_int (2 ^ 53)) = of_int (2 ^ 53)" by (rule rnd_int) simp
  ultimately have "?y \<le> of_int (2 ^ 53)" by (rule dbl.R_le)
  moreover have "0 \<le> ?y" using assms(3) by (intro dbl.R_nonneg) (simp add: Q20_SCALE_def)
  moreover have "(1 :: rat) \<le> of_int (n * DIMENSIONS)" using assms(1) by (simp add: DIMENSIONS_def)
  ultimately have q: "0 \<le> ?y / of_int (n * DIMENSIONS)" "?y / of_int (n * DIMENSIONS) \<le> 2 ^ 53"
    by (simp_all add: divide_le_eq)
  then have "fl (?y / of_int (n * DIMENSIONS)) = Fin (rnd (?y / of_int (n * DIMENSIONS)))"
    by (intro fl_eq_Fin) simp
  moreover have "0 \<le> rnd (?y / of_int (n * DIMENSIONS))" using q(1) by (rule dbl.R_nonneg)
  ultimately show ?thesis
    using y n assms(1) fsqrt_total by (auto simp: rmse_def DIMENSIONS_def)
qed

text \<open>When the derivation returns, and what it raises otherwise.\<close>

definition eval_bounded :: "eval_record \<Rightarrow> bool" where
  "eval_bounded r \<longleftrightarrow> ev_samples r \<le> 2 ^ 40 \<and> ev_reconstruction_sse_q20 r \<le> 2 ^ 53 \<and>
     ev_prediction_sse_q20 r \<le> 2 ^ 53"

lemma int_div_Fin:
  assumes "0 \<le> a" and "a \<le> 2 ^ 40" and "b \<noteq> 0"
  shows "\<exists>q. int_div a b = Inr (Fin q)"
  using int_div_total [OF assms(3), of a] assms(1,2) by auto

lemma derive_eval_decides:
  assumes "eval_ok r" and "eval_bounded r"
  shows "if ev_samples r = 0 then derive_eval r = Inl (EvaluationError ''evaluation has zero samples'')
    else if ev_prediction_samples r = 0
    then derive_eval r = Inl (EvaluationError ''derived evaluation contains non-finite metric'')
    else \<exists>m. derive_eval r = Inr m"
proof (cases "ev_samples r = 0")
  case True
  then show ?thesis by (simp add: derive_eval_def)
next
  case False
  with assms have n: "0 < ev_samples r" "ev_samples r \<le> 2 ^ 40"
    by (auto simp: eval_ok_def eval_bounded_def)
  obtain a where a: "int_div (ev_correct r) (ev_samples r) = Inr (Fin a)"
    using int_div_Fin [of "ev_correct r" "ev_samples r"] assms(1) n by (auto simp: eval_ok_def)
  obtain b where b: "rmse (ev_reconstruction_sse_q20 r) (ev_samples r) = Inr (Fin b)"
    using rmse_total [OF n] assms by (auto simp: eval_ok_def eval_bounded_def)
  have "\<exists>d. (if ev_transition_supported r \<noteq> 0
      then int_div (ev_transition_correct r) (ev_transition_supported r) else Inr (Fin 0)) = Inr (Fin d)"
    using int_div_Fin [of "ev_transition_correct r" "ev_transition_supported r"] assms(1) n
    by (auto simp: eval_ok_def)
  then obtain d where d: "(if ev_transition_supported r \<noteq> 0
      then int_div (ev_transition_correct r) (ev_transition_supported r) else Inr (Fin 0)) = Inr (Fin d)" by blast
  obtain e where e: "int_div (ev_transition_supported r) (ev_samples r) = Inr (Fin e)"
    using int_div_Fin [of "ev_transition_supported r" "ev_samples r"] assms(1) n by (auto simp: eval_ok_def)
  show ?thesis
  proof (cases "ev_prediction_samples r = 0")
    case True
    then show ?thesis unfolding derive_eval_def a b d e by (simp add: False)
  next
    case pred: False
    obtain c where c: "rmse (ev_prediction_sse_q20 r) (ev_prediction_samples r) = Inr (Fin c)"
      using rmse_total [of "ev_prediction_samples r" "ev_prediction_sse_q20 r"] pred assms n
      by (auto simp: eval_ok_def eval_bounded_def)
    then show ?thesis unfolding derive_eval_def a b d e by (simp add: False pred)
  qed
qed

section \<open>The trials of a preregistration\<close>

text \<open>The trials of each regime, in order, carry the seeds derived for indices 0, 1, 2 and so on.\<close>

definition of_regime :: "string \<Rightarrow> trial_identity list \<Rightarrow> trial_identity list" where
  "of_regime regime ts = filter (\<lambda>t. ti_regime t = regime) ts"

definition seeds_derived :: "int \<Rightarrow> trial_identity list \<Rightarrow> bool" where
  "seeds_derived root_seed ts \<longleftrightarrow>
     (\<forall>regime. \<forall>i < length (of_regime regime ts).
        validate_u64_hex (JStr (ti_seed (of_regime regime ts ! i))) ''seed'' =
          Inr (derive_validation_seed root_seed regime (int i)))"

definition scan_ok :: "int \<Rightarrow> trial_scan \<Rightarrow> bool" where
  "scan_ok root_seed scan \<longleftrightarrow>
     distinct (map ti_trial_id (ts_trials scan)) \<and> distinct (map ti_seed (ts_trials scan)) \<and>
     (\<forall>regime. dict_get (ts_regimes scan) regime =
        (let n = length (of_regime regime (ts_trials scan)) in if n = 0 then None else Some (int n))) \<and>
     seeds_derived root_seed (ts_trials scan)"

lemma u64_hex_context: "validate_u64_hex v c = Inr n \<Longrightarrow> validate_u64_hex v c' = Inr n"
  by (auto simp: validate_u64_hex_def bind_res_eq_Inr split: if_splits)

lemma trial_identity_parts:
  assumes "validate_trial_identity root_seed scan iv = Inr scan'"
  obtains t n where "scan' = \<lparr>ts_trials = ts_trials scan @ [t],
      ts_regimes = dict_set (ti_regime t) (n + 1) (ts_regimes scan)\<rparr>"
    and "n = (case dict_get (ts_regimes scan) (ti_regime t) of None \<Rightarrow> 0 | Some n \<Rightarrow> n)"
    and "validate_u64_hex (JStr (ti_seed t)) ''seed'' = Inr (derive_validation_seed root_seed (ti_regime t) n)"
    and "ti_trial_id t \<notin> ti_trial_id ` set (ts_trials scan)" and "ti_seed t \<notin> ti_seed ` set (ts_trials scan)"
proof -
  obtain index v where [simp]: "iv = (index, v)" by fastforce
  define idx where "idx regime = (case dict_get (ts_regimes scan) regime of None \<Rightarrow> 0 | Some n \<Rightarrow> n)" for regime
  from assms show thesis
    unfolding validate_trial_identity_def Let_def idx_def [symmetric] bind_res_eq_Inr \<open>iv = (index, v)\<close> prod.case
  proof (elim exE conjE, goal_cases)
    case (1 d u trial_id regime seed v' u' u'')
    let ?t = "\<lparr>ti_trial_id = trial_id, ti_regime = regime, ti_seed = seed\<rparr>"
    show thesis
    proof (rule that [of ?t "idx regime"])
      show "validate_u64_hex (JStr (ti_seed ?t)) ''seed'' = Inr (derive_validation_seed root_seed (ti_regime ?t) (idx regime))"
        using u64_hex_context [OF 1(6)] 1(7) by simp
    qed (use 1(8,9) in \<open>simp_all add: idx_def\<close>)
  qed
qed

lemma trial_identity_ok:
  assumes "validate_trial_identity root_seed scan iv = Inr scan'" and "scan_ok root_seed scan"
  shows "scan_ok root_seed scan'"
proof (rule trial_identity_parts [OF assms(1)], goal_cases)
  case (1 t n)
  have count: "n = int (length (of_regime (ti_regime t) (ts_trials scan)))"
    using assms(2) 1(2) by (auto simp: scan_ok_def Let_def split: if_splits)
  have own: "of_regime regime (ts_trials scan @ [t])
      = of_regime regime (ts_trials scan) @ (if regime = ti_regime t then [t] else [])" for regime
    by (simp add: of_regime_def)
  have "seeds_derived root_seed (ts_trials scan @ [t])"
    using assms(2) 1(3) count unfolding seeds_derived_def own scan_ok_def
    by (auto simp: nth_append less_Suc_eq)
  moreover have "dict_get (ts_regimes scan') regime =
      (let n = length (of_regime regime (ts_trials scan')) in if n = 0 then None else Some (int n))" for regime
    using assms(2) count by (simp add: 1(1) own dict_get_set scan_ok_def Let_def)
  ultimately show ?case using assms(2) 1(4,5) by (simp add: scan_ok_def 1(1))
qed

lemma validate_trials_ok:
  assumes "validate_trials v root_seed = Inr scan"
  shows "scan_ok root_seed scan"
proof -
  from assms obtain xs where "fold_res (validate_trial_identity root_seed)
      \<lparr>ts_trials = [], ts_regimes = []\<rparr> (enumerate 0 xs) = Inr scan"
    by (auto simp: validate_trials_def bind_res_eq_Inr)
  then show ?thesis
    by (rule fold_res_invariant) (auto simp: scan_ok_def seeds_derived_def of_regime_def dest: trial_identity_ok)
qed

section \<open>The preregistration\<close>

definition gates_ok :: "gate list \<Rightarrow> bool" where
  "gates_ok gs \<longleftrightarrow> gs \<noteq> [] \<and> distinct (map ga_gate_id gs) \<and>
     (\<forall>g \<in> set gs. ga_operator g \<in> {''ge'', ''le'', ''eq''} \<and> \<not> infinite_float (ga_value g))"

lemma validate_gate_step:
  assumes "validate_gate collection seen cv = Inr seen'"
  obtains g where "seen' = seen @ [g]" and "ga_gate_id g \<notin> ga_gate_id ` set seen"
    and "ga_operator g \<in> {''ge'', ''le'', ''eq''}" and "\<not> infinite_float (ga_value g)"
proof -
  obtain ctx v where cv: "cv = (ctx, v)" by fastforce
  from assms show thesis
    unfolding validate_gate_def cv prod.case
  proof (elim bind_resE, goal_cases)
    case (1 d u identity gid u' operator op threshold known u'' metric rationale)
    have "operator \<in> {''ge'', ''le'', ''eq''}"
      using 1(8,9) by (cases op) (auto simp: in_strings_def split: if_splits)
    with 1(5,10,13) show thesis
      by (intro that [of "\<lparr>ga_gate_id = identity, ga_metric = metric, ga_operator = operator,
         ga_value = threshold, ga_rationale = rationale\<rparr>"]) simp_all
  qed
qed

lemma validate_gate_list_ok:
  assumes "validate_gate_list v ctx = Inr gs"
  shows "gates_ok gs"
proof -
  obtain xs where xs: "xs \<noteq> []" and run: "fold_res (validate_gate ctx) [] (enumerated ctx xs) = Inr gs"
    using assms by (auto simp: validate_gate_list_def split: json.splits if_splits)
  have "distinct (map ga_gate_id gs) \<and>
      (\<forall>g \<in> set gs. ga_operator g \<in> {''ge'', ''le'', ''eq''} \<and> \<not> infinite_float (ga_value g))"
    using run by (rule fold_res_invariant) (auto elim!: validate_gate_step)
  moreover have "length gs = length xs"
  proof -
    have "fold_res (validate_gate ctx) seen ys = Inr gs \<Longrightarrow> length gs = length seen + length ys" for seen ys
      by (induction ys arbitrary: seen) (auto simp: bind_res_eq_Inr elim!: validate_gate_step)
    from this [OF run] show ?thesis by (simp add: enumerated_def)
  qed
  ultimately show ?thesis using xs by (auto simp: gates_ok_def)
qed

definition rule_ok :: "int \<Rightarrow> int \<Rightarrow> global_rule \<Rightarrow> bool" where
  "rule_ok trial_count per_regime r \<longleftrightarrow>
     0 \<le> gr_minimum_passing_trials r \<and> gr_minimum_passing_trials r \<le> trial_count \<and>
     0 \<le> gr_minimum_passing_trials_per_regime r \<and> gr_minimum_passing_trials_per_regime r \<le> per_regime"

lemma validate_global_rule_ok:
  "validate_global_rule v n k = Inr r \<Longrightarrow> rule_ok n k r"
  unfolding validate_global_rule_def rule_ok_def
  by (elim bind_resE) (simp, elim conjE, erule subst [where t = r], simp)

text \<open>What an accepted preregistration fixes.\<close>

definition prereg_ok :: "int \<Rightarrow> int \<Rightarrow> preregistration \<Rightarrow> bool" where
  "prereg_ok root_seed per_regime p \<longleftrightarrow>
     distinct (map ti_trial_id (pg_trials p)) \<and> distinct (map ti_seed (pg_trials p)) \<and>
     seeds_derived root_seed (pg_trials p) \<and>
     set (dict_keys (pg_regime_gates p)) = ti_regime ` set (pg_trials p) \<and>
     (\<forall>t \<in> set (pg_trials p). int (length (of_regime (ti_regime t) (pg_trials p))) = per_regime) \<and>
     gates_ok (pg_common_gates p) \<and> (\<forall>(regime, gs) \<in> set (pg_regime_gates p). gates_ok gs) \<and>
     rule_ok (int (length (pg_trials p))) per_regime (pg_global_pass_rule p)"

lemma check_regimes_ok:
  assumes "check_regimes regimes (JObj d) per_regime = Inr u"
  shows "set (dict_keys d) = set (dict_keys regimes)" and "\<forall>n \<in> set (dict_values regimes). n = per_regime"
  using assms by (auto simp: check_regimes_def bind_res_eq_Inr set_elements_def equals_strings_def
      list_all_iff list_ex_iff)

lemma prereg_okI:
  assumes "require_object v ''preregistration'' = Inr x" and "obj_at x ''seed_derivation'' = Inr sd" and "validate_seed_derivation sd = Inr h"
    and "validate_trials ts (fst h) = Inr scan"
    and "check_regimes (ts_regimes scan) rg (snd h) = Inr u" and "dict_of rg = Inr d"
    and "map_res (\<lambda>(regime, g). bind_res (validate_gate_list g (''regime_gates.'' @ regime)) (\<lambda>gs.
       Inr (regime, gs))) d = Inr gate_lists"
    and "validate_gate_list cg ''common_gates'' = Inr common"
    and "validate_global_rule g (int (length (ts_trials scan))) (snd h) = Inr rule"
    and "Inr \<lparr>pg_payload = v, pg_study_id = study_id, pg_datasets_per_trial = datasets,
            pg_mechanism_constants = constants, pg_trials = ts_trials scan,
            pg_comparison_variants = variants, pg_common_gates = common,
            pg_regime_gates = gate_lists, pg_global_pass_rule = rule\<rparr> = (Inr p :: preregistration res)"
  shows "\<exists>d sd root_seed per_regime. v = JObj d \<and> dict_get d ''seed_derivation'' = Some sd \<and>
    validate_seed_derivation sd = Inr (root_seed, per_regime) \<and> prereg_ok root_seed per_regime p"
proof -
  have rg: "rg = JObj d" using assms(6) by (cases rg) (simp_all add: dict_of_def)
  note scan = validate_trials_ok [OF assms(4)]
  note regimes = check_regimes_ok [OF assms(5) [unfolded rg]]
  have gate_lists: "dict_keys gate_lists = dict_keys d" "\<forall>(regime, gs) \<in> set gate_lists. gates_ok gs"
    using map_res_dict [OF assms(7)] assms(7)
    by (auto simp: map_res_eq_Inr bind_res_eq_Inr dest!: list_all2_right validate_gate_list_ok)
  have count: "dict_get (ts_regimes scan) regime =
      (let n = length (of_regime regime (ts_trials scan)) in if n = 0 then None else Some (int n))" for regime
    using scan by (simp add: scan_ok_def)
  have member: "regime \<in> set (dict_keys (ts_regimes scan)) \<longleftrightarrow> regime \<in> ti_regime ` set (ts_trials scan)" for regime
  proof -
    have "regime \<in> set (dict_keys (ts_regimes scan)) \<longleftrightarrow> dict_get (ts_regimes scan) regime \<noteq> None"
      by (metis map_of_eq_None_iff set_map)
    then show ?thesis by (auto simp: count Let_def of_regime_def filter_empty_conv)
  qed
  have "int (length (of_regime (ti_regime t) (ts_trials scan))) = snd h" if "t \<in> set (ts_trials scan)" for t
  proof -
    have "of_regime (ti_regime t) (ts_trials scan) \<noteq> []"
      using that by (auto simp: of_regime_def filter_empty_conv)
    then have "dict_get (ts_regimes scan) (ti_regime t) = Some (int (length (of_regime (ti_regime t) (ts_trials scan))))"
      by (simp add: count Let_def)
    then show ?thesis using regimes(2) by (force dest: map_of_SomeD)
  qed
  moreover have "set (dict_keys gate_lists) = ti_regime ` set (ts_trials scan)"
    using gate_lists(1) regimes(1) member by auto
  ultimately have "prereg_ok (fst h) (snd h) p"
    using scan gate_lists(2) validate_gate_list_ok [OF assms(8)] validate_global_rule_ok [OF assms(9)]
    by (simp add: prereg_ok_def scan_ok_def assms(10) [THEN Inr_inject, symmetric])
  then show ?thesis
    using assms(1-3) by (intro exI [of _ x] exI [of _ sd] exI [of _ "fst h"] exI [of _ "snd h"]) simp
qed

lemma validate_preregistration_ok:
  assumes "validate_preregistration v = Inr p"
  shows "\<exists>d sd root_seed per_regime. v = JObj d \<and> dict_get d ''seed_derivation'' = Some sd \<and>
    validate_seed_derivation sd = Inr (root_seed, per_regime) \<and> prereg_ok root_seed per_regime p"
proof -
  note run = assms [unfolded validate_preregistration_def case_prod_unfold]
  show ?thesis
    by (insert run, elim bind_resE, rule prereg_okI [unfolded case_prod_unfold])
qed

section \<open>The loop over the trials\<close>

text \<open>Evidence of one trial against its declaration: the declared gates, each judged on the metrics.\<close>

definition evidence_ok :: "preregistration \<Rightarrow> trial_identity \<Rightarrow> trial_evidence \<Rightarrow> bool" where
  "evidence_ok p i e \<longleftrightarrow>
     te_trial_id e = ti_trial_id i \<and> te_regime e = ti_regime i \<and> te_seed e = ti_seed i \<and>
     (\<exists>own. dict_get (pg_regime_gates p) (ti_regime i) = Some own \<and>
        map gt_gate (te_gates e) = pg_common_gates p @ own) \<and>
     (\<forall>g \<in> set (te_gates e). apply_gate (te_metrics e) (gt_gate g) = Inr g) \<and>
     (te_pass e \<longleftrightarrow> (\<forall>g \<in> set (te_gates e). gt_pass g))"

lemma apply_gate_gate: "apply_gate metrics g = Inr r \<Longrightarrow> gt_gate r = g"
  by (auto simp: apply_gate_def bind_res_eq_Inr split: if_splits option.splits json.splits)

lemma validate_trial_identity_kept:
  assumes "validate_trial raw i p = Inr r"
  shows "tr_trial_id r = ti_trial_id i \<and> tr_regime r = ti_regime i \<and> tr_seed r = ti_seed i"
  using assms unfolding validate_trial_def Let_def
  by (elim bind_resE) (drule Inr_inject, erule subst, simp)

lemma evaluate_trial_ok:
  assumes "evaluate_trial p raw i = Inr e"
  shows "evidence_ok p i e"
  using assms unfolding evaluate_trial_def
proof (elim bind_resE, goal_cases)
  case (1 r metrics own gates comparisons views)
  note same = validate_trial_identity_kept [OF 1(1)]
  have judged: "list_all2 (\<lambda>g r. apply_gate metrics g = Inr r) (pg_common_gates p @ own) gates"
    using 1 by (simp add: map_res_eq_Inr)
  then have "map gt_gate gates = pg_common_gates p @ own"
    by (induction rule: list_all2_induct) (auto dest: apply_gate_gate)
  moreover have "\<forall>g \<in> set gates. apply_gate metrics (gt_gate g) = Inr g"
  proof
    fix g
    assume "g \<in> set gates"
    from list_all2_right [OF judged this] obtain g' where "apply_gate metrics g' = Inr g" by blast
    then show "apply_gate metrics (gt_gate g) = Inr g" by (simp add: apply_gate_gate)
  qed
  ultimately show ?case
    using 1 same by (auto simp: evidence_ok_def list_all_iff)
qed

definition passed :: "(trial_evidence \<Rightarrow> bool) \<Rightarrow> trial_evidence list \<Rightarrow> int" where
  "passed P es = int (length (filter (\<lambda>e. te_pass e \<and> P e) es))"

lemma passed_simps [simp]:
  "passed P [] = 0"
  "passed P (es @ [e]) = passed P es + of_bool (te_pass e \<and> P e)"
  by (simp_all add: passed_def)

text \<open>The counters of the loop count.\<close>

definition counted :: "preregistration \<Rightarrow> evaluation_state \<Rightarrow> bool" where
  "counted p st \<longleftrightarrow>
     es_passing st = passed (\<lambda>_. True) (es_trials st) \<and>
     (\<forall>regime. dict_get (es_passing_by_regime st) regime =
        map_option (\<lambda>_. passed (\<lambda>e. te_regime e = regime) (es_trials st)) (dict_get (pg_regime_gates p) regime))"

lemma counted_start: "counted p (start_evaluation p)"
  using dict_get_map_value [of "\<lambda>_ _. 0 :: int" "pg_regime_gates p"]
  by (simp add: counted_def start_evaluation_def)

lemma evaluation_step_ok:
  assumes "evaluation_step p st (raw, i) = Inr st'" and "counted p st"
  shows "counted p st' \<and> (\<exists>e. es_trials st' = es_trials st @ [e] \<and> evidence_ok p i e)"
proof -
  from assms(1) obtain e count where e: "evaluate_trial p raw i = Inr e"
    and count: "dict_get (es_passing_by_regime st) (te_regime e) = Some count"
    and trials: "es_trials st' = es_trials st @ [e]"
    and passing: "es_passing st' = es_passing st + of_bool (te_pass e)"
    and by_regime: "es_passing_by_regime st' = dict_set (te_regime e) (count + of_bool (te_pass e)) (es_passing_by_regime st)"
    by (auto simp: evaluation_step_def bind_res_eq_Inr)
  have "counted p st'"
    using assms(2) count unfolding counted_def trials passing by_regime dict_get_set by auto
  then show ?thesis using evaluate_trial_ok [OF e] trials by blast
qed

lemma evaluation_loop:
  "fold_res (evaluation_step p) st xs = Inr st' \<Longrightarrow> counted p st \<Longrightarrow>
     counted p st' \<and> (\<exists>es. es_trials st' = es_trials st @ es \<and> list_all2 (evidence_ok p) (map snd xs) es)"
proof (induction xs arbitrary: st)
  case Nil
  then show ?case by simp
next
  case (Cons x xs)
  obtain raw i where x: "x = (raw, i)" by fastforce
  from Cons.prems(1) obtain s where s: "evaluation_step p st (raw, i) = Inr s"
    and run: "fold_res (evaluation_step p) s xs = Inr st'" by (auto simp: bind_res_eq_Inr x)
  from evaluation_step_ok [OF s Cons.prems(2)] obtain e
    where "counted p s" "es_trials s = es_trials st @ [e]" "evidence_ok p i e" by blast
  with Cons.IH [OF run] show ?case by (auto simp: x)
qed

lemma validate_raw_length: "validate_raw raw p = Inr trials \<Longrightarrow> length trials = length (pg_trials p)"
  unfolding validate_raw_def
  by (elim bind_resE) (auto simp: list_of_length_def split: json.splits if_splits)

section \<open>Raw trials\<close>

text \<open>A raw trial accepted for a declaration.\<close>

definition trial_ok :: "json \<Rightarrow> trial_identity \<Rightarrow> preregistration \<Rightarrow> trial_record \<Rightarrow> bool" where
  "trial_ok raw i p r \<longleftrightarrow>
     (\<exists>d seeds n. raw = JObj d \<and> dict_get d ''seed'' = Some (JStr (ti_seed i)) \<and>
        validate_u64_hex (JStr (ti_seed i)) ''seed'' = Inr n \<and>
        dict_get d ''dataset_seeds'' = Some (JObj seeds) \<and>
        (\<forall>name x. (name, x) \<in> set DATASET_SEED_XORS \<longrightarrow> (\<exists>s. dict_get seeds name = Some s \<and>
           validate_u64_hex s ''dataset seed'' = Inr (mix64 (n XOR x))))) \<and>
     (\<exists>c. dict_get (tr_comparisons r) ''ravel_0_5_candidate'' = Some c \<and> candidate_agrees c (tr_candidate r))"

lemma trial_okI:
  assumes "require_object raw c0 = Inr d"
    and "map_res (check_identity d c1) [(''trial_id'', a), (''regime'', b), (''seed'', ti_seed i)] = Inr us"
    and "validate_u64_hex sv c2 = Inr n" and "obj_at d ''seed'' = Inr sv"
    and "obj_at d ''dataset_seeds'' = Inr v" and "validate_dataset_seeds v c3 n = Inr u"
    and "dict_at ''ravel_0_5_candidate'' comparisons ''ravel_0_5_candidate'' = Inr c"
    and "refuse (\<not> candidate_agrees c candidate) message = Inr u'"
    and "Inr \<lparr>tr_trial_id = ti_trial_id i, tr_regime = ti_regime i, tr_seed = ti_seed i,
       tr_candidate = candidate, tr_integrity = integrity, tr_comparisons = comparisons\<rparr> = (Inr r :: trial_record res)"
  shows "trial_ok raw i p r"
proof -
  note r = assms(9) [THEN Inr_inject, symmetric]
  have d: "raw = JObj d" "dict_get d ''seed'' = Some (JStr (ti_seed i))"
    using assms(1,2) by (auto simp: check_identity_def bind_res_eq_Inr)
  have n: "validate_u64_hex (JStr (ti_seed i)) ''seed'' = Inr n"
    using assms(3,4) d(2) by (auto dest: u64_hex_context)
  have u: "validate_dataset_seeds v c3 n = Inr ()" using assms(6) by simp
  obtain seeds where v: "v = JObj seeds"
    using assms(6) by (auto simp: validate_dataset_seeds_def bind_res_eq_Inr)
  have "\<exists>s. dict_get seeds name = Some s \<and> validate_u64_hex s ''dataset seed'' = Inr (mix64 (n XOR x))"
    if "(name, x) \<in> set DATASET_SEED_XORS" for name x
  proof (rule accepted_dataset_seeds [OF u that])
    fix d' s
    assume "v = JObj d'" and "dict_get d' name = Some s"
      and "validate_u64_hex s (c3 @ ''.dataset_seeds.'' @ name) = Inr (mix64 (n XOR x))"
    then show ?thesis using v u64_hex_context [where c' = "''dataset seed''"] by auto
  qed
  then have "\<forall>name x. (name, x) \<in> set DATASET_SEED_XORS \<longrightarrow> (\<exists>s. dict_get seeds name = Some s \<and>
      validate_u64_hex s ''dataset seed'' = Inr (mix64 (n XOR x)))"
    by (intro allI impI)
  moreover have "dict_get d ''dataset_seeds'' = Some (JObj seeds)" using assms(5) v by simp
  moreover have "\<exists>c. dict_get (tr_comparisons r) ''ravel_0_5_candidate'' = Some c \<and> candidate_agrees c (tr_candidate r)"
    using assms(7,8) by (simp add: r)
  ultimately show ?thesis
    using d n unfolding trial_ok_def by (intro conjI exI [of _ d] exI [of _ seeds] exI [of _ n])
qed

lemma validate_trial_ok:
  assumes "validate_trial raw i p = Inr r"
  shows "trial_ok raw i p r"
  using assms unfolding validate_trial_def Let_def
  by (elim bind_resE, intro trial_okI)

section \<open>The Pareto relation\<close>

text \<open>At least as good in every metric.\<close>

definition at_least :: "quality_metrics \<Rightarrow> quality_metrics \<Rightarrow> bool" where
  "at_least a b \<longleftrightarrow>
     (\<forall>m \<in> set maximize. m b \<le> m a) \<and> (\<forall>m \<in> set minimize_floats. m a \<le> m b) \<and>
     (\<forall>m \<in> set minimize_ints. m a \<le> m b)"

definition comparable :: "quality_metrics \<Rightarrow> bool" where
  "comparable a \<longleftrightarrow> (\<forall>m \<in> set maximize \<union> set minimize_floats. m a \<noteq> NaN)"

lemma not_less_pyfloat: "x \<noteq> NaN \<Longrightarrow> y \<noteq> NaN \<Longrightarrow> \<not> x < y \<longleftrightarrow> y \<le> (x :: pyfloat)"
  by (cases x; cases y) auto

lemma better_somewhere_iff:
  "comparable a \<Longrightarrow> comparable b \<Longrightarrow> better_somewhere a b \<longleftrightarrow> \<not> at_least b a"
  unfolding better_somewhere_def at_least_def comparable_def list_ex_iff
  by (simp add: maximize_def minimize_floats_def minimize_ints_def not_less_pyfloat [symmetric] not_le)

end
