(* ===== verification/RavelDemo.thy ===== *)
theory RavelDemo
  imports RavelProofs
begin

text \<open>
  A preregistration with one regime and one trial, and raw evidence for it, on which the RAVEL 0.5
  evaluator returns: the input at which the properties of the evaluator are applied.  Digests and
  derived seeds stay symbolic.
\<close>

section \<open>The records of the raw trial\<close>

definition demo_eval :: json where
  "demo_eval =
     JObj [(''samples'', JInt 1),
      (''rejected'', JInt 0),
      (''correct'', JInt 1),
      (''reconstruction_sse_q20'', JInt 0),
      (''prediction_sse_q20'', JInt 0),
      (''prediction_samples'', JInt 1),
      (''transition_correct'', JInt 1),
      (''transition_supported'', JInt 1),
      (''transition_unknown'', JInt 0),
      (''routing_certification_count'', JInt 0),
      (''routed_complete_mismatches'', JInt 0),
      (''expert_evaluations'', JInt 1),
      (''classification_checksum'', JStr ''0000000000000000''),
      (''reconstruction_checksum'', JStr ''0000000000000000''),
      (''prediction_checksum'', JStr ''0000000000000000''),
      (''transition_checksum'', JStr ''0000000000000000'')]"

definition demo_plan :: json where
  "demo_plan =
     JObj [(''cases'', JInt 1),
      (''path_found'', JInt 1),
      (''exact_world_state_target_reached'', JInt 1),
      (''goal_expert_reached'', JInt 1),
      (''belief_set_target_reached'', JInt 1),
      (''executed_path_length'', JInt 0),
      (''optimal_path_length'', JInt 0),
      (''path_length_regret'', JInt 0),
      (''graph_disconnection_failures'', JInt 0),
      (''no_supported_edge_failures'', JInt 0),
      (''transition_model_error_failures'', JInt 0),
      (''state_aliasing_failures'', JInt 0),
      (''expansions'', JInt 0),
      (''checksum'', JStr ''0000000000000000'')]"

definition demo_replay :: json where
  "demo_replay =
     JObj [(''selected'', JInt 1),
      (''unique'', JInt 1),
      (''labels_covered'', JInt 1),
      (''actions_covered'', JInt 1),
      (''states_covered'', JInt 1),
      (''assigned_experts_covered'', JInt 1),
      (''transition_pairs_covered'', JInt 1),
      (''rare_cases_selected'', JInt 1),
      (''high_loss_cases_selected'', JInt 1),
      (''selection_checksum'', JStr ''0000000000000000'')]"

definition demo_topology :: json where
  "demo_topology =
     JObj [(''accepted_births'', JInt 0),
      (''rejected_births'', JInt 0),
      (''accepted_retirements'', JInt 0),
      (''rejected_retirements'', JInt 0),
      (''objective_before_q20'', JInt 0),
      (''objective_after_q20'', JInt 0),
      (''births'', JList []),
      (''retired_lineages'', JList []),
      (''training_observations'', JObj [(''expert_evaluations'', JInt 0), (''samples'', JInt 0), (''certified'', JInt 0), (''births'', JInt 0), (''retired'', JInt 0), (''rejected_births'', JInt 0), (''rejected_retirements'', JInt 0)])]"

definition demo_variant :: json where
  "demo_variant =
     JObj [(''expert_count'', JInt 1),
      (''training_evaluations'', JInt 1),
      (''checkpoint_size_bytes'', JInt 1),
      (''drift_holdout'', demo_eval),
      (''retention_holdout'', demo_eval),
      (''planning'', demo_plan)]"

definition demo_candidate :: json where
  "demo_candidate =
     JObj [(''adaptation_completed'', JBool True),
      (''expert_count'', JInt 1),
      (''base_training_evaluations'', JInt 1),
      (''adaptation_training_evaluations'', JInt 0),
      (''checkpoint_size_bytes'', JInt 1),
      (''model_identity'', JStr (replicate 64 (CHR 0x30))),
      (''behavior_identity'', JStr (replicate 64 (CHR 0x30))),
      (''base_holdout'', demo_eval),
      (''adaptation_training'', demo_eval),
      (''static_model_drift_holdout'', demo_eval),
      (''adapted_model_drift_holdout'', demo_eval),
      (''base_holdout_retention'', demo_eval),
      (''planning'', demo_plan),
      (''replay'', demo_replay),
      (''topology'', demo_topology)]"


definition demo_eval_record :: eval_record where
  "demo_eval_record =
     \<lparr>ev_samples = 1,
      ev_rejected = 0,
      ev_correct = 1,
      ev_reconstruction_sse_q20 = 0,
      ev_prediction_sse_q20 = 0,
      ev_prediction_samples = 1,
      ev_transition_correct = 1,
      ev_transition_supported = 1,
      ev_transition_unknown = 0,
      ev_routing_certification_count = 0,
      ev_routed_complete_mismatches = 0,
      ev_expert_evaluations = 1,
      ev_classification_checksum = ''0000000000000000'',
      ev_reconstruction_checksum = ''0000000000000000'',
      ev_prediction_checksum = ''0000000000000000'',
      ev_transition_checksum = ''0000000000000000''\<rparr>"


definition demo_plan_record :: plan_record where
  "demo_plan_record =
     \<lparr>pl_cases = 1,
      pl_path_found = 1,
      pl_exact_world_state_target_reached = 1,
      pl_goal_expert_reached = 1,
      pl_belief_set_target_reached = 1,
      pl_executed_path_length = 0,
      pl_optimal_path_length = 0,
      pl_path_length_regret = 0,
      pl_graph_disconnection_failures = 0,
      pl_no_supported_edge_failures = 0,
      pl_transition_model_error_failures = 0,
      pl_state_aliasing_failures = 0,
      pl_expansions = 0,
      pl_checksum = ''0000000000000000''\<rparr>"


definition demo_replay_record :: replay_record where
  "demo_replay_record =
     \<lparr>re_selected = 1,
      re_unique = 1,
      re_labels_covered = 1,
      re_actions_covered = 1,
      re_states_covered = 1,
      re_assigned_experts_covered = 1,
      re_transition_pairs_covered = 1,
      re_rare_cases_selected = 1,
      re_high_loss_cases_selected = 1,
      re_selection_checksum = ''0000000000000000''\<rparr>"


definition demo_topology_record :: topology_record where
  "demo_topology_record =
     \<lparr>to_accepted_births = 0,
      to_rejected_births = 0,
      to_accepted_retirements = 0,
      to_rejected_retirements = 0,
      to_objective_before_q20 = 0,
      to_objective_after_q20 = 0\<rparr>"


definition demo_variant_record :: variant_record where
  "demo_variant_record =
     \<lparr>va_expert_count = 1,
      va_training_evaluations = 1,
      va_checkpoint_size_bytes = 1,
      va_drift_holdout = demo_eval_record,
      va_retention_holdout = demo_eval_record,
      va_planning = demo_plan_record\<rparr>"


definition demo_candidate_record :: candidate_record where
  "demo_candidate_record =
     \<lparr>ca_adaptation_completed = True,
      ca_expert_count = 1,
      ca_base_training_evaluations = 1,
      ca_adaptation_training_evaluations = 0,
      ca_checkpoint_size_bytes = 1,
      ca_base_holdout = demo_eval_record,
      ca_adaptation_training = demo_eval_record,
      ca_static_model_drift_holdout = demo_eval_record,
      ca_adapted_model_drift_holdout = demo_eval_record,
      ca_base_holdout_retention = demo_eval_record,
      ca_planning = demo_plan_record,
      ca_replay = demo_replay_record,
      ca_topology = demo_topology_record\<rparr>"


definition demo_own_metrics :: "(string, json) dict" where
  "demo_own_metrics =
     [(''adaptation_completed'', JBool True),
      (''base_accuracy'', JFloat (Fin 1)),
      (''adaptation_training_accuracy'', JFloat (Fin 1)),
      (''static_drift_accuracy'', JFloat (Fin 1)),
      (''adapted_drift_accuracy'', JFloat (Fin 1)),
      (''retention_accuracy'', JFloat (Fin 1)),
      (''retention_accuracy_delta_from_base'', JFloat (Fin 0)),
      (''drift_accuracy_delta'', JFloat (Fin 0)),
      (''headroom_normalized_accuracy_improvement'', JFloat (Fin 0)),
      (''base_reconstruction_rmse'', JFloat (Fin 0)),
      (''static_reconstruction_rmse'', JFloat (Fin 0)),
      (''adapted_reconstruction_rmse'', JFloat (Fin 0)),
      (''retention_reconstruction_rmse'', JFloat (Fin 0)),
      (''retention_reconstruction_degradation_ratio'', JFloat (Fin 0)),
      (''reconstruction_improvement_ratio'', JFloat (Fin 0)),
      (''base_prediction_rmse'', JFloat (Fin 0)),
      (''static_prediction_rmse'', JFloat (Fin 0)),
      (''adapted_prediction_rmse'', JFloat (Fin 0)),
      (''retention_prediction_rmse'', JFloat (Fin 0)),
      (''prediction_improvement_ratio'', JFloat (Fin 0)),
      (''retention_prediction_degradation'', JFloat (Fin 0)),
      (''static_transition_accuracy'', JFloat (Fin 1)),
      (''adapted_transition_accuracy'', JFloat (Fin 1)),
      (''transition_accuracy_delta'', JFloat (Fin 0)),
      (''retention_transition_accuracy_delta'', JFloat (Fin 0)),
      (''transition_support_rate'', JFloat (Fin 1)),
      (''path_found_rate'', JFloat (Fin 1)),
      (''exact_state_rate'', JFloat (Fin 1)),
      (''belief_set_rate'', JFloat (Fin 1)),
      (''routing_mismatches'', JInt 0),
      (''expert_count'', JInt 1),
      (''accepted_births'', JInt 0),
      (''accepted_retirements'', JInt 0),
      (''training_evaluations'', JInt 1),
      (''inference_expert_evaluations'', JInt 1),
      (''checkpoint_size_bytes'', JInt 1),
      (''replay_selected'', JInt 1),
      (''replay_unique'', JInt 1),
      (''replay_labels_covered'', JInt 1),
      (''replay_actions_covered'', JInt 1),
      (''replay_states_covered'', JInt 1),
      (''replay_experts_covered'', JInt 1),
      (''replay_transition_pairs_covered'', JInt 1),
      (''checkpoint_roundtrip'', JBool True),
      (''checkpoint_identity'', JBool True),
      (''checkpoint_behavior'', JBool True),
      (''checkpoint_mutations'', JBool True),
      (''lineage_invariants'', JBool True),
      (''unsupported_graph_edge_violations'', JInt 0)]"


definition demo_compared_metrics :: "(string, json) dict" where
  "demo_compared_metrics =
     [(''static_exact_state_rate'', JFloat (Fin 1)),
      (''static_belief_set_rate'', JFloat (Fin 1)),
      (''exact_state_rate_delta'', JFloat (Fin 0)),
      (''belief_set_rate_delta'', JFloat (Fin 0)),
      (''matched_compute_drift_accuracy_delta'', JFloat (Fin 0)),
      (''matched_compute_retention_delta'', JFloat (Fin 0)),
      (''matched_compute_training_evaluation_ratio'', JFloat (Fin 1)),
      (''no_birth_drift_accuracy_delta'', JFloat (Fin 0)),
      (''no_retirement_drift_accuracy_delta'', JFloat (Fin 0)),
      (''balanced_vs_periodic_drift_accuracy_delta'', JFloat (Fin 0)),
      (''balanced_vs_periodic_retention_delta'', JFloat (Fin 0)),
      (''inference_evaluation_ratio_vs_flat64'', JFloat (Fin 1)),
      (''topology_objective_gain_q20'', JInt 0)]"


lemma demo_eval_valid: "validate_eval demo_eval context = Inr demo_eval_record"
  by code_simp

lemma demo_plan_valid: "validate_plan demo_plan context = Inr demo_plan_record"
  by code_simp

lemma demo_replay_valid: "validate_replay demo_replay context = Inr demo_replay_record"
  by code_simp

lemma demo_topology_valid: "validate_topology demo_topology context = Inr demo_topology_record"
  by code_simp

lemmas demo_valid = demo_eval_valid demo_plan_valid demo_replay_valid demo_topology_valid

lemma demo_variant_valid: "validate_variant demo_variant context = Inr demo_variant_record"
  by (simp add: validate_variant_def demo_variant_def demo_variant_record_def VARIANT_KEYS_def demo_valid
      expert_count_at_def int_at_def eval_at_def plan_at_def require_object_def require_int_def
      require_exact_keys_def insert_commute)

lemma demo_candidate_valid: "validate_candidate demo_candidate context = Inr demo_candidate_record"
proof -
  have hex: "validate_hex (JStr (replicate 64 (CHR 0x30))) c 64 = Inr (replicate 64 (CHR 0x30))" for c
    by (simp add: validate_hex_def require_string_def is_hex_digit_def list_all_length)
  show ?thesis
    by (simp add: validate_candidate_def demo_candidate_def demo_candidate_record_def CANDIDATE_KEYS_def
      demo_valid expert_count_at_def int_at_def eval_at_def plan_at_def hex_at_def bool_at_def hex
      require_object_def require_int_def require_bool_def require_exact_keys_def insert_commute Let_def)
qed

definition demo_eval_metrics :: eval_metrics where
  "demo_eval_metrics = \<lparr>em_accuracy = Fin 1, em_reconstruction_rmse = Fin 0, em_prediction_rmse = Fin 0,
     em_transition_accuracy = Fin 1, em_transition_support_rate = Fin 1, em_routing_mismatches = 0,
     em_expert_evaluations = 1\<rparr>"

definition demo_plan_metrics :: plan_metrics where
  "demo_plan_metrics = \<lparr>pm_path_found_rate = Fin 1, pm_exact_state_rate = Fin 1, pm_goal_expert_rate = Fin 1,
     pm_belief_set_rate = Fin 1, pm_path_length_regret = 0, pm_graph_disconnections = 0,
     pm_unsupported_edge_failures = 0, pm_transition_model_failures = 0, pm_state_aliasing_failures = 0\<rparr>"

lemma demo_quotients: "int_div 0 n = (if n = 0 then Inl ZeroDivisionError else Inr (Fin 0))" "int_div 1 1 = Inr (Fin 1)"
  by (simp_all add: int_div_def)

lemma demo_rmse: "rmse 0 1 = Inr (Fin 0)"
  by (simp add: rmse_def int_div_def Q20_SCALE_def) (simp add: float_of_int_def DIMENSIONS_def rnd_sqrt_def)

lemma demo_eval_derived: "derive_eval demo_eval_record = Inr demo_eval_metrics"
  by (simp add: derive_eval_def demo_eval_record_def demo_eval_metrics_def demo_quotients demo_rmse)

lemma demo_plan_derived: "derive_plan demo_plan_record = Inr demo_plan_metrics"
  by (simp add: derive_plan_def demo_plan_record_def demo_plan_metrics_def demo_quotients)

definition demo_views :: candidate_views where
  "demo_views = \<lparr>cv_base = demo_eval_metrics, cv_adaptation = demo_eval_metrics,
     cv_static = demo_eval_metrics, cv_adapted = demo_eval_metrics, cv_retention = demo_eval_metrics,
     cv_planning = demo_plan_metrics\<rparr>"

lemma demo_views_derived: "derive_views demo_candidate_record = Inr demo_views"
  by (simp add: derive_views_def demo_candidate_record_def demo_views_def demo_eval_derived demo_plan_derived)

definition demo_variant_names :: "string list" where
  "demo_variant_names =
     [''ravel_0_5_candidate'', ''no_adaptation_static'', ''matched_compute_fixed_topology'',
      ''ravel_no_birth_same_replay_iterations'', ''ravel_without_retirement_matched_work'',
      ''periodic_replay_policy'', ''flat_64_expert_complete_scan'']"

lemma demo_comparisons_valid:
  "validate_comparisons (JObj (map (\<lambda>n. (n, demo_variant)) demo_variant_names)) context demo_variant_names =
     Inr (map (\<lambda>n. (n, demo_variant_record)) demo_variant_names)"
  by (simp add: validate_comparisons_def demo_variant_names_def demo_variant_valid require_object_def)

section \<open>Integrity and metrics\<close>

definition demo_integrity :: json where
  "demo_integrity = JObj
     [(''checkpoint_roundtrip'', JBool True), (''checkpoint_identity_match'', JBool True),
      (''checkpoint_behavior_match'', JBool True),
      (''checkpoint_mutations'', JObj (map (\<lambda>k. (k, JBool True)) CHECKPOINT_MUTATION_KEYS)),
      (''lineage_invariants'', JObj (map (\<lambda>k. (k, JBool True)) LINEAGE_INVARIANT_KEYS)),
      (''unsupported_graph_edge_violations'', JInt 0)]"

definition demo_integrity_record :: integrity_record where
  "demo_integrity_record = \<lparr>ig_checkpoint_roundtrip = True, ig_checkpoint_identity_match = True,
     ig_checkpoint_behavior_match = True,
     ig_checkpoint_mutations = map (\<lambda>k. (k, True)) CHECKPOINT_MUTATION_KEYS,
     ig_lineage_invariants = map (\<lambda>k. (k, True)) LINEAGE_INVARIANT_KEYS,
     ig_unsupported_graph_edge_violations = 0\<rparr>"

lemma all_flags:
  "map_res (\<lambda>(k, v). bind_res (require_bool v (f k)) (\<lambda>b. Inr (k, b))) (map (\<lambda>k. (k, JBool True)) ks) =
     Inr (map (\<lambda>k. (k, True)) ks)"
  by (induction ks) (auto simp: require_bool_def)

lemma bool_accepted: "require_bool (JBool b) c = Inr b"
  by simp

lemma flag_keys: "require_exact_keys (map (\<lambda>k. (k, b)) ks) ks c = Inr ()"
  by (simp add: comp_def)

lemma demo_integrity_keys:
  "require_exact_keys [(''checkpoint_roundtrip'', a), (''checkpoint_identity_match'', b),
     (''checkpoint_behavior_match'', d), (''checkpoint_mutations'', e), (''lineage_invariants'', f),
     (''unsupported_graph_edge_violations'', g)] INTEGRITY_KEYS c = Inr ()"
  by (simp add: INTEGRITY_KEYS_def)

lemma demo_integrity_valid: "validate_integrity demo_integrity context = Inr demo_integrity_record"
  by (simp add: validate_integrity_def demo_integrity_def demo_integrity_record_def
      demo_integrity_keys require_object_def bool_at_def int_at_def bool_accepted require_int_def
      validate_flags_def all_flags flag_keys)

definition demo_record :: "string \<Rightarrow> trial_record" where
  "demo_record seed = \<lparr>tr_trial_id = ''trial'', tr_regime = ''regime'', tr_seed = seed,
     tr_candidate = demo_candidate_record, tr_integrity = demo_integrity_record,
     tr_comparisons = map (\<lambda>n. (n, demo_variant_record)) demo_variant_names\<rparr>"

lemmas demo_records = demo_record_def demo_candidate_record_def demo_integrity_record_def demo_views_def
  demo_eval_metrics_def demo_plan_metrics_def demo_replay_record_def demo_topology_record_def

lemma small_threshold: "0 < rnd (1 / 10 ^ 12)"
  by code_simp

lemma minus_Fin: "Fin p - Fin q = fl (p - q)"
  by (simp add: minus_pyfloat_def)

lemma no_change: "relative_change (Fin 0) (Fin 0) (Fin 0) = Inr (Fin 0)"
  using small_threshold by (simp add: relative_change_def py_max_def fl_eq_Fin minus_Fin)

lemma demo_own: "own_metrics (demo_record seed) demo_views = Inr demo_own_metrics"
  by (simp add: own_metrics_def demo_records demo_own_metrics_def headroom_improvement_def no_change minus_Fin Let_def
      list_all_iff)

definition demo_variant_metrics :: variant_metrics where
  "demo_variant_metrics = \<lparr>vm_drift_accuracy = Fin 1, vm_retention_accuracy = Fin 1,
     vm_reconstruction_rmse = Fin 0, vm_prediction_rmse = Fin 0, vm_transition_accuracy = Fin 1,
     vm_transition_support_rate = Fin 1, vm_exact_state_rate = Fin 1, vm_belief_set_rate = Fin 1,
     vm_expert_evaluations = 1, vm_training_evaluations = 1, vm_expert_count = 1,
     vm_checkpoint_size_bytes = 1\<rparr>"

lemma demo_variant_derived: "derive_variant demo_variant_record = Inr demo_variant_metrics"
  by (simp add: derive_variant_def demo_variant_record_def demo_variant_metrics_def demo_eval_derived
      demo_plan_derived demo_eval_metrics_def demo_plan_metrics_def)

lemma demo_variants_derived:
  "derive_variants (tr_comparisons (demo_record seed)) = Inr (map (\<lambda>n. (n, demo_variant_metrics)) demo_variant_names)"
  by (simp add: derive_variants_def demo_record_def demo_variant_names_def demo_variant_derived)

lemma demo_compared:
  "comparison_metrics (demo_record seed) demo_views (map (\<lambda>n. (n, demo_variant_metrics)) demo_variant_names) =
     Inr demo_compared_metrics"
  by (simp add: comparison_metrics_def demo_records demo_compared_metrics_def demo_variant_names_def
      demo_variant_metrics_def evaluation_ratio_def float_of_int_def py_max_def minus_Fin Let_def)

lemma demo_metrics_derived:
  "derive_trial_metrics (demo_record seed) = Inr (demo_own_metrics @ demo_compared_metrics)"
proof -
  have "list_all (\<lambda>(name, v). \<not> infinite_float v) (demo_own_metrics @ demo_compared_metrics)"
    by (simp add: demo_own_metrics_def demo_compared_metrics_def infinite_float_def)
  moreover have "tr_candidate (demo_record seed) = demo_candidate_record" by (simp add: demo_record_def)
  ultimately show ?thesis
    by (simp only: derive_trial_metrics_def demo_views_derived Let_def demo_own demo_compared
      demo_variants_derived bind_res_simps if_True)
qed

section \<open>Seeds as text\<close>

fun hex_text :: "nat \<Rightarrow> int \<Rightarrow> string" where
  "hex_text 0 n = []"
| "hex_text (Suc k) n = hex_text k (n div 16) @ [''0123456789abcdef'' ! nat (n mod 16)]"

definition u64_text :: "int \<Rightarrow> string" where
  "u64_text n = ''0x'' @ hex_text 16 n"

lemma hex_digit_cases: "0 \<le> d \<Longrightarrow> d < 16 \<Longrightarrow>
    is_hex_digit (''0123456789abcdef'' ! nat d) \<and> hex_digit_value (''0123456789abcdef'' ! nat d) = d"
proof -
  have "\<forall>d \<in> set [0..15]. is_hex_digit (''0123456789abcdef'' ! nat d) \<and>
      hex_digit_value (''0123456789abcdef'' ! nat d) = d"
    by code_simp
  then show "0 \<le> d \<Longrightarrow> d < 16 \<Longrightarrow> ?thesis" by simp
qed

lemma hex_text: "length (hex_text k n) = k \<and> list_all is_hex_digit (hex_text k n) \<and> hex_int (hex_text k n) = n mod 16 ^ k"
proof (induction k arbitrary: n)
  case 0
  then show ?case by (simp add: hex_int_def)
next
  case (Suc k)
  have "n mod 16 ^ Suc k = 16 * (n div 16 mod 16 ^ k) + n mod 16"
    by (simp add: zmod_zmult2_eq)
  then show ?case
    using Suc.IH [of "n div 16"] hex_digit_cases [of "n mod 16"] by (simp add: hex_int_snoc)
qed

lemma u64_text_valid: "0 \<le> n \<Longrightarrow> n < 2 ^ 64 \<Longrightarrow> validate_u64_hex (JStr (u64_text n)) c = Inr n"
proof -
  assume n: "0 \<le> n" "n < 2 ^ 64"
  note t = hex_text [of 16 n]
  have "hex_text 16 n \<noteq> []" using t by auto
  moreover have "n mod 16 ^ 16 = n" using n by simp
  ultimately show ?thesis
    using t by (simp add: u64_text_def validate_u64_hex_def require_string_def validate_hex_def starts_with_def)
qed

lemma derived_seed_range: "0 \<le> derive_validation_seed a b i \<and> derive_validation_seed a b i < 2 ^ 64"
proof -
  have "0 \<le> hex_int (take 16 (sha256 s)) \<and> hex_int (take 16 (sha256 s)) < 2 ^ 64" for s
  proof -
    have "list_all is_hex_digit (take 16 (sha256 s))"
      by (auto simp: list_all_iff is_hex_digit_def dest!: in_set_takeD dest: sha256_digits)
    from hex_int_range [OF this] show ?thesis by (simp add: length_sha256)
  qed
  then show ?thesis unfolding derive_validation_seed_def Let_def by blast
qed


section \<open>The preregistration\<close>

definition demo_seed :: int where
  "demo_seed = derive_validation_seed 0 ''regime'' 0"

definition demo_identity :: trial_identity where
  "demo_identity = \<lparr>ti_trial_id = ''trial'', ti_regime = ''regime'', ti_seed = u64_text demo_seed\<rparr>"

definition demo_trials :: json where
  "demo_trials = JList [JObj [(''trial_id'', JStr ''trial''), (''regime'', JStr ''regime''),
     (''seed'', JStr (u64_text demo_seed))]]"

definition demo_sizes :: obj where
  "demo_sizes = map (\<lambda>k. (k, JInt 1)) DATASET_KEYS"

definition demo_constants :: obj where
  "demo_constants = map (\<lambda>k. (k, if k = ''dimensions'' then JInt 8
     else if k = ''evidence_schema'' then JStr ''ravel/0.5'' else JInt 1)) CONSTANT_KEYS"

definition demo_gate :: "string \<Rightarrow> string \<Rightarrow> json \<Rightarrow> json" where
  "demo_gate metric operator threshold = JObj
     [(''gate_id'', JStr metric), (''metric'', JStr metric), (''operator'', JStr operator),
      (''value'', threshold), (''rationale'', JStr ''declared'')]"

definition demo_seed_derivation :: json where
  "demo_seed_derivation = JObj
     [(''root_seed'', JStr (u64_text 0)), (''algorithm'', JStr ''sha256-first-u64-big-endian''),
      (''framing'', JStr (''root_seed_u64_be || utf8('' @ [CHR 0x27] @ ''validation'' @ [CHR 0x5C]
        @ ''0'' @ [CHR 0x27] @ '') || utf8(regime) || zero_byte || index_u32_be'')),
      (''validation_seeds_per_regime'', JInt 1)]"

definition demo_freeze :: json where
  "demo_freeze = JObj
     [(''state'', JStr ''FROZEN''), (''frozen_before_final_validation'', JBool True),
      (''development_corpus'', JStr ''corpus''), (''final_validation_use'', JStr ''one_shot'')]"

definition demo_rule :: json where
  "demo_rule = JObj
     [(''minimum_passing_trials'', JInt 1), (''minimum_passing_trials_per_regime'', JInt 1),
      (''all_integrity_gates_required'', JBool True)]"

definition demo_dispositions :: json where
  "demo_dispositions = JObj [(''tamper'', JObj [(''expected_disposition'', JStr ''reject''),
     (''expected_observation'', JBool True), (''rationale'', JStr ''declared'')])]"

definition demo_formal :: json where
  "demo_formal = JObj [(''mncs'', JStr ''UNKNOWN''), (''mncds'', JStr ''UNKNOWN''),
     (''promotion_authorized'', JBool False)]"

definition demo_preregistration :: json where
  "demo_preregistration = JObj
     [(''schema'', JStr ''ravel-preregistration/0.5''), (''study_id'', JStr ''study''),
      (''candidate_id'', JStr ''candidate''), (''freeze'', demo_freeze),
      (''seed_derivation'', demo_seed_derivation), (''datasets_per_trial'', JObj demo_sizes),
      (''dataset_prohibitions'', JList [JStr ''none'']), (''mechanism_constants'', JObj demo_constants),
      (''trials'', demo_trials), (''comparison_variants'', JList (map JStr demo_variant_names)),
      (''common_gates'', JList [demo_gate ''base_accuracy'' ''ge'' (JFloat (Fin 1))]),
      (''regime_gates'', JObj [(''regime'', JList [demo_gate ''expert_count'' ''eq'' (JInt 1)])]),
      (''global_pass_rule'', demo_rule), (''negative_test_dispositions'', demo_dispositions),
      (''formal_status_regardless_of_development_result'', demo_formal)]"

lemma u64_text_nonempty [simp]: "u64_text n \<noteq> []"
  by (simp add: u64_text_def)

lemma string_accepted: "s \<noteq> [] \<Longrightarrow> require_string (JStr s) c = Inr s"
  by simp

lemma int_accepted: "lo \<le> n \<Longrightarrow> require_int (JInt n) c lo None = Inr n"
  "lo \<le> n \<Longrightarrow> n \<le> hi \<Longrightarrow> require_int (JInt n) c lo (Some hi) = Inr n"
  by simp_all

lemma object_accepted: "require_object (JObj d) c = Inr d"
  by simp

lemma keys_accepted: "set (dict_keys d) = set keys \<Longrightarrow> require_exact_keys d keys c = Inr ()"
  by simp

lemmas accepted = string_accepted int_accepted object_accepted keys_accepted bool_accepted

lemma demo_seed_valid: "validate_u64_hex (JStr (u64_text demo_seed)) c = Inr demo_seed"
  using derived_seed_range by (intro u64_text_valid) (simp_all add: demo_seed_def)

lemma demo_trials_valid:
  "validate_trials demo_trials 0 = Inr \<lparr>ts_trials = [demo_identity], ts_regimes = [(''regime'', 1)]\<rparr>"
  by (simp add: validate_trials_def demo_trials_def nonempty_list_def validate_trial_identity_def
      accepted string_at_def demo_seed_valid demo_identity_def Let_def flip: demo_seed_def)

lemma demo_parts_valid:
  "validate_freeze demo_freeze = Inr ()"
  "validate_seed_derivation demo_seed_derivation = Inr (0, 1)"
  "validate_datasets (JObj demo_sizes) = Inr demo_sizes"
  "validate_prohibitions (JList [JStr ''none'']) = Inr ()"
  "validate_constants (JObj demo_constants) = Inr demo_constants"
  "validate_variants (JList (map JStr demo_variant_names)) = Inr demo_variant_names"
  "validate_global_rule demo_rule 1 1 = Inr \<lparr>gr_minimum_passing_trials = 1,
     gr_minimum_passing_trials_per_regime = 1, gr_all_integrity_gates_required = True\<rparr>"
  "validate_dispositions demo_dispositions = Inr ()"
  "validate_formal_status demo_formal = Inr ()"
  subgoal by code_simp
  subgoal by (simp add: validate_seed_derivation_def demo_seed_derivation_def accepted u64_text_valid
      insert_commute)
  subgoal by code_simp
  subgoal by code_simp
  subgoal by code_simp
  subgoal by code_simp
  subgoal by code_simp
  subgoal by code_simp
  subgoal by code_simp
  done

definition demo_common_gate :: gate where
  "demo_common_gate = \<lparr>ga_gate_id = ''base_accuracy'', ga_metric = JStr ''base_accuracy'',
     ga_operator = ''ge'', ga_value = JFloat (Fin 1), ga_rationale = JStr ''declared''\<rparr>"

definition demo_regime_gate :: gate where
  "demo_regime_gate = \<lparr>ga_gate_id = ''expert_count'', ga_metric = JStr ''expert_count'',
     ga_operator = ''eq'', ga_value = JInt 1, ga_rationale = JStr ''declared''\<rparr>"

definition demo_prereg :: preregistration where
  "demo_prereg = \<lparr>pg_payload = demo_preregistration, pg_study_id = ''study'',
     pg_datasets_per_trial = demo_sizes, pg_mechanism_constants = demo_constants,
     pg_trials = [demo_identity], pg_comparison_variants = demo_variant_names,
     pg_common_gates = [demo_common_gate], pg_regime_gates = [(''regime'', [demo_regime_gate])],
     pg_global_pass_rule = \<lparr>gr_minimum_passing_trials = 1, gr_minimum_passing_trials_per_regime = 1,
       gr_all_integrity_gates_required = True\<rparr>\<rparr>"

lemma demo_gates_valid:
  "validate_gate_list (JList [demo_gate ''base_accuracy'' ''ge'' (JFloat (Fin 1))]) ''common_gates'' = Inr [demo_common_gate]"
  "validate_gate_list (JList [demo_gate ''expert_count'' ''eq'' (JInt 1)]) context = Inr [demo_regime_gate]"
  by code_simp+

lemma demo_regimes_valid:
  "check_regimes [(''regime'', 1)] (JObj [(''regime'', JList [g])]) 1 = Inr ()"
  by (simp add: check_regimes_def set_elements_def equals_strings_def)

lemma demo_prereg_valid: "validate_preregistration demo_preregistration = Inr demo_prereg"
proof -
  have keys: "\<And>a b c d e f g h i j k l m n q. require_exact_keys
      [(''schema'', a), (''study_id'', b), (''candidate_id'', c), (''freeze'', d), (''seed_derivation'', e),
       (''datasets_per_trial'', f), (''dataset_prohibitions'', g), (''mechanism_constants'', h),
       (''trials'', i), (''comparison_variants'', j), (''common_gates'', k), (''regime_gates'', l),
       (''global_pass_rule'', m), (''negative_test_dispositions'', n),
       (''formal_status_regardless_of_development_result'', q)] PREREGISTRATION_KEYS ''preregistration'' = Inr ()"
    by (simp add: PREREGISTRATION_KEYS_def)
  show ?thesis
    unfolding validate_preregistration_def
    by (subst demo_preregistration_def)
      (simp add: keys accepted string_at_def demo_parts_valid demo_trials_valid demo_regimes_valid
        demo_gates_valid dict_of_def demo_prereg_def)
qed

section \<open>The raw evidence\<close>

definition demo_dataset_seeds :: obj where
  "demo_dataset_seeds = map (\<lambda>(name, n). (name, JStr (u64_text n))) (expected_dataset_seeds demo_seed)"

definition demo_checkpoint :: json where
  "demo_checkpoint = JObj
     [(''magic_hex'', JStr ''524156454c303500''), (''schema_version'', JInt 1),
      (''byte_order'', JStr ''big_endian''), (''real_encoding'', JStr ''signed_q20_int64''),
      (''payload_digest'', JStr ''sha256''), (''transition_top_k'', JInt 1),
      (''transition_support_min'', JInt 1)]"

definition demo_trial :: json where
  "demo_trial = JObj
     [(''schema'', JStr ''ravel-raw-trial/0.5''), (''trial_id'', JStr ''trial''),
      (''regime'', JStr ''regime''), (''seed'', JStr (u64_text demo_seed)),
      (''dataset_seeds'', JObj demo_dataset_seeds), (''dataset_sizes'', JObj demo_sizes),
      (''checkpoint_format'', demo_checkpoint), (''candidate'', demo_candidate),
      (''integrity'', demo_integrity),
      (''comparisons'', JObj (map (\<lambda>n. (n, demo_variant)) demo_variant_names))]"

definition demo_raw :: json where
  "demo_raw = JObj
     [(''schema'', JStr ''ravel-raw-observations/0.5''),
      (''preregistration'', JStr ''ravel-0.5-preregistration.json''),
      (''preregistration_sha256'', JStr (sha256 (json_dumps demo_preregistration @ [CHR 0x0A]))),
      (''trials'', JList [demo_trial]),
      (''self_tests_sha256'', JStr (replicate 64 (CHR 0x30)))]"

lemma seeds_parsed:
  "(\<forall>(name, n) \<in> set e. 0 \<le> n \<and> n < 2 ^ 64) \<Longrightarrow>
     map_res (\<lambda>(name, x). bind_res (validate_u64_hex x (f name)) (\<lambda>n. Inr (name, n)))
       (map (\<lambda>(name, n). (name, JStr (u64_text n))) e) = Inr e"
proof (induction e)
  case (Cons p e)
  then have "validate_u64_hex (JStr (u64_text (snd p))) c = Inr (snd p)" for c
    by (intro u64_text_valid) auto
  with Cons show ?case by (simp add: case_prod_beta)
qed simp

lemma demo_seeds_valid: "validate_dataset_seeds (JObj demo_dataset_seeds) context demo_seed = Inr ()"
proof -
  have keys: "dict_keys demo_dataset_seeds = DATASET_KEYS"
    by (simp add: demo_dataset_seeds_def expected_seeds_keys comp_def case_prod_beta)
  have "\<forall>(name, n) \<in> set (expected_dataset_seeds demo_seed). 0 \<le> n \<and> n < 2 ^ 64"
  proof -
    have "\<exists>m. n = mix64 m" if "(name, n) \<in> set (expected_dataset_seeds demo_seed)" for name n
      using that by (auto simp: expected_dataset_seeds_def)
    then show ?thesis using mix64_range by blast
  qed
  then have parsed: "map_res (\<lambda>(name, x). bind_res (validate_u64_hex x (context @ ''.dataset_seeds.'' @ name)) (\<lambda>n.
       Inr (name, n))) demo_dataset_seeds = Inr (expected_dataset_seeds demo_seed)"
    unfolding demo_dataset_seeds_def by (rule seeds_parsed)
  have "card (set (dict_values (expected_dataset_seeds demo_seed))) = length (expected_dataset_seeds demo_seed)"
    using distinct_card [OF expected_seeds_distinct [of demo_seed]] by simp
  moreover have "dict_eq (expected_dataset_seeds demo_seed) (expected_dataset_seeds demo_seed)"
    using expected_seeds_keys [of demo_seed] by (auto simp: dict_eq_def list_all_iff DATASET_KEYS_def intro!: map_of_is_SomeI)
  ultimately show ?thesis
    unfolding validate_dataset_seeds_def by (simp add: accepted keys parsed [simplified])
qed

lemma demo_checkpoint_valid: "validate_checkpoint_format demo_checkpoint context demo_constants = Inr ()"
  by code_simp

lemma demo_sizes_equal: "json_eq (JObj demo_sizes) (JObj demo_sizes)"
  by code_simp

lemma demo_trial_valid: "validate_trial demo_trial demo_identity demo_prereg = Inr (demo_record (u64_text demo_seed))"
proof -
  have keys: "\<And>a b c d e f g h i j w. require_exact_keys
      [(''schema'', a), (''trial_id'', b), (''regime'', c), (''seed'', d), (''dataset_seeds'', e),
       (''dataset_sizes'', f), (''checkpoint_format'', g), (''candidate'', h), (''integrity'', i),
       (''comparisons'', j)] TRIAL_KEYS w = Inr ()"
    by (simp add: TRIAL_KEYS_def)
  have sizes: "require_exact_keys demo_sizes DATASET_KEYS w = Inr ()" for w
    by (simp add: demo_sizes_def flag_keys)
  have agrees: "candidate_agrees demo_variant_record demo_candidate_record"
    by (simp add: candidate_agrees_def demo_variant_record_def demo_candidate_record_def)
  have candidate: "dict_at ''ravel_0_5_candidate'' (map (\<lambda>n. (n, demo_variant_record)) demo_variant_names)
      ''ravel_0_5_candidate'' = Inr demo_variant_record"
    by (simp add: demo_variant_names_def)
  show ?thesis
    unfolding validate_trial_def
    by (simp add: demo_trial_def demo_identity_def demo_prereg_def keys accepted check_identity_def
        demo_seed_valid demo_seeds_valid sizes demo_sizes_equal demo_checkpoint_valid
        demo_candidate_valid demo_integrity_valid demo_comparisons_valid candidate agrees demo_record_def Let_def)
qed

section \<open>The evaluation\<close>

lemma demo_gates_judged:
  "apply_gate (demo_own_metrics @ demo_compared_metrics) demo_common_gate =
     Inr \<lparr>gt_gate = demo_common_gate, gt_observed = JFloat (Fin 1), gt_pass = True\<rparr>"
  "apply_gate (demo_own_metrics @ demo_compared_metrics) demo_regime_gate =
     Inr \<lparr>gt_gate = demo_regime_gate, gt_observed = JInt 1, gt_pass = True\<rparr>"
proof -
  have "dict_get (demo_own_metrics @ demo_compared_metrics) ''base_accuracy'' = Some (JFloat (Fin 1))"
    "dict_get (demo_own_metrics @ demo_compared_metrics) ''expert_count'' = Some (JInt 1)"
    by (simp_all add: demo_own_metrics_def)
  then show "apply_gate (demo_own_metrics @ demo_compared_metrics) demo_common_gate =
     Inr \<lparr>gt_gate = demo_common_gate, gt_observed = JFloat (Fin 1), gt_pass = True\<rparr>"
    "apply_gate (demo_own_metrics @ demo_compared_metrics) demo_regime_gate =
     Inr \<lparr>gt_gate = demo_regime_gate, gt_observed = JInt 1, gt_pass = True\<rparr>"
    by (simp_all add: apply_gate_def gate_passes_def compare_numbers_def json_eq.simps feq_def
      demo_common_gate_def demo_regime_gate_def)
qed

text \<open>A series is a list of values per name; fresh names start fresh series.\<close>

lemma add_series_fresh:
  "distinct (dict_keys series @ dict_keys metrics) \<Longrightarrow>
     foldl add_series series metrics = series @ map (\<lambda>(n, v). (n, [v])) (filter (\<lambda>(n, v). \<not> is_bool v) metrics)"
proof (induction metrics arbitrary: series)
  case (Cons p metrics)
  have key: "fst p \<notin> set (dict_keys series)" using Cons.prems by auto
  then have fresh: "dict_get series (fst p) = None" by (simp add: map_of_eq_None_iff)
  show ?case
  proof (cases "is_bool (snd p)")
    case True
    with Cons show ?thesis by (simp add: add_series_def case_prod_beta)
  next
    case False
    then have "add_series series p = series @ [(fst p, [snd p])]"
      by (simp add: add_series_def case_prod_beta fresh dict_set_fresh [OF key])
    with Cons False show ?thesis by (simp add: case_prod_beta)
  qed
qed simp

lemma demo_names_distinct: "distinct (dict_keys (demo_own_metrics @ demo_compared_metrics))"
  by code_simp

definition plain :: "json \<Rightarrow> bool" where
  "plain v \<longleftrightarrow> v \<in> {JInt 0, JInt 1, JFloat (Fin 0), JFloat (Fin 1)}"

lemma demo_metrics_plain: "\<forall>(n, v) \<in> set (demo_own_metrics @ demo_compared_metrics). is_bool v \<or> plain v"
  by (simp add: demo_own_metrics_def demo_compared_metrics_def plain_def)

lemma plain_aggregates: "plain v \<Longrightarrow> \<exists>s. aggregate_series [v] = Inr s"
  by (auto simp: plain_def aggregate_series_def median_def sort_floats_def fmean_def pstdev_def
      float_of_int_def)

lemma demo_aggregates:
  "\<exists>aggregates. map_res (\<lambda>(name, vs). bind_res (aggregate_series vs) (\<lambda>s. Inr (name, s)))
     (foldl add_series [] (demo_own_metrics @ demo_compared_metrics)) = Inr aggregates"
proof -
  have "\<exists>ys. map_res f xs = Inr ys" if "\<forall>x \<in> set xs. \<exists>y. f x = Inr y" for f :: "string \<times> json list \<Rightarrow> (string \<times> series_summary) res" and xs
    using that by (induction xs) auto
  moreover have "\<exists>y. bind_res (aggregate_series [v]) (\<lambda>s. Inr (name, s)) = Inr y"
    if "(name, v) \<in> set (demo_own_metrics @ demo_compared_metrics)" "\<not> is_bool v" for name v
    using demo_metrics_plain plain_aggregates [of v] that by fastforce
  moreover have "foldl add_series [] (demo_own_metrics @ demo_compared_metrics) =
      [] @ map (\<lambda>(n, v). (n, [v])) (filter (\<lambda>(n, v). \<not> is_bool v) (demo_own_metrics @ demo_compared_metrics))"
    by (rule add_series_fresh) (use demo_names_distinct in simp)
  ultimately show ?thesis by (simp del: map_append filter_append)
qed

lemma demo_payload: "all_finite demo_preregistration"
  by (simp add: demo_preregistration_def demo_freeze_def demo_seed_derivation_def demo_sizes_def demo_constants_def
      demo_trials_def demo_gate_def demo_rule_def demo_dispositions_def demo_formal_def list_all_iff)

lemma demo_raw_valid: "validate_raw demo_raw demo_prereg = Inr [demo_trial]"
proof -
  have keys: "\<And>a b c d e. require_exact_keys [(''schema'', a), (''preregistration'', b),
      (''preregistration_sha256'', c), (''trials'', d), (''self_tests_sha256'', e)] RAW_KEYS ''raw'' = Inr ()"
    by (simp add: RAW_KEYS_def)
  have hex: "validate_hex (JStr (replicate 64 (CHR 0x30))) c 64 = Inr (replicate 64 (CHR 0x30))" for c
    by (simp add: validate_hex_def require_string_def is_hex_digit_def list_all_length)
  show ?thesis
    unfolding validate_raw_def demo_raw_def
    by (simp add: keys hex accepted sha256_json_def ravel_canonical_bytes_def demo_prereg_def demo_payload
        list_of_length_def)
qed

lemma demo_evaluated: "\<exists>ev. evaluate demo_raw demo_preregistration = Inr ev"
proof -
  have comparisons: "\<exists>c. compare_variants (demo_record seed) views = Inr c" for seed views
    by (simp add: compare_variants_def demo_variants_derived)
  obtain c where c: "compare_variants (demo_record (u64_text demo_seed)) demo_views = Inr c"
    using comparisons by blast
  have own: "tr_candidate (demo_record seed) = demo_candidate_record" "tr_regime (demo_record seed) = ''regime''" for seed
    by (simp_all add: demo_record_def)
  have "\<exists>e. evaluate_trial demo_prereg demo_trial demo_identity = Inr e \<and> te_regime e = ''regime'' \<and>
      te_metrics e = demo_own_metrics @ demo_compared_metrics"
    unfolding evaluate_trial_def
    by (simp add: demo_trial_valid demo_metrics_derived own c demo_views_derived)
      (simp add: demo_prereg_def demo_gates_judged)
  then obtain e where e: "evaluate_trial demo_prereg demo_trial demo_identity = Inr e"
    and regime: "te_regime e = ''regime''" and metrics: "te_metrics e = demo_own_metrics @ demo_compared_metrics" by blast
  have trials: "pg_trials demo_prereg = [demo_identity]" and start: "start_evaluation demo_prereg =
      \<lparr>es_trials = [], es_series = [], es_passing = 0, es_passing_by_regime = [(''regime'', 0)]\<rparr>"
    by (simp_all add: demo_prereg_def start_evaluation_def)
  show ?thesis
    using demo_aggregates
    by (auto simp: evaluate_def demo_prereg_valid demo_raw_valid trials start evaluation_step_def e regime
        metrics sha256_json_def ravel_canonical_bytes_def demo_payload)
qed

section \<open>Other inputs\<close>

definition demo_unpredicted :: json where
  "demo_unpredicted = (case demo_eval of JObj d \<Rightarrow> JObj (dict_set ''prediction_samples'' (JInt 0) d) | v \<Rightarrow> v)"

definition demo_unpredicted_record :: eval_record where
  "demo_unpredicted_record = demo_eval_record \<lparr>ev_prediction_samples := 0\<rparr>"

definition demo_quality :: "rat \<Rightarrow> int \<Rightarrow> quality_metrics" where
  "demo_quality accuracy bytes = \<lparr>qm_drift_accuracy = Fin accuracy, qm_retention_accuracy = Fin 1,
     qm_reconstruction_rmse = Fin 0, qm_prediction_rmse = Fin 0, qm_planning_exact_state_rate = Fin 1,
     qm_planning_belief_set_rate = Fin 1, qm_expert_evaluations = 1, qm_training_evaluations = 1,
     qm_expert_count = 1, qm_checkpoint_size_bytes = bytes\<rparr>"

end
