(* ===== verification/RavelProperties.thy ===== *)
theory RavelProperties
  imports RavelDemo
begin

text \<open>
  The properties of the RAVEL 0.5 evaluator, each with its witness on the preregistration and the
  raw evidence of \<^verbatim>\<open>RavelDemo\<close>.
\<close>

section \<open>The verdict\<close>



section \<open>The frozen authority\<close>

text \<open>
  C30: an accepted preregistration names every trial and every seed once; the seeds of each regime
  are, in order, those derived from the root seed for indices 0, 1, 2 and so on; each regime has the
  declared number of trials and a gate list of its own; gate identities are unique within a list and
  thresholds finite; and the rule asks for no more passing trials than there are.
\<close>

theorem preregistration_frozen:
  assumes "validate_preregistration v = Inr p"
  shows "\<exists>d sd root_seed per_regime. v = JObj d \<and> dict_get d ''seed_derivation'' = Some sd \<and>
    validate_seed_derivation sd = Inr (root_seed, per_regime) \<and>
    distinct (map ti_trial_id (pg_trials p)) \<and> distinct (map ti_seed (pg_trials p)) \<and>
    (\<forall>regime. \<forall>i < length (of_regime regime (pg_trials p)).
       validate_u64_hex (JStr (ti_seed (of_regime regime (pg_trials p) ! i))) ''seed'' =
         Inr (derive_validation_seed root_seed regime (int i))) \<and>
    set (dict_keys (pg_regime_gates p)) = ti_regime ` set (pg_trials p) \<and>
    (\<forall>t \<in> set (pg_trials p). int (length (of_regime (ti_regime t) (pg_trials p))) = per_regime) \<and>
    gates_ok (pg_common_gates p) \<and> (\<forall>(regime, gs) \<in> set (pg_regime_gates p). gates_ok gs) \<and>
    rule_ok (int (length (pg_trials p))) per_regime (pg_global_pass_rule p)"
  using validate_preregistration_ok [OF assms] unfolding prereg_ok_def seeds_derived_def .

theorem preregistration_frozen_witness:
  "validate_preregistration demo_preregistration = Inr demo_prereg \<and>
   distinct (map ti_seed (pg_trials demo_prereg)) \<and> gates_ok (pg_common_gates demo_prereg)"
  using preregistration_frozen [OF demo_prereg_valid] demo_prereg_valid by blast

text \<open>
  The six dataset seeds a trial seed yields are always different, so a trial with the derived
  seeds never fails the collision check.
\<close>

theorem dataset_seeds_distinct:
  "distinct (dict_values (expected_dataset_seeds trial_seed)) \<and>
   dict_keys (expected_dataset_seeds trial_seed) = DATASET_KEYS"
  by (simp only: expected_seeds_distinct expected_seeds_keys simp_thms)



section \<open>Derived metrics\<close>

text \<open>
  Whatever the metrics derived from an accepted evaluation record are, accuracies and rates lie
  between 0 and 1 and the root mean squares are finite and not negative.
\<close>

theorem eval_metrics_bounded:
  assumes "validate_eval v context = Inr r" and "derive_eval r = Inr m"
  shows "rate (em_accuracy m) \<and> rate (em_transition_accuracy m) \<and> rate (em_transition_support_rate m) \<and>
    root_mean (em_reconstruction_rmse m) \<and> root_mean (em_prediction_rmse m)"
  using derive_eval_ok [OF validate_eval_ok [OF assms(1)] assms(2)] unfolding metrics_ok_def .

theorem eval_metrics_bounded_witness:
  "validate_eval demo_eval ''record'' = Inr demo_eval_record \<and> derive_eval demo_eval_record = Inr demo_eval_metrics \<and>
   rate (em_accuracy demo_eval_metrics) \<and> root_mean (em_prediction_rmse demo_eval_metrics)"
  using eval_metrics_bounded [OF demo_eval_valid demo_eval_derived] demo_eval_valid demo_eval_derived by blast

text \<open>
  C32: for an accepted record of moderate size the derivation returns, except that it raises on a
  record with no samples and on one with no prediction samples; the validator lets both through.
\<close>

theorem derive_eval_outcome:
  assumes "validate_eval v context = Inr r" and "eval_bounded r"
  shows "if ev_samples r = 0 then derive_eval r = Inl (EvaluationError ''evaluation has zero samples'')
    else if ev_prediction_samples r = 0
    then derive_eval r = Inl (EvaluationError ''derived evaluation contains non-finite metric'')
    else \<exists>m. derive_eval r = Inr m"
  by (rule derive_eval_decides [OF validate_eval_ok [OF assms(1)] assms(2)])

theorem derive_eval_outcome_witness:
  "validate_eval demo_unpredicted ''record'' = Inr demo_unpredicted_record \<and>
   derive_eval demo_unpredicted_record = Inl (EvaluationError ''derived evaluation contains non-finite metric'')"
proof -
  have valid: "validate_eval demo_unpredicted ''record'' = Inr demo_unpredicted_record" by code_simp
  have "eval_bounded demo_unpredicted_record"
    "ev_samples demo_unpredicted_record = 1" "ev_prediction_samples demo_unpredicted_record = 0"
    by (simp_all add: eval_bounded_def demo_unpredicted_record_def demo_eval_record_def)
  with derive_eval_outcome [OF valid] valid show ?thesis by simp
qed

section \<open>The Pareto relation\<close>



end
