(* ===== verification/RavelEvidence.thy ===== *)
theory RavelEvidence
  imports RavelEvaluate
begin

text \<open>
  \<^verbatim>\<open>case-studies/ravel/tools/ravel_0_5_evidence.py\<close>: the mutation tests of the evaluator and the
  negative evidence.  The evidence dictionary that \<open>evaluate\<close> returns is rendered here, since a
  mutation is also rejected when it changes these bytes.  Running the RAVEL executable, the copies
  of the source tree for the manifest mutations and the reading and writing of the package are input
  and output and are not modelled; \<open>EvidenceError\<close> is a \<open>RuntimeError\<close>, as \<open>EvaluationError\<close> is.
\<close>

section \<open>The evidence as JSON\<close>

definition verdict_text :: "bool \<Rightarrow> json" where
  "verdict_text b = JStr (if b then ''PASS'' else ''FAIL'')"

definition gate_result_json :: "gate_result \<Rightarrow> json" where
  "gate_result_json r =
     (let g = gt_gate r in JObj
        [(''gate_id'', JStr (ga_gate_id g)), (''metric'', ga_metric g), (''operator'', JStr (ga_operator g)),
         (''threshold'', ga_value g), (''observed'', gt_observed r), (''pass'', JBool (gt_pass r)),
         (''rationale'', ga_rationale g)])"

definition quality_json :: "quality_metrics \<Rightarrow> json" where
  "quality_json m = JObj
     [(''drift_accuracy'', JFloat (qm_drift_accuracy m)), (''retention_accuracy'', JFloat (qm_retention_accuracy m)),
      (''reconstruction_rmse'', JFloat (qm_reconstruction_rmse m)), (''prediction_rmse'', JFloat (qm_prediction_rmse m)),
      (''planning_exact_state_rate'', JFloat (qm_planning_exact_state_rate m)),
      (''planning_belief_set_rate'', JFloat (qm_planning_belief_set_rate m)),
      (''expert_evaluations'', JInt (qm_expert_evaluations m)),
      (''training_evaluations'', JInt (qm_training_evaluations m)), (''expert_count'', JInt (qm_expert_count m)),
      (''checkpoint_size_bytes'', JInt (qm_checkpoint_size_bytes m))]"

definition variant_evidence_json :: "variant_evidence \<Rightarrow> json" where
  "variant_evidence_json v = JObj
     [(''metrics'', quality_json (ve_metrics v)),
      (''paired_delta_candidate_minus_variant'', quality_json (ve_delta v)),
      (''pareto_relation'', JStr (ve_pareto_relation v))]"

definition trial_evidence_json :: "trial_evidence \<Rightarrow> json" where
  "trial_evidence_json t = JObj
     [(''trial_id'', JStr (te_trial_id t)), (''regime'', JStr (te_regime t)), (''seed'', JStr (te_seed t)),
      (''metrics'', JObj (te_metrics t)), (''gates'', JList (map gate_result_json (te_gates t))),
      (''trial_result'', verdict_text (te_pass t)),
      (''comparisons'', JObj (map (\<lambda>(name, v). (name, variant_evidence_json v)) (te_comparisons t)))]"

definition series_summary_json :: "series_summary \<Rightarrow> json" where
  "series_summary_json s = JObj
     [(''minimum'', JFloat (ss_minimum s)), (''median'', JFloat (ss_median s)), (''maximum'', JFloat (ss_maximum s)),
      (''arithmetic_mean'', JFloat (ss_arithmetic_mean s)),
      (''population_standard_deviation'', JFloat (ss_population_standard_deviation s))]"

definition evidence_json :: "ravel_evidence \<Rightarrow> json" where
  "evidence_json e = JObj
     [(''schema'', JStr ''ravel-trial-evidence/0.5''), (''study_id'', JStr (rv_study_id e)),
      (''preregistration_sha256'', JStr (rv_preregistration_sha256 e)),
      (''trial_summary'', JObj
         [(''declared'', JInt (rv_declared e)), (''passing'', JInt (rv_passing e)), (''failing'', JInt (rv_failing e)),
          (''minimum_passing_trials'', JInt (rv_minimum_passing_trials e)),
          (''passing_by_regime'', JObj (map (\<lambda>(regime, n). (regime, JInt n)) (rv_passing_by_regime e))),
          (''minimum_passing_trials_per_regime'', JInt (rv_minimum_passing_trials_per_regime e))]),
      (''trials'', JList (map trial_evidence_json (rv_trials e))),
      (''aggregates'', JObj (map (\<lambda>(name, s). (name, series_summary_json s)) (rv_aggregates e))),
      (''development_result'', verdict_text (rv_development_pass e)), (''evidence_reproduction'', JStr ''PASS''),
      (''formal_mncs_status'', JStr (rv_formal_mncs_status e)),
      (''formal_mncds_status'', JStr (rv_formal_mncds_status e)),
      (''promotion_authorized'', JBool (rv_promotion_authorized e))]"

section \<open>Mutations\<close>

text \<open>\<open>d[k] = f(d[k])\<close>, \<open>xs[0] = f(xs[0])\<close> and \<open>d[k] = x\<close> on a deep copy.\<close>

definition at_member :: "string \<Rightarrow> (json \<Rightarrow> json res) \<Rightarrow> json \<Rightarrow> json res" where
  "at_member k f v =
     (case v of
        JObj d \<Rightarrow> bind_res (obj_at d k) (\<lambda>x. bind_res (f x) (\<lambda>y. Inr (JObj (dict_set k y d))))
      | _ \<Rightarrow> Inl (TypeError ''not subscriptable by a key''))"

definition at_first :: "(json \<Rightarrow> json res) \<Rightarrow> json \<Rightarrow> json res" where
  "at_first f v =
     (case v of
        JList [] \<Rightarrow> Inl IndexError
      | JList (x # xs) \<Rightarrow> bind_res (f x) (\<lambda>y. Inr (JList (y # xs)))
      | JObj d \<Rightarrow> Inl (KeyError ''0'')
      | _ \<Rightarrow> Inl (TypeError ''item assignment''))"

definition set_member :: "string \<Rightarrow> json \<Rightarrow> json \<Rightarrow> json res" where
  "set_member k x v =
     (case v of JObj d \<Rightarrow> Inr (JObj (dict_set k x d)) | _ \<Rightarrow> Inl (TypeError ''item assignment''))"

definition decrement :: "json \<Rightarrow> json res" where
  "decrement v =
     (case v of
        JInt n \<Rightarrow> Inr (JInt (n - 1))
      | JBool b \<Rightarrow> Inr (JInt (of_bool b - 1))
      | JFloat x \<Rightarrow> Inr (JFloat (x - Fin 1))
      | _ \<Rightarrow> Inl (TypeError ''unsupported operand type(s) for -=''))"

definition in_first_trial :: "(json \<Rightarrow> json res) \<Rightarrow> json \<Rightarrow> json res" where
  "in_first_trial f raw = at_member ''trials'' (at_first f) raw"

definition raw_metric_mutation :: "json \<Rightarrow> json res" where
  "raw_metric_mutation =
     in_first_trial (at_member ''candidate'' (at_member ''adapted_model_drift_holdout'' (at_member ''correct'' decrement)))"

definition threshold_mutation :: "json \<Rightarrow> json res" where
  "threshold_mutation =
     at_member ''common_gates'' (at_first (at_member ''value'' (\<lambda>v. Inr (JBool (\<not> truthy v)))))"

definition ZERO_SEED :: string where
  "ZERO_SEED = ''0x0000000000000000''"

text \<open>\<open>next(trial["regime"] for trial in prereg["trials"] if trial["regime"] != original)\<close>\<close>

fun other_regime :: "json \<Rightarrow> json list \<Rightarrow> json res" where
  "other_regime original [] = Inl StopIteration"
| "other_regime original (trial # trials) =
     bind_res (item_of trial ''regime'') (\<lambda>regime.
       if json_eq regime original then other_regime original trials else Inr regime)"

definition change_regime :: "json \<Rightarrow> json \<Rightarrow> json res" where
  "change_regime prereg trial =
     bind_res (item_of trial ''regime'') (\<lambda>original.
     bind_res (bind_res (item_of prereg ''trials'') iterate) (\<lambda>trials.
     bind_res (other_regime original trials) (\<lambda>regime.
       set_member ''regime'' regime trial)))"

definition regime_mutation :: "json \<Rightarrow> json \<Rightarrow> json res" where
  "regime_mutation raw prereg = in_first_trial (change_regime prereg) raw"

section \<open>Observations\<close>

definition expect_rejection :: "'a res \<Rightarrow> bool res" where
  "expect_rejection m =
     (case m of
        Inr x \<Rightarrow> Inr False
      | Inl (RuntimeError message) \<Rightarrow> Inr True
      | Inl e \<Rightarrow> Inl e)"

definition reject_changed_derivation :: "json \<Rightarrow> json \<Rightarrow> json \<Rightarrow> unit res" where
  "reject_changed_derivation raw prereg canonical_trial =
     bind_res (evaluate raw prereg) (\<lambda>changed.
     bind_res (ravel_canonical_bytes (evidence_json changed)) (\<lambda>derived.
     bind_res (ravel_canonical_bytes canonical_trial) (\<lambda>expected.
       guard_res (derived \<noteq> expected)
         (RuntimeError ''raw mutation changed independently derived evidence''))))"

definition evaluator_mutation_observations :: "json \<Rightarrow> json \<Rightarrow> json \<Rightarrow> (string, bool) dict res" where
  "evaluator_mutation_observations raw prereg canonical_trial =
     bind_res (raw_metric_mutation raw) (\<lambda>metric.
     bind_res (expect_rejection (reject_changed_derivation metric prereg canonical_trial)) (\<lambda>metric_rejected.
     bind_res (threshold_mutation prereg) (\<lambda>threshold.
     bind_res (expect_rejection (evaluate raw threshold)) (\<lambda>threshold_rejected.
     bind_res (in_first_trial (set_member ''trial_result'' (JStr ''PASS'')) raw) (\<lambda>trial_result.
     bind_res (expect_rejection (evaluate trial_result prereg)) (\<lambda>result_rejected.
     bind_res (in_first_trial (set_member ''hard_gate'' (JBool True)) raw) (\<lambda>gate_boolean.
     bind_res (expect_rejection (evaluate gate_boolean prereg)) (\<lambda>boolean_rejected.
     bind_res (in_first_trial (set_member ''seed'' (JStr ZERO_SEED)) raw) (\<lambda>seed.
     bind_res (expect_rejection (evaluate seed prereg)) (\<lambda>seed_rejected.
     bind_res (regime_mutation raw prereg) (\<lambda>regime.
     bind_res (expect_rejection (evaluate regime prereg)) (\<lambda>regime_rejected.
     bind_res (set_member ''development_result'' (JStr ''PASS'') raw) (\<lambda>aggregate.
     bind_res (expect_rejection (evaluate aggregate prereg)) (\<lambda>aggregate_rejected.
       Inr [(''raw_metric_mutation'', metric_rejected), (''threshold_mutation'', threshold_rejected),
            (''executable_trial_result_injection'', result_rejected),
            (''executable_gate_boolean_injection'', boolean_rejected), (''seed_mutation'', seed_rejected),
            (''regime_mutation'', regime_rejected), (''aggregate_mutation'', aggregate_rejected)]))))))))))))))"

section \<open>Negative evidence\<close>

record negative_test =
  nt_expected_disposition :: json
  nt_expected_observation :: json
  nt_observed :: bool
  nt_pass :: bool
  nt_rationale :: json

record negative_evidence =
  ne_self_test_observations_sha256 :: string
  ne_replay_observations :: json
  ne_sparse_replay_observations :: json
  ne_tests :: "(string, negative_test) dict"
  ne_all_negative_tests_pass :: bool

definition fixture_observation :: "(string, bool) dict \<Rightarrow> string \<times> json \<Rightarrow> (string, bool) dict res" where
  "fixture_observation observations = (\<lambda>(name, fixture).
     case fixture of
       JObj d \<Rightarrow>
         if set (dict_keys d) \<noteq> {''observed''}
         then Inl (RuntimeError (''self-test fixture '' @ name @ '' is malformed''))
         else bind_res (obj_at d ''observed'') (\<lambda>observed.
           case observed of
             JBool b \<Rightarrow> Inr (dict_set name b observations)
           | _ \<Rightarrow> Inl (RuntimeError (''self-test fixture '' @ name @ '' is not boolean'')))
     | _ \<Rightarrow> Inl (RuntimeError (''self-test fixture '' @ name @ '' is malformed'')))"

definition dict_update :: "(string, 'v) dict \<Rightarrow> (string, 'v) dict \<Rightarrow> (string, 'v) dict" where
  "dict_update d e = foldl (\<lambda>acc (k, v). dict_set k v acc) d e"

definition judge_observation :: "obj \<Rightarrow> (string, bool) dict \<Rightarrow> string \<Rightarrow> (string \<times> negative_test) res" where
  "judge_observation dispositions observations name =
     bind_res (obj_at dispositions name) (\<lambda>authority.
     bind_res (dict_at name observations name) (\<lambda>observed.
     bind_res (item_of authority ''expected_observation'') (\<lambda>expected.
     bind_res (item_of authority ''expected_disposition'') (\<lambda>disposition.
     bind_res (item_of authority ''rationale'') (\<lambda>rationale.
       Inr (name, \<lparr>nt_expected_disposition = disposition, nt_expected_observation = expected,
         nt_observed = observed, nt_pass = (expected = JBool observed), nt_rationale = rationale\<rparr>))))))"

definition derive_negative ::
  "obj \<Rightarrow> json \<Rightarrow> (string, bool) dict \<Rightarrow> (string, bool) dict \<Rightarrow> obj \<Rightarrow> negative_evidence res" where
  "derive_negative self_tests prereg evaluator_observations manifest_observations raw =
     (case get_or_null self_tests ''fixtures'' of
        JObj fixtures \<Rightarrow>
          bind_res (fold_res fixture_observation [] fixtures) (\<lambda>fixture_observations.
          bind_res (sha256_json (JObj raw)) (\<lambda>raw_digest.
          bind_res (sha256_json (JObj (dict_set ''schema'' (JStr ''mutated'') raw))) (\<lambda>mutated_digest.
          let observations = dict_update (dict_update fixture_observations evaluator_observations) manifest_observations;
              observations = dict_set ''evidence_file_mutation'' (raw_digest \<noteq> mutated_digest) observations;
              observations = dict_set ''nondeterministic_output_detection'' True observations
          in
          bind_res (bind_res (item_of prereg ''negative_test_dispositions'') (\<lambda>v.
            case v of JObj d \<Rightarrow> Inr d | _ \<Rightarrow> Inl (TypeError ''dispositions''))) (\<lambda>dispositions.
          bind_res (guard_res (set (dict_keys observations) \<noteq> set (dict_keys dispositions))
            (RuntimeError (''negative fixture/disposition mismatch: missing=''
               @ str_list (sort (filter (\<lambda>k. k \<notin> set (dict_keys observations)) (dict_keys dispositions)))
               @ '' unknown='' @ str_list (sort (filter (\<lambda>k. k \<notin> set (dict_keys dispositions)) (dict_keys observations)))))) (\<lambda>_.
          bind_res (map_res (judge_observation dispositions observations) (sort (dict_keys dispositions))) (\<lambda>tests.
          bind_res (sha256_json (JObj self_tests)) (\<lambda>self_digest.
          bind_res (obj_at self_tests ''replay_observations'') (\<lambda>replay.
          bind_res (obj_at self_tests ''sparse_replay_observations'') (\<lambda>sparse.
            Inr \<lparr>ne_self_test_observations_sha256 = self_digest, ne_replay_observations = replay,
                 ne_sparse_replay_observations = sparse, ne_tests = tests,
                 ne_all_negative_tests_pass = list_all (\<lambda>(name, t). nt_pass t) tests\<rparr>)))))))))
      | _ \<Rightarrow> Inl (RuntimeError ''self-test fixtures are missing''))"

end
