(* ===== verification/RavelEvidenceProofs.thy ===== *)
theory RavelEvidenceProofs
  imports RavelEvidence RavelProofs PyJsonRoundtrip
begin

text \<open>
  Why each mutation of the raw evidence or of the preregistration is rejected: the check that
  refuses it, and that no other error comes first.
\<close>

section \<open>Rejections\<close>

definition raises_evaluation :: "'a res \<Rightarrow> bool" where
  "raises_evaluation m \<longleftrightarrow> (\<exists>message. m = Inl (RuntimeError message))"

lemma rejected_bind: "raises_evaluation m \<Longrightarrow> raises_evaluation (bind_res m f)"
  by (auto simp: raises_evaluation_def)

lemma rejected_refuse [simp]: "raises_evaluation (bind_res (refuse True message) f)"
  by (simp add: raises_evaluation_def EvaluationError_def)

lemma expect_rejected: "raises_evaluation m \<Longrightarrow> expect_rejection m = Inr True"
  by (auto simp: raises_evaluation_def expect_rejection_def)

lemma expect_accepted: "m = Inr x \<Longrightarrow> expect_rejection m = Inr False"
  by (simp add: expect_rejection_def)

section \<open>Look-ups in a changed object\<close>

lemma require_object_JObj [simp]: "require_object (JObj d) context = Inr d"
  by simp

lemma exact_keys_accepted [simp]: "set (dict_keys d) = set keys \<Longrightarrow> require_exact_keys d keys context = Inr ()"
  by simp

lemma require_int_accepted [simp]:
  "lo \<le> n \<Longrightarrow> (case hi of None \<Rightarrow> True | Some m \<Rightarrow> n \<le> m) \<Longrightarrow> require_int (JInt n) context lo hi = Inr n"
  by simp

lemma require_string_accepted [simp]: "s \<noteq> [] \<Longrightarrow> require_string (JStr s) context = Inr s"
  by simp

lemma hex_accepted [simp]:
  "s \<noteq> [] \<and> length s = n \<and> list_all is_hex_digit s \<Longrightarrow> validate_hex (JStr s) context n = Inr s"
  by simp

lemma obj_at_set: "obj_at (dict_set k v d) k' = (if k' = k then Inr v else obj_at d k')"
  by (simp add: obj_at_def dict_at_def dict_get_set)

lemma accessors_set:
  "key \<noteq> k \<Longrightarrow> int_at (dict_set k v d) context key = int_at d context key"
  "key \<noteq> k \<Longrightarrow> hex_at (dict_set k v d) context n key = hex_at d context n key"
  "key \<noteq> k \<Longrightarrow> bool_at (dict_set k v d) key context = bool_at d key context"
  "key \<noteq> k \<Longrightarrow> eval_at (dict_set k v d) context key = eval_at d context key"
  "key \<noteq> k \<Longrightarrow> plan_at (dict_set k v d) context key = plan_at d context key"
  "''expert_count'' \<noteq> k \<Longrightarrow> expert_count_at (dict_set k v d) context = expert_count_at d context"
  by (simp_all add: int_at_def hex_at_def bool_at_def eval_at_def plan_at_def expert_count_at_def obj_at_set)

lemma keys_of_set: "k \<in> set (dict_keys d) \<Longrightarrow> require_exact_keys (dict_set k v d) keys = require_exact_keys d keys"
  by (rule ext) (simp add: require_exact_keys_def dict_keys_set)

lemma exact_keys_set [simp]:
  "set (dict_keys d) = set keys \<Longrightarrow> k \<in> set keys \<Longrightarrow> require_exact_keys (dict_set k v d) keys context = Inr ()"
  by (simp add: dict_keys_set)

lemma dict_set_same: "dict_get d k = Some v \<Longrightarrow> dict_set k v d = d"
  by (induction d) auto

lemma extra_key_rejected:
  assumes "k \<notin> set keys"
  shows "raises_evaluation (bind_res (require_exact_keys (dict_set k v d) keys context) f)"
proof -
  have "k \<in> set (dict_keys (dict_set k v d))" by (auto simp: dict_keys_set)
  then have "set (dict_keys (dict_set k v d)) \<noteq> set keys" using assms by blast
  then show ?thesis by (simp add: require_exact_keys_def raises_evaluation_def EvaluationError_def)
qed

section \<open>One correct answer less\<close>

lemma eval_decremented:
  assumes "validate_eval (JObj e) context = Inr r" and "dict_get e ''correct'' = Some (JInt n)"
  shows "raises_evaluation (validate_eval (JObj (dict_set ''correct'' (JInt (n - 1)) e)) context) \<or>
    (\<exists>r'. validate_eval (JObj (dict_set ''correct'' (JInt (n - 1)) e)) context = Inr r' \<and> r' \<noteq> r)"
proof (cases "n = 0")
  case True
  have member: "''correct'' \<in> set (dict_keys e)" using assms(2) by (rule dict_get_in_keys)
  from assms(1) have "raises_evaluation (validate_eval (JObj (dict_set ''correct'' (JInt (n - 1)) e)) context)"
    unfolding validate_eval_def
  proof (elim bind_resE, goal_cases)
    case (1 d u samples wrong)
    have d: "d = e" using 1(1) by simp
    show ?case
      using 1(2-4) [unfolded d] by (simp add: keys_of_set [OF member] accessors_set
        int_at_def [of _ _ "''correct''"] obj_at_set require_int_def True raises_evaluation_def EvaluationError_def)
  qed
  then show ?thesis ..
next
  case False
  have member: "''correct'' \<in> set (dict_keys e)" using assms(2) by (rule dict_get_in_keys)
  have here: "int_at (dict_set ''correct'' (JInt (n - 1)) e) context ''correct'' = Inr (n - 1)" if "0 \<le> n"
    using that False by (simp add: int_at_def obj_at_set require_int_def)
  from assms(1) have "\<exists>r'. validate_eval (JObj (dict_set ''correct'' (JInt (n - 1)) e)) context = Inr r' \<and>
      ev_correct r' = n - 1 \<and> ev_correct r = n"
    unfolding validate_eval_def
  proof (elim bind_resE, goal_cases)
    case (1 d u samples rejected correct rs ps psn tc ts tu rc rcm ee u1 u2 u3 c1 c2 c3 c4)
    have d: "d = e" using 1(1) by simp
    have c: "correct = n" "0 \<le> n" using 1(5) assms(2) by (auto simp: d int_at_ok)
    show ?case
      using 1 [unfolded d c(1)] by (auto simp: keys_of_set [OF member] accessors_set here [OF c(2)])
  qed
  then show ?thesis by auto
qed

text \<open>The change a metric mutation makes of a candidate.\<close>

definition less_correct :: "obj \<Rightarrow> obj \<Rightarrow> bool" where
  "less_correct c c' \<longleftrightarrow>
     (\<exists>e n. dict_get c ''adapted_model_drift_holdout'' = Some (JObj e) \<and> dict_get e ''correct'' = Some (JInt n) \<and>
        c' = dict_set ''adapted_model_drift_holdout'' (JObj (dict_set ''correct'' (JInt (n - 1)) e)) c)"

lemma candidate_decremented:
  assumes "validate_candidate (JObj c) context = Inr r" and "less_correct c c'"
  shows "raises_evaluation (validate_candidate (JObj c') context) \<or>
    (\<exists>r'. validate_candidate (JObj c') context = Inr r' \<and>
       ca_adapted_model_drift_holdout r' \<noteq> ca_adapted_model_drift_holdout r)"
proof -
  obtain e n where e: "dict_get c ''adapted_model_drift_holdout'' = Some (JObj e)" "dict_get e ''correct'' = Some (JInt n)"
    and c': "c' = dict_set ''adapted_model_drift_holdout'' (JObj (dict_set ''correct'' (JInt (n - 1)) e)) c"
    using assms(2) unfolding less_correct_def by blast
  have member: "''adapted_model_drift_holdout'' \<in> set (dict_keys c)" using e(1) by (rule dict_get_in_keys)
  from assms(1) show ?thesis
    unfolding validate_candidate_def Let_def
  proof (elim bind_resE, goal_cases)
    case (1 d u completed experts bt btv ae bytes bytesv h1 h2 base adaptation static adapted)
    have d: "d = c" using 1(1) by simp
    let ?e = "JObj (dict_set ''correct'' (JInt (n - 1)) e)"
    note same = keys_of_set [OF member] accessors_set obj_at_set
    have adapted: "validate_eval (JObj e) (context @ ''.candidate'' @ ''.'' @ ''adapted_model_drift_holdout'') = Inr adapted"
      using 1 e(1) unfolding d eval_at_def by (auto simp: bind_res_eq_Inr)
    show ?case
      using eval_decremented [OF adapted e(2)]
    proof (elim disjE exE conjE)
      assume "raises_evaluation (validate_eval ?e (context @ ''.candidate'' @ ''.'' @ ''adapted_model_drift_holdout''))"
      then have "raises_evaluation (eval_at c' (context @ ''.candidate'') ''adapted_model_drift_holdout'')"
        by (simp add: c' eval_at_def obj_at_set)
      then obtain message where "eval_at c' (context @ ''.candidate'') ''adapted_model_drift_holdout'' = Inl (RuntimeError message)"
        unfolding raises_evaluation_def by blast
      then show ?thesis using 1 unfolding d by (intro disjI1) (simp add: raises_evaluation_def c' same)
    next
      fix r'
      assume "validate_eval ?e (context @ ''.candidate'' @ ''.'' @ ''adapted_model_drift_holdout'') = Inr r'"
        and "r' \<noteq> adapted"
      moreover from this have "eval_at c' (context @ ''.candidate'') ''adapted_model_drift_holdout'' = Inr r'"
        by (simp add: c' eval_at_def obj_at_set)
      ultimately show ?thesis using 1 unfolding d by (intro disjI2) (auto simp: c' same)
    qed
  qed
qed

section \<open>A changed trial\<close>

lemma extra_member_rejected:
  "k \<notin> set TRIAL_KEYS \<Longrightarrow> raises_evaluation (validate_trial (JObj (dict_set k v d)) i p)"
  by (simp add: validate_trial_def Let_def extra_key_rejected)

lemma identity_rejected:
  assumes "validate_trial (JObj d) i p = Inr r"
    and "k = ''regime'' \<and> v \<noteq> JStr (ti_regime i) \<or> k = ''seed'' \<and> v \<noteq> JStr (ti_seed i)"
  shows "raises_evaluation (validate_trial (JObj (dict_set k v d)) i p)"
  using assms(1) unfolding validate_trial_def Let_def
proof (elim bind_resE, goal_cases)
  case (1 x u schema u' us)
  have x: "x = d" using 1(1) by simp
  have members: "''regime'' \<in> set TRIAL_KEYS" "''seed'' \<in> set TRIAL_KEYS" by (simp_all add: TRIAL_KEYS_def)
  have ids: "dict_get d ''trial_id'' = Some (JStr (ti_trial_id i))" "dict_get d ''regime'' = Some (JStr (ti_regime i))"
    using 1(5) by (auto simp: x check_identity_def bind_res_eq_Inr)
  show ?case
    using assms(2) 1(2-4) [unfolded x] ids
    by (elim disjE conjE) (simp_all add: members obj_at_set check_identity_def raises_evaluation_def EvaluationError_def)
qed

lemma decremented_rejected:
  assumes "validate_trial (JObj d) i p = Inr r" and "dict_get d ''candidate'' = Some (JObj c)" and "less_correct c c'"
  shows "raises_evaluation (validate_trial (JObj (dict_set ''candidate'' (JObj c') d)) i p)"
  using assms(1) unfolding validate_trial_def Let_def
proof (elim bind_resE, goal_cases)
  case (1 x u schema u' us seed sv u2 ds sizes szv u3 u4 u5 cf candidate cv integrity iv comparisons cmv comparison)
  have x: "x = d" using 1(1) by simp
  have member: "''candidate'' \<in> set (dict_keys d)" using assms(2) by (rule dict_get_in_keys)
  note same = keys_of_set [OF member] obj_at_set
  let ?place = "''trial['' @ ti_trial_id i @ '']''"
  have own: "validate_candidate (JObj c) ?place = Inr candidate"
    using 1 assms(2) unfolding x by simp
  have agrees: "candidate_agrees comparison candidate" using 1 by simp
  have ids: "check_identity (dict_set ''candidate'' (JObj c') d) w (k, x) = check_identity d w (k, x)"
    if "k \<noteq> ''candidate''" for w k x
    using that by (simp add: check_identity_def obj_at_set)
  have new: "bind_res (obj_at (dict_set ''candidate'' (JObj c') d) ''candidate'') (\<lambda>c. validate_candidate c ?place)
      = validate_candidate (JObj c') ?place"
    by (simp add: obj_at_set)
  show ?case
    using candidate_decremented [OF own assms(3)]
  proof (elim disjE exE conjE)
    assume "raises_evaluation (validate_candidate (JObj c') ?place)"
    then obtain message where "validate_candidate (JObj c') ?place = Inl (RuntimeError message)"
      unfolding raises_evaluation_def by blast
    then show ?thesis using 1 unfolding x by (simp add: raises_evaluation_def new same ids)
  next
    fix r'
    assume "validate_candidate (JObj c') ?place = Inr r'"
      and "ca_adapted_model_drift_holdout r' \<noteq> ca_adapted_model_drift_holdout candidate"
    moreover from this agrees have "\<not> candidate_agrees comparison r'" by (auto simp: candidate_agrees_def)
    ultimately show ?thesis using 1 unfolding x by (simp add: raises_evaluation_def EvaluationError_def new same ids)
  qed
qed

section \<open>A changed first trial\<close>

lemma validate_raw_parts:
  assumes "validate_raw raw p = Inr trials"
  obtains doc h where "raw = JObj doc" and "set (dict_keys doc) = set RAW_KEYS"
    and "dict_get doc ''schema'' = Some (JStr ''ravel-raw-observations/0.5'')"
    and "dict_get doc ''preregistration'' = Some (JStr ''ravel-0.5-preregistration.json'')"
    and "sha256_json (pg_payload p) = Inr h" and "dict_get doc ''preregistration_sha256'' = Some (JStr h)"
    and "dict_get doc ''trials'' = Some (JList trials)"
  using assms unfolding validate_raw_def
  by (elim bind_resE) (auto simp: list_of_length_def split: json.splits if_splits intro: that)

lemma validate_raw_trials:
  assumes "validate_raw (JObj doc) p = Inr trials" and "length trials' = length trials"
  shows "validate_raw (JObj (dict_set ''trials'' (JList trials') doc)) p = Inr trials'"
proof -
  have member: "''trials'' \<in> set RAW_KEYS" by (simp add: RAW_KEYS_def)
  have length: "length trials = length (pg_trials p)" by (rule validate_raw_length [OF assms(1)])
  from assms(1) show ?thesis
    unfolding validate_raw_def
  proof (elim bind_resE, goal_cases)
    case (1 x)
    have x: "x = doc" using 1(1) by simp
    show ?case
      using 1 [unfolded x] by (simp add: member obj_at_set list_of_length_def assms(2) length)
  qed
qed

lemma scanned_length:
  "fold_res (validate_trial_identity h) scan xs = Inr scan' \<Longrightarrow>
     length (ts_trials scan') = length (ts_trials scan) + length xs"
  by (induction xs arbitrary: scan) (auto simp: bind_res_eq_Inr elim!: trial_identity_parts)

lemma validate_trials_nonempty: "validate_trials v h = Inr scan \<Longrightarrow> ts_trials scan \<noteq> []"
  by (auto simp: validate_trials_def nonempty_list_def bind_res_eq_Inr dest!: scanned_length split: json.splits if_splits)

lemma validate_preregistration_nonempty:
  assumes "validate_preregistration v = Inr p"
  shows "pg_trials p \<noteq> [] \<and> pg_payload p = v"
proof -
  note run = assms [unfolded validate_preregistration_def case_prod_unfold]
  show ?thesis
    by (insert run, elim bind_resE, drule Inr_inject, erule subst) (simp add: validate_trials_nonempty)
qed

lemma evaluate_parts:
  assumes "evaluate raw prereg = Inr ev"
  obtains p doc x xs i js r where "validate_preregistration prereg = Inr p" and "raw = JObj doc"
    and "validate_raw raw p = Inr (x # xs)" and "pg_trials p = i # js"
    and "validate_trial x i p = Inr r"
proof -
  from assms obtain p trials st where p: "validate_preregistration prereg = Inr p"
    and trials: "validate_raw raw p = Inr trials"
    and run: "fold_res (evaluation_step p) (start_evaluation p) (zip trials (pg_trials p)) = Inr st"
    unfolding evaluate_def by (elim bind_resE)
  obtain i js where i: "pg_trials p = i # js"
    using validate_preregistration_nonempty [OF p] by (cases "pg_trials p") auto
  obtain x xs where x: "trials = x # xs"
    using validate_raw_length [OF trials] i by (cases trials) auto
  obtain r where r: "validate_trial x i p = Inr r"
    using run by (auto simp: i x evaluation_step_def evaluate_trial_def bind_res_eq_Inr)
  obtain doc where "raw = JObj doc" by (rule validate_raw_parts [OF trials])
  from that [OF p this trials [unfolded x] i r] show thesis .
qed

lemma first_trial_rejected:
  assumes "validate_preregistration prereg = Inr p" and "raw = JObj doc" and "validate_raw raw p = Inr (x # xs)"
    and "pg_trials p = i # js" and "f x = Inr y" and "raises_evaluation (validate_trial y i p)"
  shows "\<exists>raw'. in_first_trial f raw = Inr raw' \<and> raises_evaluation (evaluate raw' prereg)"
proof -
  let ?raw = "JObj (dict_set ''trials'' (JList (y # xs)) doc)"
  obtain message where message: "validate_trial y i p = Inl (RuntimeError message)"
    using assms(6) unfolding raises_evaluation_def by blast
  have "validate_raw ?raw p = Inr (y # xs)"
    using assms(2,3) by (intro validate_raw_trials) auto
  then have "raises_evaluation (evaluate ?raw prereg)"
    by (simp add: evaluate_def assms(1,4) evaluation_step_def evaluate_trial_def message raises_evaluation_def)
  moreover have "dict_get doc ''trials'' = Some (JList (x # xs))"
    by (rule validate_raw_parts [OF assms(3)]) (simp add: assms(2))
  then have "in_first_trial f raw = Inr ?raw"
    by (simp add: in_first_trial_def at_member_def at_first_def assms(2,5))
  ultimately show ?thesis by blast
qed

section \<open>A changed threshold\<close>

lemma validate_gate_value:
  assumes "validate_gate collection seen (c, JObj g) = Inr seen'"
  shows "\<exists>seen''. validate_gate collection seen (c, JObj (dict_set ''value'' (JBool b) g)) = Inr seen'' \<and>
    ga_gate_id ` set seen'' = ga_gate_id ` set seen'"
proof -
  have member: "''value'' \<in> set GATE_KEYS" by (simp add: GATE_KEYS_def)
  from assms show ?thesis
    unfolding validate_gate_def prod.case
  proof (elim bind_resE, goal_cases)
    case (1 d)
    have d: "d = g" using 1(1) by simp
    show ?case
      using 1 [unfolded d] by (auto simp: member obj_at_set infinite_float_def)
  qed
qed

lemma validate_gate_seen:
  assumes "validate_gate collection seen x = Inr s" and "ga_gate_id ` set seen' = ga_gate_id ` set seen"
  obtains g where "s = seen @ [g]" and "validate_gate collection seen' x = Inr (seen' @ [g])"
  using assms(1) unfolding validate_gate_def case_prod_unfold
  by (elim bind_resE) (rule that, drule Inr_inject, erule sym, simp add: validate_gate_def case_prod_unfold assms(2))

lemma validate_gates_seen:
  "fold_res (validate_gate collection) seen xs = Inr gs \<Longrightarrow> ga_gate_id ` set seen' = ga_gate_id ` set seen \<Longrightarrow>
     \<exists>gs'. fold_res (validate_gate collection) seen' xs = Inr gs'"
proof (induction xs arbitrary: seen seen')
  case Nil
  then show ?case by simp
next
  case (Cons x xs)
  obtain s where s: "validate_gate collection seen x = Inr s" and run: "fold_res (validate_gate collection) s xs = Inr gs"
    using Cons.prems(1) by (auto simp: bind_res_eq_Inr)
  obtain g where "s = seen @ [g]" "validate_gate collection seen' x = Inr (seen' @ [g])"
    by (rule validate_gate_seen [OF s Cons.prems(2)])
  with Cons.IH [OF run] Cons.prems(2) show ?case by simp
qed

lemma gates_changed:
  assumes "validate_gate_list (JList (JObj g # gs)) collection = Inr out"
  shows "\<exists>out'. validate_gate_list (JList (JObj (dict_set ''value'' (JBool b) g) # gs)) collection = Inr out'"
proof -
  define c where "c = collection @ ''['' @ int_str 0 @ '']''"
  define rest where "rest = map (\<lambda>(i, x). (collection @ ''['' @ int_str (int i) @ '']'', x)) (enumerate 1 gs)"
  have enumerated: "enumerated collection (x # gs) = (c, x) # rest" for x
    by (simp add: enumerated_def c_def rest_def)
  obtain seen where first: "validate_gate collection [] (c, JObj g) = Inr seen"
    and run: "fold_res (validate_gate collection) seen rest = Inr out"
    using assms by (auto simp: validate_gate_list_def enumerated bind_res_eq_Inr)
  obtain seen' where "validate_gate collection [] (c, JObj (dict_set ''value'' (JBool b) g)) = Inr seen'"
    and "ga_gate_id ` set seen' = ga_gate_id ` set seen"
    using validate_gate_value [OF first] by blast
  with validate_gates_seen [OF run this(2)] show ?thesis
    by (auto simp: validate_gate_list_def enumerated)
qed

text \<open>The preregistration with the threshold of its first common gate negated.\<close>

lemma threshold_parts:
  assumes "validate_preregistration v = Inr p"
  obtains d g gs x where "v = JObj d" and "dict_get d ''common_gates'' = Some (JList (JObj g # gs))"
    and "dict_get g ''value'' = Some x"
    and "threshold_mutation v = Inr (JObj (dict_set ''common_gates'' (JList (JObj (dict_set ''value'' (JBool (\<not> truthy x)) g) # gs)) d))"
proof -
  have "\<exists>d cg out. v = JObj d \<and> dict_get d ''common_gates'' = Some cg \<and> validate_gate_list cg ''common_gates'' = Inr out"
    using assms unfolding validate_preregistration_def case_prod_unfold
    by (elim bind_resE, intro exI conjI) (simp, simp, assumption)
  then obtain d cg out where d: "v = JObj d" "dict_get d ''common_gates'' = Some cg"
    and out: "validate_gate_list cg ''common_gates'' = Inr out" by blast
  obtain y gs where cg: "cg = JList (y # gs)"
    using out by (auto simp: validate_gate_list_def neq_Nil_conv split: json.splits if_splits)
  have "\<exists>c seen. validate_gate ''common_gates'' [] (c, y) = Inr seen"
    using out by (auto simp: validate_gate_list_def cg enumerated_def bind_res_eq_Inr)
  then obtain g x where "y = JObj g" "dict_get g ''value'' = Some x"
    unfolding validate_gate_def prod.case by (elim exE bind_resE) simp
  then show thesis
    using d by (intro that [of d g gs x])
      (simp_all add: cg threshold_mutation_def at_member_def at_first_def)
qed

lemma threshold_accepted:
  assumes "validate_preregistration (JObj d) = Inr p" and "dict_get d ''common_gates'' = Some (JList (JObj g # gs))"
  shows "\<exists>p'. validate_preregistration (JObj (dict_set ''common_gates'' (JList (JObj (dict_set ''value'' (JBool b) g) # gs)) d)) = Inr p'"
proof -
  let ?v = "JObj (dict_set ''common_gates'' (JList (JObj (dict_set ''value'' (JBool b) g) # gs)) d)"
  have member: "''common_gates'' \<in> set PREREGISTRATION_KEYS" by (simp add: PREREGISTRATION_KEYS_def)
  note run = assms(1) [unfolded validate_preregistration_def case_prod_unfold]
  show ?thesis
  proof (insert run, elim bind_resE, goal_cases)
    case (1 x)
    have x: "x = d" using 1(1) by simp
    have "\<exists>out. validate_gate_list (JList (JObj (dict_set ''value'' (JBool b) g) # gs)) ''common_gates'' = Inr out"
      using 1 assms(2) unfolding x by (auto intro: gates_changed)
    then obtain out where "validate_gate_list (JList (JObj (dict_set ''value'' (JBool b) g) # gs)) ''common_gates'' = Inr out" ..
    then show ?case
      using 1 unfolding x
      by (simp add: validate_preregistration_def case_prod_unfold member obj_at_set string_at_def)
  qed
qed

lemma all_finite_set:
  "all_finite (JObj d) \<Longrightarrow> all_finite v \<Longrightarrow> all_finite (JObj (dict_set k v d))"
  by (induction d) auto

lemma all_finite_get: "all_finite (JObj d) \<Longrightarrow> dict_get d k = Some v \<Longrightarrow> all_finite v"
  by (induction d) (auto split: if_splits)

lemma in_dict_set: "(k', y) \<in> set (dict_set k v d) \<Longrightarrow> (k', y) \<in> set d \<or> k' = k \<and> y = v"
  by (induction d) (auto split: if_splits)

lemma json_ok_set: "json_ok (JObj d) \<Longrightarrow> json_ok v \<Longrightarrow> json_ok (JObj (dict_set k v d))"
  by (auto dest!: in_dict_set intro: distinct_update)

lemma canon_obj_get:
  assumes "canon (JObj d) = canon (JObj e)" and "dict_wf d" and "dict_wf e"
  shows "map_option canon (dict_get d k) = map_option canon (dict_get e k)"
  using canon_get [OF assms(2), of k] canon_get [OF assms(3), of k] assms(1) by simp

lemma json_ok_get: "json_ok (JObj d) \<Longrightarrow> dict_get d k = Some v \<Longrightarrow> json_ok v"
  by (auto dest!: map_of_SomeD)

text \<open>The bytes that are digested change with the threshold.\<close>

lemma threshold_bytes:
  assumes "json_ok (JObj d)" and "dict_get d ''common_gates'' = Some (JList (JObj g # gs))"
    and "dict_get g ''value'' = Some x"
    and "v = JObj (dict_set ''common_gates'' (JList (JObj (dict_set ''value'' (JBool (\<not> truthy x)) g) # gs)) d)"
  shows "json_dumps v \<noteq> json_dumps (JObj d)"
proof
  assume same: "json_dumps v = json_dumps (JObj d)"
  have ok: "json_ok (JObj g)" "\<forall>y \<in> set gs. json_ok y" using json_ok_get [OF assms(1,2)] by simp_all
  let ?g = "JObj (dict_set ''value'' (JBool (\<not> truthy x)) g)"
  have "json_ok (JList (?g # gs))" using json_ok_set [OF ok(1), of "JBool (\<not> truthy x)"] ok(2) by simp
  then have "json_ok v" unfolding assms(4) by (rule json_ok_set [OF assms(1)])
  from dumps_canon_eq [OF this assms(1) same] have "canon v = canon (JObj d)" .
  from canon_obj_get [OF this [unfolded assms(4)], of "''common_gates''"] assms(1,2)
  have "canon ?g = canon (JObj g)" by (simp add: dict_get_set distinct_update del: canon.simps(2))
  from canon_obj_get [OF this, of "''value''"] ok(1) assms(3) have "JBool (\<not> truthy x) = canon x"
    by (simp add: dict_get_set distinct_update)
  then show False by (cases x) simp_all
qed

lemma threshold_finite:
  assumes "all_finite (JObj d)" and "dict_get d ''common_gates'' = Some (JList (JObj g # gs))"
  shows "all_finite (JObj (dict_set ''common_gates'' (JList (JObj (dict_set ''value'' (JBool b) g) # gs)) d))"
proof -
  have "all_finite (JList (JObj g # gs))" by (rule all_finite_get [OF assms])
  then have "all_finite (JObj (dict_set ''value'' (JBool b) g))" "list_all all_finite gs"
    using all_finite_set [of g "JBool b" "''value''"] by simp_all
  then have "all_finite (JList (JObj (dict_set ''value'' (JBool b) g) # gs))" by simp
  then show ?thesis by (rule all_finite_set [OF assms(1)])
qed

lemma threshold_digests:
  assumes "evaluate raw prereg = Inr ev" and "json_ok prereg"
  obtains mutated bytes bytes' where "threshold_mutation prereg = Inr mutated"
    and "ravel_canonical_bytes prereg = Inr bytes" and "ravel_canonical_bytes mutated = Inr bytes'" and "bytes' \<noteq> bytes"
    and "sha256 bytes' \<noteq> sha256 bytes \<longrightarrow> raises_evaluation (evaluate raw mutated)"
proof -
  obtain p trials where p: "validate_preregistration prereg = Inr p" and trials: "validate_raw raw p = Inr trials"
    using assms(1) unfolding evaluate_def by (elim bind_resE)
  have payload: "pg_payload p = prereg" using validate_preregistration_nonempty [OF p] by simp
  obtain d g gs x where d: "prereg = JObj d" "dict_get d ''common_gates'' = Some (JList (JObj g # gs))"
      "dict_get g ''value'' = Some x"
    and m: "threshold_mutation prereg =
      Inr (JObj (dict_set ''common_gates'' (JList (JObj (dict_set ''value'' (JBool (\<not> truthy x)) g) # gs)) d))"
    by (rule threshold_parts [OF p])
  define mutated where "mutated = JObj (dict_set ''common_gates'' (JList (JObj (dict_set ''value'' (JBool (\<not> truthy x)) g) # gs)) d)"
  obtain p' where p': "validate_preregistration mutated = Inr p'"
    using threshold_accepted [OF p [unfolded d(1)] d(2)] unfolding mutated_def by blast
  have payload': "pg_payload p' = mutated" using validate_preregistration_nonempty [OF p'] by simp
  obtain doc h where doc: "raw = JObj doc" "set (dict_keys doc) = set RAW_KEYS"
      "dict_get doc ''schema'' = Some (JStr ''ravel-raw-observations/0.5'')"
      "dict_get doc ''preregistration'' = Some (JStr ''ravel-0.5-preregistration.json'')"
    and h: "sha256_json prereg = Inr h" "dict_get doc ''preregistration_sha256'' = Some (JStr h)"
    by (rule validate_raw_parts [OF trials]) (simp add: payload)
  have finite: "all_finite prereg" using h(1) by (auto simp: sha256_json_def ravel_canonical_bytes_def split: if_splits)
  then have finite': "all_finite mutated"
    unfolding mutated_def d(1) by (rule threshold_finite [OF _ d(2)])
  show thesis
  proof (rule that [OF m [folded mutated_def]])
    show "ravel_canonical_bytes prereg = Inr (json_dumps prereg @ [CHR 0x0A])"
      and "ravel_canonical_bytes mutated = Inr (json_dumps mutated @ [CHR 0x0A])"
      using finite finite' by (simp_all add: ravel_canonical_bytes_def)
    show "json_dumps mutated @ [CHR 0x0A] \<noteq> json_dumps prereg @ [CHR 0x0A]"
      using threshold_bytes [OF assms(2) [unfolded d(1)] d(2,3) mutated_def] by (simp add: d(1))
    show "sha256 (json_dumps mutated @ [CHR 0x0A]) \<noteq> sha256 (json_dumps prereg @ [CHR 0x0A]) \<longrightarrow>
        raises_evaluation (evaluate raw mutated)"
    proof
      assume "sha256 (json_dumps mutated @ [CHR 0x0A]) \<noteq> sha256 (json_dumps prereg @ [CHR 0x0A])"
      then have "raises_evaluation (validate_raw raw p')"
        using doc h finite finite'
        by (simp add: validate_raw_def payload' sha256_json_def ravel_canonical_bytes_def raises_evaluation_def EvaluationError_def)
      then show "raises_evaluation (evaluate raw mutated)" by (simp add: evaluate_def p' rejected_bind)
    qed
  qed
qed

section \<open>Another regime\<close>

text \<open>The trials of an accepted preregistration as the mutation reads them.\<close>

lemma scanned_regimes:
  assumes "fold_res (validate_trial_identity h) scan (enumerate n xs) = Inr scan'"
  shows "\<exists>ts. ts_trials scan' = ts_trials scan @ ts \<and> map (\<lambda>x. item_of x ''regime'') xs = map (\<lambda>t. Inr (JStr (ti_regime t))) ts"
  using assms
proof (induction xs arbitrary: n scan)
  case Nil
  then show ?case by simp
next
  case (Cons x xs)
  obtain s where s: "validate_trial_identity h scan (n, x) = Inr s"
    and run: "fold_res (validate_trial_identity h) s (enumerate (Suc n) xs) = Inr scan'"
    using Cons.prems by (auto simp: bind_res_eq_Inr)
  have "\<exists>t. ts_trials s = ts_trials scan @ [t] \<and> item_of x ''regime'' = Inr (JStr (ti_regime t))"
    using s unfolding validate_trial_identity_def Let_def prod.case
  proof (elim bind_resE, goal_cases)
    case (1 d u trial_id regime seed)
    have "dict_get d ''regime'' = Some (JStr regime)"
      using 1(4) by (auto simp: string_at_def bind_res_eq_Inr)
    then have "item_of x ''regime'' = Inr (JStr regime)"
      using 1(1) by (simp add: item_of_def)
    moreover note 1(9) [THEN Inr_inject, symmetric]
    ultimately show ?case by simp
  qed
  with Cons.IH [OF run] show ?case by force
qed

lemma prereg_trialsI:
  assumes "require_object v c = Inr d" and "obj_at d ''trials'' = Inr ts" and "validate_trials ts (fst h) = Inr scan"
    and "Inr \<lparr>pg_payload = v, pg_study_id = study_id, pg_datasets_per_trial = datasets,
            pg_mechanism_constants = constants, pg_trials = ts_trials scan,
            pg_comparison_variants = variants, pg_common_gates = common,
            pg_regime_gates = gate_lists, pg_global_pass_rule = rule\<rparr> = (Inr p :: preregistration res)"
  shows "\<exists>d ts h scan. v = JObj d \<and> dict_get d ''trials'' = Some ts \<and> validate_trials ts h = Inr scan \<and>
    pg_trials p = ts_trials scan"
  using assms(1-3) assms(4) [THEN Inr_inject, symmetric]
  by (intro exI [of _ d] exI [of _ ts] exI [of _ "fst h"] exI [of _ scan]) simp

lemma prereg_trials:
  assumes "validate_preregistration prereg = Inr p"
  shows "\<exists>xs. bind_res (item_of prereg ''trials'') iterate = Inr xs \<and>
    map (\<lambda>x. item_of x ''regime'') xs = map (\<lambda>t. Inr (JStr (ti_regime t))) (pg_trials p)"
proof -
  note run = assms [unfolded validate_preregistration_def case_prod_unfold]
  have "\<exists>d v h scan. prereg = JObj d \<and> dict_get d ''trials'' = Some v \<and> validate_trials v h = Inr scan \<and> pg_trials p = ts_trials scan"
    by (insert run, elim bind_resE, rule prereg_trialsI)
  then obtain d v h scan where d: "prereg = JObj d" "dict_get d ''trials'' = Some v"
    and v: "validate_trials v h = Inr scan" and p: "pg_trials p = ts_trials scan" by blast
  obtain xs where xs: "v = JList xs"
      "fold_res (validate_trial_identity h) \<lparr>ts_trials = [], ts_regimes = []\<rparr> (enumerate 0 xs) = Inr scan"
    using v by (auto simp: validate_trials_def nonempty_list_def bind_res_eq_Inr split: json.splits if_splits)
  from scanned_regimes [OF xs(2)] show ?thesis by (auto simp: d item_of_def xs(1) iterate_def p)
qed

lemma other_regime_decides:
  assumes "map (\<lambda>x. item_of x ''regime'') xs = map (\<lambda>t. Inr (JStr (ti_regime t))) ts"
  shows "other_regime (JStr r) xs =
    (case filter (\<lambda>t. ti_regime t \<noteq> r) ts of [] \<Rightarrow> Inl StopIteration | t # _ \<Rightarrow> Inr (JStr (ti_regime t)))"
  using assms by (induction xs arbitrary: ts) auto

section \<open>What the mutations change\<close>

lemma validate_trial_object:
  assumes "validate_trial x i p = Inr r"
  obtains d where "x = JObj d" and "dict_get d ''regime'' = Some (JStr (ti_regime i))"
    and "dict_get d ''seed'' = Some (JStr (ti_seed i))"
    and "\<exists>v context c. dict_get d ''candidate'' = Some v \<and> validate_candidate v context = Inr c"
  using assms unfolding validate_trial_def Let_def
proof (elim bind_resE, goal_cases)
  case (1 d u schema u' us seed sv u2 ds sizes szv u3 u4 u5 cf candidate cv)
  have "dict_get d ''regime'' = Some (JStr (ti_regime i)) \<and> dict_get d ''seed'' = Some (JStr (ti_seed i))"
    using 1(6) by (auto simp: check_identity_def bind_res_eq_Inr)
  with 1 show thesis by (intro that [of d]) auto
qed

lemma candidate_holdout:
  assumes "validate_candidate v context = Inr r"
  obtains c e n where "v = JObj c" and "dict_get c ''adapted_model_drift_holdout'' = Some (JObj e)"
    and "dict_get e ''correct'' = Some (JInt n)"
proof -
  have "\<exists>c w context a. v = JObj c \<and> dict_get c ''adapted_model_drift_holdout'' = Some w \<and> validate_eval w context = Inr a"
    using assms unfolding validate_candidate_def Let_def eval_at_def [of _ _ "''adapted_model_drift_holdout''"]
    by (elim bind_resE, intro exI conjI) (simp, simp, assumption)
  then obtain c w context' a where c: "v = JObj c" "dict_get c ''adapted_model_drift_holdout'' = Some w"
    and w: "validate_eval w context' = Inr a" by blast
  obtain e where e: "w = JObj e" "\<exists>n. dict_get e ''correct'' = Some (JInt n)"
    using w unfolding validate_eval_def by (elim bind_resE) (auto simp: int_at_ok)
  with c that show thesis by blast
qed

lemma metric_mutation_trial:
  assumes "validate_trial x i p = Inr r"
  obtains y where "at_member ''candidate'' (at_member ''adapted_model_drift_holdout'' (at_member ''correct'' decrement)) x = Inr y"
    and "raises_evaluation (validate_trial y i p)"
proof -
  obtain d v w cand where x: "x = JObj d" and d: "dict_get d ''candidate'' = Some v" and v: "validate_candidate v w = Inr cand"
    by (rule validate_trial_object [OF assms]) blast
  obtain c e n where c: "v = JObj c" "dict_get c ''adapted_model_drift_holdout'' = Some (JObj e)"
      "dict_get e ''correct'' = Some (JInt n)"
    by (rule candidate_holdout [OF v])
  let ?c = "dict_set ''adapted_model_drift_holdout'' (JObj (dict_set ''correct'' (JInt (n - 1)) e)) c"
  have "less_correct c ?c" using c unfolding less_correct_def by blast
  from decremented_rejected [OF assms [unfolded x] d [unfolded c(1)] this]
  show thesis by (intro that [of "JObj (dict_set ''candidate'' (JObj ?c) d)"])
    (simp_all add: x d c at_member_def decrement_def)
qed

lemma regime_mutation_trial:
  assumes "validate_trial x i p = Inr r" and "validate_preregistration prereg = Inr p"
  shows "if \<forall>j \<in> set (pg_trials p). ti_regime j = ti_regime i then change_regime prereg x = Inl StopIteration
    else \<exists>y. change_regime prereg x = Inr y \<and> raises_evaluation (validate_trial y i p)"
proof -
  obtain d where d: "x = JObj d" "dict_get d ''regime'' = Some (JStr (ti_regime i))"
    by (rule validate_trial_object [OF assms(1)])
  obtain xs where xs: "bind_res (item_of prereg ''trials'') iterate = Inr xs"
      "map (\<lambda>x. item_of x ''regime'') xs = map (\<lambda>t. Inr (JStr (ti_regime t))) (pg_trials p)"
    using prereg_trials [OF assms(2)] by blast
  have regime: "item_of x ''regime'' = Inr (JStr (ti_regime i))" by (simp add: d item_of_def)
  have f: "change_regime prereg (JObj d) = bind_res (other_regime (JStr (ti_regime i)) xs) (\<lambda>regime. set_member ''regime'' regime (JObj d))"
    using regime by (simp add: change_regime_def xs(1) d(1))
  show ?thesis
  proof (cases "filter (\<lambda>t. ti_regime t \<noteq> ti_regime i) (pg_trials p)")
    case Nil
    then show ?thesis by (auto simp: d(1) f other_regime_decides [OF xs(2)] filter_empty_conv)
  next
    case (Cons t ts)
    then have "t \<in> set (filter (\<lambda>t. ti_regime t \<noteq> ti_regime i) (pg_trials p))" by simp
    then have "t \<in> set (pg_trials p) \<and> ti_regime t \<noteq> ti_regime i" by simp
    moreover from this have "raises_evaluation (validate_trial (JObj (dict_set ''regime'' (JStr (ti_regime t)) d)) i p)"
      by (intro identity_rejected [OF assms(1) [unfolded d(1)]]) simp
    ultimately show ?thesis
      by (auto simp: f other_regime_decides [OF xs(2)] Cons set_member_def d(1))
  qed
qed

lemma aggregate_rejected:
  assumes "validate_preregistration prereg = Inr p"
  shows "raises_evaluation (evaluate (JObj (dict_set ''development_result'' v doc)) prereg)"
proof -
  have "raises_evaluation (validate_raw (JObj (dict_set ''development_result'' v doc)) p)"
    by (simp add: validate_raw_def extra_key_rejected RAW_KEYS_def)
  then show ?thesis by (simp add: evaluate_def assms rejected_bind)
qed

section \<open>Mutations of the first trial\<close>

lemma in_first_trial_at:
  assumes "validate_raw (JObj doc) p = Inr (x # xs)"
  shows "in_first_trial f (JObj doc) = bind_res (f x) (\<lambda>y. Inr (JObj (dict_set ''trials'' (JList (y # xs)) doc)))"
proof -
  have "dict_get doc ''trials'' = Some (JList (x # xs))" by (rule validate_raw_parts [OF assms]) simp
  then show ?thesis by (cases "f x") (simp_all add: in_first_trial_def at_member_def at_first_def)
qed

lemma seed_mutation_observed:
  assumes "evaluate raw prereg = Inr ev" and "validate_preregistration prereg = Inr p" and "raw = JObj doc"
    and "validate_raw raw p = Inr (x # xs)" and "pg_trials p = i # js" and "validate_trial x i p = Inr r"
  shows "\<exists>raw'. in_first_trial (set_member ''seed'' (JStr ZERO_SEED)) raw = Inr raw' \<and>
    expect_rejection (evaluate raw' prereg) = Inr (ti_seed i \<noteq> ZERO_SEED)"
proof -
  obtain d where d: "x = JObj d" "dict_get d ''seed'' = Some (JStr (ti_seed i))"
    by (rule validate_trial_object [OF assms(6)])
  have change: "set_member ''seed'' (JStr ZERO_SEED) x = Inr (JObj (dict_set ''seed'' (JStr ZERO_SEED) d))"
    by (simp add: set_member_def d(1))
  show ?thesis
  proof (cases "ti_seed i = ZERO_SEED")
    case True
    then have "JObj (dict_set ''seed'' (JStr ZERO_SEED) d) = x" using d by (simp add: dict_set_same)
    moreover have "dict_get doc ''trials'' = Some (JList (x # xs))"
      by (rule validate_raw_parts [OF assms(4)]) (simp add: assms(3))
    ultimately have "in_first_trial (set_member ''seed'' (JStr ZERO_SEED)) raw = Inr raw"
      using change by (simp add: assms(3) in_first_trial_at [OF assms(4) [unfolded assms(3)]] dict_set_same)
    then show ?thesis using True by (simp add: expect_accepted [OF assms(1)])
  next
    case False
    then have "raises_evaluation (validate_trial (JObj (dict_set ''seed'' (JStr ZERO_SEED) d)) i p)"
      by (intro identity_rejected [OF assms(6) [unfolded d(1)]]) simp
    from first_trial_rejected [where f = "set_member ''seed'' (JStr ZERO_SEED)", OF assms(2-5) change this] False show ?thesis
      by (auto simp: expect_rejected)
  qed
qed

lemma regime_mutation_observed:
  assumes "validate_preregistration prereg = Inr p" and "raw = JObj doc"
    and "validate_raw raw p = Inr (x # xs)" and "pg_trials p = i # js" and "validate_trial x i p = Inr r"
  shows "if list_all (\<lambda>j. ti_regime j = ti_regime i) (pg_trials p) then regime_mutation raw prereg = Inl StopIteration
    else \<exists>raw'. regime_mutation raw prereg = Inr raw' \<and> raises_evaluation (evaluate raw' prereg)"
proof (cases "\<forall>j \<in> set (pg_trials p). ti_regime j = ti_regime i")
  case True
  with regime_mutation_trial [OF assms(5,1)] show ?thesis
    by (simp add: regime_mutation_def assms(2) in_first_trial_at [OF assms(3) [unfolded assms(2)]] list_all_iff)
next
  case False
  with regime_mutation_trial [OF assms(5,1)] obtain y where "change_regime prereg x = Inr y"
    and "raises_evaluation (validate_trial y i p)" by auto
  from first_trial_rejected [where f = "change_regime prereg", OF assms(1-4) this] False show ?thesis
    by (auto simp: regime_mutation_def list_all_iff)
qed

end
