(* ===== verification/RavelEvidenceProperties.thy ===== *)
theory RavelEvidenceProperties
  imports RavelEvidenceProofs RavelDemo
begin

text \<open>
  The property of the mutation tests of the RAVEL 0.5 evaluator: every mutation is rejected, with
  the one exception the tests themselves have.
\<close>

text \<open>
  C34: for raw evidence and a preregistration that evaluate, the mutation tests observe a rejection of
  every mutation: one correct answer less, the first common threshold negated, a trial result, a gate
  result or an aggregate result injected, and a changed seed or regime.  The negated threshold
  changes the digested bytes, so it is missed only when the two byte strings are a SHA-256 collision;
  the seed mutation is missed only when the declared seed is already zero; and the tests end in
  \<open>StopIteration\<close> when the preregistration has a single regime.
\<close>

theorem evaluator_mutations_rejected:
  assumes "evaluate raw prereg = Inr ev" and "json_ok prereg"
  shows "\<exists>p mutated bytes bytes'. validate_preregistration prereg = Inr p \<and>
    threshold_mutation prereg = Inr mutated \<and> ravel_canonical_bytes prereg = Inr bytes \<and>
    ravel_canonical_bytes mutated = Inr bytes' \<and> bytes' \<noteq> bytes \<and>
    (sha256_collision bytes' bytes \<or>
     evaluator_mutation_observations raw prereg canonical_trial =
       (if list_all (\<lambda>i. ti_regime i = ti_regime (hd (pg_trials p))) (pg_trials p) then Inl StopIteration
        else Inr [(''raw_metric_mutation'', True), (''threshold_mutation'', True),
          (''executable_trial_result_injection'', True), (''executable_gate_boolean_injection'', True),
          (''seed_mutation'', ti_seed (hd (pg_trials p)) \<noteq> ZERO_SEED), (''regime_mutation'', True),
          (''aggregate_mutation'', True)]))"
proof -
  obtain p doc x xs i js r where p: "validate_preregistration prereg = Inr p" and doc: "raw = JObj doc"
    and raw: "validate_raw raw p = Inr (x # xs)" and i: "pg_trials p = i # js" and trial: "validate_trial x i p = Inr r"
    by (rule evaluate_parts [OF assms(1)])
  obtain mutated bytes bytes' where m: "threshold_mutation prereg = Inr mutated"
    and bytes: "ravel_canonical_bytes prereg = Inr bytes" "ravel_canonical_bytes mutated = Inr bytes'" "bytes' \<noteq> bytes"
    and rejects: "sha256 bytes' \<noteq> sha256 bytes \<longrightarrow> raises_evaluation (evaluate raw mutated)"
    by (rule threshold_digests [OF assms])
  note first = first_trial_rejected [OF p doc raw i]
  obtain y where y: "at_member ''candidate'' (at_member ''adapted_model_drift_holdout'' (at_member ''correct'' decrement)) x = Inr y"
      "raises_evaluation (validate_trial y i p)"
    by (rule metric_mutation_trial [OF trial])
  obtain d where d: "x = JObj d" "dict_get d ''seed'' = Some (JStr (ti_seed i))"
    by (rule validate_trial_object [OF trial])
  have metric: "\<exists>raw'. raw_metric_mutation raw = Inr raw' \<and> raises_evaluation (evaluate raw' prereg)"
    unfolding raw_metric_mutation_def by (rule first) (rule y)+
  have injected: "\<exists>raw'. in_first_trial (set_member k v) raw = Inr raw' \<and> raises_evaluation (evaluate raw' prereg)"
    if "k \<notin> set TRIAL_KEYS" for k v
  proof -
    have "set_member k v x = Inr (JObj (dict_set k v d))" by (simp add: set_member_def d)
    from first [where f = "set_member k v", OF this extra_member_rejected [OF that]] show ?thesis .
  qed
  obtain raw1 raw2 raw3 raw4 raw5 where changed: "raw_metric_mutation raw = Inr raw1"
      "in_first_trial (set_member ''trial_result'' (JStr ''PASS'')) raw = Inr raw2"
      "in_first_trial (set_member ''hard_gate'' (JBool True)) raw = Inr raw3"
      "in_first_trial (set_member ''seed'' (JStr ZERO_SEED)) raw = Inr raw4"
      "set_member ''development_result'' (JStr ''PASS'') raw = Inr raw5"
    and rejections: "raises_evaluation (evaluate raw1 prereg)" "raises_evaluation (evaluate raw2 prereg)" "raises_evaluation (evaluate raw3 prereg)"
      "expect_rejection (evaluate raw4 prereg) = Inr (ti_seed i \<noteq> ZERO_SEED)" "raises_evaluation (evaluate raw5 prereg)"
    using metric injected [of "''trial_result''" "JStr ''PASS''"] injected [of "''hard_gate''" "JBool True"]
      seed_mutation_observed [OF assms(1) p doc raw i trial] aggregate_rejected [OF p, of "JStr ''PASS''" doc]
    by (auto simp: TRIAL_KEYS_def doc set_member_def)
  have "evaluator_mutation_observations raw prereg canonical_trial =
       (if list_all (\<lambda>i. ti_regime i = ti_regime (hd (pg_trials p))) (pg_trials p) then Inl StopIteration
        else Inr [(''raw_metric_mutation'', True), (''threshold_mutation'', True),
          (''executable_trial_result_injection'', True), (''executable_gate_boolean_injection'', True),
          (''seed_mutation'', ti_seed (hd (pg_trials p)) \<noteq> ZERO_SEED), (''regime_mutation'', True),
          (''aggregate_mutation'', True)])" if "sha256 bytes' \<noteq> sha256 bytes"
    using regime_mutation_observed [OF p doc raw i trial]
    by (auto simp: evaluator_mutation_observations_def reject_changed_derivation_def changed m i
        expect_rejected rejected_bind rejections rejects [rule_format, OF that] split: if_splits)
  then show ?thesis
    using p m bytes unfolding sha256_collision_def by blast
qed

text \<open>The demonstration has one regime: the tests cannot choose another and end.\<close>

theorem evaluator_mutations_rejected_witness:
  "\<exists>bytes bytes'. bytes' \<noteq> bytes \<and> ravel_canonical_bytes demo_preregistration = Inr bytes \<and>
     (sha256_collision bytes' bytes \<or>
      evaluator_mutation_observations demo_raw demo_preregistration JNull = Inl StopIteration)"
proof -
  obtain ev where ev: "evaluate demo_raw demo_preregistration = Inr ev" using demo_evaluated by blast
  have one: "finite_double 1" using fl_int [of 1] by (simp add: finite_double_def)
  have ok: "json_ok demo_preregistration"
    by (simp add: demo_preregistration_def demo_freeze_def demo_seed_derivation_def demo_sizes_def demo_constants_def
      demo_trials_def demo_gate_def demo_rule_def demo_dispositions_def demo_formal_def DATASET_KEYS_def CONSTANT_KEYS_def
      demo_variant_names_def moderate_int [of 1, simplified] moderate_int [of 8, simplified] one)
  from evaluator_mutations_rejected [OF ev ok, of JNull] show ?thesis
    by (auto simp: demo_prereg_valid demo_prereg_def)
qed

end
