(* ===== verification/RavelManifest.thy ===== *)
theory RavelManifest
  imports RavelEvidence PyJsonParse
begin

text \<open>
  \<^verbatim>\<open>case-studies/ravel/tools/ravel_0_5_source_digest.py\<close>: the source manifest, its verification and
  that of the assurance record; and the two operations of
  \<^verbatim>\<open>case-studies/ravel/tools/ravel_0_5_evidence.py\<close> on it, the assurance case and the mutation tests of
  the manifest.

  A repository is a dictionary from the path of each regular file, relative to its root, to the bytes
  of the file.  Which paths a glob pattern stands for is a parameter: the program only asks whether a
  file matches one.  \<open>ManifestError\<close> is a \<open>RuntimeError\<close>.
\<close>

type_synonym repository = "(string, string) dict"

definition ManifestError :: "string \<Rightarrow> py_error" where
  "ManifestError message = RuntimeError message"

definition REQUIRED_ROLES :: "string list" where
  "REQUIRED_ROLES =
     [''entrypoint'', ''contract'', ''scope'', ''preregistration'', ''development_corpus'',
      ''manifest_specification'', ''threat_model'', ''limitations'', ''postmortem'',
      ''independent_evaluator'', ''evidence_generator'', ''source_digest_utility'',
      ''case_build_specification'', ''root_build_specification'', ''ci_workflow'']"

definition read_file :: "repository \<Rightarrow> string \<Rightarrow> string res" where
  "read_file repo path =
     (case dict_get repo path of None \<Rightarrow> Inl (OSError path) | Some content \<Rightarrow> Inr content)"

definition load_object :: "repository \<Rightarrow> string \<Rightarrow> obj res" where
  "load_object repo path =
     bind_res (read_file repo path) (\<lambda>content.
     bind_res (json_loads_bytes content) (\<lambda>v.
       case v of JObj d \<Rightarrow> Inr d
       | _ \<Rightarrow> Inl (ManifestError (path @ '': top-level JSON value must be an object''))))"

section \<open>The source digest\<close>

definition frame_file :: "string \<times> string \<Rightarrow> string res" where
  "frame_file = (\<lambda>(path, content).
     let relative = encode_utf8 path in
     if 2 ^ 32 \<le> length relative \<or> 2 ^ 64 \<le> length content then Inl StructError
     else Inr (be_bytes 4 (int (length relative)) @ relative
       @ be_bytes 8 (int (length content)) @ content))"

definition framed_bytes :: "(string \<times> string) list \<Rightarrow> string res" where
  "framed_bytes files = bind_res (map_res frame_file files) (\<lambda>frames. Inr (concat frames))"

definition framed_source_digest :: "(string \<times> string) list \<Rightarrow> string res" where
  "framed_source_digest files = bind_res (framed_bytes files) (\<lambda>bytes. Inr (sha256 bytes))"

section \<open>The specification\<close>

definition role_and_path :: "nat \<times> json \<Rightarrow> (string \<times> string) res" where
  "role_and_path = (\<lambda>(index, item).
     let place = ''ordered_files['' @ int_str (int index) @ '']'' in
     case item of
       JObj d \<Rightarrow>
         (case (get_or_null d ''role'', get_or_null d ''path'') of
            (JStr role, JStr path) \<Rightarrow> Inr (role, path)
          | _ \<Rightarrow> Inl (ManifestError (place @ '' lacks string role/path'')))
     | _ \<Rightarrow> Inl (ManifestError (place @ '' is not an object'')))"

definition is_path_in :: "string list \<Rightarrow> json \<Rightarrow> bool" where
  "is_path_in paths v = (case v of JStr s \<Rightarrow> s \<in> set paths | _ \<Rightarrow> False)"

definition ordered_entries :: "obj \<Rightarrow> (string \<times> string) list res" where
  "ordered_entries spec =
     (case get_or_null spec ''ordered_files'' of
        JList xs \<Rightarrow>
          if xs = [] then Inl (ManifestError ''manifest specification has no ordered_files'')
          else bind_res (map_res role_and_path (enumerate 0 xs)) (\<lambda>entries.
            let roles = map fst entries; missing = filter (\<lambda>role. role \<notin> set roles) REQUIRED_ROLES in
            bind_res (guard_res (\<not> distinct roles) (ManifestError ''duplicate ordered manifest role'')) (\<lambda>_.
            bind_res (guard_res (\<not> distinct (map snd entries)) (ManifestError ''duplicate ordered manifest path'')) (\<lambda>_.
            bind_res (guard_res (missing \<noteq> [])
              (ManifestError (''required manifest roles omitted: '' @ str_list (sort missing)))) (\<lambda>_.
              Inr entries))))
      | _ \<Rightarrow> Inl (ManifestError ''manifest specification has no ordered_files''))"

text \<open>The list under a key, all of whose members are listed paths.\<close>

definition listed_sources :: "obj \<Rightarrow> string \<Rightarrow> string list \<Rightarrow> bool \<Rightarrow> string \<Rightarrow> string \<Rightarrow> string list res" where
  "listed_sources spec key paths may_be_empty no_array omitted =
     (case get_or_null spec key of
        JList xs \<Rightarrow>
          if xs = [] \<and> \<not> may_be_empty then Inl (ManifestError no_array)
          else map_res (\<lambda>v. bind_res (guard_res (\<not> is_path_in paths v) (ManifestError (omitted @ py_str v))) (\<lambda>_.
            Inr (py_str v))) xs
      | _ \<Rightarrow> Inl (ManifestError no_array))"

definition check_build_configuration :: "json \<Rightarrow> unit res" where
  "check_build_configuration v =
     (case v of
        JObj build \<Rightarrow>
          bind_res (map_res (\<lambda>name. guard_res (name \<notin> set (dict_keys build))
              (ManifestError (''build_configuration omits '' @ name)))
            [''language'', ''standard'', ''canonical_compiler'', ''canonical_flags'']) (\<lambda>_.
          case get_or_null build ''canonical_flags'' of
            JList (x # xs) \<Rightarrow> Inr ()
          | _ \<Rightarrow> Inl (ManifestError ''canonical_flags must be a non-empty array''))
      | _ \<Rightarrow> Inl (ManifestError ''build_configuration must be an object''))"

text \<open>The checked specification: its entries, and the declared execution shards.\<close>

definition validate_spec :: "obj \<Rightarrow> ((string \<times> string) list \<times> string list) res" where
  "validate_spec spec =
     bind_res (ordered_entries spec) (\<lambda>entries.
     let paths = map snd entries in
     bind_res (guard_res (\<not> is_path_in paths (get_or_null spec ''entrypoint''))
       (ManifestError ''entrypoint is omitted from ordered_files'')) (\<lambda>_.
     bind_res (listed_sources spec ''maintained_execution_sources'' paths False
       ''maintained_execution_sources must be a non-empty array'' ''maintained execution source omitted: '') (\<lambda>maintained.
     bind_res (listed_sources spec ''generated_execution_shards'' paths True
       ''generated_execution_shards must be an array'' ''generated shard omitted from ordered_files: '') (\<lambda>generated.
     bind_res (check_build_configuration (get_or_null spec ''build_configuration'')) (\<lambda>_.
       Inr (entries, generated @ maintained))))))"

definition discovery_globs :: "obj \<Rightarrow> string list res" where
  "discovery_globs spec =
     (case dict_get spec ''execution_source_discovery_globs'' of
        None \<Rightarrow> Inr []
      | Some (JList xs) \<Rightarrow>
          map_res (\<lambda>v. case v of JStr pattern \<Rightarrow> Inr pattern
            | _ \<Rightarrow> Inl (ManifestError ''execution shard glob must be a string'')) xs
      | _ \<Rightarrow> Inl (ManifestError ''execution_source_discovery_globs must be an array''))"

definition discover_execution_shards ::
  "(string \<Rightarrow> string \<Rightarrow> bool) \<Rightarrow> obj \<Rightarrow> repository \<Rightarrow> string list res" where
  "discover_execution_shards matches spec repo =
     bind_res (discovery_globs spec) (\<lambda>patterns.
       Inr (filter (\<lambda>path. list_ex (\<lambda>pattern. matches pattern path) patterns) (dict_keys repo)))"

section \<open>The manifest\<close>

definition entry_json :: "nat \<Rightarrow> string \<times> string \<Rightarrow> string \<Rightarrow> json" where
  "entry_json order = (\<lambda>(role, path) content. JObj
     [(''order'', JInt (int order)), (''role'', JStr role), (''path'', JStr path),
      (''bytes'', JInt (int (length content))), (''sha256'', JStr (sha256 content))])"

definition manifest_entry :: "repository \<Rightarrow> nat \<times> string \<times> string \<Rightarrow> (string \<times> string \<times> json) res" where
  "manifest_entry repo = (\<lambda>(order, role, path).
     case dict_get repo path of
       None \<Rightarrow> Inl (ManifestError (''listed source file is missing: '' @ path))
     | Some content \<Rightarrow> Inr (path, content, entry_json order (role, path) content))"

definition difference :: "string list \<Rightarrow> string list \<Rightarrow> string list" where
  "difference xs ys = sort (remdups (filter (\<lambda>x. x \<notin> set ys) xs))"

definition build_manifest_of ::
  "(string \<Rightarrow> string \<Rightarrow> bool) \<Rightarrow> obj \<Rightarrow> repository \<Rightarrow> obj res" where
  "build_manifest_of matches spec repo =
     bind_res (validate_spec spec) (\<lambda>(entries, declared).
     bind_res (discover_execution_shards matches spec repo) (\<lambda>discovered.
     let unexpected = difference discovered declared; omitted = difference declared discovered in
     bind_res (guard_res (unexpected \<noteq> [])
       (ManifestError (''unexpected execution shard outside manifest: '' @ str_list unexpected))) (\<lambda>_.
     bind_res (guard_res (omitted \<noteq> [])
       (ManifestError (''declared execution shard is missing: '' @ str_list omitted))) (\<lambda>_.
     bind_res (map_res (manifest_entry repo) (enumerate 0 entries)) (\<lambda>files.
     bind_res (obj_at spec ''entrypoint'') (\<lambda>entrypoint.
     bind_res (obj_at spec ''maintained_execution_sources'') (\<lambda>maintained.
     bind_res (obj_at spec ''generated_execution_shards'') (\<lambda>generated.
     bind_res (obj_at spec ''source_provenance'') (\<lambda>provenance.
     bind_res (obj_at spec ''build_configuration'') (\<lambda>build.
     bind_res (obj_at spec ''checkpoint_schema'') (\<lambda>checkpoint_schema.
     bind_res (obj_at spec ''evidence_schema_versions'') (\<lambda>versions.
     bind_res (obj_at spec ''digest_algorithm'') (\<lambda>algorithm.
     bind_res (obj_at spec ''digest_procedure'') (\<lambda>procedure.
     bind_res (framed_source_digest (map (\<lambda>(path, content, _). (path, content)) files)) (\<lambda>digest.
       Inr [(''schema'', JStr ''ravel-source-and-execution-manifest/0.5''), (''entrypoint'', entrypoint),
            (''maintained_execution_sources'', maintained), (''generated_execution_shards'', generated),
            (''generator_source'', JNull), (''source_provenance'', provenance), (''build_configuration'', build),
            (''checkpoint_schema'', checkpoint_schema), (''evidence_schema_versions'', versions),
            (''digest_algorithm'', algorithm), (''digest_procedure'', procedure),
            (''ordered_files'', JList (map (\<lambda>(_, _, entry). entry) files)),
            (''source_digest'', JStr digest), (''unexpected_execution_shards'', JList [])])))))))))))))))"

definition build_manifest :: "(string \<Rightarrow> string \<Rightarrow> bool) \<Rightarrow> string \<Rightarrow> repository \<Rightarrow> obj res" where
  "build_manifest matches spec_path repo =
     bind_res (load_object repo spec_path) (\<lambda>spec. build_manifest_of matches spec repo)"

definition verify_manifest_record :: "obj \<Rightarrow> obj \<Rightarrow> unit res" where
  "verify_manifest_record expected actual =
     guard_res (\<not> json_eq (JObj actual) (JObj expected))
       (ManifestError ''source manifest is stale, reordered, incomplete, or contains unexpected data'')"

definition verify_assurance_record :: "obj \<Rightarrow> obj \<Rightarrow> string \<Rightarrow> string \<Rightarrow> unit res" where
  "verify_assurance_record assurance manifest manifest_name manifest_sha256 =
     (case get_or_null assurance ''implementation'' of
        JObj implementation \<Rightarrow>
          bind_res (obj_at manifest ''source_digest'') (\<lambda>digest.
          bind_res (guard_res (\<not> json_eq (get_or_null implementation ''source_digest'') digest)
            (ManifestError ''assurance record contains a stale source digest'')) (\<lambda>_.
          bind_res (guard_res (\<not> json_eq (get_or_null implementation ''source_manifest_sha256'') (JStr manifest_sha256))
            (ManifestError ''assurance record contains a stale manifest digest'')) (\<lambda>_.
            guard_res (\<not> json_eq (get_or_null implementation ''source_manifest'') (JStr manifest_name))
              (ManifestError ''assurance record names the wrong source manifest''))))
      | _ \<Rightarrow> Inl (ManifestError ''assurance record lacks implementation object''))"

text \<open>The manifest file and the assurance file are read from the same repository.\<close>

definition verify_manifest_files ::
  "(string \<Rightarrow> string \<Rightarrow> bool) \<Rightarrow> string \<Rightarrow> string \<Rightarrow> string option \<Rightarrow> string \<Rightarrow> repository \<Rightarrow> obj res" where
  "verify_manifest_files matches spec_path manifest_path assurance_path manifest_name repo =
     bind_res (build_manifest matches spec_path repo) (\<lambda>expected.
     bind_res (load_object repo manifest_path) (\<lambda>actual.
     bind_res (verify_manifest_record expected actual) (\<lambda>_.
     bind_res (obj_at expected ''source_digest'') (\<lambda>digest.
     bind_res (read_file repo manifest_path) (\<lambda>bytes.
     let result = [(''manifest_match'', JBool True), (''source_digest'', digest),
                   (''manifest_sha256'', JStr (sha256 bytes))] in
     case assurance_path of
       None \<Rightarrow> Inr result
     | Some path \<Rightarrow>
         bind_res (load_object repo path) (\<lambda>assurance.
         bind_res (verify_assurance_record assurance expected manifest_name (sha256 bytes)) (\<lambda>_.
           Inr (result @ [(''assurance_match'', JBool True)]))))))))"

section \<open>The assurance case\<close>

definition MANIFEST_NAME :: string where
  "MANIFEST_NAME = ''ravel-0.5-source-and-execution-manifest.json''"

definition evidence_record :: "string \<times> json \<Rightarrow> json res" where
  "evidence_record = (\<lambda>(name, v).
     bind_res (ravel_canonical_bytes v) (\<lambda>content.
       Inr (JObj [(''path'', JStr name), (''bytes'', JInt (int (length content))),
                  (''sha256'', JStr (sha256 content))])))"

definition build_assurance :: "json \<Rightarrow> obj \<Rightarrow> obj \<Rightarrow> obj \<Rightarrow> obj res" where
  "build_assurance raw trial negative manifest =
     bind_res (map_res evidence_record
       [(''ravel-0.5-raw-observations.json'', raw), (''ravel-0.5-trial-evidence.json'', JObj trial),
        (''ravel-0.5-negative-evidence.json'', JObj negative)]) (\<lambda>records.
     bind_res (obj_at negative ''all_negative_tests_pass'') (\<lambda>negative_pass.
     bind_res (obj_at trial ''development_result'') (\<lambda>development_result.
     bind_res (obj_at manifest ''entrypoint'') (\<lambda>entrypoint.
     bind_res (sha256_json (JObj manifest)) (\<lambda>manifest_sha256.
     bind_res (obj_at manifest ''source_digest'') (\<lambda>source_digest.
     bind_res (obj_at manifest ''build_configuration'') (\<lambda>build.
     bind_res (obj_at manifest ''source_provenance'') (\<lambda>provenance.
     bind_res (obj_at trial ''trial_summary'') (\<lambda>summary.
       Inr [(''schema'', JStr ''ravel-assurance-case/0.5''),
            (''assurance_case_id'', JStr ''ravel.adaptive-mechanism-correction.epoch-1''),
            (''execution_integrity'', verdict_text (truthy negative_pass)),
            (''development_result'', development_result),
            (''disposition'', JStr ''NON_PROMOTION_RESEARCH_EVIDENCE''),
            (''formal_mncs_status'', JStr ''UNKNOWN''), (''formal_mncds_status'', JStr ''UNKNOWN''),
            (''promotion_authorized'', JBool False),
            (''implementation'', JObj
               [(''entrypoint'', entrypoint), (''source_manifest'', JStr MANIFEST_NAME),
                (''source_manifest_sha256'', JStr manifest_sha256), (''source_digest'', source_digest),
                (''build_configuration'', build), (''source_provenance'', provenance)]),
            (''evaluator_authority'', JObj
               [(''path'', JStr ''case-studies/ravel/tools/ravel_0_5_evaluator.py''),
                (''preregistration'', JStr ''ravel-0.5-preregistration.json''),
                (''raw_executable_verdicts_trusted'', JBool False),
                (''all_gates_independently_derived'', JBool True)]),
            (''evidence'', JObj
               [(''records'', JList records), (''deterministic_reproduction'', JBool True),
                (''holdouts_used_for_adaptation_or_selection'', JBool False),
                (''negative_and_mutation_tests'', negative_pass), (''protected_custody'', JBool False),
                (''independent_custody'', JBool False)]),
            (''trial_summary'', summary),
            (''claim_boundaries'', JList (map JStr
               [''development evidence is not independent protected evidence'',
                ''synthetic results do not establish real-data generalization'',
                ''deterministic reproduction is not cross-organizational reproduction'',
                ''routing equivalence is not overall model correctness'',
                ''checkpoint reproducibility is not production rollback authorization'',
                ''formal MNCS and MNCDS status remain UNKNOWN'',
                ''promotion remains unauthorized'']))])))))))))"

section \<open>Mutations of the source tree\<close>

definition SPEC_PATH :: string where
  "SPEC_PATH = ''case-studies/ravel/ravel-0.5-source-manifest-spec.json''"

text \<open>The copy of the listed files in a fresh directory.\<close>

definition copy_file :: "repository \<Rightarrow> repository \<Rightarrow> json \<Rightarrow> repository res" where
  "copy_file repo copied item =
     bind_res (item_of item ''path'') (\<lambda>v.
       case v of
         JStr path \<Rightarrow> bind_res (read_file repo path) (\<lambda>content. Inr (dict_set path content copied))
       | _ \<Rightarrow> Inl (TypeError ''unsupported operand type(s) for /''))"

definition copied_recalculation ::
  "(string \<Rightarrow> string \<Rightarrow> bool) \<Rightarrow> repository \<Rightarrow> (repository \<Rightarrow> repository res) \<Rightarrow> obj res" where
  "copied_recalculation matches repo change =
     bind_res (load_object repo SPEC_PATH) (\<lambda>spec.
     bind_res (bind_res (obj_at spec ''ordered_files'') iterate) (\<lambda>items.
     bind_res (fold_res (copy_file repo) [] items) (\<lambda>copied.
     bind_res (change copied) (\<lambda>changed. build_manifest matches SPEC_PATH changed))))"

definition append_to :: "string \<Rightarrow> string \<Rightarrow> repository \<Rightarrow> repository res" where
  "append_to relative payload repo =
     bind_res (read_file repo relative) (\<lambda>content. Inr (dict_set relative (content @ payload) repo))"

definition rewrite_spec :: "(json \<Rightarrow> json res) \<Rightarrow> repository \<Rightarrow> repository res" where
  "rewrite_spec change repo =
     bind_res (load_object repo SPEC_PATH) (\<lambda>spec.
     bind_res (change (JObj spec)) (\<lambda>changed.
     bind_res (ravel_canonical_bytes changed) (\<lambda>content. Inr (dict_set SPEC_PATH content repo))))"

definition swap_first_two :: "json \<Rightarrow> json res" where
  "swap_first_two v =
     (case v of
        JList (x # y # rest) \<Rightarrow> Inr (JList (y # x # rest))
      | JList _ \<Rightarrow> Inl IndexError
      | _ \<Rightarrow> Inl (TypeError ''item assignment''))"

definition drop_contract :: "json \<Rightarrow> json res" where
  "drop_contract v =
     bind_res (iterate v) (\<lambda>items.
     bind_res (map_res (\<lambda>entry. item_of entry ''role'') items) (\<lambda>roles.
       Inr (JList (map fst (filter (\<lambda>(_, role). \<not> json_eq role (JStr ''contract'')) (zip items roles))))))"

definition reorder_files :: "repository \<Rightarrow> repository res" where
  "reorder_files = rewrite_spec (at_member ''ordered_files'' swap_first_two)"

definition omit_contract :: "repository \<Rightarrow> repository res" where
  "omit_contract = rewrite_spec (at_member ''ordered_files'' drop_contract)"

definition mutate_build :: "repository \<Rightarrow> repository res" where
  "mutate_build = rewrite_spec (at_member ''build_configuration'' (at_member ''canonical_flags''
     (at_first (\<lambda>_. Inr (JStr ''-std=c99'')))))"

definition ZERO_DIGEST :: string where
  "ZERO_DIGEST = replicate 64 (CHR ''0'')"

definition stale_assurance :: "obj option \<Rightarrow> obj \<Rightarrow> bool res" where
  "stale_assurance assurance manifest =
     (case assurance of
        None \<Rightarrow> Inr True
      | Some record \<Rightarrow>
          bind_res (at_member ''implementation'' (set_member ''source_digest'' (JStr ZERO_DIGEST))
            (JObj record)) (\<lambda>stale.
          bind_res (sha256_json (JObj manifest)) (\<lambda>digest.
            expect_rejection (case stale of
                JObj d \<Rightarrow> verify_assurance_record d manifest MANIFEST_NAME digest
              | _ \<Rightarrow> Inl (AttributeError ''get'')))))"

definition recalculation_rejected ::
  "(string \<Rightarrow> string \<Rightarrow> bool) \<Rightarrow> repository \<Rightarrow> obj \<Rightarrow> (repository \<Rightarrow> repository res) \<Rightarrow> bool res" where
  "recalculation_rejected matches repo manifest change =
     expect_rejection (bind_res (copied_recalculation matches repo change) (\<lambda>recalculated.
       verify_manifest_record recalculated manifest))"

definition manifest_mutation_observations ::
  "(string \<Rightarrow> string \<Rightarrow> bool) \<Rightarrow> repository \<Rightarrow> obj \<Rightarrow> obj option \<Rightarrow> (string, bool) dict res" where
  "manifest_mutation_observations matches repo manifest assurance =
     bind_res (recalculation_rejected matches repo manifest
       (append_to ''case-studies/ravel/RAVEL_0_5_CONTRACT.md'' (CHR 0x0A # ''stale manifest fixture'' @ [CHR 0x0A]))) (\<lambda>stale.
     bind_res (recalculation_rejected matches repo manifest
       (append_to ''case-studies/ravel/ravel_0_5.c''
         (CHR 0x0A # ''/* substituted source fixture */'' @ [CHR 0x0A]))) (\<lambda>substituted.
     bind_res (recalculation_rejected matches repo manifest reorder_files) (\<lambda>reordered.
     bind_res (expect_rejection (copied_recalculation matches repo omit_contract)) (\<lambda>omitted.
     bind_res (recalculation_rejected matches repo manifest mutate_build) (\<lambda>build.
     bind_res (recalculation_rejected matches repo manifest
       (append_to ''case-studies/ravel/tools/ravel_0_5_evaluator.py''
         (CHR 0x0A # ''# artifact mutation fixture'' @ [CHR 0x0A]))) (\<lambda>artifact.
     bind_res (stale_assurance assurance manifest) (\<lambda>assurance_rejected.
       Inr [(''stale_manifest'', stale), (''substituted_source'', substituted), (''reordered_file'', reordered),
            (''omitted_file'', omitted), (''build_configuration_mutation'', build), (''artifact_mutation'', artifact),
            (''stale_assurance'', assurance_rejected)])))))))"

end
