(* ===== verification/RavelManifestProofs.thy ===== *)
theory RavelManifestProofs
  imports RavelManifest RavelEvidenceProofs
begin

text \<open>
  Lemmas behind the properties of the source manifest: the frames of the listed files determine the
  files, what a manifest that was built records, and which exceptions a recalculation can raise.
\<close>

section \<open>The frames determine the files\<close>

lemma digits_determine:
  "(\<And>j. j < k \<Longrightarrow> m div 256 ^ j mod 256 = n div 256 ^ j mod (256 :: int)) \<Longrightarrow> m mod 256 ^ k = n mod 256 ^ k"
proof (induction k)
  case 0
  then show ?case by simp
next
  case (Suc k)
  have split: "x mod 256 ^ Suc k = 256 ^ k * (x div 256 ^ k mod 256) + x mod 256 ^ k" for x :: int
    using zmod_zmult2_eq [of 256 x "256 ^ k"] by (simp add: mult.commute)
  have "m mod 256 ^ k = n mod 256 ^ k" using Suc by simp
  moreover have "m div 256 ^ k mod 256 = n div 256 ^ k mod 256" using Suc.prems by simp
  ultimately show ?case by (simp only: split)
qed

lemma length_be_bytes [simp]: "length (be_bytes k n) = k"
  by (simp add: be_bytes_def)

lemma be_bytes_not_Nil [simp]: "0 < k \<Longrightarrow> be_bytes k n \<noteq> []"
  by (metis length_be_bytes length_greater_0_conv)

lemma be_bytes_inject:
  assumes "be_bytes k m = be_bytes k n" and "0 \<le> m" and "m < 256 ^ k" and "0 \<le> n" and "n < 256 ^ k"
  shows "m = n"
proof -
  have "m div 256 ^ j mod 256 = n div 256 ^ j mod 256" if "j < k" for j
  proof -
    have "be_bytes k m ! (k - 1 - j) = be_bytes k n ! (k - 1 - j)" using assms(1) by simp
    then have "(char_of (nat (m div 256 ^ j mod 256)) :: char) = char_of (nat (n div 256 ^ j mod 256))"
      using that by (simp add: be_bytes_def)
    then have "nat (m div 256 ^ j mod 256) mod 256 = nat (n div 256 ^ j mod 256) mod 256"
      by (metis of_char_of)
    moreover have "nat (x mod 256) mod 256 = nat (x mod 256)" for x :: int
      by (rule mod_less) (simp add: nat_less_iff)
    ultimately have "nat (m div 256 ^ j mod 256) = nat (n div 256 ^ j mod 256)" by simp
    then show ?thesis by (rule eq_nat_nat_iff [THEN iffD1, rotated 2]) simp_all
  qed
  then have "m mod 256 ^ k = n mod 256 ^ k" by (rule digits_determine)
  then show ?thesis using assms(2-5) by simp
qed

definition utf8_char :: "char \<Rightarrow> string" where
  "utf8_char c = (let n = of_char c :: nat in
     if n < 128 then [c] else [char_of (192 + n div 64), char_of (128 + n mod 64)])"

lemma utf8_head:
  "of_char (hd (utf8_char c)) = (let n = of_char c :: nat in if n < 128 then n else 192 + n div 64)"
proof -
  have "of_char c < (256 :: nat)" by simp
  then have "(of_char c :: nat) div 64 < 4" by (intro less_mult_imp_div_less) simp
  then have "192 + (of_char c :: nat) div 64 < 256" by simp
  then show ?thesis by (simp add: utf8_char_def Let_def)
qed

lemma utf8_char_prefix:
  assumes "utf8_char c @ s = utf8_char c' @ t"
  shows "c = c' \<and> s = t"
proof -
  have "hd (utf8_char c) = hd (utf8_char c')"
    using arg_cong [where f = hd, OF assms] by (simp add: utf8_char_def Let_def split: if_splits)
  then have heads: "(let n = of_char c :: nat in if n < 128 then n else 192 + n div 64) =
      (let n = of_char c' in if n < 128 then n else 192 + n div 64)"
    by (simp only: flip: utf8_head)
  show ?thesis
  proof (cases "(of_char c :: nat) < 128")
    case True
    then have "(of_char c' :: nat) < 128" using heads by (simp add: Let_def split: if_splits)
    with True assms show ?thesis by (simp add: utf8_char_def Let_def)
  next
    case False
    have ge: "\<not> (of_char c' :: nat) < 128" using heads False by (simp add: Let_def split: if_splits)
    have divs: "(of_char c :: nat) div 64 = of_char c' div 64" using heads False ge by (simp add: Let_def)
    have tails: "(char_of (128 + of_char c mod 64 :: nat) :: char) = char_of (128 + of_char c' mod 64 :: nat)" "s = t"
      using assms False ge by (simp_all add: utf8_char_def Let_def)
    have "(128 + of_char c mod 64) mod 256 = (128 + of_char c' mod 64 :: nat) mod 256"
      using arg_cong [where f = "of_char :: char \<Rightarrow> nat", OF tails(1)] by simp
    moreover have "128 + x mod 64 < 256" for x :: nat by (simp add: order.strict_trans1 [of _ "128 + 63"])
    ultimately have "(of_char c :: nat) mod 64 = of_char c' mod 64" by simp
    with divs have "(of_char c :: nat) = of_char c'" by (metis div_mult_mod_eq)
    then have "c = c'" by simp
    with tails(2) show ?thesis by simp
  qed
qed

lemma encode_utf8_simps:
  "encode_utf8 [] = []"
  "encode_utf8 (c # s) = utf8_char c @ encode_utf8 s"
  by (simp_all add: encode_utf8_def utf8_char_def Let_def)

lemma utf8_char_not_Nil [simp]: "utf8_char c \<noteq> []"
  by (simp add: utf8_char_def Let_def)

lemma encode_utf8_inject: "encode_utf8 s = encode_utf8 t \<Longrightarrow> s = t"
proof (induction s arbitrary: t)
  case Nil
  then show ?case by (cases t) (simp_all add: encode_utf8_simps)
next
  case (Cons c s)
  then show ?case
    by (cases t) (auto simp: encode_utf8_simps dest!: utf8_char_prefix)
qed

lemma length_encode_utf8: "length (encode_utf8 s) \<le> 2 * length s"
  by (induction s) (auto simp: encode_utf8_simps utf8_char_def Let_def)

lemma frame_file_ok:
  assumes "frame_file (path, content) = Inr bytes"
  shows "bytes = be_bytes 4 (int (length (encode_utf8 path))) @ encode_utf8 path @
      be_bytes 8 (int (length content)) @ content"
    and "int (length (encode_utf8 path)) < 256 ^ 4" and "int (length content) < 256 ^ 8"
  using assms by (auto simp: frame_file_def Let_def split: if_splits)

lemma counted_prefix:
  assumes "be_bytes k (int (length s)) @ s @ x = be_bytes k (int (length t)) @ t @ y"
    and "int (length s) < 256 ^ k" and "int (length t) < 256 ^ k"
  shows "s = t \<and> x = y"
proof -
  have "be_bytes k (int (length s)) = be_bytes k (int (length t))" and rest: "s @ x = t @ y"
    using assms(1) by simp_all
  then have "length s = length t" using be_bytes_inject [of k "int (length s)" "int (length t)"] assms(2,3) by simp
  then show ?thesis using rest by simp
qed

lemma frames_inject:
  assumes "map_res frame_file files = Inr frames" and "map_res frame_file files' = Inr frames'"
    and "concat frames = concat frames'"
  shows "files = files'"
  using assms
proof (induction files arbitrary: files' frames frames')
  case Nil
  show ?case
  proof (cases files')
    case (Cons g gs)
    then obtain frame rest where "frame_file g = Inr frame" "frames' = frame # rest"
      using Nil.prems(2) by (auto simp: bind_res_eq_Inr)
    then have "be_bytes 4 (int (length (encode_utf8 (fst g)))) = []"
      using Nil frame_file_ok(1) [of "fst g" "snd g" frame] by auto
    then show ?thesis by simp
  qed simp
next
  case (Cons f files)
  obtain frame rest where f: "frame_file (fst f, snd f) = Inr frame" and rest: "map_res frame_file files = Inr rest"
    and frames: "frames = frame # rest"
    using Cons.prems(1) by (auto simp: bind_res_eq_Inr)
  note head = frame_file_ok [OF f]
  show ?case
  proof (cases files')
    case Nil
    then have "be_bytes 4 (int (length (encode_utf8 (fst f)))) = []" using Cons.prems head(1) frames by simp
    then show ?thesis by simp
  next
    case cons: (Cons g gs)
    obtain frame' rest' where g: "frame_file (fst g, snd g) = Inr frame'" and rest': "map_res frame_file gs = Inr rest'"
      and frames': "frames' = frame' # rest'"
      using Cons.prems(2) cons by (auto simp: bind_res_eq_Inr)
    note head' = frame_file_ok [OF g]
    have "be_bytes 4 (int (length (encode_utf8 (fst f)))) @ encode_utf8 (fst f) @ be_bytes 8 (int (length (snd f))) @ snd f @ concat rest
        = be_bytes 4 (int (length (encode_utf8 (fst g)))) @ encode_utf8 (fst g) @ be_bytes 8 (int (length (snd g))) @ snd g @ concat rest'"
      using Cons.prems(3) by (simp add: frames frames' head(1) head'(1))
    from counted_prefix [OF this head(2) head'(2)]
    have "fst f = fst g" and "be_bytes 8 (int (length (snd f))) @ snd f @ concat rest = be_bytes 8 (int (length (snd g))) @ snd g @ concat rest'"
      by (auto dest: encode_utf8_inject)
    moreover from counted_prefix [OF this(2) head(3) head'(3)] have "snd f = snd g" and tails: "concat rest = concat rest'"
      by simp_all
    moreover have "files = gs" by (rule Cons.IH [OF rest rest' tails])
    ultimately show ?thesis using cons by (simp add: prod_eq_iff)
  qed
qed

lemma framed_bytes_inject:
  "framed_bytes files = Inr bytes \<Longrightarrow> framed_bytes files' = Inr bytes' \<Longrightarrow> bytes = bytes' \<Longrightarrow> files = files'"
  by (auto simp: framed_bytes_def bind_res_eq_Inr intro: frames_inject)

lemma map_res_total: "\<forall>x \<in> set xs. \<exists>y. f x = Inr y \<Longrightarrow> \<exists>ys. map_res f xs = Inr ys"
  by (induction xs) auto

section \<open>What a manifest records\<close>

definition listed_files :: "repository \<Rightarrow> (string \<times> string) list \<Rightarrow> (string \<times> string) list res" where
  "listed_files repo entries =
     map_res (\<lambda>(role, path). bind_res (read_file repo path) (\<lambda>content. Inr (path, content))) entries"

definition entry_list :: "nat \<Rightarrow> (string \<times> string) list \<Rightarrow> (string \<times> string) list \<Rightarrow> json list" where
  "entry_list n entries files =
     map (\<lambda>(i, entry, path, content). entry_json i entry content) (enumerate n (zip entries files))"

lemma manifest_entries_listed:
  assumes "map_res (manifest_entry repo) (enumerate n entries) = Inr files"
  shows "listed_files repo entries = Inr (map (\<lambda>(path, content, _). (path, content)) files)"
    and "map (\<lambda>(_, _, entry). entry) files = entry_list n entries (map (\<lambda>(path, content, _). (path, content)) files)"
  using assms
proof (induction entries arbitrary: n files)
  case Nil
  case 1 then show ?case by (simp add: listed_files_def)
  case 2 then show ?case using Nil by (simp add: entry_list_def)
next
  case (Cons entry entries)
  {
    fix n files
    assume "map_res (manifest_entry repo) (enumerate n (entry # entries)) = Inr files"
    then obtain content rest where c: "dict_get repo (snd entry) = Some content"
      and rest: "map_res (manifest_entry repo) (enumerate (Suc n) entries) = Inr rest"
      and files: "files = (snd entry, content, entry_json n entry content) # rest"
      by (auto simp: bind_res_eq_Inr manifest_entry_def split: option.splits prod.splits)
    have "listed_files repo (entry # entries) = Inr (map (\<lambda>(path, content, _). (path, content)) files) \<and>
        map (\<lambda>(_, _, entry). entry) files = entry_list n (entry # entries) (map (\<lambda>(path, content, _). (path, content)) files)"
      using Cons.IH [OF rest] by (auto simp: listed_files_def files read_file_def c entry_list_def case_prod_unfold)
  }
  then show "map_res (manifest_entry repo) (enumerate n (entry # entries)) = Inr files \<Longrightarrow>
      listed_files repo (entry # entries) = Inr (map (\<lambda>(path, content, _). (path, content)) files)"
    and "map_res (manifest_entry repo) (enumerate n (entry # entries)) = Inr files \<Longrightarrow>
      map (\<lambda>(_, _, entry). entry) files = entry_list n (entry # entries) (map (\<lambda>(path, content, _). (path, content)) files)"
    for n files by blast+
qed

lemma build_manifest_parts:
  assumes "build_manifest_of matches spec repo = Inr m"
  obtains entries declared files bytes build where "validate_spec spec = Inr (entries, declared)"
    and "listed_files repo entries = Inr files" and "framed_bytes files = Inr bytes"
    and "dict_get m ''source_digest'' = Some (JStr (sha256 bytes))"
    and "dict_get m ''ordered_files'' = Some (JList (entry_list 0 entries files))"
    and "dict_get spec ''build_configuration'' = Some build" and "dict_get m ''build_configuration'' = Some build"
  using assms unfolding build_manifest_of_def Let_def case_prod_unfold
proof (elim bind_resE, goal_cases)
  case (1 ed discovered u u' files entrypoint maintained generated provenance build schema versions algorithm procedure digest)
  note entries = manifest_entries_listed [OF 1(6)]
  obtain bytes where bytes: "framed_bytes (map (\<lambda>(path, content, _). (path, content)) files) = Inr bytes" "digest = sha256 bytes"
    using 1(16) by (auto simp: framed_source_digest_def bind_res_eq_Inr case_prod_unfold)
  show thesis
  proof (rule 1(1) [of "fst ed" "snd ed"])
    show "validate_spec spec = Inr (fst ed, snd ed)" using 1(2) by simp
    show "listed_files repo (fst ed) = Inr (map (\<lambda>(path, content, _). (path, content)) files)" by (rule entries(1))
    show "framed_bytes (map (\<lambda>(path, content, _). (path, content)) files) = Inr bytes" by (rule bytes(1))
  qed (use 1(11) 1(17) [symmetric] bytes(2) entries(2) in \<open>simp_all add: case_prod_unfold\<close>)
qed

section \<open>Equal manifests\<close>

lemma entry_json_eq:
  assumes "json_eq (entry_json i entry content) (entry_json j entry' content')"
  shows "entry = entry' \<and> length content = length content'"
proof -
  obtain role path where e: "entry = (role, path)" by fastforce
  obtain role' path' where e': "entry' = (role', path')" by fastforce
  note eq = assms [unfolded entry_json_def e e' prod.case]
  have "role = role'" by (rule json_eq_member [OF eq, of "''role''" "JStr role"]) auto
  moreover have "path = path'" by (rule json_eq_member [OF eq, of "''path''" "JStr path"]) auto
  moreover have "length content = length content'"
    by (rule json_eq_member [OF eq, of "''bytes''" "JInt (int (length content))"]) auto
  ultimately show ?thesis by (simp add: e e')
qed

lemma entry_list_eq:
  assumes "list_all2 json_eq (entry_list n entries files) (entry_list n' entries' files')"
    and "length files = length entries" and "length files' = length entries'"
  shows "entries = entries' \<and> list_all2 (\<lambda>f g. length (snd f) = length (snd g)) files files'"
  using assms
proof (induction entries arbitrary: files entries' files' n n')
  case Nil
  then have "length (entry_list n' entries' files') = 0" by (simp add: entry_list_def)
  then show ?case using Nil by (simp add: entry_list_def)
next
  case (Cons entry entries)
  obtain f fs where files: "files = f # fs" "length fs = length entries" using Cons.prems(2) by (cases files) auto
  obtain entry' es' where es': "entries' = entry' # es'"
    using Cons.prems(1,3) by (cases entries') (auto simp: files entry_list_def case_prod_unfold)
  obtain g gs where files': "files' = g # gs" "length gs = length es'" using Cons.prems(3) by (cases files') (auto simp: es')
  have "json_eq (entry_json n entry (snd f)) (entry_json n' entry' (snd g))"
    and rest: "list_all2 json_eq (entry_list (Suc n) entries fs) (entry_list (Suc n') es' gs)"
    using Cons.prems(1) by (simp_all add: files(1) files'(1) es' entry_list_def case_prod_unfold)
  from entry_json_eq [OF this(1)] Cons.IH [OF rest files(2) files'(2)] show ?case
    by (simp add: es' files(1) files'(1))
qed

lemma listed_files_shape:
  assumes "listed_files repo entries = Inr files"
  shows "map fst files = map snd entries \<and> (\<forall>f \<in> set files. dict_get repo (fst f) = Some (snd f))"
proof -
  have "list_all2 (\<lambda>(role, path) f. fst f = path \<and> dict_get repo path = Some (snd f)) entries files"
    using assms unfolding listed_files_def map_res_eq_Inr
    by (rule list_all2_mono) (auto simp: bind_res_eq_Inr read_file_def split: option.splits)
  then show ?thesis by (induction rule: list_all2_induct) auto
qed

text \<open>A manifest that verifies against a recalculation.\<close>

lemma verified_manifest:
  assumes "build_manifest_of matches spec repo = Inr m" and "build_manifest_of matches' spec' repo' = Inr m'"
    and "verify_manifest_record m' m = Inr u"
  obtains entries declared declared' files files' bytes bytes' build build'
    where "validate_spec spec = Inr (entries, declared)" and "validate_spec spec' = Inr (entries, declared')"
      and "listed_files repo entries = Inr files" and "listed_files repo' entries = Inr files'"
      and "list_all2 (\<lambda>f g. length (snd f) = length (snd g)) files files'"
      and "framed_bytes files = Inr bytes" and "framed_bytes files' = Inr bytes'" and "sha256 bytes = sha256 bytes'"
      and "dict_get spec ''build_configuration'' = Some build" and "dict_get spec' ''build_configuration'' = Some build'"
      and "json_eq build build'"
proof -
  have eq: "json_eq (JObj m) (JObj m')" using assms(3) by (simp add: verify_manifest_record_def)
  obtain entries declared files bytes build where v: "validate_spec spec = Inr (entries, declared)"
    and f: "listed_files repo entries = Inr files" "framed_bytes files = Inr bytes"
    and m: "dict_get m ''source_digest'' = Some (JStr (sha256 bytes))"
      "dict_get m ''ordered_files'' = Some (JList (entry_list 0 entries files))"
    and b: "dict_get spec ''build_configuration'' = Some build" "dict_get m ''build_configuration'' = Some build"
    by (rule build_manifest_parts [OF assms(1)])
  obtain entries' declared' files' bytes' build' where v': "validate_spec spec' = Inr (entries', declared')"
    and f': "listed_files repo' entries' = Inr files'" "framed_bytes files' = Inr bytes'"
    and m': "dict_get m' ''source_digest'' = Some (JStr (sha256 bytes'))"
      "dict_get m' ''ordered_files'' = Some (JList (entry_list 0 entries' files'))"
    and b': "dict_get spec' ''build_configuration'' = Some build'" "dict_get m' ''build_configuration'' = Some build'"
    by (rule build_manifest_parts [OF assms(2)])
  have lengths: "length files = length entries" "length files' = length entries'"
    using listed_files_shape [OF f(1)] listed_files_shape [OF f'(1)] by (metis length_map)+
  have "list_all2 json_eq (entry_list 0 entries files) (entry_list 0 entries' files')"
    by (rule json_eq_member [OF eq m(2)]) (simp add: m'(2) json_eq_lists)
  from entry_list_eq [OF this lengths] have same: "entries' = entries"
      "list_all2 (\<lambda>f g. length (snd f) = length (snd g)) files files'" by simp_all
  have "sha256 bytes = sha256 bytes'" by (rule json_eq_member [OF eq m(1)]) (simp add: m'(1))
  moreover have "json_eq build build'" by (rule json_eq_member [OF eq b(2)]) (simp add: b'(2))
  ultimately show thesis
    by (rule that [OF v v' [unfolded same(1)] f(1) f'(1) [unfolded same(1)] same(2) f(2) f'(2) _ b(1) b'(1)])
qed

text \<open>Values that are equal to themselves: no NaN, no repeated keys.\<close>

fun self_equal :: "json \<Rightarrow> bool" where
  "self_equal (JFloat x) \<longleftrightarrow> isfinite x"
| "self_equal (JList xs) \<longleftrightarrow> (\<forall>x \<in> set xs. self_equal x)"
| "self_equal (JObj d) \<longleftrightarrow> dict_wf d \<and> (\<forall>(k, v) \<in> set d. self_equal v)"
| "self_equal _ \<longleftrightarrow> True"

lemma self_equal_refl: "self_equal v \<Longrightarrow> json_eq v v"
proof (induction v rule: self_equal.induct)
  case (1 x)
  then show ?case by (cases x) (simp_all add: json_eq.simps feq_def)
next
  case (2 xs)
  then show ?case by (simp add: json_eq_lists list_all2_same)
next
  case (3 d)
  have "case map_of d k of None \<Rightarrow> False | Some w \<Rightarrow> json_eq v w" if "(k, v) \<in> set d" for k v
    using 3 that map_of_is_SomeI [of d k v] by force
  then show ?case by (auto simp: json_eq.simps [of "JObj d"])
qed (simp_all add: json_eq.simps feq_def)

lemma self_equal_ok: "json_ok v \<Longrightarrow> all_finite v \<Longrightarrow> self_equal v"
  by (induction v rule: self_equal.induct) (force simp: list_all_iff)+

lemma self_equal_finite: "self_equal v \<Longrightarrow> all_finite v"
  by (induction v rule: self_equal.induct) (force simp: list_all_iff)+

lemma manifest_self_equal:
  assumes "build_manifest_of matches spec repo = Inr m" and "json_ok (JObj spec)" and "all_finite (JObj spec)"
  shows "self_equal (JObj m)"
  using assms(1) unfolding build_manifest_of_def Let_def case_prod_unfold
proof (elim bind_resE, goal_cases)
  case (1 ed discovered u u' files)
  have member: "self_equal v" if "obj_at spec k = Inr v" for k v
    using that self_equal_ok [OF json_ok_get all_finite_get] assms(2,3) by simp
  have "self_equal (entry_json i entry content)" for i entry content
    by (simp add: entry_json_def case_prod_unfold)
  then have "\<forall>e \<in> set (entry_list 0 (fst ed) fs). self_equal e" for fs
    by (auto simp: entry_list_def)
  then have "\<forall>e \<in> set (map (\<lambda>p. snd (snd p)) files). self_equal e"
    using manifest_entries_listed(2) [OF 1(5)] by (simp add: case_prod_unfold)
  then show ?case using 1(6-14) 1(16) [THEN Inr_inject, symmetric] by (simp add: member case_prod_unfold)
qed

section \<open>The exceptions of a recalculation\<close>

text \<open>Every exception is one that the mutation tests count as a rejection.\<close>

definition benign :: "'a res \<Rightarrow> bool" where
  "benign m \<longleftrightarrow> (\<forall>e. m = Inl e \<longrightarrow> (\<exists>message. e = RuntimeError message))"

lemma benign_simps [simp]: "benign (Inr x)" "benign (Inl (RuntimeError message))" "benign (Inl (ManifestError message))"
  by (simp_all add: benign_def ManifestError_def)

lemma benign_guard [simp]: "benign (guard_res b (ManifestError message))"
  by (simp add: guard_res_def)

lemma benign_bind: "benign m \<Longrightarrow> (\<And>x. m = Inr x \<Longrightarrow> benign (f x)) \<Longrightarrow> benign (bind_res m f)"
  by (cases m) (auto simp: benign_def)

lemma benign_map: "(\<And>x. x \<in> set xs \<Longrightarrow> benign (f x)) \<Longrightarrow> benign (map_res f xs)"
  by (induction xs) (auto intro!: benign_bind)

lemma benign_ordered_entries: "benign (ordered_entries spec)"
  unfolding ordered_entries_def Let_def
  by (auto simp: role_and_path_def Let_def intro!: benign_bind benign_map split: json.splits)

lemma benign_listed_sources: "benign (listed_sources spec key paths b m1 m2)"
  unfolding listed_sources_def by (auto intro!: benign_bind benign_map split: json.splits)

lemma benign_build_configuration: "benign (check_build_configuration v)"
  unfolding check_build_configuration_def by (auto intro!: benign_bind benign_map split: json.splits list.splits)

lemma benign_validate_spec: "benign (validate_spec spec)"
  unfolding validate_spec_def Let_def
  by (intro benign_bind benign_ordered_entries benign_listed_sources benign_build_configuration benign_guard benign_simps)

lemma benign_discovery: "benign (discover_execution_shards matches spec repo)"
  unfolding discover_execution_shards_def discovery_globs_def
  by (auto intro!: benign_bind benign_map split: json.splits option.splits)

definition MANIFEST_KEYS :: "string list" where
  "MANIFEST_KEYS = [''entrypoint'', ''maintained_execution_sources'', ''generated_execution_shards'', ''source_provenance'',
     ''build_configuration'', ''checkpoint_schema'', ''evidence_schema_versions'', ''digest_algorithm'', ''digest_procedure'']"

lemma benign_obj_at: "k \<in> set (dict_keys d) \<Longrightarrow> benign (obj_at d k)"
  using dict_key_get [of k d] by auto

lemma benign_frames:
  assumes "\<forall>(path, content) \<in> set files. length (encode_utf8 path) < 2 ^ 32 \<and> length content < 2 ^ 64"
  shows "benign (framed_source_digest files)"
  unfolding framed_source_digest_def framed_bytes_def using assms
  by (intro benign_bind benign_map) (auto simp: frame_file_def Let_def)

lemma listed_in_repository:
  assumes "map_res (manifest_entry repo) (enumerate n entries) = Inr files"
  shows "\<forall>(path, content, j) \<in> set files. path \<in> set (map snd entries) \<and> content \<in> set (dict_values repo)"
proof -
  from manifest_entries_listed(1) [OF assms] have "listed_files repo entries = Inr (map (\<lambda>(path, content, _). (path, content)) files)" .
  from listed_files_shape [OF this] have keys: "map fst files = map snd entries"
    and got: "\<forall>(path, content, j) \<in> set files. dict_get repo path = Some content"
    by (auto simp: comp_def case_prod_unfold)
  have "fst f \<in> set (map fst files)" if "f \<in> set files" for f using that by simp
  then have "\<forall>f \<in> set files. fst f \<in> set (map snd entries)" by (simp only: keys) blast
  with got show ?thesis by (force dest: map_of_SomeD)
qed

lemma benign_build:
  assumes "set MANIFEST_KEYS \<subseteq> set (dict_keys spec)"
    and "\<And>entries declared. validate_spec spec = Inr (entries, declared) \<Longrightarrow>
      \<forall>path \<in> set (map snd entries). length (encode_utf8 path) < 2 ^ 32"
    and "\<forall>content \<in> set (dict_values repo). length content < 2 ^ 64"
  shows "benign (build_manifest_of matches spec repo)"
  unfolding build_manifest_of_def Let_def case_prod_unfold
proof (intro benign_bind benign_validate_spec benign_discovery benign_guard benign_simps, goal_cases)
  case (1 ed)
  show ?case by (intro benign_map) (auto simp: manifest_entry_def split: option.splits)
next
  case (11 ed discovered u u' files)
  have "\<forall>(path, content, j) \<in> set files. path \<in> set (map snd (fst ed)) \<and> content \<in> set (dict_values repo)"
    by (rule listed_in_repository) (rule 11)
  then show ?case using assms(2) [of "fst ed" "snd ed"] assms(3) 11(1) by (intro benign_frames) fastforce
qed ((rule benign_obj_at, rule subsetD [OF assms(1)], simp add: MANIFEST_KEYS_def)+)

section \<open>The copy of the listed files\<close>

lemma ordered_entries_items:
  assumes "ordered_entries spec = Inr entries"
  obtains items where "dict_get spec ''ordered_files'' = Some (JList items)"
    and "list_all2 (\<lambda>item (role, path). \<exists>d. item = JObj d \<and> dict_get d ''role'' = Some (JStr role) \<and>
      dict_get d ''path'' = Some (JStr path)) items entries"
    and "distinct (map fst entries)" and "distinct (map snd entries)" and "set REQUIRED_ROLES \<subseteq> set (map fst entries)"
proof -
  obtain items where items: "get_or_null spec ''ordered_files'' = JList items"
    and run: "map_res role_and_path (enumerate 0 items) = Inr entries"
    and d: "distinct (map fst entries)" "distinct (map snd entries)" "set REQUIRED_ROLES \<subseteq> set (map fst entries)"
    using assms by (auto simp: ordered_entries_def bind_res_eq_Inr Let_def filter_empty_conv split: json.splits if_splits)
  have "dict_get spec ''ordered_files'' = Some (JList items)"
    using items by (simp add: get_or_null_def split: option.splits)
  moreover have "list_all2 (\<lambda>item (role, path). \<exists>d. item = JObj d \<and> dict_get d ''role'' = Some (JStr role) \<and>
      dict_get d ''path'' = Some (JStr path)) items entries"
  proof -
    have "list_all2 (\<lambda>p (role, path). \<exists>d. snd p = JObj d \<and> dict_get d ''role'' = Some (JStr role) \<and>
        dict_get d ''path'' = Some (JStr path)) (enumerate 0 items) entries"
      using run unfolding map_res_eq_Inr
      by (rule list_all2_mono) (auto simp: role_and_path_def get_or_null_def Let_def split: json.splits option.splits)
    then have "list_all2 (\<lambda>item (role, path). \<exists>d. item = JObj d \<and> dict_get d ''role'' = Some (JStr role) \<and>
        dict_get d ''path'' = Some (JStr path)) (map snd (enumerate 0 items)) entries"
      by (simp only: list_all2_map1)
    then show ?thesis by simp
  qed
  ultimately show thesis using d by (rule that)
qed

lemma copied_files:
  assumes "list_all2 (\<lambda>item (role, path). \<exists>d. item = JObj d \<and> dict_get d ''role'' = Some (JStr role) \<and>
      dict_get d ''path'' = Some (JStr path)) items entries"
    and "listed_files repo entries = Inr files" and "distinct (map fst acc @ map snd entries)"
  shows "fold_res (copy_file repo) acc items = Inr (acc @ files)"
  using assms
proof (induction arbitrary: acc files rule: list_all2_induct)
  case Nil
  then show ?case by (simp add: listed_files_def)
next
  case (Cons item items entry entries)
  obtain content rest where c: "dict_get repo (snd entry) = Some content" and rest: "listed_files repo entries = Inr rest"
    and files: "files = (snd entry, content) # rest"
    using Cons.prems(1) by (auto simp: listed_files_def bind_res_eq_Inr read_file_def split: option.splits prod.splits)
  have "copy_file repo acc item = Inr (dict_set (snd entry) content acc)"
    using Cons.hyps(1) c by (auto simp: copy_file_def item_of_def read_file_def)
  moreover have "dict_set (snd entry) content acc = acc @ [(snd entry, content)]"
    using Cons.prems(2) by (intro dict_set_fresh) auto
  moreover have "fold_res (copy_file repo) (acc @ [(snd entry, content)]) items = Inr ((acc @ [(snd entry, content)]) @ rest)"
    using Cons.prems(2) by (intro Cons.IH rest) auto
  ultimately show ?case by (simp add: files)
qed

section \<open>Recalculations on the copy\<close>

text \<open>A repository with the manifest that was built for it.\<close>

definition recorded ::
  "(string \<Rightarrow> string \<Rightarrow> bool) \<Rightarrow> repository \<Rightarrow> obj \<Rightarrow> obj \<Rightarrow> (string \<times> string) list \<Rightarrow> (string \<times> string) list \<Rightarrow> bool" where
  "recorded matches repo spec m entries files \<longleftrightarrow>
     load_object repo SPEC_PATH = Inr spec \<and> build_manifest_of matches spec repo = Inr m \<and>
     (\<exists>declared. validate_spec spec = Inr (entries, declared)) \<and> listed_files repo entries = Inr files \<and>
     SPEC_PATH \<in> set (map snd entries) \<and> (\<forall>content \<in> set (dict_values repo). length content < 2 ^ 63)"

lemma validate_spec_entries: "validate_spec spec = Inr (entries, declared) \<Longrightarrow> ordered_entries spec = Inr entries"
  by (auto simp: validate_spec_def bind_res_eq_Inr Let_def)

lemma listed_files_get:
  assumes "listed_files repo entries = Inr files" and "distinct (map snd entries)" and "path \<in> set (map snd entries)"
  shows "dict_get files path = dict_get repo path"
proof -
  note shape = listed_files_shape [OF assms(1)]
  obtain content where "dict_get files path = Some content"
    using dict_key_get [of path files] shape assms(3) by auto
  moreover from map_of_SomeD [OF this] shape have "dict_get repo path = Some content" by fastforce
  ultimately show ?thesis by simp
qed

lemma built_keys:
  assumes "build_manifest_of matches spec repo = Inr m"
  shows "set MANIFEST_KEYS \<subseteq> set (dict_keys spec)"
proof -
  have "\<forall>k \<in> set MANIFEST_KEYS. \<exists>v. obj_at spec k = Inr v"
    using assms unfolding build_manifest_of_def Let_def case_prod_unfold
    by (elim bind_resE) (simp add: MANIFEST_KEYS_def)
  then show ?thesis by (intro subsetI) (metis dict_get_in_keys obj_at_eq_Inr)
qed

lemma recorded_facts:
  assumes "recorded matches repo spec m entries files"
  shows "ordered_entries spec = Inr entries" and "distinct (map snd entries)"
    and "load_object files SPEC_PATH = Inr spec"
    and "copied_recalculation matches repo change = bind_res (change files) (build_manifest matches SPEC_PATH)"
    and "set MANIFEST_KEYS \<subseteq> set (dict_keys spec)"
    and "\<forall>path \<in> set (map snd entries). length (encode_utf8 path) < 2 ^ 32"
    and "\<forall>content \<in> set (dict_values files). length content < 2 ^ 63"
proof -
  show entries: "ordered_entries spec = Inr entries"
    using assms validate_spec_entries by (auto simp: recorded_def)
  obtain items where items: "dict_get spec ''ordered_files'' = Some (JList items)"
    and good: "list_all2 (\<lambda>item (role, path). \<exists>d. item = JObj d \<and> dict_get d ''role'' = Some (JStr role) \<and>
      dict_get d ''path'' = Some (JStr path)) items entries"
    and d: "distinct (map snd entries)"
    by (rule ordered_entries_items [OF entries])
  show "distinct (map snd entries)" by (rule d)
  have files: "listed_files repo entries = Inr files" and spec: "load_object repo SPEC_PATH = Inr spec"
    and member: "SPEC_PATH \<in> set (map snd entries)"
    using assms by (simp_all add: recorded_def)
  show "load_object files SPEC_PATH = Inr spec"
    using spec by (simp add: load_object_def read_file_def listed_files_get [OF files d member])
  have "fold_res (copy_file repo) [] items = Inr files"
    using copied_files [OF good files, of "[]"] d by simp
  then show "copied_recalculation matches repo change = bind_res (change files) (build_manifest matches SPEC_PATH)"
    by (simp add: copied_recalculation_def spec items iterate_def)
  have built: "build_manifest_of matches spec repo = Inr m" using assms by (simp add: recorded_def)
  show "set MANIFEST_KEYS \<subseteq> set (dict_keys spec)" by (rule built_keys [OF built])
  obtain bytes where "framed_bytes files = Inr bytes"
  proof (rule build_manifest_parts [OF built])
    fix es declared fs bytes
    assume "validate_spec spec = Inr (es, declared)" and "listed_files repo es = Inr fs" and "framed_bytes fs = Inr bytes"
    then show thesis using assms files by (auto simp: recorded_def intro: that)
  qed
  then have "\<forall>f \<in> set files. \<exists>frame. frame_file (fst f, snd f) = Inr frame"
    by (auto simp: framed_bytes_def bind_res_eq_Inr dest: map_res_member)
  then have short: "\<forall>f \<in> set files. length (encode_utf8 (fst f)) < 2 ^ 32"
    by (auto simp: frame_file_def Let_def not_le split: if_splits)
  have "map fst files = map snd entries" using listed_files_shape [OF files] by simp
  then have "set (map snd entries) = fst ` set files" by (metis set_map)
  with short show "\<forall>path \<in> set (map snd entries). length (encode_utf8 path) < 2 ^ 32" by simp
  show "\<forall>content \<in> set (dict_values files). length content < 2 ^ 63"
    using assms listed_files_shape [OF files] by (force simp: recorded_def dest: map_of_SomeD)
qed

lemma recalculation_observed:
  assumes "recorded matches repo spec m entries files" and "change files = Inr changed"
    and "benign (build_manifest matches SPEC_PATH changed)"
    and "\<And>m' u. build_manifest matches SPEC_PATH changed = Inr m' \<Longrightarrow> verify_manifest_record m' m \<noteq> Inr u"
  shows "recalculation_rejected matches repo m change = Inr True"
proof -
  have "raises_evaluation (bind_res (build_manifest matches SPEC_PATH changed) (\<lambda>recalculated. verify_manifest_record recalculated m))"
  proof (cases "build_manifest matches SPEC_PATH changed")
    case (Inl e)
    then show ?thesis using assms(3) by (auto simp: benign_def raises_evaluation_def)
  next
    case (Inr m')
    with assms(4) show ?thesis
      by (cases "verify_manifest_record m' m")
        (auto simp: raises_evaluation_def verify_manifest_record_def ManifestError_def guard_res_def split: if_splits)
  qed
  then show ?thesis
    by (simp add: recalculation_rejected_def recorded_facts(4) [OF assms(1)] assms(2) expect_rejected)
qed

lemma lookup_lengths:
  assumes "list_all2 (\<lambda>f g. length (snd f) = length (snd g)) fs gs" and "map fst gs = map fst fs"
    and "dict_get fs k = Some x" and "dict_get gs k = Some y"
  shows "length x = length y"
  using assms by (induction rule: list_all2_induct) (auto split: if_splits)

lemma append_rejected:
  assumes "recorded matches repo spec m entries files" and "path \<in> set (map snd entries)" and "path \<noteq> SPEC_PATH"
    and "payload \<noteq> []" and "length payload < 2 ^ 63"
  shows "recalculation_rejected matches repo m (append_to path payload) = Inr True"
proof -
  note facts = recorded_facts [OF assms(1)]
  have files: "listed_files repo entries = Inr files" using assms(1) by (simp add: recorded_def)
  have "path \<in> set (dict_keys files)" using listed_files_shape [OF files] assms(2) by simp
  then obtain content where content: "dict_get files path = Some content" by (blast dest: dict_key_get)
  let ?changed = "dict_set path (content @ payload) files"
  have load: "load_object ?changed SPEC_PATH = Inr spec"
    using facts(3) assms(3) by (simp add: load_object_def read_file_def dict_get_set)
  show ?thesis
  proof (rule recalculation_observed [OF assms(1), where changed = ?changed])
    show "append_to path payload files = Inr ?changed"
      by (simp add: append_to_def read_file_def content)
    have "content \<in> set (dict_values files)" using map_of_SomeD [OF content] by force
    then have "length (content @ payload) < 2 ^ 64" using facts(7) assms(5) by fastforce
    then have "\<forall>content \<in> set (dict_values ?changed). length content < 2 ^ 64"
      using facts(7) by (force dest!: in_dict_set)
    then show "benign (build_manifest matches SPEC_PATH ?changed)"
      unfolding build_manifest_def load bind_res_simps using facts(5,6) validate_spec_entries facts(1)
      by (intro benign_build) auto
    fix m' u
    assume "build_manifest matches SPEC_PATH ?changed = Inr m'"
    then have built: "build_manifest_of matches spec ?changed = Inr m'" by (simp add: build_manifest_def load)
    have own: "build_manifest_of matches spec repo = Inr m" using assms(1) by (simp add: recorded_def)
    show "verify_manifest_record m' m \<noteq> Inr u"
    proof
      assume "verify_manifest_record m' m = Inr u"
      then show False
      proof (rule verified_manifest [OF own built])
        fix es declared fs fs'
        assume v: "validate_spec spec = Inr (es, declared)" and l: "listed_files repo es = Inr fs"
          and l': "listed_files ?changed es = Inr fs'"
          and lengths: "list_all2 (\<lambda>f g. length (snd f) = length (snd g)) fs fs'"
        have es: "es = entries" "fs = files" using v l assms(1) by (auto simp: recorded_def)
        have "dict_get fs' path = Some (content @ payload)"
          using listed_files_get [OF l'] facts(2) assms(2) by (simp add: es(1) dict_get_set)
        moreover have "map fst fs' = map fst fs"
          using listed_files_shape [OF l] listed_files_shape [OF l'] by simp
        ultimately have "length content = length (content @ payload)"
          using lookup_lengths [OF lengths] content es(2) by metis
        then show False using assms(4) by simp
      qed
    qed
  qed
qed

section \<open>A rewritten specification\<close>

text \<open>The text of an object, by length.\<close>

lemma length_join: "length (join_with [c] ss) = sum_list (map length ss) + (length ss - 1)"
  by (induction "[c]" ss rule: join_with.induct) simp_all

lemma sum_list_insort: "sum_list (map f (insort_key g x xs)) = f x + sum_list (map f xs :: nat list)"
  by (induction xs) simp_all

lemma sum_list_sorted: "sum_list (map f (sort_key g xs)) = sum_list (map f xs :: nat list)"
  by (induction xs) (simp_all add: sum_list_insort)

lemma length_object:
  "length (json_dumps (JObj d)) = 2 + sum_list (map (\<lambda>m. length (member_text m)) d) + (length d - 1)"
proof -
  have "sum_list (map (length \<circ> member_text) (sort_key fst d)) = sum_list (map (length \<circ> member_text) d)"
    by (rule sum_list_sorted)
  then show ?thesis unfolding dumps_members by (simp add: length_join comp_def)
qed

lemma length_array: "length (json_dumps (JList xs)) = 2 + sum_list (map (\<lambda>x. length (json_dumps x)) xs) + (length xs - 1)"
  by (simp add: length_join comp_def)

lemma length_member_set:
  "dict_get d k = Some v \<Longrightarrow> length (json_dumps (JObj (dict_set k w d))) + length (json_dumps v) =
     length (json_dumps (JObj d)) + length (json_dumps w)"
proof -
  assume got: "dict_get d k = Some v"
  have "sum_list (map (\<lambda>m. length (member_text m)) (dict_set k w d)) + length (json_dumps v) =
      sum_list (map (\<lambda>m. length (member_text m)) d) + length (json_dumps w)"
    using got by (induction d) (auto simp: member_text_def)
  moreover have "length (dict_set k w d) = length d" using dict_get_in_keys [OF got] by (simp add: length_dict_set)
  ultimately show ?thesis unfolding length_object by simp
qed

text \<open>A change of the specification that leaves an object Python can write back.\<close>

lemma rewrite_spec_loads:
  assumes "load_object files SPEC_PATH = Inr spec" and "change (JObj spec) = Inr (JObj d)"
    and "json_ok (JObj d)" and "all_finite (JObj d)"
  shows "rewrite_spec change files = Inr (dict_set SPEC_PATH (json_dumps (JObj d) @ [CHR 0x0A]) files)"
    and "\<exists>e. canon (JObj d) = JObj e \<and>
      load_object (dict_set SPEC_PATH (json_dumps (JObj d) @ [CHR 0x0A]) files) SPEC_PATH = Inr e"
proof -
  show "rewrite_spec change files = Inr (dict_set SPEC_PATH (json_dumps (JObj d) @ [CHR 0x0A]) files)"
    using assms by (simp add: rewrite_spec_def ravel_canonical_bytes_def del: json_dumps.simps all_finite.simps)
  show "\<exists>e. canon (JObj d) = JObj e \<and>
      load_object (dict_set SPEC_PATH (json_dumps (JObj d) @ [CHR 0x0A]) files) SPEC_PATH = Inr e"
    using loads_bytes_line [OF assms(3)]
    by (simp add: load_object_def read_file_def dict_get_set del: json_dumps.simps)
qed

lemma canon_lookup:
  assumes "canon (JObj d) = JObj e" and "json_ok (JObj d)"
  shows "dict_get e k = map_option canon (dict_get d k)"
  using canon_get [of d k] assms by simp

lemma rewritten_rejected:
  assumes "recorded matches repo spec m entries files" and "change (JObj spec) = Inr (JObj d)"
    and "json_ok (JObj d)" and "all_finite (JObj d)" and "length (json_dumps (JObj d)) < 2 ^ 63"
    and "set (dict_keys spec) \<subseteq> set (dict_keys d)"
    and "\<And>e es. canon (JObj d) = JObj e \<Longrightarrow> ordered_entries e = Inr es \<Longrightarrow> set (map snd es) \<subseteq> set (map snd entries)"
    and "\<And>e build build'. canon (JObj d) = JObj e \<Longrightarrow> ordered_entries e = Inr entries \<Longrightarrow>
      dict_get spec ''build_configuration'' = Some build \<Longrightarrow> dict_get e ''build_configuration'' = Some build' \<Longrightarrow>
      json_eq build build' \<Longrightarrow> False"
  shows "recalculation_rejected matches repo m (rewrite_spec change) = Inr True"
proof -
  note facts = recorded_facts [OF assms(1)]
  let ?changed = "dict_set SPEC_PATH (json_dumps (JObj d) @ [CHR 0x0A]) files"
  note rewrite = rewrite_spec_loads [OF facts(3), of change, OF assms(2-4)]
  obtain e where e: "canon (JObj d) = JObj e" and load: "load_object ?changed SPEC_PATH = Inr e"
    using rewrite(2) by blast
  show ?thesis
  proof (rule recalculation_observed [OF assms(1), where changed = ?changed])
    show "rewrite_spec change files = Inr ?changed" by (rule rewrite(1))
    have "dict_get e k = map_option canon (dict_get d k)" for k by (rule canon_lookup [OF e assms(3)])
    then have "set (dict_keys d) \<subseteq> set (dict_keys e)"
      by (metis (no_types) dict_get_in_keys dict_key_get option.simps(9) subsetI)
    then have keys: "set MANIFEST_KEYS \<subseteq> set (dict_keys e)" using facts(5) assms(6) by blast
    have "\<forall>content \<in> set (dict_values ?changed). length content < 2 ^ 64"
      using facts(7) assms(5) by (force simp del: json_dumps.simps dest!: in_dict_set)
    moreover have "\<forall>path \<in> set (map snd es). length (encode_utf8 path) < 2 ^ 32"
      if "validate_spec e = Inr (es, declared)" for es declared
      using facts(6) assms(7) [OF e validate_spec_entries [OF that]] by blast
    ultimately show "benign (build_manifest matches SPEC_PATH ?changed)"
      unfolding build_manifest_def load bind_res_simps using keys by (intro benign_build)
    fix m' u
    assume "build_manifest matches SPEC_PATH ?changed = Inr m'"
    then have built: "build_manifest_of matches e ?changed = Inr m'" by (simp only: build_manifest_def load bind_res_simps)
    have own: "build_manifest_of matches spec repo = Inr m" using assms(1) by (simp add: recorded_def)
    show "verify_manifest_record m' m \<noteq> Inr u"
    proof
      assume "verify_manifest_record m' m = Inr u"
      then show False
      proof (rule verified_manifest [OF own built])
        fix es declared declared' build build'
        assume "validate_spec spec = Inr (es, declared)" and "validate_spec e = Inr (es, declared')"
          and "dict_get spec ''build_configuration'' = Some build"
          and "dict_get e ''build_configuration'' = Some build'" and "json_eq build build'"
        moreover from this(1) have "es = entries" using assms(1) by (auto simp: recorded_def)
        ultimately show False using assms(8) [OF e] validate_spec_entries by blast
      qed
    qed
  qed
qed

text \<open>The entries of a written and reloaded specification.\<close>

lemma canon_entry:
  assumes "json_ok (JObj d)" and "dict_get d k = Some (JStr s)" and "canon (JObj d) = JObj e"
  shows "dict_get e k = Some (JStr s)"
  using canon_lookup [OF assms(3,1), of k] assms(2) by simp

lemma reloaded_entries:
  assumes "json_ok (JObj d)" and "canon (JObj d) = JObj e" and "ordered_entries e = Inr es"
    and "dict_get d ''ordered_files'' = Some (JList items)"
    and "list_all2 (\<lambda>item (role, path). \<exists>d. item = JObj d \<and> dict_get d ''role'' = Some (JStr role) \<and>
      dict_get d ''path'' = Some (JStr path)) items entries"
  shows "es = entries"
proof -
  have member: "dict_get e ''ordered_files'' = Some (JList (map canon items))"
    using canon_lookup [OF assms(2,1), of "''ordered_files''"] assms(4) by simp
  have again: "list_all2 (\<lambda>item (role, path). \<exists>d. item = JObj d \<and> dict_get d ''role'' = Some (JStr role) \<and>
      dict_get d ''path'' = Some (JStr path)) (map canon items) es"
    by (rule ordered_entries_items [OF assms(3)]) (simp add: member)
  have "\<forall>item \<in> set items. json_ok item" using json_ok_get [OF assms(1,4)] by simp
  with assms(5) again show ?thesis
  proof (induction arbitrary: es rule: list_all2_induct)
    case Nil
    then show ?case by simp
  next
    case (Cons item items entry entries)
    obtain f fs where es: "es = f # fs" using Cons.prems(1) by (cases es) auto
    obtain d where d: "item = JObj d" "dict_get d ''role'' = Some (JStr (fst entry))" "dict_get d ''path'' = Some (JStr (snd entry))"
      using Cons.hyps(1) by (auto simp: case_prod_unfold)
    obtain c where c: "canon item = JObj c" "dict_get c ''role'' = Some (JStr (fst f))" "dict_get c ''path'' = Some (JStr (snd f))"
      using Cons.prems(1) by (auto simp: es case_prod_unfold)
    have ok: "json_ok (JObj d)" using Cons.prems(2) d(1) by simp
    have "f = entry" using canon_entry [OF ok d(2) c(1) [unfolded d(1)]] canon_entry [OF ok d(3) c(1) [unfolded d(1)]] c(2,3)
      by (simp add: prod_eq_iff)
    moreover have "fs = entries" using Cons.IH [of fs] Cons.prems by (simp add: es)
    ultimately show ?case by (simp add: es)
  qed
qed

section \<open>Reordered and changed specifications\<close>

lemma recorded_items:
  assumes "recorded matches repo spec m entries files"
  obtains items where "dict_get spec ''ordered_files'' = Some (JList items)"
    and "list_all2 (\<lambda>item (role, path). \<exists>d. item = JObj d \<and> dict_get d ''role'' = Some (JStr role) \<and>
      dict_get d ''path'' = Some (JStr path)) items entries"
    and "distinct (map fst entries)" and "15 \<le> length entries" and "''contract'' \<in> fst ` set entries"
proof (rule ordered_entries_items [OF recorded_facts(1) [OF assms]])
  fix items
  assume "dict_get spec ''ordered_files'' = Some (JList items)" and roles: "set REQUIRED_ROLES \<subseteq> set (map fst entries)"
    and "list_all2 (\<lambda>item (role, path). \<exists>d. item = JObj d \<and> dict_get d ''role'' = Some (JStr role) \<and>
      dict_get d ''path'' = Some (JStr path)) items entries" and "distinct (map fst entries)"
  moreover have "15 \<le> length entries"
  proof -
    have "card (set REQUIRED_ROLES) \<le> card (set (map fst entries))" by (rule card_mono [OF _ roles]) simp
    moreover have "card (set REQUIRED_ROLES) = 15" by (simp add: REQUIRED_ROLES_def)
    ultimately show ?thesis using card_length [of "map fst entries"] by simp
  qed
  moreover have "''contract'' \<in> fst ` set entries" using roles by (auto simp: REQUIRED_ROLES_def)
  ultimately show thesis by (intro that)
qed

lemma reorder_rejected:
  assumes "recorded matches repo spec m entries files" and "json_ok (JObj spec)" and "all_finite (JObj spec)"
    and "length (json_dumps (JObj spec)) < 2 ^ 62"
  shows "recalculation_rejected matches repo m reorder_files = Inr True"
proof -
  obtain items where items: "dict_get spec ''ordered_files'' = Some (JList items)"
    and good: "list_all2 (\<lambda>item (role, path). \<exists>d. item = JObj d \<and> dict_get d ''role'' = Some (JStr role) \<and>
      dict_get d ''path'' = Some (JStr path)) items entries"
    and roles: "distinct (map fst entries)" "15 \<le> length entries"
    by (rule recorded_items [OF assms(1)])
  obtain a b es where entries: "entries = a # b # es"
    using roles(2) by (cases entries rule: remdups_adj.cases) auto
  obtain x y xs where xs: "items = x # y # xs"
    using list_all2_lengthD [OF good] by (cases items rule: remdups_adj.cases) (auto simp: entries)
  let ?new = "JList (y # x # xs)"
  let ?d = "dict_set ''ordered_files'' ?new spec"
  have new: "list_all2 (\<lambda>item (role, path). \<exists>d. item = JObj d \<and> dict_get d ''role'' = Some (JStr role) \<and>
      dict_get d ''path'' = Some (JStr path)) (y # x # xs) (b # a # es)"
    using good by (simp add: xs entries)
  have ok: "json_ok (JObj ?d)"
    using json_ok_get [OF assms(2) items] by (intro json_ok_set [OF assms(2)]) (simp add: xs)
  have finite: "all_finite (JObj ?d)"
    using all_finite_get [OF assms(3) items] by (intro all_finite_set [OF assms(3)]) (simp add: xs)
  have reloaded: "es' = b # a # es" if "canon (JObj ?d) = JObj e" "ordered_entries e = Inr es'" for e es'
    by (rule reloaded_entries [OF ok that _ new]) (simp add: dict_get_set)
  have swap: "at_member ''ordered_files'' swap_first_two (JObj spec) = Inr (JObj ?d)"
    by (simp add: at_member_def items swap_first_two_def xs)
  have "length (json_dumps (JObj ?d)) = length (json_dumps (JObj spec))"
    using length_member_set [OF items, of ?new] unfolding length_array xs by simp
  then have short: "length (json_dumps (JObj ?d)) < 2 ^ 63" using assms(4) by simp
  have keys: "set (dict_keys spec) \<subseteq> set (dict_keys ?d)" by (auto simp: dict_keys_set)
  have "fst a \<noteq> fst b" using roles(1) by (simp add: entries)
  then have different: "b # a # es \<noteq> entries" by (auto simp: entries)
  show ?thesis
    unfolding reorder_files_def
  proof (rule rewritten_rejected [where change = "at_member ''ordered_files'' swap_first_two",
        OF assms(1) swap ok finite short keys], goal_cases)
    case (1 e es')
    from reloaded [OF this] show ?case by (simp only: entries) auto
  next
    case (2 e)
    from reloaded [OF this(1,2)] different show ?case by simp
  qed
qed

lemma build_configuration_checked:
  assumes "validate_spec spec = Inr (entries, declared)"
  obtains b f fs where "dict_get spec ''build_configuration'' = Some (JObj b)"
    and "dict_get b ''canonical_flags'' = Some (JList (f # fs))"
proof -
  have "check_build_configuration (get_or_null spec ''build_configuration'') = Inr ()"
    using assms by (auto simp: validate_spec_def Let_def bind_res_eq_Inr)
  then obtain b where b: "get_or_null spec ''build_configuration'' = JObj b"
    and "\<exists>f fs. get_or_null b ''canonical_flags'' = JList (f # fs)"
    by (auto simp: check_build_configuration_def bind_res_eq_Inr split: json.splits list.splits)
  then show thesis by (auto simp: get_or_null_def split: option.splits intro: that)
qed

lemma length_bound:
  assumes "a + b = s + c" and "c + f = b + g" and "g \<le> f + k" and "k < 2 ^ 61" and "s < 2 ^ 62"
  shows "a < (2 :: nat) ^ 63"
  using assms by simp

lemma build_change_rejected:
  assumes "recorded matches repo spec m entries files" and "json_ok (JObj spec)" and "all_finite (JObj spec)"
    and "length (json_dumps (JObj spec)) < 2 ^ 62"
    and "dict_get spec ''build_configuration'' = Some (JObj b)" and "dict_get b ''canonical_flags'' = Some (JList (f # fs))"
    and "f \<noteq> JStr ''-std=c99''"
  shows "recalculation_rejected matches repo m mutate_build = Inr True"
proof -
  obtain items where items: "dict_get spec ''ordered_files'' = Some (JList items)"
    and good: "list_all2 (\<lambda>item (role, path). \<exists>d. item = JObj d \<and> dict_get d ''role'' = Some (JStr role) \<and>
      dict_get d ''path'' = Some (JStr path)) items entries"
    by (rule recorded_items [OF assms(1)])
  let ?flags = "JList (JStr ''-std=c99'' # fs)"
  let ?b = "dict_set ''canonical_flags'' ?flags b"
  let ?d = "dict_set ''build_configuration'' (JObj ?b) spec"
  have b: "json_ok (JObj b)" "all_finite (JObj b)"
    by (rule json_ok_get [OF assms(2,5)], rule all_finite_get [OF assms(3,5)])
  have "json_ok (JList (f # fs))" by (rule json_ok_get [OF b(1) assms(6)])
  then have ok': "json_ok (JObj ?b)" by (intro json_ok_set [OF b(1)]) simp
  then have ok: "json_ok (JObj ?d)" by (rule json_ok_set [OF assms(2)])
  have "all_finite (JList (f # fs))" by (rule all_finite_get [OF b(2) assms(6)])
  then have "all_finite (JObj ?b)" by (intro all_finite_set [OF b(2)]) simp
  then have finite: "all_finite (JObj ?d)" by (rule all_finite_set [OF assms(3)])
  have change: "at_member ''build_configuration'' (at_member ''canonical_flags'' (at_first (\<lambda>_. Inr (JStr ''-std=c99''))))
      (JObj spec) = Inr (JObj ?d)"
    by (simp add: at_member_def at_first_def assms(5,6))
  have "length (json_dumps ?flags) \<le> length (json_dumps (JList (f # fs))) + length (json_dumps (JStr ''-std=c99''))"
    unfolding length_array by simp
  moreover have "length (json_dumps (JStr ''-std=c99'')) < 2 ^ 61" by (simp add: json_string_def escape_char_def Let_def)
  ultimately have short: "length (json_dumps (JObj ?d)) < 2 ^ 63"
    by (rule length_bound [OF length_member_set [OF assms(5)] length_member_set [OF assms(6)] _ _ assms(4)])
  have keys: "set (dict_keys spec) \<subseteq> set (dict_keys ?d)" by (auto simp: dict_keys_set)
  show ?thesis
    unfolding mutate_build_def
  proof (rule rewritten_rejected [where change = "at_member ''build_configuration'' (at_member ''canonical_flags''
        (at_first (\<lambda>_. Inr (JStr ''-std=c99''))))", OF assms(1) change ok finite short keys], goal_cases)
    case (1 e es)
    have "es = entries"
      by (rule reloaded_entries [OF ok 1 _ good]) (simp add: dict_get_set items)
    then show ?case by simp
  next
    case (2 e build build')
    have "build' = canon (JObj ?b)"
      using canon_lookup [OF 2(1) ok, of "''build_configuration''"] 2(4) by (simp add: dict_get_set del: canon.simps)
    with 2(3,5) assms(5) have eq: "json_eq (JObj b) (canon (JObj ?b))" by simp
    obtain e' where e': "canon (JObj ?b) = JObj e'" by simp
    have flags: "dict_get e' ''canonical_flags'' = Some (canon ?flags)"
      using canon_lookup [OF e' ok', of "''canonical_flags''"] by (simp add: dict_get_set)
    have "json_eq (JList (f # fs)) (canon ?flags)"
      by (rule json_eq_member [OF eq [unfolded e'] assms(6)]) (use flags in simp)
    then have "json_eq f (JStr ''-std=c99'')" by (simp add: json_eq_lists)
    then show False using assms(7) by (cases f) (simp_all add: json_eq.simps)
  qed
qed

lemma drop_contract_items:
  assumes "list_all2 (\<lambda>item (role, path). \<exists>d. item = JObj d \<and> dict_get d ''role'' = Some (JStr role) \<and>
      dict_get d ''path'' = Some (JStr path)) items entries"
  shows "\<exists>kept. drop_contract (JList items) = Inr (JList kept) \<and> set kept \<subseteq> set items \<and>
    list_all2 (\<lambda>item (role, path). \<exists>d. item = JObj d \<and> dict_get d ''role'' = Some (JStr role) \<and>
      dict_get d ''path'' = Some (JStr path)) kept (filter (\<lambda>(role, path). role \<noteq> ''contract'') entries)"
proof -
  have roles: "map_res (\<lambda>entry. item_of entry ''role'') items = Inr (map (\<lambda>(role, path). JStr role) entries)"
    using assms by (induction rule: list_all2_induct) (auto simp: item_of_def)
  let ?kept = "map fst (filter (\<lambda>(_, role). \<not> json_eq role (JStr ''contract''))
      (zip items (map (\<lambda>(role, path). JStr role) entries)))"
  have "set ?kept \<subseteq> set items" by (auto dest: set_zip_leftD)
  moreover have "list_all2 (\<lambda>item (role, path). \<exists>d. item = JObj d \<and> dict_get d ''role'' = Some (JStr role) \<and>
      dict_get d ''path'' = Some (JStr path)) ?kept (filter (\<lambda>(role, path). role \<noteq> ''contract'') entries)"
    using assms by (induction rule: list_all2_induct) auto
  ultimately show ?thesis by (intro exI [of _ ?kept]) (simp add: drop_contract_def iterate_def roles)
qed

lemma omission_rejected:
  assumes "recorded matches repo spec m entries files" and "json_ok (JObj spec)" and "all_finite (JObj spec)"
  shows "expect_rejection (copied_recalculation matches repo omit_contract) = Inr True"
proof -
  note facts = recorded_facts [OF assms(1)]
  obtain items where items: "dict_get spec ''ordered_files'' = Some (JList items)"
    and good: "list_all2 (\<lambda>item (role, path). \<exists>d. item = JObj d \<and> dict_get d ''role'' = Some (JStr role) \<and>
      dict_get d ''path'' = Some (JStr path)) items entries"
    by (rule recorded_items [OF assms(1)])
  obtain kept where drop: "drop_contract (JList items) = Inr (JList kept)" and subset: "set kept \<subseteq> set items"
    and left: "list_all2 (\<lambda>item (role, path). \<exists>d. item = JObj d \<and> dict_get d ''role'' = Some (JStr role) \<and>
      dict_get d ''path'' = Some (JStr path)) kept (filter (\<lambda>(role, path). role \<noteq> ''contract'') entries)"
    using drop_contract_items [OF good] by blast
  let ?d = "dict_set ''ordered_files'' (JList kept) spec"
  have change: "at_member ''ordered_files'' drop_contract (JObj spec) = Inr (JObj ?d)"
    by (simp add: at_member_def items drop)
  have ok: "json_ok (JObj ?d)"
    using json_ok_get [OF assms(2) items] subset by (intro json_ok_set [OF assms(2)]) auto
  have finite: "all_finite (JObj ?d)"
    using all_finite_get [OF assms(3) items] subset by (intro all_finite_set [OF assms(3)]) (auto simp: list_all_iff)
  note rewrite = rewrite_spec_loads [where change = "at_member ''ordered_files'' drop_contract", OF facts(3) change ok finite]
  obtain e where e: "canon (JObj ?d) = JObj e"
    and load: "load_object (dict_set SPEC_PATH (json_dumps (JObj ?d) @ [CHR 0x0A]) files) SPEC_PATH = Inr e"
    using rewrite(2) by blast
  have "ordered_entries e \<noteq> Inr es" for es
  proof
    assume es: "ordered_entries e = Inr es"
    have "es = filter (\<lambda>(role, path). role \<noteq> ''contract'') entries"
      by (rule reloaded_entries [OF ok e es _ left]) (simp add: dict_get_set)
    moreover have "''contract'' \<in> set (map fst es)"
      by (rule ordered_entries_items [OF es]) (auto simp: REQUIRED_ROLES_def)
    ultimately show False by auto
  qed
  then have "raises_evaluation (ordered_entries e)"
    using benign_ordered_entries [of e] unfolding benign_def raises_evaluation_def by (cases "ordered_entries e") auto
  then have "raises_evaluation (validate_spec e)" unfolding validate_spec_def by (rule rejected_bind)
  then have "raises_evaluation (build_manifest_of matches e repo')" for repo' unfolding build_manifest_of_def by (rule rejected_bind)
  then show ?thesis
    by (simp add: facts(4) omit_contract_def rewrite(1) build_manifest_def load expect_rejected
      del: json_dumps.simps canon.simps)
qed

lemma benign_observed: "benign m \<Longrightarrow> \<exists>observed. expect_rejection m = Inr observed"
  by (cases m) (auto simp: benign_def expect_rejection_def)

lemma stale_assurance_observed:
  assumes "dict_get assurance ''implementation'' = Some (JObj implementation)"
    and "dict_get m ''source_digest'' = Some (JStr digest)" and "all_finite (JObj m)"
  shows "\<exists>stale. stale_assurance (Some assurance) m = Inr stale \<and>
    (stale \<or> dict_get m ''source_digest'' = Some (JStr ZERO_DIGEST))"
proof -
  let ?stale = "dict_set ''implementation'' (JObj (dict_set ''source_digest'' (JStr ZERO_DIGEST) implementation)) assurance"
  have "benign (verify_assurance_record ?stale m name sha)" for name sha
    by (auto simp: verify_assurance_record_def get_or_null_def dict_get_set assms(2) intro!: benign_bind)
  moreover have "raises_evaluation (verify_assurance_record ?stale m name sha)" if "digest \<noteq> ZERO_DIGEST" for name sha
    using that by (simp add: verify_assurance_record_def get_or_null_def dict_get_set assms(2) raises_evaluation_def ManifestError_def)
  ultimately have "\<exists>stale. expect_rejection (verify_assurance_record ?stale m name sha) = Inr stale \<and>
      (stale \<or> digest = ZERO_DIGEST)" for name sha
    using benign_observed expect_rejected by (cases "digest = ZERO_DIGEST") blast+
  then show ?thesis
    by (simp add: stale_assurance_def at_member_def set_member_def assms(1,2) sha256_json_def ravel_canonical_bytes_def
        assms(3) del: json_dumps.simps all_finite.simps)
qed

end
