(* ===== verification/RavelManifestProperties.thy ===== *)
theory RavelManifestProperties
  imports RavelManifestProofs
begin

text \<open>
  The properties of the source manifest: what a verified manifest pins, and that every mutation the
  tests make of the source tree is rejected.
\<close>

section \<open>A small source tree\<close>

definition demo_path :: "string \<Rightarrow> string" where
  "demo_path role =
     (if role = ''entrypoint'' then ''case-studies/ravel/ravel_0_5.c''
      else if role = ''contract'' then ''case-studies/ravel/RAVEL_0_5_CONTRACT.md''
      else if role = ''independent_evaluator'' then ''case-studies/ravel/tools/ravel_0_5_evaluator.py''
      else if role = ''manifest_specification'' then SPEC_PATH
      else role)"

definition demo_spec :: obj where
  "demo_spec =
     [(''build_configuration'', JObj
         [(''canonical_compiler'', JStr ''cc''), (''canonical_flags'', JList [JStr ''-std=c11'']),
          (''language'', JStr ''C''), (''standard'', JStr ''C11'')]),
      (''checkpoint_schema'', JInt 5), (''digest_algorithm'', JStr ''sha256''), (''digest_procedure'', JStr ''frames''),
      (''entrypoint'', JStr (demo_path ''entrypoint'')), (''evidence_schema_versions'', JList []),
      (''execution_source_discovery_globs'', JList [JStr (demo_path ''entrypoint'')]),
      (''generated_execution_shards'', JList []),
      (''maintained_execution_sources'', JList [JStr (demo_path ''entrypoint'')]),
      (''ordered_files'', JList (map (\<lambda>role. JObj [(''path'', JStr (demo_path role)), (''role'', JStr role)]) REQUIRED_ROLES)),
      (''source_provenance'', JNull)]"

definition demo_entries :: "(string \<times> string) list" where
  "demo_entries = map (\<lambda>role. (role, demo_path role)) REQUIRED_ROLES"

definition demo_tree :: repository where
  "demo_tree = map (\<lambda>role. (demo_path role,
     if role = ''manifest_specification'' then json_dumps (JObj demo_spec) @ [CHR 0x0A] else ''x'')) REQUIRED_ROLES"

lemma demo_spec_valid: "validate_spec demo_spec = Inr (demo_entries, [demo_path ''entrypoint''])"
  by code_simp

lemma demo_spec_sorted: "canon (JObj demo_spec) = JObj demo_spec"
  by code_simp

lemma demo_spec_ok: "json_ok (JObj demo_spec)"
proof -
  have five: "(5 :: int) < digit_bound 4300" using moderate_int [of 5] by simp
  show ?thesis by (simp add: demo_spec_def five REQUIRED_ROLES_def)
qed

lemma demo_spec_finite: "all_finite (JObj demo_spec)"
  by (simp add: demo_spec_def REQUIRED_ROLES_def)

lemma demo_spec_length: "length (json_dumps (JObj demo_spec)) \<le> 2000"
  by code_simp

lemma demo_tree_paths: "dict_keys demo_tree = map snd demo_entries" "distinct (map snd demo_entries)"
  by (simp add: demo_tree_def demo_entries_def comp_def) code_simp

lemma demo_tree_get:
  "role \<in> set REQUIRED_ROLES \<Longrightarrow> dict_get demo_tree (demo_path role) =
     Some (if role = ''manifest_specification'' then json_dumps (JObj demo_spec) @ [CHR 0x0A] else ''x'')"
proof -
  assume "role \<in> set REQUIRED_ROLES"
  then have "(demo_path role, if role = ''manifest_specification'' then json_dumps (JObj demo_spec) @ [CHR 0x0A] else ''x'')
      \<in> set demo_tree"
    unfolding demo_tree_def by (simp only: set_map) (rule imageI)
  moreover have "distinct (map fst demo_tree)" using demo_tree_paths by simp
  ultimately show ?thesis by (simp add: map_of_eq_Some_iff)
qed

lemma demo_tree_loads: "load_object demo_tree SPEC_PATH = Inr demo_spec"
proof -
  have "SPEC_PATH = demo_path ''manifest_specification''" by (simp add: demo_path_def)
  then have "dict_get demo_tree SPEC_PATH = Some (json_dumps (JObj demo_spec) @ [CHR 0x0A])"
    using demo_tree_get [of "''manifest_specification''"] by (simp add: REQUIRED_ROLES_def del: json_dumps.simps)
  then show ?thesis
    using loads_bytes_line [OF demo_spec_ok]
    by (simp add: load_object_def read_file_def demo_spec_sorted del: json_dumps.simps canon.simps)
qed

lemma demo_tree_small: "\<forall>content \<in> set (dict_values demo_tree). length content < 2 ^ 63"
  using demo_spec_length by (auto simp: demo_tree_def simp del: json_dumps.simps)

lemma demo_manifest: "\<exists>m. build_manifest (=) SPEC_PATH demo_tree = Inr m"
proof -
  have discovered: "discover_execution_shards (=) demo_spec demo_tree = Inr [demo_path ''entrypoint'']"
  proof -
    have "discovery_globs demo_spec = Inr [demo_path ''entrypoint'']" by code_simp
    moreover have "filter (\<lambda>path. list_ex (\<lambda>pattern. pattern = path) [demo_path ''entrypoint'']) (map snd demo_entries)
        = [demo_path ''entrypoint'']" by code_simp
    ultimately show ?thesis by (simp add: discover_execution_shards_def demo_tree_paths)
  qed
  have "\<exists>j. manifest_entry demo_tree x = Inr j" if "x \<in> set (enumerate 0 demo_entries)" for x
  proof -
    have "snd x \<in> set (map snd (enumerate 0 demo_entries))" using that unfolding set_map by (rule imageI)
    then obtain role where "role \<in> set REQUIRED_ROLES" "snd x = (role, demo_path role)"
      by (auto simp: demo_entries_def)
    then show ?thesis using demo_tree_get [of role] by (simp add: manifest_entry_def case_prod_unfold)
  qed
  then have "\<exists>files. map_res (manifest_entry demo_tree) (enumerate 0 demo_entries) = Inr files"
    by (intro map_res_total ballI)
  then obtain files where files: "map_res (manifest_entry demo_tree) (enumerate 0 demo_entries) = Inr files" ..
  have short: "\<forall>path \<in> set (map snd demo_entries). length (encode_utf8 path) < 2 ^ 32"
  proof -
    have "list_all (\<lambda>path. length path \<le> 100) (map snd demo_entries)" by code_simp
    then have "\<forall>path \<in> set (map snd demo_entries). length path \<le> 100" by (simp only: list_all_iff)
    moreover have "length path \<le> 100 \<Longrightarrow> length (encode_utf8 path) < 2 ^ 32" for path
      using length_encode_utf8 [of path] by simp
    ultimately show ?thesis by blast
  qed
  have "\<exists>frame. frame_file (path, content) = Inr frame" if "(path, content, j) \<in> set files" for path content j
  proof -
    have "path \<in> set (map snd demo_entries)" and "content \<in> set (dict_values demo_tree)"
      using listed_in_repository [OF files] that by fastforce+
    then have "length (encode_utf8 path) < 2 ^ 32" and "length content < 2 ^ 64"
      using short demo_tree_small by fastforce+
    then show ?thesis by (simp add: frame_file_def Let_def)
  qed
  then have "\<forall>f \<in> set (map (\<lambda>(path, content, _). (path, content)) files). \<exists>frame. frame_file f = Inr frame" by fastforce
  then have "\<exists>frames. map_res frame_file (map (\<lambda>(path, content, _). (path, content)) files) = Inr frames"
    by (rule map_res_total)
  then obtain frames where frames: "map_res frame_file (map (\<lambda>(path, content, _). (path, content)) files) = Inr frames" ..
  show ?thesis
    by (simp add: build_manifest_def demo_tree_loads build_manifest_of_def demo_spec_valid discovered difference_def
        files framed_source_digest_def framed_bytes_def frames) (simp add: demo_spec_def)
qed

section \<open>What a verified manifest pins\<close>

text \<open>
  C35: when the manifest built from one source tree verifies against the recalculation on another, both
  specifications list the same roles and paths in the same order and equal build configurations, and
  every listed file has the same bytes in both trees, or the framed bytes of the two trees are a
  SHA-256 collision.
\<close>

theorem manifest_pins_sources:
  assumes "build_manifest_of matches spec repo = Inr m" and "build_manifest_of matches' spec' repo' = Inr m'"
    and "verify_manifest_record m' m = Inr ()"
  shows "\<exists>entries files files' bytes bytes' build build'.
    ordered_entries spec = Inr entries \<and> ordered_entries spec' = Inr entries \<and>
    dict_get spec ''build_configuration'' = Some build \<and> dict_get spec' ''build_configuration'' = Some build' \<and>
    json_eq build build' \<and>
    listed_files repo entries = Inr files \<and> framed_bytes files = Inr bytes \<and>
    listed_files repo' entries = Inr files' \<and> framed_bytes files' = Inr bytes' \<and>
    (files = files' \<or> sha256_collision bytes bytes')"
proof (rule verified_manifest [OF assms])
  fix entries declared declared' files files' bytes bytes' build build'
  assume "validate_spec spec = Inr (entries, declared)" and "validate_spec spec' = Inr (entries, declared')"
    and "listed_files repo entries = Inr files" and "listed_files repo' entries = Inr files'"
    and "framed_bytes files = Inr bytes" and "framed_bytes files' = Inr bytes'" and "sha256 bytes = sha256 bytes'"
    and "dict_get spec ''build_configuration'' = Some build" and "dict_get spec' ''build_configuration'' = Some build'"
    and "json_eq build build'"
  moreover from this(5,6) have "bytes = bytes' \<Longrightarrow> files = files'" by (rule framed_bytes_inject) simp
  ultimately show ?thesis
    unfolding sha256_collision_def by (blast dest: validate_spec_entries)
qed

theorem manifest_pins_sources_witness:
  "\<exists>files bytes. listed_files demo_tree demo_entries = Inr files \<and> framed_bytes files = Inr bytes \<and>
     json_eq (the (dict_get demo_spec ''build_configuration'')) (the (dict_get demo_spec ''build_configuration''))"
proof -
  obtain m where m: "build_manifest_of (=) demo_spec demo_tree = Inr m"
    using demo_manifest by (auto simp: build_manifest_def demo_tree_loads)
  have "verify_manifest_record m m = Inr ()"
    using self_equal_refl [OF manifest_self_equal [OF m demo_spec_ok demo_spec_finite]] by (simp add: verify_manifest_record_def)
  from manifest_pins_sources [OF m m this] show ?thesis
    using validate_spec_entries [OF demo_spec_valid] by fastforce
qed

section \<open>Mutations\<close>

text \<open>The files the tests change, and the specification they rewrite.\<close>

definition MUTATED_PATHS :: "string list" where
  "MUTATED_PATHS = [SPEC_PATH, ''case-studies/ravel/RAVEL_0_5_CONTRACT.md'', ''case-studies/ravel/ravel_0_5.c'',
     ''case-studies/ravel/tools/ravel_0_5_evaluator.py'']"

text \<open>
  C36: on a source tree with its own manifest, of a specification Python can write back, that lists the
  changed files and itself and whose first compiler flag is not the one the test writes, with files
  below the sizes a frame can count, all seven mutations of the tree, the specification and the
  assurance record are rejected; the last unless the source digest is the string of zeros the test
  writes.
\<close>

theorem manifest_mutations_rejected:
  assumes "load_object repo SPEC_PATH = Inr spec" and "build_manifest matches SPEC_PATH repo = Inr m"
    and "ordered_entries spec = Inr entries" and "set MUTATED_PATHS \<subseteq> set (map snd entries)"
    and "json_ok (JObj spec)" and "all_finite (JObj spec)" and "length (json_dumps (JObj spec)) < 2 ^ 62"
    and "\<forall>content \<in> set (dict_values repo). length content < 2 ^ 63"
    and "dict_get spec ''build_configuration'' = Some (JObj b)"
    and "dict_get b ''canonical_flags'' = Some (JList (f # fs))" and "f \<noteq> JStr ''-std=c99''"
    and "dict_get assurance ''implementation'' = Some (JObj implementation)"
  shows "\<exists>stale. manifest_mutation_observations matches repo m (Some assurance) =
    Inr [(''stale_manifest'', True), (''substituted_source'', True), (''reordered_file'', True),
         (''omitted_file'', True), (''build_configuration_mutation'', True), (''artifact_mutation'', True),
         (''stale_assurance'', stale)] \<and>
    (stale \<or> dict_get m ''source_digest'' = Some (JStr ZERO_DIGEST))"
proof -
  have built: "build_manifest_of matches spec repo = Inr m"
    using assms(1,2) by (simp add: build_manifest_def)
  obtain declared files bytes where v: "validate_spec spec = Inr (entries, declared)"
    and files: "listed_files repo entries = Inr files" and digest: "dict_get m ''source_digest'' = Some (JStr (sha256 bytes))"
  proof (rule build_manifest_parts [OF built])
    fix es declared files bytes
    assume "validate_spec spec = Inr (es, declared)" and "listed_files repo es = Inr files"
      and "dict_get m ''source_digest'' = Some (JStr (sha256 bytes))"
    moreover from this(1) have "es = entries" using assms(3) validate_spec_entries by force
    ultimately show thesis using that by blast
  qed
  have listed: "path \<in> set (map snd entries)" if "path \<in> set MUTATED_PATHS" for path
    using assms(4) that by blast
  have rec: "recorded matches repo spec m entries files"
    using assms(1,8) built v files listed [of SPEC_PATH] by (simp add: recorded_def MUTATED_PATHS_def)
  obtain stale where stale: "stale_assurance (Some assurance) m = Inr stale"
      "stale \<or> dict_get m ''source_digest'' = Some (JStr ZERO_DIGEST)"
    using stale_assurance_observed [OF assms(12) digest self_equal_finite [OF manifest_self_equal [OF built assms(5,6)]]]
    by blast
  have append: "recalculation_rejected matches repo m (append_to path (c # payload)) = Inr True"
    if "path \<in> set (tl MUTATED_PATHS)" and "length payload < 2 ^ 62" for path c payload
    using append_rejected [OF rec, of path "c # payload"] listed [of path] that
    by (auto simp: MUTATED_PATHS_def SPEC_PATH_def)
  show ?thesis
    unfolding manifest_mutation_observations_def
    by (simp add: append MUTATED_PATHS_def reorder_rejected [OF rec assms(5-7)] omission_rejected [OF rec assms(5,6)]
        build_change_rejected [OF rec assms(5-7,9-11)] stale(1)) (use stale(2) in blast)
qed

theorem manifest_mutations_rejected_witness:
  "\<exists>m stale. build_manifest (=) SPEC_PATH demo_tree = Inr m \<and>
     manifest_mutation_observations (=) demo_tree m (Some [(''implementation'', JObj [])]) =
       Inr [(''stale_manifest'', True), (''substituted_source'', True), (''reordered_file'', True),
         (''omitted_file'', True), (''build_configuration_mutation'', True), (''artifact_mutation'', True),
         (''stale_assurance'', stale)]"
proof -
  obtain m where m: "build_manifest (=) SPEC_PATH demo_tree = Inr m" using demo_manifest by blast
  have entries: "ordered_entries demo_spec = Inr demo_entries" by (rule validate_spec_entries [OF demo_spec_valid])
  have paths: "set MUTATED_PATHS \<subseteq> set (map snd demo_entries)"
  proof -
    have "list_all (\<lambda>path. path \<in> set (map snd demo_entries)) MUTATED_PATHS" by code_simp
    then show ?thesis by (auto simp: list_all_iff)
  qed
  have short: "length (json_dumps (JObj demo_spec)) < 2 ^ 62"
    using demo_spec_length by (simp del: json_dumps.simps)
  obtain b f fs where "dict_get demo_spec ''build_configuration'' = Some (JObj b)"
    and "dict_get b ''canonical_flags'' = Some (JList (f # fs))" and "f \<noteq> JStr ''-std=c99''"
    by (simp add: demo_spec_def)
  from manifest_mutations_rejected [OF demo_tree_loads m entries paths demo_spec_ok demo_spec_finite short
      demo_tree_small this, of "[(''implementation'', JObj [])]"] m
  show ?thesis by auto
qed

end
