(* ===== verification/ExperienceProfile.thy ===== *)
theory ExperienceProfile
  imports PyCollections
begin

text \<open>
  \<^verbatim>\<open>studies/recursive-experience-substrate/validate_substrate.py\<close>, first part: the checks of the
  architecture profile.  A record or a profile is a JSON object; \<open>ExperienceValidationError\<close> is a
  \<open>ValueError\<close>.  A set of texts is the list of its elements.
\<close>

definition RECORD_ID_FIELDS :: "(string, string) dict" where
  "RECORD_ID_FIELDS =
     [(''experience_episode'', ''episode_id''), (''causal_hypothesis'', ''hypothesis_id''),
      (''intervention_record'', ''intervention_id''), (''causal_attribution'', ''attribution_id''),
      (''learned_principle'', ''principle_id''), (''strategy_record'', ''strategy_id'')]"

definition REQUIRED_MEMORY_CLASSES :: "string list" where
  "REQUIRED_MEMORY_CLASSES = [''episodic'', ''causal'', ''semantic'', ''procedural'', ''negative'']"

definition REQUIRED_OUTCOMES :: "string list" where
  "REQUIRED_OUTCOMES = [''success'', ''error'', ''neutral'', ''abstention'']"

definition REQUIRED_CREDIT_CLASSES :: "string list" where
  "REQUIRED_CREDIT_CLASSES =
     [''immediate'', ''enabling'', ''delayed-descendant'', ''transfer'', ''retention'',
      ''negative-downstream'']"

definition REQUIRED_CONTROLS :: "string list" where
  "REQUIRED_CONTROLS =
     [''shuffled-attribution-control'', ''success-memory-ablation'', ''negative-memory-ablation'',
      ''transfer-holdout'', ''aggregate-only-feedback-control'']"

definition REQUIRED_NEGATIVE_TESTS :: "string list" where
  "REQUIRED_NEGATIVE_TESTS =
     [''evaluator-authority-expansion'', ''error-only-memory'', ''deleted-failure-memory'',
      ''post-hoc-hypothesis'', ''unsupported-principle'', ''strategy-without-failure-modes'',
      ''global-reuse-without-transfer'', ''attribution-without-credit-class'',
      ''aggregate-only-causal-promotion'', ''future-final-early-access'']"

definition ExperienceValidationError :: "string \<Rightarrow> py_error" where
  "ExperienceValidationError message = ValueError message"

section \<open>Checks\<close>

definition demand :: "bool \<Rightarrow> string \<Rightarrow> unit res" where
  "demand condition message = guard_res (\<not> condition) (ExperienceValidationError message)"

definition as_object :: "json \<Rightarrow> string \<Rightarrow> obj res" where
  "as_object v name =
     (case v of JObj d \<Rightarrow> Inr d | _ \<Rightarrow> Inl (ExperienceValidationError name))"

definition json_items :: "json \<Rightarrow> string \<Rightarrow> json list res" where
  "json_items v name =
     (case v of JList xs \<Rightarrow> Inr xs | _ \<Rightarrow> Inl (ExperienceValidationError name))"

definition text_of :: "json \<Rightarrow> string" where
  "text_of v = (case v of JStr s \<Rightarrow> s | _ \<Rightarrow> '''')"

definition as_strings :: "json \<Rightarrow> string \<Rightarrow> bool \<Rightarrow> string list res" where
  "as_strings v name nonempty =
     bind_res (json_items v name) (\<lambda>items.
     bind_res (demand (list_all (\<lambda>item. is_str item \<and> truthy item) items) name) (\<lambda>_.
     bind_res (demand (nonempty \<longrightarrow> items \<noteq> []) name) (\<lambda>_.
       Inr (map text_of items))))"

definition require_false_fields :: "obj \<Rightarrow> string list \<Rightarrow> string \<Rightarrow> unit res" where
  "require_false_fields d fields name =
     fold_res (\<lambda>_ field. demand (is_false d field) (''forbidden '' @ name @ '': '' @ field)) () fields"

definition STATUS_NAMES :: "string list" where
  "STATUS_NAMES =
     [''episode_outcome_class'', ''hypothesis_disposition'', ''principle_maturity'',
      ''transfer_status'', ''strategy_reuse_status'']"

type_synonym status_sets = "(string, string list) dict"

definition allowed_statuses :: "obj \<Rightarrow> status_sets res" where
  "allowed_statuses profile =
     bind_res (as_object (get_or_null profile ''allowed_statuses'') ''allowed_statuses'') (\<lambda>statuses.
       map_res (\<lambda>name. bind_res (as_strings (get_or_null statuses name)
         (''allowed statuses: '' @ name) True) (\<lambda>ss. Inr (name, ss))) STATUS_NAMES)"

text \<open>\<open>required <= set\<close>\<close>

definition covers :: "string list \<Rightarrow> string list \<Rightarrow> bool" where
  "covers have_set required \<longleftrightarrow> set required \<subseteq> set have_set"

text \<open>A list of texts that must hold some values.\<close>

definition require_listed :: "obj \<Rightarrow> string \<Rightarrow> bool \<Rightarrow> string list \<Rightarrow> string \<Rightarrow> unit res" where
  "require_listed profile field nonempty required message =
     bind_res (as_strings (get_or_null profile field) field nonempty) (\<lambda>ss.
       demand (covers ss required) message)"

section \<open>The profile\<close>

definition check_relationship :: "obj \<Rightarrow> unit res" where
  "check_relationship profile =
     bind_res (as_object (get_or_null profile ''relationship'') ''relationship'') (\<lambda>d.
     bind_res (demand (is_text d ''phase'' ''post-ravel-0.6'') ''relationship phase'') (\<lambda>_.
     bind_res (demand (is_true d ''extends_recursive_architecture_study'')
       ''recursive architecture relationship'') (\<lambda>_.
       require_false_fields d
         [''changes_existing_preregistration'', ''may_modify_frozen_ravel_0_4_or_0_5'',
          ''may_modify_ravel_0_6_preregistration_or_final_material'']
         ''relationship permission'')))"

definition AUTHORITY_FIELDS :: "string list" where
  "AUTHORITY_FIELDS =
     [''experience_system_may_modify_evaluator'', ''experience_system_may_modify_thresholds'',
      ''experience_system_may_modify_partitions'', ''experience_system_may_modify_resource_policy'',
      ''experience_system_may_access_future_final_before_freeze'',
      ''experience_system_may_authorize_promotion'',
      ''experience_system_may_delete_failed_or_rejected_records'']"

definition check_authority :: "obj \<Rightarrow> unit res" where
  "check_authority profile =
     bind_res (as_object (get_or_null profile ''immutable_authority'') ''immutable_authority'') (\<lambda>d.
       require_false_fields d AUTHORITY_FIELDS ''authority permission'')"

definition check_vocabulary_of :: "obj \<Rightarrow> unit \<Rightarrow> string \<Rightarrow> unit res" where
  "check_vocabulary_of vocabulary u record_type =
     bind_res (as_strings (get_or_null vocabulary record_type) (''record fields: '' @ record_type) True)
       (\<lambda>fields. demand (distinct fields) (''duplicate record field: '' @ record_type))"

definition check_vocabulary :: "obj \<Rightarrow> unit res" where
  "check_vocabulary profile =
     bind_res (as_object (get_or_null profile ''record_vocabulary'') ''record_vocabulary'') (\<lambda>vocabulary.
     bind_res (demand (covers (dict_keys vocabulary) (dict_keys RECORD_ID_FIELDS)) ''record vocabulary'') (\<lambda>_.
       fold_res (check_vocabulary_of vocabulary) () (dict_keys RECORD_ID_FIELDS)))"

text \<open>\<open>statuses[name]\<close>\<close>

definition status_set :: "status_sets \<Rightarrow> string \<Rightarrow> string list res" where
  "status_set statuses name = dict_at name statuses name"

definition require_statuses :: "status_sets \<Rightarrow> string \<times> string list \<times> string \<Rightarrow> unit res" where
  "require_statuses statuses = (\<lambda>(name, required, message).
     bind_res (status_set statuses name) (\<lambda>ss. demand (covers ss required) message))"

definition check_statuses :: "obj \<Rightarrow> unit res" where
  "check_statuses profile =
     bind_res (allowed_statuses profile) (\<lambda>statuses.
       fold_res (\<lambda>_. require_statuses statuses) ()
         [(''episode_outcome_class'', REQUIRED_OUTCOMES, ''episode statuses''),
          (''hypothesis_disposition'',
             [''open'', ''supported'', ''challenged'', ''rejected'', ''inconclusive''],
             ''hypothesis statuses''),
          (''principle_maturity'',
             [''provisional'', ''supported'', ''challenged'', ''rejected'', ''retired''],
             ''principle maturity''),
          (''transfer_status'', [''untested'', ''failed'', ''partial'', ''supported''],
             ''transfer statuses''),
          (''strategy_reuse_status'', [''untested'', ''restricted'', ''supported'', ''retired''],
             ''strategy reuse statuses'')])"

definition check_diagnostics :: "obj \<Rightarrow> unit res" where
  "check_diagnostics profile =
     bind_res (as_object (get_or_null profile ''diagnostic_requirements'') ''diagnostic_requirements'') (\<lambda>d.
     bind_res (demand (is_true d ''structured_probe_identity_required'') ''probe identity'') (\<lambda>_.
     bind_res (demand (is_true d ''counterfactual_or_control_required_for_supported_causal_claim'')
       ''causal control requirement'') (\<lambda>_.
     bind_res (demand (is_false d ''aggregate_score_alone_may_support_causal_claim'')
       ''aggregate causal promotion'') (\<lambda>_.
     bind_res (demand (is_false d ''provider_or_verifier_status_may_be_redefined'')
       ''verifier status redefinition'') (\<lambda>_.
       demand (is_false d ''hidden_reasoning_transcript_required'') ''hidden reasoning requirement'')))))"

definition check_reuse_rules :: "obj \<Rightarrow> unit res" where
  "check_reuse_rules profile =
     bind_res (as_object (get_or_null profile ''reuse_rules'') ''reuse_rules'') (\<lambda>d.
     bind_res (fold_res (\<lambda>_ field. demand (is_true d field) (''reuse rule: '' @ field)) ()
       [''principle_must_bind_supporting_attributions'', ''strategy_must_bind_principles'',
        ''failed_and_rejected_experience_must_remain_retrievable'',
        ''reuse_must_bind_context_and_candidate_lineage'']) (\<lambda>_.
       demand (is_false d ''untested_transfer_may_authorize_global_reuse'') ''untested transfer reuse''))"

definition check_claims :: "obj \<Rightarrow> unit res" where
  "check_claims profile =
     bind_res (as_object (get_or_null profile ''claim_boundary'') ''claim_boundary'') (\<lambda>d.
     bind_res (demand (is_text d ''formal_mncs_status'' ''UNKNOWN'') ''MNCS claim'') (\<lambda>_.
     bind_res (demand (is_text d ''formal_mncds_status'' ''UNKNOWN'') ''MNCDS claim'') (\<lambda>_.
     bind_res (demand (is_text d ''general_recursive_self_improvement'' ''UNKNOWN'')
       ''recursive improvement claim'') (\<lambda>_.
       demand (is_false d ''promotion_authorized'') ''promotion boundary''))))"

definition HARD_GATES :: "string list" where
  "HARD_GATES =
     [''immutable-evaluator-authority'', ''append-only-experience-lineage'',
      ''hypotheses-recorded-before-intervention'', ''all-outcome-classes-retained'',
      ''principles-bind-attributions-and-falsifiers'',
      ''strategies-bind-principles-and-known-failure-modes'',
      ''global-reuse-requires-transfer-support'',
      ''future-final-material-unavailable-before-freeze'']"

definition validate_profile :: "obj \<Rightarrow> unit res" where
  "validate_profile profile =
     bind_res (demand (is_text profile ''schema'' ''mncs-recursive-experience-substrate/0.1'') ''schema'') (\<lambda>_.
     bind_res (demand (is_text profile ''status'' ''design-only'') ''status'') (\<lambda>_.
     bind_res (check_relationship profile) (\<lambda>_.
     bind_res (check_authority profile) (\<lambda>_.
     bind_res (require_listed profile ''memory_classes'' True REQUIRED_MEMORY_CLASSES ''memory classes'') (\<lambda>_.
     bind_res (check_vocabulary profile) (\<lambda>_.
     bind_res (check_statuses profile) (\<lambda>_.
     bind_res (require_listed profile ''required_episode_outcomes'' False REQUIRED_OUTCOMES
       ''required episode outcomes'') (\<lambda>_.
     bind_res (require_listed profile ''credit_classes'' True REQUIRED_CREDIT_CLASSES ''credit classes'') (\<lambda>_.
     bind_res (check_diagnostics profile) (\<lambda>_.
     bind_res (check_reuse_rules profile) (\<lambda>_.
     bind_res (require_listed profile ''required_controls'' False REQUIRED_CONTROLS ''required controls'') (\<lambda>_.
     bind_res (require_listed profile ''hard_gates'' False HARD_GATES ''hard gates'') (\<lambda>_.
     bind_res (require_listed profile ''required_negative_tests'' False REQUIRED_NEGATIVE_TESTS
       ''required negative tests'') (\<lambda>_.
       check_claims profile))))))))))))))"

section \<open>What the checks accept\<close>

named_theorems experience_checks \<open>acceptance of the elementary checks\<close>

lemma demand_ok [simp, experience_checks]: "demand c m = Inr u \<longleftrightarrow> c"
  by (simp add: demand_def)

lemma as_object_ok [simp, experience_checks]: "as_object v m = Inr d \<longleftrightarrow> v = JObj d"
  by (cases v) (simp_all add: as_object_def)

lemma json_items_ok [simp, experience_checks]: "json_items v m = Inr xs \<longleftrightarrow> v = JList xs"
  by (cases v) (simp_all add: json_items_def)

lemma as_strings_ok [simp, experience_checks]:
  "as_strings v m nonempty = Inr ss \<longleftrightarrow>
     v = JList (map JStr ss) \<and> [] \<notin> set ss \<and> (nonempty \<longrightarrow> ss \<noteq> [])"
proof -
  have texts: "list_all (\<lambda>item. is_str item \<and> truthy item) items \<Longrightarrow> items = map JStr (map text_of items)" for items
    by (induction items) (auto simp: text_of_def elim!: is_str.elims)
  have again: "map text_of (map JStr ss) = ss" by (simp add: text_of_def comp_def)
  show ?thesis
  proof
    assume run: "as_strings v m nonempty = Inr ss"
    then obtain items where items: "v = JList items" "list_all (\<lambda>item. is_str item \<and> truthy item) items"
      "nonempty \<longrightarrow> items \<noteq> []" "ss = map text_of items"
      by (auto simp: as_strings_def bind_res_eq_Inr)
    moreover have "[] \<notin> set ss"
      using items(2,4) by (auto simp: list_all_iff text_of_def split: json.splits)
    ultimately show "v = JList (map JStr ss) \<and> [] \<notin> set ss \<and> (nonempty \<longrightarrow> ss \<noteq> [])"
      using texts [OF items(2)] by simp
  next
    assume "v = JList (map JStr ss) \<and> [] \<notin> set ss \<and> (nonempty \<longrightarrow> ss \<noteq> [])"
    then show "as_strings v m nonempty = Inr ss"
      using again by (auto simp: as_strings_def json_items_def demand_def list_all_iff)
  qed
qed

lemma fold_unit_ok: "fold_res (\<lambda>_. f) () xs = Inr u \<longleftrightarrow> (\<forall>x \<in> set xs. f x = Inr ())"
  by (induction xs) (auto simp: bind_res_eq_Inr)

lemma require_false_fields_ok [simp, experience_checks]:
  "require_false_fields d fields name = Inr u \<longleftrightarrow> (\<forall>field \<in> set fields. is_false d field)"
  by (simp add: require_false_fields_def fold_unit_ok)

end
