(* ===== verification/ExperienceRecords.thy ===== *)
theory ExperienceRecords
  imports ExperienceProfile
begin

text \<open>
  \<^verbatim>\<open>studies/recursive-experience-substrate/validate_substrate.py\<close>, second part: the records.  They
  refer to each other by identity: hypotheses to episodes, interventions to hypotheses,
  attributions to interventions, principles to attributions and episodes, strategies to principles.
\<close>

type_synonym records = "(string, obj list) dict"

section \<open>Normalisation\<close>

text \<open>The identities seen so far and the records accepted of one type.\<close>

definition normalize_record ::
  "string \<Rightarrow> string \<Rightarrow> string list \<Rightarrow> string list \<times> obj list \<Rightarrow> nat \<times> json \<Rightarrow> (string list \<times> obj list) res" where
  "normalize_record record_type id_field required_fields = (\<lambda>(all_ids, accepted) (index, v).
     let place = record_type @ ''['' @ int_str (int index) @ '']'' in
     bind_res (as_object v (''record object: '' @ place)) (\<lambda>rec.
     bind_res (demand (covers (dict_keys rec) required_fields) (''missing fields: '' @ place)) (\<lambda>_.
     let record_id = get_or_null rec id_field in
     bind_res (demand (is_str record_id \<and> truthy record_id) (''record id: '' @ record_type)) (\<lambda>_.
     bind_res (demand (text_of record_id \<notin> set all_ids)
       (''duplicate record id: '' @ text_of record_id)) (\<lambda>_.
       Inr (all_ids @ [text_of record_id], accepted @ [rec]))))))"

definition normalize_type ::
  "obj \<Rightarrow> obj \<Rightarrow> string list \<times> records \<Rightarrow> string \<times> string \<Rightarrow> (string list \<times> records) res" where
  "normalize_type vocabulary recs = (\<lambda>(all_ids, normalized) (record_type, id_field).
     bind_res (as_strings (get_or_null vocabulary record_type) (''record fields: '' @ record_type) False) (\<lambda>required_fields.
     bind_res (json_items (get_or_null recs record_type) (''records: '' @ record_type)) (\<lambda>vs.
     bind_res (demand (vs \<noteq> []) (''records: '' @ record_type)) (\<lambda>_.
     bind_res (fold_res (normalize_record record_type id_field required_fields) (all_ids, []) (enumerate 0 vs)) (\<lambda>(all_ids', typed).
       Inr (all_ids', dict_set record_type typed normalized))))))"

definition normalize_records :: "obj \<Rightarrow> obj \<Rightarrow> records res" where
  "normalize_records profile bundle =
     bind_res (as_object (get_or_null profile ''record_vocabulary'') ''record_vocabulary'') (\<lambda>vocabulary.
     bind_res (as_object (get_or_null bundle ''records'') ''records'') (\<lambda>recs.
     bind_res (fold_res (normalize_type vocabulary recs) ([], []) RECORD_ID_FIELDS) (\<lambda>(_, normalized).
       Inr normalized)))"

text \<open>\<open>str(record[field])\<close>\<close>

definition id_of :: "string \<Rightarrow> obj \<Rightarrow> string res" where
  "id_of field rec = bind_res (obj_at rec field) (\<lambda>v. Inr (py_str v))"

definition typed_records :: "records \<Rightarrow> string \<Rightarrow> obj list res" where
  "typed_records recs record_type = dict_at record_type recs record_type"

text \<open>\<open>{str(r[field]): r for r in records}\<close>\<close>

definition index_records :: "string \<Rightarrow> obj list \<Rightarrow> (string, obj) dict res" where
  "index_records field rs =
     fold_res (\<lambda>d r. bind_res (id_of field r) (\<lambda>k. Inr (dict_set k r d))) [] rs"

section \<open>Episodes\<close>

text \<open>\<open>v in statuses[name]\<close>\<close>

definition has_status :: "status_sets \<Rightarrow> string \<Rightarrow> json \<Rightarrow> bool res" where
  "has_status statuses name v =
     bind_res (status_set statuses name) (\<lambda>ss. in_strings v (set ss))"

definition validate_episode :: "status_sets \<Rightarrow> string list \<Rightarrow> obj \<Rightarrow> string list res" where
  "validate_episode statuses observed episode =
     bind_res (id_of ''episode_id'' episode) (\<lambda>episode_id.
     let outcome = get_or_null episode ''outcome_class'' in
     bind_res (has_status statuses ''episode_outcome_class'' outcome) (\<lambda>known.
     bind_res (demand known (''episode outcome: '' @ episode_id)) (\<lambda>_.
     bind_res (as_strings (get_or_null episode ''route'') (''episode route: '' @ episode_id) False) (\<lambda>_.
     bind_res (as_strings (get_or_null episode ''observed_anomalies'')
       (''episode anomalies: '' @ episode_id) False) (\<lambda>_.
     let cost = get_or_null episode ''resource_cost'' in
     bind_res (demand (is_int cost \<and> 0 \<le> int_val cost) (''episode resource cost: '' @ episode_id)) (\<lambda>_.
       Inr (observed @ [py_str outcome])))))))"

definition validate_episodes :: "obj \<Rightarrow> records \<Rightarrow> status_sets \<Rightarrow> string list res" where
  "validate_episodes profile recs statuses =
     bind_res (typed_records recs ''experience_episode'') (\<lambda>episodes.
     bind_res (map_res (id_of ''episode_id'') episodes) (\<lambda>episode_ids.
     bind_res (fold_res (validate_episode statuses) [] episodes) (\<lambda>observed.
     bind_res (as_strings (get_or_null profile ''required_episode_outcomes'')
       ''required episode outcomes'' False) (\<lambda>required_outcomes.
     bind_res (demand (covers observed required_outcomes)
       ''error-only or incomplete experience memory'') (\<lambda>_.
       Inr episode_ids)))))"

section \<open>Hypotheses\<close>

definition validate_hypothesis ::
  "string list \<Rightarrow> string list \<Rightarrow> status_sets \<Rightarrow> obj \<Rightarrow> unit res" where
  "validate_hypothesis hypothesis_ids episode_ids statuses h =
     bind_res (id_of ''hypothesis_id'' h) (\<lambda>hypothesis_id.
     bind_res (as_strings (get_or_null h ''supporting_episode_ids'')
       (''supporting episodes: '' @ hypothesis_id) True) (\<lambda>supporting.
     bind_res (demand (covers episode_ids supporting) (''unknown supporting episode: '' @ hypothesis_id)) (\<lambda>_.
     bind_res (as_strings (get_or_null h ''competing_hypothesis_ids'')
       (''competing hypotheses: '' @ hypothesis_id) True) (\<lambda>competing.
     bind_res (demand (covers hypothesis_ids competing)
       (''unknown competing hypothesis: '' @ hypothesis_id)) (\<lambda>_.
     bind_res (as_strings (get_or_null h ''required_probe_ids'')
       (''required probes: '' @ hypothesis_id) True) (\<lambda>_.
     bind_res (demand (is_true h ''recorded_before_intervention'')
       (''post-hoc hypothesis: '' @ hypothesis_id)) (\<lambda>_.
     bind_res (has_status statuses ''hypothesis_disposition'' (get_or_null h ''disposition'')) (\<lambda>known.
     bind_res (demand known (''hypothesis disposition: '' @ hypothesis_id)) (\<lambda>_.
       demand (truthy (get_or_null h ''falsifier'')) (''hypothesis falsifier: '' @ hypothesis_id))))))))))"

definition validate_hypotheses :: "records \<Rightarrow> string list \<Rightarrow> status_sets \<Rightarrow> string list res" where
  "validate_hypotheses recs episode_ids statuses =
     bind_res (typed_records recs ''causal_hypothesis'') (\<lambda>hypotheses.
     bind_res (map_res (id_of ''hypothesis_id'') hypotheses) (\<lambda>hypothesis_ids.
     bind_res (fold_res (\<lambda>_. validate_hypothesis hypothesis_ids episode_ids statuses) () hypotheses) (\<lambda>_.
       Inr hypothesis_ids)))"

section \<open>Interventions\<close>

definition validate_intervention :: "string list \<Rightarrow> obj \<Rightarrow> unit res" where
  "validate_intervention hypothesis_ids x =
     bind_res (id_of ''intervention_id'' x) (\<lambda>intervention_id.
     bind_res (in_strings (get_or_null x ''hypothesis_id'') (set hypothesis_ids)) (\<lambda>known.
     bind_res (demand known (''unknown intervention hypothesis: '' @ intervention_id)) (\<lambda>_.
     let parent = get_or_null x ''parent_candidate_identity'';
         child = get_or_null x ''child_candidate_identity'' in
     bind_res (demand (is_str parent \<and> truthy parent) (''intervention parent: '' @ intervention_id)) (\<lambda>_.
     bind_res (demand (is_str child \<and> truthy child) (''intervention child: '' @ intervention_id)) (\<lambda>_.
     bind_res (demand (parent \<noteq> child) (''in-place intervention: '' @ intervention_id)) (\<lambda>_.
     bind_res (demand (get_or_null x ''rollback_target'' = parent) (''rollback target: '' @ intervention_id)) (\<lambda>_.
     bind_res (as_strings (get_or_null x ''affected_surfaces'')
       (''affected surfaces: '' @ intervention_id) True) (\<lambda>_.
     bind_res (as_object (get_or_null x ''predicted_effects'')
       (''predicted effects: '' @ intervention_id)) (\<lambda>predicted.
     bind_res (demand (predicted \<noteq> []) (''predicted effects: '' @ intervention_id)) (\<lambda>_.
     bind_res (as_object (get_or_null x ''resource_budget'')
       (''resource budget: '' @ intervention_id)) (\<lambda>_. Inr ())))))))))))"

definition validate_interventions :: "records \<Rightarrow> string list \<Rightarrow> string list res" where
  "validate_interventions recs hypothesis_ids =
     bind_res (typed_records recs ''intervention_record'') (\<lambda>interventions.
     bind_res (map_res (id_of ''intervention_id'') interventions) (\<lambda>intervention_ids.
     bind_res (fold_res (\<lambda>_. validate_intervention hypothesis_ids) () interventions) (\<lambda>_.
       Inr intervention_ids)))"

section \<open>Attributions\<close>

definition validate_attribution ::
  "string list \<Rightarrow> string list \<Rightarrow> status_sets \<Rightarrow> string \<times> obj \<Rightarrow> unit res" where
  "validate_attribution allowed_credit intervention_ids statuses = (\<lambda>(attribution_id, a).
     bind_res (in_strings (get_or_null a ''intervention_id'') (set intervention_ids)) (\<lambda>known.
     bind_res (demand known (''unknown attribution intervention: '' @ attribution_id)) (\<lambda>_.
     bind_res (as_object (get_or_null a ''actual_effects'') (''actual effects: '' @ attribution_id)) (\<lambda>_.
     bind_res (has_status statuses ''hypothesis_disposition'' (get_or_null a ''hypothesis_disposition'')) (\<lambda>listed.
     bind_res (demand listed (''attribution disposition: '' @ attribution_id)) (\<lambda>_.
     bind_res (as_strings (get_or_null a ''alternative_explanations_remaining'')
       (''alternative explanations: '' @ attribution_id) False) (\<lambda>_.
     bind_res (as_strings (get_or_null a ''credit_classes'')
       (''credit classes: '' @ attribution_id) True) (\<lambda>credits.
     bind_res (demand (covers allowed_credit credits) (''unknown credit class: '' @ attribution_id)) (\<lambda>_.
       demand (truthy (get_or_null a ''evaluator_identity''))
         (''evaluator identity: '' @ attribution_id))))))))))"

definition validate_attributions ::
  "obj \<Rightarrow> records \<Rightarrow> string list \<Rightarrow> status_sets \<Rightarrow> (string, obj) dict res" where
  "validate_attributions profile recs intervention_ids statuses =
     bind_res (typed_records recs ''causal_attribution'') (\<lambda>attributions.
     bind_res (as_strings (get_or_null profile ''credit_classes'') ''credit classes'' False) (\<lambda>allowed_credit.
     bind_res (index_records ''attribution_id'' attributions) (\<lambda>attribution_by_id.
     bind_res (fold_res (\<lambda>_. validate_attribution allowed_credit intervention_ids statuses) ()
       attribution_by_id) (\<lambda>_.
       Inr attribution_by_id))))"

section \<open>Principles\<close>

text \<open>
  \<open>"transfer" in attribution_by_id[item].get("credit_classes", [])\<close>: the attributions have been
  validated, so the value is a list of texts.
\<close>

definition credits_transfer :: "(string, obj) dict \<Rightarrow> string \<Rightarrow> bool res" where
  "credits_transfer attribution_by_id item =
     bind_res (dict_at item attribution_by_id item) (\<lambda>a.
       case dict_get a ''credit_classes'' of
         None \<Rightarrow> Inr False
       | Some (JList xs) \<Rightarrow> Inr (JStr ''transfer'' \<in> set xs)
       | Some _ \<Rightarrow> Inl (TypeError ''credit_classes''))"

definition validate_principle ::
  "string list \<Rightarrow> (string, obj) dict \<Rightarrow> status_sets \<Rightarrow> string \<times> obj \<Rightarrow> unit res" where
  "validate_principle episode_ids attribution_by_id statuses = (\<lambda>(principle_id, x).
     bind_res (as_strings (get_or_null x ''supporting_attribution_ids'')
       (''principle attributions: '' @ principle_id) True) (\<lambda>supporting.
     bind_res (demand (covers (dict_keys attribution_by_id) supporting)
       (''unknown principle attribution: '' @ principle_id)) (\<lambda>_.
     bind_res (as_strings (get_or_null x ''counterexample_episode_ids'')
       (''principle counterexamples: '' @ principle_id) False) (\<lambda>counterexamples.
     bind_res (demand (covers episode_ids counterexamples)
       (''unknown principle counterexample: '' @ principle_id)) (\<lambda>_.
     bind_res (has_status statuses ''principle_maturity'' (get_or_null x ''maturity'')) (\<lambda>mature.
     bind_res (demand mature (''principle maturity: '' @ principle_id)) (\<lambda>_.
     let transfer = get_or_null x ''transfer_status'' in
     bind_res (has_status statuses ''transfer_status'' transfer) (\<lambda>listed.
     bind_res (demand listed (''principle transfer: '' @ principle_id)) (\<lambda>_.
     bind_res (demand (truthy (get_or_null x ''falsifier'')) (''principle falsifier: '' @ principle_id)) (\<lambda>_.
     bind_res (as_object (get_or_null x ''scope'') (''principle scope: '' @ principle_id)) (\<lambda>_.
       if transfer = JStr ''supported''
       then bind_res (map_res (credits_transfer attribution_by_id) supporting) (\<lambda>found.
         demand (list_ex id found) (''transfer support evidence: '' @ principle_id))
       else Inr ())))))))))))"

definition validate_principles ::
  "records \<Rightarrow> string list \<Rightarrow> (string, obj) dict \<Rightarrow> status_sets \<Rightarrow> (string, obj) dict res" where
  "validate_principles recs episode_ids attribution_by_id statuses =
     bind_res (typed_records recs ''learned_principle'') (\<lambda>principles.
     bind_res (index_records ''principle_id'' principles) (\<lambda>principle_by_id.
     bind_res (fold_res (\<lambda>_. validate_principle episode_ids attribution_by_id statuses) ()
       principle_by_id) (\<lambda>_.
       Inr principle_by_id)))"

section \<open>Strategies\<close>

definition transfer_supported :: "(string, obj) dict \<Rightarrow> string \<Rightarrow> bool res" where
  "transfer_supported principle_by_id item =
     bind_res (dict_at item principle_by_id item) (\<lambda>p. Inr (is_text p ''transfer_status'' ''supported''))"

definition validate_strategy :: "(string, obj) dict \<Rightarrow> status_sets \<Rightarrow> obj \<Rightarrow> unit res" where
  "validate_strategy principle_by_id statuses x =
     bind_res (id_of ''strategy_id'' x) (\<lambda>strategy_id.
     bind_res (as_strings (get_or_null x ''principle_ids'')
       (''strategy principles: '' @ strategy_id) True) (\<lambda>bound.
     bind_res (demand (covers (dict_keys principle_by_id) bound)
       (''unknown strategy principle: '' @ strategy_id)) (\<lambda>_.
     bind_res (as_strings (get_or_null x ''preconditions'')
       (''strategy preconditions: '' @ strategy_id) True) (\<lambda>_.
     bind_res (as_strings (get_or_null x ''known_failure_modes'')
       (''strategy failure modes: '' @ strategy_id) True) (\<lambda>_.
     bind_res (as_object (get_or_null x ''applicability_scope'') (''strategy scope: '' @ strategy_id)) (\<lambda>_.
     let reuse_status = get_or_null x ''reuse_status'' in
     bind_res (has_status statuses ''strategy_reuse_status'' reuse_status) (\<lambda>listed.
     bind_res (demand listed (''strategy reuse status: '' @ strategy_id)) (\<lambda>_.
       if reuse_status = JStr ''supported''
       then bind_res (map_res (transfer_supported principle_by_id) bound) (\<lambda>found.
         demand (list_all id found) (''global reuse without transfer: '' @ strategy_id))
       else Inr ()))))))))"

definition validate_strategies :: "records \<Rightarrow> (string, obj) dict \<Rightarrow> status_sets \<Rightarrow> unit res" where
  "validate_strategies recs principle_by_id statuses =
     bind_res (typed_records recs ''strategy_record'') (\<lambda>strategies.
       fold_res (\<lambda>_. validate_strategy principle_by_id statuses) () strategies)"

section \<open>The bundle\<close>

definition retains_rejected :: "records \<Rightarrow> bool res" where
  "retains_rejected recs =
     bind_res (typed_records recs ''causal_hypothesis'') (\<lambda>hypotheses.
     bind_res (map_res (id_of ''hypothesis_id'')
       (filter (\<lambda>h. is_text h ''disposition'' ''rejected'') hypotheses)) (\<lambda>ids.
       Inr (ids \<noteq> [])))"

definition validate_records :: "obj \<Rightarrow> obj \<Rightarrow> unit res" where
  "validate_records profile bundle =
     bind_res (demand (is_text bundle ''schema'' ''mncs-recursive-experience-records/0.1'') ''record schema'') (\<lambda>_.
     bind_res (demand (json_eq (get_or_null bundle ''profile_id'') (get_or_null profile ''profile_id''))
       ''profile identity'') (\<lambda>_.
     bind_res (normalize_records profile bundle) (\<lambda>recs.
     bind_res (allowed_statuses profile) (\<lambda>statuses.
     bind_res (validate_episodes profile recs statuses) (\<lambda>episode_ids.
     bind_res (validate_hypotheses recs episode_ids statuses) (\<lambda>hypothesis_ids.
     bind_res (validate_interventions recs hypothesis_ids) (\<lambda>intervention_ids.
     bind_res (validate_attributions profile recs intervention_ids statuses) (\<lambda>attribution_by_id.
     bind_res (validate_principles recs episode_ids attribution_by_id statuses) (\<lambda>principle_by_id.
     bind_res (validate_strategies recs principle_by_id statuses) (\<lambda>_.
     bind_res (retains_rejected recs) (\<lambda>retained.
     bind_res (demand retained ''negative memory must retain rejected hypotheses'') (\<lambda>_.
     bind_res (as_strings (get_or_null bundle ''controls_applied'') ''controls applied'' False) (\<lambda>controls.
     bind_res (as_strings (get_or_null profile ''required_controls'') ''required controls'' False) (\<lambda>required.
       demand (covers controls required) ''missing experience control''))))))))))))))"

section \<open>Negative fixtures\<close>

text \<open>\<open>v[k][...] = x\<close> on nested dictionaries and lists: a missing key raises.\<close>

definition update_key :: "string \<Rightarrow> (json \<Rightarrow> json res) \<Rightarrow> json \<Rightarrow> json res" where
  "update_key k f v =
     (case v of
        JObj d \<Rightarrow> bind_res (obj_at d k) (\<lambda>x. bind_res (f x) (\<lambda>y. Inr (JObj (dict_set k y d))))
      | _ \<Rightarrow> Inl (TypeError k))"

definition update_first :: "(json \<Rightarrow> json res) \<Rightarrow> json \<Rightarrow> json res" where
  "update_first f v =
     (case v of
        JList (x # xs) \<Rightarrow> bind_res (f x) (\<lambda>y. Inr (JList (y # xs)))
      | JList [] \<Rightarrow> Inl IndexError
      | JStr [] \<Rightarrow> Inl IndexError
      | JObj _ \<Rightarrow> Inl (KeyError ''0'')
      | _ \<Rightarrow> Inl (TypeError ''0''))"

definition set_key :: "string \<Rightarrow> json \<Rightarrow> json \<Rightarrow> json res" where
  "set_key k x v = (case v of JObj d \<Rightarrow> Inr (JObj (dict_set k x d)) | _ \<Rightarrow> Inl (TypeError k))"

definition keep_items :: "(json \<Rightarrow> bool) \<Rightarrow> json \<Rightarrow> json res" where
  "keep_items keep v =
     (case v of
        JList xs \<Rightarrow>
          bind_res (map_res (\<lambda>item. case item of
            JObj d \<Rightarrow> bind_res (obj_at d ''outcome_class'') (\<lambda>x. Inr (item, x))
          | _ \<Rightarrow> Inl (TypeError ''outcome_class'')) xs) (\<lambda>ps.
            Inr (JList (map fst (filter (\<lambda>(_, x). keep x) ps))))
      | JStr [] \<Rightarrow> Inr (JList [])
      | JObj [] \<Rightarrow> Inr (JList [])
      | _ \<Rightarrow> Inl (TypeError ''experience_episode''))"

definition mutated_profile :: "string \<Rightarrow> (json \<Rightarrow> json res) option" where
  "mutated_profile mutation =
     (if mutation = ''evaluator-authority-expansion''
      then Some (update_key ''immutable_authority''
        (set_key ''experience_system_may_modify_evaluator'' (JBool True)))
      else if mutation = ''aggregate-only-causal-promotion''
      then Some (update_key ''diagnostic_requirements''
        (set_key ''aggregate_score_alone_may_support_causal_claim'' (JBool True)))
      else if mutation = ''future-final-early-access''
      then Some (update_key ''immutable_authority''
        (set_key ''experience_system_may_access_future_final_before_freeze'' (JBool True)))
      else None)"

definition mutated_bundle :: "string \<Rightarrow> (json \<Rightarrow> json res) option" where
  "mutated_bundle mutation =
     (if mutation = ''error-only-memory''
      then Some (update_key ''records'' (update_key ''experience_episode'' (keep_items (\<lambda>x. x = JStr ''error''))))
      else if mutation = ''deleted-failure-memory''
      then Some (update_key ''records'' (update_key ''experience_episode'' (keep_items (\<lambda>x. x \<noteq> JStr ''error''))))
      else if mutation = ''post-hoc-hypothesis''
      then Some (update_key ''records'' (update_key ''causal_hypothesis''
        (update_first (set_key ''recorded_before_intervention'' (JBool False)))))
      else if mutation = ''unsupported-principle''
      then Some (update_key ''records'' (update_key ''learned_principle''
        (update_first (set_key ''supporting_attribution_ids'' (JList [])))))
      else if mutation = ''strategy-without-failure-modes''
      then Some (update_key ''records'' (update_key ''strategy_record''
        (update_first (set_key ''known_failure_modes'' (JList [])))))
      else if mutation = ''global-reuse-without-transfer''
      then Some (update_key ''records'' (update_key ''learned_principle''
        (update_first (set_key ''transfer_status'' (JStr ''untested'')))))
      else if mutation = ''attribution-without-credit-class''
      then Some (update_key ''records'' (update_key ''causal_attribution''
        (update_first (set_key ''credit_classes'' (JList [])))))
      else None)"

definition mutated_fixture :: "obj \<Rightarrow> obj \<Rightarrow> string \<Rightarrow> (json \<times> json) res" where
  "mutated_fixture profile bundle mutation =
     bind_res (obj_at bundle ''records'') (\<lambda>_.
       case (mutated_profile mutation, mutated_bundle mutation) of
         (Some f, _) \<Rightarrow> bind_res (f (JObj profile)) (\<lambda>p. Inr (p, JObj bundle))
       | (None, Some g) \<Rightarrow> bind_res (g (JObj bundle)) (\<lambda>b. Inr (JObj profile, b))
       | (None, None) \<Rightarrow> Inl (KeyError mutation))"

text \<open>\<open>main\<close>, after the two files are read.\<close>

definition validate_substrate :: "json \<Rightarrow> json \<Rightarrow> unit res" where
  "validate_substrate profile bundle =
     bind_res (as_object profile ''architecture-profile.json must contain an object'') (\<lambda>p.
     bind_res (as_object bundle ''reference-records.json must contain an object'') (\<lambda>b.
     bind_res (validate_profile p) (\<lambda>_. validate_records p b)))"

end
