(* ===== verification/ExperienceProofs.thy ===== *)
theory ExperienceProofs
  imports ExperienceRecords
begin

text \<open>
  What the validator of the experience records accepts: the records are well formed, their
  identities unique, and every reference resolves.
\<close>

section \<open>Fields\<close>

definition text_field :: "obj \<Rightarrow> string \<Rightarrow> string \<Rightarrow> bool" where
  "text_field r field s \<longleftrightarrow> get_or_null r field = JStr s"

definition listed :: "obj \<Rightarrow> string \<Rightarrow> string list \<Rightarrow> bool" where
  "listed r field ss \<longleftrightarrow> get_or_null r field = JList (map JStr ss)"

lemma as_strings_listed:
  "as_strings (get_or_null r field) m nonempty = Inr ss \<Longrightarrow> listed r field ss \<and> (nonempty \<longrightarrow> ss \<noteq> [])"
  by (simp add: listed_def)

lemma in_strings_ok [experience_checks]: "in_strings v S = Inr True \<longleftrightarrow> (\<exists>s \<in> S. v = JStr s)"
  by (cases v) (auto simp: in_strings_def)

text \<open>A check of membership followed by the demand that it holds.\<close>

lemma known_textE:
  assumes "in_strings (get_or_null r field) S = Inr known" and "demand known m = Inr u"
  obtains s where "text_field r field s" and "s \<in> S"
  using assms by (auto simp: text_field_def in_strings_ok)

section \<open>Normalised records\<close>

definition record_id :: "string \<Rightarrow> obj \<Rightarrow> string" where
  "record_id field r = text_of (get_or_null r field)"

definition has_id :: "string \<Rightarrow> obj \<Rightarrow> bool" where
  "has_id field r \<longleftrightarrow> record_id field r \<noteq> [] \<and> text_field r field (record_id field r)"

abbreviation ids_of :: "string \<Rightarrow> obj list \<Rightarrow> string list" where
  "ids_of field rs \<equiv> map (record_id field) rs"

lemma normalize_record_ok:
  assumes "normalize_record t f req (ids, acc) (i, v) = Inr st"
  obtains r where "v = JObj r" and "has_id f r" and "record_id f r \<notin> set ids"
    and "st = (ids @ [record_id f r], acc @ [r])"
  using assms unfolding normalize_record_def prod.case Let_def
proof (elim bind_resE, goal_cases)
  case (1 r)
  then have "is_str (get_or_null r f)" "truthy (get_or_null r f)" by simp_all
  then have "has_id f r"
    by (cases "get_or_null r f") (auto simp: has_id_def record_id_def text_field_def text_of_def)
  with 1 show thesis by (simp add: record_id_def)
qed

lemma normalize_loop:
  "fold_res (normalize_record t f req) (ids, acc) (enumerate i vs) = Inr (ids', acc') \<Longrightarrow> distinct ids \<Longrightarrow>
     \<exists>rs. vs = map JObj rs \<and> acc' = acc @ rs \<and> ids' = ids @ ids_of f rs \<and> distinct ids' \<and>
       (\<forall>r \<in> set rs. has_id f r)"
proof (induction vs arbitrary: i ids acc)
  case Nil
  then show ?case by simp
next
  case (Cons v vs)
  from Cons.prems(1) obtain st where step: "normalize_record t f req (ids, acc) (i, v) = Inr st"
    and run: "fold_res (normalize_record t f req) st (enumerate (Suc i) vs) = Inr (ids', acc')"
    by (auto simp: bind_res_eq_Inr)
  from normalize_record_ok [OF step] obtain r where r: "v = JObj r" "has_id f r" "record_id f r \<notin> set ids"
    and st: "st = (ids @ [record_id f r], acc @ [r])" .
  from Cons.IH [OF run [unfolded st]] Cons.prems(2) r(3) obtain rs where
    "vs = map JObj rs" "acc' = acc @ r # rs" "ids' = ids @ record_id f r # ids_of f rs" "distinct ids'"
    "\<forall>r \<in> set rs. has_id f r" by auto
  with r show ?case by (intro exI [of _ "r # rs"]) simp
qed

text \<open>The records of one type, as read from the bundle.\<close>

definition typed_ok :: "obj \<Rightarrow> records \<Rightarrow> string \<Rightarrow> string \<Rightarrow> bool" where
  "typed_ok source recs t f \<longleftrightarrow>
     (\<exists>rs. dict_get recs t = Some rs \<and> get_or_null source t = JList (map JObj rs) \<and> rs \<noteq> [] \<and>
        (\<forall>r \<in> set rs. has_id f r) \<and> distinct (ids_of f rs))"

lemma normalize_type_ok:
  assumes "normalize_type vocabulary source (ids, ns) (t, f) = Inr (ids', ns')" and "distinct ids"
  shows "\<exists>rs. ns' = dict_set t rs ns \<and> get_or_null source t = JList (map JObj rs) \<and> rs \<noteq> [] \<and>
    (\<forall>r \<in> set rs. has_id f r) \<and> ids' = ids @ ids_of f rs \<and> distinct ids'"
  using assms(1) unfolding normalize_type_def prod.case
proof (elim bind_resE, goal_cases)
  case (1 required vs u st)
  obtain ids1 typed where st: "st = (ids1, typed)" by fastforce
  from normalize_loop [OF 1(4) [unfolded st] assms(2)] obtain rs where rs:
    "vs = map JObj rs" "typed = rs" "ids1 = ids @ ids_of f rs" "distinct ids1" "\<forall>r \<in> set rs. has_id f r"
    by auto
  have "ns' = dict_set t rs ns" "ids' = ids @ ids_of f rs" "distinct ids'"
    using 1(5) rs(2-4) by (simp_all add: st)
  moreover have "get_or_null source t = JList (map JObj rs)" "rs \<noteq> []" using 1(2,3) rs(1) by simp_all
  ultimately show ?case using rs(5) by (intro exI [of _ rs]) blast
qed

text \<open>The identities of all records, in the order of the types.\<close>

definition all_ids :: "records \<Rightarrow> string list" where
  "all_ids recs = concat (map (\<lambda>(t, f). case dict_get recs t of None \<Rightarrow> [] | Some rs \<Rightarrow> ids_of f rs) RECORD_ID_FIELDS)"

definition normalized :: "obj \<Rightarrow> records \<Rightarrow> bool" where
  "normalized bundle recs \<longleftrightarrow>
     (\<exists>source. get_or_null bundle ''records'' = JObj source \<and>
        (\<forall>(t, f) \<in> set RECORD_ID_FIELDS. typed_ok source recs t f)) \<and>
     distinct (all_ids recs)"

lemma typed_ok_dict_set:
  "typed_ok source recs t f \<Longrightarrow> t \<noteq> t' \<Longrightarrow> typed_ok source (dict_set t' rs recs) t f"
  by (simp add: typed_ok_def dict_get_set)

lemma normalize_types_ok:
  assumes "fold_res (normalize_type vocabulary source) (ids, ns) fs = Inr (ids', ns')"
    and "distinct ids" and "distinct (map fst fs)"
  shows "(\<forall>(t, f) \<in> set fs. typed_ok source ns' t f) \<and>
    (\<forall>t. t \<notin> fst ` set fs \<longrightarrow> dict_get ns' t = dict_get ns t) \<and> distinct ids' \<and>
    ids' = ids @ concat (map (\<lambda>(t, f). case dict_get ns' t of None \<Rightarrow> [] | Some rs \<Rightarrow> ids_of f rs) fs)"
  using assms
proof (induction fs arbitrary: ids ns)
  case Nil
  then show ?case by simp
next
  case (Cons p fs)
  obtain t f where p: "p = (t, f)" by fastforce
  from Cons.prems(1) obtain ids1 ns1 where step: "normalize_type vocabulary source (ids, ns) (t, f) = Inr (ids1, ns1)"
    and run: "fold_res (normalize_type vocabulary source) (ids1, ns1) fs = Inr (ids', ns')"
    by (auto simp: bind_res_eq_Inr p)
  from normalize_type_ok [OF step Cons.prems(2)] obtain rs where rs: "ns1 = dict_set t rs ns"
    "get_or_null source t = JList (map JObj rs)" "rs \<noteq> []" "\<forall>r \<in> set rs. has_id f r"
    "ids1 = ids @ ids_of f rs" "distinct ids1" by blast
  have fresh: "t \<notin> fst ` set fs" "distinct (map fst fs)" using Cons.prems(3) by (auto simp: p)
  note IH = Cons.IH [OF run rs(6) fresh(2)]
  then have kept: "dict_get ns' t = Some rs" using fresh(1) by (simp add: rs(1) dict_get_set)
  have "typed_ok source ns' t f"
    using kept rs by (auto simp: typed_ok_def)
  then have "\<forall>(t, f) \<in> set (p # fs). typed_ok source ns' t f" using IH by (simp add: p)
  moreover have "dict_get ns' t' = dict_get ns t'" if "t' \<notin> fst ` set (p # fs)" for t'
    using IH that by (simp add: rs(1) dict_get_set p)
  moreover have "ids' = ids @ concat (map (\<lambda>(t, f). case dict_get ns' t of None \<Rightarrow> [] | Some rs \<Rightarrow> ids_of f rs) (p # fs))"
    using IH kept by (simp add: p rs(5))
  moreover have "distinct ids'" using IH by blast
  ultimately show ?case by blast
qed

lemma normalize_records_ok:
  assumes "normalize_records profile bundle = Inr recs"
  shows "normalized bundle recs"
  using assms unfolding normalize_records_def
proof (elim bind_resE, goal_cases)
  case (1 vocabulary source st)
  obtain ids ns where st: "st = (ids, ns)" by fastforce
  have "distinct (map fst RECORD_ID_FIELDS)" by (simp add: RECORD_ID_FIELDS_def)
  from normalize_types_ok [OF 1(3) [unfolded st] _ this] 1 show ?case
    by (auto simp: normalized_def st all_ids_def)
qed

section \<open>Identities and indices\<close>

lemma id_of_ok: "has_id f r \<Longrightarrow> id_of f r = Inr (record_id f r)"
proof -
  assume r: "has_id f r"
  then have "dict_get r f = Some (JStr (record_id f r))"
    by (cases "dict_get r f") (auto simp: has_id_def text_field_def)
  then show ?thesis by (simp add: id_of_def)
qed

lemma map_ids: "\<forall>r \<in> set rs. has_id f r \<Longrightarrow> map_res (id_of f) rs = Inr (ids_of f rs)"
  by (induction rs) (auto simp: id_of_ok)

lemma index_loop:
  assumes "\<forall>r \<in> set rs. has_id f r" and "distinct (dict_keys d @ ids_of f rs)"
  shows "fold_res (\<lambda>d r. bind_res (id_of f r) (\<lambda>k. Inr (dict_set k r d))) d rs =
    Inr (d @ map (\<lambda>r. (record_id f r, r)) rs)"
  using assms
proof (induction rs arbitrary: d)
  case Nil
  then show ?case by simp
next
  case (Cons r rs)
  then have "dict_set (record_id f r) r d = d @ [(record_id f r, r)]" by (intro dict_set_fresh) auto
  with Cons show ?case by (simp add: id_of_ok)
qed

definition indexed :: "string \<Rightarrow> obj list \<Rightarrow> (string, obj) dict" where
  "indexed f rs = map (\<lambda>r. (record_id f r, r)) rs"

lemma index_records_ok:
  "\<forall>r \<in> set rs. has_id f r \<Longrightarrow> distinct (ids_of f rs) \<Longrightarrow> index_records f rs = Inr (indexed f rs)"
  by (simp add: index_records_def index_loop indexed_def)

lemma indexed_keys [simp]: "dict_keys (indexed f rs) = ids_of f rs"
  by (simp add: indexed_def comp_def)

lemma indexed_get: "dict_get (indexed f rs) k = Some r \<Longrightarrow> r \<in> set rs \<and> record_id f r = k"
  by (auto simp: indexed_def dest!: map_of_SomeD)

section \<open>What holds of an accepted record\<close>

definition status_ok :: "status_sets \<Rightarrow> string \<Rightarrow> obj \<Rightarrow> string \<Rightarrow> bool" where
  "status_ok statuses name r field \<longleftrightarrow>
     (\<exists>ss s. dict_get statuses name = Some ss \<and> s \<in> set ss \<and> text_field r field s)"

lemma has_statusE:
  assumes "has_status statuses name (get_or_null r field) = Inr known" and "demand known m = Inr u"
  shows "status_ok statuses name r field"
  using assms by (auto simp: has_status_def status_set_def bind_res_eq_Inr in_strings_ok status_ok_def text_field_def)

definition episode_ok :: "status_sets \<Rightarrow> obj \<Rightarrow> bool" where
  "episode_ok statuses e \<longleftrightarrow>
     status_ok statuses ''episode_outcome_class'' e ''outcome_class'' \<and>
     (\<exists>route. listed e ''route'' route) \<and>
     0 \<le> int_val (get_or_null e ''resource_cost'')"

definition hypothesis_ok :: "string list \<Rightarrow> string list \<Rightarrow> status_sets \<Rightarrow> obj \<Rightarrow> bool" where
  "hypothesis_ok hypotheses episodes statuses h \<longleftrightarrow>
     (\<exists>es hs probes. listed h ''supporting_episode_ids'' es \<and> es \<noteq> [] \<and> set es \<subseteq> set episodes \<and>
        listed h ''competing_hypothesis_ids'' hs \<and> hs \<noteq> [] \<and> set hs \<subseteq> set hypotheses \<and>
        listed h ''required_probe_ids'' probes \<and> probes \<noteq> []) \<and>
     is_true h ''recorded_before_intervention'' \<and> truthy (get_or_null h ''falsifier'') \<and>
     status_ok statuses ''hypothesis_disposition'' h ''disposition''"

definition intervention_ok :: "string list \<Rightarrow> obj \<Rightarrow> bool" where
  "intervention_ok hypotheses x \<longleftrightarrow>
     (\<exists>h parent child. text_field x ''hypothesis_id'' h \<and> h \<in> set hypotheses \<and>
        text_field x ''parent_candidate_identity'' parent \<and>
        text_field x ''child_candidate_identity'' child \<and> parent \<noteq> child \<and>
        text_field x ''rollback_target'' parent)"

definition attribution_ok :: "string list \<Rightarrow> string list \<Rightarrow> status_sets \<Rightarrow> obj \<Rightarrow> bool" where
  "attribution_ok interventions credit statuses a \<longleftrightarrow>
     (\<exists>i cs. text_field a ''intervention_id'' i \<and> i \<in> set interventions \<and>
        listed a ''credit_classes'' cs \<and> cs \<noteq> [] \<and> set cs \<subseteq> set credit) \<and>
     truthy (get_or_null a ''evaluator_identity'') \<and>
     status_ok statuses ''hypothesis_disposition'' a ''hypothesis_disposition''"

definition principle_ok :: "string list \<Rightarrow> (string, obj) dict \<Rightarrow> status_sets \<Rightarrow> obj \<Rightarrow> bool" where
  "principle_ok episodes attributions statuses x \<longleftrightarrow>
     (\<exists>as es. listed x ''supporting_attribution_ids'' as \<and> as \<noteq> [] \<and>
        set as \<subseteq> set (dict_keys attributions) \<and>
        listed x ''counterexample_episode_ids'' es \<and> set es \<subseteq> set episodes \<and>
        (text_field x ''transfer_status'' ''supported'' \<longrightarrow>
           (\<exists>k \<in> set as. \<exists>a. dict_get attributions k = Some a \<and>
              (\<exists>cs. get_or_null a ''credit_classes'' = JList cs \<and> JStr ''transfer'' \<in> set cs)))) \<and>
     truthy (get_or_null x ''falsifier'') \<and>
     status_ok statuses ''principle_maturity'' x ''maturity'' \<and>
     status_ok statuses ''transfer_status'' x ''transfer_status''"

definition strategy_ok :: "(string, obj) dict \<Rightarrow> status_sets \<Rightarrow> obj \<Rightarrow> bool" where
  "strategy_ok principles statuses x \<longleftrightarrow>
     (\<exists>ps modes. listed x ''principle_ids'' ps \<and> ps \<noteq> [] \<and> set ps \<subseteq> set (dict_keys principles) \<and>
        listed x ''known_failure_modes'' modes \<and> modes \<noteq> [] \<and>
        (text_field x ''reuse_status'' ''supported'' \<longrightarrow>
           (\<forall>k \<in> set ps. \<exists>p. dict_get principles k = Some p \<and> text_field p ''transfer_status'' ''supported''))) \<and>
     status_ok statuses ''strategy_reuse_status'' x ''reuse_status''"

lemma validate_episode_ok:
  assumes "validate_episode statuses seen e = Inr seen'"
  shows "episode_ok statuses e \<and> (\<exists>s. text_field e ''outcome_class'' s \<and> seen' = seen @ [s])"
  using assms unfolding validate_episode_def Let_def
proof (elim bind_resE, goal_cases)
  case 1
  note known = has_statusE [OF 1(2,3)]
  then obtain s where s: "text_field e ''outcome_class'' s" by (auto simp: status_ok_def)
  then have "seen' = seen @ [s]" using 1 by (simp add: text_field_def)
  with known s show ?case using 1 by (auto simp: episode_ok_def listed_def)
qed

lemma validate_hypothesis_ok:
  assumes "validate_hypothesis hypotheses episodes statuses h = Inr u"
  shows "hypothesis_ok hypotheses episodes statuses h"
  using assms unfolding validate_hypothesis_def
proof (elim bind_resE, goal_cases)
  case 1
  note known = has_statusE [OF 1(8,9)]
  show ?case
    using 1(2-7,10) known unfolding hypothesis_ok_def by (auto simp: listed_def covers_def)
qed

lemma validate_intervention_ok:
  assumes "validate_intervention hypotheses x = Inr u"
  shows "intervention_ok hypotheses x"
  using assms unfolding validate_intervention_def Let_def
proof (elim bind_resE, goal_cases)
  case 1
  obtain h where h: "text_field x ''hypothesis_id'' h" "h \<in> set hypotheses" by (rule known_textE [OF 1(2,3)])
  obtain a where a: "get_or_null x ''parent_candidate_identity'' = JStr a"
    using 1(4) by (cases "get_or_null x ''parent_candidate_identity''") auto
  obtain b where b: "get_or_null x ''child_candidate_identity'' = JStr b"
    using 1(5) by (cases "get_or_null x ''child_candidate_identity''") auto
  show ?case
    using 1(6,7) h a b unfolding intervention_ok_def by (auto simp: text_field_def)
qed

lemma validate_attribution_ok:
  assumes "validate_attribution credit interventions statuses (k, a) = Inr u"
  shows "attribution_ok interventions credit statuses a"
  using assms unfolding validate_attribution_def prod.case
proof (elim bind_resE, goal_cases)
  case 1
  obtain i where "text_field a ''intervention_id'' i" "i \<in> set interventions" by (rule known_textE [OF 1(1,2)])
  then show ?case
    using has_statusE [OF 1(4,5)] 1(7-9) unfolding attribution_ok_def by (auto simp: listed_def covers_def)
qed

lemma credits_transfer_ok:
  assumes "credits_transfer attributions k = Inr True"
  shows "\<exists>a. dict_get attributions k = Some a \<and>
    (\<exists>cs. get_or_null a ''credit_classes'' = JList cs \<and> JStr ''transfer'' \<in> set cs)"
  using assms unfolding credits_transfer_def
proof (elim bind_resE, goal_cases)
  case (1 a)
  then show ?case
  proof (cases "dict_get a ''credit_classes''")
    case (Some v)
    with 1 show ?thesis by (cases v) auto
  qed simp
qed

lemma validate_principle_ok:
  assumes "validate_principle episodes attributions statuses (k, x) = Inr u"
  shows "principle_ok episodes attributions statuses x"
  using assms unfolding validate_principle_def prod.case Let_def
proof (elim bind_resE, goal_cases)
  case (1 as u1 es)
  have transfer: "\<exists>k \<in> set as. \<exists>a. dict_get attributions k = Some a \<and>
      (\<exists>cs. get_or_null a ''credit_classes'' = JList cs \<and> JStr ''transfer'' \<in> set cs)"
    if "text_field x ''transfer_status'' ''supported''"
  proof -
    from 1(11) that obtain found where found: "map_res (credits_transfer attributions) as = Inr found"
      and "list_ex id found"
      by (auto simp: text_field_def bind_res_eq_Inr)
    then have "True \<in> set found" by (auto simp: list_ex_iff)
    from map_res_member' [OF found this] show ?thesis by (blast dest: credits_transfer_ok)
  qed
  then show ?case
    using has_statusE [OF 1(5,6)] has_statusE [OF 1(7,8)] 1(1-4,9)
    unfolding principle_ok_def
    by (intro conjI exI [of _ as] exI [of _ es] impI transfer) (simp_all add: listed_def covers_def)
qed

lemma validate_strategy_ok:
  assumes "validate_strategy principles statuses x = Inr u"
  shows "strategy_ok principles statuses x"
  using assms unfolding validate_strategy_def Let_def
proof (elim bind_resE, goal_cases)
  case (1 i ps)
  have transfer: "\<forall>k \<in> set ps. \<exists>p. dict_get principles k = Some p \<and> text_field p ''transfer_status'' ''supported''"
    if "text_field x ''reuse_status'' ''supported''"
  proof
    fix k
    assume k: "k \<in> set ps"
    from 1(9) that obtain found where found: "map_res (transfer_supported principles) ps = Inr found"
      and all: "list_all id found"
      by (auto simp: text_field_def bind_res_eq_Inr)
    from map_res_member [OF found k] all have "transfer_supported principles k = Inr True"
      by (auto simp: list_all_iff)
    then show "\<exists>p. dict_get principles k = Some p \<and> text_field p ''transfer_status'' ''supported''"
      by (auto simp: transfer_supported_def bind_res_eq_Inr is_text_def text_field_def)
  qed
  then show ?case
    using has_statusE [OF 1(7,8)] 1(2-5) unfolding strategy_ok_def by (auto simp: listed_def covers_def)
qed

section \<open>The bundle\<close>

text \<open>The records of an accepted bundle.\<close>

record bundle_view =
  bw_episodes :: "obj list"
  bw_hypotheses :: "obj list"
  bw_interventions :: "obj list"
  bw_attributions :: "obj list"
  bw_principles :: "obj list"
  bw_strategies :: "obj list"

definition view_of :: "records \<Rightarrow> bundle_view \<Rightarrow> bool" where
  "view_of recs w \<longleftrightarrow>
     dict_get recs ''experience_episode'' = Some (bw_episodes w) \<and>
     dict_get recs ''causal_hypothesis'' = Some (bw_hypotheses w) \<and>
     dict_get recs ''intervention_record'' = Some (bw_interventions w) \<and>
     dict_get recs ''causal_attribution'' = Some (bw_attributions w) \<and>
     dict_get recs ''learned_principle'' = Some (bw_principles w) \<and>
     dict_get recs ''strategy_record'' = Some (bw_strategies w)"

text \<open>The view is what the bundle holds, with unique identities of every type.\<close>

definition reads_bundle :: "obj \<Rightarrow> bundle_view \<Rightarrow> bool" where
  "reads_bundle bundle w \<longleftrightarrow>
     (\<exists>source. get_or_null bundle ''records'' = JObj source \<and>
        get_or_null source ''experience_episode'' = JList (map JObj (bw_episodes w)) \<and>
        get_or_null source ''causal_hypothesis'' = JList (map JObj (bw_hypotheses w)) \<and>
        get_or_null source ''intervention_record'' = JList (map JObj (bw_interventions w)) \<and>
        get_or_null source ''causal_attribution'' = JList (map JObj (bw_attributions w)) \<and>
        get_or_null source ''learned_principle'' = JList (map JObj (bw_principles w)) \<and>
        get_or_null source ''strategy_record'' = JList (map JObj (bw_strategies w))) \<and>
     distinct (ids_of ''episode_id'' (bw_episodes w) @ ids_of ''hypothesis_id'' (bw_hypotheses w)
       @ ids_of ''intervention_id'' (bw_interventions w) @ ids_of ''attribution_id'' (bw_attributions w)
       @ ids_of ''principle_id'' (bw_principles w) @ ids_of ''strategy_id'' (bw_strategies w)) \<and>
     (\<forall>r \<in> set (bw_episodes w). has_id ''episode_id'' r) \<and>
     (\<forall>r \<in> set (bw_hypotheses w). has_id ''hypothesis_id'' r) \<and>
     (\<forall>r \<in> set (bw_interventions w). has_id ''intervention_id'' r) \<and>
     (\<forall>r \<in> set (bw_attributions w). has_id ''attribution_id'' r) \<and>
     (\<forall>r \<in> set (bw_principles w). has_id ''principle_id'' r) \<and>
     (\<forall>r \<in> set (bw_strategies w). has_id ''strategy_id'' r)"

lemma normalized_view:
  assumes "normalized bundle recs"
  obtains w where "view_of recs w" and "reads_bundle bundle w"
proof -
  from assms obtain source where source: "get_or_null bundle ''records'' = JObj source"
    and ok: "\<forall>(t, f) \<in> set RECORD_ID_FIELDS. typed_ok source recs t f" and ids: "distinct (all_ids recs)"
    by (auto simp: normalized_def)
  have "typed_ok source recs t f" if "(t, f) \<in> set RECORD_ID_FIELDS" for t f
    using ok that by blast
  note typed = this [unfolded RECORD_ID_FIELDS_def]
  from typed [of "''experience_episode''" "''episode_id''"] obtain a where a: "dict_get recs ''experience_episode'' = Some a"
    "get_or_null source ''experience_episode'' = JList (map JObj a)" "\<forall>r \<in> set a. has_id ''episode_id'' r"
    by (auto simp: typed_ok_def)
  from typed [of "''causal_hypothesis''" "''hypothesis_id''"] obtain b where b: "dict_get recs ''causal_hypothesis'' = Some b"
    "get_or_null source ''causal_hypothesis'' = JList (map JObj b)" "\<forall>r \<in> set b. has_id ''hypothesis_id'' r"
    by (auto simp: typed_ok_def)
  from typed [of "''intervention_record''" "''intervention_id''"] obtain c where c: "dict_get recs ''intervention_record'' = Some c"
    "get_or_null source ''intervention_record'' = JList (map JObj c)" "\<forall>r \<in> set c. has_id ''intervention_id'' r"
    by (auto simp: typed_ok_def)
  from typed [of "''causal_attribution''" "''attribution_id''"] obtain d where d: "dict_get recs ''causal_attribution'' = Some d"
    "get_or_null source ''causal_attribution'' = JList (map JObj d)" "\<forall>r \<in> set d. has_id ''attribution_id'' r"
    by (auto simp: typed_ok_def)
  from typed [of "''learned_principle''" "''principle_id''"] obtain e where e: "dict_get recs ''learned_principle'' = Some e"
    "get_or_null source ''learned_principle'' = JList (map JObj e)" "\<forall>r \<in> set e. has_id ''principle_id'' r"
    by (auto simp: typed_ok_def)
  from typed [of "''strategy_record''" "''strategy_id''"] obtain f where f: "dict_get recs ''strategy_record'' = Some f"
    "get_or_null source ''strategy_record'' = JList (map JObj f)" "\<forall>r \<in> set f. has_id ''strategy_id'' r"
    by (auto simp: typed_ok_def)
  show thesis
    using source ids a b c d e f
    by (intro that [of "\<lparr>bw_episodes = a, bw_hypotheses = b, bw_interventions = c, bw_attributions = d,
        bw_principles = e, bw_strategies = f\<rparr>"])
      (simp_all add: view_of_def reads_bundle_def all_ids_def RECORD_ID_FIELDS_def)
qed

text \<open>Everything the validator establishes about the records of an accepted bundle.\<close>

definition bundle_ok :: "obj \<Rightarrow> obj \<Rightarrow> bundle_view \<Rightarrow> bool" where
  "bundle_ok profile bundle w \<longleftrightarrow>
     reads_bundle bundle w \<and>
     (\<exists>statuses credit. allowed_statuses profile = Inr statuses \<and> listed profile ''credit_classes'' credit \<and>
        (\<forall>e \<in> set (bw_episodes w). episode_ok statuses e) \<and>
        (\<forall>h \<in> set (bw_hypotheses w). hypothesis_ok (ids_of ''hypothesis_id'' (bw_hypotheses w))
           (ids_of ''episode_id'' (bw_episodes w)) statuses h) \<and>
        (\<forall>x \<in> set (bw_interventions w). intervention_ok (ids_of ''hypothesis_id'' (bw_hypotheses w)) x) \<and>
        (\<forall>a \<in> set (bw_attributions w). attribution_ok
           (ids_of ''intervention_id'' (bw_interventions w)) credit statuses a) \<and>
        (\<forall>x \<in> set (bw_principles w). principle_ok (ids_of ''episode_id'' (bw_episodes w))
           (indexed ''attribution_id'' (bw_attributions w)) statuses x) \<and>
        (\<forall>x \<in> set (bw_strategies w). strategy_ok (indexed ''principle_id'' (bw_principles w)) statuses x)) \<and>
     (\<exists>required. listed profile ''required_episode_outcomes'' required \<and>
        (\<forall>s \<in> set required. \<exists>e \<in> set (bw_episodes w). text_field e ''outcome_class'' s)) \<and>
     (\<exists>h \<in> set (bw_hypotheses w). text_field h ''disposition'' ''rejected'') \<and>
     (\<exists>applied required. listed bundle ''controls_applied'' applied \<and>
        listed profile ''required_controls'' required \<and> set required \<subseteq> set applied)"

lemma episode_loop:
  "fold_res (validate_episode statuses) seen es = Inr seen' \<Longrightarrow>
     (\<forall>e \<in> set es. episode_ok statuses e) \<and>
     (\<forall>s \<in> set seen'. s \<in> set seen \<or> (\<exists>e \<in> set es. text_field e ''outcome_class'' s))"
proof (induction es arbitrary: seen)
  case Nil
  then show ?case by simp
next
  case (Cons e es)
  from Cons.prems obtain seen1 where step: "validate_episode statuses seen e = Inr seen1"
    and run: "fold_res (validate_episode statuses) seen1 es = Inr seen'" by (auto simp: bind_res_eq_Inr)
  from validate_episode_ok [OF step] Cons.IH [OF run] show ?case by auto
qed

lemma validate_episodes_ok:
  assumes "validate_episodes profile recs statuses = Inr ids" and "view_of recs w" and "reads_bundle bundle w"
  shows "ids = ids_of ''episode_id'' (bw_episodes w) \<and>
    (\<forall>e \<in> set (bw_episodes w). episode_ok statuses e) \<and>
    (\<exists>required. listed profile ''required_episode_outcomes'' required \<and>
       (\<forall>s \<in> set required. \<exists>e \<in> set (bw_episodes w). text_field e ''outcome_class'' s))"
  using assms(1) unfolding validate_episodes_def
proof (elim bind_resE, goal_cases)
  case (1 es ids' observed required)
  have es: "es = bw_episodes w" using 1(1) assms(2) by (simp add: typed_records_def view_of_def)
  have "ids' = ids_of ''episode_id'' es"
    using 1(2) map_ids [of es "''episode_id''"] assms(3) by (simp add: es reads_bundle_def)
  with episode_loop [OF 1(3)] 1(4-6) show ?case
    by (intro conjI exI [of _ required]) (auto simp: es listed_def covers_def)
qed

lemma validate_hypotheses_ok:
  assumes "validate_hypotheses recs episodes statuses = Inr ids" and "view_of recs w" and "reads_bundle bundle w"
  shows "ids = ids_of ''hypothesis_id'' (bw_hypotheses w) \<and>
    (\<forall>h \<in> set (bw_hypotheses w). hypothesis_ok ids episodes statuses h)"
  using assms(1) unfolding validate_hypotheses_def
proof (elim bind_resE, goal_cases)
  case (1 hs ids')
  have hs: "hs = bw_hypotheses w" using 1(1) assms(2) by (simp add: typed_records_def view_of_def)
  have "ids' = ids_of ''hypothesis_id'' hs"
    using 1(2) map_ids [of hs "''hypothesis_id''"] assms(3) by (simp add: hs reads_bundle_def)
  with 1(3,4) show ?case by (auto simp: hs fold_unit_ok dest!: validate_hypothesis_ok)
qed

lemma validate_interventions_ok:
  assumes "validate_interventions recs hypotheses = Inr ids" and "view_of recs w" and "reads_bundle bundle w"
  shows "ids = ids_of ''intervention_id'' (bw_interventions w) \<and>
    (\<forall>x \<in> set (bw_interventions w). intervention_ok hypotheses x)"
  using assms(1) unfolding validate_interventions_def
proof (elim bind_resE, goal_cases)
  case (1 xs ids')
  have xs: "xs = bw_interventions w" using 1(1) assms(2) by (simp add: typed_records_def view_of_def)
  have "ids' = ids_of ''intervention_id'' xs"
    using 1(2) map_ids [of xs "''intervention_id''"] assms(3) by (simp add: xs reads_bundle_def)
  with 1(3,4) show ?case by (auto simp: xs fold_unit_ok dest!: validate_intervention_ok)
qed

lemma indexed_values: "x \<in> set rs \<longleftrightarrow> (record_id f x, x) \<in> set (indexed f rs)"
  by (auto simp: indexed_def)

lemma validate_attributions_ok:
  assumes "validate_attributions profile recs interventions statuses = Inr d" and "view_of recs w"
    and "reads_bundle bundle w"
  shows "d = indexed ''attribution_id'' (bw_attributions w) \<and>
    (\<exists>credit. listed profile ''credit_classes'' credit \<and>
       (\<forall>a \<in> set (bw_attributions w). attribution_ok interventions credit statuses a))"
  using assms(1) unfolding validate_attributions_def
proof (elim bind_resE, goal_cases)
  case (1 xs credit d')
  have xs: "xs = bw_attributions w" using 1(1) assms(2) by (simp add: typed_records_def view_of_def)
  have d: "d' = indexed ''attribution_id'' xs"
    using 1(3) index_records_ok [of xs "''attribution_id''"] assms(3) by (simp add: xs reads_bundle_def)
  have "attribution_ok interventions credit statuses a" if "a \<in> set xs" for a
    using 1(4) indexed_values [of a xs "''attribution_id''"] that
    by (auto simp: d fold_unit_ok dest!: validate_attribution_ok)
  with 1(2,5) d show ?case by (intro conjI exI [of _ credit]) (auto simp: xs listed_def)
qed

lemma validate_principles_ok:
  assumes "validate_principles recs episodes attributions statuses = Inr d" and "view_of recs w"
    and "reads_bundle bundle w"
  shows "d = indexed ''principle_id'' (bw_principles w) \<and>
    (\<forall>x \<in> set (bw_principles w). principle_ok episodes attributions statuses x)"
  using assms(1) unfolding validate_principles_def
proof (elim bind_resE, goal_cases)
  case (1 xs d')
  have xs: "xs = bw_principles w" using 1(1) assms(2) by (simp add: typed_records_def view_of_def)
  have d: "d' = indexed ''principle_id'' xs"
    using 1(2) index_records_ok [of xs "''principle_id''"] assms(3) by (simp add: xs reads_bundle_def)
  have "principle_ok episodes attributions statuses x" if "x \<in> set xs" for x
    using 1(3) indexed_values [of x xs "''principle_id''"] that
    by (auto simp: d fold_unit_ok dest!: validate_principle_ok)
  with 1(4) d show ?case by (auto simp: xs)
qed

lemma validate_strategies_ok:
  assumes "validate_strategies recs principles statuses = Inr u" and "view_of recs w"
  shows "\<forall>x \<in> set (bw_strategies w). strategy_ok principles statuses x"
  using assms unfolding validate_strategies_def
  by (elim bind_resE) (auto simp: typed_records_def view_of_def fold_unit_ok dest!: validate_strategy_ok)

lemma validate_records_ok:
  assumes "validate_records profile bundle = Inr u"
  shows "\<exists>w. bundle_ok profile bundle w"
  using assms unfolding validate_records_def
proof (elim bind_resE, goal_cases)
  case (1 u1 u2 recs statuses episode_ids hypothesis_ids intervention_ids attributions principles u3 retained u4
      controls required)
  obtain w where w: "view_of recs w" "reads_bundle bundle w"
    using normalized_view [OF normalize_records_ok [OF 1(3)]] by blast
  have "\<exists>h \<in> set (bw_hypotheses w). text_field h ''disposition'' ''rejected''"
  proof -
    have "filter (\<lambda>h. is_text h ''disposition'' ''rejected'') (bw_hypotheses w) \<noteq> []"
      using 1(11,12) w(1) by (auto simp: retains_rejected_def typed_records_def view_of_def bind_res_eq_Inr)
    then show ?thesis by (auto simp: filter_empty_conv is_text_def text_field_def)
  qed
  moreover have "\<exists>applied required. listed bundle ''controls_applied'' applied \<and>
      listed profile ''required_controls'' required \<and> set required \<subseteq> set applied"
    using 1(13-15) by (intro exI [of _ controls] exI [of _ required]) (simp add: listed_def covers_def)
  ultimately show ?case
    using w 1(4) validate_episodes_ok [OF 1(5) w] validate_hypotheses_ok [OF 1(6) w]
      validate_interventions_ok [OF 1(7) w] validate_attributions_ok [OF 1(8) w]
      validate_principles_ok [OF 1(9) w] validate_strategies_ok [OF 1(10) w(1)]
    unfolding bundle_ok_def by blast
qed

section \<open>Negative fixtures\<close>

lemma get_or_null_set [simp]: "get_or_null (dict_set k v d) k' = (if k' = k then v else get_or_null d k')"
  by (simp add: get_or_null_def dict_get_set)

lemma update_key_ok:
  assumes "update_key k f v = Inr v'"
  obtains d x y where "v = JObj d" and "get_or_null d k = x" and "f x = Inr y" and "v' = JObj (dict_set k y d)"
  using assms by (cases v) (auto simp: update_key_def bind_res_eq_Inr)

lemma set_key_ok: "set_key k x v = Inr v' \<longleftrightarrow> (\<exists>d. v = JObj d \<and> v' = JObj (dict_set k x d))"
  by (cases v) (auto simp: set_key_def)

lemma update_first_ok:
  assumes "update_first f v = Inr v'"
  obtains x xs y where "v = JList (x # xs)" and "f x = Inr y" and "v' = JList (y # xs)"
proof -
  from assms obtain xs where xs: "v = JList xs"
    by (cases v) (auto simp: update_first_def split: list.splits)
  with assms that show thesis by (cases xs) (auto simp: update_first_def bind_res_eq_Inr)
qed

text \<open>The first record of a type with one field replaced.\<close>

lemma updated_first:
  assumes "update_key ''records'' (update_key t (update_first (set_key k x))) (JObj b) = Inr b'"
  obtains source r rs where "get_or_null b ''records'' = JObj source"
    and "get_or_null source t = JList (JObj r # rs)"
    and "b' = JObj (dict_set ''records'' (JObj (dict_set t (JList (JObj (dict_set k x r) # rs)) source)) b)"
proof -
  obtain d v y where 1: "JObj b = JObj d" "get_or_null d ''records'' = v"
    "update_key t (update_first (set_key k x)) v = Inr y" "b' = JObj (dict_set ''records'' y d)"
    by (rule update_key_ok [OF assms])
  obtain source v' y' where 2: "v = JObj source" "get_or_null source t = v'"
    "update_first (set_key k x) v' = Inr y'" "y = JObj (dict_set t y' source)"
    by (rule update_key_ok [OF 1(3)])
  obtain r rs r' where 3: "v' = JList (r # rs)" "set_key k x r = Inr r'" "y' = JList (r' # rs)"
    by (rule update_first_ok [OF 2(3)])
  from 3(2) obtain r0 where "r = JObj r0" "r' = JObj (dict_set k x r0)" by (auto simp: set_key_ok)
  with 1 2 3 show thesis by (intro that [of source r0 rs]) simp_all
qed

lemma keep_items_ok:
  assumes "keep_items keep v = Inr v'"
  obtains xs where "v' = JList xs" and "\<forall>item \<in> set xs. \<exists>d. item = JObj d \<and> keep (get_or_null d ''outcome_class'')"
proof (cases v)
  case (JList vs)
  let ?f = "\<lambda>item. case item of JObj d \<Rightarrow> bind_res (obj_at d ''outcome_class'') (\<lambda>x. Inr (item, x))
    | _ \<Rightarrow> Inl (TypeError ''outcome_class'')"
  from assms JList obtain ps where ps: "map_res ?f vs = Inr ps"
    and v': "v' = JList (map fst (filter (\<lambda>(_, x). keep x) ps))"
    unfolding keep_items_def by (simp del: map_res.simps) (elim bind_resE, simp)
  have "\<exists>d. item = JObj d \<and> keep (get_or_null d ''outcome_class'')" if "(item, x) \<in> set ps" "keep x" for item x
  proof -
    from map_res_member' [OF ps that(1)] obtain y where "?f y = Inr (item, x)" by blast
    with that(2) show ?thesis by (cases y) (auto simp: bind_res_eq_Inr)
  qed
  then show thesis by (intro that [OF v']) auto
next
  case (JStr s)
  with assms that [of "[]"] show thesis by (cases s) (auto simp: keep_items_def)
next
  case (JObj d)
  with assms that [of "[]"] show thesis by (cases d) (auto simp: keep_items_def)
qed (use assms in \<open>simp_all add: keep_items_def\<close>)

lemma validate_substrate_ok:
  assumes "validate_substrate p b = Inr u"
  obtains q bd w where "p = JObj q" and "b = JObj bd" and "validate_profile q = Inr ()"
    and "bundle_ok q bd w"
  using assms unfolding validate_substrate_def
  by (elim bind_resE) (auto dest!: validate_records_ok)

lemma validate_profile_parts:
  assumes "validate_profile profile = Inr u"
  shows "check_authority profile = Inr ()" and "check_diagnostics profile = Inr ()"
    and "\<exists>required. listed profile ''required_episode_outcomes'' required \<and> set REQUIRED_OUTCOMES \<subseteq> set required"
proof -
  from assms have *: "check_authority profile = Inr () \<and> check_diagnostics profile = Inr () \<and>
      (\<exists>u. require_listed profile ''required_episode_outcomes'' False REQUIRED_OUTCOMES
        ''required episode outcomes'' = Inr u)"
    unfolding validate_profile_def by (elim bind_resE) simp
  then show "check_authority profile = Inr ()" "check_diagnostics profile = Inr ()" by blast+
  from * show "\<exists>required. listed profile ''required_episode_outcomes'' required \<and> set REQUIRED_OUTCOMES \<subseteq> set required"
    unfolding require_listed_def by (elim conjE exE bind_resE) (auto simp: listed_def covers_def)
qed

lemma authority_false:
  assumes "check_authority profile = Inr u" and "field \<in> set AUTHORITY_FIELDS"
  obtains d where "get_or_null profile ''immutable_authority'' = JObj d" and "is_false d field"
  using assms by (auto simp: check_authority_def bind_res_eq_Inr)

text \<open>All required outcomes are observed.\<close>

lemma outcome_observed:
  assumes "validate_profile profile = Inr u" and "bundle_ok profile bundle w" and "s \<in> set REQUIRED_OUTCOMES"
  shows "\<exists>e \<in> set (bw_episodes w). text_field e ''outcome_class'' s"
proof -
  from validate_profile_parts(3) [OF assms(1)] obtain r where
    r: "listed profile ''required_episode_outcomes'' r" "set REQUIRED_OUTCOMES \<subseteq> set r" by blast
  from assms(2) obtain r' where r': "listed profile ''required_episode_outcomes'' r'"
    "\<forall>s \<in> set r'. \<exists>e \<in> set (bw_episodes w). text_field e ''outcome_class'' s"
    unfolding bundle_ok_def by blast
  have "map JStr r = map JStr r'" using r(1) r'(1) by (simp add: listed_def)
  then have "r = r'" by (simp add: inj_map_eq_map inj_def)
  with r(2) r'(2) assms(3) show ?thesis by blast
qed

section \<open>The chain behind a strategy\<close>

text \<open>A hypothesis recorded in time that cites an episode; an attribution credited with transfer, of
  an intervention on such a hypothesis; a principle supported in transfer by such an attribution; and a
  strategy all of whose principles are such.\<close>

definition hypothesis_grounded :: "bundle_view \<Rightarrow> obj \<Rightarrow> bool" where
  "hypothesis_grounded w h \<longleftrightarrow>
     is_true h ''recorded_before_intervention'' \<and>
     (\<exists>e \<in> set (bw_episodes w). \<exists>es. listed h ''supporting_episode_ids'' es \<and> record_id ''episode_id'' e \<in> set es)"

definition attribution_grounded :: "bundle_view \<Rightarrow> obj \<Rightarrow> bool" where
  "attribution_grounded w a \<longleftrightarrow>
     (\<exists>cs. get_or_null a ''credit_classes'' = JList cs \<and> JStr ''transfer'' \<in> set cs) \<and>
     (\<exists>i \<in> set (bw_interventions w). text_field a ''intervention_id'' (record_id ''intervention_id'' i) \<and>
        (\<exists>h \<in> set (bw_hypotheses w). text_field i ''hypothesis_id'' (record_id ''hypothesis_id'' h) \<and>
           hypothesis_grounded w h))"

definition principle_grounded :: "bundle_view \<Rightarrow> obj \<Rightarrow> bool" where
  "principle_grounded w p \<longleftrightarrow>
     text_field p ''transfer_status'' ''supported'' \<and>
     (\<exists>a \<in> set (bw_attributions w). \<exists>as. listed p ''supporting_attribution_ids'' as \<and>
        record_id ''attribution_id'' a \<in> set as \<and> attribution_grounded w a)"

definition strategy_grounded :: "bundle_view \<Rightarrow> obj \<Rightarrow> bool" where
  "strategy_grounded w x \<longleftrightarrow>
     (\<exists>ks. listed x ''principle_ids'' ks \<and> ks \<noteq> [] \<and>
        (\<forall>k \<in> set ks. \<exists>p \<in> set (bw_principles w). record_id ''principle_id'' p = k \<and> principle_grounded w p))"

lemma id_member: "k \<in> set (ids_of f rs) \<Longrightarrow> \<exists>r \<in> set rs. record_id f r = k"
  by auto

lemma hypothesis_chain:
  assumes "hypothesis_ok hs (ids_of ''episode_id'' (bw_episodes w)) statuses h"
  shows "hypothesis_grounded w h"
proof -
  from assms obtain es where es: "listed h ''supporting_episode_ids'' es" "es \<noteq> []"
    "set es \<subseteq> set (ids_of ''episode_id'' (bw_episodes w))"
    unfolding hypothesis_ok_def by blast
  then have "hd es \<in> set es" by simp
  with es(3) obtain e where "e \<in> set (bw_episodes w)" "record_id ''episode_id'' e = hd es"
    using id_member by blast
  with es(1) \<open>hd es \<in> set es\<close> assms show ?thesis
    unfolding hypothesis_grounded_def hypothesis_ok_def by metis
qed

lemma strategy_chain:
  assumes "bundle_ok profile bundle w" and "x \<in> set (bw_strategies w)"
    and "text_field x ''reuse_status'' ''supported''"
  shows "strategy_grounded w x"
proof -
  from assms(1) obtain statuses credit where
    hypotheses: "\<forall>h \<in> set (bw_hypotheses w). hypothesis_ok (ids_of ''hypothesis_id'' (bw_hypotheses w))
           (ids_of ''episode_id'' (bw_episodes w)) statuses h"
    and interventions: "\<forall>x \<in> set (bw_interventions w). intervention_ok (ids_of ''hypothesis_id'' (bw_hypotheses w)) x"
    and attributions: "\<forall>a \<in> set (bw_attributions w). attribution_ok
           (ids_of ''intervention_id'' (bw_interventions w)) credit statuses a"
    and principles: "\<forall>x \<in> set (bw_principles w). principle_ok (ids_of ''episode_id'' (bw_episodes w))
           (indexed ''attribution_id'' (bw_attributions w)) statuses x"
    and strategies: "\<forall>x \<in> set (bw_strategies w). strategy_ok (indexed ''principle_id'' (bw_principles w)) statuses x"
    unfolding bundle_ok_def by blast
  have intervention: "\<exists>h \<in> set (bw_hypotheses w). text_field i ''hypothesis_id'' (record_id ''hypothesis_id'' h) \<and>
      hypothesis_grounded w h" if "i \<in> set (bw_interventions w)" for i
    using interventions that id_member hypotheses hypothesis_chain unfolding intervention_ok_def by metis
  have attribution: "\<exists>i \<in> set (bw_interventions w). text_field a ''intervention_id'' (record_id ''intervention_id'' i)"
    if "a \<in> set (bw_attributions w)" for a
    using attributions that id_member unfolding attribution_ok_def by metis
  have principle: "principle_grounded w p"
    if p: "p \<in> set (bw_principles w)" "text_field p ''transfer_status'' ''supported''" for p
  proof -
    from principles p obtain as k a where as: "listed p ''supporting_attribution_ids'' as" "k \<in> set as"
      "dict_get (indexed ''attribution_id'' (bw_attributions w)) k = Some a"
      "\<exists>cs. get_or_null a ''credit_classes'' = JList cs \<and> JStr ''transfer'' \<in> set cs"
      unfolding principle_ok_def by blast
    from indexed_get [OF as(3)] have a: "a \<in> set (bw_attributions w)" "record_id ''attribution_id'' a = k" by simp_all
    from attribution [OF a(1)] intervention as(4) have "attribution_grounded w a"
      unfolding attribution_grounded_def by blast
    with as(1,2) a p(2) show ?thesis unfolding principle_grounded_def by blast
  qed
  from strategies assms(2,3) obtain ks where ks: "listed x ''principle_ids'' ks" "ks \<noteq> []"
    "\<forall>k \<in> set ks. \<exists>p. dict_get (indexed ''principle_id'' (bw_principles w)) k = Some p \<and>
       text_field p ''transfer_status'' ''supported''"
    unfolding strategy_ok_def by blast
  have "\<exists>p \<in> set (bw_principles w). record_id ''principle_id'' p = k \<and> principle_grounded w p" if "k \<in> set ks" for k
    using ks(3) that indexed_get principle by blast
  with ks(1,2) show ?thesis unfolding strategy_grounded_def by blast
qed

section \<open>The mutations\<close>

text \<open>A strategy released for reuse binds the first principle of the bundle.\<close>

definition binds_first_principle :: "obj \<Rightarrow> bool" where
  "binds_first_principle b \<longleftrightarrow>
     (case get_or_null b ''records'' of
        JObj source \<Rightarrow>
          (case (get_or_null source ''learned_principle'', get_or_null source ''strategy_record'') of
             (JList (JObj p # _), JList xs) \<Rightarrow>
               list_ex (\<lambda>v. case v of
                 JObj x \<Rightarrow> is_text x ''reuse_status'' ''supported'' \<and>
                   (case get_or_null x ''principle_ids'' of
                      JList ks \<Rightarrow> get_or_null p ''principle_id'' \<in> set ks | _ \<Rightarrow> False)
               | _ \<Rightarrow> False) xs
           | _ \<Rightarrow> False)
      | _ \<Rightarrow> False)"

lemma updated_profile:
  assumes "update_key t (set_key k x) (JObj p) = Inr p'"
  obtains d where "p' = JObj (dict_set t (JObj (dict_set k x d)) p)"
proof (rule update_key_ok [OF assms])
  fix d0 v y
  assume "JObj p = JObj d0" "set_key k x v = Inr y" "p' = JObj (dict_set t y d0)"
  then show thesis using that by (auto simp: set_key_ok)
qed

lemma updated_episodes:
  assumes "update_key ''records'' (update_key t (keep_items keep)) (JObj b) = Inr b'"
  obtains source xs where "b' = JObj (dict_set ''records'' (JObj (dict_set t (JList xs) source)) b)"
    and "\<forall>item \<in> set xs. \<exists>d. item = JObj d \<and> keep (get_or_null d ''outcome_class'')"
proof -
  obtain d v y where 1: "JObj b = JObj d" "get_or_null d ''records'' = v"
    "update_key t (keep_items keep) v = Inr y" "b' = JObj (dict_set ''records'' y d)"
    by (rule update_key_ok [OF assms])
  obtain source v' y' where 2: "v = JObj source" "get_or_null source t = v'"
    "keep_items keep v' = Inr y'" "y = JObj (dict_set t y' source)"
    by (rule update_key_ok [OF 1(3)])
  obtain xs where "y' = JList xs" "\<forall>item \<in> set xs. \<exists>d. item = JObj d \<and> keep (get_or_null d ''outcome_class'')"
    by (rule keep_items_ok [OF 2(3)])
  with 1 2 show thesis by (intro that) simp_all
qed

lemma not_false: "\<not> is_false (dict_set k (JBool True) d) k"
  by (simp add: is_false_def)

text \<open>Widened authority and weakened diagnostics.\<close>

lemma profile_mutation_rejected:
  assumes "mutated_profile mutation = Some f" and "f (JObj profile) = Inr p"
  shows "validate_substrate p b \<noteq> Inr ()"
proof
  assume "validate_substrate p b = Inr ()"
  then obtain q bd w where q: "p = JObj q" "validate_profile q = Inr ()" by (rule validate_substrate_ok)
  note parts = validate_profile_parts [OF q(2)]
  have authority: False
    if "update_key ''immutable_authority'' (set_key k (JBool True)) (JObj profile) = Inr p" and k: "k \<in> set AUTHORITY_FIELDS" for k
  proof (rule updated_profile [OF that(1)])
    fix d
    assume p: "p = JObj (dict_set ''immutable_authority'' (JObj (dict_set k (JBool True) d)) profile)"
    obtain e where e: "get_or_null q ''immutable_authority'' = JObj e" "is_false e k"
      by (rule authority_false [OF parts(1) k])
    have "q = dict_set ''immutable_authority'' (JObj (dict_set k (JBool True) d)) profile" using q(1) p by simp
    with e(1) have "e = dict_set k (JBool True) d" by simp
    with e(2) show False by (simp add: is_false_def)
  qed
  have diagnostics: False
    if "update_key ''diagnostic_requirements''
      (set_key ''aggregate_score_alone_may_support_causal_claim'' (JBool True)) (JObj profile) = Inr p"
  proof (rule updated_profile [OF that])
    fix d
    assume p: "p = JObj (dict_set ''diagnostic_requirements''
      (JObj (dict_set ''aggregate_score_alone_may_support_causal_claim'' (JBool True) d)) profile)"
    from parts(2) have "\<exists>d. get_or_null q ''diagnostic_requirements'' = JObj d \<and>
        is_false d ''aggregate_score_alone_may_support_causal_claim''"
      unfolding check_diagnostics_def by (elim bind_resE) simp
    then show False using q(1) p not_false by auto
  qed
  from assms(1) consider
      "f = update_key ''immutable_authority'' (set_key ''experience_system_may_modify_evaluator'' (JBool True))"
    | "f = update_key ''diagnostic_requirements'' (set_key ''aggregate_score_alone_may_support_causal_claim'' (JBool True))"
    | "f = update_key ''immutable_authority''
        (set_key ''experience_system_may_access_future_final_before_freeze'' (JBool True))"
    unfolding mutated_profile_def by (auto split: if_splits)
  then show False
  proof cases
    case 1
    have "''experience_system_may_modify_evaluator'' \<in> set AUTHORITY_FIELDS"
      by (simp add: AUTHORITY_FIELDS_def)
    with authority assms(2) [unfolded 1] show False by blast
  next
    case 2
    from diagnostics assms(2) [unfolded 2] show False by blast
  next
    case 3
    have "''experience_system_may_access_future_final_before_freeze'' \<in> set AUTHORITY_FIELDS"
      by (simp add: AUTHORITY_FIELDS_def)
    with authority assms(2) [unfolded 3] show False by blast
  qed
qed

text \<open>Rewritten first records.\<close>

lemma first_mutation:
  assumes "update_key ''records'' (update_key t (update_first (set_key k x))) (JObj bundle) = Inr (JObj bd)"
  obtains source r rs where "get_or_null bundle ''records'' = JObj source"
    and "get_or_null source t = JList (JObj r # rs)"
    and "get_or_null bd ''records'' = JObj (dict_set t (JList (JObj (dict_set k x r) # rs)) source)"
proof (rule updated_first [OF assms])
  fix source r rs
  assume "get_or_null bundle ''records'' = JObj source" "get_or_null source t = JList (JObj r # rs)"
    "JObj bd = JObj (dict_set ''records'' (JObj (dict_set t (JList (JObj (dict_set k x r) # rs)) source)) bundle)"
  then show thesis by (intro that) simp_all
qed

text \<open>The rewritten record is among the records of that type.\<close>

lemma first_record:
  assumes "update_key ''records'' (update_key t (update_first (set_key k x))) (JObj bundle) = Inr (JObj bd)"
    and "get_or_null bd ''records'' = JObj source" and "get_or_null source t = JList (map JObj rs)"
  obtains r where "get_or_null r k = x" and "r \<in> set rs"
proof (rule first_mutation [OF assms(1)])
  fix source' r rs'
  assume "get_or_null bd ''records'' = JObj (dict_set t (JList (JObj (dict_set k x r) # rs')) source')"
  with assms(2) have "source = dict_set t (JList (JObj (dict_set k x r) # rs')) source'" by simp
  with assms(3) have "map JObj rs = JObj (dict_set k x r) # rs'" by (metis get_or_null_set json.inject(5))
  then have "dict_set k x r \<in> set rs" by (cases rs) auto
  then show thesis by (intro that [of "dict_set k x r"]) simp_all
qed

lemma episode_mutation_rejected:
  assumes "update_key ''records'' (update_key ''experience_episode'' (keep_items keep)) (JObj bundle) = Inr (JObj bd)"
    and "validate_profile q = Inr ()" and "bundle_ok q bd w"
    and "s \<in> set REQUIRED_OUTCOMES" and "\<not> keep (JStr s)"
  shows False
proof (rule updated_episodes [OF assms(1)])
  fix source xs
  assume bd: "JObj bd = JObj (dict_set ''records'' (JObj (dict_set ''experience_episode'' (JList xs) source)) bundle)"
    and kept: "\<forall>item \<in> set xs. \<exists>d. item = JObj d \<and> keep (get_or_null d ''outcome_class'')"
  from assms(3) bd have "xs = map JObj (bw_episodes w)"
    unfolding bundle_ok_def reads_bundle_def by auto
  with outcome_observed [OF assms(2-4)] kept assms(5) show False
    by (auto simp: text_field_def)
qed

lemma bundle_mutation_rejected:
  assumes "mutated_bundle mutation = Some g" and "g (JObj bundle) = Inr b"
    and "mutation \<noteq> ''global-reuse-without-transfer''"
  shows "validate_substrate p b \<noteq> Inr ()"
proof
  assume "validate_substrate p b = Inr ()"
  then obtain q bd w where b: "b = JObj bd" and q: "validate_profile q = Inr ()" and ok: "bundle_ok q bd w"
    by (rule validate_substrate_ok)
  from ok obtain source where source: "get_or_null bd ''records'' = JObj source"
    "get_or_null source ''causal_hypothesis'' = JList (map JObj (bw_hypotheses w))"
    "get_or_null source ''learned_principle'' = JList (map JObj (bw_principles w))"
    "get_or_null source ''strategy_record'' = JList (map JObj (bw_strategies w))"
    "get_or_null source ''causal_attribution'' = JList (map JObj (bw_attributions w))"
    unfolding bundle_ok_def reads_bundle_def by (elim conjE exE) (rule that)
  have records: "\<forall>h \<in> set (bw_hypotheses w). is_true h ''recorded_before_intervention''"
    "\<forall>x \<in> set (bw_principles w). get_or_null x ''supporting_attribution_ids'' \<noteq> JList []"
    "\<forall>x \<in> set (bw_strategies w). get_or_null x ''known_failure_modes'' \<noteq> JList []"
    "\<forall>a \<in> set (bw_attributions w). get_or_null a ''credit_classes'' \<noteq> JList []"
    using ok unfolding bundle_ok_def hypothesis_ok_def principle_ok_def strategy_ok_def attribution_ok_def
    by (fastforce simp: listed_def)+
  note g = assms(2) [unfolded b]
  have a: False if "g = update_key ''records'' (update_key ''causal_hypothesis''
        (update_first (set_key ''recorded_before_intervention'' (JBool False))))"
    by (rule first_record [OF g [unfolded that] source(1,2)]) (use records(1) in \<open>auto simp: is_true_def\<close>)
  have c: False if "g = update_key ''records'' (update_key ''learned_principle''
        (update_first (set_key ''supporting_attribution_ids'' (JList []))))"
    by (rule first_record [OF g [unfolded that] source(1,3)]) (use records(2) in auto)
  have d: False if "g = update_key ''records'' (update_key ''strategy_record''
        (update_first (set_key ''known_failure_modes'' (JList []))))"
    by (rule first_record [OF g [unfolded that] source(1,4)]) (use records(3) in auto)
  have e: False if "g = update_key ''records'' (update_key ''causal_attribution''
        (update_first (set_key ''credit_classes'' (JList []))))"
    by (rule first_record [OF g [unfolded that] source(1,5)]) (use records(4) in auto)
  have f: False if "g = update_key ''records'' (update_key ''experience_episode'' (keep_items (\<lambda>x. x = JStr ''error'')))"
    using episode_mutation_rejected [OF g [unfolded that] q ok, of "''success''"] by (simp add: REQUIRED_OUTCOMES_def)
  have h: False if "g = update_key ''records'' (update_key ''experience_episode'' (keep_items (\<lambda>x. x \<noteq> JStr ''error'')))"
    using episode_mutation_rejected [OF g [unfolded that] q ok, of "''error''"] by (simp add: REQUIRED_OUTCOMES_def)
  show False
    using assms(1,3) a c d e f h unfolding mutated_bundle_def by (simp split: if_splits)
qed

text \<open>The demoted principle.\<close>

lemma demotion_rejected:
  assumes "update_key ''records'' (update_key ''learned_principle''
      (update_first (set_key ''transfer_status'' (JStr ''untested'')))) (JObj bundle) = Inr b"
    and "binds_first_principle bundle"
  shows "validate_substrate p b \<noteq> Inr ()"
proof
  assume "validate_substrate p b = Inr ()"
  then obtain q bd w where b: "b = JObj bd" and ok: "bundle_ok q bd w" by (rule validate_substrate_ok)
  obtain source r rs where old: "get_or_null bundle ''records'' = JObj source"
    "get_or_null source ''learned_principle'' = JList (JObj r # rs)"
    and new: "get_or_null bd ''records'' = JObj (dict_set ''learned_principle''
      (JList (JObj (dict_set ''transfer_status'' (JStr ''untested'') r) # rs)) source)"
    by (rule first_mutation [OF assms(1) [unfolded b]])
  let ?r = "dict_set ''transfer_status'' (JStr ''untested'') r"
  from ok new have principles: "map JObj (bw_principles w) = JObj ?r # rs"
    and strategies: "get_or_null source ''strategy_record'' = JList (map JObj (bw_strategies w))"
    unfolding bundle_ok_def reads_bundle_def by auto
  from assms(2) obtain x ks where x: "x \<in> set (bw_strategies w)" "is_text x ''reuse_status'' ''supported''"
    and ks: "get_or_null x ''principle_ids'' = JList ks" "get_or_null r ''principle_id'' \<in> set ks"
  proof -
    from assms(2) obtain x where "x \<in> set (bw_strategies w)" "is_text x ''reuse_status'' ''supported''"
      "case get_or_null x ''principle_ids'' of JList ks \<Rightarrow> get_or_null r ''principle_id'' \<in> set ks | _ \<Rightarrow> False"
      unfolding binds_first_principle_def by (auto simp: old strategies list_ex_iff)
    then show thesis by (cases "get_or_null x ''principle_ids''") (auto intro: that)
  qed
  have "?r \<in> set (bw_principles w)" using principles by (cases "bw_principles w") auto
  then have id: "has_id ''principle_id'' ?r" and distinct: "distinct (ids_of ''principle_id'' (bw_principles w))"
    using ok unfolding bundle_ok_def reads_bundle_def by auto
  from ok x obtain ks' where ks': "listed x ''principle_ids'' ks'"
    "\<forall>k \<in> set ks'. \<exists>p. dict_get (indexed ''principle_id'' (bw_principles w)) k = Some p \<and>
       text_field p ''transfer_status'' ''supported''"
    unfolding bundle_ok_def strategy_ok_def is_text_def text_field_def by blast
  have "record_id ''principle_id'' ?r \<in> set ks'"
    using ks ks'(1) id by (auto simp: listed_def has_id_def text_field_def)
  with ks'(2) obtain p' where "dict_get (indexed ''principle_id'' (bw_principles w)) (record_id ''principle_id'' ?r) = Some p'"
    and supported: "text_field p' ''transfer_status'' ''supported''" by blast
  from indexed_get [OF this(1)] \<open>?r \<in> set (bw_principles w)\<close> distinct have "p' = ?r"
    by (auto simp: distinct_map inj_on_def)
  with supported show False by (simp add: text_field_def)
qed

lemma mutations_rejected:
  assumes "mutated_fixture profile bundle mutation = Inr (p, b)"
    and "mutation = ''global-reuse-without-transfer'' \<longrightarrow> binds_first_principle bundle"
  shows "validate_substrate p b \<noteq> Inr ()"
proof (cases "mutated_profile mutation")
  case (Some f)
  with assms(1) have "f (JObj profile) = Inr p" by (auto simp: mutated_fixture_def bind_res_eq_Inr)
  with Some show ?thesis by (rule profile_mutation_rejected)
next
  case None
  with assms(1) obtain g where g: "mutated_bundle mutation = Some g" "g (JObj bundle) = Inr b"
    by (auto simp: mutated_fixture_def bind_res_eq_Inr split: option.splits)
  show ?thesis
  proof (cases "mutation = ''global-reuse-without-transfer''")
    case True
    with g have "update_key ''records'' (update_key ''learned_principle''
      (update_first (set_key ''transfer_status'' (JStr ''untested'')))) (JObj bundle) = Inr b"
      by (simp add: mutated_bundle_def)
    with True assms(2) show ?thesis by (intro demotion_rejected) simp_all
  next
    case False
    with g show ?thesis by (intro bundle_mutation_rejected)
  qed
qed

end
