(* ===== verification/ExperienceProperties.thy ===== *)
theory ExperienceProperties
  imports ExperienceProofs
begin

text \<open>
  The properties of the experience validator, with the committed
  \<^verbatim>\<open>architecture-profile.json\<close> and \<^verbatim>\<open>reference-records.json\<close> as their witness.
\<close>

section \<open>The committed documents\<close>

definition architecture_profile :: obj where
  "architecture_profile =
    [(''schema'', JStr ''mncs-recursive-experience-substrate/0.1''),
     (''profile_id'', JStr ''ravel-recursive-experience-substrate-v1''),
     (''status'', JStr ''design-only''),
     (''relationship'', JObj [(''phase'', JStr ''post-ravel-0.6''),
             (''extends_recursive_architecture_study'', JBool True),
             (''changes_existing_preregistration'', JBool False),
             (''may_modify_frozen_ravel_0_4_or_0_5'', JBool False),
             (''may_modify_ravel_0_6_preregistration_or_final_material'', JBool False)]),
     (''immutable_authority'', JObj [(''experience_system_may_modify_evaluator'', JBool False),
             (''experience_system_may_modify_thresholds'', JBool False),
             (''experience_system_may_modify_partitions'', JBool False),
             (''experience_system_may_modify_resource_policy'', JBool False),
             (''experience_system_may_access_future_final_before_freeze'', JBool False),
             (''experience_system_may_authorize_promotion'', JBool False),
             (''experience_system_may_delete_failed_or_rejected_records'', JBool False)]),
     (''memory_classes'', JList (map JStr [''episodic'', ''causal'', ''semantic'', ''procedural'', ''negative''])),
     (''record_vocabulary'', JObj [(''experience_episode'', JList (map JStr [''episode_id'', ''candidate_identity'', ''context_identity'', ''observation_identity'',
                  ''outcome_class'', ''route'', ''prediction'', ''actual'', ''resource_cost'',
                  ''observed_anomalies''])),
             (''causal_hypothesis'', JList (map JStr [''hypothesis_id'', ''statement'', ''supporting_episode_ids'',
                  ''competing_hypothesis_ids'', ''required_probe_ids'', ''falsifier'',
                  ''recorded_before_intervention'', ''disposition''])),
             (''intervention_record'', JList (map JStr [''intervention_id'', ''hypothesis_id'', ''parent_candidate_identity'',
                  ''child_candidate_identity'', ''operation'', ''affected_surfaces'',
                  ''predicted_effects'', ''resource_budget'', ''rollback_target''])),
             (''causal_attribution'', JList (map JStr [''attribution_id'', ''intervention_id'', ''actual_effects'',
                  ''hypothesis_disposition'', ''alternative_explanations_remaining'', ''credit_classes'',
                  ''evaluator_identity''])),
             (''learned_principle'', JList (map JStr [''principle_id'', ''statement'', ''scope'', ''supporting_attribution_ids'',
                  ''counterexample_episode_ids'', ''maturity'', ''transfer_status'', ''falsifier''])),
             (''strategy_record'', JList (map JStr [''strategy_id'', ''principle_ids'', ''trigger'', ''recommended_intervention'',
                  ''preconditions'', ''known_failure_modes'', ''applicability_scope'', ''reuse_status'']))]),
     (''allowed_statuses'', JObj [(''episode_outcome_class'', JList (map JStr [''success'', ''error'', ''neutral'', ''abstention''])),
             (''hypothesis_disposition'', JList (map JStr [''open'', ''supported'', ''challenged'', ''rejected'', ''inconclusive''])),
             (''principle_maturity'', JList (map JStr [''provisional'', ''supported'', ''challenged'', ''rejected'', ''retired''])),
             (''transfer_status'', JList (map JStr [''untested'', ''failed'', ''partial'', ''supported''])),
             (''strategy_reuse_status'', JList (map JStr [''untested'', ''restricted'', ''supported'', ''retired'']))]),
     (''required_episode_outcomes'', JList (map JStr [''success'', ''error'', ''neutral'', ''abstention''])),
     (''credit_classes'', JList (map JStr [''immediate'', ''enabling'', ''delayed-descendant'', ''transfer'', ''retention'',
          ''negative-downstream''])),
     (''diagnostic_requirements'', JObj [(''structured_probe_identity_required'', JBool True),
             (''counterfactual_or_control_required_for_supported_causal_claim'', JBool True),
             (''aggregate_score_alone_may_support_causal_claim'', JBool False),
             (''provider_or_verifier_status_may_be_redefined'', JBool False),
             (''hidden_reasoning_transcript_required'', JBool False)]),
     (''reuse_rules'', JObj [(''principle_must_bind_supporting_attributions'', JBool True),
             (''strategy_must_bind_principles'', JBool True),
             (''untested_transfer_may_authorize_global_reuse'', JBool False),
             (''failed_and_rejected_experience_must_remain_retrievable'', JBool True),
             (''reuse_must_bind_context_and_candidate_lineage'', JBool True)]),
     (''required_controls'', JList (map JStr [''shuffled-attribution-control'', ''success-memory-ablation'',
          ''negative-memory-ablation'', ''transfer-holdout'', ''aggregate-only-feedback-control''])),
     (''hard_gates'', JList (map JStr [''immutable-evaluator-authority'',
          ''immutable-threshold-partition-and-resource-authority'',
          ''append-only-experience-lineage'', ''hypotheses-recorded-before-intervention'',
          ''predictions-recorded-before-evaluation'', ''all-outcome-classes-retained'',
          ''supported-causal-claims-bind-controls-or-counterfactuals'',
          ''principles-bind-attributions-and-falsifiers'',
          ''strategies-bind-principles-and-known-failure-modes'',
          ''global-reuse-requires-transfer-support'',
          ''future-final-material-unavailable-before-freeze''])),
     (''required_negative_tests'', JList (map JStr [''evaluator-authority-expansion'', ''error-only-memory'', ''deleted-failure-memory'',
          ''post-hoc-hypothesis'', ''unsupported-principle'', ''strategy-without-failure-modes'',
          ''global-reuse-without-transfer'', ''attribution-without-credit-class'',
          ''aggregate-only-causal-promotion'', ''future-final-early-access''])),
     (''claim_boundary'', JObj [(''formal_mncs_status'', JStr ''UNKNOWN''),
             (''formal_mncds_status'', JStr ''UNKNOWN''),
             (''causal_validity_outside_declared_tasks'', JStr ''UNKNOWN''),
             (''general_recursive_self_improvement'', JStr ''UNKNOWN''),
             (''independent_evaluation'', JStr ''UNKNOWN''),
             (''protected_custody'', JStr ''UNKNOWN''),
             (''promotion_authorized'', JBool False)])]"

text \<open>The committed records, up to the numbers of the measured effects.\<close>

definition records_with :: "pyfloat \<Rightarrow> pyfloat \<Rightarrow> pyfloat \<Rightarrow> pyfloat \<Rightarrow> obj" where
  "records_with a b c d =
    [(''schema'', JStr ''mncs-recursive-experience-records/0.1''),
     (''profile_id'', JStr ''ravel-recursive-experience-substrate-v1''),
     (''record_bundle_id'', JStr ''recursive-experience-reference-v1''),
     (''records'', JObj [(''experience_episode'', JList [JObj [(''episode_id'', JStr ''episode:transition-divergence-error''),
                            (''candidate_identity'', JStr ''candidate:ravel-experience-parent''),
                            (''context_identity'', JStr ''context:partial-observation-development''),
                            (''observation_identity'', JStr ''observation:state-alias-17''),
                            (''outcome_class'', JStr ''error''),
                            (''route'', JList (map JStr [''expert:observation-equivalent-a''])),
                            (''prediction'', JStr ''action:left''),
                            (''actual'', JStr ''action:right''),
                            (''resource_cost'', JInt 18),
                            (''observed_anomalies'', JList (map JStr [''representation-match-with-transition-divergence'']))],
                      JObj [(''episode_id'', JStr ''episode:transition-aware-success''),
                            (''candidate_identity'', JStr ''candidate:ravel-experience-child''),
                            (''context_identity'', JStr ''context:partial-observation-development''),
                            (''observation_identity'', JStr ''observation:state-alias-17''),
                            (''outcome_class'', JStr ''success''),
                            (''route'', JList (map JStr [''expert:transition-aware-b''])),
                            (''prediction'', JStr ''action:right''),
                            (''actual'', JStr ''action:right''),
                            (''resource_cost'', JInt 21),
                            (''observed_anomalies'', JList [])],
                      JObj [(''episode_id'', JStr ''episode:unaffected-base-neutral''),
                            (''candidate_identity'', JStr ''candidate:ravel-experience-child''),
                            (''context_identity'', JStr ''context:base-retention''),
                            (''observation_identity'', JStr ''observation:base-04''),
                            (''outcome_class'', JStr ''neutral''),
                            (''route'', JList (map JStr [''expert:base-anchor''])),
                            (''prediction'', JStr ''action:stay''),
                            (''actual'', JStr ''action:stay''),
                            (''resource_cost'', JInt 20),
                            (''observed_anomalies'', JList (map JStr [''no-material-change'']))],
                      JObj [(''episode_id'', JStr ''episode:sparse-support-abstention''),
                            (''candidate_identity'', JStr ''candidate:ravel-experience-child''),
                            (''context_identity'', JStr ''context:sparse-transition-support''),
                            (''observation_identity'', JStr ''observation:sparse-09''),
                            (''outcome_class'', JStr ''abstention''),
                            (''route'', JList []),
                            (''prediction'', JStr ''UNKNOWN''),
                            (''actual'', JStr ''evidence-insufficient''),
                            (''resource_cost'', JInt 7),
                            (''observed_anomalies'', JList (map JStr [''transition-support-incomplete'']))]]),
             (''causal_hypothesis'', JList [JObj [(''hypothesis_id'', JStr ''hypothesis:routing-equivalence-defect''),
                            (''statement'', JStr ''Observation-equivalent states were routed together despite divergent supported transitions.''),
                            (''supporting_episode_ids'', JList (map JStr [''episode:transition-divergence-error''])),
                            (''competing_hypothesis_ids'', JList (map JStr [''hypothesis:capacity-insufficient''])),
                            (''required_probe_ids'', JList (map JStr [''probe:transition-aware-counterfactual'', ''probe:fixed-capacity-routing-control''])),
                            (''falsifier'', JStr ''The error persists when routing uses transition support while expert capacity is held fixed.''),
                            (''recorded_before_intervention'', JBool True),
                            (''disposition'', JStr ''supported'')],
                      JObj [(''hypothesis_id'', JStr ''hypothesis:capacity-insufficient''),
                            (''statement'', JStr ''The error was caused only by insufficient expert capacity.''),
                            (''supporting_episode_ids'', JList (map JStr [''episode:transition-divergence-error''])),
                            (''competing_hypothesis_ids'', JList (map JStr [''hypothesis:routing-equivalence-defect''])),
                            (''required_probe_ids'', JList (map JStr [''probe:fixed-capacity-routing-control''])),
                            (''falsifier'', JStr ''The error is removed without adding expert capacity.''),
                            (''recorded_before_intervention'', JBool True),
                            (''disposition'', JStr ''rejected'')]]),
             (''intervention_record'', JList [JObj [(''intervention_id'', JStr ''intervention:transition-aware-routing''),
                            (''hypothesis_id'', JStr ''hypothesis:routing-equivalence-defect''),
                            (''parent_candidate_identity'', JStr ''candidate:ravel-experience-parent''),
                            (''child_candidate_identity'', JStr ''candidate:ravel-experience-child''),
                            (''operation'', JStr ''replace-routing-equivalence-policy''),
                            (''affected_surfaces'', JList (map JStr [''router'', ''transition-index''])),
                            (''predicted_effects'', JObj [(''transition_accuracy'', JStr ''increase''),
                                    (''base_accuracy'', JStr ''invariant''),
                                    (''routing_cost'', JStr ''increase-within-bound'')]),
                            (''resource_budget'', JObj [(''max_additional_operations'', JInt 8),
                                    (''max_additional_experts'', JInt 0)]),
                            (''rollback_target'', JStr ''candidate:ravel-experience-parent'')]]),
             (''causal_attribution'', JList [JObj [(''attribution_id'', JStr ''attribution:transition-aware-routing''),
                            (''intervention_id'', JStr ''intervention:transition-aware-routing''),
                            (''actual_effects'', JObj [(''transition_accuracy_delta'', JFloat a),
                                    (''base_accuracy_delta'', JFloat b),
                                    (''routing_cost_delta'', JFloat c),
                                    (''transfer_accuracy_delta'', JFloat d)]),
                            (''hypothesis_disposition'', JStr ''supported''),
                            (''alternative_explanations_remaining'', JList []),
                            (''credit_classes'', JList (map JStr [''immediate'', ''transfer'', ''retention''])),
                            (''evaluator_identity'', JStr ''evaluator:recursive-experience-reference-v1'')]]),
             (''learned_principle'', JList [JObj [(''principle_id'', JStr ''principle:transition-aware-routing-identity''),
                            (''statement'', JStr ''Observation-equivalent states must not share routing identity when their supported transition distributions diverge.''),
                            (''scope'', JObj [(''mechanisms'', JList (map JStr [''routing'', ''transition-memory''])),
                                    (''contexts'', JList (map JStr [''partial-observation'', ''representation-drift'']))]),
                            (''supporting_attribution_ids'', JList (map JStr [''attribution:transition-aware-routing''])),
                            (''counterexample_episode_ids'', JList (map JStr [''episode:sparse-support-abstention''])),
                            (''maturity'', JStr ''supported''),
                            (''transfer_status'', JStr ''supported''),
                            (''falsifier'', JStr ''A held-out context with complete transition support performs no better under transition-aware routing.'')]]),
             (''strategy_record'', JList [JObj [(''strategy_id'', JStr ''strategy:split-routing-equivalence-class''),
                            (''principle_ids'', JList (map JStr [''principle:transition-aware-routing-identity''])),
                            (''trigger'', JStr ''representation-similarity-with-transition-divergence''),
                            (''recommended_intervention'', JStr ''split-routing-equivalence-class''),
                            (''preconditions'', JList (map JStr [''transition-support-complete'', ''routing-cost-budget-available''])),
                            (''known_failure_modes'', JList (map JStr [''sparse-transition-evidence'', ''temporary-environment-drift''])),
                            (''applicability_scope'', JObj [(''mechanisms'', JList (map JStr [''routing''])),
                                    (''contexts'', JList (map JStr [''partial-observation'']))]),
                            (''reuse_status'', JStr ''supported'')]])]),
     (''controls_applied'', JList (map JStr [''shuffled-attribution-control'', ''success-memory-ablation'',
          ''negative-memory-ablation'', ''transfer-holdout'', ''aggregate-only-feedback-control'']))]"

definition reference_records :: obj where
  "reference_records = records_with (fl (7 / 50)) (Fin 0) (fl (3 / 100)) (fl (9 / 100))"

lemma reference_profile_valid: "validate_profile architecture_profile = Inr ()"
  by code_simp

lemma reference_records_valid: "validate_records architecture_profile (records_with a b c d) = Inr ()"
  by code_simp

lemma reference_substrate_valid:
  "validate_substrate (JObj architecture_profile) (JObj reference_records) = Inr ()"
  using reference_profile_valid reference_records_valid
  by (simp add: validate_substrate_def as_object_def reference_records_def)

section \<open>Accepted records\<close>

text \<open>
  C37: the records of an accepted bundle have pairwise different identities, over all types; every
  reference of a hypothesis, an intervention, an attribution, a principle or a strategy resolves to a
  record of the right type; hypotheses were recorded before the intervention and have a falsifier and
  a competitor; an intervention replaces its parent by a different child and rolls back to it; every
  required outcome is remembered and a rejected hypothesis retained.
\<close>

theorem experience_records_resolve:
  assumes "validate_records profile bundle = Inr ()"
  shows "\<exists>w. bundle_ok profile bundle w"
  by (rule validate_records_ok [OF assms])

theorem experience_records_resolve_witness:
  "\<exists>w. bundle_ok architecture_profile reference_records w"
proof -
  have "validate_records architecture_profile reference_records = Inr ()"
    unfolding reference_records_def by (rule reference_records_valid)
  from experience_records_resolve [OF this] show ?thesis .
qed

text \<open>
  C38: a strategy released for reuse rests on evidence: each of its principles is supported in
  transfer by an attribution credited with transfer, of an intervention on a hypothesis that was
  recorded before it and cites at least one episode, all of them among the records.
\<close>

theorem supported_strategy_grounded:
  assumes "validate_records profile bundle = Inr ()"
  shows "\<exists>w. reads_bundle bundle w \<and>
    (\<forall>x \<in> set (bw_strategies w). text_field x ''reuse_status'' ''supported'' \<longrightarrow> strategy_grounded w x)"
proof -
  from validate_records_ok [OF assms] obtain w where w: "bundle_ok profile bundle w" by blast
  then show ?thesis using strategy_chain [OF w] by (intro exI [of _ w]) (simp add: bundle_ok_def)
qed

theorem supported_strategy_grounded_witness:
  "\<exists>w x. reads_bundle reference_records w \<and> x \<in> set (bw_strategies w) \<and> strategy_grounded w x"
proof -
  have valid: "validate_records architecture_profile reference_records = Inr ()"
    unfolding reference_records_def by (rule reference_records_valid)
  from supported_strategy_grounded [OF valid] obtain w where w: "reads_bundle reference_records w"
    and grounded: "\<forall>x \<in> set (bw_strategies w). text_field x ''reuse_status'' ''supported'' \<longrightarrow> strategy_grounded w x"
    by blast
  from w obtain source where source: "get_or_null reference_records ''records'' = JObj source"
    "get_or_null source ''strategy_record'' = JList (map JObj (bw_strategies w))"
    unfolding reads_bundle_def by blast
  have "list_all (\<lambda>v. case v of JObj x \<Rightarrow> text_field x ''reuse_status'' ''supported'' | _ \<Rightarrow> False) (map JObj (bw_strategies w)) \<and>
      map JObj (bw_strategies w) \<noteq> []"
    using source by (auto simp: reference_records_def records_with_def get_or_null_def text_field_def)
  then obtain x where "x \<in> set (bw_strategies w)" "text_field x ''reuse_status'' ''supported''"
    by (cases "bw_strategies w") auto
  with w grounded show ?thesis by blast
qed

section \<open>Negative fixtures\<close>

text \<open>
  C39: every negative fixture of the regression test is rejected, for whatever profile and records it
  is made from: all ten mutations, the last one when a strategy released for reuse binds the
  principle it demotes.
\<close>

theorem negative_fixtures_rejected:
  assumes "mutated_fixture profile bundle mutation = Inr (p, b)"
    and "mutation = ''global-reuse-without-transfer'' \<longrightarrow> binds_first_principle bundle"
  shows "validate_substrate p b \<noteq> Inr ()"
  using assms by (rule mutations_rejected)

theorem negative_fixtures_rejected_witness:
  "\<exists>p b. mutated_fixture architecture_profile reference_records ''global-reuse-without-transfer'' = Inr (p, b) \<and>
     validate_substrate p b \<noteq> Inr ()"
proof -
  obtain p b where fixture: "mutated_fixture architecture_profile reference_records ''global-reuse-without-transfer'' = Inr (p, b)"
    by (simp add: mutated_fixture_def mutated_profile_def mutated_bundle_def reference_records_def records_with_def
        update_key_def update_first_def set_key_def)
  have "binds_first_principle reference_records"
    by (simp add: binds_first_principle_def reference_records_def records_with_def get_or_null_def
        is_text_def)
  with negative_fixtures_rejected [OF fixture] fixture show ?thesis by blast
qed

end
