(* ===== verification/ArchitectureStudy.thy ===== *)
theory ArchitectureStudy
  imports PyCollections
begin

text \<open>
  \<^verbatim>\<open>studies/recursive-architecture-comparison/validate_study.py\<close>: the validator of the plan that
  compares recursive architectures, and its negative fixtures.  \<open>StudyValidationError\<close> is a
  \<open>ValueError\<close>.
\<close>

definition StudyValidationError :: "string \<Rightarrow> py_error" where
  "StudyValidationError message = ValueError message"

definition ensure :: "bool \<Rightarrow> string \<Rightarrow> unit res" where
  "ensure condition message = guard_res (\<not> condition) (StudyValidationError message)"

definition FORBIDDEN_PERMISSIONS :: "string list" where
  "FORBIDDEN_PERMISSIONS =
     [''generator_may_modify_evaluator'', ''generator_may_modify_thresholds'',
      ''generator_may_modify_partitions'', ''generator_may_modify_resource_policy'',
      ''generator_may_access_future_final_before_freeze'', ''generator_may_authorize_promotion'']"

definition BUDGET_FIELDS :: "string list" where
  "BUDGET_FIELDS =
     [''candidate_slots_per_arm'', ''max_lineage_depth'', ''max_children_per_candidate'',
      ''max_bounded_operations_per_arm'']"

definition ALLOWED_LAYERS :: "string set" where
  "ALLOWED_LAYERS = {''parameter'', ''structural'', ''policy'', ''portfolio''}"

text \<open>\<open>value = plan.get(field)\<close>, a dictionary or a list.\<close>

definition object_field :: "obj \<Rightarrow> string \<Rightarrow> string \<Rightarrow> obj res" where
  "object_field plan field message =
     (case get_or_null plan field of
        JObj d \<Rightarrow> Inr d | _ \<Rightarrow> Inl (StudyValidationError message))"

definition list_field :: "obj \<Rightarrow> string \<Rightarrow> string \<Rightarrow> json list res" where
  "list_field plan field message =
     (case get_or_null plan field of
        JList xs \<Rightarrow> Inr xs | _ \<Rightarrow> Inl (StudyValidationError message))"

text \<open>\<open>set(plan.get(field, []))\<close> must hold some values.\<close>

definition require_members :: "obj \<Rightarrow> string \<Rightarrow> string list \<Rightarrow> string \<Rightarrow> unit res" where
  "require_members plan field required message =
     bind_res (set_elements (case dict_get plan field of None \<Rightarrow> JList [] | Some v \<Rightarrow> v)) (\<lambda>vs.
       ensure (includes_strings vs required) message)"

section \<open>Authority and budgets\<close>

definition check_study_authority :: "obj \<Rightarrow> unit res" where
  "check_study_authority plan =
     bind_res (object_field plan ''immutable_authority'' ''immutable_authority'') (\<lambda>d.
       fold_res (\<lambda>_ permission. ensure (is_false d permission)
         (''forbidden permission: '' @ permission)) () FORBIDDEN_PERMISSIONS)"

definition check_budgets :: "obj \<Rightarrow> unit res" where
  "check_budgets plan =
     bind_res (object_field plan ''budgets'' ''budgets'') (\<lambda>d.
     bind_res (fold_res (\<lambda>_ field. let v = get_or_null d field in
       ensure (is_int v \<and> 0 < int_val v) (''positive budget: '' @ field)) () BUDGET_FIELDS) (\<lambda>_.
       ensure (is_true d ''equal_budget_before_adaptive_portfolio_allocation'')
         ''equal-budget prephase''))"

section \<open>Arms\<close>

text \<open>The arms with their identities, which are different texts.\<close>

definition arm_objects :: "json list \<Rightarrow> obj list res" where
  "arm_objects arms =
     (let ds = concat (map (\<lambda>v. case v of JObj d \<Rightarrow> [d] | _ \<Rightarrow> []) arms) in
      bind_res (ensure (length ds = length arms) ''arm object'') (\<lambda>_.
      bind_res (ensure (list_all (\<lambda>d. is_str (get_or_null d ''id'') \<and> truthy (get_or_null d ''id'')) ds)
        ''arm id'') (\<lambda>_.
      bind_res (ensure (distinct (map (\<lambda>d. get_or_null d ''id'') ds)) ''duplicate arm id'') (\<lambda>_.
        Inr ds))))"

definition check_arm :: "obj \<Rightarrow> unit res" where
  "check_arm arm =
     bind_res (obj_at arm ''id'') (\<lambda>v.
     let arm_id = py_str v in
     bind_res (list_field arm ''recursive_layers'' (''layers: '' @ arm_id)) (\<lambda>layers.
     bind_res (set_elements (JList layers)) (\<lambda>vs.
     bind_res (ensure (within_strings vs ALLOWED_LAYERS) (''unknown layer: '' @ arm_id)) (\<lambda>_.
     bind_res (ensure (is_true arm ''candidate_replacement'') (''replacement: '' @ arm_id)) (\<lambda>_.
     bind_res (ensure (is_false arm ''in_place_mutation_after_evaluation'')
       (''in-place mutation: '' @ arm_id)) (\<lambda>_.
     bind_res (ensure (truthy (get_or_null arm ''policy_replacement'') \<longrightarrow> JStr ''policy'' \<in> set layers)
       (''policy layer missing: '' @ arm_id)) (\<lambda>_.
       ensure (truthy (get_or_null arm ''portfolio_allocation'') \<longrightarrow> JStr ''portfolio'' \<in> set layers)
         (''portfolio layer missing: '' @ arm_id))))))))"

definition check_arms :: "obj \<Rightarrow> obj list res" where
  "check_arms plan =
     bind_res (list_field plan ''architecture_arms'' ''architecture_arms'') (\<lambda>arms.
     bind_res (ensure (5 \<le> length arms) ''architecture_arms'') (\<lambda>_.
     bind_res (arm_objects arms) (\<lambda>ds.
     bind_res (fold_res (\<lambda>_. check_arm) () ds) (\<lambda>_. Inr ds))))"

section \<open>Controls\<close>

text \<open>\<open>{arm["id"]: arm.get(field) for arm in arms}.get(arm_id)\<close>, with different identities.\<close>

definition arm_field :: "obj list \<Rightarrow> string \<Rightarrow> json \<Rightarrow> json" where
  "arm_field arms field arm_id =
     (case find (\<lambda>d. get_or_null d ''id'' = arm_id) arms of
        None \<Rightarrow> JNull | Some d \<Rightarrow> get_or_null d field)"

definition check_controls :: "obj \<Rightarrow> obj list \<Rightarrow> unit res" where
  "check_controls plan arms =
     bind_res (list_field plan ''required_controls'' ''required_controls'') (\<lambda>controls.
     bind_res (set_elements (JList controls)) (\<lambda>vs.
     bind_res (ensure (list_all (\<lambda>v. v \<in> set (map (\<lambda>d. get_or_null d ''id'') arms)) vs)
       ''missing required control'') (\<lambda>_.
     bind_res (ensure (list_all (\<lambda>v. arm_field arms ''class'' v = JStr ''control'') controls)
       ''control class'') (\<lambda>_.
     bind_res (ensure (arm_field arms ''feedback'' (JStr ''random-proposal-control'') = JStr ''none'')
       ''random control'') (\<lambda>_.
     bind_res (ensure (arm_field arms ''feedback'' (JStr ''shuffled-feedback-control'') = JStr ''shuffled'')
       ''shuffled control'') (\<lambda>_.
       ensure (arm_field arms ''feedback'' (JStr ''diagnostic-ablation-control'') = JStr ''aggregate-only'')
         ''diagnostic ablation''))))))"

section \<open>The remaining boundaries\<close>

definition check_selection_rule :: "obj \<Rightarrow> unit res" where
  "check_selection_rule plan =
     bind_res (object_field plan ''selection_rule'' ''selection_rule'') (\<lambda>d.
     bind_res (ensure (is_true d ''requires_all_hard_gates'') ''hard-gate selection'') (\<lambda>_.
     bind_res (ensure (is_false d ''single_aggregate_may_override_hard_gate'') ''aggregate override'') (\<lambda>_.
       ensure (is_true d ''recursive_feedback_claim_requires_control_advantage'')
         ''causal feedback control'')))"

definition check_claim_boundary :: "obj \<Rightarrow> unit res" where
  "check_claim_boundary plan =
     bind_res (object_field plan ''claim_boundary'' ''claim_boundary'') (\<lambda>d.
     bind_res (ensure (is_text d ''formal_mncs_status'' ''UNKNOWN'') ''MNCS claim'') (\<lambda>_.
     bind_res (ensure (is_text d ''formal_mncds_status'' ''UNKNOWN'') ''MNCDS claim'') (\<lambda>_.
       ensure (is_false d ''promotion_authorized'') ''promotion boundary'')))"

definition validate_study :: "obj \<Rightarrow> unit res" where
  "validate_study plan =
     bind_res (ensure (is_text plan ''schema'' ''mncs-recursive-architecture-study/0.1'') ''schema'') (\<lambda>_.
     bind_res (ensure (is_text plan ''status'' ''preregistered-design-only'') ''status'') (\<lambda>_.
     bind_res (check_study_authority plan) (\<lambda>_.
     bind_res (check_budgets plan) (\<lambda>_.
     bind_res (check_arms plan) (\<lambda>arms.
     bind_res (check_controls plan arms) (\<lambda>_.
     bind_res (require_members plan ''candidate_record_required_fields''
       [''candidate_id'', ''parent_ids'', ''content_identity'', ''predicted_effects'',
        ''actual_effects'', ''disposition'', ''rollback_target''] ''candidate record fields'') (\<lambda>_.
     bind_res (require_members plan ''partitions''
       [''development'', ''selection'', ''transfer-unseen'', ''future-final''] ''partitions'') (\<lambda>_.
     bind_res (require_members plan ''hard_gates''
       [''zero_evaluator_identity_changes'', ''zero_threshold_changes'',
        ''zero_future_final_access_before_freeze'', ''acyclic_append_only_lineage'',
        ''rejected_transactions_preserve_parent_identity'',
        ''predictions_recorded_before_evaluation''] ''hard gates'') (\<lambda>_.
     bind_res (require_members plan ''required_negative_tests''
       [''evaluator-modification'', ''threshold-modification'', ''future-final-early-access'',
        ''in-place-post-evaluation-mutation'', ''lineage-cycle'', ''post-hoc-prediction'',
        ''rejected-update-checkpoint-change'', ''missing-causal-feedback-control''] ''negative tests'') (\<lambda>_.
     bind_res (check_selection_rule plan) (\<lambda>_.
       check_claim_boundary plan)))))))))))"

section \<open>Negative fixtures\<close>

definition change_key :: "string \<Rightarrow> (json \<Rightarrow> json res) \<Rightarrow> json \<Rightarrow> json res" where
  "change_key k f v =
     (case v of
        JObj d \<Rightarrow> bind_res (obj_at d k) (\<lambda>x. bind_res (f x) (\<lambda>y. Inr (JObj (dict_set k y d))))
      | _ \<Rightarrow> Inl (TypeError k))"

definition assign_key :: "string \<Rightarrow> json \<Rightarrow> json \<Rightarrow> json res" where
  "assign_key k x v = (case v of JObj d \<Rightarrow> Inr (JObj (dict_set k x d)) | _ \<Rightarrow> Inl (TypeError k))"

definition in_place_mutation :: "json \<Rightarrow> json res" where
  "in_place_mutation v =
     (case v of
        JList xs \<Rightarrow>
          bind_res (list_at xs 1) (\<lambda>arm.
          bind_res (assign_key ''in_place_mutation_after_evaluation'' (JBool True) arm) (\<lambda>arm'.
            Inr (JList (xs[1 := arm']))))
      | JObj _ \<Rightarrow> Inl (KeyError ''1'')
      | _ \<Rightarrow> Inl (TypeError ''1''))"

definition missing_control :: "json \<Rightarrow> json res" where
  "missing_control v =
     (case v of
        JList xs \<Rightarrow>
          bind_res (map_res (\<lambda>arm. item_of arm ''id'') xs) (\<lambda>ids.
            Inr (JList (map fst (filter (\<lambda>(arm, i). i \<noteq> JStr ''shuffled-feedback-control'') (zip xs ids)))))
      | _ \<Rightarrow> Inl (TypeError ''id''))"

definition duplicate_arm :: "json \<Rightarrow> json res" where
  "duplicate_arm v =
     (case v of
        JList xs \<Rightarrow>
          bind_res (bind_res (list_at xs 0) (\<lambda>arm. item_of arm ''id'')) (\<lambda>first_id.
          bind_res (list_at xs 1) (\<lambda>arm.
          bind_res (assign_key ''id'' first_id arm) (\<lambda>arm'.
            Inr (JList (xs[1 := arm'])))))
      | JObj _ \<Rightarrow> Inl (KeyError ''0'')
      | _ \<Rightarrow> Inl (TypeError ''0''))"

definition mutated_plan :: "obj \<Rightarrow> string \<Rightarrow> json res" where
  "mutated_plan plan mutation =
     (if mutation = ''evaluator-authority''
      then change_key ''immutable_authority'' (assign_key ''generator_may_modify_evaluator'' (JBool True)) (JObj plan)
      else if mutation = ''in-place-mutation''
      then change_key ''architecture_arms'' in_place_mutation (JObj plan)
      else if mutation = ''missing-control''
      then change_key ''architecture_arms'' missing_control (JObj plan)
      else if mutation = ''duplicate-arm''
      then change_key ''architecture_arms'' duplicate_arm (JObj plan)
      else if mutation = ''aggregate-overrides-gate''
      then change_key ''selection_rule''
        (assign_key ''single_aggregate_may_override_hard_gate'' (JBool True)) (JObj plan)
      else if mutation = ''promotion-authorized''
      then change_key ''claim_boundary'' (assign_key ''promotion_authorized'' (JBool True)) (JObj plan)
      else Inl (KeyError mutation))"

end
