(* ===== verification/ArchitectureProofs.thy ===== *)
theory ArchitectureProofs
  imports ArchitectureStudy
begin

text \<open>
  What the validator of the comparison plan accepts, and that every negative fixture is refused.
\<close>

lemma ensure_ok [simp]: "ensure c m = Inr u \<longleftrightarrow> c"
  by (simp add: ensure_def)

lemma object_field_ok: "object_field plan field m = Inr d \<longleftrightarrow> get_or_null plan field = JObj d"
  by (cases "get_or_null plan field") (simp_all add: object_field_def)

lemma list_field_ok: "list_field plan field m = Inr xs \<longleftrightarrow> get_or_null plan field = JList xs"
  by (cases "get_or_null plan field") (simp_all add: list_field_def)

lemma fold_check_ok: "fold_res (\<lambda>_. f) () xs = Inr u \<longleftrightarrow> (\<forall>x \<in> set xs. f x = Inr ())"
  by (induction xs) (auto simp: bind_res_eq_Inr)

section \<open>Arms\<close>

lemma arm_objects_ok:
  assumes "arm_objects arms = Inr ds"
  shows "arms = map JObj ds \<and> distinct (map (\<lambda>d. get_or_null d ''id'') ds) \<and>
    (\<forall>d \<in> set ds. \<exists>s. get_or_null d ''id'' = JStr s \<and> s \<noteq> [])"
proof -
  let ?ds = "\<lambda>arms. concat (map (\<lambda>v. case v of JObj d \<Rightarrow> [d] | _ \<Rightarrow> []) arms)"
  have short: "length (?ds arms) \<le> length arms" for arms
    by (induction arms) (auto split: json.splits intro: le_SucI)
  have all: "length (?ds arms) = length arms \<Longrightarrow> arms = map JObj (?ds arms)" for arms
  proof (induction arms)
    case (Cons v arms)
    then show ?case using short [of arms] by (cases v) auto
  qed simp
  from assms have ds: "ds = ?ds arms" "length (?ds arms) = length arms"
    "list_all (\<lambda>d. is_str (get_or_null d ''id'') \<and> truthy (get_or_null d ''id'')) (?ds arms)"
    "distinct (map (\<lambda>d. get_or_null d ''id'') (?ds arms))"
    unfolding arm_objects_def Let_def by (auto simp: bind_res_eq_Inr simp del: length_concat)
  have "\<exists>s. get_or_null d ''id'' = JStr s \<and> s \<noteq> []" if "d \<in> set ds" for d
    using ds(1,3) that by (cases "get_or_null d ''id''") (auto simp: list_all_iff)
  with all [OF ds(2)] ds(1,4) show ?thesis by simp
qed

definition arm_ok :: "obj \<Rightarrow> bool" where
  "arm_ok arm \<longleftrightarrow> is_true arm ''candidate_replacement'' \<and>
     is_false arm ''in_place_mutation_after_evaluation'' \<and>
     (\<exists>layers. get_or_null arm ''recursive_layers'' = JList layers \<and>
        (\<forall>v \<in> set layers. \<exists>s \<in> ALLOWED_LAYERS. v = JStr s) \<and>
        (truthy (get_or_null arm ''policy_replacement'') \<longrightarrow> JStr ''policy'' \<in> set layers) \<and>
        (truthy (get_or_null arm ''portfolio_allocation'') \<longrightarrow> JStr ''portfolio'' \<in> set layers))"

lemma within_strings_ok: "within_strings vs S \<longleftrightarrow> (\<forall>v \<in> set vs. \<exists>s \<in> S. v = JStr s)"
proof -
  have "(case v of JStr s \<Rightarrow> s \<in> S | _ \<Rightarrow> False) \<longleftrightarrow> (\<exists>s \<in> S. v = JStr s)" for v
    by (cases v) auto
  then show ?thesis by (simp add: within_strings_def list_all_iff)
qed

lemma check_arm_ok: "check_arm arm = Inr u \<Longrightarrow> arm_ok arm"
  unfolding check_arm_def Let_def
proof (elim bind_resE, goal_cases)
  case (1 v layers vs)
  have "vs = layers" using 1(3) by (simp add: set_elements_def split: if_splits)
  with 1 show ?case
    by (auto simp: arm_ok_def list_field_ok within_strings_ok)
qed

section \<open>The plan\<close>

definition arms_of :: "obj \<Rightarrow> obj list \<Rightarrow> bool" where
  "arms_of plan arms \<longleftrightarrow> get_or_null plan ''architecture_arms'' = JList (map JObj arms)"

definition plan_ok :: "obj \<Rightarrow> obj list \<Rightarrow> bool" where
  "plan_ok plan arms \<longleftrightarrow>
     (\<exists>d. get_or_null plan ''immutable_authority'' = JObj d \<and> (\<forall>k \<in> set FORBIDDEN_PERMISSIONS. is_false d k)) \<and>
     arms_of plan arms \<and> 5 \<le> length arms \<and>
     distinct (map (\<lambda>d. get_or_null d ''id'') arms) \<and>
     (\<forall>arm \<in> set arms. (\<exists>s. get_or_null arm ''id'' = JStr s \<and> s \<noteq> []) \<and> arm_ok arm) \<and>
     (\<exists>controls. get_or_null plan ''required_controls'' = JList controls \<and>
        (\<forall>v \<in> set controls. \<exists>arm \<in> set arms. get_or_null arm ''id'' = v \<and> is_text arm ''class'' ''control'')) \<and>
     (\<exists>arm \<in> set arms. is_text arm ''id'' ''random-proposal-control'' \<and> is_text arm ''feedback'' ''none'') \<and>
     (\<exists>arm \<in> set arms. is_text arm ''id'' ''shuffled-feedback-control'' \<and> is_text arm ''feedback'' ''shuffled'') \<and>
     (\<exists>arm \<in> set arms. is_text arm ''id'' ''diagnostic-ablation-control'' \<and> is_text arm ''feedback'' ''aggregate-only'') \<and>
     (\<exists>d. get_or_null plan ''selection_rule'' = JObj d \<and> is_true d ''requires_all_hard_gates'' \<and>
        is_false d ''single_aggregate_may_override_hard_gate'') \<and>
     (\<exists>d. get_or_null plan ''claim_boundary'' = JObj d \<and> is_false d ''promotion_authorized'')"

lemma arm_fieldD:
  assumes "arm_field arms field v = JStr s"
  shows "\<exists>arm \<in> set arms. get_or_null arm ''id'' = v \<and> is_text arm field s"
proof (cases "find (\<lambda>d. get_or_null d ''id'' = v) arms")
  case (Some d)
  with assms show ?thesis by (auto simp: arm_field_def is_text_def find_Some_iff)
qed (use assms in \<open>simp add: arm_field_def\<close>)

lemma check_controls_ok:
  assumes "check_controls plan arms = Inr u"
  shows "\<exists>controls. get_or_null plan ''required_controls'' = JList controls \<and>
      (\<forall>v \<in> set controls. \<exists>arm \<in> set arms. get_or_null arm ''id'' = v \<and> is_text arm ''class'' ''control'')"
    and "\<exists>arm \<in> set arms. is_text arm ''id'' ''random-proposal-control'' \<and> is_text arm ''feedback'' ''none''"
    and "\<exists>arm \<in> set arms. is_text arm ''id'' ''shuffled-feedback-control'' \<and> is_text arm ''feedback'' ''shuffled''"
    and "\<exists>arm \<in> set arms. is_text arm ''id'' ''diagnostic-ablation-control'' \<and> is_text arm ''feedback'' ''aggregate-only''"
proof -
  from assms obtain controls where controls: "get_or_null plan ''required_controls'' = JList controls"
    "list_all (\<lambda>v. arm_field arms ''class'' v = JStr ''control'') controls"
    "arm_field arms ''feedback'' (JStr ''random-proposal-control'') = JStr ''none''"
    "arm_field arms ''feedback'' (JStr ''shuffled-feedback-control'') = JStr ''shuffled''"
    "arm_field arms ''feedback'' (JStr ''diagnostic-ablation-control'') = JStr ''aggregate-only''"
    unfolding check_controls_def by (elim bind_resE) (simp add: list_field_ok)
  then show "\<exists>controls. get_or_null plan ''required_controls'' = JList controls \<and>
      (\<forall>v \<in> set controls. \<exists>arm \<in> set arms. get_or_null arm ''id'' = v \<and> is_text arm ''class'' ''control'')"
    using arm_fieldD [of arms "''class''"] by (auto simp: list_all_iff)
  show "\<exists>arm \<in> set arms. is_text arm ''id'' ''random-proposal-control'' \<and> is_text arm ''feedback'' ''none''"
    using arm_fieldD [OF controls(3)] by (simp add: is_text_def)
  show "\<exists>arm \<in> set arms. is_text arm ''id'' ''shuffled-feedback-control'' \<and> is_text arm ''feedback'' ''shuffled''"
    using arm_fieldD [OF controls(4)] by (simp add: is_text_def)
  show "\<exists>arm \<in> set arms. is_text arm ''id'' ''diagnostic-ablation-control'' \<and> is_text arm ''feedback'' ''aggregate-only''"
    using arm_fieldD [OF controls(5)] by (simp add: is_text_def)
qed

lemma check_arms_ok:
  assumes "check_arms plan = Inr arms"
  shows "arms_of plan arms \<and> 5 \<le> length arms \<and> distinct (map (\<lambda>d. get_or_null d ''id'') arms) \<and>
    (\<forall>arm \<in> set arms. (\<exists>s. get_or_null arm ''id'' = JStr s \<and> s \<noteq> []) \<and> arm_ok arm)"
  using assms unfolding check_arms_def
proof (elim bind_resE, goal_cases)
  case (1 xs u ds u')
  have "\<forall>arm \<in> set ds. arm_ok arm"
  proof
    fix arm
    assume "arm \<in> set ds"
    with 1(4) show "arm_ok arm" using check_arm_ok by (simp add: fold_check_ok)
  qed
  with arm_objects_ok [OF 1(3)] 1(1,2,5) show ?case by (auto simp: arms_of_def list_field_ok)
qed

lemma validate_study_ok:
  assumes "validate_study plan = Inr u"
  shows "\<exists>arms. plan_ok plan arms"
  using assms unfolding validate_study_def
proof (elim bind_resE, goal_cases)
  case (1 u1 u2 u3 u4 arms u5)
  have authority: "\<exists>d. get_or_null plan ''immutable_authority'' = JObj d \<and> (\<forall>k \<in> set FORBIDDEN_PERMISSIONS. is_false d k)"
    using 1(3) unfolding check_study_authority_def by (elim bind_resE) (simp add: object_field_ok fold_check_ok)
  have selection: "\<exists>d. get_or_null plan ''selection_rule'' = JObj d \<and> is_true d ''requires_all_hard_gates'' \<and>
      is_false d ''single_aggregate_may_override_hard_gate''"
    using 1(11) unfolding check_selection_rule_def by (elim bind_resE) (simp add: object_field_ok)
  have claims: "\<exists>d. get_or_null plan ''claim_boundary'' = JObj d \<and> is_false d ''promotion_authorized''"
    using 1(12) unfolding check_claim_boundary_def by (elim bind_resE) (simp add: object_field_ok)
  show ?case
    unfolding plan_ok_def
    using authority selection claims check_controls_ok [OF 1(6)] check_arms_ok [OF 1(5)]
    by (intro exI [of _ arms] conjI) blast+
qed

section \<open>Negative fixtures\<close>

lemma get_or_null_assigned [simp]: "get_or_null (dict_set k v d) k' = (if k' = k then v else get_or_null d k')"
  by (simp add: get_or_null_def dict_get_set)

lemma change_key_ok:
  assumes "change_key k f (JObj d) = Inr p"
  obtains y where "f (get_or_null d k) = Inr y" and "p = JObj (dict_set k y d)"
  using assms by (auto simp: change_key_def bind_res_eq_Inr)

lemma assign_key_ok: "assign_key k x v = Inr v' \<longleftrightarrow> (\<exists>d. v = JObj d \<and> v' = JObj (dict_set k x d))"
  by (cases v) (auto simp: assign_key_def)

text \<open>A flag of a sub-object set to true.\<close>

lemma flag_mutation:
  assumes "change_key t (assign_key k (JBool True)) (JObj plan) = Inr (JObj q)"
    and "get_or_null q t = JObj d"
  shows "\<not> is_false d k"
proof (rule change_key_ok [OF assms(1)])
  fix y
  assume "assign_key k (JBool True) (get_or_null plan t) = Inr y" "JObj q = JObj (dict_set t y plan)"
  with assms(2) show ?thesis by (auto simp: assign_key_ok is_false_def)
qed

lemma list_at_second:
  assumes "list_at xs 1 = Inr x"
  shows "1 < length xs \<and> x = xs ! 1"
  using assms by (auto simp: list_at_def Let_def split: if_splits)

lemma in_place_rejected:
  assumes "in_place_mutation v = Inr (JList (map JObj arms))"
  shows "\<exists>arm \<in> set arms. \<not> is_false arm ''in_place_mutation_after_evaluation''"
proof (cases v)
  case (JList xs)
  with assms obtain arm arm' where arm: "list_at xs 1 = Inr arm"
    "assign_key ''in_place_mutation_after_evaluation'' (JBool True) arm = Inr arm'"
    and arms: "map JObj arms = xs[1 := arm']"
    unfolding in_place_mutation_def by (auto elim!: bind_resE)
  have len: "1 < length xs" using list_at_second [OF arm(1)] by blast
  then have "1 < length arms" using arg_cong [OF arms, of length] by simp
  then have here: "arms ! 1 \<in> set arms" by (rule nth_mem)
  have "map JObj arms ! 1 = arm'" unfolding arms using len by (rule nth_list_update_eq)
  then have "JObj (arms ! 1) = arm'" using nth_map [OF \<open>1 < length arms\<close>, of JObj] by simp
  with arm(2) have "\<not> is_false (arms ! 1) ''in_place_mutation_after_evaluation''"
    by (auto simp: assign_key_ok is_false_def)
  with here show ?thesis by blast
qed (use assms in \<open>simp_all add: in_place_mutation_def\<close>)

lemma missing_rejected:
  assumes "missing_control v = Inr (JList (map JObj arms))" and "arm \<in> set arms"
  shows "get_or_null arm ''id'' \<noteq> JStr ''shuffled-feedback-control''"
proof (cases v)
  case (JList xs)
  with assms(1) obtain ids where ids: "map_res (\<lambda>arm. item_of arm ''id'') xs = Inr ids"
    and arms: "map JObj arms = map fst (filter (\<lambda>(arm, i). i \<noteq> JStr ''shuffled-feedback-control'') (zip xs ids))"
    by (auto simp: missing_control_def bind_res_eq_Inr)
  from assms(2) have "JObj arm \<in> set (map JObj arms)" by simp
  then obtain i where i: "(JObj arm, i) \<in> set (zip xs ids)" "i \<noteq> JStr ''shuffled-feedback-control''"
    unfolding arms by auto
  have "item_of (JObj arm) ''id'' = Inr i"
    using ids i(1) by (auto simp: map_res_eq_Inr in_set_zip dest: list_all2_nthD)
  with i(2) show ?thesis by (simp add: item_of_def)
qed (use assms in \<open>simp_all add: missing_control_def\<close>)

lemma duplicate_rejected_arms:
  assumes "duplicate_arm v = Inr (JList (map JObj arms))"
  shows "\<not> distinct (map (\<lambda>d. get_or_null d ''id'') arms)"
proof (cases v)
  case (JList xs)
  with assms obtain arm0 i arm arm' where a: "list_at xs 0 = Inr arm0" "item_of arm0 ''id'' = Inr i"
    "list_at xs 1 = Inr arm" "assign_key ''id'' i arm = Inr arm'"
    and arms: "map JObj arms = xs[1 := arm']"
    by (auto simp: duplicate_arm_def bind_res_eq_Inr)
  have len: "1 < length xs" using list_at_second [OF a(3)] by blast
  then have len': "1 < length arms" using arg_cong [OF arms, of length] by simp
  then have pos: "0 < length arms" by (rule less_trans [rotated]) simp
  have first: "JObj (arms ! 0) = arm0"
  proof -
    have "xs ! 0 = arm0" using a(1) len by (auto simp: list_at_def Let_def split: if_splits)
    moreover have "map JObj arms ! 0 = xs ! 0" using arms len by simp
    moreover have "map JObj arms ! 0 = JObj (arms ! 0)" using pos by (rule nth_map)
    ultimately show ?thesis by simp
  qed
  have second: "JObj (arms ! 1) = arm'"
    using nth_map [OF len', of JObj] nth_list_update_eq [OF len, of arm'] by (simp add: arms)
  have "get_or_null (arms ! 0) ''id'' = i" using a(2) first by (auto simp: item_of_def)
  moreover have "get_or_null (arms ! 1) ''id'' = i" using a(4) second by (auto simp: assign_key_ok)
  ultimately have same: "get_or_null (arms ! 0) ''id'' = get_or_null (arms ! 1) ''id''" by simp
  have "map (\<lambda>d. get_or_null d ''id'') arms ! 0 = map (\<lambda>d. get_or_null d ''id'') arms ! 1"
    unfolding nth_map [OF pos] nth_map [OF len'] by (rule same)
  then show ?thesis
    using nth_eq_iff_index_eq [of "map (\<lambda>d. get_or_null d ''id'') arms" 0 1] pos len' by auto
qed (use assms in \<open>simp_all add: duplicate_arm_def\<close>)

lemma changed_arms:
  assumes "change_key ''architecture_arms'' f (JObj plan) = Inr (JObj q)" and "arms_of q arms"
  shows "f (get_or_null plan ''architecture_arms'') = Inr (JList (map JObj arms))"
proof (rule change_key_ok [OF assms(1)])
  fix y
  assume "f (get_or_null plan ''architecture_arms'') = Inr y" "JObj q = JObj (dict_set ''architecture_arms'' y plan)"
  with assms(2) show ?thesis by (auto simp: arms_of_def)
qed

lemma mutated_plan_object: "mutated_plan plan mutation = Inr p \<Longrightarrow> \<exists>q. p = JObj q"
  unfolding mutated_plan_def by (auto split: if_splits elim!: change_key_ok)

lemma mutated_plan_rejected:
  assumes "mutated_plan plan mutation = Inr (JObj q)"
  shows "validate_study q \<noteq> Inr ()"
proof
  assume "validate_study q = Inr ()"
  then obtain arms where ok: "plan_ok q arms" using validate_study_ok by blast
  have arms: "arms_of q arms" and distinct: "distinct (map (\<lambda>d. get_or_null d ''id'') arms)"
    and in_place: "\<forall>arm \<in> set arms. is_false arm ''in_place_mutation_after_evaluation''"
    and shuffled: "\<exists>arm \<in> set arms. get_or_null arm ''id'' = JStr ''shuffled-feedback-control''"
    using ok by (auto simp: plan_ok_def arm_ok_def is_text_def)
  obtain d where d: "get_or_null q ''immutable_authority'' = JObj d" "is_false d ''generator_may_modify_evaluator''"
    using ok unfolding plan_ok_def FORBIDDEN_PERMISSIONS_def by auto
  obtain e where e: "get_or_null q ''selection_rule'' = JObj e" "is_false e ''single_aggregate_may_override_hard_gate''"
    using ok unfolding plan_ok_def by blast
  obtain f where f: "get_or_null q ''claim_boundary'' = JObj f" "is_false f ''promotion_authorized''"
    using ok unfolding plan_ok_def by blast
  from assms consider
      "change_key ''immutable_authority'' (assign_key ''generator_may_modify_evaluator'' (JBool True)) (JObj plan) = Inr (JObj q)"
    | "change_key ''architecture_arms'' in_place_mutation (JObj plan) = Inr (JObj q)"
    | "change_key ''architecture_arms'' missing_control (JObj plan) = Inr (JObj q)"
    | "change_key ''architecture_arms'' duplicate_arm (JObj plan) = Inr (JObj q)"
    | "change_key ''selection_rule'' (assign_key ''single_aggregate_may_override_hard_gate'' (JBool True)) (JObj plan) = Inr (JObj q)"
    | "change_key ''claim_boundary'' (assign_key ''promotion_authorized'' (JBool True)) (JObj plan) = Inr (JObj q)"
    unfolding mutated_plan_def by (auto split: if_splits)
  then show False
  proof cases
    case 1 with flag_mutation [OF 1 d(1)] d(2) show False by blast
  next
    case 2 with in_place_rejected [OF changed_arms [OF 2 arms]] in_place show False by blast
  next
    case 3 with missing_rejected [OF changed_arms [OF 3 arms]] shuffled show False by blast
  next
    case 4 with duplicate_rejected_arms [OF changed_arms [OF 4 arms]] distinct show False by blast
  next
    case 5 with flag_mutation [OF 5 e(1)] e(2) show False by blast
  next
    case 6 with flag_mutation [OF 6 f(1)] f(2) show False by blast
  qed
qed

section \<open>The error of a refused fixture\<close>

text \<open>A check that can only raise \<open>StudyValidationError\<close>.\<close>

definition study_error :: "'a res \<Rightarrow> bool" where
  "study_error r \<longleftrightarrow> (\<forall>e. r = Inl e \<longrightarrow> (\<exists>message. e = StudyValidationError message))"

named_theorems study_errors

lemma study_error_bind [study_errors]:
  "\<lbrakk>study_error r; \<And>v. r = Inr v \<Longrightarrow> study_error (f v)\<rbrakk> \<Longrightarrow> study_error (bind_res r f)"
  by (cases r) (auto simp: study_error_def)

lemma study_error_ensure [study_errors]: "study_error (ensure c m)"
  by (auto simp: study_error_def ensure_def guard_res_def)

lemma study_error_object_field [study_errors]: "study_error (object_field plan field m)"
  by (cases "get_or_null plan field") (auto simp: study_error_def object_field_def)

lemma study_error_list_field [study_errors]: "study_error (list_field plan field m)"
  by (cases "get_or_null plan field") (auto simp: study_error_def list_field_def)

lemma study_error_Inr [study_errors]: "study_error (Inr v)"
  by (simp add: study_error_def)

lemma study_error_fold [study_errors]:
  "(\<And>x. x \<in> set xs \<Longrightarrow> study_error (f x)) \<Longrightarrow> study_error (fold_res (\<lambda>_. f) () xs)"
  by (induction xs) (auto intro!: study_errors)

text \<open>A value of which \<open>set\<close> can be made.\<close>

definition has_elements :: "json \<Rightarrow> bool" where
  "has_elements v \<longleftrightarrow> (\<exists>vs. set_elements v = Inr vs)"

lemma study_error_elements: "has_elements v \<Longrightarrow> study_error (set_elements v)"
  by (auto simp: has_elements_def study_error_def)

definition member_fields :: "string list" where
  "member_fields = [''candidate_record_required_fields'', ''partitions'', ''hard_gates'', ''required_negative_tests'']"

definition plan_elements :: "obj \<Rightarrow> bool" where
  "plan_elements plan \<longleftrightarrow>
     (\<forall>field \<in> set member_fields.
        has_elements (case dict_get plan field of None \<Rightarrow> JList [] | Some v \<Rightarrow> v)) \<and>
     (\<forall>controls. get_or_null plan ''required_controls'' = JList controls \<longrightarrow> has_elements (JList controls)) \<and>
     (\<forall>arms arm layers. get_or_null plan ''architecture_arms'' = JList arms \<longrightarrow> JObj arm \<in> set arms \<longrightarrow>
        get_or_null arm ''recursive_layers'' = JList layers \<longrightarrow> has_elements (JList layers))"

lemma study_error_check_arm:
  assumes "dict_get arm ''id'' \<noteq> None"
    and "\<And>layers. get_or_null arm ''recursive_layers'' = JList layers \<Longrightarrow> has_elements (JList layers)"
  shows "study_error (check_arm arm)"
  unfolding check_arm_def Let_def
  using assms
  by (intro study_errors study_error_elements) (auto simp: list_field_ok study_error_def)

lemma study_error_check_arms:
  assumes "plan_elements plan"
  shows "study_error (check_arms plan)"
  unfolding check_arms_def
proof (intro study_errors)
  fix arms ds arm
  assume arms: "list_field plan ''architecture_arms'' ''architecture_arms'' = Inr arms"
    and ds: "arm_objects arms = Inr ds" and arm: "arm \<in> set ds"
  from arm_objects_ok [OF ds] arm have "JObj arm \<in> set arms" "dict_get arm ''id'' \<noteq> None"
    by (auto simp: get_or_null_def split: option.splits)
  with arms assms show "study_error (check_arm arm)"
    by (intro study_error_check_arm) (auto simp: plan_elements_def list_field_ok)
qed (auto simp: arm_objects_def Let_def intro!: study_errors)

lemma study_error_members:
  "\<lbrakk>plan_elements plan; field \<in> set member_fields\<rbrakk> \<Longrightarrow> study_error (require_members plan field required m)"
  unfolding require_members_def
  by (intro study_errors study_error_elements) (auto simp: plan_elements_def)

lemma study_error_validate:
  assumes "plan_elements plan"
  shows "study_error (validate_study plan)"
  unfolding validate_study_def check_study_authority_def check_budgets_def check_controls_def
    check_selection_rule_def check_claim_boundary_def Let_def
  by (intro study_errors study_error_check_arms [OF assms] study_error_members [OF assms] study_error_elements)
    (use assms in \<open>auto simp: plan_elements_def list_field_ok member_fields_def\<close>)

text \<open>What an accepted plan makes a set of stays in its fixtures.\<close>

lemma require_members_elements:
  "require_members plan field required m = Inr u \<Longrightarrow>
     has_elements (case dict_get plan field of None \<Rightarrow> JList [] | Some v \<Rightarrow> v)"
  unfolding require_members_def by (elim bind_resE) (auto simp: has_elements_def)

lemma check_arm_elements:
  "check_arm arm = Inr u \<Longrightarrow> \<exists>layers. get_or_null arm ''recursive_layers'' = JList layers \<and> has_elements (JList layers)"
  unfolding check_arm_def Let_def by (elim bind_resE) (auto simp: has_elements_def list_field_ok)

lemma accepted_elements:
  assumes "validate_study plan = Inr u"
  shows "plan_elements plan"
  using assms unfolding validate_study_def
proof (elim bind_resE, goal_cases)
  case (1 u1 u2 u3 u4 ds u5)
  have fields: "\<forall>field \<in> set member_fields.
      has_elements (case dict_get plan field of None \<Rightarrow> JList [] | Some v \<Rightarrow> v)"
    using 1(7-10) [THEN require_members_elements] by (simp add: member_fields_def)
  have controls: "\<exists>controls. get_or_null plan ''required_controls'' = JList controls \<and> has_elements (JList controls)"
    using 1(6) unfolding check_controls_def by (elim bind_resE) (auto simp: has_elements_def list_field_ok)
  have arms: "get_or_null plan ''architecture_arms'' = JList (map JObj ds)"
    using check_arms_ok [OF 1(5)] by (simp add: arms_of_def)
  have checked: "\<forall>arm \<in> set ds. check_arm arm = Inr ()"
    using 1(5) unfolding check_arms_def by (elim bind_resE) (simp add: fold_check_ok)
  have layers: "has_elements (JList layers)"
    if "arm \<in> set ds" "get_or_null arm ''recursive_layers'' = JList layers" for arm layers
    using checked that check_arm_elements [of arm] by fastforce
  show ?case unfolding plan_elements_def using fields controls arms layers by auto
qed

text \<open>The layers of the arms of a changed plan are those of arms of the plan.\<close>

lemma plan_elements_arms:
  assumes "plan_elements plan" and "get_or_null plan ''architecture_arms'' = JList arms"
    and "\<And>arm. JObj arm \<in> set arms' \<Longrightarrow>
      \<exists>arm0. JObj arm0 \<in> set arms \<and> get_or_null arm0 ''recursive_layers'' = get_or_null arm ''recursive_layers''"
  shows "plan_elements (dict_set ''architecture_arms'' (JList arms') plan)"
proof -
  have "has_elements (JList layers)"
    if "JObj arm \<in> set arms'" "get_or_null arm ''recursive_layers'' = JList layers" for arm layers
    using assms(3) [OF that(1)] that(2) assms(1,2) unfolding plan_elements_def by metis
  then show ?thesis using assms(1) unfolding plan_elements_def
    by (simp add: dict_get_set member_fields_def)
qed

lemma plan_elements_other:
  assumes "plan_elements plan"
    and "t \<in> set [''immutable_authority'', ''selection_rule'', ''claim_boundary'']"
  shows "plan_elements (dict_set t v plan)"
proof -
  from assms(2) consider "t = ''immutable_authority''" | "t = ''selection_rule''" | "t = ''claim_boundary''"
    by auto
  then show ?thesis
    using assms(1) unfolding plan_elements_def by cases (simp_all add: dict_get_set member_fields_def)
qed

definition study_mutations :: "string list" where
  "study_mutations = [''evaluator-authority'', ''in-place-mutation'', ''missing-control'', ''duplicate-arm'',
     ''aggregate-overrides-gate'', ''promotion-authorized'']"

lemma get_or_null_present: "get_or_null d k = v \<Longrightarrow> v \<noteq> JNull \<Longrightarrow> obj_at d k = Inr v"
  by (auto simp: get_or_null_def split: option.splits)

lemma flag_fixture:
  assumes "plan_elements plan" and "get_or_null plan t = JObj d"
    and "t \<in> set [''immutable_authority'', ''selection_rule'', ''claim_boundary'']"
  shows "\<exists>q. change_key t (assign_key k (JBool True)) (JObj plan) = Inr (JObj q) \<and> plan_elements q"
  using plan_elements_other [OF assms(1,3)] get_or_null_present [OF assms(2)]
  by (simp add: change_key_def assign_key_def)

lemma arms_fixture:
  assumes "plan_elements plan" and "get_or_null plan ''architecture_arms'' = JList arms"
    and "f (JList arms) = Inr (JList arms')"
    and "\<And>arm. JObj arm \<in> set arms' \<Longrightarrow>
      \<exists>arm0. JObj arm0 \<in> set arms \<and> get_or_null arm0 ''recursive_layers'' = get_or_null arm ''recursive_layers''"
  shows "\<exists>q. change_key ''architecture_arms'' f (JObj plan) = Inr (JObj q) \<and> plan_elements q"
  using plan_elements_arms [OF assms(1,2,4)] get_or_null_present [OF assms(2)] assms(3)
  by (simp add: change_key_def)

lemma list_at_first_two: "1 < length xs \<Longrightarrow> list_at xs 0 = Inr (xs ! 0) \<and> list_at xs 1 = Inr (xs ! 1)"
  by (auto simp: list_at_def)

text \<open>A list of arms in which the second has got another value of a key that is not its layers.\<close>

lemma replaced_arm:
  assumes "JObj arm \<in> set ((map JObj ds)[1 := JObj (dict_set k v (ds ! 1))])"
    and "k \<noteq> ''recursive_layers''" and "1 < length ds"
  shows "\<exists>arm0. JObj arm0 \<in> set (map JObj ds) \<and>
    get_or_null arm0 ''recursive_layers'' = get_or_null arm ''recursive_layers''"
proof -
  from set_update_subset_insert [THEN subsetD, OF assms(1)]
  have "arm = dict_set k v (ds ! 1) \<or> JObj arm \<in> set (map JObj ds)" by auto
  then show ?thesis
  proof
    assume "arm = dict_set k v (ds ! 1)"
    then have "get_or_null (ds ! 1) ''recursive_layers'' = get_or_null arm ''recursive_layers''"
      using assms(2) by auto
    moreover have "JObj (ds ! 1) \<in> set (map JObj ds)" using nth_mem [OF assms(3)] by simp
    ultimately show ?thesis by blast
  qed blast
qed

lemma accepted_fixture:
  assumes "validate_study plan = Inr ()" and "mutation \<in> set study_mutations"
  shows "\<exists>q. mutated_plan plan mutation = Inr (JObj q) \<and> plan_elements q"
proof -
  note elements = accepted_elements [OF assms(1)]
  from validate_study_ok [OF assms(1)] obtain ds where ok: "plan_ok plan ds" by blast
  then have arms: "get_or_null plan ''architecture_arms'' = JList (map JObj ds)"
    and len: "1 < length ds" and ids: "\<forall>arm \<in> set ds. \<exists>s. get_or_null arm ''id'' = JStr s"
    by (auto simp: plan_ok_def arms_of_def)
  have second: "list_at (map JObj ds) 0 = Inr (JObj (ds ! 0))" "list_at (map JObj ds) 1 = Inr (JObj (ds ! 1))"
    using list_at_first_two [of "map JObj ds"] len nth_map [OF less_trans [OF zero_less_one len], of JObj] by auto
  have item: "item_of (JObj arm) ''id'' = Inr (get_or_null arm ''id'')" if "arm \<in> set ds" for arm
  proof -
    from ids that obtain s where s: "get_or_null arm ''id'' = JStr s" by blast
    from get_or_null_present [OF s] s show ?thesis by (simp add: item_of_def)
  qed
  from ok obtain a r c where "get_or_null plan ''immutable_authority'' = JObj a"
    "get_or_null plan ''selection_rule'' = JObj r" "get_or_null plan ''claim_boundary'' = JObj c"
    unfolding plan_ok_def by blast
  note flags = this [THEN flag_fixture [OF elements]]
  have in_place: "in_place_mutation (JList (map JObj ds)) =
      Inr (JList ((map JObj ds)[1 := JObj (dict_set ''in_place_mutation_after_evaluation'' (JBool True) (ds ! 1))]))"
    by (simp add: in_place_mutation_def second assign_key_def)
  have duplicate: "duplicate_arm (JList (map JObj ds)) =
      Inr (JList ((map JObj ds)[1 := JObj (dict_set ''id'' (get_or_null (ds ! 0) ''id'') (ds ! 1))]))"
    using item [OF nth_mem [OF less_trans [OF zero_less_one len]]] by (simp add: duplicate_arm_def second assign_key_def)
  have ids': "map_res (\<lambda>arm. item_of arm ''id'') (map JObj ds) = Inr (map (\<lambda>d. get_or_null d ''id'') ds)"
    using item by (auto simp: map_res_eq_Inr list_all2_map1 list_all2_map2 list_all2_same)
  obtain kept where missing: "missing_control (JList (map JObj ds)) = Inr (JList kept)" "set kept \<subseteq> set (map JObj ds)"
  proof -
    let ?kept = "map fst (filter (\<lambda>(arm, i). i \<noteq> JStr ''shuffled-feedback-control'')
      (zip (map JObj ds) (map (\<lambda>d. get_or_null d ''id'') ds)))"
    have "set ?kept \<subseteq> set (map JObj ds)" using set_zip_leftD by fastforce
    then show thesis using that [of ?kept] ids' by (simp add: missing_control_def)
  qed
  show ?thesis
  proof -
    consider "mutation = ''evaluator-authority''" | "mutation = ''in-place-mutation''"
      | "mutation = ''missing-control''" | "mutation = ''duplicate-arm''"
      | "mutation = ''aggregate-overrides-gate''" | "mutation = ''promotion-authorized''"
      using assms(2) unfolding study_mutations_def by (simp only: list.set insert_iff empty_iff) (elim disjE FalseE)
    then show ?thesis
    proof cases
      case 2 show ?thesis
        unfolding 2 mutated_plan_def
        using arms_fixture [OF elements arms, of in_place_mutation, OF in_place replaced_arm] len by simp
    next
      case 3
      have "\<exists>arm0. JObj arm0 \<in> set (map JObj ds) \<and>
          get_or_null arm0 ''recursive_layers'' = get_or_null arm ''recursive_layers''"
        if "JObj arm \<in> set kept" for arm
        using missing(2) that by blast
      from arms_fixture [OF elements arms, of missing_control, OF missing(1) this]
      show ?thesis unfolding 3 mutated_plan_def by simp
    next
      case 4 show ?thesis
        unfolding 4 mutated_plan_def
        using arms_fixture [OF elements arms, of duplicate_arm, OF duplicate replaced_arm] len by simp
    qed (use flags in \<open>simp_all add: mutated_plan_def\<close>)
  qed
qed

end
