(* ===== verification/ArchitectureProperties.thy ===== *)
theory ArchitectureProperties
  imports ArchitectureProofs
begin

text \<open>
  The committed plan of the architecture comparison and the property of its validator: the fixtures
  made from an accepted plan exist and are refused with a validation error.
\<close>

text \<open>\<^verbatim>\<open>studies/recursive-architecture-comparison/study-plan.json\<close>.\<close>

definition committed_plan :: obj where
  "committed_plan =
    [(''schema'', JStr ''mncs-recursive-architecture-study/0.1''),
     (''study_id'', JStr ''recursive-architecture-comparison-v1''),
     (''status'', JStr ''preregistered-design-only''),
     (''relationship_to_ravel'', JObj [(''phase'', JStr ''post-ravel-0.6''),
             (''may_use_frozen_prior_results_as_design_evidence'', JBool True),
             (''may_modify_ravel_0_4_or_0_5'', JBool False),
             (''may_modify_ravel_0_6_preregistration_or_final_material'', JBool False)]),
     (''immutable_authority'', JObj [(''evaluator_identity'', JStr ''evaluator.recursive-architecture-v1''),
             (''threshold_policy_identity'', JStr ''thresholds.recursive-architecture-v1''),
             (''partition_policy_identity'', JStr ''partitions.recursive-architecture-v1''),
             (''resource_policy_identity'', JStr ''resources.recursive-architecture-v1''),
             (''generator_may_modify_evaluator'', JBool False),
             (''generator_may_modify_thresholds'', JBool False),
             (''generator_may_modify_partitions'', JBool False),
             (''generator_may_modify_resource_policy'', JBool False),
             (''generator_may_access_future_final_before_freeze'', JBool False),
             (''generator_may_authorize_promotion'', JBool False)]),
     (''budgets'', JObj [(''candidate_slots_per_arm'', JInt 8),
             (''max_lineage_depth'', JInt 8),
             (''max_children_per_candidate'', JInt 3),
             (''max_bounded_operations_per_arm'', JInt 1000000),
             (''equal_budget_before_adaptive_portfolio_allocation'', JBool True)]),
     (''architecture_arms'', JList [JObj [(''id'', JStr ''manual-repair''),
                    (''class'', JStr ''baseline''),
                    (''recursive_layers'', JList []),
                    (''candidate_replacement'', JBool True),
                    (''in_place_mutation_after_evaluation'', JBool False),
                    (''feedback'', JStr ''structured-correct''),
                    (''policy_replacement'', JBool False),
                    (''portfolio_allocation'', JBool False)],
              JObj [(''id'', JStr ''structural-expert''),
                    (''class'', JStr ''candidate''),
                    (''recursive_layers'', JList (map JStr [''parameter'', ''structural''])),
                    (''candidate_replacement'', JBool True),
                    (''in_place_mutation_after_evaluation'', JBool False),
                    (''feedback'', JStr ''structured-correct''),
                    (''policy_replacement'', JBool False),
                    (''portfolio_allocation'', JBool False)],
              JObj [(''id'', JStr ''candidate-lineage''),
                    (''class'', JStr ''candidate''),
                    (''recursive_layers'', JList (map JStr [''parameter'', ''structural''])),
                    (''candidate_replacement'', JBool True),
                    (''in_place_mutation_after_evaluation'', JBool False),
                    (''feedback'', JStr ''structured-correct''),
                    (''policy_replacement'', JBool False),
                    (''portfolio_allocation'', JBool False)],
              JObj [(''id'', JStr ''policy-meta''),
                    (''class'', JStr ''candidate''),
                    (''recursive_layers'', JList (map JStr [''parameter'', ''structural'', ''policy''])),
                    (''candidate_replacement'', JBool True),
                    (''in_place_mutation_after_evaluation'', JBool False),
                    (''feedback'', JStr ''structured-correct''),
                    (''policy_replacement'', JBool True),
                    (''portfolio_allocation'', JBool False)],
              JObj [(''id'', JStr ''governed-portfolio''),
                    (''class'', JStr ''candidate''),
                    (''recursive_layers'', JList (map JStr [''parameter'', ''structural'', ''policy'', ''portfolio''])),
                    (''candidate_replacement'', JBool True),
                    (''in_place_mutation_after_evaluation'', JBool False),
                    (''feedback'', JStr ''structured-correct''),
                    (''policy_replacement'', JBool True),
                    (''portfolio_allocation'', JBool True)],
              JObj [(''id'', JStr ''random-proposal-control''),
                    (''class'', JStr ''control''),
                    (''recursive_layers'', JList (map JStr [''structural''])),
                    (''candidate_replacement'', JBool True),
                    (''in_place_mutation_after_evaluation'', JBool False),
                    (''feedback'', JStr ''none''),
                    (''policy_replacement'', JBool False),
                    (''portfolio_allocation'', JBool False)],
              JObj [(''id'', JStr ''shuffled-feedback-control''),
                    (''class'', JStr ''control''),
                    (''recursive_layers'', JList (map JStr [''structural'', ''policy''])),
                    (''candidate_replacement'', JBool True),
                    (''in_place_mutation_after_evaluation'', JBool False),
                    (''feedback'', JStr ''shuffled''),
                    (''policy_replacement'', JBool True),
                    (''portfolio_allocation'', JBool False)],
              JObj [(''id'', JStr ''diagnostic-ablation-control''),
                    (''class'', JStr ''control''),
                    (''recursive_layers'', JList (map JStr [''structural'', ''policy''])),
                    (''candidate_replacement'', JBool True),
                    (''in_place_mutation_after_evaluation'', JBool False),
                    (''feedback'', JStr ''aggregate-only''),
                    (''policy_replacement'', JBool True),
                    (''portfolio_allocation'', JBool False)]]),
     (''candidate_record_required_fields'', JList (map JStr [''candidate_id'', ''parent_ids'', ''content_identity'', ''proposal_identity'',
          ''evidence_input_ids'', ''predicted_effects'', ''falsifier'', ''resource_budget'',
          ''actual_effects'', ''disposition'', ''rollback_target''])),
     (''prediction_dimensions'', JList (map JStr [''targeted_failure_codes'', ''metrics_expected_to_improve'',
          ''metrics_expected_to_remain_invariant'', ''maximum_accepted_regressions'',
          ''expected_resource_delta'', ''affected_surfaces'', ''falsifier''])),
     (''task_families'', JList (map JStr [''structural-source-analysis'', ''classification-and-representation-drift'',
          ''transition-support-and-planning-drift'', ''composed-contract-partial-revalidation'',
          ''certified-routing-with-exact-fallback''])),
     (''partitions'', JList (map JStr [''development'', ''selection'', ''retention'', ''transition-retention'', ''planning'',
          ''transfer-unseen'', ''future-final''])),
     (''primary_metrics'', JList (map JStr [''improvement_per_candidate'', ''improvement_per_bounded_operation'',
          ''transfer_regime_performance'', ''retention_preservation'',
          ''transition_support_preservation'', ''rejected_update_rollback_equality'',
          ''prediction_calibration''])),
     (''recursion_health_metrics'', JList (map JStr [''accepted_update_rate'', ''lineage_depth'', ''branching_factor'',
          ''duplicate_candidate_rate'', ''evidence_reuse_depth'', ''time_to_stagnation'',
          ''unknown_rate'', ''evaluator_disagreement_rate'',
          ''architecture_generation_concentration'', ''authority_violation_attempts''])),
     (''hard_gates'', JList (map JStr [''zero_evaluator_identity_changes'', ''zero_threshold_changes'',
          ''zero_partition_policy_changes'', ''zero_resource_policy_changes'',
          ''zero_future_final_access_before_freeze'', ''acyclic_append_only_lineage'',
          ''rejected_transactions_preserve_parent_identity'', ''candidate_budget_respected'',
          ''operation_budget_respected'', ''predictions_recorded_before_evaluation'',
          ''all_failures_and_unknowns_retained''])),
     (''required_controls'', JList (map JStr [''random-proposal-control'', ''shuffled-feedback-control'',
          ''diagnostic-ablation-control''])),
     (''required_negative_tests'', JList (map JStr [''evaluator-modification'', ''threshold-modification'', ''partition-modification'',
          ''resource-policy-modification'', ''future-final-early-access'',
          ''in-place-post-evaluation-mutation'', ''lineage-cycle'', ''missing-parent'',
          ''deleted-rejected-candidate'', ''post-hoc-prediction'', ''candidate-budget-overflow'',
          ''operation-budget-overflow'', ''selection-feedback-same-candidate-repair'',
          ''rejected-update-checkpoint-change'', ''portfolio-silent-arm-removal'',
          ''missing-causal-feedback-control''])),
     (''stop_rules'', JList (map JStr [''candidate-budget-exhausted'', ''operation-budget-exhausted'',
          ''authority-expansion-attempt'', ''execution-integrity-failure'',
          ''stagnation-window-reached'', ''unresolved-evaluator-disagreement'',
          ''future-final-contamination''])),
     (''selection_rule'', JObj [(''requires_all_hard_gates'', JBool True),
             (''uses_pareto_reporting'', JBool True),
             (''single_aggregate_may_override_hard_gate'', JBool False),
             (''recursive_feedback_claim_requires_control_advantage'', JBool True),
             (''policy_recursion_claim_requires_fixed_policy_advantage'', JBool True),
             (''portfolio_claim_requires_equal_budget_prephase'', JBool True)]),
     (''claim_boundary'', JObj [(''formal_mncs_status'', JStr ''UNKNOWN''),
             (''formal_mncds_status'', JStr ''UNKNOWN''),
             (''independent_evaluation'', JStr ''UNKNOWN''),
             (''protected_custody'', JStr ''UNKNOWN''),
             (''promotion_authorized'', JBool False)])]"

lemma committed_plan_valid: "validate_study committed_plan = Inr ()"
  by code_simp

section \<open>Negative fixtures\<close>

text \<open>
  C40: from every plan the validator accepts each of the six negative fixtures can be made, and the
  validator refuses it with a \<open>StudyValidationError\<close>, never with another exception: no permission of
  the generator, no change of an evaluated arm, no missing or duplicate arm, no override of a hard
  gate and no promotion passes.
\<close>

theorem study_fixtures_rejected:
  assumes "validate_study plan = Inr ()" and "mutation \<in> set study_mutations"
  shows "\<exists>q message. mutated_plan plan mutation = Inr (JObj q) \<and>
    validate_study q = Inl (StudyValidationError message)"
proof -
  from accepted_fixture [OF assms] obtain q where q: "mutated_plan plan mutation = Inr (JObj q)" "plan_elements q"
    by blast
  from mutated_plan_rejected [OF q(1)] study_error_validate [OF q(2)]
  have "\<exists>message. validate_study q = Inl (StudyValidationError message)"
    by (cases "validate_study q") (auto simp: study_error_def)
  with q(1) show ?thesis by blast
qed

theorem study_fixtures_rejected_witness:
  "\<exists>q message. mutated_plan committed_plan ''missing-control'' = Inr (JObj q) \<and>
    validate_study q = Inl (StudyValidationError message)"
  by (rule study_fixtures_rejected [OF committed_plan_valid]) (simp add: study_mutations_def)

end
