(* ===== verification/IntegrationStudy.thy ===== *)
theory IntegrationStudy
  imports WaterController PyCollections
begin

text \<open>
  \<^verbatim>\<open>case-studies/edgestream-remote-water-integration/tools/run_study.py\<close>: telemetry samples are
  packed into EdgeStream frames, decoded by the EdgeStream program, put together again by
  \<open>EdgeStreamTelemetryAdapter\<close> and given to the water controller.  The EdgeStream program is compiled
  C and runs as another process: it is a parameter, from the bytes of the frames to the JSON
  records it prints.
\<close>

type_synonym byte = "8 word"

section \<open>Frames\<close>

text \<open>\<open>struct.pack\<close> of an integer into \<open>n\<close> little-endian bytes; a negative integer in two's complement.\<close>

fun le_bytes :: "nat \<Rightarrow> int \<Rightarrow> byte list" where
  "le_bytes 0 n = []"
| "le_bytes (Suc k) n = word_of_int n # le_bytes k (n div 256)"

definition pack_unsigned :: "nat \<Rightarrow> int \<Rightarrow> byte list res" where
  "pack_unsigned k n =
     (if 0 \<le> n \<and> n < 256 ^ k then Inr (le_bytes k n) else Inl StructError)"

definition pack_signed :: "nat \<Rightarrow> int \<Rightarrow> byte list res" where
  "pack_signed k n =
     (if - (256 ^ k) \<le> 2 * n \<and> 2 * n < 256 ^ k then Inr (le_bytes k n) else Inl StructError)"

text \<open>\<open>zlib.crc32\<close>: the reflected CRC-32, bit by bit.\<close>

definition crc_bit :: "32 word \<Rightarrow> 32 word" where
  "crc_bit c = (if bit c 0 then xor (drop_bit 1 c) 0xEDB88320 else drop_bit 1 c)"

definition crc_byte :: "byte \<Rightarrow> 32 word \<Rightarrow> 32 word" where
  "crc_byte b c = (crc_bit ^^ 8) (xor c (ucast b))"

definition crc32 :: "byte list \<Rightarrow> 32 word" where
  "crc32 bs = not (fold crc_byte bs (not 0))"

definition frame_header :: "byte list" where
  "frame_header = [0xE5, 0x47, 1, 0] @ le_bytes 2 32"

definition build_frame :: "int \<Rightarrow> int \<Rightarrow> int \<Rightarrow> int \<Rightarrow> int \<Rightarrow> byte list res" where
  "build_frame device_id sequence timestamp_ms metric v =
     bind_res (pack_unsigned 4 device_id) (\<lambda>b1.
     bind_res (pack_unsigned 4 sequence) (\<lambda>b2.
     bind_res (pack_unsigned 8 timestamp_ms) (\<lambda>b3.
     bind_res (pack_unsigned 2 metric) (\<lambda>b4.
     bind_res (pack_signed 4 v) (\<lambda>b5.
       let payload = frame_header @ b1 @ b2 @ b3 @ b4 @ b5
       in Inr (payload @ le_bytes 4 (uint (crc32 payload))))))))"

section \<open>The adapter\<close>

record adapter =
  ea_device_id :: int
  ea_last_sequence :: int
  ea_pending :: "(int, (int, int) dict) dict"

definition EdgeStreamTelemetryAdapter :: "int \<Rightarrow> adapter" where
  "EdgeStreamTelemetryAdapter device_id =
     \<lparr>ea_device_id = device_id, ea_last_sequence = 0, ea_pending = []\<rparr>"

definition QUALITY_CODES :: "(int, quality) dict" where
  "QUALITY_CODES = [(0, GOOD), (1, STALE), (2, CONFLICT)]"

definition METRICS :: "int set" where
  "METRICS = {0, 1, 2, 3}"

text \<open>\<open>n / 1000.0\<close>\<close>

definition from_milli :: "int \<Rightarrow> pyfloat res" where
  "from_milli n = bind_res (float_of_int n) (\<lambda>x. fdiv x (Fin 1000))"

text \<open>The sample of one timestamp, from the values of its four metrics.\<close>

definition complete_sample :: "int \<Rightarrow> (int, int) dict \<Rightarrow> telemetry_sample res" where
  "complete_sample timestamp_ms values =
     bind_res (dict_at ''3'' values 3) (\<lambda>quality_code.
     case dict_get QUALITY_CODES quality_code of
       None \<Rightarrow> Inl (ValueError (''unsupported telemetry quality code '' @ int_str quality_code))
     | Some q \<Rightarrow>
       bind_res (dict_at ''2'' values 2) (\<lambda>power.
       if power \<notin> {0, 1} then Inl (ValueError (''unsupported power code '' @ int_str power))
       else
         bind_res (bind_res (dict_at ''0'' values 0) from_milli) (\<lambda>level.
         bind_res (bind_res (dict_at ''1'' values 1) from_milli) (\<lambda>demand.
           Inr \<lparr>observed_at_s = timestamp_ms div 1000, received_at_s = timestamp_ms div 1000,
                tank_level_pct = level, demand_lps = demand, power_available = (power = 1),
                sample_quality = q\<rparr>))))"

text \<open>The values of a timestamp, with a new one.\<close>

definition add_metric :: "adapter \<Rightarrow> int \<Rightarrow> int \<Rightarrow> int res \<Rightarrow> (int, int) dict res" where
  "add_metric a timestamp_ms metric milli =
     (let values = (case dict_get (ea_pending a) timestamp_ms of None \<Rightarrow> [] | Some d \<Rightarrow> d) in
      if metric \<in> set (dict_keys values)
      then Inl (ValueError ''duplicate metric for one telemetry timestamp'')
      else bind_res milli (\<lambda>n. Inr (dict_set metric n values)))"

text \<open>\<open>accept\<close>; nobody uses an adapter after it has raised.\<close>

definition accept :: "adapter \<Rightarrow> obj \<Rightarrow> (telemetry_sample option \<times> adapter) res" where
  "accept a rec =
     (if get_or_null rec ''type'' \<noteq> JStr ''event'' then Inr (None, a)
      else
      bind_res (bind_res (obj_at rec ''device'') to_int) (\<lambda>device.
      if device \<noteq> ea_device_id a
      then Inl (ValueError ''mixed-device telemetry is outside this adapter contract'')
      else
      bind_res (to_int (case dict_get rec ''sequence'' of None \<Rightarrow> JInt 0 | Some v \<Rightarrow> v)) (\<lambda>sequence.
      if sequence \<le> ea_last_sequence a
      then Inl (ValueError ''EdgeStream sequence must increase strictly'')
      else
      bind_res (bind_res (obj_at rec ''metric'') to_int) (\<lambda>metric.
      if metric \<notin> METRICS
      then Inl (ValueError (''unsupported EdgeStream metric '' @ int_str metric))
      else
      bind_res (bind_res (obj_at rec ''timestamp'') to_int) (\<lambda>timestamp_ms.
      bind_res (add_metric a timestamp_ms metric (bind_res (obj_at rec ''value_milli'') to_int)) (\<lambda>values.
      let a' = a\<lparr>ea_last_sequence := sequence\<rparr> in
      if set (dict_keys values) \<noteq> METRICS
      then Inr (None, a'\<lparr>ea_pending := dict_set timestamp_ms values (ea_pending a)\<rparr>)
      else
      bind_res (complete_sample timestamp_ms values) (\<lambda>sample.
        Inr (Some sample, a'\<lparr>ea_pending := dict_del timestamp_ms (ea_pending a)\<rparr>))))))))"

text \<open>\<open>[sample for record in event_records if (sample := adapter.accept(record))]\<close>\<close>

fun adapt :: "adapter \<Rightarrow> obj list \<Rightarrow> (telemetry_sample list \<times> adapter) res" where
  "adapt a [] = Inr ([], a)"
| "adapt a (rec # recs) =
     bind_res (accept a rec) (\<lambda>(sample, a').
     bind_res (adapt a' recs) (\<lambda>(samples, a'').
       Inr ((case sample of None \<Rightarrow> samples | Some s \<Rightarrow> s # samples), a'')))"

section \<open>Rejections\<close>

definition base_record :: obj where
  "base_record =
     [(''type'', JStr ''event''), (''device'', JInt 7), (''sequence'', JInt 1),
      (''timestamp'', JInt 1000000), (''metric'', JInt 0), (''value_milli'', JInt 45000)]"

text \<open>\<open>{**base, ...}\<close>\<close>

definition with_fields :: "(string \<times> json) list \<Rightarrow> obj" where
  "with_fields changes = fold (\<lambda>(k, v) d. dict_set k v d) changes base_record"

definition metric_record :: "int \<Rightarrow> int \<Rightarrow> int \<Rightarrow> obj" where
  "metric_record sequence metric milli =
     with_fields [(''sequence'', JInt sequence), (''metric'', JInt metric), (''value_milli'', JInt milli)]"

text \<open>\<open>try: .. except ValueError\<close>: whether the block was rejected.\<close>

fun rejected :: "'a res \<Rightarrow> bool res" where
  "rejected (Inr x) = Inr False"
| "rejected (Inl (ValueError message)) = Inr True"
| "rejected (Inl e) = Inl e"

definition rejection_checks :: "(string, bool) dict res" where
  "rejection_checks =
     bind_res (accept (EdgeStreamTelemetryAdapter 7) base_record) (\<lambda>(_, replay).
     bind_res (rejected (accept replay (with_fields [(''metric'', JInt 1)]))) (\<lambda>replay_rejected.
     bind_res (rejected (accept (EdgeStreamTelemetryAdapter 7) (with_fields [(''device'', JInt 8)])))
       (\<lambda>mixed_device_rejected.
     bind_res (accept (EdgeStreamTelemetryAdapter 7) base_record) (\<lambda>(_, duplicate_metric).
     bind_res (rejected (accept duplicate_metric (with_fields [(''sequence'', JInt 2)])))
       (\<lambda>duplicate_metric_rejected.
     bind_res (rejected (adapt (EdgeStreamTelemetryAdapter 7)
       [metric_record 1 0 45000, metric_record 2 1 3000, metric_record 3 2 2, metric_record 4 3 0]))
       (\<lambda>invalid_power_rejected.
     bind_res (rejected (adapt (EdgeStreamTelemetryAdapter 7)
       [metric_record 1 0 45000, metric_record 2 1 3000, metric_record 3 2 1, metric_record 4 3 9]))
       (\<lambda>invalid_quality_rejected.
       Inr [(''replayed_sequence_rejected'', replay_rejected),
            (''mixed_device_rejected'', mixed_device_rejected),
            (''duplicate_metric_rejected'', duplicate_metric_rejected),
            (''invalid_power_rejected'', invalid_power_rejected),
            (''invalid_quality_rejected'', invalid_quality_rejected)])))))))"

section \<open>The study\<close>

definition study_samples :: "telemetry_sample list" where
  "study_samples =
     map (\<lambda>(t, level, demand, q). \<lparr>observed_at_s = t, received_at_s = t, tank_level_pct = Fin level,
         demand_lps = Fin demand, power_available = True, sample_quality = q\<rparr>)
       [(1000, 45, 3, GOOD), (1060, 38, 5, GOOD), (1120, 38, 5, STALE), (1180, 92, 2, GOOD)]"

text \<open>\<open>round(x)\<close> to an integer.\<close>

fun round_float :: "pyfloat \<Rightarrow> int res" where
  "round_float (Fin q) = Inr (round_half_even q)"
| "round_float NaN = Inl (ValueError ''cannot convert float NaN to integer'')"
| "round_float _ = Inl OverflowError"

definition quality_value :: "quality \<Rightarrow> int" where
  "quality_value q = (case q of GOOD \<Rightarrow> 0 | STALE \<Rightarrow> 1 | CONFLICT \<Rightarrow> 2)"

definition encoded_values :: "telemetry_sample \<Rightarrow> int list res" where
  "encoded_values sample =
     bind_res (round_float (tank_level_pct sample * Fin 1000)) (\<lambda>level.
     bind_res (round_float (demand_lps sample * Fin 1000)) (\<lambda>demand.
       Inr [level, demand, (if power_available sample then 1 else 0), quality_value (sample_quality sample)]))"

text \<open>The frames of a sample: their device, sequence, timestamp, metric and value.\<close>

type_synonym reading = "int \<times> int \<times> int \<times> int \<times> int"

definition sample_readings :: "reading list \<Rightarrow> telemetry_sample \<Rightarrow> reading list res" where
  "sample_readings readings sample =
     bind_res (encoded_values sample) (\<lambda>vs.
       Inr (readings @ map (\<lambda>(metric, v).
         (7, 1 + int (length readings) + int metric, observed_at_s sample * 1000, int metric, v))
         (enumerate 0 vs)))"

definition frame_of :: "reading \<Rightarrow> byte list res" where
  "frame_of = (\<lambda>(device, sequence, timestamp_ms, metric, v).
     build_frame device sequence timestamp_ms metric v)"

definition is_event :: "json \<Rightarrow> bool res" where
  "is_event rec = (case rec of
     JObj d \<Rightarrow> Inr (get_or_null d ''type'' = JStr ''event'')
   | _ \<Rightarrow> Inl (AttributeError ''get''))"

definition event_records :: "json list \<Rightarrow> obj list res" where
  "event_records recs =
     bind_res (map_res is_event recs) (\<lambda>flags.
       Inr (concat (map (\<lambda>(rec, event). case rec of JObj d \<Rightarrow> if event then [d] else [] | _ \<Rightarrow> [])
         (zip recs flags))))"

text \<open>The decisions of a new controller on the samples.\<close>

definition decide_on ::
  "authorized_intent list \<times> controller \<Rightarrow> telemetry_sample \<Rightarrow> (authorized_intent list \<times> controller) res" where
  "decide_on = (\<lambda>(intents, c) sample.
     bind_res (decide c sample (received_at_s sample)) (\<lambda>(intent, c'). Inr (intents @ [intent], c')))"

definition decide_all :: "telemetry_sample list \<Rightarrow> (authorized_intent list \<times> controller) res" where
  "decide_all samples =
     fold_res decide_on ([], Controller GeneratedTablePlanner None None None None) samples"

text \<open>\<open>all(not item[k] for item in items)\<close> stops at the first true value.\<close>

fun none_true :: "string \<Rightarrow> json list \<Rightarrow> bool res" where
  "none_true k [] = Inr True"
| "none_true k (x # xs) = bind_res (item x k) (\<lambda>v. if truthy v then Inr False else none_true k xs)"

definition boundary_checks :: "obj \<Rightarrow> (string, bool) dict res" where
  "boundary_checks boundary =
     bind_res (bind_res (obj_at boundary ''component_boundaries'') iterate) (\<lambda>components.
     bind_res (none_true ''copied_or_rewritten_by_integration'' components) (\<lambda>separate.
     bind_res (map_res (\<lambda>x. item x ''component_id'') components) (\<lambda>ids.
     bind_res (set_elements (JList ids)) (\<lambda>vs.
     bind_res (bind_res (obj_at boundary ''claim_boundary'') (\<lambda>claims.
       item claims ''integration_pass_promotes_component_claims'')) (\<lambda>promotes.
       Inr [(''component_evidence_separate'', separate),
            (''distinct_component_identities'', all_different vs),
            (''claim_promotion_forbidden'', \<not> truthy promotes)])))))"

record integration_result =
  ir_study_id :: json
  ir_status :: string
  ir_checks :: "(string, bool) dict"
  ir_frame_count :: int
  ir_edge_record_count :: int
  ir_edge_event_count :: int
  ir_adapted_sample_count :: int
  ir_intervention_counts :: "(string, int) dict"
  ir_authorized_intents :: string

definition integration_checks ::
  "obj \<Rightarrow> telemetry_sample list \<Rightarrow> obj list \<Rightarrow> telemetry_sample list \<Rightarrow>
   (authorized_intent list \<times> controller) \<Rightarrow> (authorized_intent list \<times> controller) \<Rightarrow> (string, bool) dict res" where
  "integration_checks boundary samples events adapted direct adapted_run =
     bind_res (boundary_checks boundary) (\<lambda>boundaries.
     bind_res rejection_checks (\<lambda>rejections.
       Inr ([(''edge_events_complete'', length events = length samples * 4),
             (''adapter_sample_count'', length adapted = length samples),
             (''adapted_samples_equal_direct_samples'', adapted = samples),
             (''authorized_intents_equal'',
                map intent_as_dict (fst adapted_run) = map intent_as_dict (fst direct)),
             (''journal_tail_equal'',
                jn_tail_hash (ct_journal (snd adapted_run)) = jn_tail_hash (ct_journal (snd direct)))]
            @ boundaries @ rejections)))"

text \<open>\<open>run\<close>; \<open>edgestream\<close> is the program between the frames and the records.\<close>

definition integration_run :: "(byte list \<Rightarrow> json list res) \<Rightarrow> obj \<Rightarrow> integration_result res" where
  "integration_run edgestream boundary =
     (let samples = study_samples in
      bind_res (fold_res sample_readings [] samples) (\<lambda>readings.
      bind_res (map_res frame_of readings) (\<lambda>frames.
      bind_res (edgestream (concat frames)) (\<lambda>recs.
      bind_res (event_records recs) (\<lambda>events.
      bind_res (adapt (EdgeStreamTelemetryAdapter 7) events) (\<lambda>(adapted, a).
      if ea_pending a \<noteq> []
      then Inl (RuntimeError ''EdgeStream output ended with incomplete telemetry sample state'')
      else
      bind_res (decide_all samples) (\<lambda>direct.
      bind_res (decide_all adapted) (\<lambda>adapted_run.
      bind_res (integration_checks boundary samples events adapted direct adapted_run) (\<lambda>checks.
      bind_res (obj_at boundary ''integration_id'') (\<lambda>study_id.
        Inr \<lparr>ir_study_id = study_id,
             ir_status = (if list_all snd checks then ''PASS'' else ''FAIL''),
             ir_checks = checks, ir_frame_count = int (length frames),
             ir_edge_record_count = int (length recs), ir_edge_event_count = int (length events),
             ir_adapted_sample_count = int (length adapted),
             ir_intervention_counts = ct_counts (snd adapted_run),
             ir_authorized_intents = ''sha256:'' @
               sha256 (json_dumps (JList (map intent_as_dict (fst adapted_run))))\<rparr>))))))))))"

end
