(* ===== verification/IntegrationProofs.thy ===== *)
theory IntegrationProofs
  imports IntegrationStudy WaterControllerProofs
begin

text \<open>
  The adapter between the two components: it rebuilds exactly the samples whose frames it is given,
  and every sample it emits is made of four reported values.
\<close>

section \<open>Records\<close>

text \<open>A record that reports a reading; it may have other members.\<close>

definition is_reading :: "obj \<Rightarrow> reading \<Rightarrow> bool" where
  "is_reading rec = (\<lambda>(device, sequence, timestamp_ms, metric, v).
     dict_get rec ''type'' = Some (JStr ''event'') \<and> dict_get rec ''device'' = Some (JInt device) \<and>
     dict_get rec ''sequence'' = Some (JInt sequence) \<and>
     dict_get rec ''timestamp'' = Some (JInt timestamp_ms) \<and>
     dict_get rec ''metric'' = Some (JInt metric) \<and> dict_get rec ''value_milli'' = Some (JInt v))"

definition pending_at :: "adapter \<Rightarrow> int \<Rightarrow> (int, int) dict" where
  "pending_at a timestamp_ms = (case dict_get (ea_pending a) timestamp_ms of None \<Rightarrow> [] | Some d \<Rightarrow> d)"

lemma accept_reading:
  assumes "is_reading rec (device, sequence, timestamp_ms, metric, v)"
    and "device = ea_device_id a" and "ea_last_sequence a < sequence" and "metric \<in> METRICS"
    and "metric \<notin> set (dict_keys (pending_at a timestamp_ms))"
  shows "accept a rec =
     (let values = dict_set metric v (pending_at a timestamp_ms);
          a' = a\<lparr>ea_last_sequence := sequence\<rparr> in
      if set (dict_keys values) \<noteq> METRICS
      then Inr (None, a'\<lparr>ea_pending := dict_set timestamp_ms values (ea_pending a)\<rparr>)
      else bind_res (complete_sample timestamp_ms values) (\<lambda>sample.
        Inr (Some sample, a'\<lparr>ea_pending := dict_del timestamp_ms (ea_pending a)\<rparr>)))"
  using assms by (simp add: accept_def is_reading_def add_metric_def pending_at_def Let_def)

lemma adapt_append:
  "adapt a (xs @ ys) =
     bind_res (adapt a xs) (\<lambda>(s, a'). bind_res (adapt a' ys) (\<lambda>(t, a''). Inr (s @ t, a'')))"
proof (induction xs arbitrary: a)
  case Nil
  then show ?case by (cases "adapt a ys") (auto split: prod.splits)
next
  case (Cons x xs)
  show ?case
    by (cases "accept a x") (auto simp: Cons bind_res_def split: sum.splits prod.splits option.splits)
qed

section \<open>Samples that survive the encoding\<close>

text \<open>Both quantities are thousandths, and the sample is received when it is observed.\<close>

definition restorable :: "telemetry_sample \<Rightarrow> bool" where
  "restorable s \<longleftrightarrow> received_at_s s = observed_at_s s \<and>
     bind_res (round_float (tank_level_pct s * Fin 1000)) from_milli = Inr (tank_level_pct s) \<and>
     bind_res (round_float (demand_lps s * Fin 1000)) from_milli = Inr (demand_lps s)"

lemma quality_code [simp]: "dict_get QUALITY_CODES (quality_value q) = Some q"
  by (cases q) (simp_all add: QUALITY_CODES_def quality_value_def)

lemma complete_restores:
  assumes "restorable s" and "encoded_values s = Inr [l, d, p, q]"
  shows "complete_sample (observed_at_s s * 1000) [(0, l), (1, d), (2, p), (3, q)] = Inr s"
proof -
  from assms(2) have parts: "round_float (tank_level_pct s * Fin 1000) = Inr l"
    "round_float (demand_lps s * Fin 1000) = Inr d" "p = (if power_available s then 1 else 0)"
    "q = quality_value (sample_quality s)"
    by (auto simp: encoded_values_def bind_res_eq_Inr)
  with assms(1) have "from_milli l = Inr (tank_level_pct s)" "from_milli d = Inr (demand_lps s)"
    "received_at_s s = observed_at_s s" by (simp_all add: restorable_def)
  with parts show ?thesis by (simp add: complete_sample_def)
qed

text \<open>An adapter between two samples.\<close>

definition idle :: "adapter \<Rightarrow> int \<Rightarrow> bool" where
  "idle a sequence \<longleftrightarrow> ea_device_id a = 7 \<and> ea_last_sequence a = sequence \<and> ea_pending a = []"

lemma adapt_sample:
  assumes a: "idle a n" and "restorable s" and vs: "encoded_values s = Inr [l, d, p, q]"
    and rs: "is_reading r0 (7, n + 1, observed_at_s s * 1000, 0, l)"
      "is_reading r1 (7, n + 2, observed_at_s s * 1000, 1, d)"
      "is_reading r2 (7, n + 3, observed_at_s s * 1000, 2, p)"
      "is_reading r3 (7, n + 4, observed_at_s s * 1000, 3, q)"
  shows "\<exists>a'. adapt a [r0, r1, r2, r3] = Inr ([s], a') \<and> idle a' (n + 4)"
proof -
  let ?t = "observed_at_s s * 1000"
  let ?a = "\<lambda>k vs. a\<lparr>ea_last_sequence := k, ea_pending := [(?t, vs)]\<rparr>"
  have "3 \<in> METRICS" by (simp add: METRICS_def)
  then have "S \<noteq> METRICS" if "3 \<notin> S" for S using that by blast
  then have some: "{0} \<noteq> METRICS" "{0, 1} \<noteq> METRICS" "{0, 1, 2} \<noteq> METRICS" by simp_all
  have all: "{0, 1, 2, 3} = METRICS" by (simp add: METRICS_def)
  have r0: "accept a r0 = Inr (None, ?a (n + 1) [(0, l)])"
    using accept_reading [OF rs(1), of a] a some(1)
    by (simp add: idle_def pending_at_def METRICS_def Let_def)
  have r1: "accept (?a (n + 1) [(0, l)]) r1 = Inr (None, ?a (n + 2) [(0, l), (1, d)])"
    using accept_reading [OF rs(2), of "?a (n + 1) [(0, l)]"] a some(2)
    by (simp add: idle_def pending_at_def METRICS_def Let_def insert_commute)
  have r2: "accept (?a (n + 2) [(0, l), (1, d)]) r2 = Inr (None, ?a (n + 3) [(0, l), (1, d), (2, p)])"
    using accept_reading [OF rs(3), of "?a (n + 2) [(0, l), (1, d)]"] a some(3)
    by (simp add: idle_def pending_at_def METRICS_def Let_def insert_commute)
  have r3: "accept (?a (n + 3) [(0, l), (1, d), (2, p)]) r3 =
      Inr (Some s, a\<lparr>ea_last_sequence := n + 4, ea_pending := []\<rparr>)"
    using accept_reading [OF rs(4), of "?a (n + 3) [(0, l), (1, d), (2, p)]"] a all
      complete_restores [OF assms(2) vs]
    by (simp add: idle_def pending_at_def METRICS_def Let_def insert_commute AList.delete_eq)
  show ?thesis
    using a by (simp add: r0 r1 r2 r3 idle_def)
qed

section \<open>A whole transmission\<close>

lemma enumerate_values: "enumerate 0 [l, d, p, q] = [(0, l), (1, d), (2, p), (3, q)]"
  by (simp add: numeral_3_eq_3 numeral_2_eq_2)

lemma encoded_four: "encoded_values s = Inr vs \<Longrightarrow> \<exists>l d p q. vs = [l, d, p, q]"
  by (auto simp: encoded_values_def bind_res_eq_Inr)

lemma sample_readings_ok:
  assumes "sample_readings readings s = Inr readings'" and "n = int (length readings)"
  obtains l d p q where "encoded_values s = Inr [l, d, p, q]"
    and "readings' = readings @
      [(7, n + 1, observed_at_s s * 1000, 0, l), (7, n + 2, observed_at_s s * 1000, 1, d),
       (7, n + 3, observed_at_s s * 1000, 2, p), (7, n + 4, observed_at_s s * 1000, 3, q)]"
proof -
  from assms(1) obtain vs where vs: "encoded_values s = Inr vs"
    by (auto simp: sample_readings_def bind_res_eq_Inr)
  with encoded_four obtain l d p q where "vs = [l, d, p, q]" by blast
  with vs assms show thesis
    by (intro that [of l d p q]) (simp_all add: sample_readings_def enumerate_values algebra_simps)
qed

lemma fold_readings_prefix:
  "fold_res sample_readings readings samples = Inr readings' \<Longrightarrow> \<exists>later. readings' = readings @ later"
proof (induction samples arbitrary: readings)
  case (Cons s samples)
  then obtain mid where mid: "sample_readings readings s = Inr mid"
    and rest: "fold_res sample_readings mid samples = Inr readings'" by (auto simp: bind_res_eq_Inr)
  from mid obtain m where "mid = readings @ m" by (auto simp: sample_readings_def bind_res_eq_Inr)
  with Cons.IH [OF rest] show ?case by auto
qed auto

lemma adapter_restores:
  assumes "fold_res sample_readings readings samples = Inr (readings @ new)"
    and "idle a (int (length readings))" and "list_all restorable samples"
    and "list_all2 is_reading events new"
  shows "\<exists>a'. adapt a events = Inr (samples, a') \<and> ea_pending a' = [] \<and>
    length new = 4 * length samples"
  using assms
proof (induction samples arbitrary: readings new a events)
  case Nil
  then show ?case by (auto simp: idle_def)
next
  case (Cons s samples)
  let ?n = "int (length readings)"
  from Cons.prems(1) obtain mid where mid: "sample_readings readings s = Inr mid"
    and rest: "fold_res sample_readings mid samples = Inr (readings @ new)"
    by (auto simp: bind_res_eq_Inr)
  from sample_readings_ok [OF mid refl] obtain l d p q where vs: "encoded_values s = Inr [l, d, p, q]"
    and mid': "mid = readings @ [(7, ?n + 1, observed_at_s s * 1000, 0, l), (7, ?n + 2, observed_at_s s * 1000, 1, d),
       (7, ?n + 3, observed_at_s s * 1000, 2, p), (7, ?n + 4, observed_at_s s * 1000, 3, q)]"
    by blast
  from fold_readings_prefix [OF rest] obtain later where "readings @ new = mid @ later" by blast
  with mid' have new: "new = [(7, ?n + 1, observed_at_s s * 1000, 0, l), (7, ?n + 2, observed_at_s s * 1000, 1, d),
       (7, ?n + 3, observed_at_s s * 1000, 2, p), (7, ?n + 4, observed_at_s s * 1000, 3, q)] @ later" by simp
  with Cons.prems(4) obtain r0 r1 r2 r3 es where events: "events = [r0, r1, r2, r3] @ es"
    and es: "list_all2 is_reading es later"
    and rs: "is_reading r0 (7, ?n + 1, observed_at_s s * 1000, 0, l)"
      "is_reading r1 (7, ?n + 2, observed_at_s s * 1000, 1, d)"
      "is_reading r2 (7, ?n + 3, observed_at_s s * 1000, 2, p)"
      "is_reading r3 (7, ?n + 4, observed_at_s s * 1000, 3, q)"
    by (auto simp: list_all2_Cons2)
  from adapt_sample [OF Cons.prems(2) _ vs rs] Cons.prems(3) obtain a' where
    a': "adapt a [r0, r1, r2, r3] = Inr ([s], a')" "idle a' (?n + 4)" by auto
  have "fold_res sample_readings mid samples = Inr (mid @ later)"
    using rest \<open>readings @ new = mid @ later\<close> by simp
  moreover have "idle a' (int (length mid))" using a'(2) mid' by (simp add: add.commute)
  ultimately obtain a'' where a'': "adapt a' es = Inr (samples, a'')" "ea_pending a'' = []"
    "length later = 4 * length samples"
    using Cons.IH [OF _ _ _ es] Cons.prems(3) by auto
  show ?case
    unfolding events adapt_append using a' a'' new by simp
qed

section \<open>Frames\<close>

text \<open>The inverse of \<open>le_bytes\<close>.\<close>

fun le_value :: "byte list \<Rightarrow> int" where
  "le_value [] = 0"
| "le_value (b # bs) = uint b + 256 * le_value bs"

lemma length_le_bytes [simp]: "length (le_bytes k n) = k"
  by (induction k arbitrary: n) auto

lemma le_value_bytes: "le_value (le_bytes k n) = n mod 256 ^ k"
proof (induction k arbitrary: n)
  case (Suc k)
  have "n mod (256 * 256 ^ k) = 256 * (n div 256 mod 256 ^ k) + n mod 256"
    by (rule zmod_zmult2_eq) simp
  with Suc show ?case by (simp add: uint_word_of_int take_bit_eq_mod)
qed simp

definition le_signed :: "byte list \<Rightarrow> int" where
  "le_signed bs = (let n = le_value bs in if 2 * n < 256 ^ length bs then n else n - 256 ^ length bs)"

lemma pack_unsigned_ok:
  "pack_unsigned k n = Inr bs \<Longrightarrow> length bs = k \<and> le_value bs = n"
  by (auto simp: pack_unsigned_def le_value_bytes split: if_splits)

lemma pack_signed_ok:
  assumes "pack_signed k n = Inr bs"
  shows "length bs = k \<and> le_signed bs = n"
proof -
  from assms have bs: "bs = le_bytes k n" and n: "- (256 ^ k) \<le> 2 * n" "2 * n < 256 ^ k"
    by (auto simp: pack_signed_def split: if_splits)
  have "n mod 256 ^ k = (if 0 \<le> n then n else n + 256 ^ k)"
  proof (cases "0 \<le> n")
    case False
    then have "(n + 256 ^ k) mod 256 ^ k = n + 256 ^ k" using n by (intro mod_pos_pos_trivial) auto
    with False show ?thesis by simp
  qed (use n in simp)
  with n show ?thesis by (auto simp: bs le_signed_def le_value_bytes Let_def)
qed

text \<open>A decoder of frames: what EdgeStream reports of undamaged ones.\<close>

definition event_object :: "reading \<Rightarrow> obj" where
  "event_object = (\<lambda>(device, sequence, timestamp_ms, metric, v).
     [(''type'', JStr ''event''), (''device'', JInt device), (''sequence'', JInt sequence),
      (''timestamp'', JInt timestamp_ms), (''metric'', JInt metric), (''value_milli'', JInt v)])"

definition read_frame :: "byte list \<Rightarrow> json list" where
  "read_frame f =
     (if take 6 f = frame_header \<and> drop 28 f = le_bytes 4 (uint (crc32 (take 28 f)))
      then [JObj (event_object
        (le_value (take 4 (drop 6 f)), le_value (take 4 (drop 10 f)), le_value (take 8 (drop 14 f)),
         le_value (take 2 (drop 22 f)), le_signed (take 4 (drop 24 f))))]
      else [])"

definition read_frames :: "byte list \<Rightarrow> json list res" where
  "read_frames bs = Inr (concat (map read_frame (chunks (length bs div 32) 32 bs)))"

lemma read_built_frame:
  assumes "frame_of r = Inr f"
  shows "length f = 32 \<and> read_frame f = [JObj (event_object r)]"
proof -
  obtain device sequence timestamp_ms metric v where r: "r = (device, sequence, timestamp_ms, metric, v)"
    by (cases r)
  from assms obtain b1 b2 b3 b4 b5 where
    bs: "length b1 = 4" "le_value b1 = device" "length b2 = 4" "le_value b2 = sequence"
      "length b3 = 8" "le_value b3 = timestamp_ms" "length b4 = 2" "le_value b4 = metric"
      "length b5 = 4" "le_signed b5 = v"
    and f: "f = (frame_header @ b1 @ b2 @ b3 @ b4 @ b5) @
      le_bytes 4 (uint (crc32 (frame_header @ b1 @ b2 @ b3 @ b4 @ b5)))"
    unfolding frame_of_def r build_frame_def Let_def split_conv
    by (elim bind_resE) (blast dest: pack_unsigned_ok pack_signed_ok)
  have "length frame_header = 6" by (simp add: frame_header_def)
  with bs show ?thesis by (simp add: r f read_frame_def)
qed

lemma chunks_concat:
  "list_all (\<lambda>f. length f = k) fs \<Longrightarrow> chunks (length fs) k (concat fs) = fs"
  by (induction fs) auto

lemma length_concat_equal: "list_all (\<lambda>f. length f = k) fs \<Longrightarrow> length (concat fs) = k * length fs"
  by (induction fs) auto

text \<open>What a decoder has to do for a list of readings.\<close>

definition decodes :: "(byte list \<Rightarrow> json list res) \<Rightarrow> reading list \<Rightarrow> bool" where
  "decodes edgestream readings \<longleftrightarrow>
     (\<forall>frames. map_res frame_of readings = Inr frames \<longrightarrow>
        (\<exists>recs events. edgestream (concat frames) = Inr recs \<and> event_records recs = Inr events \<and>
           list_all2 is_reading events readings))"

lemma event_records_objects: "event_records (map (\<lambda>r. JObj (event_object r)) rs) = Inr (map event_object rs)"
proof -
  have "get_or_null (event_object r) ''type'' = JStr ''event''" for r
    by (cases r) (simp add: event_object_def get_or_null_def)
  then have "map_res is_event (map (\<lambda>r. JObj (event_object r)) rs) = Inr (map (\<lambda>_. True) rs)"
    by (induction rs) (simp_all add: is_event_def)
  moreover have "concat (map (\<lambda>(rec, event). case rec of JObj d \<Rightarrow> if event then [d] else [] | _ \<Rightarrow> [])
      (zip (map (\<lambda>r. JObj (event_object r)) rs) (map (\<lambda>_. True) rs))) = map event_object rs"
    by (induction rs) simp_all
  ultimately show ?thesis by (simp add: event_records_def)
qed

lemma read_frames_decodes: "decodes read_frames readings"
  unfolding decodes_def
proof (intro allI impI exI conjI)
  fix frames
  assume frames: "map_res frame_of readings = Inr frames"
  then have fs: "list_all2 (\<lambda>r f. frame_of r = Inr f) readings frames" by (simp add: map_res_eq_Inr)
  then have lengths: "list_all (\<lambda>f. length f = 32) frames" and
      recs: "concat (map read_frame frames) = map (\<lambda>r. JObj (event_object r)) readings"
    by (induction rule: list_all2_induct) (auto dest: read_built_frame)
  show "read_frames (concat frames) = Inr (map (\<lambda>r. JObj (event_object r)) readings)"
    using recs chunks_concat [OF lengths] length_concat_equal [OF lengths]
    by (simp add: read_frames_def del: length_concat)
  show "event_records (map (\<lambda>r. JObj (event_object r)) readings) = Inr (map event_object readings)"
    by (rule event_records_objects)
  have "is_reading (event_object r) r" for r
    by (cases r) (simp add: is_reading_def event_object_def)
  then show "list_all2 is_reading (map event_object readings) readings"
    by (simp add: list_all2_map1 list_all2_same)
qed

section \<open>The study\<close>

definition study_readings :: "reading list" where
  "study_readings =
     [(7, 1, 1000000, 0, 45000), (7, 2, 1000000, 1, 3000), (7, 3, 1000000, 2, 1), (7, 4, 1000000, 3, 0),
      (7, 5, 1060000, 0, 38000), (7, 6, 1060000, 1, 5000), (7, 7, 1060000, 2, 1), (7, 8, 1060000, 3, 0),
      (7, 9, 1120000, 0, 38000), (7, 10, 1120000, 1, 5000), (7, 11, 1120000, 2, 1), (7, 12, 1120000, 3, 1),
      (7, 13, 1180000, 0, 92000), (7, 14, 1180000, 1, 2000), (7, 15, 1180000, 2, 1), (7, 16, 1180000, 3, 0)]"

lemma milli_int:
  assumes "\<bar>n * 1000\<bar> \<le> 2 ^ 53"
  shows "round_float (Fin (of_int n) * Fin 1000) = Inr (n * 1000)"
    and "from_milli (n * 1000) = Inr (Fin (of_int n))"
proof -
  have n: "\<bar>n\<bar> \<le> 2 ^ 53" using assms by (simp add: abs_mult)
  have "of_int n * 1000 = (of_int (n * 1000) :: rat)" by simp
  then show "round_float (Fin (of_int n) * Fin 1000) = Inr (n * 1000)"
    by (simp only: times_pyfloat.simps fl_int [OF assms] round_float.simps round_half_even_of_int)
  have "of_int (n * 1000) / 1000 = (of_int n :: rat)" by simp
  then have "fl (of_int (n * 1000) / 1000) = Fin (of_int n)" by (simp only: fl_int [OF n])
  then show "from_milli (n * 1000) = Inr (Fin (of_int n))"
    using fl_int [OF assms] by (simp add: from_milli_def float_of_int_def del: of_int_mult)
qed

lemmas study_numbers =
  milli_int [of 45, simplified] milli_int [of 38, simplified] milli_int [of 92, simplified]
  milli_int [of 2, simplified] milli_int [of 3, simplified] milli_int [of 5, simplified]

lemma study_readings_ok: "fold_res sample_readings [] study_samples = Inr study_readings"
  by (simp add: study_samples_def sample_readings_def encoded_values_def study_numbers enumerate_values
      quality_value_def study_readings_def)

lemma study_restorable: "list_all restorable study_samples"
  by (simp add: study_samples_def restorable_def study_numbers)

lemma study_frames: "\<exists>frames. map_res frame_of study_readings = Inr frames \<and> length frames = 16"
proof -
  have frame: "\<exists>f. frame_of r = Inr f" if "r \<in> set study_readings" for r
    using that unfolding study_readings_def
    by (auto simp: frame_of_def build_frame_def pack_unsigned_def pack_signed_def Let_def)
  have "\<exists>frames. list_all2 (\<lambda>r f. frame_of r = Inr f) rs frames" if "set rs \<subseteq> set study_readings" for rs
    using that
  proof (induction rs)
    case (Cons r rs)
    then obtain f frames where "frame_of r = Inr f" "list_all2 (\<lambda>r f. frame_of r = Inr f) rs frames"
      using frame [of r] by auto
    then show ?case by (intro exI [of _ "f # frames"]) simp
  qed (rule exI [of _ "[]"], simp)
  from this [OF order_refl] obtain frames where "map_res frame_of study_readings = Inr frames"
    by (auto simp: map_res_eq_Inr)
  moreover from this have "length study_readings = length frames"
    unfolding map_res_eq_Inr by (rule list_all2_lengthD)
  then have "length frames = 16" by (simp add: study_readings_def)
  ultimately show ?thesis by blast
qed

section \<open>What the adapter reports\<close>

text \<open>A value of a metric at a time, as one of the records states it.\<close>

definition reported :: "int \<Rightarrow> obj list \<Rightarrow> int \<Rightarrow> int \<Rightarrow> int \<Rightarrow> bool" where
  "reported device recs timestamp_ms metric v \<longleftrightarrow>
     (\<exists>rec \<in> set recs. is_text rec ''type'' ''event'' \<and>
        bind_res (obj_at rec ''device'') to_int = Inr device \<and>
        bind_res (obj_at rec ''timestamp'') to_int = Inr timestamp_ms \<and>
        bind_res (obj_at rec ''metric'') to_int = Inr metric \<and>
        bind_res (obj_at rec ''value_milli'') to_int = Inr v)"

lemma reported_mono: "reported device recs t m v \<Longrightarrow> set recs \<subseteq> set recs' \<Longrightarrow> reported device recs' t m v"
  unfolding reported_def by blast

definition grounded_pending :: "int \<Rightarrow> obj list \<Rightarrow> adapter \<Rightarrow> bool" where
  "grounded_pending device recs a \<longleftrightarrow> ea_device_id a = device \<and>
     (\<forall>t m v. dict_get (pending_at a t) m = Some v \<longrightarrow> reported device recs t m v)"

definition grounded_sample :: "int \<Rightarrow> obj list \<Rightarrow> telemetry_sample \<Rightarrow> bool" where
  "grounded_sample device recs s \<longleftrightarrow>
     (\<exists>t l d p q. reported device recs t 0 l \<and> reported device recs t 1 d \<and>
        reported device recs t 2 p \<and> reported device recs t 3 q \<and>
        observed_at_s s = t div 1000 \<and> received_at_s s = t div 1000 \<and>
        from_milli l = Inr (tank_level_pct s) \<and> from_milli d = Inr (demand_lps s) \<and>
        p \<in> {0, 1} \<and> power_available s = (p = 1) \<and> q = quality_value (sample_quality s))"

lemma quality_codes: "dict_get QUALITY_CODES n = Some q \<Longrightarrow> n = quality_value q"
  by (auto simp: QUALITY_CODES_def quality_value_def split: if_splits)

lemma complete_grounded:
  assumes "complete_sample t values = Inr s"
    and "\<And>m v. dict_get values m = Some v \<Longrightarrow> reported device recs t m v"
  shows "grounded_sample device recs s"
proof -
  from assms(1) obtain l d p q where get: "dict_get values 0 = Some l" "dict_get values 1 = Some d"
    "dict_get values 2 = Some p" "dict_get values 3 = Some (quality_value q)" and "p \<in> {0, 1}"
    and num: "from_milli l = Inr (tank_level_pct s)" "from_milli d = Inr (demand_lps s)"
    and s: "observed_at_s s = t div 1000" "received_at_s s = t div 1000" "power_available s = (p = 1)"
      "sample_quality s = q"
    unfolding complete_sample_def
    by (auto simp: bind_res_eq_Inr dest!: quality_codes split: option.splits if_splits)
  then show ?thesis unfolding grounded_sample_def
    using get [THEN assms(2)] by blast
qed

lemma pending_at_set: "pending_at (a\<lparr>ea_last_sequence := k, ea_pending := dict_set t values d\<rparr>) t' =
    (if t' = t then values else case dict_get d t' of None \<Rightarrow> [] | Some x \<Rightarrow> x)"
  by (simp add: pending_at_def dict_get_set)

lemma pending_at_del: "pending_at (a\<lparr>ea_last_sequence := k, ea_pending := dict_del t d\<rparr>) t' =
    (if t' = t then [] else case dict_get d t' of None \<Rightarrow> [] | Some x \<Rightarrow> x)"
  by (simp add: pending_at_def dict_get_del)

lemma raise_ifE:
  assumes "(if b then Inl e else m) = Inr y"
  obtains "\<not> b" and "m = Inr y"
  using assms by (auto split: if_splits)

lemma accept_cases:
  assumes "accept a rec = Inr (sample, a')"
  obtains (other) "sample = None" and "a' = a"
  | (event) t m v sequence where "reported (ea_device_id a) [rec] t m v" and "ea_last_sequence a < sequence"
    and "m \<notin> set (dict_keys (pending_at a t))"
    and "sample = None \<and> a' = a\<lparr>ea_last_sequence := sequence,
           ea_pending := dict_set t (dict_set m v (pending_at a t)) (ea_pending a)\<rparr> \<or>
         (\<exists>s. sample = Some s \<and> complete_sample t (dict_set m v (pending_at a t)) = Inr s \<and>
           set (dict_keys (dict_set m v (pending_at a t))) = METRICS \<and>
           a' = a\<lparr>ea_last_sequence := sequence, ea_pending := dict_del t (ea_pending a)\<rparr>)"
proof (cases "get_or_null rec ''type'' = JStr ''event''")
  case True
  define device where "device = bind_res (obj_at rec ''device'') to_int"
  define stamp where "stamp = bind_res (obj_at rec ''timestamp'') to_int"
  define metric where "metric = bind_res (obj_at rec ''metric'') to_int"
  define milli where "milli = bind_res (obj_at rec ''value_milli'') to_int"
  note fields = device_def stamp_def metric_def milli_def
  from assms True obtain t m v sequence where parts: "device = Inr (ea_device_id a)" "metric = Inr m"
    "stamp = Inr t" "milli = Inr v" "ea_last_sequence a < sequence" "m \<notin> set (dict_keys (pending_at a t))"
    and result: "(if set (dict_keys (dict_set m v (pending_at a t))) \<noteq> METRICS
      then Inr (None, a\<lparr>ea_last_sequence := sequence,
        ea_pending := dict_set t (dict_set m v (pending_at a t)) (ea_pending a)\<rparr>)
      else bind_res (complete_sample t (dict_set m v (pending_at a t))) (\<lambda>s.
        Inr (Some s, a\<lparr>ea_last_sequence := sequence, ea_pending := dict_del t (ea_pending a)\<rparr>))) =
      Inr (sample, a')"
    unfolding accept_def add_metric_def Let_def fields [symmetric] pending_at_def [symmetric]
  proof (simp only: True simp_thms if_False, elim bind_resE raise_ifE, goal_cases)
    case (1 dev sequence m t vs v)
    have "vs = dict_set m v (pending_at a t)" using 1(15) [THEN Inr_inject] by (rule sym)
    with 1 show ?case by (intro 1(1) [of m t v sequence]) (simp_all add: not_le)
  qed
  have "reported (ea_device_id a) [rec] t m v"
    using True parts by (simp add: reported_def fields is_text_def)
  then show thesis
    by (rule event [OF _ parts(5,6)]) (use result in \<open>auto simp: bind_res_eq_Inr split: if_splits\<close>)
qed (use assms other in \<open>auto simp: accept_def\<close>)

lemma accept_grounded:
  assumes "accept a rec = Inr (sample, a')" and "grounded_pending device recs a" and "rec \<in> set recs"
  shows "grounded_pending device recs a' \<and> (\<forall>s. sample = Some s \<longrightarrow> grounded_sample device recs s)"
  using assms(1)
proof (cases rule: accept_cases)
  case other
  with assms(2) show ?thesis by simp
next
  case (event t m v sequence)
  have dev: "ea_device_id a = device" using assms(2) by (simp add: grounded_pending_def)
  have known: "reported device recs t' m' v'" if "dict_get (pending_at a t') m' = Some v'" for t' m' v'
    using assms(2) that unfolding grounded_pending_def by blast
  have new: "reported device recs t m' v'" if "dict_get (dict_set m v (pending_at a t)) m' = Some v'" for m' v'
    using that known reported_mono [OF event(1), of recs] assms(3) dev
    by (auto simp: dict_get_set split: if_splits)
  from event(4) show ?thesis
  proof
    assume r: "sample = None \<and> a' = a\<lparr>ea_last_sequence := sequence,
      ea_pending := dict_set t (dict_set m v (pending_at a t)) (ea_pending a)\<rparr>"
    have "reported device recs t' m' v'" if "dict_get (pending_at a' t') m' = Some v'" for t' m' v'
      using that new known [unfolded pending_at_def] r by (auto simp: pending_at_set split: if_splits)
    then show ?thesis using r dev by (simp add: grounded_pending_def)
  next
    assume "\<exists>s. sample = Some s \<and> complete_sample t (dict_set m v (pending_at a t)) = Inr s \<and>
      set (dict_keys (dict_set m v (pending_at a t))) = METRICS \<and>
      a' = a\<lparr>ea_last_sequence := sequence, ea_pending := dict_del t (ea_pending a)\<rparr>"
    then obtain s where s: "sample = Some s" "complete_sample t (dict_set m v (pending_at a t)) = Inr s"
      and a': "a' = a\<lparr>ea_last_sequence := sequence, ea_pending := dict_del t (ea_pending a)\<rparr>" by blast
    have "reported device recs t' m' v'" if "dict_get (pending_at a' t') m' = Some v'" for t' m' v'
      using that known [unfolded pending_at_def] a' by (auto simp: pending_at_del split: if_splits)
    then have "grounded_pending device recs a'" using a' dev by (simp add: grounded_pending_def)
    with complete_grounded [OF s(2) new] s(1) show ?thesis by simp
  qed
qed

lemma adapt_grounded:
  assumes "adapt a recs = Inr (samples, a')" and "grounded_pending device all a" and "set recs \<subseteq> set all"
  shows "grounded_pending device all a' \<and> (\<forall>s \<in> set samples. grounded_sample device all s)"
  using assms
proof (induction recs arbitrary: a samples)
  case (Cons rec recs)
  from Cons.prems(1) obtain sample a1 later where step: "accept a rec = Inr (sample, a1)"
    and rest: "adapt a1 recs = Inr (later, a')"
    and samples: "samples = (case sample of None \<Rightarrow> later | Some s \<Rightarrow> s # later)"
    by (auto simp: bind_res_eq_Inr)
  from accept_grounded [OF step Cons.prems(2)] Cons.prems(3)
  have here: "grounded_pending device all a1" "\<forall>s. sample = Some s \<longrightarrow> grounded_sample device all s" by simp_all
  from Cons.IH [OF rest here(1)] Cons.prems(3) here(2) show ?case
    by (auto simp: samples split: option.splits)
qed auto

lemma new_adapter_grounded: "grounded_pending device recs (EdgeStreamTelemetryAdapter device)"
  by (simp add: grounded_pending_def EdgeStreamTelemetryAdapter_def pending_at_def)

section \<open>Thresholds in thousandths\<close>

lemma from_milli_value:
  assumes "\<bar>n\<bar> \<le> 2 ^ 53"
  shows "from_milli n = Inr (Fin (rnd (of_int n / 1000)))"
proof -
  have "\<bar>of_int n / 1000 :: rat\<bar> \<le> 2 ^ 53"
  proof -
    have "of_int \<bar>n\<bar> \<le> (of_int (2 ^ 53) :: rat)" using assms by (simp only: of_int_le_iff)
    then have "\<bar>of_int n :: rat\<bar> \<le> 2 ^ 53" by simp
    then show ?thesis by simp
  qed
  with fl_int [OF assms] show ?thesis by (simp add: from_milli_def float_of_int_def fl_eq_Fin)
qed

lemma rnd_milli_ge: "k * 1000 \<le> n \<Longrightarrow> \<bar>k\<bar> \<le> 2 ^ 53 \<Longrightarrow> of_int k \<le> rnd (of_int n / 1000)"
proof -
  assume k: "k * 1000 \<le> n" "\<bar>k\<bar> \<le> 2 ^ 53"
  have "of_int k \<le> (of_int n / 1000 :: rat)"
    using k(1) of_int_le_iff [of "k * 1000" n, where 'a = rat] by simp
  from rnd_mono [OF this] show ?thesis by (simp add: rnd_int [OF k(2)])
qed

lemma rnd_milli_le: "n \<le> k * 1000 \<Longrightarrow> \<bar>k\<bar> \<le> 2 ^ 53 \<Longrightarrow> rnd (of_int n / 1000) \<le> of_int k"
proof -
  assume k: "n \<le> k * 1000" "\<bar>k\<bar> \<le> 2 ^ 53"
  have "(of_int n / 1000 :: rat) \<le> of_int k"
    using k(1) of_int_le_iff [of n "k * 1000", where 'a = rat] by simp
  from rnd_mono [OF this] show ?thesis by (simp add: rnd_int [OF k(2)])
qed

lemma rnd_milli_negative: "n < 0 \<Longrightarrow> rnd (of_int n / 1000) < 0"
proof -
  assume "n < 0"
  then have "(of_int n :: rat) \<le> - 1" using of_int_le_iff [of n "- 1", where 'a = rat] by simp
  then have "(of_int n / 1000 :: rat) \<le> - 1 / 1000" by simp
  from rnd_mono [OF this] have "rnd (of_int n / 1000) \<le> rnd (- 1 / 1000)" .
  moreover have "rnd (- 1 / 1000) < 0" by code_simp
  ultimately show ?thesis by (rule le_less_trans)
qed

lemma rnd_milli_over: "100000 < n \<Longrightarrow> 100 < rnd (of_int n / 1000)"
proof -
  assume "100000 < n"
  then have "(100001 / 1000 :: rat) \<le> of_int n / 1000" using of_int_le_iff [of 100001 n, where 'a = rat] by simp
  from rnd_mono [OF this] have "rnd (100001 / 1000) \<le> rnd (of_int n / 1000)" .
  moreover have "100 < rnd (100001 / 1000)" by code_simp
  ultimately show ?thesis by (rule less_le_trans [rotated])
qed

definition in_milli_range :: "int \<Rightarrow> int \<Rightarrow> bool" where
  "in_milli_range l d \<longleftrightarrow> 0 \<le> l \<and> l \<le> 100000 \<and> 0 \<le> d"

lemma sample_trustworthy:
  assumes "from_milli l = Inr (tank_level_pct s)" and "from_milli d = Inr (demand_lps s)"
    and "\<bar>l\<bar> \<le> 2 ^ 53" and "\<bar>d\<bar> \<le> 2 ^ 53"
    and "received_at_s s = observed_at_s s" and "0 \<le> telemetry_max_age_s config"
  shows "trustworthy config s \<longleftrightarrow> in_milli_range l d \<and> sample_quality s = GOOD"
proof -
  have level: "tank_level_pct s = Fin (rnd (of_int l / 1000))" and demand: "demand_lps s = Fin (rnd (of_int d / 1000))"
    using from_milli_value [OF assms(3)] from_milli_value [OF assms(4)] assms(1,2) by simp_all
  have "0 \<le> rnd (of_int l / 1000) \<longleftrightarrow> 0 \<le> l"
    using rnd_milli_ge [of 0 l] rnd_milli_negative [of l] by (cases "0 \<le> l") auto
  moreover have "rnd (of_int l / 1000) \<le> 100 \<longleftrightarrow> l \<le> 100000"
    using rnd_milli_le [of l 100] rnd_milli_over [of l] by (cases "l \<le> 100000") auto
  moreover have "rnd (of_int d / 1000) < 0 \<longleftrightarrow> d < 0"
    using rnd_milli_ge [of 0 d] rnd_milli_negative [of d] by (cases "0 \<le> d") auto
  ultimately show ?thesis
    using assms(5,6)
    by (auto simp: trustworthy_def invalid_sample_def in_milli_range_def level demand age_s_def)
qed

end
