(* ===== verification/IntegrationProperties.thy ===== *)
theory IntegrationProperties
  imports IntegrationProofs
begin





section \<open>The study\<close>



end
