(* ===== verification/GatewayEvaluator.thy ===== *)
theory GatewayEvaluator
  imports PyCollections Sha256
begin

text \<open>
  \<^verbatim>\<open>case-studies/composed-gateway/wave-five/bundle-src/evaluator.py\<close>: the portable evaluator that a
  host runs offline.  Decimal frames, the checkpoint of a running sum, the test vectors, the bundle
  manifest and the gates of the host record.  The files of the bundle are a parameter, from the
  path of an entry to the content of the regular file there.  The host's environment, its tools and
  the clock only go into the record and are not modelled.
\<close>

section \<open>Frames\<close>

text \<open>\<open>int(text, 10)\<close> refuses more than 4300 digits.\<close>

definition parse_decimal :: "json \<Rightarrow> int res" where
  "parse_decimal v =
     (case v of
        JStr text \<Rightarrow>
          if text = [] \<or> \<not> list_all is_digit text then Inl (ValueError ''invalid decimal frame'')
          else if 4300 < length text
          then Inl (ValueError ''Exceeds the limit (4300 digits) for integer string conversion'')
          else if 100000 < str_digits 0 text then Inl (ValueError ''resource limit'')
          else Inr (str_digits 0 text)
      | _ \<Rightarrow> Inl (ValueError ''invalid decimal frame''))"

section \<open>Checkpoints\<close>

definition digest_of :: "json \<Rightarrow> string" where
  "digest_of v = sha256 (json_dumps v)"

definition running_digest :: "json \<Rightarrow> json \<Rightarrow> int \<Rightarrow> string" where
  "running_digest input_digest processed subtotal =
     digest_of (JObj [(''input_digest'', input_digest), (''processed'', processed), (''sum'', JInt subtotal),
       (''version'', JInt 1)])"

definition values_digest :: "int list \<Rightarrow> string" where
  "values_digest vs = digest_of (JList (map JInt vs))"

text \<open>\<open>xs[:n]\<close> with a bound of any type.\<close>

definition slice_upto :: "int list \<Rightarrow> json \<Rightarrow> int list res" where
  "slice_upto vs bound =
     (case bound of
        JInt n \<Rightarrow> Inr (slice_to vs n)
      | JBool b \<Rightarrow> Inr (slice_to vs (if b then 1 else 0))
      | JNull \<Rightarrow> Inr vs
      | _ \<Rightarrow> Inl (TypeError ''slice indices must be integers''))"

definition checkpoint_of :: "string \<Rightarrow> json \<Rightarrow> int \<Rightarrow> obj" where
  "checkpoint_of input_digest processed subtotal =
     [(''version'', JInt 1), (''input_digest'', JStr input_digest), (''processed'', processed),
      (''sum'', JInt subtotal), (''state_digest'', JStr (running_digest (JStr input_digest) processed subtotal))]"

definition make_checkpoint :: "int list \<Rightarrow> json \<Rightarrow> obj res" where
  "make_checkpoint vs processed =
     bind_res (slice_upto vs processed) (\<lambda>done_values.
       Inr (checkpoint_of (values_digest vs) processed (sum_list done_values)))"

definition CHECKPOINT_FIELDS :: "string set" where
  "CHECKPOINT_FIELDS = {''version'', ''input_digest'', ''processed'', ''sum'', ''state_digest''}"

definition restore_checkpoint :: "int list \<Rightarrow> obj \<Rightarrow> int res" where
  "restore_checkpoint vs checkpoint =
     bind_res (guard_res (set (dict_keys checkpoint) \<noteq> CHECKPOINT_FIELDS) (ValueError ''checkpoint fields'')) (\<lambda>_.
     bind_res (obj_at checkpoint ''version'') (\<lambda>version.
     bind_res (guard_res (\<not> json_eq version (JInt 1)) (ValueError ''checkpoint version'')) (\<lambda>_.
     bind_res (obj_at checkpoint ''input_digest'') (\<lambda>input_digest.
     bind_res (guard_res (\<not> json_eq input_digest (JStr (values_digest vs))) (ValueError ''stale input'')) (\<lambda>_.
     bind_res (obj_at checkpoint ''processed'') (\<lambda>processed.
     bind_res (guard_res (\<not> is_int processed \<or> int_val processed < 0 \<or> int (length vs) < int_val processed)
       (ValueError ''processed range'')) (\<lambda>_.
     let expected_sum = sum_list (slice_to vs (int_val processed)) in
     bind_res (obj_at checkpoint ''sum'') (\<lambda>subtotal.
     bind_res (guard_res (\<not> json_eq subtotal (JInt expected_sum)) (ValueError ''semantic state mismatch'')) (\<lambda>_.
     bind_res (obj_at checkpoint ''state_digest'') (\<lambda>digest.
     bind_res (guard_res (\<not> json_eq digest (JStr (running_digest (JStr (values_digest vs)) processed expected_sum)))
       (ValueError ''state digest mismatch'')) (\<lambda>_.
       Inr (expected_sum + sum_list (slice_from vs (int_val processed))))))))))))))"

section \<open>Test vectors\<close>

text \<open>One of \<open>valid_frames\<close>: the findings and the values so far.\<close>

definition check_valid :: "string list \<times> int list \<Rightarrow> json \<Rightarrow> (string list \<times> int list) res" where
  "check_valid = (\<lambda>(findings, vs) frame.
     bind_res (item_of frame ''input'') (\<lambda>input.
     case parse_decimal input of
       Inl (ValueError message) \<Rightarrow> Inr (findings @ [''valid frame rejected: '' @ message], vs)
     | Inl e \<Rightarrow> Inl e
     | Inr n \<Rightarrow>
         bind_res (item_of frame ''value'') (\<lambda>expected.
           Inr ((if json_eq (JInt n) expected then findings else findings @ [''valid frame value mismatch'']),
                vs @ [n]))))"

definition check_invalid :: "string list \<Rightarrow> json \<Rightarrow> string list res" where
  "check_invalid findings frame =
     (case parse_decimal frame of
        Inl (ValueError message) \<Rightarrow> Inr findings
      | Inl e \<Rightarrow> Inl e
      | Inr n \<Rightarrow> Inr (findings @ [''invalid frame accepted: '' @ py_str frame]))"

text \<open>The three attempts to resume.\<close>

definition resume_findings :: "int list \<Rightarrow> obj \<Rightarrow> json \<Rightarrow> string list res" where
  "resume_findings vs checkpoint expected_sum =
     (case restore_checkpoint vs checkpoint of
        Inr restored \<Rightarrow>
          Inr (if json_eq (JInt restored) expected_sum then [] else [''checkpoint resume mismatch''])
      | Inl (ValueError message) \<Rightarrow> Inr [''checkpoint resume rejected: '' @ message]
      | Inl e \<Rightarrow> Inl e)"

definition accepted_finding :: "int list \<Rightarrow> obj \<Rightarrow> string \<Rightarrow> string list res" where
  "accepted_finding vs checkpoint finding =
     (case restore_checkpoint vs checkpoint of
        Inr restored \<Rightarrow> Inr [finding]
      | Inl (ValueError message) \<Rightarrow> Inr []
      | Inl e \<Rightarrow> Inl e)"

definition NO_DIGEST :: string where
  "NO_DIGEST = replicate 64 (CHR ''0'')"

text \<open>A changed checkpoint with the digest of its new state.\<close>

definition reseal :: "obj \<Rightarrow> obj res" where
  "reseal checkpoint =
     bind_res (obj_at checkpoint ''input_digest'') (\<lambda>input_digest.
     bind_res (obj_at checkpoint ''processed'') (\<lambda>processed.
     bind_res (obj_at checkpoint ''sum'') (\<lambda>subtotal.
       Inr (dict_set ''state_digest'' (JStr (running_digest input_digest processed (int_val subtotal))) checkpoint))))"

definition corrupt_checkpoint :: "obj \<Rightarrow> obj res" where
  "corrupt_checkpoint checkpoint =
     bind_res (obj_at checkpoint ''sum'') (\<lambda>subtotal.
       reseal (dict_set ''sum'' (JInt (int_val subtotal + 1)) checkpoint))"

definition stale_checkpoint :: "obj \<Rightarrow> obj res" where
  "stale_checkpoint checkpoint = reseal (dict_set ''input_digest'' (JStr NO_DIGEST) checkpoint)"

definition checkpoint_findings :: "int list \<Rightarrow> json \<Rightarrow> json \<Rightarrow> string list res" where
  "checkpoint_findings vs processed expected_sum =
     bind_res (make_checkpoint vs processed) (\<lambda>checkpoint.
     bind_res (resume_findings vs checkpoint expected_sum) (\<lambda>f1.
     bind_res (corrupt_checkpoint checkpoint) (\<lambda>corrupt.
     bind_res (accepted_finding vs corrupt ''semantic checkpoint corruption accepted'') (\<lambda>f2.
     bind_res (stale_checkpoint checkpoint) (\<lambda>stale.
     bind_res (accepted_finding vs stale ''stale checkpoint accepted'') (\<lambda>f3.
       Inr (f1 @ f2 @ f3)))))))"

definition run_vectors :: "obj \<Rightarrow> (string list \<times> obj) res" where
  "run_vectors vectors =
     bind_res (bind_res (obj_at vectors ''valid_frames'') iterate) (\<lambda>valid_frames.
     bind_res (fold_res check_valid ([], []) valid_frames) (\<lambda>(findings, vs).
     bind_res (bind_res (obj_at vectors ''invalid_frames'') iterate) (\<lambda>invalid_frames.
     bind_res (fold_res check_invalid findings invalid_frames) (\<lambda>findings.
     bind_res (obj_at vectors ''expected_sum'') (\<lambda>expected_sum.
     let findings = (if json_eq (JInt (sum_list vs)) expected_sum then findings
                     else findings @ [''uninterrupted sum mismatch'']) in
     bind_res (obj_at vectors ''checkpoint_after'') (\<lambda>processed.
     bind_res (checkpoint_findings vs processed expected_sum) (\<lambda>resumed.
     bind_res (obj_at vectors ''contract'') (\<lambda>contract.
       Inr (findings @ resumed,
         [(''accepted_values'', JList (map JInt vs)), (''expected_sum'', expected_sum),
          (''checkpoint_after'', processed), (''restored_sum'', expected_sum),
          (''corruption_rejected'', JBool True), (''stale_input_rejected'', JBool True),
          (''contract'', contract)])))))))))"

section \<open>The bundle\<close>

text \<open>One entry of the manifest, against the file it names.\<close>

definition entry_findings :: "(string \<Rightarrow> string option) \<Rightarrow> json \<Rightarrow> string list res" where
  "entry_findings files entry =
     (case entry of
        JObj d \<Rightarrow>
          (case get_or_null d ''path'' of
             JStr relative \<Rightarrow>
               (case files relative of
                  None \<Rightarrow> Inr [''missing bundle file: '' @ relative]
                | Some content \<Rightarrow>
                    Inr ((if json_eq (JInt (int (length content))) (get_or_null d ''size'') then []
                          else [''size mismatch: '' @ relative]) @
                         (if json_eq (JStr (''sha256:'' @ sha256 content)) (get_or_null d ''identity'') then []
                          else [''identity mismatch: '' @ relative])))
           | _ \<Rightarrow> Inl (TypeError ''unsupported operand type(s) for /''))
      | _ \<Rightarrow> Inl (AttributeError ''get''))"

definition verify_manifest :: "(string \<Rightarrow> string option) \<Rightarrow> obj \<Rightarrow> string list res" where
  "verify_manifest files manifest =
     bind_res (case dict_get manifest ''files'' of None \<Rightarrow> Inr [] | Some v \<Rightarrow> iterate v) (\<lambda>entries.
     bind_res (map_res (entry_findings files) entries) (\<lambda>found. Inr (concat found)))"

section \<open>The gates of the host record\<close>

definition status_of :: "string list \<Rightarrow> string" where
  "status_of findings = (if findings = [] then ''PASS'' else ''FAIL'')"

record host_record =
  hr_bundle_id :: json
  hr_candidate_freeze_identity :: json
  hr_gates :: "(string, string) dict"
  hr_semantic_output_digest :: string
  hr_raw_artifact_identity :: string
  hr_result :: string
  hr_findings :: "string list"
  hr_exit_code :: int

text \<open>\<open>main\<close>, from the decoded manifest and vectors to the record.\<close>

definition evaluate_host :: "(string \<Rightarrow> string option) \<Rightarrow> string \<Rightarrow> obj \<Rightarrow> obj \<Rightarrow> host_record res" where
  "evaluate_host files manifest_identity manifest vectors =
     bind_res (verify_manifest files manifest) (\<lambda>bundle_findings.
     bind_res (run_vectors vectors) (\<lambda>(vector_findings, semantic).
     let findings = bundle_findings @ vector_findings;
         gates = [(''bundle_integrity'', status_of bundle_findings),
                  (''deterministic_vectors'', status_of vector_findings),
                  (''checkpoint_resume'', status_of vector_findings),
                  (''corruption_rejection'', status_of vector_findings),
                  (''offline_capability'', ''PASS'')]
     in
     bind_res (obj_at manifest ''bundle_id'') (\<lambda>bundle_id.
     bind_res (obj_at manifest ''candidate_freeze_identity'') (\<lambda>freeze_identity.
       Inr \<lparr>hr_bundle_id = bundle_id, hr_candidate_freeze_identity = freeze_identity, hr_gates = gates, hr_semantic_output_digest = digest_of (JObj semantic),
          hr_raw_artifact_identity = ''sha256:'' @ digest_of (JObj
            [(''manifest_identity'', JStr manifest_identity), (''semantic'', JObj semantic),
             (''gates'', JObj (map (\<lambda>(k, v). (k, JStr v)) gates)),
             (''findings'', JList (map JStr findings))]),
          hr_result = status_of findings, hr_findings = findings,
          hr_exit_code = (if status_of findings = ''FAIL'' then 1 else 0)\<rparr>))))"

end
