(* ===== verification/GatewayProperties.thy ===== *)
theory GatewayProperties
  imports GatewayEvaluator
begin

text \<open>
  What a checkpoint of the gateway evaluator can restore, and when its host record says PASS.  The
  digests enter only as injected text: nothing is assumed of SHA-256, and the one coincidence that
  matters, values whose digest is 64 zeros, is a case of the verdict.
\<close>

section \<open>Checkpoints\<close>

lemma checkpoint_of_fields [simp]:
  "dict_get (checkpoint_of d p n) ''version'' = Some (JInt 1)"
  "dict_get (checkpoint_of d p n) ''input_digest'' = Some (JStr d)"
  "dict_get (checkpoint_of d p n) ''processed'' = Some p"
  "dict_get (checkpoint_of d p n) ''sum'' = Some (JInt n)"
  "dict_get (checkpoint_of d p n) ''state_digest'' = Some (JStr (running_digest (JStr d) p n))"
  "fst ` set (checkpoint_of d p n) = CHECKPOINT_FIELDS"
  by (simp_all add: checkpoint_of_def CHECKPOINT_FIELDS_def)

lemma corrupt_checkpoint_of [simp]: "corrupt_checkpoint (checkpoint_of d p n) = Inr (checkpoint_of d p (n + 1))"
  by (simp add: corrupt_checkpoint_def reseal_def) (simp add: checkpoint_of_def)

lemma stale_checkpoint_of [simp]: "stale_checkpoint (checkpoint_of d p n) = Inr (checkpoint_of NO_DIGEST p n)"
  by (simp add: stale_checkpoint_def reseal_def) (simp add: checkpoint_of_def)

definition in_range :: "int list \<Rightarrow> json \<Rightarrow> bool" where
  "in_range vs p \<longleftrightarrow> is_int p \<and> 0 \<le> int_val p \<and> int_val p \<le> int (length vs)"

lemma sum_of_slices: "sum_list (slice_to vs n) + sum_list (slice_from vs n) = sum_list (vs :: int list)"
  by (metis slice_to_from sum_list_append)

lemma restore_of:
  "restore_checkpoint vs (checkpoint_of d p n) =
     (if d \<noteq> values_digest vs then Inl (ValueError ''stale input'')
      else if \<not> in_range vs p then Inl (ValueError ''processed range'')
      else if n \<noteq> sum_list (slice_to vs (int_val p)) then Inl (ValueError ''semantic state mismatch'')
      else Inr (sum_list vs))"
  by (simp add: restore_checkpoint_def in_range_def guard_res_def Let_def sum_of_slices)

lemma restore_result:
  assumes "restore_checkpoint vs cp = Inr t"
  shows "t = sum_list vs \<and> (\<exists>p n. dict_get cp ''processed'' = Some p \<and> in_range vs p \<and>
    dict_get cp ''sum'' = Some n \<and> json_eq n (JInt (sum_list (slice_to vs (int_val p)))))"
proof -
  from assms obtain p n where "dict_get cp ''processed'' = Some p" "in_range vs p" "dict_get cp ''sum'' = Some n"
      "json_eq n (JInt (sum_list (slice_to vs (int_val p))))"
      "t = sum_list (slice_to vs (int_val p)) + sum_list (slice_from vs (int_val p))"
    unfolding restore_checkpoint_def Let_def
    by (elim bind_resE) (simp add: in_range_def)
  then show ?thesis by (auto simp: sum_of_slices)
qed

lemma slice_upto_range: "in_range vs p \<Longrightarrow> slice_upto vs p = Inr (slice_to vs (int_val p))"
  by (cases p) (auto simp: slice_upto_def in_range_def)

lemma make_checkpoint_eq:
  "make_checkpoint vs p = Inr cp \<longleftrightarrow>
    (\<exists>part. slice_upto vs p = Inr part \<and> cp = checkpoint_of (values_digest vs) p (sum_list part))"
  by (auto simp: make_checkpoint_def bind_res_eq_Inr)

lemma restore_made:
  assumes "in_range vs p"
  shows "\<exists>cp. make_checkpoint vs p = Inr cp \<and> restore_checkpoint vs cp = Inr (sum_list vs)"
  using assms by (simp add: make_checkpoint_eq slice_upto_range restore_of)

text \<open>
  C24: a checkpoint resumes to the right answer or not at all.  Whatever dictionary is offered, a
  restore that returns yields the sum of all the values, the checkpoint counts a number of processed
  values between none and all of them, and its partial sum is the sum of exactly those; and every
  checkpoint made after such a number of values does restore.
\<close>

theorem checkpoint_resumes:
  "(restore_checkpoint vs cp = Inr t \<longrightarrow> t = sum_list vs \<and>
      (\<exists>p n. dict_get cp ''processed'' = Some p \<and> is_int p \<and> 0 \<le> int_val p \<and> int_val p \<le> int (length vs) \<and>
        dict_get cp ''sum'' = Some n \<and> json_eq n (JInt (sum_list (take (nat (int_val p)) vs))))) \<and>
   (k \<le> length vs \<longrightarrow>
      (\<exists>made. make_checkpoint vs (JInt (int k)) = Inr made \<and> restore_checkpoint vs made = Inr (sum_list vs)))"
proof (intro conjI impI)
  assume "restore_checkpoint vs cp = Inr t"
  from restore_result [OF this] show "t = sum_list vs" and "\<exists>p n. dict_get cp ''processed'' = Some p \<and>
      is_int p \<and> 0 \<le> int_val p \<and> int_val p \<le> int (length vs) \<and> dict_get cp ''sum'' = Some n \<and>
      json_eq n (JInt (sum_list (take (nat (int_val p)) vs)))"
    by (auto simp: in_range_def slice_to_def)
next
  assume "k \<le> length vs"
  then show "\<exists>made. make_checkpoint vs (JInt (int k)) = Inr made \<and> restore_checkpoint vs made = Inr (sum_list vs)"
    by (intro restore_made) (simp add: in_range_def)
qed

theorem checkpoint_resumes_witness:
  "\<exists>made. make_checkpoint [5, 7, 9] (JInt 2) = Inr made \<and> restore_checkpoint [5, 7, 9] made = Inr 21"
  using checkpoint_resumes [of "[5, 7, 9]" "[]" 0 2] by auto

section \<open>Vectors\<close>

lemma parse_decimal_error: "parse_decimal v = Inl e \<Longrightarrow> \<exists>message. e = ValueError message"
  by (auto simp: parse_decimal_def split: json.splits if_splits)

definition frame_agrees :: "json \<Rightarrow> int \<Rightarrow> bool" where
  "frame_agrees frame n \<longleftrightarrow> (\<exists>input expected. item_of frame ''input'' = Inr input \<and>
     parse_decimal input = Inr n \<and> item_of frame ''value'' = Inr expected \<and> json_eq (JInt n) expected)"

lemma check_valid_agrees: "frame_agrees frame n \<Longrightarrow> check_valid (fs, vs) frame = Inr (fs, vs @ [n])"
  by (auto simp: frame_agrees_def check_valid_def)

lemma check_valid_cases:
  assumes "check_valid (fs, vs) frame = Inr st"
  shows "(\<exists>n. frame_agrees frame n \<and> st = (fs, vs @ [n])) \<or>
    (\<exists>f new. st = (fs @ [f], vs @ new))"
proof -
  from assms obtain input where i: "item_of frame ''input'' = Inr input"
    by (auto simp: check_valid_def elim: bind_resE)
  show ?thesis
  proof (cases "parse_decimal input")
    case (Inl e)
    with parse_decimal_error [OF Inl] assms i show ?thesis by (auto simp: check_valid_def)
  next
    case (Inr n)
    with assms i obtain expected where "item_of frame ''value'' = Inr expected"
        "st = (if json_eq (JInt n) expected then fs else fs @ [''valid frame value mismatch''], vs @ [n])"
      by (auto simp: check_valid_def elim: bind_resE)
    with Inr i show ?thesis by (cases "json_eq (JInt n) expected") (auto simp: frame_agrees_def)
  qed
qed

lemma check_valid_grows: "fold_res check_valid (fs, vs) frames = Inr (fs', vs') \<Longrightarrow> \<exists>more. fs' = fs @ more"
proof (induction frames arbitrary: fs vs)
  case (Cons frame frames)
  then obtain fs1 vs1 where s: "check_valid (fs, vs) frame = Inr (fs1, vs1)"
      "fold_res check_valid (fs1, vs1) frames = Inr (fs', vs')" by (auto simp: bind_res_eq_Inr)
  from check_valid_cases [OF s(1)] Cons.IH [OF s(2)] show ?case by auto
qed simp

lemma check_valid_fold:
  "fold_res check_valid (fs, vs) frames = Inr (fs, vs') \<longleftrightarrow>
    (\<exists>ws. list_all2 frame_agrees frames ws \<and> vs' = vs @ ws)"
proof (induction frames arbitrary: vs)
  case (Cons frame frames)
  show ?case
  proof
    assume "fold_res check_valid (fs, vs) (frame # frames) = Inr (fs, vs')"
    then obtain fs1 vs1 where s: "check_valid (fs, vs) frame = Inr (fs1, vs1)"
        "fold_res check_valid (fs1, vs1) frames = Inr (fs, vs')" by (auto simp: bind_res_eq_Inr)
    from check_valid_grows [OF s(2)] check_valid_cases [OF s(1)] obtain n
      where n: "frame_agrees frame n" "fs1 = fs" "vs1 = vs @ [n]" by auto
    with s(2) Cons.IH obtain ws where "list_all2 frame_agrees frames ws" "vs' = vs @ n # ws" by auto
    with n show "\<exists>ws. list_all2 frame_agrees (frame # frames) ws \<and> vs' = vs @ ws"
      by (intro exI [of _ "n # ws"]) simp
  next
    assume "\<exists>ws. list_all2 frame_agrees (frame # frames) ws \<and> vs' = vs @ ws"
    then obtain n ws where "frame_agrees frame n" "list_all2 frame_agrees frames ws" "vs' = (vs @ [n]) @ ws"
      by (auto simp: list_all2_Cons1)
    with Cons.IH [of "vs @ [n]"] show "fold_res check_valid (fs, vs) (frame # frames) = Inr (fs, vs')"
      by (auto simp: check_valid_agrees)
  qed
qed auto

lemma check_invalid_cases:
  assumes "check_invalid fs frame = Inr fs'"
  shows "fs' = fs \<and> \<not> is_ok (parse_decimal frame) \<or> is_ok (parse_decimal frame) \<and> (\<exists>f. fs' = fs @ [f])"
  using assms by (auto simp: check_invalid_def is_ok_def split: sum.splits py_error.splits)

lemma check_invalid_refused: "\<not> is_ok (parse_decimal frame) \<Longrightarrow> check_invalid fs frame = Inr fs"
  using parse_decimal_error [of frame] by (auto simp: check_invalid_def split: sum.splits py_error.splits)

lemma check_invalid_grows: "fold_res check_invalid fs frames = Inr fs' \<Longrightarrow> \<exists>more. fs' = fs @ more"
proof (induction frames arbitrary: fs)
  case (Cons frame frames)
  then obtain fs1 where s: "check_invalid fs frame = Inr fs1" "fold_res check_invalid fs1 frames = Inr fs'"
    by (auto simp: bind_res_eq_Inr)
  from check_invalid_cases [OF s(1)] Cons.IH [OF s(2)] show ?case by auto
qed simp

lemma check_invalid_fold:
  "fold_res check_invalid fs frames = Inr fs \<longleftrightarrow> (\<forall>frame \<in> set frames. \<not> is_ok (parse_decimal frame))"
proof (induction frames)
  case (Cons frame frames)
  show ?case
  proof (cases "is_ok (parse_decimal frame)")
    case True
    then have "fold_res check_invalid fs (frame # frames) \<noteq> Inr fs"
      using check_invalid_cases [of fs frame] check_invalid_grows [of _ frames fs]
      by (fastforce simp: bind_res_eq_Inr)
    with True show ?thesis by simp
  next
    case False
    with Cons show ?thesis by (simp add: check_invalid_refused)
  qed
qed simp

text \<open>What the test vectors have to state.\<close>

definition vectors_hold :: "obj \<Rightarrow> bool" where
  "vectors_hold vectors \<longleftrightarrow>
     (\<exists>valid invalid frames refused vs expected p.
        dict_get vectors ''valid_frames'' = Some valid \<and> iterate valid = Inr frames \<and>
        dict_get vectors ''invalid_frames'' = Some invalid \<and> iterate invalid = Inr refused \<and>
        dict_get vectors ''expected_sum'' = Some expected \<and> dict_get vectors ''checkpoint_after'' = Some p \<and>
        list_all2 frame_agrees frames vs \<and> (\<forall>frame \<in> set refused. \<not> is_ok (parse_decimal frame)) \<and>
        json_eq (JInt (sum_list vs)) expected \<and> in_range vs p \<and> values_digest vs \<noteq> NO_DIGEST)"

lemma checkpoint_findings_range:
  assumes "in_range vs p"
  shows "checkpoint_findings vs p expected =
    Inr ((if json_eq (JInt (sum_list vs)) expected then [] else [''checkpoint resume mismatch'']) @
         (if values_digest vs = NO_DIGEST then [''stale checkpoint accepted''] else []))"
  using assms
  by (simp add: checkpoint_findings_def make_checkpoint_def slice_upto_range resume_findings_def accepted_finding_def restore_of)

lemma checkpoint_findings_clean:
  assumes "checkpoint_findings vs p expected = Inr []"
  shows "in_range vs p"
proof (rule ccontr)
  assume "\<not> in_range vs p"
  with assms show False
    by (auto simp: checkpoint_findings_def make_checkpoint_def resume_findings_def restore_of bind_res_eq_Inr)
qed

lemma frames_exact: "list_all2 frame_agrees frames vs \<Longrightarrow> list_all2 frame_agrees frames ws \<Longrightarrow> vs = ws"
  by (induction frames arbitrary: vs ws) (auto simp: list_all2_Cons1 frame_agrees_def)

lemma run_vectors_steps:
  assumes "run_vectors vectors = Inr (findings, semantic)"
  obtains valid frames f1 vs invalid refused f2 expected p resumed where
    "dict_get vectors ''valid_frames'' = Some valid" "iterate valid = Inr frames"
    "fold_res check_valid ([], []) frames = Inr (f1, vs)"
    "dict_get vectors ''invalid_frames'' = Some invalid" "iterate invalid = Inr refused"
    "fold_res check_invalid f1 refused = Inr f2"
    "dict_get vectors ''expected_sum'' = Some expected" "dict_get vectors ''checkpoint_after'' = Some p"
    "checkpoint_findings vs p expected = Inr resumed"
    "findings = f2 @ (if json_eq (JInt (sum_list vs)) expected then [] else [''uninterrupted sum mismatch'']) @ resumed"
proof -
  from assms obtain valid frames f1 vs invalid refused f2 expected p resumed where s:
    "dict_get vectors ''valid_frames'' = Some valid" "iterate valid = Inr frames"
    "fold_res check_valid ([], []) frames = Inr (f1, vs)"
    "dict_get vectors ''invalid_frames'' = Some invalid" "iterate invalid = Inr refused"
    "fold_res check_invalid f1 refused = Inr f2"
    "dict_get vectors ''expected_sum'' = Some expected" "dict_get vectors ''checkpoint_after'' = Some p"
    "checkpoint_findings vs p expected = Inr resumed"
    "(if json_eq (JInt (sum_list vs)) expected then f2 else f2 @ [''uninterrupted sum mismatch'']) @ resumed = findings"
    unfolding run_vectors_def Let_def
    by (elim bind_resE) (clarsimp split: prod.splits, elim bind_resE, simp)
  show ?thesis by (rule that [OF s(1-9)]) (use s(10) in \<open>simp split: if_splits\<close>)
qed

lemma vectors_verdict:
  assumes "run_vectors vectors = Inr (findings, semantic)"
  shows "findings = [] \<longleftrightarrow> vectors_hold vectors"
proof -
  from assms obtain valid frames f1 vs invalid refused f2 expected p resumed where s:
    "dict_get vectors ''valid_frames'' = Some valid" "iterate valid = Inr frames"
    "fold_res check_valid ([], []) frames = Inr (f1, vs)"
    "dict_get vectors ''invalid_frames'' = Some invalid" "iterate invalid = Inr refused"
    "fold_res check_invalid f1 refused = Inr f2"
    "dict_get vectors ''expected_sum'' = Some expected" "dict_get vectors ''checkpoint_after'' = Some p"
    "checkpoint_findings vs p expected = Inr resumed"
    and f: "findings = f2 @ (if json_eq (JInt (sum_list vs)) expected then [] else [''uninterrupted sum mismatch'']) @ resumed"
    by (rule run_vectors_steps)
  have clean: "f2 = [] \<longleftrightarrow> list_all2 frame_agrees frames vs \<and> (\<forall>frame \<in> set refused. \<not> is_ok (parse_decimal frame))"
    using s(3,6) check_invalid_grows [OF s(6)] check_invalid_fold [of "[]" refused] check_valid_fold [of "[]" "[]" frames vs]
    by (cases "f1 = []") (auto dest: frames_exact)
  have unique: "list_all2 frame_agrees frames ws \<Longrightarrow> ws = vs" for ws
    using check_valid_fold [of "[]" "[]" frames ws] s(3) by simp
  show ?thesis
  proof
    assume "findings = []"
    then have e: "f2 = []" "json_eq (JInt (sum_list vs)) expected" "resumed = []" using f by (auto split: if_splits)
    with s(9) have r: "in_range vs p" by (blast dest: checkpoint_findings_clean)
    with s(9) e(3) have "values_digest vs \<noteq> NO_DIGEST" by (auto simp: checkpoint_findings_range split: if_splits)
    with e(1,2) r clean s(1,2,4,5,7,8) show "vectors_hold vectors" unfolding vectors_hold_def by blast
  next
    assume "vectors_hold vectors"
    with s(1,2,4,5,7,8) unique have h: "list_all2 frame_agrees frames vs"
        "\<forall>frame \<in> set refused. \<not> is_ok (parse_decimal frame)"
        "json_eq (JInt (sum_list vs)) expected" "in_range vs p" "values_digest vs \<noteq> NO_DIGEST"
      unfolding vectors_hold_def by fastforce+
    then show "findings = []" using f clean s(9) by (simp add: checkpoint_findings_range)
  qed
qed

section \<open>The bundle and the verdict\<close>

text \<open>A manifest entry that names a file of the recorded size and identity.\<close>

definition entry_holds :: "(string \<Rightarrow> string option) \<Rightarrow> json \<Rightarrow> bool" where
  "entry_holds files entry \<longleftrightarrow>
     (\<exists>d relative content. entry = JObj d \<and> dict_get d ''path'' = Some (JStr relative) \<and> files relative = Some content \<and>
        json_eq (JInt (int (length content))) (get_or_null d ''size'') \<and>
        json_eq (JStr (''sha256:'' @ sha256 content)) (get_or_null d ''identity''))"

definition bundle_holds :: "(string \<Rightarrow> string option) \<Rightarrow> obj \<Rightarrow> bool" where
  "bundle_holds files manifest \<longleftrightarrow>
     (\<forall>listed entries. dict_get manifest ''files'' = Some listed \<and> iterate listed = Inr entries \<longrightarrow>
        (\<forall>entry \<in> set entries. entry_holds files entry))"

lemma get_or_null_str: "get_or_null d k = JStr s \<longleftrightarrow> dict_get d k = Some (JStr s)"
  by (cases "dict_get d k") (auto simp: get_or_null_def)

lemma entry_clean: "entry_findings files entry = Inr [] \<longleftrightarrow> entry_holds files entry"
  by (auto simp: entry_findings_def entry_holds_def get_or_null_str split: json.splits option.splits)

lemma manifest_clean:
  assumes "verify_manifest files manifest = Inr findings"
  shows "findings = [] \<longleftrightarrow> bundle_holds files manifest"
proof -
  from assms obtain entries found where
    e: "(case dict_get manifest ''files'' of None \<Rightarrow> Inr [] | Some v \<Rightarrow> iterate v) = Inr entries"
    and f: "map_res (entry_findings files) entries = Inr found" "findings = concat found"
    unfolding verify_manifest_def by (elim bind_resE) simp
  have "findings = [] \<longleftrightarrow> (\<forall>entry \<in> set entries. entry_holds files entry)"
    using map_res_member [OF f(1)] map_res_member' [OF f(1)] unfolding f(2) entry_clean [symmetric]
    by fastforce
  with e show ?thesis by (auto simp: bundle_holds_def split: option.splits)
qed

text \<open>
  C29: the host record says PASS, and the evaluator exits with 0, exactly when every listed file of the
  bundle is there with its recorded size and identity, every valid frame parses to its stated value
  within the limit, every invalid frame is refused, the values add up to the stated sum, the
  checkpoint is taken after a number of values there are, and the values do not have the digest of
  64 zeros that stands for a stale input.  No finding is dropped on the way to the verdict.
\<close>

theorem host_record_verdict:
  assumes "evaluate_host files identity manifest vectors = Inr r"
  shows "(hr_result r = ''PASS'' \<longleftrightarrow> bundle_holds files manifest \<and> vectors_hold vectors) \<and>
    (hr_exit_code r = 0 \<longleftrightarrow> hr_result r = ''PASS'') \<and> (hr_result r = ''PASS'' \<longleftrightarrow> hr_findings r = [])"
proof -
  from assms obtain f1 f2 semantic where f: "verify_manifest files manifest = Inr f1"
      "run_vectors vectors = Inr (f2, semantic)"
      and r: "hr_result r = status_of (f1 @ f2)" "hr_findings r = f1 @ f2"
        "hr_exit_code r = (if status_of (f1 @ f2) = ''FAIL'' then 1 else 0)"
    unfolding evaluate_host_def Let_def by (elim bind_resE) (auto elim!: bind_resE)
  from manifest_clean [OF f(1)] vectors_verdict [OF f(2)] show ?thesis
    by (auto simp: r status_of_def)
qed

text \<open>Two frames, a checkpoint after the first.\<close>

definition sample_vectors :: obj where
  "sample_vectors =
     [(''valid_frames'', JList [JObj [(''input'', JStr ''7''), (''value'', JInt 7)],
                               JObj [(''input'', JStr ''005''), (''value'', JInt 5)]]),
      (''invalid_frames'', JList [JStr '''', JStr ''-1'', JStr ''100001'']), (''expected_sum'', JInt 12),
      (''checkpoint_after'', JInt 1), (''contract'', JStr ''sum'')]"

definition sample_bundle :: obj where
  "sample_bundle = [(''bundle_id'', JStr ''b''), (''candidate_freeze_identity'', JStr ''c'')]"

theorem host_record_verdict_witness:
  "\<exists>r. evaluate_host (\<lambda>_. None) ''m'' sample_bundle sample_vectors = Inr r \<and>
    (hr_result r = ''PASS'') = (values_digest [7, 5] \<noteq> NO_DIGEST)"
proof -
  have "fold_res check_valid ([], []) [JObj [(''input'', JStr ''7''), (''value'', JInt 7)],
      JObj [(''input'', JStr ''005''), (''value'', JInt 5)]] = Inr ([], [7, 5])"
    by (simp add: check_valid_def item_of_def parse_decimal_def is_digit_def)
  moreover have refused: "\<not> is_ok (parse_decimal (JStr ''''))" "\<not> is_ok (parse_decimal (JStr ''-1''))"
      "\<not> is_ok (parse_decimal (JStr ''100001''))"
    by (simp_all add: parse_decimal_def is_digit_def)
  moreover have range: "in_range [7, 5] (JInt 1)" by (simp add: in_range_def)
  ultimately obtain findings semantic where v: "run_vectors sample_vectors = Inr (findings, semantic)"
    by (simp add: run_vectors_def sample_vectors_def iterate_def check_invalid_refused checkpoint_findings_range)
  then obtain r where r: "evaluate_host (\<lambda>_. None) ''m'' sample_bundle sample_vectors = Inr r"
    by (simp add: evaluate_host_def verify_manifest_def sample_bundle_def)
  have b: "bundle_holds (\<lambda>_. None) sample_bundle" by (simp add: bundle_holds_def sample_bundle_def)
  have agrees: "list_all2 frame_agrees [JObj [(''input'', JStr ''7''), (''value'', JInt 7)],
      JObj [(''input'', JStr ''005''), (''value'', JInt 5)]] [7, 5]"
    by (simp add: frame_agrees_def item_of_def parse_decimal_def is_digit_def)
  then have "vectors_hold sample_vectors" if "values_digest [7, 5] \<noteq> NO_DIGEST"
    using refused range that unfolding vectors_hold_def
    by (intro exI conjI) (auto simp: sample_vectors_def iterate_def)
  moreover have "values_digest [7, 5] \<noteq> NO_DIGEST" if "vectors_hold sample_vectors"
    using that agrees frames_exact [OF _ agrees] by (auto simp: vectors_hold_def sample_vectors_def iterate_def)
  ultimately show ?thesis using host_record_verdict [OF r] b r by auto
qed

end
