(* ===== verification/CacheTraceBundle.thy ===== *)
theory CacheTraceBundle
  imports CacheEpoch2 PyJsonParse
begin

text \<open>
  \<^verbatim>\<open>cacheforge/trace_bundle.py\<close> and \<^verbatim>\<open>cacheforge/identities.py\<close>: loading an external trace bundle and its
  evaluation.  The \<open>jsonschema\<close> validator is a parameter: the path and the message of the error it
  raises for a payload, if any.  The files whose identities go into the report are a parameter too,
  from a path to the bytes.  The constant prose of the report is not part of the record.
\<close>

section \<open>Loading\<close>

definition MAX_SCENARIOS :: int where
  "MAX_SCENARIOS = 256"

definition MAX_REQUESTS :: int where
  "MAX_REQUESTS = 10000"

record trace_bundle =
  tb_bundle_id :: string
  tb_input_digest :: string
  tb_scenarios :: "scenario list"

definition require_mapping :: "json \<Rightarrow> string \<Rightarrow> obj res" where
  "require_mapping v field =
     (case v of JObj d \<Rightarrow> Inr d | _ \<Rightarrow> Inl (ValueError (field @ '' must be an object'')))"

definition require_list :: "json \<Rightarrow> string \<Rightarrow> json list res" where
  "require_list v field =
     (case v of JList xs \<Rightarrow> Inr xs | _ \<Rightarrow> Inl (ValueError (field @ '' must be an array'')))"

text \<open>\<open>assert isinstance(v, str)\<close>, and \<open>assert isinstance(v, int) and not isinstance(v, bool)\<close>.\<close>

definition assert_str :: "json \<Rightarrow> string res" where
  "assert_str v = (case v of JStr s \<Rightarrow> Inr s | _ \<Rightarrow> Inl AssertionError)"

definition assert_int :: "json \<Rightarrow> int res" where
  "assert_int v = (case v of JInt n \<Rightarrow> Inr n | _ \<Rightarrow> Inl AssertionError)"

definition assert_opt_int :: "json \<Rightarrow> int option res" where
  "assert_opt_int v = (case v of JNull \<Rightarrow> Inr None | JInt n \<Rightarrow> Inr (Some n) | _ \<Rightarrow> Inl AssertionError)"

definition get_default :: "obj \<Rightarrow> string \<Rightarrow> json \<Rightarrow> json" where
  "get_default d k otherwise = (case dict_get d k of None \<Rightarrow> otherwise | Some v \<Rightarrow> v)"

definition validate_schema :: "(json \<Rightarrow> (string list \<times> string) option) \<Rightarrow> json \<Rightarrow> unit res" where
  "validate_schema schema_error payload =
     (case schema_error payload of
        None \<Rightarrow> Inr ()
      | Some (path, message) \<Rightarrow>
          let location = (if join_with ''.'' path = [] then ''root'' else join_with ''.'' path)
          in Inl (ValueError (''trace bundle schema validation failed at '' @ location @ '': '' @ message)))"

text \<open>One turn of the loop over the requests: the identities seen and the traces so far.\<close>

definition load_request ::
  "string \<Rightarrow> string set \<times> request_trace list \<Rightarrow> json \<Rightarrow> (string set \<times> request_trace list) res" where
  "load_request scenario_id = (\<lambda>(seen_request_ids, requests) raw_request.
     bind_res (require_mapping raw_request ''request'') (\<lambda>request_payload.
     bind_res (bind_res (obj_at request_payload ''request_id'') assert_str) (\<lambda>request_id.
     bind_res (guard_res (request_id \<in> seen_request_ids)
       (ValueError (''duplicate request_id in scenario '' @ scenario_id @ '': '' @ request_id))) (\<lambda>_.
     bind_res (obj_at request_payload ''prompt_blocks'') (\<lambda>raw_blocks.
     bind_res (require_list raw_blocks ''prompt_blocks'') (\<lambda>prompt_blocks.
     bind_res (bind_res (obj_at request_payload ''generated_blocks'') assert_int) (\<lambda>generated_blocks.
     bind_res (assert_int (get_default request_payload ''priority'' (JInt 1))) (\<lambda>priority.
     bind_res (assert_opt_int (get_or_null request_payload ''cancel_after_generated'')) (\<lambda>cancel_after.
     bind_res (RequestTrace request_id (map py_str prompt_blocks) generated_blocks priority cancel_after) (\<lambda>request.
       Inr (insert request_id seen_request_ids, requests @ [request])))))))))))"

text \<open>One turn of the loop over the scenarios.\<close>

record load_state =
  ls_seen :: "string set"
  ls_total_requests :: int
  ls_scenarios :: "scenario list"

definition load_scenario :: "load_state \<Rightarrow> json \<Rightarrow> load_state res" where
  "load_scenario st raw_scenario =
     bind_res (require_mapping raw_scenario ''scenario'') (\<lambda>scenario_payload.
     bind_res (bind_res (obj_at scenario_payload ''scenario_id'') assert_str) (\<lambda>scenario_id.
     bind_res (guard_res (scenario_id \<in> ls_seen st) (ValueError (''duplicate scenario_id: '' @ scenario_id))) (\<lambda>_.
     bind_res (bind_res (obj_at scenario_payload ''capacity_blocks'') assert_int) (\<lambda>capacity_blocks.
     bind_res (obj_at scenario_payload ''requests'') (\<lambda>requests_value.
     bind_res (require_list requests_value ''requests'') (\<lambda>raw_requests.
     bind_res (fold_res (load_request scenario_id) ({}, []) raw_requests) (\<lambda>(_, requests).
     let total_requests = ls_total_requests st + int (length requests) in
     bind_res (guard_res (MAX_REQUESTS < total_requests)
       (ValueError ''trace bundle exceeds the request limit'')) (\<lambda>_.
     bind_res (assert_str (get_default scenario_payload ''purpose'' (JStr ''external protected evaluation''))) (\<lambda>purpose.
       Inr \<lparr>ls_seen = insert scenario_id (ls_seen st), ls_total_requests = total_requests,
            ls_scenarios = ls_scenarios st @
              [\<lparr>sc_scenario_id = scenario_id, sc_capacity_blocks = capacity_blocks,
                sc_requests = requests, sc_purpose = purpose\<rparr>]\<rparr>)))))))))"

text \<open>The text of the \<open>JSONDecodeError\<close> is not modelled.\<close>

definition decode_bundle :: "string \<Rightarrow> json res" where
  "decode_bundle raw =
     (case json_loads_bytes raw of
        Inl e \<Rightarrow> Inl (if e = json_error then ValueError ''trace bundle is not valid JSON'' else e)
      | Inr v \<Rightarrow> Inr v)"

definition load_trace_bundle ::
  "(json \<Rightarrow> (string list \<times> string) option) \<Rightarrow> string \<Rightarrow> trace_bundle res" where
  "load_trace_bundle schema_error raw =
     bind_res (decode_bundle raw) (\<lambda>decoded.
     bind_res (validate_schema schema_error decoded) (\<lambda>_.
     bind_res (require_mapping decoded ''trace bundle'') (\<lambda>payload.
     bind_res (bind_res (obj_at payload ''bundle_id'') assert_str) (\<lambda>bundle_id.
     bind_res (obj_at payload ''scenarios'') (\<lambda>scenarios_value.
     bind_res (require_list scenarios_value ''scenarios'') (\<lambda>raw_scenarios.
     bind_res (guard_res (MAX_SCENARIOS < int (length raw_scenarios))
       (ValueError ''scenario count is outside the allowed range'')) (\<lambda>_.
     bind_res (fold_res load_scenario \<lparr>ls_seen = {}, ls_total_requests = 0, ls_scenarios = []\<rparr> raw_scenarios) (\<lambda>st.
       Inr \<lparr>tb_bundle_id = bundle_id, tb_input_digest = ''sha256:'' @ sha256 raw,
            tb_scenarios = ls_scenarios st\<rparr>))))))))"

section \<open>Identities\<close>

definition IDENTITY_PATHS :: "string list" where
  "IDENTITY_PATHS =
     [''epoch-2-evidence-amendment.json'', ''epoch-2-preregistration.json'', ''generator/policy-spec.json'',
      ''machine/generated_policy.py'', ''protected-trace-bundle.schema.json'', ''src/cacheforge/authority.py'',
      ''src/cacheforge/epoch2.py'', ''src/cacheforge/identities.py'', ''src/cacheforge/model.py'',
      ''src/cacheforge/policies.py'', ''src/cacheforge/scenarios.py'', ''src/cacheforge/simulator.py'',
      ''src/cacheforge/study.py'', ''src/cacheforge/trace_bundle.py'', ''tools/run_epoch2.py'',
      ''tools/run_protected_evaluation.py'']"

definition collect_artifact_identities :: "(string \<Rightarrow> string) \<Rightarrow> (string, string) dict" where
  "collect_artifact_identities files = map (\<lambda>path. (path, ''sha256:'' @ sha256 (files path))) IDENTITY_PATHS"

section \<open>Evaluation\<close>

text \<open>The members of the report that are not constants, and those that limit what it claims.\<close>

record protected_report =
  pe_bundle_id :: string
  pe_input_bundle_digest :: string
  pe_observed_gate_result :: bool
  pe_protocol_eligible :: string
  pe_custody_verified :: string
  pe_formal_mncs_status :: string
  pe_formal_mncds_status :: string
  pe_disposition :: string
  pe_promotion_authorized :: bool
  pe_candidate_id :: string
  pe_baseline_ids :: "string list"
  pe_scenario_count :: int
  pe_request_count :: int
  pe_distinct_capacity_count :: int
  pe_artifact_identities :: "(string, string) dict"
  pe_observations :: epoch2_summary

definition evaluate_trace_bundle ::
  "(string \<Rightarrow> string) \<Rightarrow> trace_bundle \<Rightarrow> policy \<Rightarrow> protected_report res" where
  "evaluate_trace_bundle files bundle candidate_policy =
     (let scenarios = tb_scenarios bundle in
      bind_res (evaluate_policy ReferenceLRU scenarios) (\<lambda>lru.
      bind_res (evaluate_policy SegmentedLRU scenarios) (\<lambda>segmented.
      bind_res (evaluate_policy candidate_policy scenarios) (\<lambda>candidate.
      bind_res (summarize_policy_results scenarios lru segmented candidate) (\<lambda>observations.
        Inr \<lparr>pe_bundle_id = tb_bundle_id bundle, pe_input_bundle_digest = tb_input_digest bundle,
             pe_observed_gate_result = es_status observations,
             pe_protocol_eligible = ''NOT_ESTABLISHED'', pe_custody_verified = ''NOT_ESTABLISHED'',
             pe_formal_mncs_status = ''UNKNOWN'', pe_formal_mncds_status = ''UNKNOWN'',
             pe_disposition = ''REVIEW_REQUIRED'', pe_promotion_authorized = False,
             pe_candidate_id = pr_policy_id candidate,
             pe_baseline_ids = [pr_policy_id lru, pr_policy_id segmented],
             pe_scenario_count = int (length scenarios),
             pe_request_count = sum_list (map (\<lambda>sc. int (length (sc_requests sc))) scenarios),
             pe_distinct_capacity_count = int (card (set (map sc_capacity_blocks scenarios))),
             pe_artifact_identities = collect_artifact_identities files,
             pe_observations = observations\<rparr>)))))"

text \<open>\<^verbatim>\<open>tools/run_protected_evaluation.py\<close>: the machine policy on a loaded bundle.\<close>

definition run_protected_evaluation ::
  "(json \<Rightarrow> (string list \<times> string) option) \<Rightarrow> (string \<Rightarrow> string) \<Rightarrow> string \<Rightarrow> protected_report res" where
  "run_protected_evaluation schema_error files raw =
     bind_res (load_trace_bundle schema_error raw) (\<lambda>bundle.
       evaluate_trace_bundle files bundle GeneratedEvictionPolicy)"

end
