(* ===== verification/CacheTraceBundleProofs.thy ===== *)
theory CacheTraceBundleProofs
  imports CacheTraceBundle CacheEpoch2Proofs CacheStudyProofs
begin

text \<open>
  What a loaded trace bundle satisfies; that the summary of the second epoch returns for any
  scenarios whose counters stay in range; and that the entries of an evaluation are the counters of
  the simulated scenarios, one each, because a loaded bundle has no two scenarios of one name.
\<close>

section \<open>Loaded bundles\<close>

definition request_ok :: "request_trace \<Rightarrow> bool" where
  "request_ok request \<longleftrightarrow> rt_request_id request \<noteq> [] \<and> rt_prompt_blocks request \<noteq> [] \<and>
     0 \<le> rt_generated_blocks request \<and> 0 \<le> rt_priority request \<and>
     (\<forall>c. rt_cancel_after_generated request = Some c \<longrightarrow> 0 \<le> c \<and> c \<le> rt_generated_blocks request)"

lemma RequestTrace_ok:
  "RequestTrace rid blocks generated priority cancel = Inr request \<Longrightarrow>
     rt_request_id request = rid \<and> request_ok request"
  by (auto simp: RequestTrace_def request_ok_def split: if_splits option.splits)

definition scenario_ok :: "scenario \<Rightarrow> bool" where
  "scenario_ok sc \<longleftrightarrow> distinct (map rt_request_id (sc_requests sc)) \<and> list_all request_ok (sc_requests sc)"

definition bundle_ok :: "trace_bundle \<Rightarrow> bool" where
  "bundle_ok b \<longleftrightarrow> distinct (map sc_scenario_id (tb_scenarios b)) \<and> list_all scenario_ok (tb_scenarios b) \<and>
     length (tb_scenarios b) \<le> 256 \<and> sum_list (map (length \<circ> sc_requests) (tb_scenarios b)) \<le> 10000"

lemma load_request_step:
  assumes "load_request sid (seen, requests) raw = Inr st" and "seen = set (map rt_request_id requests)"
    and "distinct (map rt_request_id requests)" and "list_all request_ok requests"
  shows "\<exists>request. st = (set (map rt_request_id (requests @ [request])), requests @ [request]) \<and>
    distinct (map rt_request_id (requests @ [request])) \<and> list_all request_ok (requests @ [request])"
proof -
  from assms(1) obtain rid blocks generated priority cancel request where
    r: "rid \<notin> seen" "RequestTrace rid blocks generated priority cancel = Inr request"
      "st = (insert rid seen, requests @ [request])"
    unfolding load_request_def prod.case by (elim bind_resE) auto
  from RequestTrace_ok [OF r(2)] r(1,3) assms(2-4) show ?thesis by auto
qed

lemma load_requests:
  assumes "fold_res (load_request sid) ({}, []) raws = Inr (seen, requests)"
  shows "distinct (map rt_request_id requests) \<and> list_all request_ok requests"
proof -
  let ?I = "\<lambda>(seen, requests). seen = set (map rt_request_id requests) \<and>
    distinct (map rt_request_id requests) \<and> list_all request_ok requests"
  have "?I (seen, requests)"
  proof (rule fold_res_invariant [OF assms])
    fix st raw st'
    assume "?I st" and "load_request sid st raw = Inr st'"
    then show "?I st'"
      using load_request_step [of sid "fst st" "snd st" raw st'] by (cases st) auto
  qed simp
  then show ?thesis by simp
qed

definition load_inv :: "load_state \<Rightarrow> bool" where
  "load_inv st \<longleftrightarrow> ls_seen st = set (map sc_scenario_id (ls_scenarios st)) \<and>
     distinct (map sc_scenario_id (ls_scenarios st)) \<and> list_all scenario_ok (ls_scenarios st) \<and>
     ls_total_requests st = int (sum_list (map (length \<circ> sc_requests) (ls_scenarios st))) \<and>
     ls_total_requests st \<le> 10000"

lemma load_scenario_inv:
  assumes "load_scenario st raw = Inr st'" and "load_inv st"
  shows "load_inv st' \<and> length (ls_scenarios st') = Suc (length (ls_scenarios st))"
proof -
  from assms(1) obtain sid capacity raws seen requests purpose where
    r: "sid \<notin> ls_seen st" "fold_res (load_request sid) ({}, []) raws = Inr (seen, requests)"
      "ls_total_requests st + int (length requests) \<le> 10000"
    and st': "st' = \<lparr>ls_seen = insert sid (ls_seen st),
        ls_total_requests = ls_total_requests st + int (length requests),
        ls_scenarios = ls_scenarios st @ [\<lparr>sc_scenario_id = sid, sc_capacity_blocks = capacity,
          sc_requests = requests, sc_purpose = purpose\<rparr>]\<rparr>"
    unfolding load_scenario_def Let_def MAX_REQUESTS_def
    by (elim bind_resE) (clarsimp split: prod.splits, elim bind_resE, auto)
  from load_requests [OF r(2)] r(1,3) assms(2) show ?thesis
    by (auto simp: st' load_inv_def scenario_ok_def)
qed

lemma load_scenarios:
  assumes "fold_res load_scenario st raws = Inr st'" and "load_inv st"
  shows "load_inv st' \<and> length (ls_scenarios st') = length (ls_scenarios st) + length raws"
  using assms
proof (induction raws arbitrary: st)
  case (Cons raw raws)
  then obtain st1 where "load_scenario st raw = Inr st1" "fold_res load_scenario st1 raws = Inr st'"
    by (auto simp: bind_res_eq_Inr)
  with load_scenario_inv [of st raw st1] Cons show ?case by auto
qed simp

lemma load_bundle_ok:
  assumes "load_trace_bundle schema_error raw = Inr b"
  shows "bundle_ok b \<and> tb_input_digest b = ''sha256:'' @ sha256 raw"
proof -
  from assms obtain raws st where
    fold: "fold_res load_scenario \<lparr>ls_seen = {}, ls_total_requests = 0, ls_scenarios = []\<rparr> raws = Inr st"
    and "int (length raws) \<le> 256"
    and b: "tb_scenarios b = ls_scenarios st" "tb_input_digest b = ''sha256:'' @ sha256 raw"
    unfolding load_trace_bundle_def MAX_SCENARIOS_def by (elim bind_resE) (rule that, assumption, auto)
  moreover have "load_inv \<lparr>ls_seen = {}, ls_total_requests = 0, ls_scenarios = []\<rparr>" by (simp add: load_inv_def)
  note load_scenarios [OF fold this]
  ultimately show ?thesis by (auto simp: bundle_ok_def load_inv_def)
qed

section \<open>Simulated counters\<close>

text \<open>The blocks a policy recomputes on a scenario, by running it.\<close>

definition recomputed_by :: "policy \<Rightarrow> scenario \<Rightarrow> int" where
  "recomputed_by pol sc =
     (case bind_res (CacheSimulator DEFAULT_GROUPS (sc_capacity_blocks sc) pol) (\<lambda>sim. run_requests sim (sc_requests sc)) of
        Inr sim \<Rightarrow> sm_recomputed_blocks (sim_metrics sim)
      | Inl _ \<Rightarrow> 0)"

lemma metrics_to_json_counters: "metrics_to_json m = Inr j \<Longrightarrow> mj_counters j = m"
  by (auto simp: metrics_to_json_def Let_def bind_res_eq_Inr)

lemma evaluate_scenario_entry:
  assumes "evaluate_scenario pol (m, d) sc = Inr (m', d')"
  shows "\<exists>r. d' = dict_set (sc_scenario_id sc) r d \<and>
    sm_recomputed_blocks (mj_counters (sr_metrics r)) = recomputed_by pol sc"
proof -
  from assms obtain sim sim' j where "CacheSimulator DEFAULT_GROUPS (sc_capacity_blocks sc) pol = Inr sim"
      "run_requests sim (sc_requests sc) = Inr sim'" "metrics_to_json (sim_metrics sim') = Inr j"
      "d' = dict_set (sc_scenario_id sc) \<lparr>sr_purpose = sc_purpose sc, sr_metrics = j,
         sr_final_state_digest = state_digest (sim_state sim')\<rparr> d"
    unfolding evaluate_scenario_def by (elim bind_resE) auto
  then show ?thesis by (auto simp: recomputed_by_def metrics_to_json_counters)
qed

definition entries_of :: "policy \<Rightarrow> scenario list \<Rightarrow> (string, scenario_result) dict \<Rightarrow> bool" where
  "entries_of pol scenarios d \<longleftrightarrow> (\<forall>sc \<in> set scenarios. \<exists>r. dict_get d (sc_scenario_id sc) = Some r \<and>
     sm_recomputed_blocks (mj_counters (sr_metrics r)) = recomputed_by pol sc)"

lemma evaluate_loop_entries:
  assumes "fold_res (evaluate_scenario pol) (m, d) scenarios = Inr (m', d')"
    and "distinct (map sc_scenario_id (before @ scenarios))" and "entries_of pol before d"
  shows "entries_of pol (before @ scenarios) d'"
  using assms
proof (induction scenarios arbitrary: m d before)
  case (Cons sc scenarios)
  then obtain m1 d1 where s: "evaluate_scenario pol (m, d) sc = Inr (m1, d1)"
      "fold_res (evaluate_scenario pol) (m1, d1) scenarios = Inr (m', d')" by (auto simp: bind_res_eq_Inr)
  from evaluate_scenario_entry [OF s(1)] obtain r where d1: "d1 = dict_set (sc_scenario_id sc) r d"
    and r: "sm_recomputed_blocks (mj_counters (sr_metrics r)) = recomputed_by pol sc" by blast
  have "sc_scenario_id x \<noteq> sc_scenario_id sc" if "x \<in> set before" for x
    using Cons.prems(2) that by (auto simp: image_iff)
  with Cons.prems(3) r have "entries_of pol (before @ [sc]) d1"
    unfolding entries_of_def d1 by (auto simp: dict_get_set)
  with Cons.IH [OF s(2), of "before @ [sc]"] Cons.prems(2) show ?case by simp
qed simp

lemma evaluate_entries:
  assumes "evaluate_policy pol scenarios = Inr r" and "distinct (map sc_scenario_id scenarios)"
  shows "entries_of pol scenarios (pr_scenarios r)"
proof -
  from assms(1) obtain m d where "fold_res (evaluate_scenario pol) (StudyMetrics, []) scenarios = Inr (m, d)"
      "pr_scenarios r = d"
    unfolding evaluate_policy_def by (elim bind_resE) (clarsimp split: prod.splits, elim bind_resE, auto)
  with evaluate_loop_entries [of pol StudyMetrics "[]" scenarios m d "[]"] assms(2) show ?thesis
    by (simp add: entries_of_def)
qed

lemma evaluated_blocks:
  assumes "evaluate_policy pol scenarios = Inr r" and "distinct (map sc_scenario_id scenarios)"
    and "sc \<in> set scenarios"
  shows "metric sm_recomputed_blocks r (sc_scenario_id sc) = Inr (recomputed_by pol sc)"
    and "blocks_of r sc = recomputed_by pol sc"
    and "is_ok (final_digest r (sc_scenario_id sc))"
proof -
  from evaluate_entries [OF assms(1,2)] assms(3) obtain e where
    "dict_get (pr_scenarios r) (sc_scenario_id sc) = Some e"
    "sm_recomputed_blocks (mj_counters (sr_metrics e)) = recomputed_by pol sc"
    by (auto simp: entries_of_def)
  then show m: "metric sm_recomputed_blocks r (sc_scenario_id sc) = Inr (recomputed_by pol sc)"
    and "is_ok (final_digest r (sc_scenario_id sc))"
    by (simp_all add: metric_def final_digest_def)
  then show "blocks_of r sc = recomputed_by pol sc" by (simp add: blocks_of_def)
qed

text \<open>A scenario recomputes at most one block per access.\<close>

lemma recomputed_bounds:
  "0 \<le> recomputed_by pol sc \<and> recomputed_by pol sc \<le> scenario_accesses sc"
proof (cases "bind_res (CacheSimulator DEFAULT_GROUPS (sc_capacity_blocks sc) pol) (\<lambda>sim. run_requests sim (sc_requests sc))")
  case (Inl e)
  then show ?thesis by (simp add: recomputed_by_def scenario_accesses_nonneg)
next
  case (Inr sim')
  then obtain sim where sim: "CacheSimulator DEFAULT_GROUPS (sc_capacity_blocks sc) pol = Inr sim"
    and run: "run_requests sim (sc_requests sc) = Inr sim'" by (rule bind_resE)
  have start: "sim_groups sim = DEFAULT_GROUPS" "cs_clock (sim_state sim) = 0"
    using sim by (auto simp: CacheSimulator_def CacheState_def bind_res_eq_Inr split: if_splits)
  note books = CacheSimulator_accounted [OF sim]
  then have "cs_clock (sim_state sim') = scenario_accesses sc"
    using run_clock [OF _ run] start by (simp add: accounted_def Let_def scenario_accesses_def)
  with accounted_bounds [OF books.run [OF books run]] show ?thesis by (simp add: recomputed_by_def Inr)
qed

text \<open>A policy that keeps its contract is never overruled in an evaluation.\<close>

lemma contracted_run:
  assumes "eviction_policy (propose pol)" and "CacheSimulator groups capacity pol = Inr sim"
    and "run_requests sim trace = Inr sim'"
  shows "sm_rejected_proposals (sim_metrics sim') = 0 \<and> sm_fallback_uses (sim_metrics sim') = 0"
proof -
  have books: "accounted sim" using assms(2) by (rule CacheSimulator_accounted)
  moreover have "sim_policy sim = pol" "sm_rejected_proposals (sim_metrics sim) = 0"
    using assms(2) by (auto simp: CacheSimulator_def bind_res_eq_Inr StudyMetrics_def split: if_splits)
  ultimately have "trusted sim" using assms(1) by (simp add: trusted_def accounted_def Let_def)
  with trust.run [OF _ assms(3)] books.run [OF books assms(3)] show ?thesis
    by (auto simp: trusted_def accounted_def Let_def)
qed

lemma evaluate_contracted:
  assumes "evaluate_policy pol scenarios = Inr r" and "eviction_policy (propose pol)"
  shows "aggregate_of sm_rejected_proposals r = 0 \<and> aggregate_of sm_fallback_uses r = 0"
proof -
  let ?I = "\<lambda>st :: study_metrics \<times> (string, scenario_result) dict.
    sm_rejected_proposals (fst st) = 0 \<and> sm_fallback_uses (fst st) = 0"
  from assms(1) obtain st j where f: "fold_res (evaluate_scenario pol) (StudyMetrics, []) scenarios = Inr st"
      "metrics_to_json (fst st) = Inr j" "pr_aggregate r = j"
    unfolding evaluate_policy_def by (elim bind_resE) (clarsimp split: prod.splits, elim bind_resE, auto)
  have "?I st"
  proof (rule fold_res_invariant [OF f(1)])
    fix t x t' assume "?I t" and "evaluate_scenario pol t x = Inr t'"
    then show "?I t'"
      unfolding evaluate_scenario_def
      by (elim bind_resE) (auto simp: merge_metrics_def dest!: contracted_run [OF assms(2)])
  qed (simp add: StudyMetrics_def)
  with metrics_to_json_counters [OF f(2)] f(3) show ?thesis by simp
qed

section \<open>The summary returns\<close>

definition small_bucket :: "int \<Rightarrow> bucket \<Rightarrow> bool" where
  "small_bucket n b \<longleftrightarrow> 0 \<le> candidate_recomputed (bk_recomputed b) \<and> candidate_recomputed (bk_recomputed b) \<le> n"

definition small_buckets :: "int \<Rightarrow> ('k, bucket) dict \<Rightarrow> bool" where
  "small_buckets n d \<longleftrightarrow> (\<forall>k b. dict_get d k = Some b \<longrightarrow> small_bucket n b)"

lemma small_add:
  "small_bucket n b \<Longrightarrow> 0 \<le> candidate_recomputed v \<Longrightarrow> small_bucket (n + candidate_recomputed v) (add_to_bucket v ratio rel b)"
  by (simp add: small_bucket_def add_to_bucket_def add_recompute_def)

lemma small_mono: "small_bucket n b \<Longrightarrow> n \<le> m \<Longrightarrow> small_bucket m b"
  by (simp add: small_bucket_def)

lemma small_buckets_mono: "small_buckets n d \<Longrightarrow> n \<le> m \<Longrightarrow> small_buckets m d"
  by (auto simp: small_buckets_def intro: small_mono)

lemma small_bump:
  assumes "small_buckets n d" and "0 \<le> n" and "0 \<le> candidate_recomputed v"
  shows "small_buckets (n + candidate_recomputed v) (bump k v ratio rel d)"
proof -
  have "small_bucket n new_bucket" using assms(2) by (simp add: small_bucket_def new_bucket_def no_recompute_def)
  with assms small_mono [of n _ "n + candidate_recomputed v"] show ?thesis
    by (auto simp: small_buckets_def bump_def dict_get_set split: option.splits intro!: small_add)
qed

lemma int_div_ok: "b \<noteq> 0 \<Longrightarrow> 0 \<le> a \<Longrightarrow> a \<le> 2 ^ 53 \<Longrightarrow> is_ok (int_div a b)"
  by (simp add: int_div_total)

lemma ratio_or_ok: "0 \<le> a \<Longrightarrow> a \<le> 2 ^ 53 \<Longrightarrow> is_ok (ratio_or d a b)"
  by (simp add: ratio_or_def int_div_ok)

lemma median_ok: "xs \<noteq> [] \<Longrightarrow> is_ok (median xs)"
proof -
  assume "xs \<noteq> []"
  then have "sort_key fin_val xs \<noteq> []" by (metis length_0_conv length_sort)
  moreover have "is_ok (fdiv x (Fin 2))" for x by (cases x) auto
  ultimately show ?thesis by (auto simp: median_def Let_def sort_floats_def)
qed

lemma finalize_bucket_ok:
  assumes "small_bucket n b" and "n \<le> 2 ^ 53"
  shows "is_ok (finalize_bucket b)"
proof -
  from assms have "is_ok (ratio_or (Fin 1) (candidate_recomputed (bk_recomputed b)) (strongest_recomputed (bk_recomputed b)))"
    by (intro ratio_or_ok) (auto simp: small_bucket_def)
  then show ?thesis
    using median_ok [of "bk_ratios b"]
    by (cases "bk_ratios b = []") (auto simp: finalize_bucket_def elim!: is_okE)
qed

lemma map_res_ok: "(\<And>x. x \<in> set xs \<Longrightarrow> is_ok (f x)) \<Longrightarrow> is_ok (map_res f xs)"
proof (induction xs)
  case (Cons x xs)
  from Cons.prems have "is_ok (f x)" "is_ok (map_res f xs)" by (auto intro: Cons.IH)
  then show ?case by (auto elim!: is_okE)
qed simp

lemma finalize_buckets_ok:
  assumes "dict_wf d" and "small_buckets n d" and "n \<le> 2 ^ 53"
  shows "is_ok (finalize_buckets d)"
  unfolding finalize_buckets_def
proof (rule map_res_ok)
  fix x assume "x \<in> set (sort_key fst d)"
  then have "dict_get d (fst x) = Some (snd x)" using in_set_dict_get [OF assms(1), of "fst x" "snd x"] by simp
  with assms(2,3) have "is_ok (finalize_bucket (snd x))"
    using finalize_bucket_ok [of n "snd x"] by (auto simp: small_buckets_def)
  then show "is_ok (case x of (k, b) \<Rightarrow> bind_res (finalize_bucket b) (\<lambda>s. Inr (int_str k, s)))"
    by (cases x) (auto elim!: is_okE)
qed

text \<open>The loop: what it has added up after some scenarios.\<close>

definition small_tally :: "int \<Rightarrow> nat \<Rightarrow> tally \<Rightarrow> bool" where
  "small_tally n k t \<longleftrightarrow> 0 \<le> n \<and> small_bucket n (ta_all t) \<and> 0 \<le> bk_improved (ta_all t) \<and> bk_improved (ta_all t) \<le> int k \<and>
     (\<forall>x \<in> set (bk_ratios (ta_all t)). \<exists>q. x = Fin q) \<and>
     dict_wf (ta_by_capacity t) \<and> dict_wf (ta_by_seed t) \<and> dict_wf (ta_by_hot_prefix t) \<and> dict_wf (ta_high_capacity t) \<and>
     small_buckets n (ta_by_capacity t) \<and> small_buckets n (ta_by_seed t) \<and>
     small_buckets n (ta_by_hot_prefix t) \<and> small_buckets n (ta_high_capacity t)"

lemma bump_wf: "dict_wf d \<Longrightarrow> dict_wf (bump k v ratio rel d)"
  by (simp add: bump_def)

lemma tally_scenario_ok:
  assumes "small_tally n k t" and "metric sm_recomputed_blocks lru (sc_scenario_id sc) = Inr l"
    and "metric sm_recomputed_blocks segmented (sc_scenario_id sc) = Inr s"
    and "metric sm_recomputed_blocks candidate (sc_scenario_id sc) = Inr c"
    and "0 \<le> c" and "c \<le> 2 ^ 53"
    and "is_ok (final_digest lru (sc_scenario_id sc))" "is_ok (final_digest segmented (sc_scenario_id sc))"
      "is_ok (final_digest candidate (sc_scenario_id sc))"
  shows "\<exists>t'. tally_scenario lru segmented candidate t sc = Inr t' \<and> small_tally (n + c) (Suc k) t'"
proof -
  obtain ratio where "ratio_or (Fin 1) c (min l s) = Inr ratio"
    using ratio_or_ok [OF assms(5,6)] by (rule is_okE)
  moreover from this obtain q where "ratio = Fin q" using ratio_or_Fin by blast
  ultimately have r: "ratio_or (Fin 1) c (min l s) = Inr (Fin q)" by simp
  obtain v rel where o: "compare_scenario lru segmented candidate (sc_scenario_id sc) = Inr (v, Fin q, rel)"
    and v: "candidate_recomputed v = c"
    using assms(2-4) r by (auto simp: compare_scenario_def Let_def)
  obtain obs where obs: "observation lru segmented candidate sc v (Fin q) rel = Inr obs"
    using assms(7-9) by (auto simp: observation_def Let_def elim!: is_okE)
  have n: "0 \<le> n" "0 \<le> candidate_recomputed v" "n \<le> n + c"
    using assms(1,5) v by (simp_all add: small_tally_def)
  have all: "small_bucket (n + c) (add_to_bucket v (Fin q) rel (ta_all t))"
    using small_add [OF _ n(2), of n] assms(1) v by (simp add: small_tally_def)
  have up: "small_buckets (n + c) d" if "small_buckets n d" for d :: "(int, bucket) dict"
    using small_buckets_mono [OF that n(3)] .
  have bumped: "small_buckets (n + c) (bump k v (Fin q) rel d)" if "small_buckets n d" for k and d :: "(int, bucket) dict"
    using small_bump [OF that n(1,2)] v by simp
  show ?thesis
  proof (cases "scenario_seed (sc_scenario_id sc)")
    case None
    with assms(1) all up bumped n show ?thesis
      by (auto simp: tally_scenario_def o obs Let_def small_tally_def bump_wf add_to_bucket_def)
  next
    case (Some seed)
    with assms(1) all up bumped n show ?thesis
      by (cases "sc_capacity_blocks sc = max_default 0 CAPACITY_SWEEP")
        (auto simp: tally_scenario_def o obs Let_def small_tally_def bump_wf add_to_bucket_def)
  qed
qed

lemma nearest_rank_ok:
  assumes "\<forall>x \<in> set xs. \<exists>q. x = Fin q" and "length xs \<le> 2 ^ 53" and "0 \<le> p" and "p \<le> 1"
  shows "is_ok (nearest_rank xs (Fin p))"
proof (cases "xs = []")
  case False
  let ?n = "of_nat (length xs) :: rat"
  have le: "p * ?n \<le> ?n" and nn: "0 \<le> p * ?n" using assms(3,4) by (simp_all add: mult_left_le_one_le)
  have len: "?n \<le> 2 ^ 53" using assms(2) by (metis of_nat_le_iff of_nat_numeral of_nat_power)
  have abs: "\<bar>p * ?n\<bar> \<le> 2 ^ 53" using le nn len by linarith
  have "rnd ?n = ?n" using rnd_int [of "int (length xs)"] assms(2) len by simp
  then have "rnd (p * ?n) \<le> ?n" using dbl.R_le [OF le] by simp
  then have "\<lceil>rnd (p * ?n)\<rceil> \<le> int (length xs)" by (simp add: ceiling_le_iff)
  moreover have "0 < length xs" using False by simp
  ultimately have "0 \<le> max 0 (\<lceil>rnd (p * ?n)\<rceil> - 1)" "max 0 (\<lceil>rnd (p * ?n)\<rceil> - 1) < int (length xs)" by simp_all
  then show ?thesis
    using False abs by (simp add: nearest_rank_def fl_eq_Fin list_at_def sort_floats_def)
qed (simp add: nearest_rank_def)

lemma summarize_ok:
  assumes "\<forall>sc \<in> set scenarios. is_ok (metric sm_recomputed_blocks lru (sc_scenario_id sc)) \<and>
      is_ok (metric sm_recomputed_blocks segmented (sc_scenario_id sc)) \<and>
      metric sm_recomputed_blocks candidate (sc_scenario_id sc) = Inr (f sc) \<and> 0 \<le> f sc \<and>
      is_ok (final_digest lru (sc_scenario_id sc)) \<and> is_ok (final_digest segmented (sc_scenario_id sc)) \<and>
      is_ok (final_digest candidate (sc_scenario_id sc))"
    and "sum_list (map f scenarios) \<le> 2 ^ 53" and "length scenarios \<le> 2 ^ 53"
  shows "is_ok (summarize_policy_results scenarios lru segmented candidate)"
proof -
  have nonneg: "0 \<le> sum_list (map f xs)" if "set xs \<subseteq> set scenarios" for xs
    using that assms(1) by (intro sum_list_nonneg) auto
  have loop: "\<exists>t'. fold_res (tally_scenario lru segmented candidate) t rest = Inr t' \<and>
      small_tally (n + sum_list (map f rest)) (k + length rest) t'"
    if "small_tally n k t" and "set rest \<subseteq> set scenarios" and "n + sum_list (map f rest) \<le> 2 ^ 53" for n k t rest
    using that
  proof (induction rest arbitrary: n k t)
    case (Cons sc rest)
    then have sc: "sc \<in> set scenarios" "set rest \<subseteq> set scenarios" by auto
    then have "f sc \<le> 2 ^ 53" using Cons.prems(1,3) nonneg [of rest] by (simp add: small_tally_def)
    with sc(1) assms(1) Cons.prems(1) obtain t1 where
      "tally_scenario lru segmented candidate t sc = Inr t1" "small_tally (n + f sc) (Suc k) t1"
      by (meson is_okE tally_scenario_ok)
    with Cons.IH [of "n + f sc" "Suc k" t1] Cons.prems(3) sc(2) show ?case by (auto simp: ac_simps)
  qed simp
  have "small_tally 0 0 empty_tally"
    by (simp add: small_tally_def empty_tally_def small_bucket_def small_buckets_def new_bucket_def no_recompute_def)
  from loop [OF this order_refl] assms(2) obtain t where
    t: "fold_res (tally_scenario lru segmented candidate) empty_tally scenarios = Inr t"
    and s: "small_tally (sum_list (map f scenarios)) (length scenarios) t" by auto
  have a: "is_ok (ratio_or (Fin 1) (candidate_recomputed (bk_recomputed (ta_all t))) (strongest_recomputed (bk_recomputed (ta_all t))))"
    using s assms(2) by (intro ratio_or_ok) (auto simp: small_tally_def small_bucket_def)
  have "int (length scenarios) \<le> 2 ^ 53" using assms(3) by (metis of_nat_le_iff of_nat_numeral of_nat_power)
  then have b: "is_ok (ratio_or (Fin 0) (bk_improved (ta_all t)) (int (length scenarios)))"
    using s by (intro ratio_or_ok) (auto simp: small_tally_def)
  have c: "is_ok (finalize_buckets (ta_by_capacity t))" "is_ok (finalize_buckets (ta_by_seed t))"
    "is_ok (finalize_buckets (ta_by_hot_prefix t))" "is_ok (finalize_buckets (ta_high_capacity t))"
    using s assms(2) by (auto simp: small_tally_def intro: finalize_buckets_ok)
  from tally_loop [OF t] obtain vs where "length scenarios = length vs" "ta_all t = bucket_of vs"
    by (auto dest: list_all2_lengthD)
  then have "length (bk_ratios (ta_all t)) \<le> 2 ^ 53" using assms(3) by (simp add: bucket_of_simps)
  moreover have "0 \<le> rnd (95 / 100)" "rnd (95 / 100) \<le> (1 :: rat)"
    by (rule rnd_nonneg, simp) (rule dbl.R_le_1, simp)
  moreover have "fl (95 / 100) = Fin (rnd (95 / 100))" by (rule fl_eq_Fin) simp
  ultimately have d: "is_ok (nearest_rank (bk_ratios (ta_all t)) (fl (95 / 100)))"
    using nearest_rank_ok [of "bk_ratios (ta_all t)" "rnd (95 / 100)"] s by (simp add: small_tally_def)
  have e: "is_ok (if bk_ratios (ta_all t) \<noteq> [] then mean (bk_ratios (ta_all t)) else Inr (Fin 1))"
    by (simp add: mean_def)
  have g: "is_ok (if bk_ratios (ta_all t) \<noteq> [] then median (bk_ratios (ta_all t)) else Inr (Fin 1))"
    using median_ok by simp
  have bind: "is_ok (bind_res m h)" if "is_ok m" and "\<And>x. is_ok (h x)" for m :: "'x res" and h :: "'x \<Rightarrow> 'y res"
    using that by (auto elim!: is_okE)
  show ?thesis
    unfolding summarize_policy_results_def t bind_res_simps Let_def
    by (intro bind a b c d e g) simp
qed

end
