(* ===== verification/CacheTraceBundleProperties.thy ===== *)
theory CacheTraceBundleProperties
  imports CacheTraceBundleProofs PyJsonRoundtrip
begin

text \<open>
  What an external trace bundle that loads satisfies, that its evaluation returns, and what a passing
  observation of the protected evaluation says about the simulated blocks of its scenarios.
\<close>

section \<open>A bundle\<close>

definition sample_request :: "string \<Rightarrow> string \<Rightarrow> request_trace" where
  "sample_request rid key = \<lparr>rt_request_id = rid, rt_prompt_blocks = [key], rt_generated_blocks = 0,
     rt_priority = 1, rt_cancel_after_generated = None\<rparr>"

definition cyclic_scenario :: scenario where
  "cyclic_scenario = \<lparr>sc_scenario_id = ''cyclic'', sc_capacity_blocks = 4,
     sc_requests = [sample_request ''1'' ''a'', sample_request ''2'' ''b'', sample_request ''3'' ''c'',
       sample_request ''4'' ''a'', sample_request ''5'' ''b'', sample_request ''6'' ''c''],
     sc_purpose = ''external protected evaluation''\<rparr>"

definition request_payload :: "string \<Rightarrow> string \<Rightarrow> json" where
  "request_payload rid key = JObj [(''generated_blocks'', JInt 0), (''prompt_blocks'', JList [JStr key]),
     (''request_id'', JStr rid)]"

definition cyclic_payload :: json where
  "cyclic_payload = JObj [(''bundle_id'', JStr ''cycle''), (''scenarios'', JList [JObj
     [(''capacity_blocks'', JInt 4),
      (''requests'', JList [request_payload ''1'' ''a'', request_payload ''2'' ''b'', request_payload ''3'' ''c'',
         request_payload ''4'' ''a'', request_payload ''5'' ''b'', request_payload ''6'' ''c'']),
      (''scenario_id'', JStr ''cyclic'')]]), (''schema_version'', JStr ''0.1'')]"

definition cyclic_bundle :: trace_bundle where
  "cyclic_bundle = \<lparr>tb_bundle_id = ''cycle'', tb_input_digest = ''sha256:'' @ sha256 (json_dumps cyclic_payload),
     tb_scenarios = [cyclic_scenario]\<rparr>"

lemma one_digit: "k < 10 \<Longrightarrow> k < digit_bound 4300"
proof -
  assume "k < 10"
  moreover have "(10 :: int) ^ 1 \<le> digit_bound 4300" unfolding digit_bound_def by (rule power_increasing) simp_all
  ultimately show ?thesis by simp
qed

lemma request_payload_canon: "json_ok (request_payload rid key)" "canon (request_payload rid key) = request_payload rid key"
  by (simp_all add: request_payload_def less_eq_char_def less_char_def one_digit)

lemma cyclic_decodes: "decode_bundle (json_dumps cyclic_payload) = Inr cyclic_payload"
proof -
  have "json_ok cyclic_payload" by (simp add: cyclic_payload_def request_payload_canon one_digit)
  moreover have "canon cyclic_payload = cyclic_payload"
    by (simp add: cyclic_payload_def request_payload_canon less_eq_char_def less_char_def)
  ultimately show ?thesis using loads_bytes_dumps [of cyclic_payload] by (simp add: decode_bundle_def del: json_dumps.simps)
qed

lemma request_loads:
  "rid \<notin> seen \<Longrightarrow> rid \<noteq> [] \<Longrightarrow> load_request sid (seen, requests) (request_payload rid key) =
     Inr (insert rid seen, requests @ [sample_request rid key])"
  by (simp add: load_request_def request_payload_def require_mapping_def assert_str_def require_list_def assert_int_def
      get_default_def assert_opt_int_def RequestTrace_def sample_request_def guard_res_def)

lemma cyclic_loads: "load_trace_bundle (\<lambda>_. None) (json_dumps cyclic_payload) = Inr cyclic_bundle"
  by (simp add: load_trace_bundle_def cyclic_decodes validate_schema_def del: json_dumps.simps)
    (simp add: cyclic_payload_def cyclic_bundle_def require_mapping_def require_list_def assert_str_def assert_int_def
      guard_res_def load_scenario_def request_loads MAX_SCENARIOS_def MAX_REQUESTS_def get_default_def
      cyclic_scenario_def del: json_dumps.simps)

lemma cyclic_fits: "scenario_fits cyclic_scenario" "scenario_accesses cyclic_scenario = 12"
  by code_simp+

section \<open>Loading\<close>

text \<open>
  C12: whatever the validator of the schema accepts, a bundle that loads has at most 256 scenarios and
  10000 requests in all, no two scenarios of one name and no two requests of one name in a scenario;
  every request has a name, a prompt, non-negative counts and a cancellation inside what it
  generates; and the bundle carries the SHA-256 of exactly the bytes that were read.
\<close>

theorem loaded_bundle_sound:
  assumes "load_trace_bundle schema_error raw = Inr b"
  shows "distinct (map sc_scenario_id (tb_scenarios b)) \<and> length (tb_scenarios b) \<le> 256 \<and>
    sum_list (map (length \<circ> sc_requests) (tb_scenarios b)) \<le> 10000 \<and>
    (\<forall>sc \<in> set (tb_scenarios b). distinct (map rt_request_id (sc_requests sc)) \<and>
       (\<forall>request \<in> set (sc_requests sc). rt_request_id request \<noteq> [] \<and> rt_prompt_blocks request \<noteq> [] \<and>
          0 \<le> rt_generated_blocks request \<and> 0 \<le> rt_priority request \<and>
          (\<forall>c. rt_cancel_after_generated request = Some c \<longrightarrow> 0 \<le> c \<and> c \<le> rt_generated_blocks request))) \<and>
    tb_input_digest b = ''sha256:'' @ sha256 raw"
  using load_bundle_ok [OF assms]
  by (auto simp: bundle_ok_def scenario_ok_def request_ok_def list_all_iff)

theorem loaded_bundle_sound_witness:
  "\<exists>b. load_trace_bundle (\<lambda>_. None) (json_dumps cyclic_payload) = Inr b \<and> length (tb_scenarios b) = 1 \<and>
     distinct (map sc_scenario_id (tb_scenarios b))"
  using loaded_bundle_sound [OF cyclic_loads] cyclic_loads by (auto simp: cyclic_bundle_def)

section \<open>Evaluation\<close>

lemma bundle_sums:
  assumes "load_trace_bundle schema_error raw = Inr b"
  shows "distinct (map sc_scenario_id (tb_scenarios b))" and "length (tb_scenarios b) \<le> 256"
  using load_bundle_ok [OF assms] by (simp_all add: bundle_ok_def)

lemma evaluation_total:
  assumes "distinct (map sc_scenario_id scenarios)" and "length scenarios \<le> 256" and "list_all scenario_fits scenarios"
    and "sum_list (map scenario_accesses scenarios) \<le> 2 ^ 53"
  shows "\<exists>lru segmented candidate s. evaluate_policy ReferenceLRU scenarios = Inr lru \<and>
    evaluate_policy SegmentedLRU scenarios = Inr segmented \<and> evaluate_policy pol scenarios = Inr candidate \<and>
    summarize_policy_results scenarios lru segmented candidate = Inr s"
proof -
  from evaluate_total [OF assms(3,4)] obtain lru segmented candidate where
    e: "evaluate_policy ReferenceLRU scenarios = Inr lru" "evaluate_policy SegmentedLRU scenarios = Inr segmented"
      "evaluate_policy pol scenarios = Inr candidate"
    by (meson is_okE)
  have fits: "0 \<le> recomputed_by pol sc" "recomputed_by pol sc \<le> scenario_accesses sc" for sc
    using recomputed_bounds by auto
  have "sum_list (map (recomputed_by pol) scenarios) \<le> 2 ^ 53"
    using sum_list_mono [OF fits(2)] assms(4) by (rule order_trans)
  moreover have "length scenarios \<le> 2 ^ 53" using assms(2) by (rule order_trans) simp
  ultimately have "is_ok (summarize_policy_results scenarios lru segmented candidate)"
    using evaluated_blocks [OF e(1) assms(1)] evaluated_blocks [OF e(2) assms(1)] evaluated_blocks [OF e(3) assms(1)] fits
    by (intro summarize_ok [of _ _ _ _ "recomputed_by pol"]) auto
  with e show ?thesis by (auto elim: is_okE)
qed

text \<open>
  C11: the protected evaluation of a loaded bundle returns, for any candidate: when every request fits
  its scenario's capacity and the accesses of all scenarios stay below 2 to the 53, nothing raises,
  no ratio overflows and no scenario is missing from the summary.
\<close>

theorem protected_evaluation_returns:
  assumes "load_trace_bundle schema_error raw = Inr b" and "list_all scenario_fits (tb_scenarios b)"
    and "sum_list (map scenario_accesses (tb_scenarios b)) \<le> 2 ^ 53"
  shows "\<exists>r. evaluate_trace_bundle files b pol = Inr r \<and> pe_scenario_count r = int (length (tb_scenarios b)) \<and>
    \<not> pe_promotion_authorized r"
  using evaluation_total [OF bundle_sums [OF assms(1)] assms(2,3), of pol]
  by (auto simp: evaluate_trace_bundle_def Let_def)

theorem protected_evaluation_returns_witness:
  "\<exists>r. evaluate_trace_bundle (\<lambda>_. []) cyclic_bundle GeneratedEvictionPolicy = Inr r \<and> pe_scenario_count r = 1"
  using protected_evaluation_returns [OF cyclic_loads, of "\<lambda>_. []" GeneratedEvictionPolicy]
  by (auto simp: cyclic_bundle_def cyclic_fits)

section \<open>What a passing observation says\<close>

text \<open>The better of the two baselines on a scenario, by running both.\<close>

definition strongest_by :: "scenario \<Rightarrow> int" where
  "strongest_by sc = min (recomputed_by ReferenceLRU sc) (recomputed_by SegmentedLRU sc)"

lemma rnd_three_quarters: "rnd (3 / 4) = 3 / 4"
  by code_simp

lemma empty_fails:
  assumes "summarize_policy_results [] lru segmented candidate = Inr s"
  shows "\<not> es_status s"
proof -
  note rnd_three_quarters
  then have "\<not> IMPROVED_SCENARIO_FRACTION_MIN \<le> Fin 0"
    by (simp add: IMPROVED_SCENARIO_FRACTION_MIN_def fl_eq_Fin)
  moreover from assms have "(''improved_scenario_fraction_at_least_0_75'', IMPROVED_SCENARIO_FRACTION_MIN \<le> Fin 0) \<in> set (es_gates s)"
    "es_status s = all_gates (es_gates s)"
    unfolding summarize_policy_results_def Let_def
    by (auto simp: bind_res_eq_Inr ratio_or_def epoch2_gates_def)
  ultimately show ?thesis by (force simp: all_gates_def list_all_iff)
qed

text \<open>
  C10: a protected evaluation that observes PASS on a loaded bundle, with at most 2 to the 30 accesses per
  scenario, has measured this by simulation: over all scenarios the candidate recomputes at most 0.98
  of the blocks the better of the two baselines recomputes on each; it is strictly better on at least
  three quarters of them and nowhere more than 1.06 times worse.  Each scenario counts exactly once,
  and a pass neither promotes the candidate nor claims a formal status.
\<close>

theorem protected_pass_guarantees:
  assumes "load_trace_bundle schema_error raw = Inr b" and "evaluate_trace_bundle files b pol = Inr r"
    and "pe_observed_gate_result r" and "list_all (\<lambda>sc. scenario_accesses sc \<le> 2 ^ 30) (tb_scenarios b)"
  shows "50 * sum_list (map (recomputed_by pol) (tb_scenarios b)) \<le> 49 * sum_list (map strongest_by (tb_scenarios b)) \<and>
    3 * int (length (tb_scenarios b)) \<le>
      4 * int (length (filter (\<lambda>sc. recomputed_by pol sc < strongest_by sc) (tb_scenarios b))) \<and>
    (\<forall>sc \<in> set (tb_scenarios b). strongest_by sc = 0 \<or> 50 * recomputed_by pol sc \<le> 53 * strongest_by sc) \<and>
    \<not> pe_promotion_authorized r \<and> pe_formal_mncs_status r = ''UNKNOWN'' \<and> pe_formal_mncds_status r = ''UNKNOWN''"
proof -
  let ?scs = "tb_scenarios b"
  from assms(2) obtain lru segmented candidate s where
    e: "evaluate_policy ReferenceLRU ?scs = Inr lru" "evaluate_policy SegmentedLRU ?scs = Inr segmented"
      "evaluate_policy pol ?scs = Inr candidate" "summarize_policy_results ?scs lru segmented candidate = Inr s"
    and r: "pe_observed_gate_result r = es_status s" "\<not> pe_promotion_authorized r"
      "pe_formal_mncs_status r = ''UNKNOWN''" "pe_formal_mncds_status r = ''UNKNOWN''"
    unfolding evaluate_trace_bundle_def Let_def by (elim bind_resE) auto
  note d = bundle_sums(1) [OF assms(1)]
  have c: "blocks_of candidate sc = recomputed_by pol sc"
    and m: "strongest_of lru segmented sc = strongest_by sc" if "sc \<in> set ?scs" for sc
    using evaluated_blocks(2) [OF e(1) d that] evaluated_blocks(2) [OF e(2) d that] evaluated_blocks(2) [OF e(3) d that]
    by (simp_all add: strongest_of_def strongest_by_def)
  have "0 \<le> strongest_by sc" "strongest_by sc \<le> scenario_accesses sc" for sc
    using recomputed_bounds [of ReferenceLRU sc] recomputed_bounds [of SegmentedLRU sc]
    by (auto simp: strongest_by_def)
  then have range: "in_range ?scs lru segmented"
    using m assms(4) bundle_sums(2) [OF assms(1)] order_trans by (fastforce simp: in_range_def list_all_iff)
  have "?scs \<noteq> []" using e(4) assms(3) r(1) empty_fails by auto
  from epoch2_pass [OF e(4) _ range this] assms(3) r show ?thesis
    by (simp add: c m cong: map_cong filter_cong)
qed

lemma cyclic_blocks:
  "recomputed_by ReferenceLRU cyclic_scenario = 12" "recomputed_by SegmentedLRU cyclic_scenario = 12"
  "recomputed_by GeneratedEvictionPolicy cyclic_scenario = 9"
  by code_simp+

lemma cyclic_passes:
  "\<exists>r. evaluate_trace_bundle (\<lambda>_. []) cyclic_bundle GeneratedEvictionPolicy = Inr r \<and> pe_observed_gate_result r"
proof -
  have scs: "tb_scenarios cyclic_bundle = [cyclic_scenario]" by (simp add: cyclic_bundle_def)
  have "distinct (map sc_scenario_id [cyclic_scenario])" by simp
  from evaluation_total [OF this, of GeneratedEvictionPolicy] obtain lru segmented candidate s where
    e: "evaluate_policy ReferenceLRU [cyclic_scenario] = Inr lru"
      "evaluate_policy SegmentedLRU [cyclic_scenario] = Inr segmented"
      "evaluate_policy GeneratedEvictionPolicy [cyclic_scenario] = Inr candidate"
    and s: "summarize_policy_results [cyclic_scenario] lru segmented candidate = Inr s"
    by (auto simp: cyclic_fits)
  have d: "distinct (map sc_scenario_id [cyclic_scenario])" and i: "cyclic_scenario \<in> set [cyclic_scenario]" by simp_all
  note blocks = evaluated_blocks(1) [OF e(1) d i] evaluated_blocks(1) [OF e(2) d i] evaluated_blocks(1) [OF e(3) d i]
  note digests = evaluated_blocks(3) [OF e(1) d i] evaluated_blocks(3) [OF e(2) d i] evaluated_blocks(3) [OF e(3) d i]
  note clean = evaluate_contracted [OF e(3) generated.eviction_policy_axioms]
  have ratio: "int_div 9 12 = Inr (Fin (3 / 4))" "rnd (3 / 4) = 3 / 4"
    using int_div_total [of 12 9] rnd_three_quarters by simp_all
  have gates: "rnd (19 / 20) = 4278419646001971 / 4503599627370496"
    "rnd (49 / 50) = 2206763817411543 / 2251799813685248"
    "rnd (53 / 50) = 2386907802506363 / 2251799813685248" "rnd (21 / 20) = 4728779608739021 / 4503599627370496"
    "rnd (4278419646001971 / 4503599627370496) = 4278419646001971 / 4503599627370496"
    by code_simp+
  have one: "int_div 1 1 = Inr (Fin 1)" using int_div_total [of 1 1] by (simp add: dbl.R_1)
  have rank: "nearest_rank [Fin (3 / 4)] (Fin (4278419646001971 / 4503599627370496)) = Inr (Fin (3 / 4))"
  proof -
    have "\<lceil>4278419646001971 / 4503599627370496 :: rat\<rceil> = 1" by (rule ceiling_unique) simp_all
    then show ?thesis by (simp add: nearest_rank_def fl_eq_Fin gates sort_floats_def list_at_def)
  qed
  have "\<exists>obs. observation lru segmented candidate cyclic_scenario v ratio rel = Inr obs" for v ratio rel
    using digests by (auto simp: observation_def Let_def elim!: is_okE)
  then obtain obs where obs: "\<And>v ratio rel. observation lru segmented candidate cyclic_scenario v ratio rel = Inr (obs v ratio rel)"
    by metis
  have seed: "scenario_seed (sc_scenario_id cyclic_scenario) = None"
    by (simp add: cyclic_scenario_def scenario_seed_def)
  have "es_status s"
    using s clean
    by (auto simp: summarize_policy_results_def tally_scenario_def empty_tally_def compare_scenario_def
        blocks cyclic_blocks obs seed Let_def ratio one ratio_or_def new_bucket_def no_recompute_def add_to_bucket_def
        add_recompute_def bump_def finalize_buckets_def finalize_bucket_def median_def mean_def rank sort_floats_def
        epoch2_gates_def AGGREGATE_RATIO_MAX_def MEDIAN_RATIO_MAX_def P95_RATIO_MAX_def
        WORST_RATIO_MAX_def IMPROVED_SCENARIO_FRACTION_MIN_def fl_eq_Fin gates all_gates_def
        simp del: json_dumps.simps)
  with e s show ?thesis by (simp add: evaluate_trace_bundle_def scs)
qed

theorem protected_pass_guarantees_witness:
  "\<exists>r. evaluate_trace_bundle (\<lambda>_. []) cyclic_bundle GeneratedEvictionPolicy = Inr r \<and> pe_observed_gate_result r \<and>
     50 * recomputed_by GeneratedEvictionPolicy cyclic_scenario \<le> 49 * strongest_by cyclic_scenario"
proof -
  obtain r where r: "evaluate_trace_bundle (\<lambda>_. []) cyclic_bundle GeneratedEvictionPolicy = Inr r"
    "pe_observed_gate_result r" using cyclic_passes by blast
  have "list_all (\<lambda>sc. scenario_accesses sc \<le> 2 ^ 30) (tb_scenarios cyclic_bundle)"
    by (simp add: cyclic_bundle_def cyclic_fits)
  from protected_pass_guarantees [OF cyclic_loads r this] r show ?thesis
    by (auto simp: cyclic_bundle_def)
qed

end
