(* ===== verification/Spec2Isabelle.thy ===== *)
theory Spec2Isabelle
  imports CacheProperties CacheEpoch2Properties WaterStudy WaterProperties RavelProperties RavelEvidenceProperties RavelManifestProperties
    ExperienceProperties
    ArchitectureProperties IntegrationProperties GatewayProperties CacheTraceBundleProperties
begin

text \<open>
  A verification library for the Python programs of the reference studies.

  The repository is a collection of case studies.  In each, a small readable kernel written by hand
  supervises a machine-made part (an eviction table, a pump planner, a trained model, a generated
  plan), and study tools measure the pair, render evidence as JSON with SHA-256 digests, and judge it
  by gates fixed in advance.  What has to be right is therefore of four kinds: the kernel whatever the
  machine-made part proposes; recovery from checkpoints; the gates, computed in floating point, and
  what a verdict PASS entails; and the validators, which must refuse what they claim to refuse.

  \<^bold>\<open>Python.\<close>  A function that may raise returns \<open>py_error + 'a\<close> (\<^verbatim>\<open>Prelude\<close>); a dictionary is an
  association list in insertion order; a class is a record and a method returns the new record.
  \<^item> \<^verbatim>\<open>PyFloat\<close>, \<^verbatim>\<open>PyFloatText\<close>: binary64 as exact rationals and one rounding per operation; the locale
    \<open>rounding\<close> holds its laws, interpreted as \<open>dbl\<close>; the shortest text of a float reads back.
  \<^item> \<^verbatim>\<open>PyJson\<close>, \<^verbatim>\<open>PyJsonParse\<close>, \<^verbatim>\<open>PyJsonRoundtrip\<close>, \<^verbatim>\<open>PyCollections\<close>: JSON values with Python's dynamic
    equality and truth, the canonical serialisation, the parser, and the round trip between them.
  \<^item> \<^verbatim>\<open>PyRandom\<close>, \<^verbatim>\<open>PyStats\<close>, \<^verbatim>\<open>Sha256\<close>: the Mersenne Twister and its draws, \<open>sqrt\<close>, \<open>fmean\<close> and
    \<open>pstdev\<close>, and SHA-256 on 32-bit words.

  \<^bold>\<open>CacheForge\<close> (\<^verbatim>\<open>case-studies/cacheforge\<close>): a prefix cache for requests.  \<^verbatim>\<open>CacheModel\<close> is \<^verbatim>\<open>model.py\<close>,
  \<^verbatim>\<open>CachePolicies\<close> is \<^verbatim>\<open>policies.py\<close> with the machine's \<^verbatim>\<open>generated_policy.py\<close>, \<^verbatim>\<open>CacheAuthority\<close> is
  \<^verbatim>\<open>authority.py\<close>, \<^verbatim>\<open>CacheSimulator\<close> is \<^verbatim>\<open>simulator.py\<close>, \<^verbatim>\<open>CacheScenarios\<close> and \<^verbatim>\<open>CacheStudy\<close> are the
  development study, \<^verbatim>\<open>CacheEpoch2\<close> is \<^verbatim>\<open>epoch2.py\<close>, \<^verbatim>\<open>CacheTraceBundle\<close> is \<^verbatim>\<open>trace_bundle.py\<close> with
  \<^verbatim>\<open>identities.py\<close>.  A simulator's state is \<open>sim_state\<close> (the blocks by identifier, the clock), its
  settings and its counters; \<open>process\<close> is one request, \<open>run_requests\<close> a trace.
  \<^item> Interfaces: \<open>eviction_policy\<close> (what the authority relies on in the fallback), \<open>ranked_policy\<close> (a
    policy that evicts by rank), interpreted by the four policies; \<open>sim_invariant\<close> (what every step of a
    simulator must keep for a run to keep it), interpreted for the books, the trust, the order of the
    blocks, the settings and the rejections.
  \<^item> \<^verbatim>\<open>CacheInvariants\<close>, \<^verbatim>\<open>CacheOwnership\<close>: the consistency of the cache, and the abstract state of
    owner marks that a request acts on.  \<^verbatim>\<open>CacheWork\<close>, \<^verbatim>\<open>CacheLiveness\<close>: how much a request does, and that
    a cache large enough never raises.  \<^verbatim>\<open>CacheAccounting\<close>, \<^verbatim>\<open>CacheRecovery\<close>: the books, and checkpoint
    and restore.  \<^verbatim>\<open>CacheStudyProofs\<close>, \<^verbatim>\<open>CacheEpoch2Proofs\<close>, \<^verbatim>\<open>CacheTraceBundleProofs\<close>: the gates as exact
    inequalities, and that the evaluations return.
  \<^item> The properties are in \<^verbatim>\<open>CacheProperties\<close>, \<^verbatim>\<open>CacheEpoch2Properties\<close>, \<^verbatim>\<open>CacheTraceBundleProperties\<close>.

  \<^bold>\<open>Remote water control\<close> (\<^verbatim>\<open>case-studies/remote-water-control\<close>): a controller of two pumps.
  \<^verbatim>\<open>WaterModel\<close>, \<^verbatim>\<open>WaterSafety\<close>, \<^verbatim>\<open>WaterPlanner\<close>, \<^verbatim>\<open>WaterJournal\<close>, \<^verbatim>\<open>WaterCheckpoint\<close>, \<^verbatim>\<open>WaterController\<close>,
  \<^verbatim>\<open>WaterSimulator\<close>, \<^verbatim>\<open>WaterScenarios\<close> and \<^verbatim>\<open>WaterStudy\<close> are the modules of the same names
  (\<^verbatim>\<open>WaterPlanner\<close> also \<^verbatim>\<open>machine/generated_planner.py\<close>).  \<open>decide\<close> runs planner, safety kernel and dwell
  times, appends to the hash-chained journal and counts; \<open>run_scenario\<close> closes the loop with the plant.
  \<^item> The interface \<open>water_planner\<close> is the protocol of a planner, interpreted by the readable baseline
    and the generated table.  The reachable controllers are the inductive relation \<open>reaches\<close>.
  \<^item> \<^verbatim>\<open>WaterControllerProofs\<close>: invariants by rule induction.  \<^verbatim>\<open>WaterRuns\<close>, \<^verbatim>\<open>WaterSuite\<close>: the invariant of
    the scenario loop, and that every scenario, drawn ones included, is well formed.  \<^verbatim>\<open>WaterRestart\<close>: a
    restored controller is a twin of the saved one.  The properties are in \<^verbatim>\<open>WaterProperties\<close>.

  \<^bold>\<open>EdgeStream and water control\<close> (\<^verbatim>\<open>case-studies/edgestream-remote-water-integration/tools/run_study.py\<close>):
  \<^verbatim>\<open>IntegrationStudy\<close>, \<^verbatim>\<open>IntegrationProofs\<close>, \<^verbatim>\<open>IntegrationProperties\<close>.  Samples travel as frames with a
  CRC-32, the compiled EdgeStream decodes them, an adapter joins four records to a sample.  The property
  at the end of this theory spans the adapter and the safety kernel.

  \<^bold>\<open>RAVEL 0.5\<close> (\<^verbatim>\<open>case-studies/ravel/tools\<close>).  The evaluator, \<^verbatim>\<open>ravel_0_5_evaluator.py\<close>: \<^verbatim>\<open>RavelBase\<close>
  (elementary checks, seed derivations), \<^verbatim>\<open>RavelRecords\<close>, \<^verbatim>\<open>RavelPrereg\<close>, \<^verbatim>\<open>RavelTrial\<close>,
  \<^verbatim>\<open>RavelMetrics\<close>, \<^verbatim>\<open>RavelEvaluate\<close>; \<^verbatim>\<open>RavelSeeds\<close> shows the derived seeds distinct, \<^verbatim>\<open>RavelProofs\<close> what
  each validator accepts, \<^verbatim>\<open>RavelDemo\<close> is an input that evaluates, \<^verbatim>\<open>RavelProperties\<close> the properties.
  The evidence, \<^verbatim>\<open>ravel_0_5_evidence.py\<close>: \<^verbatim>\<open>RavelEvidence\<close>, \<^verbatim>\<open>RavelEvidenceProofs\<close>,
  \<^verbatim>\<open>RavelEvidenceProperties\<close>.  The source manifest, \<^verbatim>\<open>ravel_0_5_source_digest.py\<close>, with the mutation
  tests on it: \<^verbatim>\<open>RavelManifest\<close>, \<^verbatim>\<open>RavelManifestProofs\<close>, \<^verbatim>\<open>RavelManifestProperties\<close>.

  \<^bold>\<open>Composed gateway, wave five\<close> (\<^verbatim>\<open>bundle-src/evaluator.py\<close>): \<^verbatim>\<open>GatewayEvaluator\<close>, \<^verbatim>\<open>GatewayProperties\<close>.
  \<^bold>\<open>Recursive experience substrate\<close> (\<^verbatim>\<open>validate_substrate.py\<close>): \<^verbatim>\<open>ExperienceProfile\<close>,
  \<^verbatim>\<open>ExperienceRecords\<close>, \<^verbatim>\<open>ExperienceProofs\<close>, \<^verbatim>\<open>ExperienceProperties\<close>.  \<^bold>\<open>Architecture comparison\<close>
  (\<^verbatim>\<open>validate_study.py\<close>): \<^verbatim>\<open>ArchitectureStudy\<close>, \<^verbatim>\<open>ArchitectureProofs\<close>, \<^verbatim>\<open>ArchitectureProperties\<close>.  The last two
  are validators; their properties say what an accepted file satisfies and that every negative fixture
  of their regression tests is refused, with the committed files as witnesses.

  \<^bold>\<open>Bounds and fuel.\<close>  The JSON parser has fuel of the length of its text plus one, and every call on the
  way consumes a character, so it never runs out; \<^verbatim>\<open>PyJsonRoundtrip\<close> shows what it returns.  The
  rejection sampling of \<open>_randbelow\<close> is a \<open>partial_function\<close>: None is the run that does not end.  All
  other loops are total functions.  Integers are unbounded as in Python, except where the source masks
  them: seeds, SHA-256, CRC-32 and the twister are words.  Integers in JSON text obey Python's limit
  of 4300 digits.  SHA-256 is computed, and no property of it is assumed: where a digest protects
  something, the theorem ends in an explicit collision (\<open>sha256_collision\<close>) as its only exception.

  \<^bold>\<open>Parameters.\<close>  Code outside the repository, or in another language, is an argument: the EdgeStream
  program, JSON Schema validation, the files whose digests are reported, the meaning of a glob pattern,
  the source of random words where a property holds for any.

  \<^bold>\<open>Not modelled.\<close>  Command lines, printing, reading and writing of files, and processes; text beyond code
  point 255; messages of syntax errors; the recursion limit; the sign of a zero; which of several errors is
  reported first where the source walks a set.  The tools of the other studies (EdgeStream, desk pet, multilingual
  streams, RAVEL 0.4 and 0.6, gateway waves three and four and the packing of wave five, the Forge
  and language providers, the repository validators) compile and run programs or compare files with
  recorded digests, and keep no state of their own.
\<close>

section \<open>From EdgeStream records to pump commands\<close>

text \<open>The command for a level, a demand, a power code and a quality code.\<close>

definition obeys_values :: "controller \<Rightarrow> authorized_intent \<Rightarrow> int \<Rightarrow> int \<Rightarrow> int \<Rightarrow> int \<Rightarrow> bool" where
  "obeys_values c intent l d p q \<longleftrightarrow>
      (q \<noteq> 0 \<or> \<not> in_milli_range l d \<longrightarrow>
        ai_duty_on intent = cst_duty_on (ct_state c) \<and> ai_standby_on intent = cst_standby_on (ct_state c)) \<and>
      (q = 0 \<and> in_milli_range l d \<and> (p = 0 \<or> 90000 \<le> l) \<longrightarrow>
        \<not> ai_duty_on intent \<and> \<not> ai_standby_on intent \<and> ai_mode intent = EMERGENCY) \<and>
      (q = 0 \<and> in_milli_range l d \<and> p = 1 \<and> l \<le> 15000 \<longrightarrow>
        ai_duty_on intent \<and> ai_standby_on intent)"

text \<open>
  C15: whatever records EdgeStream reports for its device, each sample the adapter makes of them comes
  from four reported values of one time, and the command the water controller authorises on it obeys
  them exactly: on a quality code other than 0 or a level or demand out of range the pumps stay as
  they are; otherwise both stop when the power code is 0 or the level is at least 90000 thousandths,
  and both run when the level is at most 15000 thousandths.
\<close>

theorem edge_records_control_pumps:
  assumes "adapt (EdgeStreamTelemetryAdapter device) recs = Inr (samples, a)" and "s \<in> set samples"
    and "decide c s now_s = Inr (intent, c')" and "ct_config c = SystemConfig"
  shows "\<exists>t l d p q. reported device recs t 0 l \<and> reported device recs t 1 d \<and>
    reported device recs t 2 p \<and> reported device recs t 3 q \<and>
    (\<bar>l\<bar> \<le> 2 ^ 53 \<and> \<bar>d\<bar> \<le> 2 ^ 53 \<longrightarrow> obeys_values c intent l d p q)"
proof -
  from adapt_grounded [OF assms(1) new_adapter_grounded order_refl] assms(2)
  have "grounded_sample device recs s" by blast
  then obtain t l d p q where r: "reported device recs t 0 l" "reported device recs t 1 d"
      "reported device recs t 2 p" "reported device recs t 3 q"
    and s: "received_at_s s = observed_at_s s" "from_milli l = Inr (tank_level_pct s)"
      "from_milli d = Inr (demand_lps s)" "power_available s \<longleftrightarrow> p = 1" "q = quality_value (sample_quality s)"
    and p: "p \<in> {0, 1}"
    unfolding grounded_sample_def by auto
  have good: "sample_quality s = GOOD \<longleftrightarrow> q = 0" using s(5) by (cases "sample_quality s") (auto simp: quality_value_def)
  show ?thesis
  proof (intro exI conjI, (rule r)+, intro impI, elim conjE)
    assume l: "\<bar>l\<bar> \<le> 2 ^ 53" and d: "\<bar>d\<bar> \<le> 2 ^ 53"
    have trust: "trustworthy (ct_config c) s \<longleftrightarrow> in_milli_range l d \<and> q = 0"
      using sample_trustworthy [OF s(2,3) l d s(1), of "ct_config c"] good assms(4) by (simp add: SystemConfig_def)
    have level: "tank_level_pct s = Fin (rnd (of_int l / 1000))" using from_milli_value [OF l] s(2) by simp
    have high: "90000 \<le> l \<Longrightarrow> high_high_pct (ct_config c) \<le> tank_level_pct s"
      using rnd_milli_ge [of 90 l] assms(4) by (simp add: SystemConfig_def level)
    have low: "l \<le> 15000 \<Longrightarrow> tank_level_pct s \<le> low_low_pct (ct_config c)"
      and not_high: "l \<le> 15000 \<Longrightarrow> \<not> high_high_pct (ct_config c) \<le> tank_level_pct s"
      using rnd_milli_le [of l 15] assms(4) by (simp_all add: SystemConfig_def level)
    note interlocks = decide_interlocks [OF assms(3)]
    show "obeys_values c intent l d p q"
      unfolding obeys_values_def using interlocks trust high low not_high s(4) by auto
  qed
qed

text \<open>A high level, reported in four records.\<close>

definition high_level_records :: "obj list" where
  "high_level_records = map event_object
     [(7, 1, 60000, 0, 95000), (7, 2, 60000, 1, 3000), (7, 3, 60000, 2, 1), (7, 4, 60000, 3, 0)]"

theorem edge_records_control_pumps_witness:
  "\<exists>samples a s intent c'. adapt (EdgeStreamTelemetryAdapter 7) high_level_records = Inr (samples, a) \<and>
     s \<in> set samples \<and> decide fresh_controller s 60 = Inr (intent, c') \<and> \<not> ai_duty_on intent"
proof -
  have milli: "from_milli 95000 = Inr (Fin 95)" "from_milli 3000 = Inr (Fin 3)"
    using milli_int(2) [of 95] milli_int(2) [of 3] by simp_all
  let ?s = "\<lparr>observed_at_s = 60, received_at_s = 60, tank_level_pct = Fin 95, demand_lps = Fin 3,
    power_available = True, sample_quality = GOOD\<rparr>"
  have readings: "is_reading (event_object r) r" for r by (cases r) (simp add: is_reading_def event_object_def)
  have "encoded_values ?s = Inr [95000, 3000, 1, 0]" and "restorable ?s"
    using milli_int(1) [of 95] milli_int(1) [of 3] milli
    by (simp_all add: encoded_values_def restorable_def quality_value_def)
  moreover have "idle (EdgeStreamTelemetryAdapter 7) 0" by (simp add: idle_def EdgeStreamTelemetryAdapter_def)
  ultimately obtain a where a: "adapt (EdgeStreamTelemetryAdapter 7) high_level_records = Inr ([?s], a)"
    using adapt_sample [of "EdgeStreamTelemetryAdapter 7" 0 ?s 95000 3000 1 0
      "event_object (7, 1, 60000, 0, 95000)" "event_object (7, 2, 60000, 1, 3000)"
      "event_object (7, 3, 60000, 2, 1)" "event_object (7, 4, 60000, 3, 0)"] readings
    by (auto simp: high_level_records_def simp del: adapt.simps)
  obtain intent c' where d: "decide fresh_controller ?s 60 = Inr (intent, c')" using fresh_decides by blast
  have stated: "reported 7 high_level_records t 0 v \<Longrightarrow> v = 95000" "reported 7 high_level_records t 1 v \<Longrightarrow> v = 3000"
    "reported 7 high_level_records t 2 v \<Longrightarrow> v = 1" "reported 7 high_level_records t 3 v \<Longrightarrow> v = 0" for t v
    by (auto simp: reported_def high_level_records_def event_object_def is_text_def)
  have "?s \<in> set [?s]" "ct_config fresh_controller = SystemConfig" by simp_all
  from edge_records_control_pumps [OF a this(1) d this(2)] obtain t l e p q where
    r: "reported 7 high_level_records t 0 l" "reported 7 high_level_records t 1 e"
      "reported 7 high_level_records t 3 q"
    and "\<bar>l\<bar> \<le> 2 ^ 53 \<and> \<bar>e\<bar> \<le> 2 ^ 53 \<longrightarrow> obeys_values fresh_controller intent l e p q"
    by blast
  then have "obeys_values fresh_controller intent 95000 3000 p 0"
    unfolding stated(1) [OF r(1)] stated(2) [OF r(2)] stated(4) [OF r(3)] by simp
  then have "\<not> ai_duty_on intent" by (simp add: obeys_values_def in_milli_range_def)
  with a d show ?thesis by auto
qed

end
